(* ===== verification/Prelude.thy ===== *)
theory Prelude
  imports Main
begin

text \<open>
  Shared vocabulary of the development.

  \<^item> Go errors are values: a sentinel (compared with \<^verbatim>\<open>errors.Is\<close>), a plain message
    (\<^verbatim>\<open>errors.New\<close>), a wrapped error (\<^verbatim>\<open>fmt.Errorf("...%w")\<close>) or a failed SQL constraint.
    Message texts are kept without their formatted arguments.
  \<^item> A function returning \<^verbatim>\<open>error\<close> returns an option, a function returning a value and an error
    returns a sum.
  \<^item> A table is a list of rows; SELECT, UPDATE and DELETE are \<open>sel1\<close>, \<open>upd\<close> and \<open>filter\<close>.
  \<^item> A transaction body is a state-passing function that may fail; \<open>withImmediateTransaction\<close>
    commits or rolls back.
\<close>

named_theorems go_defs \<open>unfolding of result and transaction combinators\<close>
named_theorems tx_intros \<open>how a successful transaction body decomposes\<close>

section \<open>Errors\<close>

datatype sentinel =
    ErrNotFound
  | ErrConflict
  | ErrCredentialDisabled
  | ErrAuthorizationDenied
  | ErrRevisionExhausted
  | ErrStaleRevision
  | ErrRevisionChanged
  | ErrMailboxCursorAhead
  | ErrMailboxFull
  | ErrMailboxSequenceExhausted
  | ErrAgentLimit
  | ErrWorkerLifecyclePeerBehind
  | ErrWorkerLifecycleSessionFenced
  | ErrWorkerLifecycleStaleBase
  | ErrWorkerLifecycleRevisionNotForward
  | ErrAgentLifecycleCursorAhead
  | ErrAgentLifecycleSequenceExhausted
  | ErrWorkerReadinessStale
  | ErrWorkerBusy
  | ErrWorkerReservationConflict
  | ErrWorkerTransition
  | ErrWorkerOperationConflict
  | ErrWorkerTurnStartIntentConflict
  | ErrWorkerTurnStartIntentQuota
  | ErrResultPackageAuthority
  | ErrResultPackageConflict
  | ErrResultPackageQuota
  | ErrResultPackageTransition
  | ErrChangesArtifactConflict
  | ErrChangesArtifactTransition
  | ErrChangesArtifactQuota
  | ErrChangesArtifactAuthority

datatype go_error =
    Sentinel sentinel
  | Plain string
  | Wrapped string go_error
  | SqlConstraint string

primrec errors_is :: "go_error \<Rightarrow> sentinel \<Rightarrow> bool" where
  "errors_is (Sentinel s) t = (s = t)"
| "errors_is (Plain m) t = False"
| "errors_is (Wrapped m e) t = errors_is e t"
| "errors_is (SqlConstraint m) t = False"

type_synonym err = "go_error option"
type_synonym 'a result = "go_error + 'a"

definition fail_if :: "bool \<Rightarrow> go_error \<Rightarrow> err" where
  "fail_if c e = (if c then Some e else None)"

definition wrap :: "string \<Rightarrow> err \<Rightarrow> err" where
  "wrap m e = map_option (Wrapped m) e"

primrec first_err :: "err list \<Rightarrow> err" where
  "first_err [] = None"
| "first_err (x # xs) = (case x of Some e \<Rightarrow> Some e | None \<Rightarrow> first_err xs)"

definition guard_res :: "err \<Rightarrow> 'a result \<Rightarrow> 'a result" where
  "guard_res e r = (case e of Some x \<Rightarrow> Inl x | None \<Rightarrow> r)"

lemma fail_if_None [simp]: "fail_if c e = None \<longleftrightarrow> \<not> c"
  by (simp add: fail_if_def)

lemma fail_if_False [simp]: "fail_if False e = None"
  by simp

lemma wrap_None [simp]: "wrap m e = None \<longleftrightarrow> e = None"
  by (simp add: wrap_def)

lemma wrap_of_None [simp]: "wrap m None = None"
  by simp

lemma first_err_None [simp]: "first_err xs = None \<longleftrightarrow> list_all (\<lambda>x. x = None) xs"
  by (induction xs) (auto split: option.splits)

declare first_err.simps(2) [simp del]

lemma guard_res_Inr [simp]: "guard_res e r = Inr x \<longleftrightarrow> e = None \<and> r = Inr x"
  by (auto simp: guard_res_def split: option.splits)

lemma guard_res_None [simp]: "guard_res None r = r"
  by (simp add: guard_res_def)

text \<open>Scanning every row of a result set, stopping at the first error.\<close>

primrec traverse :: "('a \<Rightarrow> 'b result) \<Rightarrow> 'a list \<Rightarrow> 'b list result" where
  "traverse f [] = Inr []"
| "traverse f (x # xs) =
     (case f x of
        Inl e \<Rightarrow> Inl e
      | Inr y \<Rightarrow> (case traverse f xs of Inl e \<Rightarrow> Inl e | Inr ys \<Rightarrow> Inr (y # ys)))"

lemma traverse_InrD: "traverse f xs = Inr ys \<Longrightarrow> list_all2 (\<lambda>x y. f x = Inr y) xs ys"
  by (induction xs arbitrary: ys) (auto split: sum.splits)

lemma traverse_all:
  assumes "\<And>x. x \<in> set xs \<Longrightarrow> f x = Inr (g x)"
  shows "traverse f xs = Inr (map g xs)"
  using assms by (induction xs) auto

section \<open>Go's signed and unsigned 64-bit integers\<close>

text \<open>
  \<^verbatim>\<open>int64\<close> values are integers, \<^verbatim>\<open>uint64\<close> values are naturals; arithmetic that can leave the
  64-bit range goes through the wrap-around below.
\<close>

definition MaxInt64 :: int where
  "MaxInt64 = 9223372036854775807"

definition wrap_int64 :: "int \<Rightarrow> int" where
  "wrap_int64 x = (x + 2 ^ 63) mod 2 ^ 64 - 2 ^ 63"

definition add_int64 :: "int \<Rightarrow> int \<Rightarrow> int" where
  "add_int64 a b = wrap_int64 (a + b)"

definition uint64_of_int64 :: "int \<Rightarrow> nat" where
  "uint64_of_int64 x = nat (x mod 2 ^ 64)"

lemma wrap_int64_id: "- (2 ^ 63) \<le> x \<Longrightarrow> x < 2 ^ 63 \<Longrightarrow> wrap_int64 x = x"
  by (simp add: wrap_int64_def)

lemma add_int64_succ: "0 \<le> x \<Longrightarrow> x < MaxInt64 \<Longrightarrow> add_int64 x 1 = x + 1"
  by (simp add: add_int64_def MaxInt64_def wrap_int64_id)

lemma add_int64_overflows: "add_int64 MaxInt64 1 = - (2 ^ 63)"
  by (simp add: add_int64_def MaxInt64_def wrap_int64_def)

lemma uint64_of_int64_nat: "0 \<le> x \<Longrightarrow> x \<le> MaxInt64 \<Longrightarrow> uint64_of_int64 x = nat x"
  by (simp add: uint64_of_int64_def MaxInt64_def)

section \<open>Tables as lists of rows\<close>

definition sel1 :: "('r \<Rightarrow> bool) \<Rightarrow> 'r list \<Rightarrow> 'r option" where
  "sel1 P rows = List.find P rows"

definition upd :: "('r \<Rightarrow> bool) \<Rightarrow> ('r \<Rightarrow> 'r) \<Rightarrow> 'r list \<Rightarrow> 'r list" where
  "upd P f rows = map (\<lambda>r. if P r then f r else r) rows"

definition affected :: "('r \<Rightarrow> bool) \<Rightarrow> 'r list \<Rightarrow> nat" where
  "affected P rows = length (filter P rows)"

definition uniq :: "('r \<Rightarrow> 'k) \<Rightarrow> 'r list \<Rightarrow> bool" where
  "uniq key rows = distinct (map key rows)"

lemma sel1_Nil [simp]: "sel1 P [] = None"
  by (simp add: sel1_def)

lemma sel1_Cons [simp]: "sel1 P (r # rs) = (if P r then Some r else sel1 P rs)"
  by (simp add: sel1_def)

lemma sel1_SomeD: "sel1 P rows = Some r \<Longrightarrow> r \<in> set rows \<and> P r"
  by (induction rows) (auto split: if_splits)

lemma sel1_None_iff: "sel1 P rows = None \<longleftrightarrow> (\<forall>r \<in> set rows. \<not> P r)"
  by (induction rows) auto

lemma sel1_append: "sel1 P (xs @ ys) = (case sel1 P xs of Some r \<Rightarrow> Some r | None \<Rightarrow> sel1 P ys)"
  by (induction xs) auto

lemma sel1_append_miss [simp]: "sel1 P xs = None \<Longrightarrow> sel1 P (xs @ ys) = sel1 P ys"
  by (simp add: sel1_append)

lemma sel1_append_hit [simp]: "sel1 P xs = Some r \<Longrightarrow> sel1 P (xs @ ys) = Some r"
  by (simp add: sel1_append)

lemma upd_Nil [simp]: "upd P f [] = []"
  by (simp add: upd_def)

lemma upd_Cons [simp]: "upd P f (r # rs) = (if P r then f r else r) # upd P f rs"
  by (simp add: upd_def)

lemma length_upd [simp]: "length (upd P f rows) = length rows"
  by (simp add: upd_def)

lemma set_upd: "set (upd P f rows) = (\<lambda>r. if P r then f r else r) ` set rows"
  by (simp add: upd_def)

lemma in_upd_cases:
  assumes "r \<in> set (upd P f rows)"
  obtains (same) "r \<in> set rows" "\<not> P r" | (changed) r0 where "r0 \<in> set rows" "P r0" "r = f r0"
  using assms by (auto simp: set_upd split: if_splits)

lemma map_upd:
  assumes "\<And>r. P r \<Longrightarrow> key (f r) = key r"
  shows "map key (upd P f rows) = map key rows"
  using assms by (induction rows) auto

lemma uniq_upd [simp]:
  assumes "\<And>r. P r \<Longrightarrow> key (f r) = key r"
  shows "uniq key (upd P f rows) = uniq key rows"
  using assms by (simp add: uniq_def map_upd)

lemma sel1_upd:
  assumes "\<And>r. P r \<Longrightarrow> Q (f r) = Q r"
  shows "sel1 Q (upd P f rows) = map_option (\<lambda>r. if P r then f r else r) (sel1 Q rows)"
  using assms by (induction rows) auto

lemma sel1_upd_same:
  assumes "\<And>r. P r \<Longrightarrow> P (f r)"
  shows "sel1 P (upd P f rows) = map_option f (sel1 P rows)"
  using assms by (induction rows) auto

lemma uniq_Nil [simp]: "uniq key []"
  by (simp add: uniq_def)

lemma uniq_snoc [simp]: "uniq key (rows @ [r]) \<longleftrightarrow> uniq key rows \<and> key r \<notin> key ` set rows"
  by (auto simp: uniq_def)

lemma uniq_filter: "uniq key rows \<Longrightarrow> uniq key (filter P rows)"
  by (simp add: uniq_def distinct_map_filter)

lemma uniq_same: "uniq key rows \<Longrightarrow> r \<in> set rows \<Longrightarrow> s \<in> set rows \<Longrightarrow> key r = key s \<Longrightarrow> r = s"
  by (auto simp: uniq_def distinct_map inj_on_def)

lemma uniq_sel1:
  assumes "uniq key rows" "r \<in> set rows"
  shows "sel1 (\<lambda>s. key s = key r) rows = Some r"
proof -
  obtain s where s: "sel1 (\<lambda>s. key s = key r) rows = Some s"
    using assms(2) by (cases "sel1 (\<lambda>s. key s = key r) rows") (auto simp: sel1_None_iff)
  then have "s \<in> set rows" "key s = key r"
    by (auto dest: sel1_SomeD)
  with assms have "s = r"
    by (auto intro: uniq_same)
  with s show ?thesis by simp
qed

lemma uniq_filter_single:
  assumes "uniq key rows" "r \<in> set rows"
  shows "filter (\<lambda>s. key s = key r) rows = [r]"
  using assms
proof (induction rows)
  case (Cons a rows)
  then show ?case
    by (cases "a = r") (auto simp: uniq_def filter_empty_conv image_iff)
qed simp

lemma affected_pos: "sel1 P rows = Some r \<Longrightarrow> 0 < affected P rows"
  by (auto simp: affected_def filter_empty_conv dest: sel1_SomeD)

section \<open>Transactions\<close>

type_synonym ('s, 'a) tx = "'s \<Rightarrow> go_error + ('a \<times> 's)"

definition tx_ret :: "'a \<Rightarrow> ('s, 'a) tx" where
  "tx_ret x s = Inr (x, s)"

definition tx_fail :: "go_error \<Rightarrow> ('s, 'a) tx" where
  "tx_fail e s = Inl e"

definition tx_bind :: "('s, 'a) tx \<Rightarrow> ('a \<Rightarrow> ('s, 'b) tx) \<Rightarrow> ('s, 'b) tx" where
  "tx_bind m f s = (case m s of Inl e \<Rightarrow> Inl e | Inr (x, s') \<Rightarrow> f x s')"

definition tx_query :: "('s \<Rightarrow> 'a result) \<Rightarrow> ('s, 'a) tx" where
  "tx_query q s = (case q s of Inl e \<Rightarrow> Inl e | Inr x \<Rightarrow> Inr (x, s))"

definition tx_get :: "('s \<Rightarrow> 'a) \<Rightarrow> ('s, 'a) tx" where
  "tx_get q s = Inr (q s, s)"

definition tx_check :: "err \<Rightarrow> ('s, unit) tx" where
  "tx_check e s = (case e of Some x \<Rightarrow> Inl x | None \<Rightarrow> Inr ((), s))"

definition tx_exec :: "('s \<Rightarrow> 's) \<Rightarrow> ('s, unit) tx" where
  "tx_exec f s = Inr ((), f s)"

text \<open>
  An INSERT that fails on a violated constraint, an UPDATE or DELETE that reports how many rows it
  touched, and \<^verbatim>\<open>requireAffectedRow\<close>'s test of that count.
\<close>

definition tx_insert :: "string \<Rightarrow> ('s \<Rightarrow> bool) \<Rightarrow> ('s \<Rightarrow> 's) \<Rightarrow> ('s, unit) tx" where
  "tx_insert m ok f s = (if ok s then Inr ((), f s) else Inl (Wrapped m (SqlConstraint m)))"

definition tx_update :: "('s \<Rightarrow> nat) \<Rightarrow> ('s \<Rightarrow> 's) \<Rightarrow> ('s, nat) tx" where
  "tx_update count f s = Inr (count s, f s)"

definition withImmediateTransaction :: "('s, 'a) tx \<Rightarrow> 's \<Rightarrow> 'a result \<times> 's" where
  "withImmediateTransaction operation s =
     (case operation s of Inl e \<Rightarrow> (Inl e, s) | Inr (x, s') \<Rightarrow> (Inr x, s'))"

definition guard_tx :: "err \<Rightarrow> ('s, 'a) tx \<Rightarrow> 's \<Rightarrow> 'a result \<times> 's" where
  "guard_tx e operation s =
     (case e of Some x \<Rightarrow> (Inl x, s) | None \<Rightarrow> withImmediateTransaction operation s)"

lemmas tx_defs = tx_ret_def tx_fail_def tx_bind_def tx_query_def tx_get_def tx_check_def tx_exec_def
  tx_insert_def tx_update_def

declare tx_defs [go_defs] withImmediateTransaction_def [go_defs] guard_tx_def [go_defs]
  guard_res_def [go_defs]

lemma tx_ret_Inr [simp, tx_intros]: "tx_ret x s = Inr (y, s') \<longleftrightarrow> y = x \<and> s' = s"
  by (auto simp: tx_ret_def)

lemma tx_fail_Inr [simp, tx_intros]: "tx_fail e s \<noteq> Inr r"
  by (simp add: tx_fail_def)

lemma tx_bind_Inr [simp, tx_intros]:
  "tx_bind m f s = Inr (y, s'') \<longleftrightarrow> (\<exists>x s'. m s = Inr (x, s') \<and> f x s' = Inr (y, s''))"
  by (auto simp: tx_bind_def split: sum.splits)

lemma tx_bind_Inl:
  "tx_bind m f s = Inl e \<longleftrightarrow> m s = Inl e \<or> (\<exists>x s'. m s = Inr (x, s') \<and> f x s' = Inl e)"
  by (auto simp: tx_bind_def split: sum.splits)

lemma tx_query_Inr [simp, tx_intros]: "tx_query q s = Inr (x, s') \<longleftrightarrow> q s = Inr x \<and> s' = s"
  by (auto simp: tx_query_def split: sum.splits)

lemma tx_get_Inr [simp, tx_intros]: "tx_get q s = Inr (x, s') \<longleftrightarrow> x = q s \<and> s' = s"
  by (auto simp: tx_get_def)

lemma tx_check_Inr [simp, tx_intros]: "tx_check e s = Inr (x, s') \<longleftrightarrow> e = None \<and> s' = s"
  by (auto simp: tx_check_def split: option.splits)

lemma tx_exec_Inr [simp, tx_intros]: "tx_exec f s = Inr (x, s') \<longleftrightarrow> s' = f s"
  by (auto simp: tx_exec_def)

lemma tx_bind_query:
  "q s = Inr y \<Longrightarrow> tx_bind (tx_query q) f s = f y s"
  "q s = Inl e \<Longrightarrow> tx_bind (tx_query q) f s = Inl e"
  by (simp_all add: tx_bind_def tx_query_def)

lemma tx_bind_queryE:
  assumes "tx_bind (tx_query q) f s = Inr r"
  obtains y where "q s = Inr y" "f y s = Inr r"
  using assms by (auto simp: tx_bind_def tx_query_def split: sum.splits)

lemma tx_insert_Inr [simp, tx_intros]: "tx_insert m ok f s = Inr (x, s') \<longleftrightarrow> ok s \<and> s' = f s"
  by (auto simp: tx_insert_def)

lemma tx_update_Inr [simp, tx_intros]: "tx_update count f s = Inr (n, s') \<longleftrightarrow> n = count s \<and> s' = f s"
  by (auto simp: tx_update_def)

lemma withImmediateTransaction_Inr [simp]:
  "withImmediateTransaction m s = (Inr x, s') \<longleftrightarrow> m s = Inr (x, s')"
  by (auto simp: withImmediateTransaction_def split: sum.splits)

lemma withImmediateTransaction_Inl [simp]:
  "withImmediateTransaction m s = (Inl e, s') \<longleftrightarrow> m s = Inl e \<and> s' = s"
  by (auto simp: withImmediateTransaction_def split: sum.splits)

lemma guard_tx_Inr [simp]: "guard_tx e m s = (Inr x, s') \<longleftrightarrow> e = None \<and> m s = Inr (x, s')"
  by (auto simp: guard_tx_def split: option.splits)

lemma guard_tx_Inl [simp]:
  "guard_tx e m s = (Inl x, s') \<longleftrightarrow> s' = s \<and> (e = Some x \<or> e = None \<and> m s = Inl x)"
  by (auto simp: guard_tx_def split: option.splits)

lemma guard_tx_None [simp]: "guard_tx None m s = withImmediateTransaction m s"
  by (simp add: guard_tx_def)

lemma guard_tx_rollback: "guard_tx e m s = (Inl x, s') \<Longrightarrow> s' = s"
  by simp

lemma guard_tx_state:
  assumes "P s" "\<And>x s'. guard_tx e m s = (Inr x, s') \<Longrightarrow> P s'"
  shows "P (snd (guard_tx e m s))"
proof (cases "fst (guard_tx e m s)")
  case (Inl a)
  then have "guard_tx e m s = (Inl a, snd (guard_tx e m s))" by (simp add: prod_eq_iff)
  then show ?thesis using assms(1) guard_tx_rollback by metis
next
  case (Inr x)
  then have "guard_tx e m s = (Inr x, snd (guard_tx e m s))" by (simp add: prod_eq_iff)
  then show ?thesis by (rule assms(2))
qed

definition tx_keeps :: "('s \<Rightarrow> bool) \<Rightarrow> ('s, 'a) tx \<Rightarrow> bool" where
  "tx_keeps P m \<longleftrightarrow> (\<forall>s x s'. P s \<longrightarrow> m s = Inr (x, s') \<longrightarrow> P s')"

lemma tx_keepsI: "(\<And>s x s'. P s \<Longrightarrow> m s = Inr (x, s') \<Longrightarrow> P s') \<Longrightarrow> tx_keeps P m"
  by (auto simp: tx_keeps_def)

lemma tx_keepsD: "tx_keeps P m \<Longrightarrow> P s \<Longrightarrow> m s = Inr (x, s') \<Longrightarrow> P s'"
  by (auto simp: tx_keeps_def)

lemma tx_keeps_guard: "tx_keeps P m \<Longrightarrow> P s \<Longrightarrow> P (snd (guard_tx e m s))"
  by (auto simp: go_defs split: option.splits sum.splits dest: tx_keepsD)


text \<open>What a transaction leaves alone, by its structure.\<close>

named_theorems tx_frame \<open>a part of the state that a transaction body does not write\<close>

definition tx_preserves :: "('s \<Rightarrow> 'b) \<Rightarrow> ('s, 'a) tx \<Rightarrow> bool" where
  "tx_preserves g m \<longleftrightarrow> (\<forall>s x s'. m s = Inr (x, s') \<longrightarrow> g s' = g s)"

lemma tx_preservesD: "tx_preserves g m \<Longrightarrow> m s = Inr (x, s') \<Longrightarrow> g s' = g s"
  by (simp add: tx_preserves_def)

lemma tx_preserves_basic [tx_frame]:
  "tx_preserves g (tx_ret x)" "tx_preserves g (tx_fail e)" "tx_preserves g (tx_query q)"
  "tx_preserves g (tx_get h)" "tx_preserves g (tx_check c)"
  by (simp_all add: tx_preserves_def)

lemma tx_preserves_write [tx_frame]:
  "(\<And>s. g (f s) = g s) \<Longrightarrow> tx_preserves g (tx_exec f)"
  "(\<And>s. g (f s) = g s) \<Longrightarrow> tx_preserves g (tx_insert m ok f)"
  "(\<And>s. g (f s) = g s) \<Longrightarrow> tx_preserves g (tx_update n f)"
  by (simp_all add: tx_preserves_def)

lemma tx_preserves_bind [tx_frame]:
  "tx_preserves g m \<Longrightarrow> (\<And>x. tx_preserves g (f x)) \<Longrightarrow> tx_preserves g (tx_bind m f)"
  unfolding tx_preserves_def by simp metis

lemma tx_preserves_split [tx_frame]:
  "(b \<Longrightarrow> tx_preserves g m) \<Longrightarrow> (\<not> b \<Longrightarrow> tx_preserves g n) \<Longrightarrow> tx_preserves g (if b then m else n)"
  "tx_preserves g m \<Longrightarrow> (\<And>x. tx_preserves g (f x)) \<Longrightarrow> tx_preserves g (case opt of None \<Rightarrow> m | Some x \<Rightarrow> f x)"
  "tx_preserves g (f x) \<Longrightarrow> tx_preserves g (let y = x in f y)"
  by (auto split: option.splits)

lemma guard_tx_preserves: "tx_preserves g m \<Longrightarrow> g (snd (guard_tx e m s)) = g s"
  by (auto simp: go_defs tx_preserves_def split: option.splits sum.splits prod.splits)

end
