(* ===== verification/GoText.thy ===== *)
theory GoText
  imports Prelude "HOL-Library.Char_ord" "HOL-Library.List_Lexorder"
begin

text \<open>
  The parts of Go's string handling that the validators rest on. A Go string is a sequence of
  bytes, here a \<^typ>\<open>string\<close>; \<open>len\<close> counts bytes and \<open><\<close> compares bytes lexicographically.
  \<open>decode_rune\<close> is \<^verbatim>\<open>utf8.DecodeRuneInString\<close>, \<open>range_string\<close> the runes a \<^verbatim>\<open>range\<close> loop
  visits with their byte offsets, and the rest is \<^verbatim>\<open>utf8.ValidString\<close>,
  \<^verbatim>\<open>strings.TrimSpace\<close>, \<^verbatim>\<open>unicode.IsControl\<close>, anchored character-class patterns
  and \<^verbatim>\<open>slices.BinarySearch\<close>.
\<close>

section \<open>Runes\<close>

definition byte :: "char \<Rightarrow> nat" where
  "byte c = of_char c"

definition RuneError :: nat where
  "RuneError = 65533"

definition cont :: "nat \<Rightarrow> bool" where
  "cont b \<longleftrightarrow> 128 \<le> b \<and> b \<le> 191"

text \<open>The admissible range of the second byte, by the first byte.\<close>

definition second_range :: "nat \<Rightarrow> nat \<times> nat" where
  "second_range b =
     (if b = 224 then (160, 191)
      else if b = 237 then (128, 159)
      else if b = 240 then (144, 191)
      else if b = 244 then (128, 143)
      else (128, 191))"

definition second_ok :: "nat \<Rightarrow> nat \<Rightarrow> bool" where
  "second_ok b0 b1 \<longleftrightarrow> fst (second_range b0) \<le> b1 \<and> b1 \<le> snd (second_range b0)"

text \<open>Rune, width in bytes, and whether the bytes are a valid encoding.\<close>

fun decode_bytes :: "nat list \<Rightarrow> nat \<times> nat \<times> bool" where
  "decode_bytes [] = (RuneError, 0, False)"
| "decode_bytes (b0 # bs) =
     (if b0 < 128 then (b0, 1, True)
      else if 194 \<le> b0 \<and> b0 \<le> 223 then
        (case bs of
           b1 # _ \<Rightarrow> if second_ok b0 b1 then ((b0 - 192) * 64 + (b1 - 128), 2, True) else (RuneError, 1, False)
         | _ \<Rightarrow> (RuneError, 1, False))
      else if 224 \<le> b0 \<and> b0 \<le> 239 then
        (case bs of
           b1 # b2 # _ \<Rightarrow>
             if second_ok b0 b1 \<and> cont b2
             then ((b0 - 224) * 4096 + (b1 - 128) * 64 + (b2 - 128), 3, True)
             else (RuneError, 1, False)
         | _ \<Rightarrow> (RuneError, 1, False))
      else if 240 \<le> b0 \<and> b0 \<le> 244 then
        (case bs of
           b1 # b2 # b3 # _ \<Rightarrow>
             if second_ok b0 b1 \<and> cont b2 \<and> cont b3
             then ((b0 - 240) * 262144 + (b1 - 128) * 4096 + (b2 - 128) * 64 + (b3 - 128), 4, True)
             else (RuneError, 1, False)
         | _ \<Rightarrow> (RuneError, 1, False))
      else (RuneError, 1, False))"

definition decode_rune :: "string \<Rightarrow> nat \<times> nat \<times> bool" where
  "decode_rune s = decode_bytes (map byte (take 4 s))"

lemma decode_bytes_width: "bs \<noteq> [] \<Longrightarrow> 0 < fst (snd (decode_bytes bs))"
  by (cases bs) (auto split: list.splits)

lemma decode_rune_width: "s \<noteq> [] \<Longrightarrow> 0 < fst (snd (decode_rune s))"
  by (simp add: decode_rune_def decode_bytes_width)

lemma decode_bytes_ascii: "b < 128 \<Longrightarrow> decode_bytes (b # bs) = (b, 1, True)"
  by simp

lemma three_byte_high:
  assumes "224 \<le> b0" "second_ok b0 b1"
  shows "128 \<le> (b0 - 224) * 4096 + (b1 - 128) * 64"
proof (cases "b0 = 224")
  case True
  then have "160 \<le> b1" using assms(2) by (simp add: second_ok_def second_range_def)
  then show ?thesis by linarith
next
  case False
  then have "1 \<le> b0 - 224" using assms(1) by linarith
  then show ?thesis by linarith
qed

lemma four_byte_high:
  assumes "240 \<le> b0" "second_ok b0 b1"
  shows "128 \<le> (b0 - 240) * 262144 + (b1 - 128) * 4096"
proof (cases "b0 = 240")
  case True
  then have "144 \<le> b1" using assms(2) by (simp add: second_ok_def second_range_def)
  then show ?thesis by linarith
next
  case False
  then have "1 \<le> b0 - 240" using assms(1) by linarith
  then show ?thesis by linarith
qed

lemma two_byte_high: "194 \<le> b0 \<Longrightarrow> 128 \<le> (b0 - 192) * (64::nat)"
  by linarith

lemma decode_bytes_high:
  assumes "128 \<le> b"
  shows "128 \<le> fst (decode_bytes (b # bs))"
  using assms two_byte_high [of b] three_byte_high [of b] four_byte_high [of b]
  by (simp add: RuneError_def trans_le_add1 split: list.split)

declare decode_bytes.simps [simp del]

text \<open>The byte offset and rune of every iteration of \<^verbatim>\<open>for i, c := range s\<close>, with validity.\<close>

function range_from :: "nat \<Rightarrow> string \<Rightarrow> (nat \<times> nat \<times> bool) list" where
  "range_from i [] = []"
| "range_from i (c # cs) =
     (let (r, w, ok) = decode_rune (c # cs) in (i, r, ok) # range_from (i + w) (drop w (c # cs)))"
  by pat_completeness auto
termination
proof (relation "measure (\<lambda>(i, s). length s)")
  fix i :: nat and c cs x r y w ok
  assume "x = decode_rune (c # cs)" "(r, y) = x" "(w, ok) = y"
  then have "0 < w"
    using decode_rune_width [of "c # cs"] by (metis fst_conv list.distinct(1) snd_conv)
  then show "((i + w, drop w (c # cs)), i, c # cs) \<in> measure (\<lambda>(i, s). length s)"
    by (cases w) auto
qed simp

declare range_from.simps(2) [simp del]

definition range_string :: "string \<Rightarrow> (nat \<times> nat \<times> bool) list" where
  "range_string s = range_from 0 s"

definition runes :: "string \<Rightarrow> nat list" where
  "runes s = map (\<lambda>(i, r, ok). r) (range_string s)"

definition ValidString :: "string \<Rightarrow> bool" where
  "ValidString s \<longleftrightarrow> list_all (\<lambda>(i, r, ok). ok) (range_string s)"

lemma range_from_ascii:
  "byte c < 128 \<Longrightarrow> range_from i (c # cs) = (i, byte c, True) # range_from (Suc i) cs"
  by (simp add: range_from.simps decode_rune_def decode_bytes_ascii)

lemma range_from_high:
  assumes "128 \<le> byte c"
  obtains r ok rest where "range_from i (c # cs) = (i, r, ok) # rest" "128 \<le> r"
proof -
  obtain r w ok where d: "decode_rune (c # cs) = (r, w, ok)"
    by (cases "decode_rune (c # cs)") auto
  have "128 \<le> r"
    using decode_bytes_high [OF assms, of "map byte (take 3 cs)"] d by (simp add: decode_rune_def)
  then show thesis
    using that d by (simp add: range_from.simps)
qed

definition ascii :: "string \<Rightarrow> bool" where
  "ascii s \<longleftrightarrow> list_all (\<lambda>c. byte c < 128) s"

lemma range_from_ascii_string:
  "ascii s \<Longrightarrow> range_from i s = map (\<lambda>(j, c). (j, byte c, True)) (zip [i..<i + length s] s)"
  by (induction s arbitrary: i) (auto simp: ascii_def range_from_ascii upt_conv_Cons simp del: upt_Suc)

lemma ascii_runes: "ascii s \<Longrightarrow> runes s = map byte s"
  by (rule nth_equalityI) (auto simp: runes_def range_string_def range_from_ascii_string split_def)

lemma ascii_valid: "ascii s \<Longrightarrow> ValidString s"
  by (auto simp: ValidString_def range_string_def range_from_ascii_string list_all_iff)

section \<open>Character tests\<close>

definition unicode_IsSpace :: "nat \<Rightarrow> bool" where
  "unicode_IsSpace r \<longleftrightarrow>
     r \<in> {9, 10, 11, 12, 13, 32, 133, 160, 5760, 8232, 8233, 8239, 8287, 12288}
     \<or> 8192 \<le> r \<and> r \<le> 8202"

definition unicode_IsControl :: "nat \<Rightarrow> bool" where
  "unicode_IsControl r \<longleftrightarrow> r < 32 \<or> 127 \<le> r \<and> r < 160"

text \<open>
  \<^verbatim>\<open>strings.TrimSpace(s) == ""\<close>: every rune is white space. Trimming from the left stops at the
  first other rune, and the trim from the right cannot remove that one.
\<close>

definition TrimSpace_empty :: "string \<Rightarrow> bool" where
  "TrimSpace_empty s \<longleftrightarrow> list_all unicode_IsSpace (runes s)"

definition ContainsRune :: "string \<Rightarrow> nat \<Rightarrow> bool" where
  "ContainsRune s r \<longleftrightarrow> r \<in> set (runes s)"

text \<open>Printable ASCII text without spaces passes every one of these tests.\<close>

definition printable :: "string \<Rightarrow> bool" where
  "printable s \<longleftrightarrow> s \<noteq> [] \<and> list_all (\<lambda>c. 32 < byte c \<and> byte c < 127) s"

lemma printable_text:
  assumes "printable s"
  shows "ValidString s" "\<not> TrimSpace_empty s" "\<not> ContainsRune s 0" "\<not> list_ex unicode_IsControl (runes s)"
proof -
  have s: "s \<noteq> []" "\<forall>c \<in> set s. 32 < byte c \<and> byte c < 127"
    using assms by (auto simp: printable_def list_all_iff)
  then have a: "ascii s" by (auto simp: ascii_def list_all_iff)
  show "ValidString s" by (rule ascii_valid [OF a])
  have "\<not> unicode_IsSpace (byte (hd s))"
    using s(2) [rule_format, OF hd_in_set [OF s(1)]] by (auto simp: unicode_IsSpace_def)
  then show "\<not> TrimSpace_empty s"
    using s(1) by (auto simp: TrimSpace_empty_def ascii_runes [OF a] list_all_iff)
  show "\<not> ContainsRune s 0" "\<not> list_ex unicode_IsControl (runes s)"
    using s(2) by (fastforce simp: ContainsRune_def ascii_runes [OF a] list_ex_iff unicode_IsControl_def)+
qed

definition lower :: "char \<Rightarrow> bool" where
  "lower c \<longleftrightarrow> 97 \<le> byte c \<and> byte c \<le> 122"

definition upper :: "char \<Rightarrow> bool" where
  "upper c \<longleftrightarrow> 65 \<le> byte c \<and> byte c \<le> 90"

definition digit :: "char \<Rightarrow> bool" where
  "digit c \<longleftrightarrow> 48 \<le> byte c \<and> byte c \<le> 57"

definition hexdigit :: "char \<Rightarrow> bool" where
  "hexdigit c \<longleftrightarrow> digit c \<or> 97 \<le> byte c \<and> byte c \<le> 102"

text \<open>\<^verbatim>\<open>^[first][rest]{0,n}$\<close> for ASCII classes.\<close>

fun match_ident :: "(char \<Rightarrow> bool) \<Rightarrow> (char \<Rightarrow> bool) \<Rightarrow> string \<Rightarrow> bool" where
  "match_ident p q [] = False"
| "match_ident p q (c # cs) = (p c \<and> list_all q cs)"

text \<open>\<^verbatim>\<open>^[class]{n}$\<close>.\<close>

definition match_exact :: "(char \<Rightarrow> bool) \<Rightarrow> nat \<Rightarrow> string \<Rightarrow> bool" where
  "match_exact p n s \<longleftrightarrow> length s = n \<and> list_all p s"

lemma match_ident_nonempty: "match_ident p q s \<Longrightarrow> s \<noteq> []"
  by (cases s) auto

section \<open>Strictly increasing string lists\<close>

text \<open>
  The loop \<^verbatim>\<open>previous := ""; for _, x := range xs { if previous != "" && x <= previous ... }\<close>
  with a per-element test first: the first failing test decides the error.
\<close>

fun sorted_unique_loop :: "(string \<Rightarrow> err) \<Rightarrow> go_error \<Rightarrow> string \<Rightarrow> string list \<Rightarrow> err" where
  "sorted_unique_loop test e previous [] = None"
| "sorted_unique_loop test e previous (x # xs) =
     (case test x of
        Some e' \<Rightarrow> Some e'
      | None \<Rightarrow>
          if previous \<noteq> [] \<and> x \<le> previous then Some e else sorted_unique_loop test e x xs)"

lemma sorted_unique_loop_sound:
  assumes "\<And>x. test x = None \<Longrightarrow> x \<noteq> []"
  shows "sorted_unique_loop test e previous xs = None \<longleftrightarrow>
    (\<forall>x \<in> set xs. test x = None) \<and> sorted_wrt (<) (if previous = [] then xs else previous # xs)"
proof (induction xs arbitrary: previous)
  case (Cons x xs)
  show ?case
  proof (cases "test x")
    case None
    then have ne: "x \<noteq> []" by (rule assms)
    have trans: "sorted_wrt (<) (previous # x # xs) \<longleftrightarrow> previous < x \<and> sorted_wrt (<) (x # xs)"
      by (auto intro: less_trans)
    show ?thesis
      using Cons.IH [of x] ne None trans by (auto simp: not_le)
  qed auto
qed auto

section \<open>Binary search\<close>

text \<open>\<^verbatim>\<open>slices.BinarySearch\<close>: the loop keeps \<open>i \<le> j\<close> and halves the distance.\<close>

function bsearch_loop :: "'a::linorder list \<Rightarrow> 'a \<Rightarrow> nat \<Rightarrow> nat \<Rightarrow> nat" where
  "bsearch_loop xs target i j =
     (if i < j then
        let h = (i + j) div 2 in
        if xs ! h < target then bsearch_loop xs target (Suc h) j else bsearch_loop xs target i h
      else i)"
  by pat_completeness auto
termination
  by (relation "measure (\<lambda>(xs, target, i, j). j - i)") auto

declare bsearch_loop.simps [simp del]

definition BinarySearch :: "'a::linorder list \<Rightarrow> 'a \<Rightarrow> nat \<times> bool" where
  "BinarySearch xs target =
     (let i = bsearch_loop xs target 0 (length xs) in (i, i < length xs \<and> xs ! i = target))"

lemma bsearch_loop_bounds:
  assumes "sorted xs" "i \<le> j" "j \<le> length xs"
    and "\<forall>k < i. xs ! k < target" and "\<forall>k. j \<le> k \<longrightarrow> k < length xs \<longrightarrow> target \<le> xs ! k"
  shows "bsearch_loop xs target i j \<le> length xs
    \<and> (\<forall>k < bsearch_loop xs target i j. xs ! k < target)
    \<and> (\<forall>k. bsearch_loop xs target i j \<le> k \<longrightarrow> k < length xs \<longrightarrow> target \<le> xs ! k)"
  using assms
proof (induction xs target i j rule: bsearch_loop.induct)
  case (1 xs target i j)
  show ?case
  proof (cases "i < j")
    case True
    define h where "h = (i + j) div 2"
    have h: "i \<le> h" "h < j" using True by (auto simp: h_def)
    show ?thesis
    proof (cases "xs ! h < target")
      case less: True
      have low: "\<forall>k < Suc h. xs ! k < target"
      proof (intro allI impI)
        fix k assume "k < Suc h"
        then have "xs ! k \<le> xs ! h"
          using "1.prems"(1,3) h(2) by (intro sorted_nth_mono) auto
        then show "xs ! k < target" using less by simp
      qed
      have eq: "bsearch_loop xs target i j = bsearch_loop xs target (Suc h) j"
        using True less by (simp add: bsearch_loop.simps [of xs target i j] Let_def h_def)
      show ?thesis
        unfolding eq using "1.IH"(1) [OF True h_def less "1.prems"(1)] h "1.prems"(3,5) low by simp
    next
      case False
      have high: "\<forall>k. h \<le> k \<longrightarrow> k < length xs \<longrightarrow> target \<le> xs ! k"
      proof (intro allI impI)
        fix k assume "h \<le> k" "k < length xs"
        then have "xs ! h \<le> xs ! k"
          using "1.prems"(1) by (intro sorted_nth_mono)
        then show "target \<le> xs ! k" using False by simp
      qed
      have eq: "bsearch_loop xs target i j = bsearch_loop xs target i h"
        using True False by (simp add: bsearch_loop.simps [of xs target i j] Let_def h_def)
      show ?thesis
        unfolding eq using "1.IH"(2) [OF True h_def False "1.prems"(1)] h "1.prems"(3,4) high by simp
    qed
  next
    case False
    then show ?thesis
      unfolding bsearch_loop.simps [of xs target i j] using "1.prems" by simp
  qed
qed

lemma BinarySearch_iff:
  assumes "sorted xs"
  shows "snd (BinarySearch xs target) \<longleftrightarrow> target \<in> set xs"
proof
  assume "snd (BinarySearch xs target)"
  then show "target \<in> set xs"
    by (auto simp: BinarySearch_def Let_def in_set_conv_nth)
next
  define i where "i = bsearch_loop xs target 0 (length xs)"
  have i: "\<forall>k < i. xs ! k < target" "\<forall>k. i \<le> k \<longrightarrow> k < length xs \<longrightarrow> target \<le> xs ! k"
    using bsearch_loop_bounds [OF assms, of 0 "length xs" target] by (auto simp: i_def)
  assume "target \<in> set xs"
  then obtain k where k: "k < length xs" "xs ! k = target"
    by (auto simp: in_set_conv_nth)
  then have "i \<le> k" using i(1) by (meson less_irrefl not_less)
  then have "i < length xs" "xs ! i \<le> target" "target \<le> xs ! i"
    using k i(2) sorted_nth_mono [OF assms, of i k] by auto
  then show "snd (BinarySearch xs target)"
    by (simp add: BinarySearch_def Let_def i_def [symmetric])
qed

end
