(* ===== verification/GoJson.thy ===== *)
theory GoJson
  imports GoText
begin

text \<open>
  \<^verbatim>\<open>json.Valid\<close> as the byte-driven state machine that Go's scanner is: a state and a stack of open
  objects and arrays, one step per byte. Nesting below the scanner's depth limit of 10,000 is all
  the program meets, since what it checks has at most 1,024 bytes.
\<close>

datatype json_open = ParseObjectKey | ParseObjectValue | ParseArrayValue

datatype json_state =
    BeginValue | BeginValueOrEmpty | BeginStringOrEmpty | BeginString | EndValue | EndTop
  | InString | InStringEsc | InStringEscU nat
  | Neg | Num1 | Num0 | Dot | Dot0 | NumE | NumESign | NumE0
  | Literal string

type_synonym json_scan = "json_state \<times> json_open list"

definition json_space :: "char \<Rightarrow> bool" where
  "json_space c \<longleftrightarrow> byte c \<in> {32, 9, 13, 10}"

definition json_pop :: "json_open list \<Rightarrow> json_scan" where
  "json_pop stack = (if tl stack = [] then (EndTop, []) else (EndValue, tl stack))"

fun json_endValue :: "json_open list \<Rightarrow> char \<Rightarrow> json_scan option" where
  "json_endValue [] c = (if json_space c then Some (EndTop, []) else None)"
| "json_endValue (t # rest) c =
     (if json_space c then Some (EndValue, t # rest)
      else case t of
        ParseObjectKey \<Rightarrow> if c = CHR '':'' then Some (BeginValue, ParseObjectValue # rest) else None
      | ParseObjectValue \<Rightarrow>
          if c = CHR '','' then Some (BeginString, ParseObjectKey # rest)
          else if c = CHR ''}'' then Some (json_pop (t # rest)) else None
      | ParseArrayValue \<Rightarrow>
          if c = CHR '','' then Some (BeginValue, t # rest)
          else if c = CHR '']'' then Some (json_pop (t # rest)) else None)"

definition json_beginValue :: "json_open list \<Rightarrow> char \<Rightarrow> json_scan option" where
  "json_beginValue stack c =
     (if json_space c then Some (BeginValue, stack)
      else if c = CHR ''{'' then Some (BeginStringOrEmpty, ParseObjectKey # stack)
      else if c = CHR ''['' then Some (BeginValueOrEmpty, ParseArrayValue # stack)
      else if byte c = 34 then Some (InString, stack)
      else if c = CHR ''-'' then Some (Neg, stack)
      else if c = CHR ''0'' then Some (Num0, stack)
      else if c = CHR ''t'' then Some (Literal ''rue'', stack)
      else if c = CHR ''f'' then Some (Literal ''alse'', stack)
      else if c = CHR ''n'' then Some (Literal ''ull'', stack)
      else if digit c then Some (Num1, stack)
      else None)"

definition json_beginString :: "json_open list \<Rightarrow> char \<Rightarrow> json_scan option" where
  "json_beginString stack c =
     (if json_space c then Some (BeginString, stack)
      else if byte c = 34 then Some (InString, stack) else None)"

definition json_num0 :: "json_open list \<Rightarrow> char \<Rightarrow> json_scan option" where
  "json_num0 stack c =
     (if c = CHR ''.'' then Some (Dot, stack)
      else if c = CHR ''e'' \<or> c = CHR ''E'' then Some (NumE, stack)
      else json_endValue stack c)"

fun json_step :: "json_state \<Rightarrow> json_open list \<Rightarrow> char \<Rightarrow> json_scan option" where
  "json_step BeginValue stack c = json_beginValue stack c"
| "json_step BeginValueOrEmpty stack c =
     (if json_space c then Some (BeginValueOrEmpty, stack)
      else if c = CHR '']'' then json_endValue stack c
      else json_beginValue stack c)"
| "json_step BeginStringOrEmpty stack c =
     (if json_space c then Some (BeginStringOrEmpty, stack)
      else if c = CHR ''}'' then json_endValue (ParseObjectValue # tl stack) c
      else json_beginString stack c)"
| "json_step BeginString stack c = json_beginString stack c"
| "json_step EndValue stack c = json_endValue stack c"
| "json_step EndTop stack c = (if json_space c then Some (EndTop, stack) else None)"
| "json_step InString stack c =
     (if byte c = 34 then Some (EndValue, stack)
      else if byte c = 92 then Some (InStringEsc, stack)
      else if byte c < 32 then None
      else Some (InString, stack))"
| "json_step InStringEsc stack c =
     (if c \<in> set ''bfnrt/'' \<or> byte c = 92 \<or> byte c = 34 then Some (InString, stack)
      else if c = CHR ''u'' then Some (InStringEscU 3, stack)
      else None)"
| "json_step (InStringEscU n) stack c =
     (if digit c \<or> 97 \<le> byte c \<and> byte c \<le> 102 \<or> 65 \<le> byte c \<and> byte c \<le> 70
      then Some (if n = 0 then InString else InStringEscU (n - 1), stack) else None)"
| "json_step Neg stack c =
     (if c = CHR ''0'' then Some (Num0, stack) else if digit c then Some (Num1, stack) else None)"
| "json_step Num1 stack c = (if digit c then Some (Num1, stack) else json_num0 stack c)"
| "json_step Num0 stack c = json_num0 stack c"
| "json_step Dot stack c = (if digit c then Some (Dot0, stack) else None)"
| "json_step Dot0 stack c =
     (if digit c then Some (Dot0, stack)
      else if c = CHR ''e'' \<or> c = CHR ''E'' then Some (NumE, stack)
      else json_endValue stack c)"
| "json_step NumE stack c =
     (if c = CHR ''+'' \<or> c = CHR ''-'' then Some (NumESign, stack)
      else if digit c then Some (NumE0, stack) else None)"
| "json_step NumESign stack c = (if digit c then Some (NumE0, stack) else None)"
| "json_step NumE0 stack c = (if digit c then Some (NumE0, stack) else json_endValue stack c)"
| "json_step (Literal s) stack c =
     (case s of
        [] \<Rightarrow> json_endValue stack c
      | d # ds \<Rightarrow> if c = d then Some (if ds = [] then EndValue else Literal ds, stack) else None)"

fun json_run :: "json_scan \<Rightarrow> string \<Rightarrow> json_scan option" where
  "json_run st [] = Some st"
| "json_run (q, stack) (c # cs) =
     (case json_step q stack c of None \<Rightarrow> None | Some st \<Rightarrow> json_run st cs)"

definition json_eof :: "json_scan \<Rightarrow> bool" where
  "json_eof st =
     (fst st = EndTop \<or> (case json_step (fst st) (snd st) CHR '' '' of
                           Some (EndTop, _) \<Rightarrow> True | _ \<Rightarrow> False))"

definition json_Valid :: "string \<Rightarrow> bool" where
  "json_Valid s = (case json_run (BeginValue, []) s of Some st \<Rightarrow> json_eof st | None \<Rightarrow> False)"

lemma json_run_append:
  "json_run st (xs @ ys) = (case json_run st xs of None \<Rightarrow> None | Some st' \<Rightarrow> json_run st' ys)"
  by (induction st xs rule: json_run.induct) (auto split: option.splits)

lemma json_Valid_nonempty: "json_Valid s \<Longrightarrow> s \<noteq> []"
  by (auto simp: json_Valid_def json_eof_def json_beginValue_def json_space_def byte_def)

end
