(* ===== verification/Identity.thy ===== *)
theory Identity
  imports GoText "HOL-Library.Word"
begin

text \<open>
  Identifiers: \<^verbatim>\<open>internal/identity/id.go\<close> (version 4 UUIDs), \<^verbatim>\<open>internal/instanceid/instanceid.go\<close>
  (local deployment names) and \<^verbatim>\<open>internal/hostkind/hostkind.go\<close>. The main results are that
  \<open>ValidateID\<close>, which ranges over runes, accepts exactly the byte grammar of a lower-case UUID,
  and that every identifier \<open>NewID\<close> produces is accepted.
\<close>

unbundle bit_operations_syntax

section \<open>UUIDs\<close>

definition hex_alphabet :: string where
  "hex_alphabet = ''0123456789abcdef''"

definition hex_encode :: "8 word list \<Rightarrow> string" where
  "hex_encode bs = concat (map (\<lambda>b. [hex_alphabet ! (unat b div 16), hex_alphabet ! (unat b mod 16)]) bs)"

text \<open>The random source is a parameter: its error, or the 16 bytes it filled in.\<close>

definition NewID :: "8 word list result \<Rightarrow> string result" where
  "NewID rand_read =
     (case rand_read of
        Inl e \<Rightarrow> Inl e
      | Inr value0 \<Rightarrow>
          (let value1 = value0[6 := (value0 ! 6 AND 0x0f) OR 0x40];
               value2 = value1[8 := (value1 ! 8 AND 0x3f) OR 0x80];
               encoded = hex_encode value2
           in Inr (take 8 encoded @ ''-'' @ take 4 (drop 8 encoded) @ ''-'' @ take 4 (drop 12 encoded)
                   @ ''-'' @ take 4 (drop 16 encoded) @ ''-'' @ take 12 (drop 20 encoded))))"

definition dash_positions :: "nat list" where
  "dash_positions = [8, 13, 18, 23]"

fun ValidateID_loop :: "(nat \<times> nat \<times> bool) list \<Rightarrow> err" where
  "ValidateID_loop [] = None"
| "ValidateID_loop ((index, c, ok) # rest) =
     (if index = 8 \<or> index = 13 \<or> index = 18 \<or> index = 23
      then if c \<noteq> byte CHR ''-'' then Some (Plain ''must be a UUID'') else ValidateID_loop rest
      else if \<not> ContainsRune hex_alphabet c then Some (Plain ''must be a UUID'')
      else ValidateID_loop rest)"

definition ValidateID :: "string \<Rightarrow> err" where
  "ValidateID value =
     (if length value \<noteq> 36 then Some (Plain ''must be a UUID'')
      else ValidateID_loop (range_string value))"

section \<open>Instance names and host kinds\<close>

fun instance_loop :: "(nat \<times> nat \<times> bool) list \<Rightarrow> err" where
  "instance_loop [] = None"
| "instance_loop ((index, c, ok) # rest) =
     (let valid = (97 \<le> c \<and> c \<le> 122) \<or> (0 < index \<and> (48 \<le> c \<and> c \<le> 57 \<or> c = byte CHR ''-''))
      in if \<not> valid
         then Some (Plain ''instanceId must start with a lowercase letter and use only lowercase letters, digits, or hyphens'')
         else instance_loop rest)"

definition InstanceID_Validate :: "string \<Rightarrow> err" where
  "InstanceID_Validate value =
     (if length value < 1 \<or> length value > 32
      then Some (Plain ''instanceId must contain 1 through 32 characters'')
      else case instance_loop (range_string value) of
             Some e \<Rightarrow> Some e
           | None \<Rightarrow>
               if value ! (length value - 1) = CHR ''-''
               then Some (Plain ''instanceId must not end with a hyphen'')
               else None)"

datatype HostKind = Codex | TraeX | HostKind_other string

definition HostKind_Validate :: "HostKind \<Rightarrow> err" where
  "HostKind_Validate k =
     (case k of
        Codex \<Rightarrow> None
      | TraeX \<Rightarrow> None
      | HostKind_other s \<Rightarrow> Some (Plain ''unsupported host kind''))"

section \<open>Facts about characters\<close>

lemma byte_inject [simp]: "byte c = byte d \<longleftrightarrow> c = d"
  by (simp add: byte_def)

lemma byte_less: "byte c < 256"
  by (simp add: byte_def)

lemma ascii_hex_alphabet: "ascii hex_alphabet"
  by (simp add: ascii_def hex_alphabet_def byte_def)

lemma ContainsRune_hex: "ContainsRune hex_alphabet (byte c) \<longleftrightarrow> c \<in> set hex_alphabet"
  by (auto simp: ContainsRune_def ascii_runes [OF ascii_hex_alphabet])

lemma ContainsRune_hex_high: "128 \<le> r \<Longrightarrow> \<not> ContainsRune hex_alphabet r"
  using ascii_hex_alphabet by (auto simp: ContainsRune_def ascii_runes ascii_def list_all_iff)

section \<open>The byte grammar of identifiers\<close>

text \<open>The loop over the runes from offset \<open>i\<close> agrees with a bytewise reading of the same suffix.\<close>

definition uuid_char :: "nat \<Rightarrow> char \<Rightarrow> bool" where
  "uuid_char i c \<longleftrightarrow>
     (if i = 8 \<or> i = 13 \<or> i = 18 \<or> i = 23 then c = CHR ''-'' else c \<in> set hex_alphabet)"

lemma ValidateID_loop_step:
  "ValidateID_loop ((i, byte c, ok) # rest) = None \<longleftrightarrow> uuid_char i c \<and> ValidateID_loop rest = None"
  by (simp add: uuid_char_def ContainsRune_hex)

lemma ValidateID_loop_high: "128 \<le> r \<Longrightarrow> ValidateID_loop ((i, r, ok) # rest) \<noteq> None"
  by (auto simp: ContainsRune_hex_high byte_def)

lemma uuid_char_ascii: "uuid_char i c \<Longrightarrow> byte c < 128"
  using ascii_hex_alphabet by (auto simp: uuid_char_def byte_def ascii_def list_all_iff split: if_splits)

lemma all_below_Suc: "(\<forall>k < Suc n. P k) \<longleftrightarrow> P 0 \<and> (\<forall>k < n. P (Suc k))"
  using less_Suc_eq_0_disj by auto

lemma ValidateID_loop_bytes:
  "ValidateID_loop (range_from i s) = None \<longleftrightarrow> (\<forall>k < length s. uuid_char (i + k) (s ! k))"
proof (induction s arbitrary: i)
  case (Cons c cs)
  have split: "(\<forall>k < length (c # cs). uuid_char (i + k) ((c # cs) ! k)) \<longleftrightarrow>
      uuid_char i c \<and> (\<forall>k < length cs. uuid_char (Suc i + k) (cs ! k))"
    by (simp add: all_below_Suc)
  show ?case
  proof (cases "byte c < 128")
    case True
    show ?thesis
      unfolding split range_from_ascii [OF True] ValidateID_loop_step Cons.IH ..
  next
    case False
    then obtain r ok rest where "range_from i (c # cs) = (i, r, ok) # rest" "128 \<le> r"
      using range_from_high [of c i cs] by auto
    then show ?thesis
      unfolding split using False ValidateID_loop_high uuid_char_ascii by metis
  qed
qed simp

lemma ValidateID_bytes:
  "ValidateID v = None \<longleftrightarrow> length v = 36 \<and> (\<forall>k < 36. uuid_char k (v ! k))"
  by (auto simp: ValidateID_def range_string_def ValidateID_loop_bytes)

lemma ValidateID_nonempty: "ValidateID v = None \<Longrightarrow> v \<noteq> []"
  by (auto simp: ValidateID_def)

lemma ValidateID_empty [simp]: "ValidateID [] = Some (Plain ''must be a UUID'')"
  by (simp add: ValidateID_def)

lemma ValidateID_length: "ValidateID v = None \<Longrightarrow> length v = 36"
  by (simp add: ValidateID_bytes)

lemma hex_alphabet_nth: "n < 16 \<Longrightarrow> hex_alphabet ! n \<in> set hex_alphabet"
  by (intro nth_mem) (simp add: hex_alphabet_def)

lemma length_hex_encode [simp]: "length (hex_encode bs) = 2 * length bs"
  by (induction bs) (auto simp: hex_encode_def)

lemma set_hex_encode: "set (hex_encode bs) \<subseteq> set hex_alphabet"
proof -
  have "unat b div 16 < 16" for b :: "8 word"
    using unsigned_less [of b, where 'a = nat] by simp
  then show ?thesis
    by (auto simp: hex_encode_def hex_alphabet_nth)
qed

lemma grouped_uuid:
  assumes "set (a @ b @ c @ d @ e) \<subseteq> set hex_alphabet"
    and "length a = 8" "length b = 4" "length c = 4" "length d = 4" "length e = 12"
  shows "ValidateID (a @ ''-'' @ b @ ''-'' @ c @ ''-'' @ d @ ''-'' @ e) = None"
proof -
  have "uuid_char k ((a @ ''-'' @ b @ ''-'' @ c @ ''-'' @ d @ ''-'' @ e) ! k)" if "k < 36" for k
  proof -
    consider "k < 8" | "k = 8" | "8 < k" "k < 13" | "k = 13" | "13 < k" "k < 18" | "k = 18"
      | "18 < k" "k < 23" | "k = 23" | "23 < k"
      by linarith
    then show ?thesis
      using assms that
      by cases (auto simp: uuid_char_def nth_append nth_Cons' subset_iff)
  qed
  then show ?thesis using assms by (simp add: ValidateID_bytes)
qed

lemma NewID_ValidateID:
  assumes "length value = 16" "NewID (Inr value) = Inr v"
  shows "ValidateID v = None"
proof -
  define encoded where
    "encoded = hex_encode ((value[6 := (value ! 6 AND 0x0f) OR 0x40])
       [8 := (value[6 := (value ! 6 AND 0x0f) OR 0x40] ! 8 AND 0x3f) OR 0x80])"
  have len: "length encoded = 32" using assms(1) by (simp add: encoded_def)
  have hex: "set encoded \<subseteq> set hex_alphabet" unfolding encoded_def by (rule set_hex_encode)
  have v: "v = take 8 encoded @ ''-'' @ take 4 (drop 8 encoded) @ ''-'' @ take 4 (drop 12 encoded)
      @ ''-'' @ take 4 (drop 16 encoded) @ ''-'' @ take 12 (drop 20 encoded)"
    using assms(2) by (simp add: NewID_def Let_def encoded_def)
  show ?thesis
    unfolding v using len hex by (intro grouped_uuid) (auto dest!: in_set_takeD in_set_dropD)
qed

section \<open>Concrete identifiers\<close>

text \<open>A family of concrete identifiers, one per hexadecimal digit, for closed instances.\<close>

definition uid :: "char \<Rightarrow> string" where
  "uid c = replicate 8 c @ ''-'' @ replicate 4 c @ ''-'' @ replicate 4 c @ ''-'' @ replicate 4 c
     @ ''-'' @ replicate 12 c"

lemma uid_valid: "c \<in> set hex_alphabet \<Longrightarrow> ValidateID (uid c) = None"
  unfolding uid_def by (rule grouped_uuid) auto

lemma uid_hd: "hd (uid c) = c"
  by (simp add: uid_def)

lemma uid_eq [simp]: "uid c = uid d \<longleftrightarrow> c = d"
  by (metis uid_hd)

lemma uid_nonempty [simp]: "uid c \<noteq> []" "[] \<noteq> uid c"
  by (simp_all add: uid_def)

lemma uid_digits [simp]:
  "ValidateID (uid CHR ''0'') = None" "ValidateID (uid CHR ''1'') = None"
  "ValidateID (uid CHR ''2'') = None" "ValidateID (uid CHR ''3'') = None"
  "ValidateID (uid CHR ''4'') = None" "ValidateID (uid CHR ''5'') = None"
  "ValidateID (uid CHR ''6'') = None" "ValidateID (uid CHR ''7'') = None"
  "ValidateID (uid CHR ''8'') = None" "ValidateID (uid CHR ''9'') = None"
  "ValidateID (uid CHR ''a'') = None" "ValidateID (uid CHR ''b'') = None"
  "ValidateID (uid CHR ''c'') = None" "ValidateID (uid CHR ''d'') = None"
  "ValidateID (uid CHR ''e'') = None" "ValidateID (uid CHR ''f'') = None"
  by (auto intro!: uid_valid simp: hex_alphabet_def)

lemma length_uid [simp]: "length (uid c) = 36"
  by (simp add: uid_def)

end
