(* ===== verification/Control.thy ===== *)
theory Control
  imports Identity
begin

text \<open>
  The control-plane data model, \<^verbatim>\<open>internal/control/model.go\<close>: capabilities, principals with their
  role-derived capability lists, devices and their descriptors, trees. Capabilities keep their wire
  strings, because \<open>Principal.Has\<close> searches them by binary search in string order.
\<close>

section \<open>Capabilities\<close>

type_synonym Capability = string

definition CapabilityDeviceRead :: Capability where "CapabilityDeviceRead = ''device.read''"
definition CapabilityAgentSpawn :: Capability where "CapabilityAgentSpawn = ''agent.spawn''"
definition CapabilityAgentManageDescendants :: Capability where
  "CapabilityAgentManageDescendants = ''agent.manage.descendants''"
definition CapabilityWorkspaceSync :: Capability where "CapabilityWorkspaceSync = ''workspace.sync''"
definition CapabilityMessageTree :: Capability where "CapabilityMessageTree = ''message.tree''"
definition CapabilityArtifactApply :: Capability where "CapabilityArtifactApply = ''artifact.apply''"
definition CapabilityMessageSendParent :: Capability where
  "CapabilityMessageSendParent = ''message.send.parent''"
definition CapabilityMessageReceiveSelf :: Capability where
  "CapabilityMessageReceiveSelf = ''message.receive.self''"
definition CapabilityArtifactPublishSelf :: Capability where
  "CapabilityArtifactPublishSelf = ''artifact.publish.self''"

lemmas capability_defs =
  CapabilityDeviceRead_def CapabilityAgentSpawn_def CapabilityAgentManageDescendants_def
  CapabilityWorkspaceSync_def CapabilityMessageTree_def CapabilityArtifactApply_def
  CapabilityMessageSendParent_def CapabilityMessageReceiveSelf_def CapabilityArtifactPublishSelf_def

definition RootCapabilities :: "Capability list" where
  "RootCapabilities =
     [CapabilityAgentManageDescendants, CapabilityAgentSpawn, CapabilityArtifactApply,
      CapabilityDeviceRead, CapabilityMessageTree, CapabilityWorkspaceSync]"

definition WorkerCapabilities :: "Capability list" where
  "WorkerCapabilities =
     [CapabilityArtifactPublishSelf, CapabilityMessageReceiveSelf, CapabilityMessageSendParent]"

definition Capability_Validate :: "Capability \<Rightarrow> err" where
  "Capability_Validate c =
     (if c \<in> set [CapabilityDeviceRead, CapabilityAgentSpawn, CapabilityAgentManageDescendants,
                  CapabilityWorkspaceSync, CapabilityMessageTree, CapabilityArtifactApply,
                  CapabilityMessageSendParent, CapabilityMessageReceiveSelf, CapabilityArtifactPublishSelf]
      then None else Some (Plain ''unsupported capability''))"

section \<open>Principals\<close>

record PrincipalIdentity =
  pi_ControllerID :: string
  pi_TreeID :: string
  pi_AgentID :: string
  pi_ParentAgentID :: string
  pi_DeviceID :: string

record Principal =
  p_Identity :: PrincipalIdentity
  p_Capabilities :: "Capability list"

definition NewRootPrincipal :: "string \<Rightarrow> string \<Rightarrow> string \<Rightarrow> string \<Rightarrow> Principal" where
  "NewRootPrincipal controllerID treeID agentID deviceID =
     \<lparr>p_Identity = \<lparr>pi_ControllerID = controllerID, pi_TreeID = treeID, pi_AgentID = agentID,
                    pi_ParentAgentID = '''', pi_DeviceID = deviceID\<rparr>,
      p_Capabilities = RootCapabilities\<rparr>"

definition NewWorkerPrincipal :: "string \<Rightarrow> string \<Rightarrow> string \<Rightarrow> string \<Rightarrow> string \<Rightarrow> Principal" where
  "NewWorkerPrincipal controllerID treeID agentID parentAgentID deviceID =
     \<lparr>p_Identity = \<lparr>pi_ControllerID = controllerID, pi_TreeID = treeID, pi_AgentID = agentID,
                    pi_ParentAgentID = parentAgentID, pi_DeviceID = deviceID\<rparr>,
      p_Capabilities = WorkerCapabilities\<rparr>"

definition PrincipalIdentity_Validate :: "PrincipalIdentity \<Rightarrow> err" where
  "PrincipalIdentity_Validate p = first_err
     [wrap ''controllerId'' (ValidateID (pi_ControllerID p)),
      wrap ''treeId'' (ValidateID (pi_TreeID p)),
      wrap ''agentId'' (ValidateID (pi_AgentID p)),
      wrap ''deviceId'' (ValidateID (pi_DeviceID p)),
      (if pi_ParentAgentID p \<noteq> '''' then first_err
         [wrap ''parentAgentId'' (ValidateID (pi_ParentAgentID p)),
          fail_if (pi_ParentAgentID p = pi_AgentID p) (Plain ''parentAgentId must differ from agentId'')]
       else None)]"

definition Principal_Validate :: "Principal \<Rightarrow> err" where
  "Principal_Validate p = first_err
     [PrincipalIdentity_Validate (p_Identity p),
      (let expected = (if pi_ParentAgentID (p_Identity p) \<noteq> '''' then WorkerCapabilities else RootCapabilities)
       in fail_if (p_Capabilities p \<noteq> expected) (Plain ''capabilities do not match the principal role''))]"

definition Principal_Has :: "Principal \<Rightarrow> Capability \<Rightarrow> bool" where
  "Principal_Has p capability = snd (BinarySearch (p_Capabilities p) capability)"

definition Principal_Matches :: "Principal \<Rightarrow> PrincipalIdentity \<Rightarrow> bool" where
  "Principal_Matches p identity \<longleftrightarrow> p_Identity p = identity"

definition Require :: "Principal \<Rightarrow> Capability \<Rightarrow> err" where
  "Require p capability = first_err
     [wrap ''invalid principal'' (Principal_Validate p),
      fail_if (\<not> Principal_Has p capability) (Plain ''principal lacks capability'')]"

section \<open>Devices\<close>

record DeviceDescriptor =
  dd_ControllerID :: string
  dd_DeviceID :: string
  dd_Name :: string
  dd_OS :: string
  dd_Arch :: string
  dd_RuntimeVersion :: string
  dd_ProtocolVersion :: int
  dd_Features :: "string list"

record Device =
  dev_ControllerID :: string
  dev_DeviceID :: string
  dev_Name :: string
  dev_OS :: string
  dev_Arch :: string
  dev_RuntimeVersion :: string
  dev_ProtocolVersion :: int
  dev_Features :: "string list"
  dev_Online :: bool
  dev_LastSeenAt :: int
  dev_Revision :: nat

definition featurePattern :: "string \<Rightarrow> bool" where
  "featurePattern s \<longleftrightarrow>
     match_ident (\<lambda>c. upper c \<or> lower c)
       (\<lambda>c. upper c \<or> lower c \<or> digit c \<or> c \<in> set ''._-'') s \<and> length s \<le> 64"

definition validateBoundedText :: "string \<Rightarrow> string \<Rightarrow> nat \<Rightarrow> err" where
  "validateBoundedText name value limit = first_err
     [fail_if (TrimSpace_empty value \<or> length value > limit) (Wrapped name (Plain ''must contain 1 through limit bytes'')),
      fail_if (\<not> ValidString value \<or> list_ex unicode_IsControl (runes value))
        (Wrapped name (Plain ''must be valid text without control characters''))]"

definition ValidateDeviceName :: "string \<Rightarrow> err" where
  "ValidateDeviceName name = validateBoundedText ''name'' name 128"

definition validate_features :: "string list \<Rightarrow> err" where
  "validate_features features =
     sorted_unique_loop
       (\<lambda>feature. fail_if (\<not> featurePattern feature)
          (Plain ''feature names must use letters, digits, dot, underscore, or hyphen''))
       (Plain ''features must be sorted and unique'') '''' features"

definition DeviceDescriptor_Validate :: "DeviceDescriptor \<Rightarrow> err" where
  "DeviceDescriptor_Validate d = first_err
     [wrap ''controllerId'' (ValidateID (dd_ControllerID d)),
      wrap ''deviceId'' (ValidateID (dd_DeviceID d)),
      validateBoundedText ''name'' (dd_Name d) 128,
      validateBoundedText ''os'' (dd_OS d) 32,
      validateBoundedText ''arch'' (dd_Arch d) 32,
      validateBoundedText ''runtimeVersion'' (dd_RuntimeVersion d) 64,
      fail_if (dd_ProtocolVersion d < 1) (Plain ''protocolVersion must be positive''),
      fail_if (length (dd_Features d) > 64) (Plain ''features exceeds limit of 64''),
      validate_features (dd_Features d)]"

definition Device_Descriptor :: "Device \<Rightarrow> DeviceDescriptor" where
  "Device_Descriptor d =
     \<lparr>dd_ControllerID = dev_ControllerID d, dd_DeviceID = dev_DeviceID d, dd_Name = dev_Name d,
      dd_OS = dev_OS d, dd_Arch = dev_Arch d, dd_RuntimeVersion = dev_RuntimeVersion d,
      dd_ProtocolVersion = dev_ProtocolVersion d, dd_Features = dev_Features d\<rparr>"

definition Device_Validate :: "Device \<Rightarrow> err" where
  "Device_Validate d = first_err
     [DeviceDescriptor_Validate (Device_Descriptor d),
      fail_if (dev_LastSeenAt d < 0) (Plain ''lastSeenAt must not be negative''),
      fail_if (dev_Revision d = 0) (Plain ''revision must be positive'')]"

section \<open>Trees\<close>

record Tree =
  tr_ControllerID :: string
  tr_TreeID :: string
  tr_ExternalThreadID :: string
  tr_RootAgentID :: string
  tr_RootDeviceID :: string
  tr_CreatedAt :: int

definition Tree_Validate :: "Tree \<Rightarrow> err" where
  "Tree_Validate t = first_err
     [wrap ''controllerId'' (ValidateID (tr_ControllerID t)),
      wrap ''treeId'' (ValidateID (tr_TreeID t)),
      wrap ''externalThreadId'' (ValidateID (tr_ExternalThreadID t)),
      wrap ''rootAgentId'' (ValidateID (tr_RootAgentID t)),
      wrap ''rootDeviceId'' (ValidateID (tr_RootDeviceID t)),
      fail_if (tr_CreatedAt t < 0) (Plain ''createdAt must not be negative'')]"

section \<open>Facts\<close>

lemma capabilities_sorted: "sorted RootCapabilities" "sorted WorkerCapabilities"
  by (simp_all add: RootCapabilities_def WorkerCapabilities_def capability_defs less_eq_list_code less_char_def less_eq_char_def)

definition role_capabilities :: "PrincipalIdentity \<Rightarrow> Capability set" where
  "role_capabilities p = (if pi_ParentAgentID p = '''' then set RootCapabilities else set WorkerCapabilities)"

lemma Principal_Validate_capabilities:
  assumes "Principal_Validate p = None"
  shows "sorted (p_Capabilities p)" "set (p_Capabilities p) = role_capabilities (p_Identity p)"
  using assms capabilities_sorted
  by (auto simp: Principal_Validate_def Let_def role_capabilities_def split: if_splits)

lemma Principal_Has_role:
  assumes "Principal_Validate p = None"
  shows "Principal_Has p c \<longleftrightarrow> c \<in> role_capabilities (p_Identity p)"
  using Principal_Validate_capabilities [OF assms] by (simp add: Principal_Has_def BinarySearch_iff)

lemma Require_role:
  "Require p c = None \<longleftrightarrow> Principal_Validate p = None \<and> c \<in> role_capabilities (p_Identity p)"
  by (auto simp: Require_def Principal_Has_role)

lemma roles_disjoint: "set RootCapabilities \<inter> set WorkerCapabilities = {}"
  by (simp add: RootCapabilities_def WorkerCapabilities_def capability_defs)

lemma featurePattern_nonempty: "featurePattern s \<Longrightarrow> s \<noteq> []"
  by (auto simp: featurePattern_def)

lemma validate_features_None:
  "validate_features fs = None \<longleftrightarrow> (\<forall>f \<in> set fs. featurePattern f) \<and> sorted_wrt (<) fs"
  unfolding validate_features_def
  by (subst sorted_unique_loop_sound) (auto simp: featurePattern_nonempty)

end
