(* ===== verification/Readiness.thy ===== *)
theory Readiness
  imports Control
begin

text \<open>
  The worker readiness snapshot of \<^verbatim>\<open>internal/protocol/worker_readiness.go\<close>: an epoch, a state, a
  bounded attempt count and its schedule. Times are Unix milliseconds, durations are nanoseconds
  as in \<^verbatim>\<open>time.Duration\<close>.
\<close>

definition MaximumReadinessAttempts :: int where
  "MaximumReadinessAttempts = 5"

definition time_Second :: int where
  "time_Second = 1000000000"

definition time_Millisecond :: int where
  "time_Millisecond = 1000000"

definition workerReadinessAttemptOffsets :: "int list" where
  "workerReadinessAttemptOffsets =
     [0, 10 * time_Second, 30 * time_Second, 120 * time_Second, 420 * time_Second]"

definition WorkerReadinessAttemptOffset :: "int \<Rightarrow> int result" where
  "WorkerReadinessAttemptOffset attempt =
     (if attempt < 0 \<or> attempt \<ge> int (length workerReadinessAttemptOffsets)
      then Inl (Plain ''worker readiness attempt must be from 0 through 4'')
      else Inr (workerReadinessAttemptOffsets ! nat attempt))"

datatype WorkerReadinessState =
    WorkerReadinessPending
  | WorkerReadinessReady
  | WorkerReadinessInterventionRequired
  | WorkerReadinessState_other string

definition WorkerRequalificationExhausted :: string where
  "WorkerRequalificationExhausted = ''worker_requalification_exhausted''"
definition WorkerInterventionRequiredCode :: string where
  "WorkerInterventionRequiredCode = ''intervention_required''"

definition readinessDigestPattern :: "string \<Rightarrow> bool" where
  "readinessDigestPattern s = match_exact hexdigit 64 s"

definition readinessFailurePattern :: "string \<Rightarrow> bool" where
  "readinessFailurePattern s \<longleftrightarrow>
     match_ident lower (\<lambda>c. lower c \<or> digit c \<or> c = CHR ''_'') s \<and> length s \<le> 64"

record WorkerInterventionRequiredErrorData =
  wie_Code :: string
  wie_FailureCode :: string

definition WorkerInterventionRequiredErrorData_Validate ::
    "WorkerInterventionRequiredErrorData \<Rightarrow> err" where
  "WorkerInterventionRequiredErrorData_Validate d = first_err
     [fail_if (wie_Code d \<noteq> WorkerInterventionRequiredCode)
        (Plain ''worker intervention error code is invalid''),
      fail_if (\<not> readinessFailurePattern (wie_FailureCode d))
        (Plain ''worker intervention failureCode is invalid'')]"

record WorkerReadiness =
  wr_Epoch :: nat
  wr_State :: WorkerReadinessState
  wr_AttemptCount :: int
  wr_RuntimeDigest :: string
  wr_ConfigDigest :: string
  wr_EpochStartedAt :: int
  wr_NextAttemptAt :: int
  wr_LastAttemptAt :: int
  wr_FailureCode :: string
  wr_UpdatedAt :: int

record WorkerReadinessCursor =
  wrc_Epoch :: nat
  wrc_UpdatedAt :: int

definition WorkerReadinessCursor_Validate :: "WorkerReadinessCursor \<Rightarrow> err" where
  "WorkerReadinessCursor_Validate c =
     fail_if (wrc_Epoch c = 0 \<or> wrc_UpdatedAt c \<le> 0) (Plain ''worker readiness cursor must be positive'')"

definition WorkerReadiness_Cursor :: "WorkerReadiness \<Rightarrow> WorkerReadinessCursor" where
  "WorkerReadiness_Cursor r = \<lparr>wrc_Epoch = wr_Epoch r, wrc_UpdatedAt = wr_UpdatedAt r\<rparr>"

definition WorkerReadinessCursor_Before :: "WorkerReadinessCursor \<Rightarrow> WorkerReadiness \<Rightarrow> bool" where
  "WorkerReadinessCursor_Before c readiness \<longleftrightarrow>
     wrc_Epoch c < wr_Epoch readiness
     \<or> wrc_Epoch c = wr_Epoch readiness \<and> wrc_UpdatedAt c < wr_UpdatedAt readiness"

definition NewPendingWorkerReadiness :: "string \<Rightarrow> string \<Rightarrow> int \<Rightarrow> WorkerReadiness" where
  "NewPendingWorkerReadiness runtimeDigest configDigest nowMillis =
     \<lparr>wr_Epoch = 1, wr_State = WorkerReadinessPending, wr_AttemptCount = 0,
      wr_RuntimeDigest = runtimeDigest, wr_ConfigDigest = configDigest,
      wr_EpochStartedAt = nowMillis, wr_NextAttemptAt = nowMillis, wr_LastAttemptAt = 0,
      wr_FailureCode = '''', wr_UpdatedAt = nowMillis\<rparr>"

definition WorkerReadiness_Validate :: "WorkerReadiness \<Rightarrow> err" where
  "WorkerReadiness_Validate r = first_err
     [fail_if (wr_Epoch r = 0) (Plain ''worker readiness epoch must be positive''),
      fail_if (\<not> readinessDigestPattern (wr_RuntimeDigest r) \<or> \<not> readinessDigestPattern (wr_ConfigDigest r))
        (Plain ''worker readiness digests must be lowercase SHA-256''),
      fail_if (wr_AttemptCount r < 0 \<or> wr_AttemptCount r > MaximumReadinessAttempts)
        (Plain ''worker readiness attemptCount must be from 0 through 5''),
      fail_if (wr_EpochStartedAt r \<le> 0 \<or> wr_NextAttemptAt r < 0 \<or> wr_LastAttemptAt r < 0 \<or> wr_UpdatedAt r \<le> 0)
        (Plain ''worker readiness epoch and update timestamps must be positive''),
      fail_if (wr_UpdatedAt r < wr_EpochStartedAt r
               \<or> wr_LastAttemptAt r \<noteq> 0 \<and> wr_LastAttemptAt r < wr_EpochStartedAt r
               \<or> wr_NextAttemptAt r \<noteq> 0 \<and> wr_NextAttemptAt r < wr_EpochStartedAt r)
        (Plain ''worker readiness timestamps precede the epoch''),
      fail_if (wr_FailureCode r \<noteq> '''' \<and> \<not> readinessFailurePattern (wr_FailureCode r))
        (Plain ''worker readiness failureCode is invalid''),
      (case wr_State r of
         WorkerReadinessPending \<Rightarrow> first_err
           [fail_if (wr_AttemptCount r < MaximumReadinessAttempts \<and> wr_NextAttemptAt r = 0)
              (Plain ''pending worker readiness must have a scheduled remaining attempt''),
            fail_if (wr_AttemptCount r = MaximumReadinessAttempts \<and> wr_NextAttemptAt r \<noteq> 0)
              (Plain ''pending worker readiness with a consumed attempt budget must not be scheduled'')]
       | WorkerReadinessReady \<Rightarrow>
           fail_if (wr_AttemptCount r < 1 \<or> wr_NextAttemptAt r \<noteq> 0 \<or> wr_FailureCode r \<noteq> '''')
             (Plain ''ready worker readiness is inconsistent'')
       | WorkerReadinessInterventionRequired \<Rightarrow>
           fail_if (wr_NextAttemptAt r \<noteq> 0 \<or> wr_FailureCode r = '''')
             (Plain ''intervention-required worker readiness is inconsistent'')
       | WorkerReadinessState_other s \<Rightarrow> Some (Plain ''unsupported worker readiness state'')),
      fail_if (wr_AttemptCount r = 0 \<and> wr_LastAttemptAt r \<noteq> 0)
        (Plain ''worker readiness without attempts must not have lastAttemptAt''),
      fail_if (wr_AttemptCount r > 0 \<and> wr_LastAttemptAt r = 0)
        (Plain ''worker readiness attempts require lastAttemptAt'')]"

definition IsReady :: "WorkerReadiness \<Rightarrow> bool" where
  "IsReady r \<longleftrightarrow> wr_State r = WorkerReadinessReady"

section \<open>Facts\<close>

lemma readinessFailurePattern_nonempty: "readinessFailurePattern s \<Longrightarrow> s \<noteq> []"
  by (auto simp: readinessFailurePattern_def)

lemma NewPending_valid:
  assumes "readinessDigestPattern rd" "readinessDigestPattern cd" "0 < now"
  shows "WorkerReadiness_Validate (NewPendingWorkerReadiness rd cd now) = None"
  using assms by (simp add: WorkerReadiness_Validate_def NewPendingWorkerReadiness_def MaximumReadinessAttempts_def)

lemma WorkerReadiness_Validate_attempts:
  "WorkerReadiness_Validate r = None \<Longrightarrow> 0 \<le> wr_AttemptCount r \<and> wr_AttemptCount r \<le> 5"
  by (simp add: WorkerReadiness_Validate_def MaximumReadinessAttempts_def)

text \<open>The cursor order is the lexicographic order of epoch and update time, so it is a strict order.\<close>

lemma Before_iff:
  "WorkerReadinessCursor_Before (WorkerReadiness_Cursor a) b \<longleftrightarrow>
     (wr_Epoch a, wr_UpdatedAt a) \<noteq> (wr_Epoch b, wr_UpdatedAt b) \<and>
     (wr_Epoch a < wr_Epoch b \<or> wr_Epoch a = wr_Epoch b \<and> wr_UpdatedAt a \<le> wr_UpdatedAt b)"
  by (auto simp: WorkerReadinessCursor_Before_def WorkerReadiness_Cursor_def)

lemma Before_trans:
  "WorkerReadinessCursor_Before (WorkerReadiness_Cursor a) b \<Longrightarrow>
   WorkerReadinessCursor_Before (WorkerReadiness_Cursor b) c \<Longrightarrow>
   WorkerReadinessCursor_Before (WorkerReadiness_Cursor a) c"
  by (auto simp: WorkerReadinessCursor_Before_def WorkerReadiness_Cursor_def)

end
