(* ===== verification/Protocol.thy ===== *)
theory Protocol
  imports GoJson Readiness
begin

text \<open>
  The wire protocol of \<^verbatim>\<open>internal/protocol/protocol.go\<close>: request identifiers, envelopes and their
  error objects, the hello handshake and the registry requests. Envelope payloads and error data
  are raw bytes.
\<close>

definition Version :: int where "Version = 7"
definition MaxErrorDataSize :: nat where "MaxErrorDataSize = 1024"

section \<open>Request identifiers\<close>

datatype RequestDirection = DirectionBroker | DirectionConnector | DirectionLocal | Direction_other string

fun direction_string :: "RequestDirection \<Rightarrow> string" where
  "direction_string DirectionBroker = ''b''"
| "direction_string DirectionConnector = ''c''"
| "direction_string DirectionLocal = ''l''"
| "direction_string (Direction_other s) = s"

definition direction_of_string :: "string \<Rightarrow> RequestDirection" where
  "direction_of_string s =
     (if s = ''b'' then DirectionBroker else if s = ''c'' then DirectionConnector
      else if s = ''l'' then DirectionLocal else Direction_other s)"

definition NewRequestID :: "8 word list result \<Rightarrow> RequestDirection \<Rightarrow> string result" where
  "NewRequestID rand_read direction =
     (case direction of
        Direction_other s \<Rightarrow> Inl (Plain ''unsupported request direction'')
      | _ \<Rightarrow> (case NewID rand_read of
                Inl e \<Rightarrow> Inl e
              | Inr i \<Rightarrow> Inr (direction_string direction @ ''_'' @ i)))"

definition validateRequestID :: "string \<Rightarrow> err" where
  "validateRequestID value =
     (if length value \<noteq> 38 \<or> value ! 1 \<noteq> CHR ''_''
      then Some (Plain ''must contain a direction prefix and UUID'')
      else case direction_of_string (take 1 value) of
             Direction_other s \<Rightarrow> Some (Plain ''has an unsupported direction prefix'')
           | _ \<Rightarrow> ValidateID (drop 2 value))"

definition CancelRequestParams_Validate :: "string \<Rightarrow> err" where
  "CancelRequestParams_Validate requestID = first_err
     [wrap ''requestId'' (validateRequestID requestID),
      fail_if (take 2 requestID \<noteq> direction_string DirectionConnector @ ''_'')
        (Plain ''requestId must identify a connector request'')]"

section \<open>Envelopes\<close>

datatype Kind = KindRequest | KindResponse | KindNotification | Kind_other string

record ProtoError =
  pe_Code :: int
  pe_Message :: string
  pe_Data :: string

record Envelope =
  en_ProtocolVersion :: int
  en_Kind :: Kind
  en_RequestID :: string
  en_ReplyTo :: string
  en_Method :: string
  en_ControllerID :: string
  en_TreeID :: string
  en_Source :: "PrincipalIdentity option"
  en_Sequence :: nat
  en_Cursor :: nat
  en_Payload :: string
  en_Error :: "ProtoError option"

definition methodPattern :: "string \<Rightarrow> bool" where
  "methodPattern s \<longleftrightarrow>
     match_ident lower (\<lambda>c. lower c \<or> digit c \<or> c = CHR ''_'' \<or> c = CHR ''.'') s \<and> length s \<le> 64"

definition error_codes :: "int list" where
  "error_codes = [-32700, -32600, -32601, -32602, -32603, -32001, -32003, -32004, -32009, -32010]"

definition Error_Validate :: "ProtoError \<Rightarrow> err" where
  "Error_Validate e = first_err
     [fail_if (pe_Code e \<notin> set error_codes \<and> (pe_Code e < -32099 \<or> pe_Code e > -32000))
        (Plain ''unsupported protocol error code''),
      fail_if (TrimSpace_empty (pe_Message e) \<or> length (pe_Message e) > 512)
        (Plain ''protocol error message must contain 1 through 512 bytes''),
      fail_if (length (pe_Data e) > MaxErrorDataSize) (Plain ''protocol error data exceeds 1024 bytes''),
      fail_if (length (pe_Data e) \<noteq> 0 \<and> \<not> json_Valid (pe_Data e))
        (Plain ''protocol error data must be valid JSON'')]"

definition Envelope_Validate :: "Envelope \<Rightarrow> err" where
  "Envelope_Validate e = first_err
     [fail_if (en_ProtocolVersion e \<noteq> Version) (Plain ''unsupported protocol version''),
      wrap ''requestId'' (validateRequestID (en_RequestID e)),
      wrap ''controllerId'' (ValidateID (en_ControllerID e)),
      (if en_TreeID e \<noteq> '''' then wrap ''treeId'' (ValidateID (en_TreeID e)) else None),
      (case en_Source e of
         None \<Rightarrow> None
       | Some source \<Rightarrow> first_err
           [wrap ''source'' (PrincipalIdentity_Validate source),
            fail_if (pi_ControllerID source \<noteq> en_ControllerID e)
              (Plain ''source controllerId does not match envelope''),
            fail_if (en_TreeID e = '''' \<or> pi_TreeID source \<noteq> en_TreeID e)
              (Plain ''source treeId does not match envelope'')]),
      (case en_Kind e of
         KindRequest \<Rightarrow> first_err
           [fail_if (en_ReplyTo e \<noteq> '''' \<or> en_Error e \<noteq> None)
              (Plain ''request must not contain replyTo or error''),
            fail_if (\<not> methodPattern (en_Method e)) (Plain ''request method is invalid'')]
       | KindResponse \<Rightarrow> first_err
           [wrap ''replyTo'' (validateRequestID (en_ReplyTo e)),
            fail_if (en_Method e \<noteq> '''') (Plain ''response must not contain method''),
            fail_if (en_Error e \<noteq> None \<and> length (en_Payload e) \<noteq> 0)
              (Plain ''response must not contain both payload and error''),
            (case en_Error e of None \<Rightarrow> None | Some x \<Rightarrow> Error_Validate x)]
       | KindNotification \<Rightarrow> first_err
           [fail_if (en_ReplyTo e \<noteq> '''' \<or> en_Error e \<noteq> None)
              (Plain ''notification must not contain replyTo or error''),
            fail_if (\<not> methodPattern (en_Method e)) (Plain ''notification method is invalid'')]
       | Kind_other s \<Rightarrow> Some (Plain ''unsupported envelope kind''))]"

section \<open>Hello\<close>

record Hello =
  he_ControllerID :: string
  he_DeviceID :: string
  he_DeviceName :: string
  he_HostKind :: HostKind
  he_OS :: string
  he_Arch :: string
  he_RuntimeVersion :: string
  he_Features :: "string list"
  he_Cursor :: nat
  he_WorkerBaselineRevision :: nat
  he_WorkerRevision :: nat
  he_WorkerReadiness :: WorkerReadiness

definition Hello_Descriptor :: "Hello \<Rightarrow> DeviceDescriptor" where
  "Hello_Descriptor h =
     \<lparr>dd_ControllerID = he_ControllerID h, dd_DeviceID = he_DeviceID h, dd_Name = he_DeviceName h,
      dd_OS = he_OS h, dd_Arch = he_Arch h, dd_RuntimeVersion = he_RuntimeVersion h,
      dd_ProtocolVersion = Version, dd_Features = he_Features h\<rparr>"

definition Hello_Validate :: "Hello \<Rightarrow> err" where
  "Hello_Validate h = first_err
     [HostKind_Validate (he_HostKind h),
      DeviceDescriptor_Validate (Hello_Descriptor h),
      fail_if (he_WorkerBaselineRevision h > he_WorkerRevision h)
        (Plain ''workerBaselineRevision exceeds workerRevision''),
      fail_if (int (he_WorkerRevision h) > MaxInt64) (Plain ''workerRevision exceeds the supported range''),
      WorkerReadiness_Validate (he_WorkerReadiness h)]"

section \<open>Registry requests\<close>

definition EnsureRootTreeParams_Validate :: "string \<Rightarrow> err" where
  "EnsureRootTreeParams_Validate externalThreadID =
     wrap ''externalThreadId'' (ValidateID externalThreadID)"

record ListDevicesParams =
  ld_AfterDeviceID :: string
  ld_Limit :: int
  ld_ExpectedRevision :: "nat option"

definition ListDevicesParams_Validate :: "ListDevicesParams \<Rightarrow> int \<Rightarrow> err" where
  "ListDevicesParams_Validate p maximumLimit = first_err
     [(if ld_AfterDeviceID p \<noteq> '''' then first_err
         [wrap ''afterDeviceId'' (ValidateID (ld_AfterDeviceID p)),
          fail_if (ld_ExpectedRevision p = None) (Plain ''afterDeviceId requires expectedRevision'')]
       else None),
      fail_if (ld_Limit p < 1 \<or> ld_Limit p > maximumLimit) (Plain ''limit must be from 1 through the maximum'')]"

definition DescribeDeviceParams_Validate :: "string \<Rightarrow> err" where
  "DescribeDeviceParams_Validate deviceID = wrap ''deviceId'' (ValidateID deviceID)"

section \<open>Facts\<close>

lemma validateRequestID_iff:
  "validateRequestID v = None \<longleftrightarrow>
     (\<exists>d \<in> {''b'', ''c'', ''l''}. \<exists>i. v = d @ ''_'' @ i \<and> ValidateID i = None)"
proof
  assume ok: "validateRequestID v = None"
  then have len: "length v = 38" and us: "v ! 1 = CHR ''_''"
    by (auto simp: validateRequestID_def split: if_splits)
  obtain c cs where v: "v = c # CHR ''_'' # cs"
    using len us by (cases v; cases "tl v") auto
  have "direction_of_string [c] \<noteq> Direction_other s" for s
    using ok v len by (auto simp: validateRequestID_def split: RequestDirection.splits)
  moreover have "direction_of_string [c] = Direction_other [c]" if "[c] \<notin> {''b'', ''c'', ''l''}"
    using that by (simp add: direction_of_string_def)
  ultimately have "[c] \<in> {''b'', ''c'', ''l''}"
    by blast
  moreover have "ValidateID cs = None"
    using ok v len by (auto simp: validateRequestID_def split: RequestDirection.splits)
  ultimately show "\<exists>d \<in> {''b'', ''c'', ''l''}. \<exists>i. v = d @ ''_'' @ i \<and> ValidateID i = None"
    using v by auto
next
  assume "\<exists>d \<in> {''b'', ''c'', ''l''}. \<exists>i. v = d @ ''_'' @ i \<and> ValidateID i = None"
  then obtain d i where "d \<in> {''b'', ''c'', ''l''}" "v = d @ ''_'' @ i" "ValidateID i = None"
    by blast
  then show "validateRequestID v = None"
    using ValidateID_length [of i] by (auto simp: validateRequestID_def direction_of_string_def)
qed

lemma NewRequestID_validates:
  assumes "length value = 16" "NewRequestID (Inr value) direction = Inr v"
  shows "validateRequestID v = None"
proof -
  obtain i where i: "NewID (Inr value) = Inr i" "v = direction_string direction @ ''_'' @ i"
    and d: "direction_string direction \<in> {''b'', ''c'', ''l''}"
    using assms(2) by (cases direction) (auto simp: NewRequestID_def split: sum.splits)
  then show ?thesis
    using NewID_ValidateID [OF assms(1) i(1)] by (auto simp: validateRequestID_iff)
qed

lemma methodPattern_nonempty: "methodPattern m \<Longrightarrow> m \<noteq> []"
  by (auto simp: methodPattern_def)

end
