(* ===== verification/AgentProtocol.thy ===== *)
theory AgentProtocol
  imports Protocol
begin

text \<open>
  Requests and records about managed agents: \<^verbatim>\<open>internal/protocol/agent.go\<close>,
  \<^verbatim>\<open>agent_lifecycle.go\<close>, \<^verbatim>\<open>agent_operation.go\<close>, \<^verbatim>\<open>mailbox.go\<close> and
  \<^verbatim>\<open>agent_wait.go\<close>. A Go string type with named constants is a datatype of those constants with
  one more constructor for any other string.
\<close>

definition MaximumAgentPage :: int where "MaximumAgentPage = 32"
definition MaximumAgentPromptBytes :: nat where "MaximumAgentPromptBytes = 8192"
definition MaximumAgentTaskNameBytes :: nat where "MaximumAgentTaskNameBytes = 64"
definition MaximumFailureCodeBytes :: nat where "MaximumFailureCodeBytes = 64"
definition MaximumAgentsPerTree :: nat where "MaximumAgentsPerTree = 256"
definition MaximumWorkerLifecyclePage :: nat where "MaximumWorkerLifecyclePage = 32"
definition MaximumMailboxPage :: int where "MaximumMailboxPage = 32"
definition MaximumMailboxWaitMillis :: int where "MaximumMailboxWaitMillis = 25000"
definition MaximumMailboxMessageBytes :: nat where "MaximumMailboxMessageBytes = 1024"

section \<open>Texts\<close>

definition agentTaskNamePattern :: "string \<Rightarrow> bool" where
  "agentTaskNamePattern s \<longleftrightarrow> s \<noteq> [] \<and> list_all (\<lambda>c. lower c \<or> digit c \<or> c = CHR ''_'') s"

definition failureCodePattern :: "string \<Rightarrow> bool" where
  "failureCodePattern s = match_ident lower (\<lambda>c. lower c \<or> digit c \<or> c = CHR ''_'') s"

definition ValidateAgentTaskName :: "string \<Rightarrow> err" where
  "ValidateAgentTaskName taskName =
     fail_if (length taskName < 1 \<or> length taskName > MaximumAgentTaskNameBytes \<or> \<not> agentTaskNamePattern taskName)
       (Plain ''taskName must contain from 1 through 64 lowercase letters, digits, or underscores'')"

definition ValidateAgentMessage :: "string \<Rightarrow> err" where
  "ValidateAgentMessage message =
     fail_if (TrimSpace_empty message \<or> length message > MaximumAgentPromptBytes
              \<or> \<not> ValidString message \<or> ContainsRune message 0)
       (Plain ''message must contain from 1 through 8192 bytes of valid text'')"

definition ValidateFailureCode :: "string \<Rightarrow> err" where
  "ValidateFailureCode failureCode =
     fail_if (length failureCode < 1 \<or> length failureCode > MaximumFailureCodeBytes
              \<or> \<not> failureCodePattern failureCode)
       (Plain ''failureCode must contain from 1 through 64 lowercase letters, digits, or underscores'')"

definition ValidateMailboxMessage :: "string \<Rightarrow> err" where
  "ValidateMailboxMessage message =
     fail_if (TrimSpace_empty message \<or> length message > MaximumMailboxMessageBytes
              \<or> \<not> ValidString message \<or> ContainsRune message 0)
       (Plain ''message must contain from 1 through 1024 bytes of valid text'')"

section \<open>Spawning\<close>

datatype AgentSpawnStatus = AgentSpawnPending | AgentSpawnStarted | AgentSpawnFailed | AgentSpawn_other string

definition AgentSpawnStatus_Validate :: "AgentSpawnStatus \<Rightarrow> string \<Rightarrow> err" where
  "AgentSpawnStatus_Validate s failureCode =
     (if s = AgentSpawnPending \<or> s = AgentSpawnStarted then
        fail_if (failureCode \<noteq> '''') (Plain ''non-failed agent must not contain failureCode'')
      else if s = AgentSpawnFailed then ValidateFailureCode failureCode
      else Some (Plain ''unsupported agent spawn status''))"

datatype AgentSpawnOutcome =
    AgentSpawnOutcomeIndeterminate | AgentSpawnOutcomeBusy | AgentSpawnOutcomeStarted
  | AgentSpawnOutcomeFailed | AgentSpawnOutcome_other string

definition AgentSpawnOutcome_Validate :: "AgentSpawnOutcome \<Rightarrow> string \<Rightarrow> err" where
  "AgentSpawnOutcome_Validate out failureCode =
     (case out of
        AgentSpawnOutcomeFailed \<Rightarrow> ValidateFailureCode failureCode
      | AgentSpawnOutcome_other s \<Rightarrow> Some (Plain ''unsupported agent spawn outcome'')
      | _ \<Rightarrow> fail_if (failureCode \<noteq> '''') (Plain ''non-failed agent spawn outcome must not contain failureCode''))"

record SpawnAgentParams =
  sa_SpawnID :: string
  sa_TargetDeviceID :: string
  sa_TaskName :: string
  sa_Message :: string
  sa_WorkspaceID :: string

definition SpawnAgentParams_Validate :: "SpawnAgentParams \<Rightarrow> err" where
  "SpawnAgentParams_Validate p = first_err
     [wrap ''spawnId'' (ValidateID (sa_SpawnID p)),
      wrap ''targetDeviceId'' (ValidateID (sa_TargetDeviceID p)),
      ValidateAgentTaskName (sa_TaskName p),
      (if sa_WorkspaceID p \<noteq> '''' then wrap ''workspaceId'' (ValidateID (sa_WorkspaceID p)) else None),
      ValidateAgentMessage (sa_Message p)]"

record SpawnWorkerParams =
  sw_SpawnID :: string
  sw_AgentID :: string
  sw_TaskName :: string
  sw_Message :: string
  sw_WorkspaceID :: string

definition SpawnWorkerParams_Validate :: "SpawnWorkerParams \<Rightarrow> err" where
  "SpawnWorkerParams_Validate p = first_err
     [wrap ''spawnId'' (ValidateID (sw_SpawnID p)),
      wrap ''agentId'' (ValidateID (sw_AgentID p)),
      ValidateAgentTaskName (sw_TaskName p),
      (if sw_WorkspaceID p \<noteq> '''' then wrap ''workspaceId'' (ValidateID (sw_WorkspaceID p)) else None),
      ValidateAgentMessage (sw_Message p)]"

record AgentSummary =
  as_SpawnID :: string
  as_Principal :: PrincipalIdentity
  as_TaskName :: string
  as_SpawnStatus :: AgentSpawnStatus
  as_SpawnFailureCode :: string
  as_WorkspaceID :: string
  as_Sequence :: nat

definition AgentSummary_Validate :: "AgentSummary \<Rightarrow> err" where
  "AgentSummary_Validate a = first_err
     [wrap ''spawnId'' (ValidateID (as_SpawnID a)),
      wrap ''agent principal'' (PrincipalIdentity_Validate (as_Principal a)),
      fail_if (pi_ParentAgentID (as_Principal a) = '''') (Plain ''agent principal must be a managed worker''),
      ValidateAgentTaskName (as_TaskName a),
      (if as_WorkspaceID a \<noteq> '''' then wrap ''workspaceId'' (ValidateID (as_WorkspaceID a)) else None),
      AgentSpawnStatus_Validate (as_SpawnStatus a) (as_SpawnFailureCode a),
      fail_if (as_Sequence a < 1 \<or> as_Sequence a > MaximumAgentsPerTree)
        (Plain ''agent sequence is outside the supported range'')]"

record SpawnAgentResult =
  sar_Agent :: AgentSummary
  sar_Outcome :: AgentSpawnOutcome

definition outcome_status :: "AgentSpawnOutcome \<Rightarrow> AgentSpawnStatus option" where
  "outcome_status out =
     (case out of
        AgentSpawnOutcomeIndeterminate \<Rightarrow> Some AgentSpawnPending
      | AgentSpawnOutcomeBusy \<Rightarrow> Some AgentSpawnPending
      | AgentSpawnOutcomeStarted \<Rightarrow> Some AgentSpawnStarted
      | AgentSpawnOutcomeFailed \<Rightarrow> Some AgentSpawnFailed
      | AgentSpawnOutcome_other s \<Rightarrow> None)"

text \<open>The panic on an unknown outcome is the error \<open>''panic''\<close>; the check of the outcome before it
  excludes that case (\<open>outcome_status_total\<close>).\<close>

definition SpawnAgentResult_Validate :: "SpawnAgentResult \<Rightarrow> err" where
  "SpawnAgentResult_Validate r = first_err
     [AgentSummary_Validate (sar_Agent r),
      AgentSpawnOutcome_Validate (sar_Outcome r) (as_SpawnFailureCode (sar_Agent r)),
      (case outcome_status (sar_Outcome r) of
         None \<Rightarrow> Some (Plain ''panic'')
       | Some expectedStatus \<Rightarrow>
           fail_if (as_SpawnStatus (sar_Agent r) \<noteq> expectedStatus)
             (Plain ''agent spawn outcome does not match durable status''))]"

record SpawnWorkerResult =
  swr_SpawnID :: string
  swr_Principal :: PrincipalIdentity
  swr_Outcome :: AgentSpawnOutcome
  swr_FailureCode :: string

definition SpawnWorkerResult_Validate :: "SpawnWorkerResult \<Rightarrow> err" where
  "SpawnWorkerResult_Validate r = first_err
     [wrap ''spawnId'' (ValidateID (swr_SpawnID r)),
      wrap ''worker principal'' (PrincipalIdentity_Validate (swr_Principal r)),
      fail_if (pi_ParentAgentID (swr_Principal r) = '''') (Plain ''worker principal must contain parentAgentId''),
      AgentSpawnOutcome_Validate (swr_Outcome r) (swr_FailureCode r)]"

definition ListAgentsParams_Validate :: "nat \<Rightarrow> int \<Rightarrow> err" where
  "ListAgentsParams_Validate afterSequence limit = first_err
     [fail_if (afterSequence > MaximumAgentsPerTree) (Plain ''agent cursor exceeds the supported range''),
      fail_if (limit < 1 \<or> limit > MaximumAgentPage) (Plain ''agent page limit must be from 1 through 32'')]"

section \<open>Worker lifecycle\<close>

datatype WorkerLifecyclePhase =
    WorkerLifecycleReserved | WorkerLifecyclePending | WorkerLifecycleStarting
  | WorkerLifecyclePreflight | WorkerLifecycleReady | WorkerLifecycleRunning
  | WorkerLifecycleFinalizing | WorkerLifecycleIdle | WorkerLifecycleInterrupted
  | WorkerLifecycleFailed | WorkerLifecycle_other string

definition WorkerLifecyclePhase_Validate :: "WorkerLifecyclePhase \<Rightarrow> string \<Rightarrow> err" where
  "WorkerLifecyclePhase_Validate p failureCode =
     (case p of
        WorkerLifecycleFailed \<Rightarrow> ValidateFailureCode failureCode
      | WorkerLifecycle_other s \<Rightarrow> Some (Plain ''unsupported worker lifecycle phase'')
      | _ \<Rightarrow> fail_if (failureCode \<noteq> '''') (Plain ''non-failed worker lifecycle must not contain failureCode''))"

record WorkerLifecycleSnapshot =
  wl_TreeID :: string
  wl_AgentID :: string
  wl_Revision :: nat
  wl_Phase :: WorkerLifecyclePhase
  wl_FailureCode :: string
  wl_CodexThreadID :: string
  wl_ActiveTurnID :: string

definition phase_identity_check :: "WorkerLifecyclePhase \<Rightarrow> string \<Rightarrow> string \<Rightarrow> err" where
  "phase_identity_check phase thread turn =
     (case phase of
        WorkerLifecycleReserved \<Rightarrow>
          fail_if (thread \<noteq> '''' \<or> turn \<noteq> '''')
            (Plain ''reserved worker lifecycle must not contain thread or turn identity'')
      | WorkerLifecyclePending \<Rightarrow>
          fail_if (turn \<noteq> '''') (Plain ''pending or starting worker lifecycle must not contain activeTurnId'')
      | WorkerLifecycleStarting \<Rightarrow>
          fail_if (turn \<noteq> '''') (Plain ''pending or starting worker lifecycle must not contain activeTurnId'')
      | WorkerLifecyclePreflight \<Rightarrow>
          fail_if (thread = '''' \<or> turn \<noteq> '''') (Plain ''worker lifecycle phase requires a thread and no active turn'')
      | WorkerLifecycleReady \<Rightarrow>
          fail_if (thread = '''' \<or> turn \<noteq> '''') (Plain ''worker lifecycle phase requires a thread and no active turn'')
      | WorkerLifecycleIdle \<Rightarrow>
          fail_if (thread = '''' \<or> turn \<noteq> '''') (Plain ''worker lifecycle phase requires a thread and no active turn'')
      | WorkerLifecycleRunning \<Rightarrow>
          fail_if (thread = '''' \<or> turn = '''')
            (Plain ''running or finalizing worker lifecycle requires thread and turn identity'')
      | WorkerLifecycleFinalizing \<Rightarrow>
          fail_if (thread = '''' \<or> turn = '''')
            (Plain ''running or finalizing worker lifecycle requires thread and turn identity'')
      | WorkerLifecycleInterrupted \<Rightarrow>
          fail_if (thread = '''') (Plain ''interrupted worker lifecycle requires codexThreadId'')
      | WorkerLifecycleFailed \<Rightarrow>
          fail_if (turn \<noteq> '''') (Plain ''failed worker lifecycle must not contain activeTurnId'')
      | WorkerLifecycle_other s \<Rightarrow> None)"

definition WorkerLifecycleSnapshot_Validate :: "WorkerLifecycleSnapshot \<Rightarrow> err" where
  "WorkerLifecycleSnapshot_Validate s = first_err
     [wrap ''treeId'' (ValidateID (wl_TreeID s)),
      wrap ''agentId'' (ValidateID (wl_AgentID s)),
      fail_if (wl_Revision s = 0 \<or> int (wl_Revision s) > MaxInt64)
        (Plain ''worker lifecycle revision is outside the supported range''),
      WorkerLifecyclePhase_Validate (wl_Phase s) (wl_FailureCode s),
      (if wl_CodexThreadID s \<noteq> '''' then wrap ''codexThreadId'' (ValidateID (wl_CodexThreadID s)) else None),
      (if wl_ActiveTurnID s \<noteq> '''' then wrap ''activeTurnId'' (ValidateID (wl_ActiveTurnID s)) else None),
      phase_identity_check (wl_Phase s) (wl_CodexThreadID s) (wl_ActiveTurnID s)]"

record SyncWorkerLifecycleParams =
  sl_BaseRevision :: nat
  sl_ThroughRevision :: nat
  sl_Complete :: bool
  sl_Workers :: "WorkerLifecycleSnapshot list"

definition worker_key :: "WorkerLifecycleSnapshot \<Rightarrow> string" where
  "worker_key worker = wl_TreeID worker @ [CHR 0x00] @ wl_AgentID worker"

text \<open>The loop over the workers returns the error, or the last revision it saw.\<close>

fun sync_workers_loop ::
    "nat \<Rightarrow> nat \<Rightarrow> string list \<Rightarrow> WorkerLifecycleSnapshot list \<Rightarrow> nat result" where
  "sync_workers_loop through previous seen [] = Inr previous"
| "sync_workers_loop through previous seen (worker # rest) =
     (case WorkerLifecycleSnapshot_Validate worker of
        Some e \<Rightarrow> Inl (Wrapped ''workers'' e)
      | None \<Rightarrow>
          if wl_Revision worker \<le> previous
          then Inl (Plain ''worker lifecycle revisions must increase strictly after baseRevision'')
          else if wl_Revision worker > through
          then Inl (Plain ''worker lifecycle revision exceeds throughRevision'')
          else let key = worker_key worker in
            if key \<in> set seen then Inl (Plain ''worker lifecycle page contains a duplicate agent'')
            else sync_workers_loop through (wl_Revision worker) (key # seen) rest)"

definition SyncWorkerLifecycleParams_Validate :: "SyncWorkerLifecycleParams \<Rightarrow> err" where
  "SyncWorkerLifecycleParams_Validate p = first_err
     [fail_if (int (sl_BaseRevision p) > MaxInt64 \<or> int (sl_ThroughRevision p) > MaxInt64)
        (Plain ''worker lifecycle page revision exceeds the supported range''),
      fail_if (sl_ThroughRevision p < sl_BaseRevision p)
        (Plain ''throughRevision must not precede baseRevision''),
      fail_if (length (sl_Workers p) > MaximumWorkerLifecyclePage)
        (Plain ''worker lifecycle page must contain at most 32 workers''),
      (if \<not> sl_Complete p then first_err
         [fail_if (length (sl_Workers p) \<noteq> MaximumWorkerLifecyclePage)
            (Plain ''incomplete worker lifecycle page must contain 32 workers''),
          fail_if (sl_BaseRevision p = sl_ThroughRevision p)
            (Plain ''incomplete worker lifecycle page must advance toward throughRevision'')]
       else None),
      (case sync_workers_loop (sl_ThroughRevision p) (sl_BaseRevision p) [] (sl_Workers p) of
         Inl e \<Rightarrow> Some e
       | Inr previous \<Rightarrow>
           fail_if (\<not> sl_Complete p \<and> previous = sl_ThroughRevision p)
             (Plain ''page ending at throughRevision must be complete''))]"

definition AppliedRevision :: "SyncWorkerLifecycleParams \<Rightarrow> nat result" where
  "AppliedRevision p =
     (case SyncWorkerLifecycleParams_Validate p of
        Some e \<Rightarrow> Inl e
      | None \<Rightarrow>
          if sl_Complete p then Inr (sl_ThroughRevision p)
          else Inr (wl_Revision (sl_Workers p ! (length (sl_Workers p) - 1))))"

definition SyncWorkerLifecycleResult_Validate :: "nat \<Rightarrow> err" where
  "SyncWorkerLifecycleResult_Validate appliedRevision =
     fail_if (int appliedRevision > MaxInt64) (Plain ''appliedRevision exceeds the supported range'')"

section \<open>Agent state and its projection\<close>

datatype AgentLifecycleFreshness =
    AgentLifecycleCurrent | AgentLifecycleSyncing | AgentLifecycleOffline | AgentLifecycleMissing
  | AgentLifecycleFreshness_other string

datatype AgentEffectiveStatus =
    AgentEffectiveIndeterminate | AgentEffectiveStarting | AgentEffectiveRunning
  | AgentEffectiveFinalizing | AgentEffectiveIdle | AgentEffectiveInterrupted | AgentEffectiveFailed
  | AgentEffective_other string

datatype AgentFailureSource =
    AgentFailureSourceSpawn | AgentFailureSourceLifecycle | AgentFailureSource_other string

record AgentState =
  ag_SpawnID :: string
  ag_Principal :: PrincipalIdentity
  ag_TaskName :: string
  ag_SpawnStatus :: AgentSpawnStatus
  ag_SpawnFailureCode :: string
  ag_WorkspaceID :: string
  ag_Sequence :: nat
  ag_LifecyclePhase :: WorkerLifecyclePhase
  ag_LifecycleFailureCode :: string
  ag_LifecycleTargetRevision :: nat
  ag_LifecycleObservedAt :: int
  ag_LifecycleFreshness :: AgentLifecycleFreshness
  ag_EffectiveStatus :: AgentEffectiveStatus
  ag_EffectiveFailureCode :: string
  ag_FailureSource :: AgentFailureSource
  ag_TargetDispatchable :: bool

definition SpawnReceipt :: "AgentState \<Rightarrow> AgentSummary" where
  "SpawnReceipt a =
     \<lparr>as_SpawnID = ag_SpawnID a, as_Principal = ag_Principal a, as_TaskName = ag_TaskName a,
      as_SpawnStatus = ag_SpawnStatus a, as_SpawnFailureCode = ag_SpawnFailureCode a,
      as_WorkspaceID = ag_WorkspaceID a, as_Sequence = ag_Sequence a\<rparr>"

definition ProjectAgentEffectiveState ::
    "AgentSpawnStatus \<Rightarrow> string \<Rightarrow> WorkerLifecyclePhase \<Rightarrow> string \<Rightarrow> AgentLifecycleFreshness
     \<Rightarrow> AgentEffectiveStatus \<times> string \<times> AgentFailureSource" where
  "ProjectAgentEffectiveState spawnStatus spawnFailureCode lifecyclePhase lifecycleFailureCode freshness =
     (let none = AgentFailureSource_other '''' in
      if spawnStatus = AgentSpawnFailed then (AgentEffectiveFailed, spawnFailureCode, AgentFailureSourceSpawn)
      else if lifecyclePhase = WorkerLifecycleFailed \<and> freshness \<noteq> AgentLifecycleMissing
      then (AgentEffectiveFailed, lifecycleFailureCode, AgentFailureSourceLifecycle)
      else if freshness \<noteq> AgentLifecycleCurrent then (AgentEffectiveIndeterminate, '''', none)
      else case lifecyclePhase of
             WorkerLifecycleReserved \<Rightarrow> (AgentEffectiveStarting, '''', none)
           | WorkerLifecyclePending \<Rightarrow> (AgentEffectiveStarting, '''', none)
           | WorkerLifecycleStarting \<Rightarrow> (AgentEffectiveStarting, '''', none)
           | WorkerLifecyclePreflight \<Rightarrow> (AgentEffectiveStarting, '''', none)
           | WorkerLifecycleReady \<Rightarrow> (AgentEffectiveStarting, '''', none)
           | WorkerLifecycleRunning \<Rightarrow> (AgentEffectiveRunning, '''', none)
           | WorkerLifecycleFinalizing \<Rightarrow> (AgentEffectiveFinalizing, '''', none)
           | WorkerLifecycleIdle \<Rightarrow> (AgentEffectiveIdle, '''', none)
           | WorkerLifecycleInterrupted \<Rightarrow> (AgentEffectiveInterrupted, '''', none)
           | _ \<Rightarrow> (AgentEffectiveIndeterminate, '''', none))"

definition AgentState_Validate :: "AgentState \<Rightarrow> err" where
  "AgentState_Validate a = first_err
     [AgentSummary_Validate (SpawnReceipt a),
      (case ag_LifecycleFreshness a of
         AgentLifecycleMissing \<Rightarrow>
           fail_if (ag_LifecyclePhase a \<noteq> WorkerLifecycle_other '''' \<or> ag_LifecycleFailureCode a \<noteq> ''''
                    \<or> ag_LifecycleTargetRevision a \<noteq> 0 \<or> ag_LifecycleObservedAt a \<noteq> 0)
             (Plain ''missing lifecycle must not contain lifecycle state'')
       | AgentLifecycleFreshness_other s \<Rightarrow> Some (Plain ''unsupported agent lifecycle freshness'')
       | _ \<Rightarrow> first_err
           [fail_if (ag_LifecycleTargetRevision a = 0 \<or> int (ag_LifecycleTargetRevision a) > MaxInt64
                     \<or> ag_LifecycleObservedAt a < 0) (Plain ''agent lifecycle metadata is invalid''),
            WorkerLifecyclePhase_Validate (ag_LifecyclePhase a) (ag_LifecycleFailureCode a)]),
      fail_if (ag_TargetDispatchable a
               \<and> (ag_LifecycleFreshness a = AgentLifecycleSyncing \<or> ag_LifecycleFreshness a = AgentLifecycleOffline))
        (Plain ''stale agent lifecycle target must not be dispatchable''),
      (let (effective, failureCode, failureSource) =
             ProjectAgentEffectiveState (ag_SpawnStatus a) (ag_SpawnFailureCode a) (ag_LifecyclePhase a)
               (ag_LifecycleFailureCode a) (ag_LifecycleFreshness a)
       in fail_if (ag_EffectiveStatus a \<noteq> effective \<or> ag_EffectiveFailureCode a \<noteq> failureCode
                   \<or> ag_FailureSource a \<noteq> failureSource)
            (Plain ''agent effective state does not match its authorities''))]"

section \<open>Agent operations\<close>

datatype AgentOperationAction =
    AgentOperationSend | AgentOperationFollowup | AgentOperationInterrupt | AgentOperationAction_other string

datatype AgentOperationOutcome =
    AgentOperationOutcomePending | AgentOperationOutcomeQueued | AgentOperationOutcomeSteered
  | AgentOperationOutcomeStarted | AgentOperationOutcomeInterrupted | AgentOperationOutcomeFailed
  | AgentOperationOutcome_other string

definition validateSendOperation :: "string \<Rightarrow> string \<Rightarrow> string \<Rightarrow> err" where
  "validateSendOperation agentID messageID message = first_err
     [wrap ''agentId'' (ValidateID agentID), wrap ''messageId'' (ValidateID messageID),
      ValidateMailboxMessage message]"

definition validateAgentOperationTarget :: "string \<Rightarrow> string \<Rightarrow> err" where
  "validateAgentOperationTarget operationID agentID = first_err
     [wrap ''operationId'' (ValidateID operationID), wrap ''agentId'' (ValidateID agentID)]"

definition FollowupAgentParams_Validate :: "string \<Rightarrow> string \<Rightarrow> string \<Rightarrow> err" where
  "FollowupAgentParams_Validate operationID agentID message = first_err
     [validateAgentOperationTarget operationID agentID, ValidateAgentMessage message]"

definition AgentOperationAction_Validate :: "AgentOperationAction \<Rightarrow> err" where
  "AgentOperationAction_Validate a =
     (case a of
        AgentOperationAction_other s \<Rightarrow> Some (Plain ''unsupported agent operation action'')
      | _ \<Rightarrow> None)"

definition AgentOperationAction_accepts :: "AgentOperationAction \<Rightarrow> AgentOperationOutcome \<Rightarrow> bool" where
  "AgentOperationAction_accepts a out \<longleftrightarrow>
     (if out = AgentOperationOutcomePending then True
      else case a of
             AgentOperationSend \<Rightarrow> out = AgentOperationOutcomeQueued \<or> out = AgentOperationOutcomeSteered
           | AgentOperationFollowup \<Rightarrow> out = AgentOperationOutcomeStarted
           | AgentOperationInterrupt \<Rightarrow> out = AgentOperationOutcomeInterrupted
           | AgentOperationAction_other s \<Rightarrow> False)"

definition AgentOperationOutcome_Validate ::
    "AgentOperationOutcome \<Rightarrow> AgentOperationAction \<Rightarrow> string \<Rightarrow> err" where
  "AgentOperationOutcome_Validate out action failureCode = first_err
     [AgentOperationAction_Validate action,
      (case out of
         AgentOperationOutcomeFailed \<Rightarrow> ValidateFailureCode failureCode
       | AgentOperationOutcome_other s \<Rightarrow> Some (Plain ''unsupported agent operation outcome'')
       | _ \<Rightarrow> first_err
           [fail_if (failureCode \<noteq> '''') (Plain ''non-failed agent operation must not contain failureCode''),
            fail_if (\<not> AgentOperationAction_accepts action out)
              (Plain ''agent operation action does not support outcome'')])]"

record AgentOperationResult =
  aor_OperationID :: string
  aor_AgentID :: string
  aor_Action :: AgentOperationAction
  aor_Outcome :: AgentOperationOutcome
  aor_FailureCode :: string

definition AgentOperationResult_Validate :: "AgentOperationResult \<Rightarrow> err" where
  "AgentOperationResult_Validate r = first_err
     [validateAgentOperationTarget (aor_OperationID r) (aor_AgentID r),
      AgentOperationAction_Validate (aor_Action r),
      AgentOperationOutcome_Validate (aor_Outcome r) (aor_Action r) (aor_FailureCode r)]"

section \<open>Mailbox and wait requests\<close>

datatype MessageTargetKind =
    MessageTargetParent | MessageTargetRoot | MessageTargetAgent | MessageTargetKind_other string

record MessageTarget =
  mt_Kind :: MessageTargetKind
  mt_AgentID :: string

definition MessageTarget_Validate :: "MessageTarget \<Rightarrow> err" where
  "MessageTarget_Validate t =
     (case mt_Kind t of
        MessageTargetAgent \<Rightarrow> wrap ''message target agentId'' (ValidateID (mt_AgentID t))
      | MessageTargetKind_other s \<Rightarrow> Some (Plain ''unsupported message target'')
      | _ \<Rightarrow> fail_if (mt_AgentID t \<noteq> '''')
              (Plain ''parent and root message targets must not contain agentId''))"

record SendMessageParams =
  sm_MessageID :: string
  sm_Target :: MessageTarget
  sm_Message :: string

definition SendMessageParams_Validate :: "SendMessageParams \<Rightarrow> err" where
  "SendMessageParams_Validate p = first_err
     [wrap ''messageId'' (ValidateID (sm_MessageID p)), MessageTarget_Validate (sm_Target p),
      ValidateMailboxMessage (sm_Message p)]"

definition WaitMailboxParams_Validate :: "nat \<Rightarrow> int \<Rightarrow> int \<Rightarrow> err" where
  "WaitMailboxParams_Validate cursor timeoutMillis limit = first_err
     [fail_if (int cursor > MaxInt64) (Plain ''mailbox cursor exceeds the supported range''),
      fail_if (timeoutMillis < 0 \<or> timeoutMillis > MaximumMailboxWaitMillis)
        (Plain ''timeoutMillis must be from 0 through 25000''),
      fail_if (limit < 1 \<or> limit > MaximumMailboxPage) (Plain ''limit must be from 1 through 32'')]"

record MailboxMessage =
  mm_MessageID :: string
  mm_Sequence :: nat
  mm_Source :: PrincipalIdentity
  mm_Message :: string
  mm_CreatedAt :: int

definition MailboxMessage_Validate :: "MailboxMessage \<Rightarrow> err" where
  "MailboxMessage_Validate m = first_err
     [wrap ''messageId'' (ValidateID (mm_MessageID m)),
      fail_if (mm_Sequence m = 0) (Plain ''message sequence must be positive''),
      wrap ''message source'' (PrincipalIdentity_Validate (mm_Source m)),
      ValidateMailboxMessage (mm_Message m),
      fail_if (mm_CreatedAt m < 0) (Plain ''message createdAt must not be negative'')]"

record WaitAgentParams =
  wa_MailboxCursor :: nat
  wa_LifecycleCursor :: nat
  wa_ArtifactCursor :: nat
  wa_ResultCursor :: nat
  wa_TimeoutMillis :: int
  wa_MessageLimit :: int
  wa_ActivityLimit :: int
  wa_ArtifactLimit :: int
  wa_ResultLimit :: int

definition WaitAgentParams_Validate :: "WaitAgentParams \<Rightarrow> err" where
  "WaitAgentParams_Validate p = first_err
     [fail_if (int (wa_MailboxCursor p) > MaxInt64 \<or> int (wa_LifecycleCursor p) > MaxInt64
               \<or> int (wa_ArtifactCursor p) > MaxInt64 \<or> int (wa_ResultCursor p) > MaxInt64)
        (Plain ''agent wait cursor exceeds the supported range''),
      fail_if (wa_TimeoutMillis p < 0 \<or> wa_TimeoutMillis p > 25000)
        (Plain ''timeoutMillis must be from 0 through 25000''),
      fail_if (wa_MessageLimit p < 1 \<or> wa_MessageLimit p > 2) (Plain ''messageLimit must be from 1 through 2''),
      fail_if (wa_ActivityLimit p < 1 \<or> wa_ActivityLimit p > 16) (Plain ''activityLimit must be from 1 through 16''),
      fail_if (wa_ArtifactLimit p < 1 \<or> wa_ArtifactLimit p > 1) (Plain ''artifactLimit must be from 1 through 1''),
      fail_if (wa_ResultLimit p < 1 \<or> wa_ResultLimit p > 1) (Plain ''resultLimit must be from 1 through 1'')]"

record AgentLifecycleActivity =
  ala_AgentID :: string
  ala_TargetDeviceID :: string
  ala_TargetRevision :: nat
  ala_Phase :: WorkerLifecyclePhase
  ala_FailureCode :: string
  ala_Sequence :: nat
  ala_ObservedAt :: int

definition AgentLifecycleActivity_Validate :: "AgentLifecycleActivity \<Rightarrow> err" where
  "AgentLifecycleActivity_Validate a = first_err
     [wrap ''agentId'' (ValidateID (ala_AgentID a)),
      wrap ''targetDeviceId'' (ValidateID (ala_TargetDeviceID a)),
      fail_if (ala_TargetRevision a = 0 \<or> int (ala_TargetRevision a) > MaxInt64
               \<or> ala_Sequence a = 0 \<or> int (ala_Sequence a) > MaxInt64)
        (Plain ''agent lifecycle activity revision or sequence is outside the supported range''),
      fail_if (ala_ObservedAt a < 0) (Plain ''agent lifecycle activity observedAt must not be negative''),
      WorkerLifecyclePhase_Validate (ala_Phase a) (ala_FailureCode a)]"

section \<open>Facts\<close>

lemma ValidateFailureCode_nonempty: "ValidateFailureCode c = None \<Longrightarrow> c \<noteq> []"
  by (auto simp: ValidateFailureCode_def)

lemma WorkerLifecyclePhase_Validate_failure:
  "WorkerLifecyclePhase_Validate p c = None \<Longrightarrow> p = WorkerLifecycleFailed \<longleftrightarrow> c \<noteq> []"
  by (auto simp: WorkerLifecyclePhase_Validate_def ValidateFailureCode_nonempty
      split: WorkerLifecyclePhase.splits)

lemma outcome_status_total:
  "AgentSpawnOutcome_Validate out c = None \<Longrightarrow> outcome_status out \<noteq> None"
  by (cases out) (auto simp: AgentSpawnOutcome_Validate_def outcome_status_def)

text \<open>A page that passes its loop is a strictly increasing chain of revisions over distinct agents.\<close>

lemma sync_workers_loop_Cons:
  "sync_workers_loop through previous seen (w # ws) = Inr r \<longleftrightarrow>
     WorkerLifecycleSnapshot_Validate w = None \<and> previous < wl_Revision w \<and> wl_Revision w \<le> through
     \<and> worker_key w \<notin> set seen
     \<and> sync_workers_loop through (wl_Revision w) (worker_key w # seen) ws = Inr r"
  by (auto simp: Let_def split: option.splits if_splits)

declare sync_workers_loop.simps(2) [simp del]

lemma sync_workers_loop_sorted:
  "sync_workers_loop through previous seen ws = Inr r \<Longrightarrow> sorted_wrt (<) (previous # map wl_Revision ws)"
proof (induction ws arbitrary: previous seen)
  case (Cons w ws)
  then have "previous < wl_Revision w" "sorted_wrt (<) (wl_Revision w # map wl_Revision ws)"
    by (auto simp: sync_workers_loop_Cons)
  then show ?case by (auto intro: less_trans)
qed simp

lemma sync_workers_loop_valid:
  "sync_workers_loop through previous seen ws = Inr r \<Longrightarrow>
     \<forall>w \<in> set ws. WorkerLifecycleSnapshot_Validate w = None \<and> wl_Revision w \<le> through"
  by (induction ws arbitrary: previous seen) (auto simp: sync_workers_loop_Cons)

lemma sync_workers_loop_last:
  "sync_workers_loop through previous seen ws = Inr r \<Longrightarrow> r = last (previous # map wl_Revision ws)"
  by (induction ws arbitrary: previous seen) (auto simp: sync_workers_loop_Cons)

lemma sync_workers_loop_distinct:
  "sync_workers_loop through previous seen ws = Inr r \<Longrightarrow>
     distinct (map worker_key ws) \<and> worker_key ` set ws \<inter> set seen = {}"
proof (induction ws arbitrary: previous seen)
  case (Cons w ws)
  then have rest: "sync_workers_loop through (wl_Revision w) (worker_key w # seen) ws = Inr r"
    and "worker_key w \<notin> set seen"
    by (simp_all add: sync_workers_loop_Cons)
  then show ?case
    using Cons.IH [OF rest] by auto
qed simp

lemma worker_key_inject:
  assumes "WorkerLifecycleSnapshot_Validate v = None" "WorkerLifecycleSnapshot_Validate w = None"
  shows "worker_key v = worker_key w \<longleftrightarrow> (wl_TreeID v, wl_AgentID v) = (wl_TreeID w, wl_AgentID w)"
  using assms by (auto simp: worker_key_def WorkerLifecycleSnapshot_Validate_def dest!: ValidateID_length)

lemma SyncWorkerLifecycleParams_ValidateD:
  assumes "SyncWorkerLifecycleParams_Validate p = None"
  obtains r where "sync_workers_loop (sl_ThroughRevision p) (sl_BaseRevision p) [] (sl_Workers p) = Inr r"
    and "sl_BaseRevision p \<le> sl_ThroughRevision p" and "int (sl_ThroughRevision p) \<le> MaxInt64"
    and "sl_Complete p \<or> length (sl_Workers p) = 32 \<and> r \<noteq> sl_ThroughRevision p"
  using assms
  by (auto simp: SyncWorkerLifecycleParams_Validate_def MaximumWorkerLifecyclePage_def
      split: sum.splits if_splits)

end
