(* ===== verification/BrokerDb.thy ===== *)
theory BrokerDb
  imports AgentProtocol
begin

text \<open>
  The broker's SQLite state, \<^verbatim>\<open>internal/store/schema.go\<close>: one record per table row with the table's
  columns, one list per table. JSON columns hold their decoded value. Primary keys, unique
  constraints, CHECKs and foreign keys are the guards of the INSERTs in the component theories.
  \<open>registry_revision\<close> reads a controller's registry counter.
\<close>

record RegistryRow =
  reg_controller_id :: string
  reg_revision :: int

record CounterRow =
  cnt_controller_id :: string
  cnt_dispatches_started :: int
  cnt_turns_started :: int
  cnt_result_packages_delivered :: int
  cnt_result_packages_source_acknowledged :: int
  cnt_result_packages_source_released :: int
  cnt_result_package_details_compacted :: int

record Credential =
  cr_ControllerID :: string
  cr_DeviceID :: string
  cr_MAC :: string
  cr_Disabled :: bool
  cr_Pending :: bool
  cr_IssuedAt :: int

record TreeRow =
  t_controller_id :: string
  t_external_thread_id :: string
  t_tree_id :: string
  t_root_agent_id :: string
  t_root_device_id :: string
  t_created_at :: int
  t_last_agent_sequence :: int
  t_last_lifecycle_sequence :: int
  t_last_artifact_sequence :: int
  t_last_result_sequence :: int

record PrincipalRow =
  pr_controller_id :: string
  pr_tree_id :: string
  pr_agent_id :: string
  pr_parent_agent_id :: string
  pr_device_id :: string
  pr_capabilities :: "Capability list"
  pr_created_at :: int

datatype WorkspaceSyncStatus =
  WorkspaceSyncPending | WorkspaceSyncInspected | WorkspaceSyncPrepared

datatype WorkspaceStrategy =
  WorkspaceStrategyDirect | WorkspaceStrategyThin | WorkspaceStrategyFull | WorkspaceStrategy_other string

record WorkspaceRow =
  ws_controller_id :: string
  ws_tree_id :: string
  ws_source_agent_id :: string
  ws_sync_id :: string
  ws_source_device_id :: string
  ws_target_device_id :: string
  ws_git_url :: string
  ws_source_path_digest :: string
  ws_status :: WorkspaceSyncStatus
  ws_head_oid :: string
  ws_object_format :: string
  ws_working_directory :: string
  ws_source_clean :: bool
  ws_source_snapshot_hash :: string
  ws_strategy :: WorkspaceStrategy
  ws_manifest_hash :: string
  ws_source_warnings :: "string list"
  ws_warnings :: "string list"
  ws_consumed_spawn_id :: string
  ws_created_at :: int
  ws_updated_at :: int

record SpawnRow =
  sp_controller_id :: string
  sp_tree_id :: string
  sp_sequence :: int
  sp_source_agent_id :: string
  sp_spawn_id :: string
  sp_agent_id :: string
  sp_target_device_id :: string
  sp_task_name :: string
  sp_workspace_id :: string
  sp_prompt_digest :: string
  sp_status :: AgentSpawnStatus
  sp_failure_code :: string
  sp_created_at :: int
  sp_updated_at :: int

record OperationRow =
  op_controller_id :: string
  op_tree_id :: string
  op_source_agent_id :: string
  op_operation_id :: string
  op_action :: AgentOperationAction
  op_agent_id :: string
  op_payload_digest :: string
  op_outcome :: AgentOperationOutcome
  op_failure_code :: string
  op_created_at :: int
  op_updated_at :: int

record CursorRow =
  cu_controller_id :: string
  cu_device_id :: string
  cu_active_connection_id :: string
  cu_active_lease_revision :: int
  cu_applied_revision :: int

record ReadinessRow =
  rd_controller_id :: string
  rd_device_id :: string
  rd_readiness :: WorkerReadiness

record LifecycleRow =
  lc_controller_id :: string
  lc_tree_id :: string
  lc_agent_id :: string
  lc_target_device_id :: string
  lc_target_revision :: int
  lc_authority_revision :: int
  lc_codex_thread_id :: string
  lc_active_turn_id :: string
  lc_phase :: WorkerLifecyclePhase
  lc_failure_code :: string
  lc_lifecycle_sequence :: int
  lc_observed_at :: int

record MailboxRow =
  mb_controller_id :: string
  mb_tree_id :: string
  mb_recipient_agent_id :: string
  mb_last_sequence :: int

record MessageRow =
  ms_controller_id :: string
  ms_tree_id :: string
  ms_recipient_agent_id :: string
  ms_sequence :: int
  ms_message_id :: string
  ms_source_agent_id :: string
  ms_source_parent_agent_id :: string
  ms_source_device_id :: string
  ms_message :: string
  ms_created_at :: int

record ReceiptRow =
  mr_controller_id :: string
  mr_tree_id :: string
  mr_recipient_agent_id :: string
  mr_sequence :: int
  mr_message_id :: string
  mr_source_agent_id :: string
  mr_source_parent_agent_id :: string
  mr_source_device_id :: string
  mr_message :: string

record BrokerDb =
  credentials :: "Credential list"
  broker_metadata :: "HostKind option"
  controller_registries :: "RegistryRow list"
  controller_lifetime_counters :: "CounterRow list"
  devices :: "Device list"
  trees :: "TreeRow list"
  principals :: "PrincipalRow list"
  workspace_sync_receipts :: "WorkspaceRow list"
  agent_spawn_receipts :: "SpawnRow list"
  agent_operation_receipts :: "OperationRow list"
  peer_worker_sync_cursors :: "CursorRow list"
  device_worker_readiness :: "ReadinessRow list"
  agent_lifecycle_states :: "LifecycleRow list"
  mailboxes :: "MailboxRow list"
  mailbox_messages :: "MessageRow list"
  mailbox_receipts :: "ReceiptRow list"

definition schemaCurrent :: BrokerDb where
  "schemaCurrent =
     \<lparr>credentials = [], broker_metadata = None, controller_registries = [],
      controller_lifetime_counters = [], devices = [], trees = [], principals = [],
      workspace_sync_receipts = [], agent_spawn_receipts = [], agent_operation_receipts = [],
      peer_worker_sync_cursors = [], device_worker_readiness = [], agent_lifecycle_states = [],
      mailboxes = [], mailbox_messages = [], mailbox_receipts = []\<rparr>"

lemma schemaCurrent_simps [simp]:
  "credentials schemaCurrent = []" "broker_metadata schemaCurrent = None"
  "controller_registries schemaCurrent = []" "controller_lifetime_counters schemaCurrent = []"
  "devices schemaCurrent = []" "trees schemaCurrent = []" "principals schemaCurrent = []"
  "workspace_sync_receipts schemaCurrent = []" "agent_spawn_receipts schemaCurrent = []"
  "agent_operation_receipts schemaCurrent = []" "peer_worker_sync_cursors schemaCurrent = []"
  "device_worker_readiness schemaCurrent = []" "agent_lifecycle_states schemaCurrent = []"
  "mailboxes schemaCurrent = []" "mailbox_messages schemaCurrent = []" "mailbox_receipts schemaCurrent = []"
  by (simp_all add: schemaCurrent_def)

definition registry_revision :: "string \<Rightarrow> BrokerDb \<Rightarrow> int" where
  "registry_revision c s =
     (case sel1 (\<lambda>r. reg_controller_id r = c) (controller_registries s) of
        None \<Rightarrow> 0 | Some r \<Rightarrow> reg_revision r)"

text \<open>\<^verbatim>\<open>unixTime\<close>'s check; a time is its Unix seconds, so the value it returns is the time itself.\<close>

definition unixTime :: "int \<Rightarrow> string \<Rightarrow> err" where
  "unixTime seconds name = fail_if (seconds < 0) (Wrapped name (Plain ''must not be negative''))"

lemma unixTime_None [simp]: "unixTime t n = None \<longleftrightarrow> 0 \<le> t"
  by (auto simp: unixTime_def)

text \<open>Not found is the one error several callers turn into another answer.\<close>

definition or_not_found :: "'a result \<Rightarrow> 'a option result" where
  "or_not_found r =
     (case r of
        Inr x \<Rightarrow> Inr (Some x)
      | Inl e \<Rightarrow> if errors_is e ErrNotFound then Inr None else Inl e)"

lemma or_not_found_Some [simp]: "or_not_found r = Inr (Some x) \<longleftrightarrow> r = Inr x"
  by (auto simp: or_not_found_def split: sum.splits)

lemma or_not_found_None [simp]: "or_not_found r = Inr None \<longleftrightarrow> (\<exists>e. r = Inl e \<and> errors_is e ErrNotFound)"
  by (auto simp: or_not_found_def split: sum.splits)

end
