(* ===== verification/Contracts.thy ===== *)
theory Contracts
  imports Prelude
begin

text \<open>
  The contracts several stores of the broker share, as locales. Each is interpreted on the model of
  the stores that promise it, and its lemmas are then facts about those stores.

  \<^item> \<open>sequence\<close>: a durable counter advanced inside a transaction (registry revisions, lifecycle
    sequences).
  \<^item> \<open>receipts\<close>: an idempotent begin operation keyed by a caller-chosen identifier (workspace syncs,
    spawns, agent operations).
  \<^item> \<open>terminal\<close>: a receipt that is finished at most once.
\<close>

section \<open>Sequences\<close>

fun tx_times :: "nat \<Rightarrow> ('s, 'v) tx \<Rightarrow> ('s, 'v list) tx" where
  "tx_times 0 m = tx_ret []"
| "tx_times (Suc n) m = tx_bind m (\<lambda>v. tx_bind (tx_times n m) (\<lambda>vs. tx_ret (v # vs)))"

locale sequence =
  fixes ok :: "'s \<Rightarrow> bool"
    and cur :: "'s \<Rightarrow> int"
    and advance :: "('s, 'v) tx"
    and val :: "'v \<Rightarrow> int"
  assumes advance_ok: "ok s \<Longrightarrow> advance s = Inr (v, s') \<Longrightarrow> ok s'"
    and advance_val: "ok s \<Longrightarrow> advance s = Inr (v, s') \<Longrightarrow> val v = cur s + 1"
    and advance_cur: "ok s \<Longrightarrow> advance s = Inr (v, s') \<Longrightarrow> cur s' = cur s + 1"
begin

text \<open>A run of allocations hands out the next values in order, without gaps or repetitions.\<close>

lemma run_dense:
  "ok s \<Longrightarrow> tx_times n advance s = Inr (vs, s') \<Longrightarrow>
     ok s' \<and> cur s' = cur s + int n \<and> map val vs = map (\<lambda>i. cur s + 1 + int i) [0..<n]"
proof (induction n arbitrary: s vs)
  case (Suc n)
  then obtain v s1 ws where step: "advance s = Inr (v, s1)" "tx_times n advance s1 = Inr (ws, s')"
    and vs: "vs = v # ws"
    by auto
  have "ok s1" "val v = cur s + 1" "cur s1 = cur s + 1"
    using step(1) Suc.prems(1) advance_ok advance_val advance_cur by blast+
  then show ?case
    using Suc.IH [OF \<open>ok s1\<close> step(2)] vs
    by (simp add: upt_conv_Cons map_Suc_upt [symmetric] comp_def del: upt_Suc map_Suc_upt)
qed simp

lemma run_strictly_increasing:
  assumes "ok s" "tx_times n advance s = Inr (vs, s')"
  shows "sorted_wrt (<) (map val vs)"
  using run_dense [OF assms] by (simp add: sorted_wrt_iff_nth_less)

end

section \<open>Idempotent receipts\<close>

locale receipts =
  fixes ok :: "'s \<Rightarrow> bool"
    and allowed :: "'i \<Rightarrow> 's \<Rightarrow> bool"
    and start :: "'i \<Rightarrow> int \<Rightarrow> 's \<Rightarrow> 'r result \<times> 's"
    and lookup :: "'i \<Rightarrow> 's \<Rightarrow> 'r result"
    and matches :: "'r \<Rightarrow> 'i \<Rightarrow> bool"
  assumes start_ok: "ok s \<Longrightarrow> start i t s = (Inr r, s') \<Longrightarrow> ok s'"
    and start_allowed: "ok s \<Longrightarrow> start i t s = (Inr r, s') \<Longrightarrow> allowed i s'"
    and start_records: "ok s \<Longrightarrow> start i t s = (Inr r, s') \<Longrightarrow> lookup i s' = Inr r \<and> matches r i"
    and start_replays:
      "ok s \<Longrightarrow> allowed i s \<Longrightarrow> 0 \<le> t \<Longrightarrow> lookup i s = Inr r \<Longrightarrow> matches r i \<Longrightarrow> start i t s = (Inr r, s)"
    and start_conflicts:
      "ok s \<Longrightarrow> allowed i s \<Longrightarrow> 0 \<le> t \<Longrightarrow> lookup i s = Inr r \<Longrightarrow> \<not> matches r i \<Longrightarrow>
         \<exists>e. start i t s = (Inl e, s) \<and> errors_is e ErrConflict"
begin

lemma retry_is_idempotent:
  assumes "ok s" "start i t s = (Inr r, s')" "0 \<le> t'"
  shows "start i t' s' = (Inr r, s')"
  using assms start_ok start_allowed start_records start_replays by blast

lemma reused_key_conflicts:
  assumes "ok s" "start i t s = (Inr r, s')" "0 \<le> t'"
    and "lookup j s' = lookup i s'" "allowed j s'" "\<not> matches r j"
  shows "\<exists>e. start j t' s' = (Inl e, s') \<and> errors_is e ErrConflict"
  using assms start_ok start_records start_conflicts by metis

end

section \<open>Terminal outcomes\<close>

locale terminal =
  fixes ok :: "'s \<Rightarrow> bool"
    and finish :: "'k \<Rightarrow> 'o \<Rightarrow> int \<Rightarrow> 's \<Rightarrow> 'r result \<times> 's"
    and lookup :: "'k \<Rightarrow> 's \<Rightarrow> 'r result"
    and outcome :: "'r \<Rightarrow> 'o"
    and final :: "'r \<Rightarrow> bool"
  assumes finish_ok: "ok s \<Longrightarrow> finish k out t s = (Inr r, s') \<Longrightarrow> ok s'"
    and finish_records: "ok s \<Longrightarrow> finish k out t s = (Inr r, s') \<Longrightarrow>
        lookup k s' = Inr r \<and> outcome r = out \<and> final r"
    and finish_final: "ok s \<Longrightarrow> lookup k s = Inr r \<Longrightarrow> final r \<Longrightarrow>
        finish k out t s = (Inr r', s') \<Longrightarrow> r' = r \<and> s' = s \<and> outcome r = out"
begin

text \<open>
  Two finishes of the same receipt that both succeed agree on the outcome, and the second one
  changes nothing.
\<close>

lemma finish_once:
  assumes "ok s" "finish k o1 t1 s = (Inr r1, s1)" "finish k o2 t2 s1 = (Inr r2, s2)"
  shows "o2 = o1 \<and> r2 = r1 \<and> s2 = s1"
  using assms finish_ok finish_records finish_final by metis

end

end
