(* ===== verification/Registry.thy ===== *)
theory Registry
  imports BrokerDb Contracts
begin

text \<open>
  The device registry and the peer credentials: \<^verbatim>\<open>internal/store/device.go\<close>, \<^verbatim>\<open>device_read.go\<close>,
  \<^verbatim>\<open>credential.go\<close> and \<^verbatim>\<open>worker_readiness.go\<close>. A device is its table row; every change of
  presence takes the next revision of the controller's registry. The registry invariant and its
  preservation are in \<open>Registry_Inv\<close>.
\<close>

section \<open>Queries\<close>

definition features_json_size :: "string list \<Rightarrow> nat" where
  "features_json_size fs = (if fs = [] then 2 else 1 + sum_list (map (\<lambda>f. length f + 3) fs))"

definition maximumFeaturesJSON :: nat where "maximumFeaturesJSON = 8192"

definition scanDevice :: "Device option \<Rightarrow> Device result" where
  "scanDevice row =
     (case row of
        None \<Rightarrow> Inl (Sentinel ErrNotFound)
      | Some d \<Rightarrow>
          if features_json_size (dev_Features d) > maximumFeaturesJSON
          then Inl (Plain ''stored device features exceed size limit'')
          else case Device_Validate d of
                 Some e \<Rightarrow> Inl (Wrapped ''stored device is invalid'' e)
               | None \<Rightarrow> Inr d)"

definition device_at :: "string \<Rightarrow> string \<Rightarrow> Device \<Rightarrow> bool" where
  "device_at controllerID deviceID d \<longleftrightarrow> dev_ControllerID d = controllerID \<and> dev_DeviceID d = deviceID"

definition queryDevice :: "string \<Rightarrow> string \<Rightarrow> BrokerDb \<Rightarrow> Device result" where
  "queryDevice controllerID deviceID s = scanDevice (sel1 (device_at controllerID deviceID) (devices s))"

definition validateDeviceIdentity :: "string \<Rightarrow> string \<Rightarrow> err" where
  "validateDeviceIdentity controllerID deviceID = first_err
     [wrap ''controllerId'' (ValidateID controllerID), wrap ''deviceId'' (ValidateID deviceID)]"

definition registry_at :: "string \<Rightarrow> RegistryRow \<Rightarrow> bool" where
  "registry_at controllerID r \<longleftrightarrow> reg_controller_id r = controllerID"

definition controllerRevision :: "string \<Rightarrow> BrokerDb \<Rightarrow> nat result" where
  "controllerRevision controllerID s =
     (case sel1 (registry_at controllerID) (controller_registries s) of
        None \<Rightarrow> Inr 0
      | Some r \<Rightarrow>
          if reg_revision r < 0 then Inl (Plain ''stored controller revision is negative'')
          else Inr (uint64_of_int64 (reg_revision r)))"

definition init_registry :: "string \<Rightarrow> BrokerDb \<Rightarrow> BrokerDb" where
  "init_registry controllerID s =
     (if sel1 (registry_at controllerID) (controller_registries s) = None
      then s\<lparr>controller_registries :=
              controller_registries s @ [\<lparr>reg_controller_id = controllerID, reg_revision = 0\<rparr>]\<rparr>
      else s)"

definition nextControllerRevision :: "string \<Rightarrow> (BrokerDb, nat) tx" where
  "nextControllerRevision controllerID =
     tx_bind (tx_exec (init_registry controllerID)) (\<lambda>_.
     tx_bind (tx_query (\<lambda>s.
       case sel1 (registry_at controllerID) (controller_registries s) of
         None \<Rightarrow> Inl (Wrapped ''load controller revision'' (Plain ''sql: no rows in result set''))
       | Some r \<Rightarrow> Inr (reg_revision r))) (\<lambda>current.
     if current < 0 then tx_fail (Plain ''stored controller revision is negative'')
     else if current = MaxInt64 then tx_fail (Sentinel ErrRevisionExhausted)
     else
       let nxt = add_int64 current 1;
           hit = (\<lambda>r. reg_controller_id r = controllerID \<and> reg_revision r = current)
       in tx_bind (tx_update (\<lambda>s. affected hit (controller_registries s))
            (\<lambda>s. s\<lparr>controller_registries := upd hit (\<lambda>r. r\<lparr>reg_revision := nxt\<rparr>) (controller_registries s)\<rparr>)) (\<lambda>n.
          if n = 0 then tx_fail (Sentinel ErrNotFound) else tx_ret (uint64_of_int64 nxt))))"

section \<open>Credentials\<close>

definition CredentialMACSize :: nat where "CredentialMACSize = 32"

definition Credential_Validate :: "Credential \<Rightarrow> err" where
  "Credential_Validate c = first_err
     [wrap ''controllerId'' (ValidateID (cr_ControllerID c)),
      wrap ''deviceId'' (ValidateID (cr_DeviceID c)),
      fail_if (cr_IssuedAt c < 0) (Plain ''issuedAt must not be negative''),
      fail_if (cr_Pending c \<and> \<not> cr_Disabled c) (Plain ''pending credentials must be disabled'')]"

definition scanCredential :: "Credential option \<Rightarrow> Credential result" where
  "scanCredential row =
     (case row of
        None \<Rightarrow> Inl (Sentinel ErrNotFound)
      | Some c \<Rightarrow>
          if length (cr_MAC c) \<noteq> CredentialMACSize
          then Inl (Plain ''stored peer credential MAC has invalid length'')
          else case Credential_Validate c of
                 Some e \<Rightarrow> Inl (Wrapped ''stored peer credential is invalid'' e)
               | None \<Rightarrow> Inr c)"

definition credential_at :: "string \<Rightarrow> string \<Rightarrow> Credential \<Rightarrow> bool" where
  "credential_at controllerID deviceID c \<longleftrightarrow> cr_ControllerID c = controllerID \<and> cr_DeviceID c = deviceID"

definition queryCredentialByMAC :: "string \<Rightarrow> BrokerDb \<Rightarrow> Credential result" where
  "queryCredentialByMAC mac s =
     (case scanCredential (sel1 (\<lambda>c. cr_MAC c = mac) (credentials s)) of
        Inl e \<Rightarrow> Inl e
      | Inr c \<Rightarrow> if cr_MAC c \<noteq> mac then Inl (Sentinel ErrNotFound) else Inr c)"

definition queryCredential :: "string \<Rightarrow> string \<Rightarrow> BrokerDb \<Rightarrow> Credential result" where
  "queryCredential controllerID deviceID s =
     scanCredential (sel1 (credential_at controllerID deviceID) (credentials s))"

definition NewCredential :: "string \<Rightarrow> string \<Rightarrow> string \<Rightarrow> int \<Rightarrow> Credential" where
  "NewCredential controllerID deviceID mac now =
     \<lparr>cr_ControllerID = controllerID, cr_DeviceID = deviceID, cr_MAC = mac, cr_Disabled = False,
      cr_Pending = False, cr_IssuedAt = now\<rparr>"

text \<open>Any constraint failure of the INSERT (SQLite code 19) is reported as a conflict.\<close>

definition credential_insertable :: "Credential \<Rightarrow> BrokerDb \<Rightarrow> bool" where
  "credential_insertable c s \<longleftrightarrow>
     length (cr_MAC c) = CredentialMACSize \<and> 0 \<le> cr_IssuedAt c \<and> (cr_Pending c \<longrightarrow> cr_Disabled c)
     \<and> list_all (\<lambda>r. cr_MAC r \<noteq> cr_MAC c \<and> \<not> credential_at (cr_ControllerID c) (cr_DeviceID c) r) (credentials s)"

definition CreateCredential :: "Credential \<Rightarrow> BrokerDb \<Rightarrow> unit result \<times> BrokerDb" where
  "CreateCredential c s =
     (case Credential_Validate c of
        Some e \<Rightarrow> (Inl e, s)
      | None \<Rightarrow>
          if credential_insertable c s then (Inr (), s\<lparr>credentials := credentials s @ [c]\<rparr>)
          else (Inl (Wrapped ''peer credential already exists'' (Sentinel ErrConflict)), s))"

definition AuthenticateCredential :: "string \<Rightarrow> BrokerDb \<Rightarrow> Credential result" where
  "AuthenticateCredential mac s =
     (case queryCredentialByMAC mac s of
        Inl e \<Rightarrow> Inl e
      | Inr c \<Rightarrow> if cr_Disabled c \<or> cr_Pending c then Inl (Sentinel ErrCredentialDisabled) else Inr c)"

definition validateCredentialIdentity :: "string \<Rightarrow> string \<Rightarrow> err" where
  "validateCredentialIdentity controllerID deviceID = first_err
     [wrap ''controllerId'' (ValidateID controllerID), wrap ''deviceId'' (ValidateID deviceID)]"

definition activate :: "Credential \<Rightarrow> Credential" where
  "activate c = c\<lparr>cr_Disabled := False, cr_Pending := False\<rparr>"

definition ActivateCredential :: "string \<Rightarrow> string \<Rightarrow> string \<Rightarrow> BrokerDb \<Rightarrow> unit result \<times> BrokerDb" where
  "ActivateCredential controllerID deviceID mac s =
     (case validateCredentialIdentity controllerID deviceID of
        Some e \<Rightarrow> (Inl e, s)
      | None \<Rightarrow>
          let hit = (\<lambda>c. credential_at controllerID deviceID c \<and> cr_MAC c = mac \<and> cr_Pending c) in
          if affected hit (credentials s) \<noteq> 0
          then (Inr (), s\<lparr>credentials := upd hit activate (credentials s)\<rparr>)
          else case queryCredential controllerID deviceID s of
                 Inl e \<Rightarrow> (Inl e, s)
               | Inr c \<Rightarrow>
                   if \<not> cr_Disabled c \<and> \<not> cr_Pending c \<and> cr_MAC c = mac then (Inr (), s)
                   else (Inl (Sentinel ErrNotFound), s))"

text \<open>
  The publisher is the caller's: what it returns, whether the token was committed and its error.
  The committed flag is returned also when the transaction fails afterwards.
\<close>

definition PublishPendingCredential ::
    "string \<Rightarrow> string \<Rightarrow> string \<Rightarrow> (bool \<times> err) \<Rightarrow> BrokerDb \<Rightarrow> (bool \<times> err) \<times> BrokerDb" where
  "PublishPendingCredential controllerID deviceID mac publish s =
     (case validateCredentialIdentity controllerID deviceID of
        Some e \<Rightarrow> ((False, Some e), s)
      | None \<Rightarrow>
          (case queryCredential controllerID deviceID s of
             Inl e \<Rightarrow> ((False, Some e), s)
           | Inr c \<Rightarrow>
               if \<not> cr_Disabled c \<or> \<not> cr_Pending c \<or> cr_MAC c \<noteq> mac
               then ((False, Some (Sentinel ErrNotFound)), s)
               else case snd publish of
                      Some e \<Rightarrow> ((fst publish, Some e), s)
                    | None \<Rightarrow>
                        let hit = (\<lambda>c. credential_at controllerID deviceID c \<and> cr_MAC c = mac
                                       \<and> cr_Disabled c \<and> cr_Pending c)
                        in if affected hit (credentials s) = 0
                           then ((fst publish, Some (Sentinel ErrNotFound)), s)
                           else ((fst publish, None),
                                 s\<lparr>credentials := upd hit activate (credentials s)\<rparr>)))"

definition DeletePendingCredential :: "string \<Rightarrow> string \<Rightarrow> string \<Rightarrow> BrokerDb \<Rightarrow> unit result \<times> BrokerDb" where
  "DeletePendingCredential controllerID deviceID mac s =
     (case validateCredentialIdentity controllerID deviceID of
        Some e \<Rightarrow> (Inl e, s)
      | None \<Rightarrow>
          let hit = (\<lambda>c. credential_at controllerID deviceID c \<and> cr_MAC c = mac \<and> cr_Disabled c \<and> cr_Pending c) in
          if affected hit (credentials s) = 0 then (Inl (Sentinel ErrNotFound), s)
          else (Inr (), s\<lparr>credentials := filter (\<lambda>c. \<not> hit c) (credentials s)\<rparr>))"

definition set_offline :: "nat \<Rightarrow> Device \<Rightarrow> Device" where
  "set_offline revision d = d\<lparr>dev_Online := False, dev_Revision := revision\<rparr>"

definition DisableCredential_tx :: "string \<Rightarrow> string \<Rightarrow> (BrokerDb, unit) tx" where
  "DisableCredential_tx controllerID deviceID =
     tx_bind (tx_query (queryCredential controllerID deviceID)) (\<lambda>_.
     tx_bind (tx_exec (\<lambda>s. s\<lparr>credentials :=
         upd (credential_at controllerID deviceID)
           (\<lambda>c. c\<lparr>cr_Disabled := True, cr_Pending := False\<rparr>) (credentials s)\<rparr>)) (\<lambda>_.
     tx_bind (tx_get (\<lambda>s. sel1 (device_at controllerID deviceID) (devices s))) (\<lambda>row.
     case row of
       None \<Rightarrow> tx_ret ()
     | Some d \<Rightarrow>
         if \<not> dev_Online d then tx_ret ()
         else tx_bind (nextControllerRevision controllerID) (\<lambda>revision.
           tx_exec (\<lambda>s. s\<lparr>devices :=
             upd (device_at controllerID deviceID) (set_offline revision) (devices s)\<rparr>)))))"

definition DisableCredential :: "string \<Rightarrow> string \<Rightarrow> BrokerDb \<Rightarrow> unit result \<times> BrokerDb" where
  "DisableCredential controllerID deviceID =
     guard_tx (validateCredentialIdentity controllerID deviceID) (DisableCredential_tx controllerID deviceID)"

section \<open>Registration and presence\<close>

record PresenceTransition =
  pt_Revision :: nat
  pt_Count :: int

definition deviceFromDescriptor :: "DeviceDescriptor \<Rightarrow> int \<Rightarrow> nat \<Rightarrow> Device" where
  "deviceFromDescriptor d lastSeenAt revision =
     \<lparr>dev_ControllerID = dd_ControllerID d, dev_DeviceID = dd_DeviceID d, dev_Name = dd_Name d,
      dev_OS = dd_OS d, dev_Arch = dd_Arch d, dev_RuntimeVersion = dd_RuntimeVersion d,
      dev_ProtocolVersion = dd_ProtocolVersion d, dev_Features = dd_Features d,
      dev_Online = True, dev_LastSeenAt = lastSeenAt, dev_Revision = revision\<rparr>"

definition upsert_device :: "Device \<Rightarrow> BrokerDb \<Rightarrow> BrokerDb" where
  "upsert_device d s =
     (let hit = device_at (dev_ControllerID d) (dev_DeviceID d) in
      s\<lparr>devices := (if sel1 hit (devices s) = None then devices s @ [d]
                    else upd hit (\<lambda>_. d) (devices s))\<rparr>)"

definition device_checks :: "Device \<Rightarrow> bool" where
  "device_checks d \<longleftrightarrow> 0 < dev_ProtocolVersion d \<and> 0 \<le> dev_LastSeenAt d \<and> 0 < dev_Revision d"

definition authorize_mac :: "string option \<Rightarrow> DeviceDescriptor \<Rightarrow> BrokerDb \<Rightarrow> unit result" where
  "authorize_mac mac d s =
     (case mac of
        None \<Rightarrow> Inr ()
      | Some m \<Rightarrow>
          (case queryCredentialByMAC m s of
             Inl e \<Rightarrow> Inl e
           | Inr c \<Rightarrow>
               if cr_Disabled c \<or> cr_Pending c then Inl (Sentinel ErrCredentialDisabled)
               else if cr_ControllerID c \<noteq> dd_ControllerID d \<or> cr_DeviceID c \<noteq> dd_DeviceID d \<or> cr_MAC c \<noteq> m
               then Inl (Sentinel ErrAuthorizationDenied)
               else Inr ()))"

definition registerDevice_tx :: "string option \<Rightarrow> DeviceDescriptor \<Rightarrow> int \<Rightarrow> (BrokerDb, Device) tx" where
  "registerDevice_tx mac d lastSeenAt =
     tx_bind (tx_query (authorize_mac mac d)) (\<lambda>_.
     tx_bind (nextControllerRevision (dd_ControllerID d)) (\<lambda>revision.
     let registered = deviceFromDescriptor d lastSeenAt revision in
     tx_bind (tx_insert ''register device'' (\<lambda>s. device_checks registered) (upsert_device registered)) (\<lambda>_.
     tx_ret registered)))"

definition registerDevice :: "string option \<Rightarrow> DeviceDescriptor \<Rightarrow> int \<Rightarrow> BrokerDb \<Rightarrow> Device result \<times> BrokerDb" where
  "registerDevice mac d observedAt =
     guard_tx (first_err [DeviceDescriptor_Validate d, unixTime observedAt ''lastSeenAt''])
       (registerDevice_tx mac d observedAt)"

definition RegisterAuthenticatedDevice ::
    "string \<Rightarrow> DeviceDescriptor \<Rightarrow> int \<Rightarrow> BrokerDb \<Rightarrow> Device result \<times> BrokerDb" where
  "RegisterAuthenticatedDevice mac d observedAt = registerDevice (Some mac) d observedAt"

definition RegisterTrustedDevice :: "DeviceDescriptor \<Rightarrow> int \<Rightarrow> BrokerDb \<Rightarrow> Device result \<times> BrokerDb" where
  "RegisterTrustedDevice d observedAt = registerDevice None d observedAt"

definition set_row :: "string \<Rightarrow> string \<Rightarrow> (Device \<Rightarrow> Device) \<Rightarrow> BrokerDb \<Rightarrow> BrokerDb" where
  "set_row controllerID deviceID f s = s\<lparr>devices := upd (device_at controllerID deviceID) f (devices s)\<rparr>"

definition updateDevicePresence_tx ::
    "string \<Rightarrow> string \<Rightarrow> nat \<Rightarrow> int \<Rightarrow> bool \<Rightarrow> (BrokerDb, Device) tx" where
  "updateDevicePresence_tx controllerID deviceID expectedRevision lastSeenAt markOffline =
     tx_bind (tx_query (queryDevice controllerID deviceID)) (\<lambda>device.
     if dev_Revision device \<noteq> expectedRevision then tx_fail (Sentinel ErrStaleRevision)
     else if \<not> dev_Online device then
       (if markOffline then tx_ret device
        else tx_fail (Wrapped ''device is offline'' (Sentinel ErrConflict)))
     else if \<not> markOffline \<and> lastSeenAt \<le> dev_LastSeenAt device then tx_ret device
     else if \<not> markOffline then
       (let device' = device\<lparr>dev_LastSeenAt := lastSeenAt\<rparr> in
        tx_bind (tx_exec (set_row controllerID deviceID (\<lambda>d. d\<lparr>dev_LastSeenAt := dev_LastSeenAt device'\<rparr>))) (\<lambda>_.
        tx_ret device'))
     else
       (let seen = (if lastSeenAt > dev_LastSeenAt device then lastSeenAt else dev_LastSeenAt device) in
        tx_bind (nextControllerRevision controllerID) (\<lambda>revision.
        let device' = device\<lparr>dev_LastSeenAt := seen, dev_Revision := revision, dev_Online := False\<rparr> in
        tx_bind (tx_exec (set_row controllerID deviceID (\<lambda>d.
            d\<lparr>dev_Online := dev_Online device', dev_LastSeenAt := dev_LastSeenAt device',
              dev_Revision := dev_Revision device'\<rparr>))) (\<lambda>_.
        tx_ret device'))))"

definition updateDevicePresence ::
    "string \<Rightarrow> string \<Rightarrow> nat \<Rightarrow> int \<Rightarrow> bool \<Rightarrow> BrokerDb \<Rightarrow> Device result \<times> BrokerDb" where
  "updateDevicePresence controllerID deviceID expectedRevision observedAt markOffline =
     guard_tx (first_err
       [validateDeviceIdentity controllerID deviceID,
        fail_if (expectedRevision = 0) (Plain ''expectedRevision must be positive''),
        unixTime observedAt ''lastSeenAt''])
     (updateDevicePresence_tx controllerID deviceID expectedRevision observedAt markOffline)"

definition HeartbeatDevice :: "string \<Rightarrow> string \<Rightarrow> nat \<Rightarrow> int \<Rightarrow> BrokerDb \<Rightarrow> Device result \<times> BrokerDb" where
  "HeartbeatDevice controllerID deviceID expectedRevision observedAt =
     updateDevicePresence controllerID deviceID expectedRevision observedAt False"

definition MarkDeviceOffline :: "string \<Rightarrow> string \<Rightarrow> nat \<Rightarrow> int \<Rightarrow> BrokerDb \<Rightarrow> Device result \<times> BrokerDb" where
  "MarkDeviceOffline controllerID deviceID expectedRevision observedAt =
     updateDevicePresence controllerID deviceID expectedRevision observedAt True"

definition markMatchingDevicesOffline_tx ::
    "string \<Rightarrow> (Device \<Rightarrow> bool) \<Rightarrow> (BrokerDb, PresenceTransition) tx" where
  "markMatchingDevicesOffline_tx controllerID predicate =
     (let hit = (\<lambda>d. dev_ControllerID d = controllerID \<and> predicate d) in
      tx_bind (tx_get (\<lambda>s. affected hit (devices s))) (\<lambda>count.
      if count = 0 then
        tx_bind (tx_query (controllerRevision controllerID)) (\<lambda>revision.
        tx_ret \<lparr>pt_Revision = revision, pt_Count = 0\<rparr>)
      else
        tx_bind (nextControllerRevision controllerID) (\<lambda>revision.
        tx_bind (tx_exec (\<lambda>s. s\<lparr>devices := upd hit (set_offline revision) (devices s)\<rparr>)) (\<lambda>_.
        tx_ret \<lparr>pt_Revision = revision, pt_Count = int count\<rparr>))))"

definition markMatchingDevicesOffline ::
    "string \<Rightarrow> (Device \<Rightarrow> bool) \<Rightarrow> BrokerDb \<Rightarrow> PresenceTransition result \<times> BrokerDb" where
  "markMatchingDevicesOffline controllerID predicate =
     guard_tx (wrap ''controllerId'' (ValidateID controllerID))
       (markMatchingDevicesOffline_tx controllerID predicate)"

definition verifyBrokerHostKind :: "HostKind \<Rightarrow> BrokerDb \<Rightarrow> unit result" where
  "verifyBrokerHostKind kind s =
     (case broker_metadata s of
        None \<Rightarrow> Inl (Wrapped ''load broker state host kind'' (Plain ''sql: no rows in result set''))
      | Some stateKind \<Rightarrow>
          (case HostKind_Validate stateKind of
             Some e \<Rightarrow> Inl (Wrapped ''stored broker state host kind'' e)
           | None \<Rightarrow>
               if stateKind \<noteq> kind then Inl (Plain ''broker host kind does not match state host kind'')
               else Inr ()))"

definition bindBrokerHostKind :: "HostKind \<Rightarrow> BrokerDb \<Rightarrow> unit result \<times> BrokerDb" where
  "bindBrokerHostKind kind =
     withImmediateTransaction
       (tx_bind (tx_insert ''initialize broker state host kind''
          (\<lambda>s. kind = Codex \<or> kind = TraeX)
          (\<lambda>s. if broker_metadata s = None then s\<lparr>broker_metadata := Some kind\<rparr> else s)) (\<lambda>_.
        tx_query (verifyBrokerHostKind kind)))"

definition BeginBrokerEpoch :: "string \<Rightarrow> HostKind \<Rightarrow> BrokerDb \<Rightarrow> PresenceTransition result \<times> BrokerDb" where
  "BeginBrokerEpoch controllerID kind s =
     (case first_err [wrap ''controllerId'' (ValidateID controllerID), HostKind_Validate kind] of
        Some e \<Rightarrow> (Inl e, s)
      | None \<Rightarrow>
          (case bindBrokerHostKind kind s of
             (Inl e, s1) \<Rightarrow> (Inl e, s1)
           | (Inr _, s1) \<Rightarrow> markMatchingDevicesOffline controllerID dev_Online s1))"

definition ExpireDevices :: "string \<Rightarrow> int \<Rightarrow> BrokerDb \<Rightarrow> PresenceTransition result \<times> BrokerDb" where
  "ExpireDevices controllerID cutoff s =
     (case unixTime cutoff ''lastSeenCutoff'' of
        Some e \<Rightarrow> (Inl e, s)
      | None \<Rightarrow> markMatchingDevicesOffline controllerID (\<lambda>d. dev_Online d \<and> dev_LastSeenAt d \<le> cutoff) s)"

section \<open>Reading\<close>

definition MaximumDevicePage :: int where "MaximumDevicePage = 32"

record DevicePageRequest =
  dpr_AfterDeviceID :: string
  dpr_Limit :: int
  dpr_ExpectedRevision :: "nat option"

record DevicePage =
  dp_Revision :: nat
  dp_Devices :: "Device list"
  dp_NextCursor :: string

definition device_rows :: "string \<Rightarrow> string \<Rightarrow> BrokerDb \<Rightarrow> Device list" where
  "device_rows controllerID after s =
     sort_key dev_DeviceID (filter (\<lambda>d. dev_ControllerID d = controllerID \<and> after < dev_DeviceID d) (devices s))"

definition make_page :: "nat \<Rightarrow> nat \<Rightarrow> Device list \<Rightarrow> DevicePage" where
  "make_page revision limit rows =
     (if length rows > limit
      then \<lparr>dp_Revision = revision, dp_Devices = take limit rows, dp_NextCursor = dev_DeviceID (rows ! (limit - 1))\<rparr>
      else \<lparr>dp_Revision = revision, dp_Devices = rows, dp_NextCursor = ''''\<rparr>)"

definition ListDevices :: "string \<Rightarrow> DevicePageRequest \<Rightarrow> BrokerDb \<Rightarrow> DevicePage result" where
  "ListDevices controllerID request s =
     guard_res (first_err
       [wrap ''controllerId'' (ValidateID controllerID),
        (if dpr_AfterDeviceID request \<noteq> '''' then first_err
           [wrap ''device cursor'' (ValidateID (dpr_AfterDeviceID request)),
            fail_if (dpr_ExpectedRevision request = None) (Plain ''device cursor requires an expected revision'')]
         else None),
        fail_if (dpr_Limit request < 1 \<or> dpr_Limit request > MaximumDevicePage)
          (Plain ''device page limit must be from 1 through 32'')])
     (case controllerRevision controllerID s of
        Inl e \<Rightarrow> Inl e
      | Inr revision \<Rightarrow>
          if (case dpr_ExpectedRevision request of None \<Rightarrow> False | Some r \<Rightarrow> r \<noteq> revision)
          then Inl (Sentinel ErrRevisionChanged)
          else
            (case traverse (\<lambda>d. scanDevice (Some d))
                (take (nat (dpr_Limit request) + 1) (device_rows controllerID (dpr_AfterDeviceID request) s)) of
               Inl e \<Rightarrow> Inl e
             | Inr rows \<Rightarrow> Inr (make_page revision (nat (dpr_Limit request)) rows)))"

definition DescribeDevice :: "string \<Rightarrow> string \<Rightarrow> BrokerDb \<Rightarrow> (nat \<times> Device) result" where
  "DescribeDevice controllerID deviceID s =
     guard_res (validateDeviceIdentity controllerID deviceID)
     (case controllerRevision controllerID s of
        Inl e \<Rightarrow> Inl e
      | Inr revision \<Rightarrow>
          (case queryDevice controllerID deviceID s of
             Inl e \<Rightarrow> Inl e
           | Inr device \<Rightarrow> Inr (revision, device)))"

section \<open>Published worker readiness\<close>

definition readiness_at :: "string \<Rightarrow> string \<Rightarrow> ReadinessRow \<Rightarrow> bool" where
  "readiness_at controllerID deviceID r \<longleftrightarrow> rd_controller_id r = controllerID \<and> rd_device_id r = deviceID"

definition queryWorkerReadiness :: "string \<Rightarrow> string \<Rightarrow> BrokerDb \<Rightarrow> WorkerReadiness result" where
  "queryWorkerReadiness controllerID deviceID s =
     (case sel1 (readiness_at controllerID deviceID) (device_worker_readiness s) of
        None \<Rightarrow> Inl (Sentinel ErrNotFound)
      | Some r \<Rightarrow>
          (case WorkerReadiness_Validate (rd_readiness r) of
             Some e \<Rightarrow> Inl (Wrapped ''invalid stored worker readiness'' e)
           | None \<Rightarrow> Inr (rd_readiness r)))"

definition upsert_readiness :: "string \<Rightarrow> string \<Rightarrow> WorkerReadiness \<Rightarrow> BrokerDb \<Rightarrow> BrokerDb" where
  "upsert_readiness controllerID deviceID readiness s =
     (let row = \<lparr>rd_controller_id = controllerID, rd_device_id = deviceID, rd_readiness = readiness\<rparr>;
          hit = readiness_at controllerID deviceID
      in s\<lparr>device_worker_readiness :=
             (if sel1 hit (device_worker_readiness s) = None then device_worker_readiness s @ [row]
              else upd hit (\<lambda>_. row) (device_worker_readiness s))\<rparr>)"

text \<open>
  The INSERT fails for an epoch beyond the 63 bits of the column; the table's other CHECKs follow
  from the validation, and the device row its foreign key names was read before.
\<close>

definition PutWorkerReadiness_tx ::
    "string \<Rightarrow> string \<Rightarrow> WorkerReadiness \<Rightarrow> (BrokerDb, WorkerReadiness) tx" where
  "PutWorkerReadiness_tx controllerID deviceID readiness =
     tx_bind (tx_query (queryDevice controllerID deviceID)) (\<lambda>_.
     tx_bind (tx_query (\<lambda>s. or_not_found (queryWorkerReadiness controllerID deviceID s))) (\<lambda>found.
     let put = tx_bind (tx_insert ''persist worker readiness'' (\<lambda>s. int (wr_Epoch readiness) \<le> MaxInt64)
                  (upsert_readiness controllerID deviceID readiness)) (\<lambda>_. tx_ret readiness)
     in case found of
          None \<Rightarrow> put
        | Some current \<Rightarrow>
            if wr_Epoch readiness < wr_Epoch current
               \<or> wr_Epoch readiness = wr_Epoch current \<and> wr_UpdatedAt readiness < wr_UpdatedAt current
            then tx_fail (Sentinel ErrWorkerReadinessStale)
            else if wr_Epoch readiness = wr_Epoch current \<and> wr_UpdatedAt readiness = wr_UpdatedAt current
            then if readiness \<noteq> current then tx_fail (Sentinel ErrWorkerReadinessStale) else tx_ret current
            else put))"

definition PutWorkerReadiness ::
    "string \<Rightarrow> string \<Rightarrow> WorkerReadiness \<Rightarrow> BrokerDb \<Rightarrow> WorkerReadiness result \<times> BrokerDb" where
  "PutWorkerReadiness controllerID deviceID readiness =
     guard_tx (first_err [validateDeviceIdentity controllerID deviceID, WorkerReadiness_Validate readiness])
       (PutWorkerReadiness_tx controllerID deviceID readiness)"

definition WorkerReadiness_read :: "string \<Rightarrow> string \<Rightarrow> BrokerDb \<Rightarrow> WorkerReadiness result" where
  "WorkerReadiness_read controllerID deviceID s =
     guard_res (first_err [wrap ''controllerId'' (ValidateID controllerID), wrap ''deviceId'' (ValidateID deviceID)])
       (queryWorkerReadiness controllerID deviceID s)"

end
