(* ===== verification/Registry_Inv.thy ===== *)
theory Registry_Inv
  imports Registry
begin

text \<open>
  The registry invariant: rows are unique and valid, and no device carries a revision its
  controller's counter has not reached. Every operation of \<open>Registry\<close> keeps it; the lemmas are
  stated per table so that the other components can reuse them.
\<close>

section \<open>The revision counter\<close>

definition regs_inv :: "BrokerDb \<Rightarrow> bool" where
  "regs_inv s \<longleftrightarrow>
     uniq reg_controller_id (controller_registries s)
     \<and> (\<forall>r \<in> set (controller_registries s). 0 \<le> reg_revision r \<and> reg_revision r \<le> MaxInt64)"

lemma registry_at_alt: "registry_at c = (\<lambda>r. reg_controller_id r = c)"
  by (simp add: registry_at_def fun_eq_iff)

lemma registry_revision_alt:
  "registry_revision c s =
     (case sel1 (registry_at c) (controller_registries s) of None \<Rightarrow> 0 | Some r \<Rightarrow> reg_revision r)"
  by (simp add: registry_revision_def registry_at_alt)

lemma registry_revision_bounds:
  assumes "regs_inv s"
  shows "0 \<le> registry_revision c s \<and> registry_revision c s \<le> MaxInt64"
  using assms sel1_SomeD [of "registry_at c" "controller_registries s"]
  by (auto simp: registry_revision_alt regs_inv_def MaxInt64_def split: option.splits)

lemma registry_revision_frame [simp]:
  "registry_revision c (s\<lparr>devices := a\<rparr>) = registry_revision c s"
  "registry_revision c (s\<lparr>credentials := b\<rparr>) = registry_revision c s"
  "registry_revision c (s\<lparr>device_worker_readiness := d\<rparr>) = registry_revision c s"
  "registry_revision c (s\<lparr>broker_metadata := f\<rparr>) = registry_revision c s"
  by (simp_all add: registry_revision_def)

lemma regs_inv_frame [simp]:
  "regs_inv (s\<lparr>devices := a\<rparr>) = regs_inv s"
  "regs_inv (s\<lparr>credentials := b\<rparr>) = regs_inv s"
  "regs_inv (s\<lparr>device_worker_readiness := d\<rparr>) = regs_inv s"
  "regs_inv (s\<lparr>broker_metadata := f\<rparr>) = regs_inv s"
  by (simp_all add: regs_inv_def)

text \<open>The row the counter reads and writes after the initialising INSERT.\<close>

lemma init_registry_row:
  obtains r where "sel1 (registry_at c) (controller_registries (init_registry c s)) = Some r"
    and "reg_revision r = registry_revision c s" and "reg_controller_id r = c"
proof (cases "sel1 (registry_at c) (controller_registries s)")
  case None
  then show thesis
    using that [of "\<lparr>reg_controller_id = c, reg_revision = 0\<rparr>"]
    by (simp add: init_registry_def registry_revision_alt registry_at_def)
next
  case (Some r)
  then show thesis
    using that [of r] sel1_SomeD [OF Some] by (simp add: init_registry_def registry_revision_alt registry_at_def)
qed

lemma init_registry_inv:
  assumes "regs_inv s"
  shows "regs_inv (init_registry c s)"
  using assms by (auto simp: init_registry_def regs_inv_def sel1_None_iff registry_at_def MaxInt64_def)

lemma init_registry_other:
  "c' \<noteq> c \<Longrightarrow> sel1 (registry_at c') (controller_registries (init_registry c s)) =
     sel1 (registry_at c') (controller_registries s)"
  by (auto simp: init_registry_def sel1_append registry_at_def split: option.splits)

lemma init_registry_frame: "init_registry c s = s\<lparr>controller_registries := controller_registries (init_registry c s)\<rparr>"
  by (simp add: init_registry_def)

definition next_regs :: "string \<Rightarrow> BrokerDb \<Rightarrow> RegistryRow list" where
  "next_regs c s =
     upd (\<lambda>r. reg_controller_id r = c \<and> reg_revision r = registry_revision c s)
       (\<lambda>r. r\<lparr>reg_revision := registry_revision c s + 1\<rparr>) (controller_registries (init_registry c s))"

lemma nextControllerRevision_eq:
  assumes "regs_inv s"
  shows "nextControllerRevision c s =
    (if registry_revision c s = MaxInt64 then Inl (Sentinel ErrRevisionExhausted)
     else Inr (nat (registry_revision c s + 1), s\<lparr>controller_registries := next_regs c s\<rparr>))"
proof -
  obtain r where r: "sel1 (registry_at c) (controller_registries (init_registry c s)) = Some r"
    "reg_revision r = registry_revision c s" "reg_controller_id r = c"
    by (rule init_registry_row)
  have b: "0 \<le> registry_revision c s" "registry_revision c s \<le> MaxInt64"
    using registry_revision_bounds [OF assms] by auto
  have hit: "0 < affected (\<lambda>q. reg_controller_id q = c \<and> reg_revision q = registry_revision c s)
      (controller_registries (init_registry c s))"
  proof -
    have "r \<in> set (controller_registries (init_registry c s))" using sel1_SomeD [OF r(1)] by simp
    then show ?thesis using r(2,3) by (auto simp: affected_def filter_empty_conv)
  qed
  have upd: "(init_registry c s)\<lparr>controller_registries := rs\<rparr> = s\<lparr>controller_registries := rs\<rparr>" for rs
    by (subst init_registry_frame) simp
  show ?thesis
  proof (cases "registry_revision c s = MaxInt64")
    case True
    then show ?thesis
      using r by (simp add: nextControllerRevision_def go_defs MaxInt64_def)
  next
    case False
    then have "add_int64 (registry_revision c s) 1 = registry_revision c s + 1"
      "uint64_of_int64 (registry_revision c s + 1) = nat (registry_revision c s + 1)"
      using b by (simp_all add: add_int64_succ uint64_of_int64_nat)
    then show ?thesis
      using r b hit False
      by (simp add: nextControllerRevision_def go_defs Let_def upd next_regs_def)
  qed
qed

lemma next_regs_inv:
  assumes "regs_inv s" "registry_revision c s \<noteq> MaxInt64"
  shows "regs_inv (s\<lparr>controller_registries := next_regs c s\<rparr>)"
proof -
  have b: "0 \<le> registry_revision c s" "registry_revision c s < MaxInt64"
    using registry_revision_bounds [OF assms(1), of c] assms(2) by auto
  show ?thesis
    using init_registry_inv [OF assms(1), of c] b
    by (auto simp: regs_inv_def next_regs_def elim!: in_upd_cases)
qed

lemma next_regs_revision:
  "registry_revision c' (s\<lparr>controller_registries := next_regs c s\<rparr>) =
     (if c' = c then registry_revision c s + 1 else registry_revision c' s)"
proof -
  obtain r where r: "sel1 (registry_at c) (controller_registries (init_registry c s)) = Some r"
    "reg_revision r = registry_revision c s" "reg_controller_id r = c"
    by (rule init_registry_row)
  have eq: "sel1 (registry_at c') (next_regs c s) =
      map_option (\<lambda>q. if reg_controller_id q = c \<and> reg_revision q = registry_revision c s
                      then q\<lparr>reg_revision := registry_revision c s + 1\<rparr> else q)
        (sel1 (registry_at c') (controller_registries (init_registry c s)))"
    unfolding next_regs_def by (rule sel1_upd) (simp add: registry_at_def)
  show ?thesis
  proof (cases "c' = c")
    case True
    then show ?thesis using eq r by (simp add: registry_revision_alt)
  next
    case False
    then have "sel1 (registry_at c') (next_regs c s) = sel1 (registry_at c') (controller_registries s)"
      using eq init_registry_other [OF False, of s] sel1_SomeD [of "registry_at c'" "controller_registries s"]
      by (cases "sel1 (registry_at c') (controller_registries s)") (auto simp: registry_at_def)
    then show ?thesis using False by (simp add: registry_revision_alt)
  qed
qed

text \<open>What a successful allocation does, in the form the operations use it.\<close>

lemma nextControllerRevision_Inr:
  assumes "regs_inv s" "nextControllerRevision c s = Inr (n, s')"
  shows "s' = s\<lparr>controller_registries := next_regs c s\<rparr>" "int n = registry_revision c s + 1" "0 < n"
    "regs_inv s'" "registry_revision c' s' = (if c' = c then int n else registry_revision c' s)"
  using assms registry_revision_bounds [OF assms(1), of c] next_regs_inv [OF assms(1), of c]
    next_regs_revision [of c' c s]
  by (auto simp: nextControllerRevision_eq split: if_splits)

interpretation registry_seq: sequence regs_inv "registry_revision c" "nextControllerRevision c" int
  by unfold_locales (use nextControllerRevision_Inr in auto)

section \<open>Devices\<close>

definition device_key :: "Device \<Rightarrow> string \<times> string" where
  "device_key d = (dev_ControllerID d, dev_DeviceID d)"

definition devices_inv :: "BrokerDb \<Rightarrow> bool" where
  "devices_inv s \<longleftrightarrow>
     regs_inv s \<and> uniq device_key (devices s)
     \<and> (\<forall>d \<in> set (devices s). Device_Validate d = None
           \<and> int (dev_Revision d) \<le> registry_revision (dev_ControllerID d) s)"

lemma devices_inv_regs: "devices_inv s \<Longrightarrow> regs_inv s"
  by (simp add: devices_inv_def)

lemma devices_inv_frame [simp]:
  "devices_inv (s\<lparr>credentials := b\<rparr>) = devices_inv s"
  "devices_inv (s\<lparr>device_worker_readiness := d\<rparr>) = devices_inv s"
  "devices_inv (s\<lparr>broker_metadata := f\<rparr>) = devices_inv s"
  by (simp_all add: devices_inv_def)

lemma device_at_key: "device_at c d = (\<lambda>x. device_key x = (c, d))"
  by (auto simp: device_at_def device_key_def fun_eq_iff)

lemma sum_lengths_le:
  "\<forall>f \<in> set fs. length f \<le> n \<Longrightarrow> sum_list (map (\<lambda>f. length f + 3) fs) \<le> length fs * (n + 3)"
  by (induction fs) auto

lemma features_fit:
  assumes "Device_Validate d = None"
  shows "features_json_size (dev_Features d) \<le> maximumFeaturesJSON"
proof -
  have "length (dev_Features d) \<le> 64" "\<forall>f \<in> set (dev_Features d). length f \<le> 64"
    using assms by (auto simp: Device_Validate_def DeviceDescriptor_Validate_def Device_Descriptor_def
        validate_features_None featurePattern_def)
  then have "sum_list (map (\<lambda>f. length f + 3) (dev_Features d)) \<le> 64 * (64 + 3)"
    using sum_lengths_le [of "dev_Features d" 64] mult_le_mono1 [of "length (dev_Features d)" 64 67] by simp
  then show ?thesis
    by (simp add: features_json_size_def maximumFeaturesJSON_def)
qed

lemma scanDevice_valid: "Device_Validate d = None \<Longrightarrow> scanDevice (Some d) = Inr d"
  using features_fit [of d] by (simp add: scanDevice_def)

lemma queryDevice_inv:
  assumes "devices_inv s"
  shows "queryDevice c d s =
    (case sel1 (device_at c d) (devices s) of None \<Rightarrow> Inl (Sentinel ErrNotFound) | Some x \<Rightarrow> Inr x)"
proof (cases "sel1 (device_at c d) (devices s)")
  case (Some x)
  then have "Device_Validate x = None"
    using assms sel1_SomeD [OF Some] by (simp add: devices_inv_def)
  then show ?thesis using Some by (simp add: queryDevice_def scanDevice_valid)
qed (simp add: queryDevice_def scanDevice_def)

lemma queryDevice_Inr:
  assumes "devices_inv s" "queryDevice c d s = Inr x"
  shows "sel1 (device_at c d) (devices s) = Some x" "x \<in> set (devices s)" "dev_ControllerID x = c"
    "dev_DeviceID x = d" "Device_Validate x = None" "int (dev_Revision x) \<le> registry_revision c s"
proof -
  show x: "sel1 (device_at c d) (devices s) = Some x"
    using assms by (simp add: queryDevice_inv split: option.splits)
  then have mem: "x \<in> set (devices s)" "device_at c d x" by (auto dest: sel1_SomeD)
  then show "x \<in> set (devices s)" "dev_ControllerID x = c" "dev_DeviceID x = d"
    by (auto simp: device_at_def)
  then show "Device_Validate x = None" "int (dev_Revision x) \<le> registry_revision c s"
    using assms(1) by (auto simp: devices_inv_def)
qed

lemma Device_Validate_presence:
  "Device_Validate d = None \<Longrightarrow> 0 \<le> t \<Longrightarrow> 0 < n \<Longrightarrow>
     Device_Validate (d\<lparr>dev_Online := b, dev_LastSeenAt := t, dev_Revision := n\<rparr>) = None"
  by (simp add: Device_Validate_def Device_Descriptor_def)

lemma Device_Validate_seen:
  "Device_Validate d = None \<Longrightarrow> 0 \<le> t \<Longrightarrow> Device_Validate (d\<lparr>dev_LastSeenAt := t\<rparr>) = None"
  by (simp add: Device_Validate_def Device_Descriptor_def)

lemma Device_Validate_offline:
  "Device_Validate d = None \<Longrightarrow> 0 < n \<Longrightarrow> Device_Validate (set_offline n d) = None"
  by (simp add: Device_Validate_def Device_Descriptor_def set_offline_def)

lemma Device_Validate_descriptor:
  "DeviceDescriptor_Validate d = None \<Longrightarrow> 0 \<le> t \<Longrightarrow> 0 < n \<Longrightarrow>
     Device_Validate (deviceFromDescriptor d t n) = None"
  by (cases d) (simp add: Device_Validate_def Device_Descriptor_def deviceFromDescriptor_def)

text \<open>
  What one step may do to a registry: counters only grow, and a controller whose counter stands
  still keeps its devices, except for the time they were last seen.
\<close>

definition visible_devices :: "string \<Rightarrow> BrokerDb \<Rightarrow> Device list" where
  "visible_devices c s =
     map (\<lambda>d. d\<lparr>dev_LastSeenAt := 0\<rparr>) (filter (\<lambda>d. dev_ControllerID d = c) (devices s))"

definition registry_le :: "BrokerDb \<Rightarrow> BrokerDb \<Rightarrow> bool" where
  "registry_le s s' \<longleftrightarrow>
     (\<forall>c. registry_revision c s < registry_revision c s'
        \<or> registry_revision c s = registry_revision c s' \<and> visible_devices c s = visible_devices c s')"

lemma registry_le_refl [simp]: "registry_le s s"
  by (simp add: registry_le_def)

lemma registry_le_trans: "registry_le s t \<Longrightarrow> registry_le t u \<Longrightarrow> registry_le s u"
  unfolding registry_le_def by (metis order_less_trans)

lemma registry_le_frame [simp]:
  "registry_le s (t\<lparr>credentials := b\<rparr>) = registry_le s t"
  "registry_le s (t\<lparr>device_worker_readiness := d\<rparr>) = registry_le s t"
  "registry_le s (t\<lparr>broker_metadata := f\<rparr>) = registry_le s t"
  "registry_le (t\<lparr>credentials := b\<rparr>) s = registry_le t s"
  by (simp_all add: registry_le_def visible_devices_def)

definition device_step :: "BrokerDb \<Rightarrow> BrokerDb \<Rightarrow> bool" where
  "device_step s s' \<longleftrightarrow>
     devices_inv s' \<and> registry_le s s' \<and> device_key ` set (devices s) \<subseteq> device_key ` set (devices s')"

lemma device_keys_upd: "(\<And>d. device_key (f d) = device_key d) \<Longrightarrow> device_key ` set (upd P f ds) = device_key ` set ds"
  using map_upd [of P device_key f ds] by (metis set_map)

lemma filter_upd_other:
  assumes "\<And>d. P d \<Longrightarrow> \<not> Q d \<and> \<not> Q (f d)"
  shows "filter Q (upd P f xs) = filter Q xs"
  using assms by (induction xs) auto

lemma registry_le_next:
  assumes "regs_inv s" "nextControllerRevision c s = Inr (n, s1)"
    and "\<And>c'. c' \<noteq> c \<Longrightarrow> filter (\<lambda>d. dev_ControllerID d = c') ds = filter (\<lambda>d. dev_ControllerID d = c') (devices s)"
  shows "registry_le s (s1\<lparr>devices := ds\<rparr>)"
  using assms(3) nextControllerRevision_Inr [OF assms(1,2)]
  by (auto simp: registry_le_def visible_devices_def)

lemma device_touch:
  assumes inv: "devices_inv s" and nxt: "nextControllerRevision c s = Inr (n, s1)"
    and P: "\<And>d. P d \<Longrightarrow> dev_ControllerID d = c"
    and f: "\<And>d. device_key (f d) = device_key d" "\<And>d. dev_Revision (f d) = n"
      "\<And>d. d \<in> set (devices s) \<Longrightarrow> P d \<Longrightarrow> Device_Validate (f d) = None"
  shows "device_step s (s1\<lparr>devices := upd P f (devices s)\<rparr>)"
proof -
  note nx = nextControllerRevision_Inr [OF devices_inv_regs [OF inv] nxt]
  have ctrl: "dev_ControllerID (f d) = dev_ControllerID d" for d
    using f(1) [of d] by (simp add: device_key_def)
  have mono: "registry_revision c' s \<le> registry_revision c' s1" for c'
    using nx(2,5) by auto
  have "int (dev_Revision x) \<le> registry_revision (dev_ControllerID x) s1 \<and> Device_Validate x = None"
    if "x \<in> set (upd P f (devices s))" for x
    using that
  proof (cases rule: in_upd_cases)
    case same
    then show ?thesis using inv mono [of "dev_ControllerID x"] by (force simp: devices_inv_def)
  next
    case (changed d)
    then show ?thesis using f(2,3) P ctrl nx(5) by simp
  qed
  then have "devices_inv (s1\<lparr>devices := upd P f (devices s)\<rparr>)"
    using inv nx(4) f(1) by (simp add: devices_inv_def)
  moreover have "registry_le s (s1\<lparr>devices := upd P f (devices s)\<rparr>)"
    by (rule registry_le_next [OF devices_inv_regs [OF inv] nxt], rule filter_upd_other)
      (use P ctrl in auto)
  ultimately show ?thesis using f(1) by (simp add: device_step_def device_keys_upd)
qed

lemma device_append:
  assumes inv: "devices_inv s" and nxt: "nextControllerRevision (dev_ControllerID d) s = Inr (n, s1)"
    and d: "Device_Validate d = None" "dev_Revision d = n" "device_key d \<notin> device_key ` set (devices s)"
  shows "device_step s (s1\<lparr>devices := devices s @ [d]\<rparr>)"
proof -
  note nx = nextControllerRevision_Inr [OF devices_inv_regs [OF inv] nxt]
  have mono: "registry_revision c' s \<le> registry_revision c' s1" for c'
    using nx(2,5) by auto
  have "devices_inv (s1\<lparr>devices := devices s @ [d]\<rparr>)"
    using inv nx d order_trans [OF _ mono] by (auto simp: devices_inv_def)
  moreover have "registry_le s (s1\<lparr>devices := devices s @ [d]\<rparr>)"
    by (rule registry_le_next [OF devices_inv_regs [OF inv] nxt]) auto
  ultimately show ?thesis by (auto simp: device_step_def)
qed

section \<open>Operations on devices\<close>

lemma nextControllerRevision_devices:
  assumes "regs_inv s" "nextControllerRevision c s = Inr (n, s1)"
  shows "devices s1 = devices s" "credentials s1 = credentials s"
    "device_worker_readiness s1 = device_worker_readiness s" "broker_metadata s1 = broker_metadata s"
  using nextControllerRevision_Inr(1) [OF assms] by simp_all

lemma deviceFromDescriptor_simps [simp]:
  "dev_ControllerID (deviceFromDescriptor d t n) = dd_ControllerID d"
  "dev_DeviceID (deviceFromDescriptor d t n) = dd_DeviceID d"
  "dev_Revision (deviceFromDescriptor d t n) = n"
  "dev_LastSeenAt (deviceFromDescriptor d t n) = t"
  "dev_Online (deviceFromDescriptor d t n)"
  by (simp_all add: deviceFromDescriptor_def)

lemma set_offline_simps [simp]:
  "device_key (set_offline n d) = device_key d" "dev_Revision (set_offline n d) = n"
  "\<not> dev_Online (set_offline n d)" "dev_LastSeenAt (set_offline n d) = dev_LastSeenAt d"
  "dev_ControllerID (set_offline n d) = dev_ControllerID d" "dev_DeviceID (set_offline n d) = dev_DeviceID d"
  by (simp_all add: set_offline_def device_key_def)

lemma upsert_step:
  assumes inv: "devices_inv s" and nxt: "nextControllerRevision (dev_ControllerID d) s = Inr (n, s1)"
    and d: "Device_Validate d = None" "dev_Revision d = n"
  shows "device_step s (upsert_device d s1)"
proof -
  have dev: "devices s1 = devices s"
    by (rule nextControllerRevision_devices [OF devices_inv_regs [OF inv] nxt])
  show ?thesis
  proof (cases "sel1 (device_at (dev_ControllerID d) (dev_DeviceID d)) (devices s)")
    case None
    then have "device_key d \<notin> device_key ` set (devices s)"
      by (auto simp: sel1_None_iff device_at_def device_key_def)
    then show ?thesis
      using None device_append [OF inv nxt d] by (simp add: upsert_device_def dev)
  next
    case (Some x)
    have "upd (device_at (dev_ControllerID d) (dev_DeviceID d)) (\<lambda>_. d) (devices s) =
        upd (device_at (dev_ControllerID d) (dev_DeviceID d))
          (\<lambda>y. d\<lparr>dev_ControllerID := dev_ControllerID y, dev_DeviceID := dev_DeviceID y\<rparr>) (devices s)"
      by (auto simp: upd_def device_at_def)
    moreover have "device_step s (s1\<lparr>devices := upd (device_at (dev_ControllerID d) (dev_DeviceID d))
        (\<lambda>y. d\<lparr>dev_ControllerID := dev_ControllerID y, dev_DeviceID := dev_DeviceID y\<rparr>) (devices s)\<rparr>)"
      by (rule device_touch [OF inv nxt]) (use d in \<open>auto simp: device_at_def device_key_def\<close>)
    ultimately show ?thesis
      using Some by (simp add: upsert_device_def dev)
  qed
qed

lemma registerDevice_step:
  assumes inv: "devices_inv s" and reg: "registerDevice mac d t s = (Inr x, s')"
  shows "device_step s s'" "x = deviceFromDescriptor d t (nat (registry_revision (dd_ControllerID d) s + 1))"
    "devices s' = devices (upsert_device x s)" "credentials s' = credentials s"
    "device_worker_readiness s' = device_worker_readiness s"
proof -
  from reg obtain n s1 where nxt: "nextControllerRevision (dd_ControllerID d) s = Inr (n, s1)"
    and x: "x = deviceFromDescriptor d t n" and s': "s' = upsert_device x s1"
    and val: "DeviceDescriptor_Validate d = None" "0 \<le> t"
    by (auto simp: registerDevice_def registerDevice_tx_def Let_def)
  note nx = nextControllerRevision_Inr [OF devices_inv_regs [OF inv] nxt]
  show "device_step s s'"
    unfolding s' by (rule upsert_step [OF inv]) (use nxt val nx(3) x Device_Validate_descriptor in auto)
  show "x = deviceFromDescriptor d t (nat (registry_revision (dd_ControllerID d) s + 1))"
    using x nx(2) [symmetric] by simp
  show "devices s' = devices (upsert_device x s)" "credentials s' = credentials s"
    "device_worker_readiness s' = device_worker_readiness s"
    using nextControllerRevision_devices [OF devices_inv_regs [OF inv] nxt] s'
    by (simp_all add: upsert_device_def Let_def)
qed

lemma heartbeat_step:
  assumes inv: "devices_inv s" and t: "0 \<le> t"
  shows "device_step s (set_row c d (\<lambda>x. x\<lparr>dev_LastSeenAt := t\<rparr>) s)"
proof -
  have "map (\<lambda>d. d\<lparr>dev_LastSeenAt := 0\<rparr>) (filter (\<lambda>d. dev_ControllerID d = c')
      (upd P (\<lambda>x. x\<lparr>dev_LastSeenAt := t\<rparr>) xs)) =
      map (\<lambda>d. d\<lparr>dev_LastSeenAt := 0\<rparr>) (filter (\<lambda>d. dev_ControllerID d = c') xs)" for c' P and xs :: "Device list"
    by (induction xs) auto
  then have "registry_le s (set_row c d (\<lambda>x. x\<lparr>dev_LastSeenAt := t\<rparr>) s)"
    by (simp add: registry_le_def visible_devices_def set_row_def)
  moreover have "devices_inv (set_row c d (\<lambda>x. x\<lparr>dev_LastSeenAt := t\<rparr>) s)"
    using inv t Device_Validate_seen
    by (auto simp: devices_inv_def set_row_def device_key_def elim!: in_upd_cases)
  moreover have "device_key (x\<lparr>dev_LastSeenAt := t\<rparr>) = device_key x" for x
    by (simp add: device_key_def)
  ultimately show ?thesis by (simp add: device_step_def set_row_def device_keys_upd)
qed

text \<open>The four ways a presence update succeeds.\<close>

lemma updateDevicePresence_cases:
  assumes "updateDevicePresence c d er t off s = (Inr x, s')"
  obtains (kept) "queryDevice c d s = Inr x" "dev_Revision x = er" "s' = s" "off \<longrightarrow> \<not> dev_Online x"
  | (seen) y where "queryDevice c d s = Inr y" "dev_Revision y = er" "\<not> off" "dev_Online y"
      "x = y\<lparr>dev_LastSeenAt := t\<rparr>" "dev_LastSeenAt y < t"
      "s' = set_row c d (\<lambda>z. z\<lparr>dev_LastSeenAt := t\<rparr>) s"
  | (offline) y n s1 where "queryDevice c d s = Inr y" "dev_Revision y = er" "off" "dev_Online y"
      "nextControllerRevision c s = Inr (n, s1)"
      "x = y\<lparr>dev_LastSeenAt := max t (dev_LastSeenAt y), dev_Revision := n, dev_Online := False\<rparr>"
      "s' = set_row c d (\<lambda>z. z\<lparr>dev_Online := False, dev_LastSeenAt := max t (dev_LastSeenAt y), dev_Revision := n\<rparr>) s1"
proof -
  have tx: "updateDevicePresence_tx c d er t off s = Inr (x, s')"
    using assms by (simp add: updateDevicePresence_def)
  then obtain y where q: "queryDevice c d s = Inr y"
    unfolding updateDevicePresence_tx_def by (rule tx_bind_queryE)
  note tx' = tx [unfolded updateDevicePresence_tx_def tx_bind_query(1) [of "queryDevice c d", OF q]]
  have rev: "dev_Revision y = er" using tx' by (simp split: if_splits)
  consider "\<not> dev_Online y" | "dev_Online y" "\<not> off" "t \<le> dev_LastSeenAt y"
    | "dev_Online y" "\<not> off" "dev_LastSeenAt y < t" | "dev_Online y" "off"
    by linarith
  then show thesis
  proof cases
    case 1
    then show thesis using q tx' rev kept by (cases off) simp_all
  next
    case 2
    then show thesis using q tx' rev kept by simp
  next
    case 3
    then show thesis using q tx' rev seen by simp
  next
    case 4
    then obtain n s1 where "nextControllerRevision c s = Inr (n, s1)"
      "x = y\<lparr>dev_LastSeenAt := max t (dev_LastSeenAt y), dev_Revision := n, dev_Online := False\<rparr>"
      "s' = set_row c d (\<lambda>z. z\<lparr>dev_Online := False, dev_LastSeenAt := max t (dev_LastSeenAt y), dev_Revision := n\<rparr>) s1"
      using rev tx' by (auto simp: Let_def max_def not_le)
    then show thesis using q rev 4 offline by blast
  qed
qed

lemma updateDevicePresence_step:
  assumes inv: "devices_inv s" and up: "updateDevicePresence c d er t off s = (Inr x, s')"
  shows "device_step s s'"
proof -
  have t: "0 \<le> t" using up by (simp add: updateDevicePresence_def)
  show ?thesis
    using up
  proof (cases rule: updateDevicePresence_cases)
    case kept
    then show ?thesis using inv by (simp add: device_step_def)
  next
    case (seen y)
    then show ?thesis using heartbeat_step [OF inv t] by simp
  next
    case (offline y n s1)
    note nx = nextControllerRevision_Inr [OF devices_inv_regs [OF inv] offline(5)]
    have dev: "devices s1 = devices s"
      by (rule nextControllerRevision_devices [OF devices_inv_regs [OF inv] offline(5)])
    show ?thesis
      unfolding offline(7) set_row_def dev
      by (rule device_touch [OF inv offline(5)])
        (use inv nx(3) t Device_Validate_presence in \<open>auto simp: device_at_def device_key_def devices_inv_def\<close>)
  qed
qed

lemma markMatching_cases:
  assumes "markMatchingDevicesOffline c p s = (Inr x, s')"
  obtains (none) "s' = s" "\<forall>d \<in> set (devices s). dev_ControllerID d = c \<longrightarrow> \<not> p d"
      "controllerRevision c s = Inr (pt_Revision x)" "pt_Count x = 0"
  | (some) n s1 where "nextControllerRevision c s = Inr (n, s1)"
      "s' = s1\<lparr>devices := upd (\<lambda>d. dev_ControllerID d = c \<and> p d) (set_offline n) (devices s1)\<rparr>"
      "x = \<lparr>pt_Revision = n, pt_Count = int (affected (\<lambda>d. dev_ControllerID d = c \<and> p d) (devices s))\<rparr>"
      "affected (\<lambda>d. dev_ControllerID d = c \<and> p d) (devices s) \<noteq> 0"
  using assms
  by (auto simp: markMatchingDevicesOffline_def markMatchingDevicesOffline_tx_def Let_def affected_def
      filter_empty_conv split: if_splits)

lemma markMatching_step:
  assumes inv: "devices_inv s" and m: "markMatchingDevicesOffline c p s = (Inr x, s')"
  shows "device_step s s'"
  using m
proof (cases rule: markMatching_cases)
  case none
  then show ?thesis using inv by (simp add: device_step_def)
next
  case (some n s1)
  note nx = nextControllerRevision_Inr [OF devices_inv_regs [OF inv] some(1)]
  have dev: "devices s1 = devices s"
    by (rule nextControllerRevision_devices [OF devices_inv_regs [OF inv] some(1)])
  show ?thesis
    unfolding some(2) dev
    by (rule device_touch [OF inv some(1)])
      (use inv nx(3) Device_Validate_offline in \<open>auto simp: devices_inv_def\<close>)
qed

lemma markMatching_devices:
  assumes inv: "devices_inv s" and m: "markMatchingDevicesOffline c p s = (Inr x, s')"
  shows "devices s' = upd (\<lambda>d. dev_ControllerID d = c \<and> p d) (set_offline (pt_Revision x)) (devices s)"
    "pt_Count x = int (affected (\<lambda>d. dev_ControllerID d = c \<and> p d) (devices s))"
proof -
  have "devices s' = upd (\<lambda>d. dev_ControllerID d = c \<and> p d) (set_offline (pt_Revision x)) (devices s)
      \<and> pt_Count x = int (affected (\<lambda>d. dev_ControllerID d = c \<and> p d) (devices s))"
    using m
  proof (cases rule: markMatching_cases)
    case none
    then have "upd (\<lambda>d. dev_ControllerID d = c \<and> p d) (set_offline (pt_Revision x)) (devices s) = devices s"
      by (auto simp: upd_def intro!: map_idI)
    then show ?thesis using none by (auto simp: affected_def filter_empty_conv)
  next
    case (some n s1)
    then show ?thesis
      using nextControllerRevision_devices [OF devices_inv_regs [OF inv] some(1)] by simp
  qed
  then show "devices s' = upd (\<lambda>d. dev_ControllerID d = c \<and> p d) (set_offline (pt_Revision x)) (devices s)"
    "pt_Count x = int (affected (\<lambda>d. dev_ControllerID d = c \<and> p d) (devices s))"
    by simp_all
qed

section \<open>Credentials\<close>

definition credential_key :: "Credential \<Rightarrow> string \<times> string" where
  "credential_key c = (cr_ControllerID c, cr_DeviceID c)"

definition credentials_inv :: "BrokerDb \<Rightarrow> bool" where
  "credentials_inv s \<longleftrightarrow>
     uniq credential_key (credentials s) \<and> uniq cr_MAC (credentials s)
     \<and> (\<forall>c \<in> set (credentials s). Credential_Validate c = None \<and> length (cr_MAC c) = CredentialMACSize)"

lemma credential_at_key: "credential_at c d = (\<lambda>x. credential_key x = (c, d))"
  by (auto simp: credential_at_def credential_key_def fun_eq_iff)

lemma queryCredentialByMAC_inv:
  assumes "credentials_inv s"
  shows "queryCredentialByMAC mac s =
    (case sel1 (\<lambda>c. cr_MAC c = mac) (credentials s) of None \<Rightarrow> Inl (Sentinel ErrNotFound) | Some c \<Rightarrow> Inr c)"
proof (cases "sel1 (\<lambda>c. cr_MAC c = mac) (credentials s)")
  case (Some c)
  then have "c \<in> set (credentials s)" "cr_MAC c = mac" by (auto dest: sel1_SomeD)
  then show ?thesis
    using assms Some by (auto simp: queryCredentialByMAC_def scanCredential_def credentials_inv_def)
qed (simp add: queryCredentialByMAC_def scanCredential_def)

lemma queryCredential_inv:
  assumes "credentials_inv s"
  shows "queryCredential c d s =
    (case sel1 (credential_at c d) (credentials s) of None \<Rightarrow> Inl (Sentinel ErrNotFound) | Some x \<Rightarrow> Inr x)"
proof (cases "sel1 (credential_at c d) (credentials s)")
  case (Some x)
  then have "x \<in> set (credentials s)" by (auto dest: sel1_SomeD)
  then show ?thesis
    using assms Some by (auto simp: queryCredential_def scanCredential_def credentials_inv_def)
qed (simp add: queryCredential_def scanCredential_def)

lemma credentials_inv_upd:
  assumes "credentials_inv s"
    and "\<And>x. credential_key (f x) = credential_key x" "\<And>x. cr_MAC (f x) = cr_MAC x"
    and "\<And>x. Credential_Validate x = None \<Longrightarrow> Credential_Validate (f x) = None"
  shows "credentials_inv (s\<lparr>credentials := upd P f (credentials s)\<rparr>)"
  using assms by (auto simp: credentials_inv_def elim!: in_upd_cases)

lemma activate_simps [simp]:
  "credential_key (activate c) = credential_key c" "cr_MAC (activate c) = cr_MAC c"
  "\<not> cr_Disabled (activate c)" "\<not> cr_Pending (activate c)"
  by (simp_all add: activate_def credential_key_def)

lemma activate_valid: "Credential_Validate c = None \<Longrightarrow> Credential_Validate (activate c) = None"
  by (simp add: activate_def Credential_Validate_def)

lemma CreateCredential_inv:
  assumes "credentials_inv s"
  shows "credentials_inv (snd (CreateCredential c s))"
  using assms
  by (auto simp: CreateCredential_def credential_insertable_def credentials_inv_def credential_key_def
      credential_at_def list_all_iff split: option.split)

lemma ActivateCredential_inv:
  assumes "credentials_inv s"
  shows "credentials_inv (snd (ActivateCredential c d mac s))"
  using assms
  by (auto simp: ActivateCredential_def Let_def intro!: credentials_inv_upd activate_valid split: option.split sum.split)

lemma PublishPendingCredential_inv:
  assumes "credentials_inv s"
  shows "credentials_inv (snd (PublishPendingCredential c d mac p s))"
  using assms
  by (auto simp: PublishPendingCredential_def Let_def intro!: credentials_inv_upd activate_valid
      split: option.split sum.split)

lemma DeletePendingCredential_inv:
  assumes "credentials_inv s"
  shows "credentials_inv (snd (DeletePendingCredential c d mac s))"
  using assms
  by (auto simp: DeletePendingCredential_def Let_def credentials_inv_def intro!: uniq_filter split: option.split)

text \<open>Disabling ends in one of three states; in all of them the credential row is disabled.\<close>

definition disable_row :: "Credential \<Rightarrow> Credential" where
  "disable_row c = c\<lparr>cr_Disabled := True, cr_Pending := False\<rparr>"

definition disabled_credentials :: "string \<Rightarrow> string \<Rightarrow> BrokerDb \<Rightarrow> Credential list" where
  "disabled_credentials c d s = upd (credential_at c d) disable_row (credentials s)"

lemma DisableCredential_cases:
  assumes "DisableCredential c d s = (Inr u, s')"
  obtains (quiet) x where "queryCredential c d s = Inr x"
      "s' = s\<lparr>credentials := disabled_credentials c d s\<rparr>"
      "\<forall>y. sel1 (device_at c d) (devices s) = Some y \<longrightarrow> \<not> dev_Online y"
  | (loud) x y n s1 where "queryCredential c d s = Inr x"
      "sel1 (device_at c d) (devices s) = Some y"
      "nextControllerRevision c (s\<lparr>credentials := disabled_credentials c d s\<rparr>) = Inr (n, s1)"
      "s' = s1\<lparr>devices := upd (device_at c d) (set_offline n) (devices s1)\<rparr>"
proof -
  have "DisableCredential_tx c d s = Inr (u, s')"
    using assms by (simp add: DisableCredential_def)
  then obtain x where q: "queryCredential c d s = Inr x"
    unfolding DisableCredential_tx_def by (rule tx_bind_queryE)
  have dr: "disable_row = (\<lambda>c. c\<lparr>cr_Disabled := True, cr_Pending := False\<rparr>)"
    by (simp add: disable_row_def fun_eq_iff)
  note tx = \<open>DisableCredential_tx c d s = Inr (u, s')\<close>
    [unfolded DisableCredential_tx_def tx_bind_query(1) [of "queryCredential c d", OF q]]
  show thesis
  proof (cases "\<exists>y. sel1 (device_at c d) (devices s) = Some y \<and> dev_Online y")
    case True
    then show thesis using tx q loud by (auto simp: disabled_credentials_def dr)
  next
    case False
    then show thesis
      using tx q quiet by (auto simp: disabled_credentials_def dr split: option.splits if_splits)
  qed
qed

lemma disabled_credentials_inv:
  assumes "credentials_inv s"
  shows "credentials_inv (s\<lparr>credentials := disabled_credentials c d s\<rparr>)"
  unfolding disabled_credentials_def
  by (rule credentials_inv_upd [OF assms])
    (simp_all add: disable_row_def credential_key_def Credential_Validate_def)

lemma DisableCredential_step:
  assumes inv: "devices_inv s" "credentials_inv s" and dis: "DisableCredential c d s = (Inr u, s')"
  shows "device_step s s'" "credentials_inv s'" "credentials s' = disabled_credentials c d s"
    "device_worker_readiness s' = device_worker_readiness s" "broker_metadata s' = broker_metadata s"
    "\<forall>y. sel1 (device_at c d) (devices s') = Some y \<longrightarrow> \<not> dev_Online y"
proof -
  let ?t = "s\<lparr>credentials := disabled_credentials c d s\<rparr>"
  have t: "devices_inv ?t" "credentials_inv ?t"
    using inv disabled_credentials_inv by simp_all
  have "device_step s s' \<and> credentials_inv s' \<and> credentials s' = disabled_credentials c d s
    \<and> device_worker_readiness s' = device_worker_readiness s \<and> broker_metadata s' = broker_metadata s
    \<and> (\<forall>y. sel1 (device_at c d) (devices s') = Some y \<longrightarrow> \<not> dev_Online y)"
    using dis
  proof (cases rule: DisableCredential_cases)
    case quiet
    then show ?thesis using inv t by (simp add: device_step_def)
  next
    case (loud x y n s1)
    note nx = nextControllerRevision_Inr [OF devices_inv_regs [OF t(1)] loud(3)]
    note fr = nextControllerRevision_devices [OF devices_inv_regs [OF t(1)] loud(3)]
    have "device_step ?t (s1\<lparr>devices := upd (device_at c d) (set_offline n) (devices ?t)\<rparr>)"
      by (rule device_touch [OF t(1) loud(3)])
        (use t(1) nx(3) Device_Validate_offline in \<open>auto simp: device_at_def devices_inv_def\<close>)
    then have "device_step s s'"
      using loud(4) fr by (simp add: device_step_def)
    moreover have "sel1 (device_at c d) (devices s') = Some (set_offline n y)"
      unfolding loud(4) using fr loud(2) sel1_SomeD [OF loud(2)] by (simp add: sel1_upd device_at_def)
    then have "\<not> dev_Online z" if "sel1 (device_at c d) (devices s') = Some z" for z
      using that by auto
    ultimately show ?thesis
      using loud(4) fr t(2) by (auto simp: credentials_inv_def)
  qed
  then show "device_step s s'" "credentials_inv s'" "credentials s' = disabled_credentials c d s"
    "device_worker_readiness s' = device_worker_readiness s" "broker_metadata s' = broker_metadata s"
    "\<forall>y. sel1 (device_at c d) (devices s') = Some y \<longrightarrow> \<not> dev_Online y"
    by simp_all
qed

section \<open>Published readiness\<close>

definition readiness_key :: "ReadinessRow \<Rightarrow> string \<times> string" where
  "readiness_key r = (rd_controller_id r, rd_device_id r)"

definition readiness_inv :: "BrokerDb \<Rightarrow> bool" where
  "readiness_inv s \<longleftrightarrow>
     uniq readiness_key (device_worker_readiness s)
     \<and> (\<forall>r \<in> set (device_worker_readiness s).
          WorkerReadiness_Validate (rd_readiness r) = None \<and> int (wr_Epoch (rd_readiness r)) \<le> MaxInt64
          \<and> readiness_key r \<in> device_key ` set (devices s))"

lemma readiness_inv_mono:
  assumes "readiness_inv s" "device_worker_readiness s' = device_worker_readiness s"
    and "device_key ` set (devices s) \<subseteq> device_key ` set (devices s')"
  shows "readiness_inv s'"
  using assms by (auto simp: readiness_inv_def)

lemma queryWorkerReadiness_inv:
  assumes "readiness_inv s"
  shows "queryWorkerReadiness c d s =
    (case sel1 (readiness_at c d) (device_worker_readiness s) of
       None \<Rightarrow> Inl (Sentinel ErrNotFound) | Some r \<Rightarrow> Inr (rd_readiness r))"
proof (cases "sel1 (readiness_at c d) (device_worker_readiness s)")
  case (Some r)
  then have "r \<in> set (device_worker_readiness s)" by (auto dest: sel1_SomeD)
  then show ?thesis
    using assms Some by (auto simp: queryWorkerReadiness_def readiness_inv_def)
qed (simp add: queryWorkerReadiness_def)

lemma upsert_readiness_frame [simp]:
  "devices (upsert_readiness c d r s) = devices s" "credentials (upsert_readiness c d r s) = credentials s"
  "controller_registries (upsert_readiness c d r s) = controller_registries s"
  "broker_metadata (upsert_readiness c d r s) = broker_metadata s"
  by (simp_all add: upsert_readiness_def Let_def)

lemma upsert_readiness_same:
  "sel1 (readiness_at c d) (device_worker_readiness (upsert_readiness c d r s)) =
     Some \<lparr>rd_controller_id = c, rd_device_id = d, rd_readiness = r\<rparr>"
proof (cases "sel1 (readiness_at c d) (device_worker_readiness s)")
  case (Some q)
  moreover have "readiness_at c d \<lparr>rd_controller_id = c, rd_device_id = d, rd_readiness = r\<rparr>"
    by (simp add: readiness_at_def)
  ultimately show ?thesis
    by (simp add: upsert_readiness_def sel1_upd_same)
qed (simp add: upsert_readiness_def readiness_at_def)

lemma upsert_readiness_inv:
  assumes "readiness_inv s" "WorkerReadiness_Validate r = None" "int (wr_Epoch r) \<le> MaxInt64"
    and "(c, d) \<in> device_key ` set (devices s)"
  shows "readiness_inv (upsert_readiness c d r s)"
proof -
  let ?row = "\<lparr>rd_controller_id = c, rd_device_id = d, rd_readiness = r\<rparr>"
  have keys: "map readiness_key (upd (readiness_at c d) (\<lambda>_. ?row) rows) = map readiness_key rows" for rows
    by (induction rows) (auto simp: readiness_at_def readiness_key_def)
  show ?thesis
  proof (cases "sel1 (readiness_at c d) (device_worker_readiness s)")
    case None
    then have "readiness_key ?row \<notin> readiness_key ` set (device_worker_readiness s)"
      by (auto simp: sel1_None_iff readiness_at_def readiness_key_def)
    then show ?thesis
      using assms None by (auto simp: upsert_readiness_def readiness_inv_def readiness_key_def)
  next
    case (Some q)
    then show ?thesis
      using assms keys
      by (auto simp: upsert_readiness_def readiness_inv_def uniq_def readiness_key_def elim!: in_upd_cases)
  qed
qed

text \<open>A publication either leaves the stored snapshot or replaces it by a newer one.\<close>

lemma PutWorkerReadiness_cases:
  assumes "PutWorkerReadiness c d r s = (Inr x, s')"
  obtains (same) "x = r" "s' = s" "queryWorkerReadiness c d s = Inr r"
  | (put) y where "x = r" "s' = upsert_readiness c d r s" "queryDevice c d s = Inr y"
      "WorkerReadiness_Validate r = None" "int (wr_Epoch r) \<le> MaxInt64"
      "\<And>q. queryWorkerReadiness c d s = Inr q \<Longrightarrow> WorkerReadinessCursor_Before (WorkerReadiness_Cursor q) r"
proof -
  have tx: "PutWorkerReadiness_tx c d r s = Inr (x, s')" and val: "WorkerReadiness_Validate r = None"
    using assms by (simp_all add: PutWorkerReadiness_def)
  then obtain y where y: "queryDevice c d s = Inr y"
    unfolding PutWorkerReadiness_tx_def by - (rule tx_bind_queryE)
  note tx1 = tx [unfolded PutWorkerReadiness_tx_def tx_bind_query(1) [of "queryDevice c d", OF y]]
  then obtain f where f: "or_not_found (queryWorkerReadiness c d s) = Inr f"
    by (rule tx_bind_queryE)
  note tx2 = tx1 [unfolded tx_bind_query(1) [of "\<lambda>s. or_not_found (queryWorkerReadiness c d s)", OF f]]
  show thesis
  proof (cases f)
    case None
    then have "\<And>q. queryWorkerReadiness c d s \<noteq> Inr q" using f by auto
    moreover have "x = r" "s' = upsert_readiness c d r s" "int (wr_Epoch r) \<le> MaxInt64"
      using tx2 None by (auto simp: Let_def)
    ultimately show thesis using put [OF _ _ y val] by simp
  next
    case (Some q)
    then have q: "queryWorkerReadiness c d s = Inr q" using f by simp
    show thesis
    proof (cases "WorkerReadinessCursor_Before (WorkerReadiness_Cursor q) r")
      case True
      then have "x = r" "s' = upsert_readiness c d r s" "int (wr_Epoch r) \<le> MaxInt64"
        using tx2 Some
        by (auto simp: Let_def WorkerReadinessCursor_Before_def WorkerReadiness_Cursor_def split: if_splits)
      then show thesis using put [OF _ _ y val] q True by simp
    next
      case False
      then have "x = r" "s' = s" "q = r"
        using tx2 Some
        by (auto simp: Let_def WorkerReadinessCursor_Before_def WorkerReadiness_Cursor_def split: if_splits)
      then show thesis using q same by simp
    qed
  qed
qed

section \<open>The registry invariant\<close>

definition registry_inv :: "BrokerDb \<Rightarrow> bool" where
  "registry_inv s \<longleftrightarrow>
     devices_inv s \<and> credentials_inv s \<and> readiness_inv s
     \<and> (\<forall>k. broker_metadata s = Some k \<longrightarrow> HostKind_Validate k = None)"

lemma registry_invD:
  assumes "registry_inv s"
  shows "regs_inv s" "devices_inv s" "credentials_inv s" "readiness_inv s"
  using assms by (auto simp: registry_inv_def devices_inv_def)

text \<open>One committed operation of the registry, whatever its arguments and its answer.\<close>

inductive registry_step :: "BrokerDb \<Rightarrow> BrokerDb \<Rightarrow> bool" where
  create: "registry_step s (snd (CreateCredential c s))"
| activated: "registry_step s (snd (ActivateCredential c d mac s))"
| publish: "registry_step s (snd (PublishPendingCredential c d mac p s))"
| delete: "registry_step s (snd (DeletePendingCredential c d mac s))"
| disable: "registry_step s (snd (DisableCredential c d s))"
| register: "registry_step s (snd (registerDevice m desc t s))"
| presence: "registry_step s (snd (updateDevicePresence c d er t off s))"
| epoch: "registry_step s (snd (BeginBrokerEpoch c k s))"
| expire: "registry_step s (snd (ExpireDevices c t s))"
| readiness: "registry_step s (snd (PutWorkerReadiness c d r s))"

definition registry_ok :: "BrokerDb \<Rightarrow> BrokerDb \<Rightarrow> bool" where
  "registry_ok s s' \<longleftrightarrow>
     registry_inv s' \<and> registry_le s s' \<and> device_key ` set (devices s) \<subseteq> device_key ` set (devices s')"

lemma registry_ok_refl: "registry_inv s \<Longrightarrow> registry_ok s s"
  by (simp add: registry_ok_def)

lemma registry_ok_trans: "registry_ok s t \<Longrightarrow> registry_ok t u \<Longrightarrow> registry_ok s u"
  unfolding registry_ok_def using registry_le_trans by (meson order_trans)

lemma registry_ok_credentials:
  assumes "registry_inv s" "credentials_inv s'" "s' = s\<lparr>credentials := cs\<rparr>"
  shows "registry_ok s s'"
  using assms by (auto simp: registry_ok_def registry_inv_def readiness_inv_def)

lemma registry_ok_devices:
  assumes "registry_inv s" "device_step s s'" "credentials_inv s'"
    "device_worker_readiness s' = device_worker_readiness s" "broker_metadata s' = broker_metadata s"
  shows "registry_ok s s'"
  using assms readiness_inv_mono [of s s'] by (auto simp: registry_ok_def registry_inv_def device_step_def)

section \<open>Preservation\<close>

lemma bindBrokerHostKind_state:
  obtains "snd (bindBrokerHostKind k s) = s"
  | "snd (bindBrokerHostKind k s) = s\<lparr>broker_metadata := Some k\<rparr>" "broker_metadata s = None"
      "HostKind_Validate k = None" "fst (bindBrokerHostKind k s) = Inr ()"
proof (cases "broker_metadata s = None \<and> (k = Codex \<or> k = TraeX)")
  case True
  then have "bindBrokerHostKind k s = (Inr (), s\<lparr>broker_metadata := Some k\<rparr>)"
    by (auto simp: bindBrokerHostKind_def go_defs verifyBrokerHostKind_def HostKind_Validate_def)
  then show thesis using that(2) True by (auto simp: HostKind_Validate_def)
next
  case False
  then have "snd (bindBrokerHostKind k s) = s"
    by (auto simp: bindBrokerHostKind_def go_defs split: sum.splits)
  then show thesis by (rule that(1))
qed

lemma markMatching_ok:
  assumes "registry_inv s"
  shows "registry_ok s (snd (markMatchingDevicesOffline c p s))"
  unfolding markMatchingDevicesOffline_def
proof (rule guard_tx_state)
  show "registry_ok s s" by (rule registry_ok_refl [OF assms])
next
  fix x s'
  assume "guard_tx (wrap ''controllerId'' (ValidateID c)) (markMatchingDevicesOffline_tx c p) s = (Inr x, s')"
  then have m: "markMatchingDevicesOffline c p s = (Inr x, s')" by (simp add: markMatchingDevicesOffline_def)
  have step: "device_step s s'" by (rule markMatching_step [OF registry_invD(2) [OF assms] m])
  have "credentials s' = credentials s \<and> device_worker_readiness s' = device_worker_readiness s
      \<and> broker_metadata s' = broker_metadata s"
    using m
  proof (cases rule: markMatching_cases)
    case (some n s1)
    then show ?thesis
      using nextControllerRevision_devices [OF registry_invD(1) [OF assms] some(1)] by simp
  qed simp
  then show "registry_ok s s'"
    using registry_ok_devices [OF assms step] registry_invD(3) [OF assms] by (simp add: credentials_inv_def)
qed

lemma registerDevice_ok:
  assumes "registry_inv s"
  shows "registry_ok s (snd (registerDevice m d t s))"
  unfolding registerDevice_def
proof (rule guard_tx_state)
  show "registry_ok s s" by (rule registry_ok_refl [OF assms])
next
  fix x s'
  assume "guard_tx (first_err [DeviceDescriptor_Validate d, unixTime t ''lastSeenAt'']) (registerDevice_tx m d t) s
    = (Inr x, s')"
  then have r: "registerDevice m d t s = (Inr x, s')" by (simp add: registerDevice_def)
  obtain n s1 where nxt: "nextControllerRevision (dd_ControllerID d) s = Inr (n, s1)" "s' = upsert_device x s1"
    using r by (auto simp: registerDevice_def registerDevice_tx_def Let_def)
  show "registry_ok s s'"
    using registry_ok_devices [OF assms registerDevice_step(1) [OF registry_invD(2) [OF assms] r]]
      nextControllerRevision_devices [OF registry_invD(1) [OF assms] nxt(1)] registry_invD(3) [OF assms] nxt(2)
    by (simp add: credentials_inv_def upsert_device_def Let_def)
qed

lemma updateDevicePresence_ok:
  assumes "registry_inv s"
  shows "registry_ok s (snd (updateDevicePresence c d er t off s))"
proof (cases "fst (updateDevicePresence c d er t off s)")
  case (Inl e)
  then have "snd (updateDevicePresence c d er t off s) = s"
    unfolding updateDevicePresence_def by (metis guard_tx_rollback prod.collapse)
  then show ?thesis using registry_ok_refl [OF assms] by simp
next
  case (Inr x)
  then obtain s' where r: "updateDevicePresence c d er t off s = (Inr x, s')"
    by (cases "updateDevicePresence c d er t off s") auto
  have fr: "credentials s' = credentials s \<and> device_worker_readiness s' = device_worker_readiness s
      \<and> broker_metadata s' = broker_metadata s"
    using r
  proof (cases rule: updateDevicePresence_cases)
    case (offline y n s1)
    then show ?thesis
      using nextControllerRevision_devices [OF registry_invD(1) [OF assms] offline(5)]
      by (simp add: set_row_def)
  qed (simp_all add: set_row_def)
  then show ?thesis
    using registry_ok_devices [OF assms updateDevicePresence_step [OF registry_invD(2) [OF assms] r]]
      registry_invD(3) [OF assms] r by (simp add: credentials_inv_def)
qed

lemma DisableCredential_ok:
  assumes "registry_inv s"
  shows "registry_ok s (snd (DisableCredential c d s))"
  unfolding DisableCredential_def
proof (rule guard_tx_state)
  show "registry_ok s s" by (rule registry_ok_refl [OF assms])
next
  fix x s'
  assume "guard_tx (validateCredentialIdentity c d) (DisableCredential_tx c d) s = (Inr x, s')"
  then have "DisableCredential c d s = (Inr x, s')" by (simp add: DisableCredential_def)
  note st = DisableCredential_step [OF registry_invD(2,3) [OF assms] this]
  show "registry_ok s s'" by (rule registry_ok_devices [OF assms st(1,2,4,5)])
qed

lemma PutWorkerReadiness_ok:
  assumes "registry_inv s"
  shows "registry_ok s (snd (PutWorkerReadiness c d r s))"
  unfolding PutWorkerReadiness_def
proof (rule guard_tx_state)
  show "registry_ok s s" by (rule registry_ok_refl [OF assms])
next
  fix x s'
  assume "guard_tx (first_err [validateDeviceIdentity c d, WorkerReadiness_Validate r])
    (PutWorkerReadiness_tx c d r) s = (Inr x, s')"
  then have "PutWorkerReadiness c d r s = (Inr x, s')" by (simp add: PutWorkerReadiness_def)
  then show "registry_ok s s'"
  proof (cases rule: PutWorkerReadiness_cases)
    case same
    then show ?thesis using registry_ok_refl [OF assms] by simp
  next
    case (put y)
    have "(c, d) \<in> device_key ` set (devices s)"
      using queryDevice_Inr(2,3,4) [OF registry_invD(2) [OF assms] put(3)] by (force simp: device_key_def)
    then have "readiness_inv s'"
      unfolding put(2) by (rule upsert_readiness_inv [OF registry_invD(4) [OF assms] put(4,5)])
    then show ?thesis
      using assms by (simp add: put(2) registry_ok_def registry_inv_def upsert_readiness_def Let_def credentials_inv_def)
  qed
qed

lemma BeginBrokerEpoch_ok:
  assumes "registry_inv s"
  shows "registry_ok s (snd (BeginBrokerEpoch c k s))"
proof -
  define t where "t = snd (bindBrokerHostKind k s)"
  have t: "registry_ok s t"
    unfolding t_def
    by (rule bindBrokerHostKind_state [of k s])
      (use assms in \<open>simp_all add: registry_ok_def registry_inv_def credentials_inv_def readiness_inv_def\<close>)
  then have m: "registry_ok t (snd (markMatchingDevicesOffline c dev_Online t))"
    using markMatching_ok by (simp add: registry_ok_def)
  have "snd (BeginBrokerEpoch c k s) \<in> {s, t, snd (markMatchingDevicesOffline c dev_Online t)}"
    by (auto simp: BeginBrokerEpoch_def t_def split: option.split prod.split sum.split)
  then show ?thesis
    using t registry_ok_trans [OF t m] registry_ok_refl [OF assms] by auto
qed

lemma ExpireDevices_ok:
  assumes "registry_inv s"
  shows "registry_ok s (snd (ExpireDevices c t s))"
  using markMatching_ok [OF assms] registry_ok_refl [OF assms]
  by (auto simp: ExpireDevices_def split: option.split)

lemma credentials_ok:
  assumes "registry_inv s"
  shows "registry_ok s (snd (CreateCredential x s))"
    "registry_ok s (snd (ActivateCredential c d mac s))"
    "registry_ok s (snd (PublishPendingCredential c d mac p s))"
    "registry_ok s (snd (DeletePendingCredential c d mac s))"
proof -
  note inv = registry_invD(3) [OF assms]
  show "registry_ok s (snd (CreateCredential x s))"
    by (rule registry_ok_credentials [OF assms CreateCredential_inv [OF inv],
          of x "credentials (snd (CreateCredential x s))"])
      (auto simp: CreateCredential_def split: option.split)
  show "registry_ok s (snd (ActivateCredential c d mac s))"
    by (rule registry_ok_credentials [OF assms ActivateCredential_inv [OF inv],
          of c d mac "credentials (snd (ActivateCredential c d mac s))"])
      (auto simp: ActivateCredential_def Let_def split: option.split sum.split)
  show "registry_ok s (snd (PublishPendingCredential c d mac p s))"
    by (rule registry_ok_credentials [OF assms PublishPendingCredential_inv [OF inv],
          of c d mac p "credentials (snd (PublishPendingCredential c d mac p s))"])
      (auto simp: PublishPendingCredential_def Let_def split: option.split sum.split)
  show "registry_ok s (snd (DeletePendingCredential c d mac s))"
    by (rule registry_ok_credentials [OF assms DeletePendingCredential_inv [OF inv],
          of c d mac "credentials (snd (DeletePendingCredential c d mac s))"])
      (auto simp: DeletePendingCredential_def Let_def split: option.split)
qed

lemma registry_step_ok:
  assumes "registry_step s s'" "registry_inv s"
  shows "registry_ok s s'"
  using assms
  by cases (auto intro: credentials_ok DisableCredential_ok registerDevice_ok updateDevicePresence_ok
      BeginBrokerEpoch_ok ExpireDevices_ok PutWorkerReadiness_ok)

lemma registry_steps_ok:
  assumes "registry_step\<^sup>*\<^sup>* s s'" "registry_inv s"
  shows "registry_ok s s'"
  using assms
proof (induction rule: rtranclp_induct)
  case base
  then show ?case by (rule registry_ok_refl)
next
  case (step y z)
  then show ?case
    using registry_step_ok [of y z] registry_ok_trans [of s y z] by (simp add: registry_ok_def)
qed

lemma registry_inv_empty: "registry_inv schemaCurrent"
  by (simp add: registry_inv_def devices_inv_def credentials_inv_def readiness_inv_def regs_inv_def schemaCurrent_def)

end
