(* ===== verification/Trees.thy ===== *)
theory Trees
  imports Registry_Inv
begin

text \<open>
  Root trees and principals: \<^verbatim>\<open>internal/store/tree.go\<close> and \<^verbatim>\<open>internal/store/principal.go\<close>. A tree
  is bound to one external thread and one root device; every principal belongs to a tree, and
  authorization reads the stored principal, never the claimed one.
\<close>

section \<open>Queries\<close>

definition maximumCapabilityJSON :: nat where "maximumCapabilityJSON = 4096"

definition tree_of :: "TreeRow \<Rightarrow> Tree" where
  "tree_of r =
     \<lparr>tr_ControllerID = t_controller_id r, tr_TreeID = t_tree_id r,
      tr_ExternalThreadID = t_external_thread_id r, tr_RootAgentID = t_root_agent_id r,
      tr_RootDeviceID = t_root_device_id r, tr_CreatedAt = t_created_at r\<rparr>"

definition scanTree :: "TreeRow option \<Rightarrow> Tree result" where
  "scanTree row =
     (case row of
        None \<Rightarrow> Inl (Sentinel ErrNotFound)
      | Some r \<Rightarrow>
          (case Tree_Validate (tree_of r) of
             Some e \<Rightarrow> Inl (Wrapped ''stored root tree is invalid'' e)
           | None \<Rightarrow> Inr (tree_of r)))"

definition thread_at :: "string \<Rightarrow> string \<Rightarrow> TreeRow \<Rightarrow> bool" where
  "thread_at controllerID externalThreadID r \<longleftrightarrow>
     t_controller_id r = controllerID \<and> t_external_thread_id r = externalThreadID"

definition tree_at :: "string \<Rightarrow> string \<Rightarrow> TreeRow \<Rightarrow> bool" where
  "tree_at controllerID treeID r \<longleftrightarrow> t_controller_id r = controllerID \<and> t_tree_id r = treeID"

definition queryTreeByThread :: "string \<Rightarrow> string \<Rightarrow> BrokerDb \<Rightarrow> Tree result" where
  "queryTreeByThread controllerID externalThreadID s =
     scanTree (sel1 (thread_at controllerID externalThreadID) (trees s))"

definition queryTreeByID :: "string \<Rightarrow> string \<Rightarrow> BrokerDb \<Rightarrow> Tree result" where
  "queryTreeByID controllerID treeID s = scanTree (sel1 (tree_at controllerID treeID) (trees s))"

definition identity_of :: "PrincipalRow \<Rightarrow> PrincipalIdentity" where
  "identity_of r =
     \<lparr>pi_ControllerID = pr_controller_id r, pi_TreeID = pr_tree_id r, pi_AgentID = pr_agent_id r,
      pi_ParentAgentID = pr_parent_agent_id r, pi_DeviceID = pr_device_id r\<rparr>"

definition principal_of :: "PrincipalRow \<Rightarrow> Principal" where
  "principal_of r = \<lparr>p_Identity = identity_of r, p_Capabilities = pr_capabilities r\<rparr>"

definition principal_at :: "string \<Rightarrow> string \<Rightarrow> string \<Rightarrow> PrincipalRow \<Rightarrow> bool" where
  "principal_at controllerID treeID agentID r \<longleftrightarrow>
     pr_controller_id r = controllerID \<and> pr_tree_id r = treeID \<and> pr_agent_id r = agentID"

definition queryPrincipal :: "string \<Rightarrow> string \<Rightarrow> string \<Rightarrow> BrokerDb \<Rightarrow> Principal result" where
  "queryPrincipal controllerID treeID agentID s =
     (case sel1 (principal_at controllerID treeID agentID) (principals s) of
        None \<Rightarrow> Inl (Sentinel ErrNotFound)
      | Some r \<Rightarrow>
          if features_json_size (pr_capabilities r) > maximumCapabilityJSON
          then Inl (Plain ''stored principal capabilities exceed size limit'')
          else if pr_created_at r < 0 then Inl (Plain ''stored principal createdAt is negative'')
          else case Principal_Validate (principal_of r) of
                 Some e \<Rightarrow> Inl (Wrapped ''stored principal is invalid'' e)
               | None \<Rightarrow> Inr (principal_of r))"

section \<open>Authorization\<close>

definition denied :: "'a result \<Rightarrow> 'a result" where
  "denied r = (case r of Inr x \<Rightarrow> Inr x
      | Inl e \<Rightarrow> if errors_is e ErrNotFound then Inl (Sentinel ErrAuthorizationDenied) else Inl e)"

definition authorizePrincipal :: "PrincipalIdentity \<Rightarrow> Capability \<Rightarrow> BrokerDb \<Rightarrow> Principal result" where
  "authorizePrincipal claimed required s =
     (case denied (queryPrincipal (pi_ControllerID claimed) (pi_TreeID claimed) (pi_AgentID claimed) s) of
        Inl e \<Rightarrow> Inl e
      | Inr prin \<Rightarrow>
          if \<not> Principal_Matches prin claimed then Inl (Sentinel ErrAuthorizationDenied)
          else
            let p = p_Identity prin;
                lineage =
                  (if pi_ParentAgentID p = '''' then
                     (case denied (queryTreeByID (pi_ControllerID p) (pi_TreeID p) s) of
                        Inl e \<Rightarrow> Some e
                      | Inr tree \<Rightarrow>
                          fail_if (tr_RootAgentID tree \<noteq> pi_AgentID p \<or> tr_RootDeviceID tree \<noteq> pi_DeviceID p)
                            (Sentinel ErrAuthorizationDenied))
                   else fail_if (sel1 (principal_at (pi_ControllerID p) (pi_TreeID p) (pi_ParentAgentID p)) (principals s) = None)
                          (Sentinel ErrAuthorizationDenied))
            in case lineage of
                 Some e \<Rightarrow> Inl e
               | None \<Rightarrow>
                   if Require prin required \<noteq> None then Inl (Sentinel ErrAuthorizationDenied)
                   else Inr prin)"

definition AuthorizePrincipal :: "PrincipalIdentity \<Rightarrow> Capability \<Rightarrow> BrokerDb \<Rightarrow> Principal result" where
  "AuthorizePrincipal claimed required s =
     guard_res (first_err
       [fail_if (PrincipalIdentity_Validate claimed \<noteq> None)
          (Wrapped ''invalid claimed identity'' (Sentinel ErrAuthorizationDenied)),
        fail_if (Capability_Validate required \<noteq> None)
          (Wrapped ''invalid required capability'' (Sentinel ErrAuthorizationDenied))])
     (authorizePrincipal claimed required s)"

section \<open>Creation\<close>

definition tree_insertable :: "TreeRow \<Rightarrow> BrokerDb \<Rightarrow> bool" where
  "tree_insertable r s \<longleftrightarrow>
     0 \<le> t_created_at r
     \<and> list_all (\<lambda>x. \<not> thread_at (t_controller_id r) (t_external_thread_id r) x
                    \<and> \<not> tree_at (t_controller_id r) (t_tree_id r) x) (trees s)"

definition principal_insertable :: "PrincipalRow \<Rightarrow> BrokerDb \<Rightarrow> bool" where
  "principal_insertable r s \<longleftrightarrow>
     0 \<le> pr_created_at r
     \<and> list_all (\<lambda>x. \<not> principal_at (pr_controller_id r) (pr_tree_id r) (pr_agent_id r) x) (principals s)
     \<and> list_ex (tree_at (pr_controller_id r) (pr_tree_id r)) (trees s)"

definition principal_row :: "Principal \<Rightarrow> int \<Rightarrow> PrincipalRow" where
  "principal_row p createdAt =
     \<lparr>pr_controller_id = pi_ControllerID (p_Identity p), pr_tree_id = pi_TreeID (p_Identity p),
      pr_agent_id = pi_AgentID (p_Identity p), pr_parent_agent_id = pi_ParentAgentID (p_Identity p),
      pr_device_id = pi_DeviceID (p_Identity p), pr_capabilities = p_Capabilities p,
      pr_created_at = createdAt\<rparr>"

definition insert_principal :: "string \<Rightarrow> PrincipalRow \<Rightarrow> (BrokerDb, unit) tx" where
  "insert_principal m r = tx_insert m (principal_insertable r) (\<lambda>s. s\<lparr>principals := principals s @ [r]\<rparr>)"

definition new_tree_row :: "Tree \<Rightarrow> TreeRow" where
  "new_tree_row t =
     \<lparr>t_controller_id = tr_ControllerID t, t_external_thread_id = tr_ExternalThreadID t, t_tree_id = tr_TreeID t,
      t_root_agent_id = tr_RootAgentID t, t_root_device_id = tr_RootDeviceID t, t_created_at = tr_CreatedAt t,
      t_last_agent_sequence = 0, t_last_lifecycle_sequence = 0, t_last_artifact_sequence = 0,
      t_last_result_sequence = 0\<rparr>"

definition insert_tree :: "TreeRow \<Rightarrow> (BrokerDb, unit) tx" where
  "insert_tree r = tx_insert ''create root tree'' (tree_insertable r) (\<lambda>s. s\<lparr>trees := trees s @ [r]\<rparr>)"

definition EnsureRootTree_tx ::
    "string \<Rightarrow> string \<Rightarrow> string \<Rightarrow> int \<Rightarrow> string \<Rightarrow> string \<Rightarrow> (BrokerDb, Tree \<times> Principal) tx" where
  "EnsureRootTree_tx controllerID externalThreadID rootDeviceID createdAt treeID agentID =
     tx_bind (tx_query (\<lambda>s. or_not_found (queryTreeByThread controllerID externalThreadID s))) (\<lambda>found.
     case found of
       Some tree \<Rightarrow>
         if tr_RootDeviceID tree \<noteq> rootDeviceID
         then tx_fail (Wrapped ''thread is bound to a different root device'' (Sentinel ErrConflict))
         else
           tx_bind (tx_query (queryPrincipal controllerID (tr_TreeID tree) (tr_RootAgentID tree))) (\<lambda>prin.
           let expected = NewRootPrincipal controllerID (tr_TreeID tree) (tr_RootAgentID tree) rootDeviceID in
           if \<not> Principal_Matches prin (p_Identity expected)
           then tx_fail (Plain ''stored root principal does not match its tree'')
           else tx_ret (tree, prin))
     | None \<Rightarrow>
         tx_bind (tx_query (queryDevice controllerID rootDeviceID)) (\<lambda>device.
         if \<not> dev_Online device
         then tx_fail (Wrapped ''root device must be an online peer'' (Sentinel ErrConflict))
         else
           let tree = \<lparr>tr_ControllerID = controllerID, tr_TreeID = treeID, tr_ExternalThreadID = externalThreadID,
                       tr_RootAgentID = agentID, tr_RootDeviceID = rootDeviceID, tr_CreatedAt = createdAt\<rparr>;
               prin = NewRootPrincipal controllerID treeID agentID rootDeviceID
           in tx_bind (insert_tree (new_tree_row tree)) (\<lambda>_.
              tx_bind (insert_principal ''create root principal'' (principal_row prin createdAt)) (\<lambda>_.
              tx_ret (tree, prin)))))"

text \<open>The two random identifiers are drawn before the transaction, whether or not they are used.\<close>

definition EnsureRootTree ::
    "8 word list result \<Rightarrow> 8 word list result \<Rightarrow> string \<Rightarrow> string \<Rightarrow> string \<Rightarrow> int
     \<Rightarrow> BrokerDb \<Rightarrow> (Tree \<times> Principal) result \<times> BrokerDb" where
  "EnsureRootTree rand1 rand2 controllerID externalThreadID rootDeviceID createdAt s =
     (case first_err
        [wrap ''controllerId'' (ValidateID controllerID), wrap ''threadId'' (ValidateID externalThreadID),
         wrap ''rootDeviceId'' (ValidateID rootDeviceID), unixTime createdAt ''createdAt''] of
        Some e \<Rightarrow> (Inl e, s)
      | None \<Rightarrow>
          (case NewID rand1 of
             Inl e \<Rightarrow> (Inl e, s)
           | Inr treeID \<Rightarrow>
               (case NewID rand2 of
                  Inl e \<Rightarrow> (Inl e, s)
                | Inr agentID \<Rightarrow>
                    withImmediateTransaction
                      (EnsureRootTree_tx controllerID externalThreadID rootDeviceID createdAt treeID agentID) s)))"

definition CreateWorkerPrincipal_tx :: "Principal \<Rightarrow> int \<Rightarrow> (BrokerDb, Principal) tx" where
  "CreateWorkerPrincipal_tx prin timestamp =
     (let p = p_Identity prin; c = pi_ControllerID p; t = pi_TreeID p in
      tx_bind (tx_query (\<lambda>s. or_not_found (queryPrincipal c t (pi_AgentID p) s))) (\<lambda>found.
      case found of
        Some stored \<Rightarrow>
          if \<not> Principal_Matches stored p
          then tx_fail (Wrapped ''worker principal already exists with another identity'' (Sentinel ErrConflict))
          else tx_ret stored
      | None \<Rightarrow>
          tx_bind (tx_query (queryTreeByID c t)) (\<lambda>_.
          tx_bind (tx_query (\<lambda>s. case queryPrincipal c t (pi_ParentAgentID p) s of
              Inl e \<Rightarrow> Inl (Wrapped ''worker parent'' e) | Inr x \<Rightarrow> Inr x)) (\<lambda>_.
          tx_bind (tx_query (\<lambda>s. case queryDevice c (pi_DeviceID p) s of
              Inl e \<Rightarrow> Inl (Wrapped ''worker device'' e) | Inr x \<Rightarrow> Inr x)) (\<lambda>device.
          if \<not> dev_Online device
          then tx_fail (Wrapped ''worker device must be online'' (Sentinel ErrConflict))
          else
            tx_bind (insert_principal ''create worker principal'' (principal_row prin timestamp)) (\<lambda>_.
            tx_ret prin))))))"

definition CreateWorkerPrincipal ::
    "string \<Rightarrow> string \<Rightarrow> string \<Rightarrow> string \<Rightarrow> string \<Rightarrow> int \<Rightarrow> BrokerDb \<Rightarrow> Principal result \<times> BrokerDb" where
  "CreateWorkerPrincipal controllerID treeID agentID parentAgentID deviceID createdAt =
     (let prin = NewWorkerPrincipal controllerID treeID agentID parentAgentID deviceID in
      guard_tx (first_err
        [wrap ''controllerId'' (ValidateID controllerID), wrap ''treeId'' (ValidateID treeID),
         wrap ''agentId'' (ValidateID agentID), wrap ''parentAgentId'' (ValidateID parentAgentID),
         wrap ''deviceId'' (ValidateID deviceID), unixTime createdAt ''createdAt'', Principal_Validate prin])
      (CreateWorkerPrincipal_tx prin createdAt))"

end
