(* ===== verification/Trees_Inv.thy ===== *)
theory Trees_Inv
  imports Trees
begin

text \<open>
  The tree invariant: trees and principals have unique keys and valid rows, the parentless principal
  of a tree is its root, and every other principal's parent exists. In such a state the queries
  never fail on stored data, and authorization has an exact characterization.
\<close>

definition thread_key :: "TreeRow \<Rightarrow> string \<times> string" where
  "thread_key r = (t_controller_id r, t_external_thread_id r)"

definition tree_key :: "TreeRow \<Rightarrow> string \<times> string" where
  "tree_key r = (t_controller_id r, t_tree_id r)"

definition principal_key :: "PrincipalRow \<Rightarrow> string \<times> string \<times> string" where
  "principal_key r = (pr_controller_id r, pr_tree_id r, pr_agent_id r)"

definition tree_row_ok :: "BrokerDb \<Rightarrow> TreeRow \<Rightarrow> bool" where
  "tree_row_ok s r \<longleftrightarrow>
     Tree_Validate (tree_of r) = None
     \<and> 0 \<le> t_last_agent_sequence r \<and> t_last_agent_sequence r \<le> 256
     \<and> 0 \<le> t_last_lifecycle_sequence r \<and> t_last_lifecycle_sequence r \<le> MaxInt64
     \<and> (\<exists>p \<in> set (principals s). identity_of p =
          \<lparr>pi_ControllerID = t_controller_id r, pi_TreeID = t_tree_id r, pi_AgentID = t_root_agent_id r,
           pi_ParentAgentID = '''', pi_DeviceID = t_root_device_id r\<rparr>)"

definition principal_row_ok :: "BrokerDb \<Rightarrow> PrincipalRow \<Rightarrow> bool" where
  "principal_row_ok s r \<longleftrightarrow>
     Principal_Validate (principal_of r) = None \<and> 0 \<le> pr_created_at r
     \<and> (\<exists>t \<in> set (trees s). tree_key t = (pr_controller_id r, pr_tree_id r)
          \<and> (pr_parent_agent_id r = '''' \<longrightarrow> t_root_agent_id t = pr_agent_id r \<and> t_root_device_id t = pr_device_id r))
     \<and> (pr_parent_agent_id r \<noteq> '''' \<longrightarrow>
          (\<exists>q \<in> set (principals s). principal_key q = (pr_controller_id r, pr_tree_id r, pr_parent_agent_id r)))"

definition trees_inv :: "BrokerDb \<Rightarrow> bool" where
  "trees_inv s \<longleftrightarrow>
     uniq thread_key (trees s) \<and> uniq tree_key (trees s) \<and> uniq principal_key (principals s)
     \<and> (\<forall>r \<in> set (trees s). tree_row_ok s r) \<and> (\<forall>r \<in> set (principals s). principal_row_ok s r)"

text \<open>It speaks of the trees and the principals only.\<close>

lemma trees_inv_cong:
  "trees s' = trees s \<Longrightarrow> principals s' = principals s \<Longrightarrow> trees_inv s' = trees_inv s"
  by (simp add: trees_inv_def tree_row_ok_def principal_row_ok_def)

lemma trees_invD:
  assumes "trees_inv s"
  shows "uniq thread_key (trees s)" "uniq tree_key (trees s)" "uniq principal_key (principals s)"
    "\<And>r. r \<in> set (trees s) \<Longrightarrow> tree_row_ok s r" "\<And>r. r \<in> set (principals s) \<Longrightarrow> principal_row_ok s r"
  using assms by (auto simp: trees_inv_def)

lemma thread_at_key: "thread_at c x = (\<lambda>r. thread_key r = (c, x))"
  by (auto simp: thread_at_def thread_key_def fun_eq_iff)

lemma tree_at_key: "tree_at c t = (\<lambda>r. tree_key r = (c, t))"
  by (auto simp: tree_at_def tree_key_def fun_eq_iff)

lemma principal_at_key: "principal_at c t a = (\<lambda>r. principal_key r = (c, t, a))"
  by (auto simp: principal_at_def principal_key_def fun_eq_iff)

lemma identity_of_simps [simp]:
  "pi_ControllerID (identity_of r) = pr_controller_id r" "pi_TreeID (identity_of r) = pr_tree_id r"
  "pi_AgentID (identity_of r) = pr_agent_id r" "pi_ParentAgentID (identity_of r) = pr_parent_agent_id r"
  "pi_DeviceID (identity_of r) = pr_device_id r"
  by (simp_all add: identity_of_def)

lemma tree_of_simps [simp]:
  "tr_ControllerID (tree_of r) = t_controller_id r" "tr_TreeID (tree_of r) = t_tree_id r"
  "tr_ExternalThreadID (tree_of r) = t_external_thread_id r" "tr_RootAgentID (tree_of r) = t_root_agent_id r"
  "tr_RootDeviceID (tree_of r) = t_root_device_id r" "tr_CreatedAt (tree_of r) = t_created_at r"
  by (simp_all add: tree_of_def)

lemma principal_of_simps [simp]:
  "p_Identity (principal_of r) = identity_of r" "p_Capabilities (principal_of r) = pr_capabilities r"
  by (simp_all add: principal_of_def)

section \<open>Queries in a well-formed state\<close>

lemma scanTree_ok: "tree_row_ok s r \<Longrightarrow> scanTree (Some r) = Inr (tree_of r)"
  by (simp add: scanTree_def tree_row_ok_def)

lemma queryTreeByID_inv:
  assumes "trees_inv s"
  shows "queryTreeByID c t s =
    (case sel1 (tree_at c t) (trees s) of None \<Rightarrow> Inl (Sentinel ErrNotFound) | Some r \<Rightarrow> Inr (tree_of r))"
  using trees_invD(4) [OF assms] sel1_SomeD [of "tree_at c t" "trees s"] scanTree_ok
  by (auto simp: queryTreeByID_def split: option.splits) (simp add: scanTree_def)

lemma queryTreeByThread_inv:
  assumes "trees_inv s"
  shows "queryTreeByThread c x s =
    (case sel1 (thread_at c x) (trees s) of None \<Rightarrow> Inl (Sentinel ErrNotFound) | Some r \<Rightarrow> Inr (tree_of r))"
  using trees_invD(4) [OF assms] sel1_SomeD [of "thread_at c x" "trees s"] scanTree_ok
  by (auto simp: queryTreeByThread_def split: option.splits) (simp add: scanTree_def)

lemma capabilities_fit:
  "features_json_size RootCapabilities \<le> maximumCapabilityJSON"
  "features_json_size WorkerCapabilities \<le> maximumCapabilityJSON"
  by (simp_all add: features_json_size_def maximumCapabilityJSON_def RootCapabilities_def
      WorkerCapabilities_def capability_defs)

lemma principal_capabilities_fit:
  "Principal_Validate p = None \<Longrightarrow> features_json_size (p_Capabilities p) \<le> maximumCapabilityJSON"
  using capabilities_fit by (auto simp: Principal_Validate_def Let_def split: if_splits)

lemma queryPrincipal_inv:
  assumes "trees_inv s"
  shows "queryPrincipal c t a s =
    (case sel1 (principal_at c t a) (principals s) of
       None \<Rightarrow> Inl (Sentinel ErrNotFound) | Some r \<Rightarrow> Inr (principal_of r))"
proof (cases "sel1 (principal_at c t a) (principals s)")
  case (Some r)
  then have "principal_row_ok s r"
    using trees_invD(5) [OF assms] sel1_SomeD by metis
  then show ?thesis
    using Some principal_capabilities_fit [of "principal_of r"]
    by (auto simp: queryPrincipal_def principal_row_ok_def)
qed (simp add: queryPrincipal_def)

lemma queryPrincipal_Inr:
  assumes "trees_inv s" "queryPrincipal c t a s = Inr p"
  obtains r where "r \<in> set (principals s)" "p = principal_of r" "principal_key r = (c, t, a)"
    "sel1 (principal_at c t a) (principals s) = Some r" "principal_row_ok s r"
proof -
  obtain r where r: "sel1 (principal_at c t a) (principals s) = Some r" "p = principal_of r"
    using assms by (auto simp: queryPrincipal_inv split: option.splits)
  then show thesis
    using that [of r] sel1_SomeD [OF r(1)] trees_invD(5) [OF assms(1)] by (auto simp: principal_at_key)
qed

lemma principal_lookup:
  assumes "trees_inv s" "r \<in> set (principals s)"
  shows "queryPrincipal (pr_controller_id r) (pr_tree_id r) (pr_agent_id r) s = Inr (principal_of r)"
  using uniq_sel1 [OF trees_invD(3) [OF assms(1)] assms(2)]
  by (simp add: queryPrincipal_inv [OF assms(1)] principal_at_key principal_key_def)

section \<open>Authorization in a well-formed state\<close>

lemma authorizePrincipal_row:
  assumes inv: "trees_inv s" and r: "r \<in> set (principals s)"
  shows "authorizePrincipal (identity_of r) cap s =
    (if cap \<in> role_capabilities (identity_of r) then Inr (principal_of r) else Inl (Sentinel ErrAuthorizationDenied))"
proof -
  have ok: "principal_row_ok s r" by (rule trees_invD(5) [OF inv r])
  have q: "queryPrincipal (pr_controller_id r) (pr_tree_id r) (pr_agent_id r) s = Inr (principal_of r)"
    by (rule principal_lookup [OF inv r])
  have req: "Require (principal_of r) cap = None \<longleftrightarrow> cap \<in> role_capabilities (identity_of r)"
    using ok by (simp add: Require_role principal_row_ok_def)
  show ?thesis
  proof (cases "pr_parent_agent_id r = ''''")
    case True
    then obtain t where t: "t \<in> set (trees s)" "tree_key t = (pr_controller_id r, pr_tree_id r)"
      "t_root_agent_id t = pr_agent_id r" "t_root_device_id t = pr_device_id r"
      using ok by (auto simp: principal_row_ok_def)
    have "queryTreeByID (pr_controller_id r) (pr_tree_id r) s = Inr (tree_of t)"
      using uniq_sel1 [OF trees_invD(2) [OF inv] t(1)] t(2)
      by (simp add: queryTreeByID_inv [OF inv] tree_at_key)
    then show ?thesis
      using q req t True
      by (simp add: authorizePrincipal_def denied_def Principal_Matches_def Let_def)
  next
    case False
    then have "sel1 (principal_at (pr_controller_id r) (pr_tree_id r) (pr_parent_agent_id r)) (principals s) \<noteq> None"
      using ok by (auto simp: principal_row_ok_def sel1_None_iff principal_at_key)
    then show ?thesis
      using q req False
      by (auto simp: authorizePrincipal_def denied_def Principal_Matches_def Let_def fail_if_def)
  qed
qed

lemma authorizePrincipal_Inr:
  assumes inv: "trees_inv s"
  shows "authorizePrincipal claimed cap s = Inr p \<longleftrightarrow>
    (\<exists>r \<in> set (principals s). identity_of r = claimed \<and> p = principal_of r \<and> cap \<in> role_capabilities claimed)"
proof
  assume auth: "authorizePrincipal claimed cap s = Inr p"
  then obtain q where q: "queryPrincipal (pi_ControllerID claimed) (pi_TreeID claimed) (pi_AgentID claimed) s = Inr q"
    and m: "p_Identity q = claimed"
    by (auto simp: authorizePrincipal_def denied_def Principal_Matches_def split: sum.splits if_splits)
  obtain r where r: "r \<in> set (principals s)" "q = principal_of r"
    using queryPrincipal_Inr [OF inv q] by metis
  then show "\<exists>r \<in> set (principals s). identity_of r = claimed \<and> p = principal_of r \<and> cap \<in> role_capabilities claimed"
    using auth m authorizePrincipal_row [OF inv r(1), of cap] by (auto split: if_splits)
next
  assume "\<exists>r \<in> set (principals s). identity_of r = claimed \<and> p = principal_of r \<and> cap \<in> role_capabilities claimed"
  then show "authorizePrincipal claimed cap s = Inr p"
    using authorizePrincipal_row [OF inv] by auto
qed

section \<open>Creating principals\<close>

lemma principal_of_row [simp]: "principal_of (principal_row p t) = p"
  by (simp add: principal_of_def principal_row_def identity_of_def)

lemma identity_of_row [simp]: "identity_of (principal_row p t) = p_Identity p"
  by (simp add: principal_row_def identity_of_def)

lemma principal_row_simps [simp]:
  "pr_controller_id (principal_row p t) = pi_ControllerID (p_Identity p)"
  "pr_tree_id (principal_row p t) = pi_TreeID (p_Identity p)"
  "pr_agent_id (principal_row p t) = pi_AgentID (p_Identity p)"
  "pr_parent_agent_id (principal_row p t) = pi_ParentAgentID (p_Identity p)"
  "pr_device_id (principal_row p t) = pi_DeviceID (p_Identity p)"
  "pr_capabilities (principal_row p t) = p_Capabilities p"
  "pr_created_at (principal_row p t) = t"
  by (simp_all add: principal_row_def)

lemma principal_key_row [simp]:
  "principal_key (principal_row p t) =
     (pi_ControllerID (p_Identity p), pi_TreeID (p_Identity p), pi_AgentID (p_Identity p))"
  by (simp add: principal_key_def)

text \<open>A worker principal whose parent is already stored keeps the invariant.\<close>

lemma trees_inv_add_worker:
  assumes inv: "trees_inv s" and ins: "principal_insertable (principal_row p t) s"
    and val: "Principal_Validate p = None" and par: "pi_ParentAgentID (p_Identity p) \<noteq> ''''"
    and q: "q \<in> set (principals s)"
      "principal_key q = (pi_ControllerID (p_Identity p), pi_TreeID (p_Identity p), pi_ParentAgentID (p_Identity p))"
  shows "trees_inv (s\<lparr>principals := principals s @ [principal_row p t]\<rparr>)"
proof -
  let ?s = "s\<lparr>principals := principals s @ [principal_row p t]\<rparr>"
  have "tree_row_ok ?s r" if "r \<in> set (trees s)" for r
    using trees_invD(4) [OF inv that] by (auto simp: tree_row_ok_def)
  moreover have "principal_row_ok ?s r" if "r \<in> set (principals s)" for r
    using trees_invD(5) [OF inv that] by (auto simp: principal_row_ok_def)
  moreover have "principal_row_ok ?s (principal_row p t)"
    using ins val par q by (auto simp: principal_row_ok_def principal_insertable_def list_ex_iff tree_at_key)
  moreover have "uniq principal_key (principals ?s)"
    using trees_invD(3) [OF inv] ins
    by (auto simp: principal_insertable_def list_all_iff principal_at_key)
  ultimately show ?thesis
    using trees_invD(1,2) [OF inv] by (auto simp: trees_inv_def)
qed

section \<open>Creating trees\<close>

lemma new_tree_row_simps [simp]:
  "tree_of (new_tree_row t) = t" "t_last_agent_sequence (new_tree_row t) = 0"
  "t_last_lifecycle_sequence (new_tree_row t) = 0"
  "t_controller_id (new_tree_row t) = tr_ControllerID t" "t_tree_id (new_tree_row t) = tr_TreeID t"
  "t_external_thread_id (new_tree_row t) = tr_ExternalThreadID t"
  "t_root_agent_id (new_tree_row t) = tr_RootAgentID t" "t_root_device_id (new_tree_row t) = tr_RootDeviceID t"
  "t_created_at (new_tree_row t) = tr_CreatedAt t"
  by (simp_all add: new_tree_row_def tree_of_def)

definition with_tree :: "Tree \<Rightarrow> BrokerDb \<Rightarrow> BrokerDb" where
  "with_tree t s =
     s\<lparr>trees := trees s @ [new_tree_row t],
       principals := principals s @
         [principal_row (NewRootPrincipal (tr_ControllerID t) (tr_TreeID t) (tr_RootAgentID t) (tr_RootDeviceID t))
            (tr_CreatedAt t)]\<rparr>"

lemma NewRootPrincipal_simps [simp]:
  "pi_ControllerID (p_Identity (NewRootPrincipal c t a d)) = c" "pi_TreeID (p_Identity (NewRootPrincipal c t a d)) = t"
  "pi_AgentID (p_Identity (NewRootPrincipal c t a d)) = a" "pi_DeviceID (p_Identity (NewRootPrincipal c t a d)) = d"
  "pi_ParentAgentID (p_Identity (NewRootPrincipal c t a d)) = ''''"
  by (simp_all add: NewRootPrincipal_def)

lemma NewWorkerPrincipal_simps [simp]:
  "pi_ControllerID (p_Identity (NewWorkerPrincipal c t a q d)) = c"
  "pi_TreeID (p_Identity (NewWorkerPrincipal c t a q d)) = t"
  "pi_AgentID (p_Identity (NewWorkerPrincipal c t a q d)) = a"
  "pi_DeviceID (p_Identity (NewWorkerPrincipal c t a q d)) = d"
  "pi_ParentAgentID (p_Identity (NewWorkerPrincipal c t a q d)) = q"
  by (simp_all add: NewWorkerPrincipal_def)

lemma NewRootPrincipal_valid:
  "ValidateID c = None \<Longrightarrow> ValidateID t = None \<Longrightarrow> ValidateID a = None \<Longrightarrow> ValidateID d = None \<Longrightarrow>
     Principal_Validate (NewRootPrincipal c t a d) = None"
  by (simp add: Principal_Validate_def PrincipalIdentity_Validate_def NewRootPrincipal_def)

lemma EnsureRootTree_cases:
  assumes "EnsureRootTree r1 r2 c x d t s = (Inr (tree, p), s')"
  obtains (found) "s' = s" "queryTreeByThread c x s = Inr tree" "tr_RootDeviceID tree = d"
      "queryPrincipal c (tr_TreeID tree) (tr_RootAgentID tree) s = Inr p"
      "p_Identity p = p_Identity (NewRootPrincipal c (tr_TreeID tree) (tr_RootAgentID tree) d)"
  | (created) tid aid dev where "s' = with_tree tree s" "NewID r1 = Inr tid" "NewID r2 = Inr aid"
      "tree = \<lparr>tr_ControllerID = c, tr_TreeID = tid, tr_ExternalThreadID = x, tr_RootAgentID = aid,
               tr_RootDeviceID = d, tr_CreatedAt = t\<rparr>"
      "p = NewRootPrincipal c tid aid d" "tree_insertable (new_tree_row tree) s"
      "principal_insertable (principal_row p t) (s\<lparr>trees := trees s @ [new_tree_row tree]\<rparr>)"
      "queryDevice c d s = Inr dev" "dev_Online dev"
proof -
  have val: "ValidateID c = None" "ValidateID x = None" "ValidateID d = None" "0 \<le> t"
    using assms by (auto simp: EnsureRootTree_def split: option.splits)
  obtain tid aid where ids: "NewID r1 = Inr tid" "NewID r2 = Inr aid"
    using assms by (auto simp: EnsureRootTree_def split: option.splits sum.splits)
  have tx: "EnsureRootTree_tx c x d t tid aid s = Inr ((tree, p), s')"
    using assms ids by (auto simp: EnsureRootTree_def split: option.splits sum.splits)
  then obtain f where f: "or_not_found (queryTreeByThread c x s) = Inr f"
    unfolding EnsureRootTree_tx_def by (rule tx_bind_queryE)
  note tx1 = tx [unfolded EnsureRootTree_tx_def
      tx_bind_query(1) [of "\<lambda>s. or_not_found (queryTreeByThread c x s)", OF f]]
  show thesis
  proof (cases f)
    case (Some tr)
    then show thesis
      using tx1 f found by (auto simp: Let_def Principal_Matches_def split: if_splits)
  next
    case None
    note tx2 = tx1 [unfolded None option.case]
    then obtain dev where dev: "queryDevice c d s = Inr dev"
      by (rule tx_bind_queryE)
    note tx3 = tx2 [unfolded tx_bind_query(1) [of "queryDevice c d", OF dev]]
    have on: "dev_Online dev" using tx3 by (simp split: if_splits)
    show thesis
      by (rule created [OF _ ids _ _ _ _ dev on])
        (use tx3 on in \<open>auto simp: Let_def with_tree_def insert_tree_def insert_principal_def\<close>)
  qed
qed

lemma with_tree_inv:
  assumes inv: "trees_inv s" and val: "Tree_Validate tree = None"
    and ins: "tree_insertable (new_tree_row tree) s"
    and pins: "principal_insertable (principal_row
      (NewRootPrincipal (tr_ControllerID tree) (tr_TreeID tree) (tr_RootAgentID tree) (tr_RootDeviceID tree))
      (tr_CreatedAt tree)) (s\<lparr>trees := trees s @ [new_tree_row tree]\<rparr>)"
  shows "trees_inv (with_tree tree s)"
proof -
  let ?p = "NewRootPrincipal (tr_ControllerID tree) (tr_TreeID tree) (tr_RootAgentID tree) (tr_RootDeviceID tree)"
  let ?s = "with_tree tree s"
  have "tree_row_ok ?s r" if "r \<in> set (trees s)" for r
    using trees_invD(4) [OF inv that] by (auto simp: tree_row_ok_def with_tree_def)
  moreover have "tree_row_ok ?s (new_tree_row tree)"
    using val by (simp add: tree_row_ok_def with_tree_def MaxInt64_def NewRootPrincipal_def)
  moreover have "principal_row_ok ?s r" if "r \<in> set (principals s)" for r
    using trees_invD(5) [OF inv that] by (auto simp: principal_row_ok_def with_tree_def)
  moreover have "Principal_Validate ?p = None"
    using val by (simp add: NewRootPrincipal_valid Tree_Validate_def)
  then have "principal_row_ok ?s (principal_row ?p (tr_CreatedAt tree))"
    using val by (simp add: principal_row_ok_def with_tree_def Tree_Validate_def tree_key_def)
  moreover have "uniq principal_key (principals ?s)"
    using trees_invD(3) [OF inv] pins
    by (auto simp: principal_insertable_def list_all_iff principal_at_key with_tree_def)
  moreover have "uniq thread_key (trees ?s)" "uniq tree_key (trees ?s)"
    using trees_invD(1,2) [OF inv] ins
    by (auto simp: tree_insertable_def list_all_iff thread_at_key tree_at_key with_tree_def
        thread_key_def tree_key_def)
  ultimately show ?thesis
    by (auto simp: trees_inv_def with_tree_def)
qed

lemma EnsureRootTree_inv:
  assumes inv: "trees_inv s" and len: "length v1 = 16" "length v2 = 16"
    and run: "EnsureRootTree (Inr v1) (Inr v2) c x d t s = (Inr (tree, p), s')"
  shows "trees_inv s'"
  using run
proof (cases rule: EnsureRootTree_cases)
  case found
  then show ?thesis using inv by simp
next
  case (created tid aid dev)
  have "ValidateID c = None" "ValidateID x = None" "ValidateID d = None" "0 \<le> t"
    using run by (auto simp: EnsureRootTree_def split: option.splits)
  then have "Tree_Validate tree = None"
    using NewID_ValidateID [OF len(1) created(2)] NewID_ValidateID [OF len(2) created(3)]
    by (simp add: created(4) Tree_Validate_def)
  then show ?thesis
    using with_tree_inv [OF inv _ created(6)] created by simp
qed

text \<open>What the next call for the same thread finds.\<close>

lemma EnsureRootTree_stored:
  assumes inv: "trees_inv s" and len: "length v1 = 16" "length v2 = 16"
    and run: "EnsureRootTree (Inr v1) (Inr v2) c x d t s = (Inr (tree, p), s')"
  shows "queryTreeByThread c x s' = Inr tree" "tr_RootDeviceID tree = d"
    "queryPrincipal c (tr_TreeID tree) (tr_RootAgentID tree) s' = Inr p"
    "p = NewRootPrincipal c (tr_TreeID tree) (tr_RootAgentID tree) d"
proof -
  have inv': "trees_inv s'" by (rule EnsureRootTree_inv [OF assms])
  have "queryTreeByThread c x s' = Inr tree \<and> tr_RootDeviceID tree = d
    \<and> queryPrincipal c (tr_TreeID tree) (tr_RootAgentID tree) s' = Inr p
    \<and> p = NewRootPrincipal c (tr_TreeID tree) (tr_RootAgentID tree) d"
    using run
  proof (cases rule: EnsureRootTree_cases)
    case found
    obtain r where "p = principal_of r" "principal_row_ok s r"
      using queryPrincipal_Inr [OF inv found(4)] by metis
    then have "Principal_Validate p = None" by (simp add: principal_row_ok_def)
    then have "p_Capabilities p = RootCapabilities"
      using found(5) by (simp add: Principal_Validate_def Let_def)
    then show ?thesis
      using found by (cases p) (simp add: NewRootPrincipal_def)
  next
    case (created tid aid dev)
    have "new_tree_row tree \<in> set (trees s')" by (simp add: created(1) with_tree_def)
    from uniq_sel1 [OF trees_invD(1) [OF inv'] this]
    have "queryTreeByThread c x s' = Inr tree"
      by (simp add: queryTreeByThread_inv [OF inv'] thread_at_key thread_key_def created(4))
    moreover have "principal_row p t \<in> set (principals s')"
      by (simp add: created(1) with_tree_def created(4,5))
    from principal_lookup [OF inv' this]
    have "queryPrincipal c (tr_TreeID tree) (tr_RootAgentID tree) s' = Inr p"
      by (simp add: created(4,5))
    ultimately show ?thesis using created(4,5) by simp
  qed
  then show "queryTreeByThread c x s' = Inr tree" "tr_RootDeviceID tree = d"
    "queryPrincipal c (tr_TreeID tree) (tr_RootAgentID tree) s' = Inr p"
    "p = NewRootPrincipal c (tr_TreeID tree) (tr_RootAgentID tree) d"
    by simp_all
qed

lemma trees_inv_empty: "trees_inv schemaCurrent"
  by (simp add: trees_inv_def)

lemma CreateWorkerPrincipal_cases:
  assumes run: "CreateWorkerPrincipal c t a par d w s = (Inr p, s')"
  obtains (found) "s' = s" "queryPrincipal c t a s = Inr p"
  | (created) q where "p = NewWorkerPrincipal c t a par d" "Principal_Validate p = None" "par \<noteq> ''''"
      "queryPrincipal c t par s = Inr q" "principal_insertable (principal_row p w) s"
      "s' = s\<lparr>principals := principals s @ [principal_row p w]\<rparr>"
proof -
  let ?p = "NewWorkerPrincipal c t a par d"
  have tx: "CreateWorkerPrincipal_tx ?p w s = Inr (p, s')" and val: "Principal_Validate ?p = None"
    and ne: "par \<noteq> ''''"
    using run by (auto simp: CreateWorkerPrincipal_def Let_def)
  obtain f where f: "or_not_found (queryPrincipal c t a s) = Inr f"
    using tx unfolding CreateWorkerPrincipal_tx_def Let_def NewWorkerPrincipal_simps by (rule tx_bind_queryE)
  note tx1 = tx [unfolded CreateWorkerPrincipal_tx_def Let_def NewWorkerPrincipal_simps
      tx_bind_query(1) [of "\<lambda>s. or_not_found (queryPrincipal c t a s)", OF f]]
  show thesis
  proof (cases f)
    case (Some q)
    then show thesis using tx1 f found by (auto split: if_splits)
  next
    case None
    then obtain q where "queryPrincipal c t par s = Inr q" "p = ?p" "principal_insertable (principal_row ?p w) s"
      "s' = s\<lparr>principals := principals s @ [principal_row ?p w]\<rparr>"
      using tx1 by (auto simp: insert_principal_def split: sum.splits if_splits)
    then show thesis using created val ne by simp
  qed
qed

lemma CreateWorkerPrincipal_inv:
  assumes inv: "trees_inv s" and run: "CreateWorkerPrincipal c t a par d w s = (Inr p, s')"
  shows "trees_inv s'"
  using run
proof (cases rule: CreateWorkerPrincipal_cases)
  case found
  then show ?thesis using inv by simp
next
  case (created q)
  obtain r where "r \<in> set (principals s)" "principal_key r = (c, t, par)"
    using queryPrincipal_Inr [OF inv created(4)] by metis
  then show ?thesis
    unfolding created(6) using trees_inv_add_worker [OF inv created(5,2)] created(1,3) by simp
qed

end
