(* ===== verification/GoDigest.thy ===== *)
theory GoDigest
  imports GoJson Identity "HOL-Library.Word"
begin

unbundle bit_operations_syntax

text \<open>
  What manifest hashes rest on: \<^verbatim>\<open>crypto/sha256\<close> over bytes, \<^verbatim>\<open>%x\<close> of a digest, and
  \<^verbatim>\<open>json.Marshal\<close> of strings, string slices and booleans.
\<close>

section \<open>SHA-256\<close>

type_synonym word32 = "32 word"

definition sha_K :: "word32 list" where
  "sha_K =
    [0x428a2f98, 0x71374491, 0xb5c0fbcf, 0xe9b5dba5, 0x3956c25b, 0x59f111f1, 0x923f82a4, 0xab1c5ed5] @
     [0xd807aa98, 0x12835b01, 0x243185be, 0x550c7dc3, 0x72be5d74, 0x80deb1fe, 0x9bdc06a7, 0xc19bf174] @
     [0xe49b69c1, 0xefbe4786, 0x0fc19dc6, 0x240ca1cc, 0x2de92c6f, 0x4a7484aa, 0x5cb0a9dc, 0x76f988da] @
     [0x983e5152, 0xa831c66d, 0xb00327c8, 0xbf597fc7, 0xc6e00bf3, 0xd5a79147, 0x06ca6351, 0x14292967] @
     [0x27b70a85, 0x2e1b2138, 0x4d2c6dfc, 0x53380d13, 0x650a7354, 0x766a0abb, 0x81c2c92e, 0x92722c85] @
     [0xa2bfe8a1, 0xa81a664b, 0xc24b8b70, 0xc76c51a3, 0xd192e819, 0xd6990624, 0xf40e3585, 0x106aa070] @
     [0x19a4c116, 0x1e376c08, 0x2748774c, 0x34b0bcb5, 0x391c0cb3, 0x4ed8aa4a, 0x5b9cca4f, 0x682e6ff3] @
     [0x748f82ee, 0x78a5636f, 0x84c87814, 0x8cc70208, 0x90befffa, 0xa4506ceb, 0xbef9a3f7, 0xc67178f2]"

record sha_state =
  sA :: word32
  sB :: word32
  sC :: word32
  sD :: word32
  sE :: word32
  sF :: word32
  sG :: word32
  sH :: word32

definition sha_init :: sha_state where
  "sha_init = \<lparr>sA = 0x6a09e667, sB = 0xbb67ae85, sC = 0x3c6ef372, sD = 0xa54ff53a,
     sE = 0x510e527f, sF = 0x9b05688c, sG = 0x1f83d9ab, sH = 0x5be0cd19\<rparr>"

definition rotr :: "nat \<Rightarrow> word32 \<Rightarrow> word32" where
  "rotr n x = drop_bit n x OR push_bit (32 - n) x"

definition be32 :: "8 word list \<Rightarrow> word32" where
  "be32 bs = fold (\<lambda>b w. push_bit 8 w OR ucast b) bs 0"

definition bytes32 :: "word32 \<Rightarrow> 8 word list" where
  "bytes32 w = map (\<lambda>i. ucast (drop_bit (8 * i) w)) [3, 2, 1, 0]"

fun chunks :: "nat \<Rightarrow> nat \<Rightarrow> 'a list \<Rightarrow> 'a list list" where
  "chunks 0 k xs = []"
| "chunks (Suc n) k xs = take k xs # chunks n k (drop k xs)"

text \<open>The message schedule: sixteen words of the block and forty-eight derived ones.\<close>

fun sha_extend :: "nat \<Rightarrow> word32 list \<Rightarrow> word32 list" where
  "sha_extend 0 w = w"
| "sha_extend (Suc n) w =
     (let t = length w;
          x = w ! (t - 2); y = w ! (t - 15);
          s1 = rotr 17 x XOR rotr 19 x XOR drop_bit 10 x;
          s0 = rotr 7 y XOR rotr 18 y XOR drop_bit 3 y
      in sha_extend n (w @ [s1 + w ! (t - 7) + s0 + w ! (t - 16)]))"

definition sha_round :: "word32 \<times> word32 \<Rightarrow> sha_state \<Rightarrow> sha_state" where
  "sha_round kw s =
     (let e = sE s; a = sA s;
          t1 = sH s + (rotr 6 e XOR rotr 11 e XOR rotr 25 e) + ((e AND sF s) XOR (NOT e AND sG s)) + fst kw + snd kw;
          t2 = (rotr 2 a XOR rotr 13 a XOR rotr 22 a) + ((a AND sB s) XOR (a AND sC s) XOR (sB s AND sC s))
      in \<lparr>sA = t1 + t2, sB = a, sC = sB s, sD = sC s, sE = sD s + t1, sF = e, sG = sF s, sH = sG s\<rparr>)"

definition sha_block :: "8 word list \<Rightarrow> sha_state \<Rightarrow> sha_state" where
  "sha_block block s =
     (let r = fold sha_round (zip sha_K (sha_extend 48 (map be32 (chunks 16 4 block)))) s
      in \<lparr>sA = sA s + sA r, sB = sB s + sB r, sC = sC s + sC r, sD = sD s + sD r,
          sE = sE s + sE r, sF = sF s + sF r, sG = sG s + sG r, sH = sH s + sH r\<rparr>)"

definition sha_pad :: "8 word list \<Rightarrow> 8 word list" where
  "sha_pad m =
     (let n = length m; z = (119 - n mod 64) mod 64;
          l = 8 * int n
      in m @ 0x80 # replicate z 0 @ map (\<lambda>i. word_of_int (l div 256 ^ i)) [7, 6, 5, 4, 3, 2, 1, 0])"

definition Sum256 :: "8 word list \<Rightarrow> 8 word list" where
  "Sum256 m =
     (let p = sha_pad m; s = fold sha_block (chunks (length p div 64) 64 p) sha_init
      in concat (map bytes32 [sA s, sB s, sC s, sD s, sE s, sF s, sG s, sH s]))"

definition string_bytes :: "string \<Rightarrow> 8 word list" where
  "string_bytes s = map (\<lambda>c. of_nat (byte c)) s"

text \<open>\<^verbatim>\<open>fmt.Sprintf("%x", sha256.Sum256(data))\<close>.\<close>

definition sha256_hex :: "string \<Rightarrow> string" where
  "sha256_hex s = hex_encode (Sum256 (string_bytes s))"

text \<open>The digest as a byte string, the value of a \<^verbatim>\<open>[sha256.Size]byte\<close> column.\<close>

definition sha256_sum :: "string \<Rightarrow> string" where
  "sha256_sum s = map (\<lambda>w. char_of (unat w)) (Sum256 (string_bytes s))"

lemma bytes32_length [simp]: "length (bytes32 w) = 4"
  by (simp only: bytes32_def length_map list.size)

lemma Sum256_length: "length (Sum256 m) = 32"
  by (simp add: Sum256_def Let_def)

lemma sha256_sum_length [simp]: "length (sha256_sum s) = 32"
  by (simp add: sha256_sum_def Sum256_length)

lemma hex_class: "c \<in> set hex_alphabet \<Longrightarrow> hexdigit c"
  by (auto simp: hex_alphabet_def hexdigit_def digit_def byte_def)

lemma sha256_hex_digest: "match_exact hexdigit 64 (sha256_hex s)"
proof -
  have "length (sha256_hex s) = 64" by (simp add: sha256_hex_def Sum256_length)
  moreover have "list_all hexdigit (sha256_hex s)"
    using set_hex_encode hex_class unfolding sha256_hex_def list_all_iff by blast
  ultimately show ?thesis by (simp add: match_exact_def)
qed

section \<open>JSON encoding\<close>

text \<open>
  The body of a quoted string as \<^verbatim>\<open>json.Marshal\<close> writes it: HTML-sensitive characters and control
  characters escaped, invalid bytes replaced, the two line separators escaped, all else copied.
\<close>

definition json_hex4 :: "nat \<Rightarrow> string" where
  "json_hex4 n = [CHR 0x5C, CHR ''u'',
     hex_alphabet ! (n div 4096 mod 16), hex_alphabet ! (n div 256 mod 16),
     hex_alphabet ! (n div 16 mod 16), hex_alphabet ! (n mod 16)]"

definition json_ascii :: "char \<Rightarrow> string" where
  "json_ascii c =
     (if byte c = 0x5C \<or> byte c = 0x22 then [CHR 0x5C, c]
      else if byte c = 8 then [CHR 0x5C, CHR ''b'']
      else if byte c = 12 then [CHR 0x5C, CHR ''f'']
      else if byte c = 10 then [CHR 0x5C, CHR ''n'']
      else if byte c = 13 then [CHR 0x5C, CHR ''r'']
      else if byte c = 9 then [CHR 0x5C, CHR ''t'']
      else if byte c < 32 \<or> c \<in> set ''<>&'' then json_hex4 (byte c)
      else [c])"

function json_body :: "string \<Rightarrow> string" where
  "json_body [] = []"
| "json_body (c # cs) =
     (if byte c < 128 then json_ascii c @ json_body cs
      else
        let (r, w, ok) = decode_rune (c # cs) in
        (if \<not> ok then json_hex4 RuneError
         else if r = 0x2028 \<or> r = 0x2029 then json_hex4 r
         else take w (c # cs)) @ json_body (drop w (c # cs)))"
  by pat_completeness auto
termination
proof (relation "measure length")
  fix c cs x r y w ok
  assume "\<not> byte c < 128" "x = decode_rune (c # cs)" "(r, y) = x" "(w, ok) = y"
  then have "0 < w" using decode_rune_width [of "c # cs"] by (metis fst_conv list.distinct(1) snd_conv)
  then show "(drop w (c # cs), c # cs) \<in> measure length" by (cases w) auto
qed simp_all

declare json_body.simps(2) [simp del]

definition json_string :: "string \<Rightarrow> string" where
  "json_string s = CHR 0x22 # json_body s @ [CHR 0x22]"

fun json_commas :: "string list \<Rightarrow> string" where
  "json_commas [] = []"
| "json_commas [x] = x"
| "json_commas (x # y # zs) = x @ CHR '','' # json_commas (y # zs)"

definition json_strings :: "string list \<Rightarrow> string" where
  "json_strings xs = CHR ''['' # json_commas (map json_string xs) @ '']''"

definition json_bool :: "bool \<Rightarrow> string" where
  "json_bool b = (if b then ''true'' else ''false'')"

definition json_object :: "(string \<times> string) list \<Rightarrow> string" where
  "json_object kvs =
     CHR ''{'' # json_commas (map (\<lambda>(k, v). json_string k @ CHR '':'' # v) kvs) @ ''}''"

end
