(* ===== verification/GoPath.thy ===== *)
theory GoPath
  imports GoText
begin

text \<open>
  Go's lexical path functions on slash-separated paths: \<^verbatim>\<open>path.Clean\<close>, \<^verbatim>\<open>path.IsAbs\<close>, and
  \<^verbatim>\<open>strings.HasPrefix\<close>. \<open>clean_loop\<close> is the loop of \<^verbatim>\<open>path.Clean\<close> with its output buffer and the
  position in it below which \<^verbatim>\<open>..\<close> may not backtrack.
\<close>

abbreviation slash :: char where "slash \<equiv> CHR ''/''"
abbreviation dot :: char where "dot \<equiv> CHR ''.''"

definition HasPrefix :: "string \<Rightarrow> string \<Rightarrow> bool" where
  "HasPrefix s p \<longleftrightarrow> take (length p) s = p"

definition path_IsAbs :: "string \<Rightarrow> bool" where
  "path_IsAbs p \<longleftrightarrow> p \<noteq> [] \<and> hd p = slash"

text \<open>\<^verbatim>\<open>for out.w > dotdot && out.index(out.w) != '/' { out.w-- }\<close>\<close>

fun clean_back :: "string \<Rightarrow> nat \<Rightarrow> nat \<Rightarrow> nat" where
  "clean_back buf dotdot 0 = 0"
| "clean_back buf dotdot (Suc w) =
     (if dotdot < Suc w \<and> buf ! Suc w \<noteq> slash then clean_back buf dotdot w else Suc w)"

definition at_end :: "string \<Rightarrow> bool" where
  "at_end p \<longleftrightarrow> p = [] \<or> hd p = slash"

function clean_loop :: "bool \<Rightarrow> nat \<Rightarrow> string \<Rightarrow> string \<Rightarrow> string" where
  "clean_loop rooted dotdot out [] = out"
| "clean_loop rooted dotdot out (c # cs) =
     (if c = slash then clean_loop rooted dotdot out cs
      else if c = dot \<and> at_end cs then clean_loop rooted dotdot out cs
      else if c = dot \<and> cs \<noteq> [] \<and> hd cs = dot \<and> at_end (tl cs) then
        if dotdot < length out
        then clean_loop rooted dotdot (take (clean_back out dotdot (length out - 1)) out) (tl cs)
        else if \<not> rooted
        then let out' = (if out \<noteq> [] then out @ [slash] else out) @ [dot, dot]
             in clean_loop rooted (length out') out' (tl cs)
        else clean_loop rooted dotdot out (tl cs)
      else
        clean_loop rooted dotdot
          ((if rooted \<and> length out \<noteq> 1 \<or> \<not> rooted \<and> out \<noteq> [] then out @ [slash] else out)
           @ takeWhile (\<lambda>x. x \<noteq> slash) (c # cs))
          (dropWhile (\<lambda>x. x \<noteq> slash) (c # cs)))"
  by pat_completeness auto
termination
  by (relation "measure (\<lambda>(rooted, dotdot, out, p). length p)")
    (auto simp: le_imp_less_Suc length_dropWhile_le)

declare clean_loop.simps(2) [simp del]

definition path_Clean :: "string \<Rightarrow> string" where
  "path_Clean p =
     (if p = [] then [dot]
      else
        let rooted = (hd p = slash);
            out = (if rooted then clean_loop True 1 [slash] (tl p) else clean_loop False 0 [] p)
        in if out = [] then [dot] else out)"

text \<open>
  \<^verbatim>\<open>filepath.Rel\<close> between cleaned paths: leading elements that agree are dropped; what is left of the base
  becomes \<^verbatim>\<open>..\<close> elements. The third component is the base element at which the walk stopped.
\<close>

definition first_word :: "string \<Rightarrow> string" where
  "first_word p = takeWhile (\<lambda>x. x \<noteq> slash) p"

function rel_walk :: "string \<Rightarrow> string \<Rightarrow> string \<times> string \<times> string" where
  "rel_walk base targ =
     (if base = [] \<or> targ = [] then (base, targ, [])
      else if first_word base \<noteq> first_word targ then (base, targ, first_word base)
      else rel_walk (drop (Suc (length (first_word base))) base) (drop (Suc (length (first_word targ))) targ))"
  by pat_completeness auto
termination by (relation "measure (\<lambda>(base, targ). length base)") auto

declare rel_walk.simps [simp del]

definition path_Rel :: "string \<Rightarrow> string \<Rightarrow> string option" where
  "path_Rel basepath targpath =
     (let base = path_Clean basepath; targ = path_Clean targpath in
      if targ = base then Some [dot]
      else
        let base' = (if base = [dot] then [] else base) in
        if path_IsAbs base' \<noteq> path_IsAbs targ then None
        else
          let (b, t, w) = rel_walk base' targ in
          if w = [dot, dot] then None
          else if b \<noteq> []
          then Some ([dot, dot] @ concat (replicate (length (filter (\<lambda>x. x = slash) b)) [slash, dot, dot])
                     @ (if t \<noteq> [] then slash # t else []))
          else Some t)"

fun split_slash :: "string \<Rightarrow> string list" where
  "split_slash [] = [[]]"
| "split_slash (c # cs) =
     (if c = slash then [] # split_slash cs
      else case split_slash cs of [] \<Rightarrow> [[c]] | w # ws \<Rightarrow> (c # w) # ws)"

definition HasSuffix :: "string \<Rightarrow> string \<Rightarrow> bool" where
  "HasSuffix s p \<longleftrightarrow> length p \<le> length s \<and> drop (length s - length p) s = p"

end
