(* ===== verification/WorkspaceProtocol.thy ===== *)
theory WorkspaceProtocol
  imports BrokerDb GoDigest GoPath
begin

text \<open>
  Workspace messages: \<^verbatim>\<open>internal/protocol/workspace.go\<close> and the manifests of
  \<^verbatim>\<open>internal/protocol/workspace_transfer.go\<close>.
\<close>

definition MaximumGitURLBytes :: nat where "MaximumGitURLBytes = 4 * 1024"
definition MaximumSourcePathBytes :: nat where "MaximumSourcePathBytes = 32 * 1024"
definition MaximumWorkspaceRelativeBytes :: nat where "MaximumWorkspaceRelativeBytes = 4 * 1024"
definition MaximumWorkspaceWarnings :: nat where "MaximumWorkspaceWarnings = 16"
definition MaximumWorkspaceWarningBytes :: nat where "MaximumWorkspaceWarningBytes = 64"
definition MaximumWorkspaceBasisOIDs :: nat where "MaximumWorkspaceBasisOIDs = 128"

definition WorkspaceWarningFullHistoryFallback :: string where
  "WorkspaceWarningFullHistoryFallback = ''remote_git_full_history_fallback''"

section \<open>Fields\<close>

definition gitObjectIDPattern :: "string \<Rightarrow> bool" where
  "gitObjectIDPattern s \<longleftrightarrow> match_exact hexdigit 40 s \<or> match_exact hexdigit 64 s"

definition sha256DigestPattern :: "string \<Rightarrow> bool" where
  "sha256DigestPattern s \<longleftrightarrow> match_exact hexdigit 64 s"

definition workspaceWarningPattern :: "string \<Rightarrow> bool" where
  "workspaceWarningPattern s \<longleftrightarrow>
     match_ident lower (\<lambda>c. lower c \<or> digit c \<or> c = CHR ''_'') s \<and> length s \<le> 64"

fun WorkspaceStrategy_Validate :: "WorkspaceStrategy \<Rightarrow> err" where
  "WorkspaceStrategy_Validate (WorkspaceStrategy_other s) = Some (Plain ''unsupported workspace strategy'')"
| "WorkspaceStrategy_Validate _ = None"

datatype WorkspacePrepareOutcome =
    WorkspacePrepareReady | WorkspacePrepareTransferRequired | WorkspacePrepareOutcome_other string

fun WorkspacePrepareOutcome_Validate :: "WorkspacePrepareOutcome \<Rightarrow> err" where
  "WorkspacePrepareOutcome_Validate (WorkspacePrepareOutcome_other s) = Some (Plain ''unsupported workspace prepare outcome'')"
| "WorkspacePrepareOutcome_Validate _ = None"

definition validateWorkspaceText :: "string \<Rightarrow> string \<Rightarrow> nat \<Rightarrow> err" where
  "validateWorkspaceText name value limit =
     fail_if (TrimSpace_empty value \<or> length value > limit \<or> \<not> ValidString value \<or> ContainsRune value 0)
       (Wrapped name (Plain ''must contain from 1 through limit bytes of valid text''))"

definition validateWorkspaceSource :: "string \<Rightarrow> string \<Rightarrow> err" where
  "validateWorkspaceSource gitURL sourcePath = first_err
     [validateWorkspaceText ''gitUrl'' gitURL MaximumGitURLBytes,
      validateWorkspaceText ''sourcePath'' sourcePath MaximumSourcePathBytes]"

definition warning_test :: "string \<Rightarrow> err" where
  "warning_test w =
     fail_if (length w > MaximumWorkspaceWarningBytes \<or> \<not> workspaceWarningPattern w)
       (Plain ''invalid workspace warning'')"

definition ValidateWorkspaceWarnings :: "string list \<Rightarrow> err" where
  "ValidateWorkspaceWarnings warnings = first_err
     [fail_if (length warnings > MaximumWorkspaceWarnings) (Plain ''workspace warnings exceed limit of 16''),
      sorted_unique_loop warning_test (Plain ''workspace warnings must be sorted and unique'') '''' warnings]"

definition ValidateWorkspaceSourceWarnings :: "string list \<Rightarrow> err" where
  "ValidateWorkspaceSourceWarnings warnings = first_err
     [ValidateWorkspaceWarnings warnings,
      fail_if (WorkspaceWarningFullHistoryFallback \<in> set warnings)
        (Plain ''source workspace warnings must not contain transfer-only warnings'')]"

definition WorkspaceWarningsForStrategy :: "string list \<Rightarrow> WorkspaceStrategy \<Rightarrow> string list result" where
  "WorkspaceWarningsForStrategy source strategy =
     guard_res (first_err [ValidateWorkspaceSourceWarnings source, WorkspaceStrategy_Validate strategy])
       (let warnings = remdups_adj (sort
              (source @ (if strategy = WorkspaceStrategyFull then [WorkspaceWarningFullHistoryFallback] else [])))
        in guard_res (ValidateWorkspaceWarnings warnings) (Inr warnings))"

section \<open>Requests\<close>

record SyncWorkspaceParams =
  swp_SyncID :: string
  swp_TargetDeviceID :: string
  swp_GitURL :: string
  swp_SourcePath :: string

definition SyncWorkspaceParams_Validate :: "SyncWorkspaceParams \<Rightarrow> err" where
  "SyncWorkspaceParams_Validate p = first_err
     [wrap ''syncId'' (ValidateID (swp_SyncID p)), wrap ''targetDeviceId'' (ValidateID (swp_TargetDeviceID p)),
      validateWorkspaceSource (swp_GitURL p) (swp_SourcePath p)]"

definition InspectWorkspaceParams_Validate :: "string \<Rightarrow> string \<Rightarrow> string \<Rightarrow> err" where
  "InspectWorkspaceParams_Validate syncID gitURL sourcePath = first_err
     [wrap ''syncId'' (ValidateID syncID), validateWorkspaceSource gitURL sourcePath]"

section \<open>Manifests\<close>

record WorkspaceManifest =
  wf_GitURL :: string
  wf_HeadOID :: string
  wf_ObjectFormat :: string
  wf_WorkingDirectory :: string
  wf_Clean :: bool
  wf_SourceSnapshotHash :: string
  wf_Warnings :: "string list"

definition object_format_check :: "string \<Rightarrow> string \<Rightarrow> err" where
  "object_format_check format headOID =
     (if format = ''sha1'' then fail_if (length headOID \<noteq> 40) (Plain ''SHA-1 repository must use a 40-byte headOid'')
      else if format = ''sha256'' then fail_if (length headOID \<noteq> 64) (Plain ''SHA-256 repository must use a 64-byte headOid'')
      else Some (Plain ''unsupported Git object format''))"

definition working_directory_check :: "string \<Rightarrow> err" where
  "working_directory_check wd = first_err
     [fail_if (length wd > MaximumWorkspaceRelativeBytes \<or> \<not> ValidString wd \<or> ContainsRune wd 0 \<or> path_IsAbs wd
               \<or> CHR 0x5C \<in> set wd \<or> CHR '':'' \<in> set wd)
        (Plain ''workingDirectory is not a bounded relative path''),
      fail_if (wd = ''.'' \<or> wd = ''..'' \<or> HasPrefix (path_Clean wd) ''../'')
        (Plain ''workingDirectory escapes the repository'')]"

definition WorkspaceManifest_Validate :: "WorkspaceManifest \<Rightarrow> err" where
  "WorkspaceManifest_Validate m = first_err
     [validateWorkspaceText ''gitUrl'' (wf_GitURL m) MaximumGitURLBytes,
      fail_if (\<not> gitObjectIDPattern (wf_HeadOID m)) (Plain ''headOid must be a lowercase SHA-1 or SHA-256 object ID''),
      object_format_check (wf_ObjectFormat m) (wf_HeadOID m),
      working_directory_check (wf_WorkingDirectory m),
      fail_if (\<not> sha256DigestPattern (wf_SourceSnapshotHash m))
        (Plain ''sourceSnapshotHash must be a lowercase SHA-256 digest''),
      ValidateWorkspaceSourceWarnings (wf_Warnings m)]"

definition manifest_json :: "WorkspaceManifest \<Rightarrow> string" where
  "manifest_json m = json_object
     [(''gitUrl'', json_string (wf_GitURL m)), (''headOid'', json_string (wf_HeadOID m)),
      (''objectFormat'', json_string (wf_ObjectFormat m)),
      (''workingDirectory'', json_string (wf_WorkingDirectory m)), (''clean'', json_bool (wf_Clean m)),
      (''sourceSnapshotHash'', json_string (wf_SourceSnapshotHash m)),
      (''warnings'', json_strings (wf_Warnings m))]"

definition WorkspaceManifestHash :: "WorkspaceManifest \<Rightarrow> string result" where
  "WorkspaceManifestHash m = guard_res (WorkspaceManifest_Validate m) (Inr (sha256_hex (manifest_json m)))"

definition InspectWorkspaceResult_Validate :: "string \<Rightarrow> WorkspaceManifest \<Rightarrow> err" where
  "InspectWorkspaceResult_Validate syncID manifest = first_err
     [wrap ''syncId'' (ValidateID syncID), WorkspaceManifest_Validate manifest]"

definition PrepareWorkspaceParams_Validate :: "string \<Rightarrow> string \<Rightarrow> string \<Rightarrow> WorkspaceManifest \<Rightarrow> err" where
  "PrepareWorkspaceParams_Validate workspaceID sourceAgentID sourceDeviceID manifest = first_err
     [wrap ''workspaceId'' (ValidateID workspaceID), wrap ''sourceAgentId'' (ValidateID sourceAgentID),
      wrap ''sourceDeviceId'' (ValidateID sourceDeviceID), WorkspaceManifest_Validate manifest]"

section \<open>Results\<close>

record PrepareWorkspaceResult =
  pw_WorkspaceID :: string
  pw_Outcome :: WorkspacePrepareOutcome
  pw_Strategy :: WorkspaceStrategy
  pw_ManifestHash :: string
  pw_Warnings :: "string list"
  pw_BasisOIDs :: "string list"
  pw_BundleRequired :: bool
  pw_OverlayRequired :: bool

definition PrepareWorkspaceResult_Validate :: "PrepareWorkspaceResult \<Rightarrow> err" where
  "PrepareWorkspaceResult_Validate r = first_err
     ([wrap ''workspaceId'' (ValidateID (pw_WorkspaceID r)),
       WorkspacePrepareOutcome_Validate (pw_Outcome r),
       ValidateWorkspaceWarnings (pw_Warnings r),
       fail_if (length (pw_BasisOIDs r) > MaximumWorkspaceBasisOIDs) (Plain ''basisOids exceeds limit of 128''),
       fail_if (\<not> list_all gitObjectIDPattern (pw_BasisOIDs r)) (Plain ''basisOids contains an invalid object ID''),
       fail_if (\<not> sorted (pw_BasisOIDs r) \<or> length (remdups_adj (pw_BasisOIDs r)) \<noteq> length (pw_BasisOIDs r))
         (Plain ''basisOids must be sorted and unique'')] @
      (if pw_Outcome r = WorkspacePrepareTransferRequired then
         [ValidateWorkspaceSourceWarnings (pw_Warnings r),
          fail_if (pw_Strategy r \<noteq> WorkspaceStrategy_other '''' \<or> \<not> sha256DigestPattern (pw_ManifestHash r))
            (Plain ''transfer-required result must bind the source manifest without claiming a strategy''),
          fail_if (\<not> pw_BundleRequired r \<and> \<not> pw_OverlayRequired r)
            (Plain ''transfer-required result must request an artifact''),
          fail_if (\<not> pw_BundleRequired r \<and> pw_BasisOIDs r \<noteq> []) (Plain ''basisOids require a bundle transfer'')]
       else
         [WorkspaceStrategy_Validate (pw_Strategy r),
          fail_if ((pw_Strategy r = WorkspaceStrategyFull) \<noteq> (WorkspaceWarningFullHistoryFallback \<in> set (pw_Warnings r)))
            (Plain ''ready workspace warning does not match its strategy''),
          fail_if (pw_BundleRequired r \<or> pw_OverlayRequired r \<or> pw_BasisOIDs r \<noteq> [])
            (Plain ''ready prepare result must not request transfer artifacts''),
          fail_if (\<not> sha256DigestPattern (pw_ManifestHash r)) (Plain ''manifestHash must be a lowercase SHA-256 digest'')]))"

record WorkspaceSummary =
  wsum_WorkspaceID :: string
  wsum_SourceDeviceID :: string
  wsum_TargetDeviceID :: string
  wsum_HeadOID :: string
  wsum_ObjectFormat :: string
  wsum_WorkingDirectory :: string
  wsum_Strategy :: WorkspaceStrategy
  wsum_ManifestHash :: string
  wsum_Warnings :: "string list"

definition summary_manifest :: "WorkspaceSummary \<Rightarrow> WorkspaceManifest" where
  "summary_manifest s =
     \<lparr>wf_GitURL = ''ssh://validated.invalid/repository'', wf_HeadOID = wsum_HeadOID s,
      wf_ObjectFormat = wsum_ObjectFormat s, wf_WorkingDirectory = wsum_WorkingDirectory s, wf_Clean = True,
      wf_SourceSnapshotHash = replicate 64 CHR ''0'', wf_Warnings = []\<rparr>"

definition WorkspaceSummary_Validate :: "WorkspaceSummary \<Rightarrow> err" where
  "WorkspaceSummary_Validate s = first_err
     [wrap ''workspaceId'' (ValidateID (wsum_WorkspaceID s)),
      wrap ''sourceDeviceId'' (ValidateID (wsum_SourceDeviceID s)),
      wrap ''targetDeviceId'' (ValidateID (wsum_TargetDeviceID s)),
      WorkspaceManifest_Validate (summary_manifest s),
      ValidateWorkspaceWarnings (wsum_Warnings s),
      WorkspaceStrategy_Validate (wsum_Strategy s),
      fail_if ((wsum_Strategy s = WorkspaceStrategyFull) \<noteq> (WorkspaceWarningFullHistoryFallback \<in> set (wsum_Warnings s)))
        (Plain ''workspace summary warning does not match its strategy''),
      fail_if (\<not> sha256DigestPattern (wsum_ManifestHash s)) (Plain ''manifestHash must be a lowercase SHA-256 digest'')]"

definition SyncWorkspaceResult_Validate ::
    "WorkspaceSummary option \<Rightarrow> WorkspacePrepareOutcome \<Rightarrow> string list \<Rightarrow> err" where
  "SyncWorkspaceResult_Validate workspace outcome warnings =
     (case first_err
        [WorkspacePrepareOutcome_Validate outcome, ValidateWorkspaceWarnings warnings,
         fail_if (outcome \<noteq> WorkspacePrepareReady)
           (Plain ''workspace sync must not expose an intermediate preparation state'')] of
        Some e \<Rightarrow> Some e
      | None \<Rightarrow>
          (case workspace of
             None \<Rightarrow> Some (Plain ''ready sync must return a workspace'')
           | Some w \<Rightarrow> first_err
               [WorkspaceSummary_Validate w,
                fail_if (warnings \<noteq> wsum_Warnings w) (Plain ''workspace sync warnings do not match its workspace'')]))"

section \<open>Transfer manifests\<close>

definition MaximumWorkspaceArtifactBytes :: int where "MaximumWorkspaceArtifactBytes = 256 * 1024 * 1024"
definition MaximumWorkspaceTransferBytes :: int where "MaximumWorkspaceTransferBytes = 512 * 1024 * 1024"

text \<open>A kind is compared as the string it is, so it is kept as one.\<close>

definition WorkspaceArtifactBundle :: string where "WorkspaceArtifactBundle = ''bundle''"
definition WorkspaceArtifactOverlay :: string where "WorkspaceArtifactOverlay = ''overlay''"

definition WorkspaceArtifactKind_Validate :: "string \<Rightarrow> err" where
  "WorkspaceArtifactKind_Validate k =
     fail_if (k \<noteq> WorkspaceArtifactBundle \<and> k \<noteq> WorkspaceArtifactOverlay) (Plain ''unsupported workspace artifact kind'')"

record WorkspaceArtifactDescriptor =
  wad_Kind :: string
  wad_Size :: int
  wad_SHA256 :: string

definition WorkspaceArtifactDescriptor_Validate :: "WorkspaceArtifactDescriptor \<Rightarrow> err" where
  "WorkspaceArtifactDescriptor_Validate d = first_err
     [WorkspaceArtifactKind_Validate (wad_Kind d),
      fail_if (wad_Size d < 1 \<or> wad_Size d > MaximumWorkspaceArtifactBytes)
        (Plain ''workspace artifact size must be from 1 through 268435456 bytes''),
      fail_if (\<not> sha256DigestPattern (wad_SHA256 d)) (Plain ''workspace artifact sha256 must be a lowercase SHA-256 digest'')]"

record WorkspaceTransferManifest =
  wt_TransferID :: string
  wt_WorkspaceID :: string
  wt_Strategy :: WorkspaceStrategy
  wt_ManifestHash :: string
  wt_Artifacts :: "WorkspaceArtifactDescriptor list"
  wt_Warnings :: "string list"

text \<open>The artifact loop, with its running total in 64 bits.\<close>

fun artifacts_loop ::
    "string \<Rightarrow> int \<Rightarrow> bool \<Rightarrow> WorkspaceArtifactDescriptor list \<Rightarrow> (int \<times> bool) result" where
  "artifacts_loop previous bytes hasBundle [] = Inr (bytes, hasBundle)"
| "artifacts_loop previous bytes hasBundle (a # as) =
     (case WorkspaceArtifactDescriptor_Validate a of
        Some e \<Rightarrow> Inl e
      | None \<Rightarrow>
          if previous \<noteq> '''' \<and> wad_Kind a \<le> previous
          then Inl (Plain ''workspace artifacts must be sorted and unique'')
          else artifacts_loop (wad_Kind a) (add_int64 bytes (wad_Size a))
                 (hasBundle \<or> wad_Kind a = WorkspaceArtifactBundle) as)"

definition WorkspaceTransferManifest_Validate :: "WorkspaceTransferManifest \<Rightarrow> err" where
  "WorkspaceTransferManifest_Validate m =
     (case first_err
        [wrap ''transferId'' (ValidateID (wt_TransferID m)), wrap ''workspaceId'' (ValidateID (wt_WorkspaceID m)),
         WorkspaceStrategy_Validate (wt_Strategy m),
         fail_if (\<not> sha256DigestPattern (wt_ManifestHash m)) (Plain ''manifestHash must be a lowercase SHA-256 digest''),
         fail_if (length (wt_Artifacts m) < 1 \<or> length (wt_Artifacts m) > 2)
           (Plain ''workspace transfer must contain from 1 through 2 artifacts'')] of
        Some e \<Rightarrow> Some e
      | None \<Rightarrow>
          (case artifacts_loop '''' 0 False (wt_Artifacts m) of
             Inl e \<Rightarrow> Some e
           | Inr (bytes, hasBundle) \<Rightarrow> first_err
               [fail_if (bytes > MaximumWorkspaceTransferBytes) (Plain ''workspace transfer exceeds 536870912-byte limit''),
                fail_if ((wt_Strategy m = WorkspaceStrategyThin \<or> wt_Strategy m = WorkspaceStrategyFull) \<noteq> hasBundle)
                  (Plain ''workspace transfer strategy does not match its bundle artifact''),
                ValidateWorkspaceWarnings (wt_Warnings m),
                fail_if ((wt_Strategy m = WorkspaceStrategyFull)
                    \<noteq> (WorkspaceWarningFullHistoryFallback \<in> set (wt_Warnings m)))
                  (Plain ''self-contained bundle warning does not match transfer strategy'')]))"


section \<open>Transfer requests\<close>

definition WorkspaceArtifactChunkBytes :: int where "WorkspaceArtifactChunkBytes = 128 * 1024"

record CreateWorkspaceTransferParams =
  cw_TransferID :: string
  cw_WorkspaceID :: string
  cw_GitURL :: string
  cw_SourcePath :: string
  cw_Manifest :: WorkspaceManifest
  cw_BasisOIDs :: "string list"
  cw_BundleRequired :: bool
  cw_OverlayRequired :: bool

text \<open>The loop over the basis object identifiers: pattern first, then the manifest's format.\<close>

fun basis_loop :: "string \<Rightarrow> string list \<Rightarrow> err" where
  "basis_loop format [] = None"
| "basis_loop format (oid # oids) =
     (if \<not> gitObjectIDPattern oid then Some (Plain ''basisOids contains an invalid object ID'')
      else if format = ''sha1'' \<and> length oid \<noteq> 40 \<or> format = ''sha256'' \<and> length oid \<noteq> 64
      then Some (Plain ''basisOids object format does not match the source manifest'')
      else basis_loop format oids)"

definition CreateWorkspaceTransferParams_Validate :: "CreateWorkspaceTransferParams \<Rightarrow> err" where
  "CreateWorkspaceTransferParams_Validate p = first_err
     [wrap ''transferId'' (ValidateID (cw_TransferID p)), wrap ''workspaceId'' (ValidateID (cw_WorkspaceID p)),
      validateWorkspaceSource (cw_GitURL p) (cw_SourcePath p),
      WorkspaceManifest_Validate (cw_Manifest p),
      fail_if (wf_GitURL (cw_Manifest p) \<noteq> cw_GitURL p) (Plain ''transfer Git URL does not match the source manifest''),
      fail_if (\<not> cw_BundleRequired p \<and> \<not> cw_OverlayRequired p) (Plain ''workspace transfer must request an artifact''),
      fail_if (wf_Clean (cw_Manifest p) = cw_OverlayRequired p)
        (Plain ''overlay requirement does not match source cleanliness''),
      fail_if (length (cw_BasisOIDs p) > MaximumWorkspaceBasisOIDs) (Plain ''basisOids exceeds limit of 128''),
      basis_loop (wf_ObjectFormat (cw_Manifest p)) (cw_BasisOIDs p),
      fail_if (\<not> sorted (cw_BasisOIDs p) \<or> length (remdups_adj (cw_BasisOIDs p)) \<noteq> length (cw_BasisOIDs p))
        (Plain ''basisOids must be sorted and unique''),
      fail_if (\<not> cw_BundleRequired p \<and> cw_BasisOIDs p \<noteq> []) (Plain ''basisOids require a bundle artifact'')]"

definition ReadWorkspaceArtifactParams_Validate :: "string \<Rightarrow> string \<Rightarrow> int \<Rightarrow> int \<Rightarrow> err" where
  "ReadWorkspaceArtifactParams_Validate transferID kind offset limit = first_err
     [wrap ''transferId'' (ValidateID transferID), WorkspaceArtifactKind_Validate kind,
      fail_if (offset < 0 \<or> offset \<ge> MaximumWorkspaceArtifactBytes) (Plain ''artifact offset is out of range''),
      fail_if (limit < 1 \<or> limit > WorkspaceArtifactChunkBytes)
        (Plain ''artifact chunk limit must be from 1 through 131072'')]"

record ReadWorkspaceArtifactResult =
  ra_TransferID :: string
  ra_Kind :: string
  ra_Offset :: int
  ra_Data :: string
  ra_NextOffset :: int

text \<open>Both bounds tests; the sum is only formed once the difference bounds it.\<close>

definition chunk_out_of_bounds :: "int \<Rightarrow> string \<Rightarrow> bool" where
  "chunk_out_of_bounds offset data \<longleftrightarrow>
     offset < 0 \<or> offset \<ge> MaximumWorkspaceArtifactBytes \<or> int (length data) < 1
     \<or> int (length data) > WorkspaceArtifactChunkBytes
     \<or> int (length data) > MaximumWorkspaceArtifactBytes - offset"

definition ReadWorkspaceArtifactResult_Validate :: "ReadWorkspaceArtifactResult \<Rightarrow> err" where
  "ReadWorkspaceArtifactResult_Validate r = first_err
     [wrap ''transferId'' (ValidateID (ra_TransferID r)), WorkspaceArtifactKind_Validate (ra_Kind r),
      fail_if (chunk_out_of_bounds (ra_Offset r) (ra_Data r)
               \<or> ra_NextOffset r \<noteq> add_int64 (ra_Offset r) (int (length (ra_Data r))))
        (Plain ''workspace artifact read result has invalid bounds'')]"

record BeginWorkspaceTransferParams =
  bt_SourceAgentID :: string
  bt_SourceDeviceID :: string
  bt_Manifest :: WorkspaceManifest
  bt_Transfer :: WorkspaceTransferManifest

definition BeginWorkspaceTransferParams_Validate :: "BeginWorkspaceTransferParams \<Rightarrow> err" where
  "BeginWorkspaceTransferParams_Validate p = first_err
     [wrap ''sourceAgentId'' (ValidateID (bt_SourceAgentID p)), wrap ''sourceDeviceId'' (ValidateID (bt_SourceDeviceID p)),
      WorkspaceManifest_Validate (bt_Manifest p),
      WorkspaceTransferManifest_Validate (bt_Transfer p),
      fail_if (WorkspaceManifestHash (bt_Manifest p) \<noteq> Inr (wt_ManifestHash (bt_Transfer p)))
        (Plain ''workspace transfer does not match the source manifest''),
      fail_if (WorkspaceWarningsForStrategy (wf_Warnings (bt_Manifest p)) (wt_Strategy (bt_Transfer p))
               \<noteq> Inr (wt_Warnings (bt_Transfer p)))
        (Plain ''workspace transfer warnings do not match the source manifest''),
      fail_if (list_ex (\<lambda>a. wad_Kind a = WorkspaceArtifactOverlay) (wt_Artifacts (bt_Transfer p))
               = wf_Clean (bt_Manifest p))
        (Plain ''workspace overlay does not match source cleanliness'')]"

definition WriteWorkspaceArtifactParams_Validate :: "string \<Rightarrow> string \<Rightarrow> string \<Rightarrow> int \<Rightarrow> string \<Rightarrow> err" where
  "WriteWorkspaceArtifactParams_Validate workspaceID transferID kind offset data = first_err
     [wrap ''workspaceId'' (ValidateID workspaceID), wrap ''transferId'' (ValidateID transferID),
      WorkspaceArtifactKind_Validate kind,
      fail_if (chunk_out_of_bounds offset data) (Plain ''workspace artifact write has invalid bounds'')]"

definition WriteWorkspaceArtifactResult_Validate :: "string \<Rightarrow> int \<Rightarrow> err" where
  "WriteWorkspaceArtifactResult_Validate transferID nextOffset = first_err
     [wrap ''transferId'' (ValidateID transferID),
      fail_if (nextOffset < 1 \<or> nextOffset > MaximumWorkspaceArtifactBytes)
        (Plain ''workspace artifact nextOffset is out of range'')]"

definition WorkspaceTransferControlParams_Validate :: "string \<Rightarrow> string \<Rightarrow> string \<Rightarrow> string \<Rightarrow> err" where
  "WorkspaceTransferControlParams_Validate workspaceID transferID sourceAgentID sourceDeviceID = first_err
     [wrap ''workspaceId'' (ValidateID workspaceID), wrap ''transferId'' (ValidateID transferID),
      wrap ''sourceAgentId'' (ValidateID sourceAgentID), wrap ''sourceDeviceId'' (ValidateID sourceDeviceID)]"

definition FinishWorkspaceTransferResult_Validate :: "PrepareWorkspaceResult \<Rightarrow> err" where
  "FinishWorkspaceTransferResult_Validate r = first_err
     [PrepareWorkspaceResult_Validate r,
      fail_if (pw_Outcome r \<noteq> WorkspacePrepareReady)
        (Plain ''finished workspace transfer must return a ready workspace'')]"

section \<open>What the validators accept\<close>

lemma workspaceWarning_nonempty: "warning_test w = None \<Longrightarrow> w \<noteq> []"
  by (auto simp: warning_test_def workspaceWarningPattern_def)

lemma ValidateWorkspaceWarnings_iff:
  "ValidateWorkspaceWarnings ws = None \<longleftrightarrow>
     length ws \<le> 16 \<and> (\<forall>w \<in> set ws. workspaceWarningPattern w) \<and> sorted_wrt (<) ws"
proof -
  have "warning_test w = None \<longleftrightarrow> workspaceWarningPattern w" for w
    by (auto simp: warning_test_def MaximumWorkspaceWarningBytes_def workspaceWarningPattern_def)
  moreover have "sorted_unique_loop warning_test e '''' ws = None \<longleftrightarrow>
      (\<forall>w \<in> set ws. warning_test w = None) \<and> sorted_wrt (<) ws" for e
    using sorted_unique_loop_sound [of warning_test e "''''" ws, OF workspaceWarning_nonempty] by simp
  ultimately show ?thesis
    by (auto simp: ValidateWorkspaceWarnings_def MaximumWorkspaceWarnings_def)
qed

lemma full_history_pattern: "workspaceWarningPattern WorkspaceWarningFullHistoryFallback"
  by (simp add: workspaceWarningPattern_def WorkspaceWarningFullHistoryFallback_def lower_def digit_def byte_def)

text \<open>The warnings of a strategy are a function of the source's; they carry the fallback warning exactly for full bundles.\<close>

lemma WorkspaceWarningsForStrategy_Inr:
  assumes "WorkspaceWarningsForStrategy source strategy = Inr ws"
  shows "set ws = set source \<union> (if strategy = WorkspaceStrategyFull then {WorkspaceWarningFullHistoryFallback} else {})"
    "ValidateWorkspaceWarnings ws = None" "WorkspaceStrategy_Validate strategy = None"
    "(WorkspaceWarningFullHistoryFallback \<in> set ws) = (strategy = WorkspaceStrategyFull)"
  using assms
  by (auto simp: WorkspaceWarningsForStrategy_def ValidateWorkspaceSourceWarnings_def Let_def split: if_splits)

lemma WorkspaceManifestHash_Inr:
  "WorkspaceManifestHash m = Inr h \<longleftrightarrow> WorkspaceManifest_Validate m = None \<and> h = sha256_hex (manifest_json m)"
  by (auto simp: WorkspaceManifestHash_def)

lemma sha256_hex_pattern: "sha256DigestPattern (sha256_hex s)"
  using sha256_hex_digest by (simp add: sha256DigestPattern_def)

text \<open>The sizes of a transfer never overflow, so its total is their sum.\<close>

lemma artifacts_loop_Inr:
  assumes "artifacts_loop prev n b as = Inr (bytes, b')" "0 \<le> n" "n + int (length as) * MaximumWorkspaceArtifactBytes \<le> MaxInt64"
  shows "bytes = n + sum_list (map wad_Size as)" "b' = (b \<or> (\<exists>a \<in> set as. wad_Kind a = WorkspaceArtifactBundle))"
    "\<forall>a \<in> set as. WorkspaceArtifactDescriptor_Validate a = None"
proof -
  have "bytes = n + sum_list (map wad_Size as) \<and> b' = (b \<or> (\<exists>a \<in> set as. wad_Kind a = WorkspaceArtifactBundle))
      \<and> (\<forall>a \<in> set as. WorkspaceArtifactDescriptor_Validate a = None)"
    using assms
  proof (induction as arbitrary: prev n b)
    case (Cons a as)
    have val: "WorkspaceArtifactDescriptor_Validate a = None"
      and rest: "artifacts_loop (wad_Kind a) (add_int64 n (wad_Size a)) (b \<or> wad_Kind a = WorkspaceArtifactBundle) as = Inr (bytes, b')"
      using Cons.prems(1) by (auto split: option.splits if_splits)
    have size: "1 \<le> wad_Size a" "wad_Size a \<le> MaximumWorkspaceArtifactBytes"
      using val by (auto simp: WorkspaceArtifactDescriptor_Validate_def)
    have room: "n + wad_Size a + int (length as) * MaximumWorkspaceArtifactBytes \<le> MaxInt64"
      using Cons.prems(3) size(2) by (simp add: algebra_simps)
    moreover have "0 \<le> int (length as) * MaximumWorkspaceArtifactBytes" by (simp add: MaximumWorkspaceArtifactBytes_def)
    ultimately have add: "add_int64 n (wad_Size a) = n + wad_Size a"
      using Cons.prems(2) size(1) by (simp add: add_int64_def wrap_int64_id MaxInt64_def)
    show ?case using Cons.IH [OF rest [unfolded add]] room Cons.prems(2) size(1) val by auto
  qed simp
  then show "bytes = n + sum_list (map wad_Size as)" "b' = (b \<or> (\<exists>a \<in> set as. wad_Kind a = WorkspaceArtifactBundle))"
    "\<forall>a \<in> set as. WorkspaceArtifactDescriptor_Validate a = None" by simp_all
qed

end
