(* ===== verification/Workspace.thy ===== *)
theory Workspace
  imports Trees_Inv WorkspaceProtocol
begin

text \<open>
  Workspace syncs: \<^verbatim>\<open>internal/store/workspace.go\<close>. A receipt is begun by a root, pinned to the manifest
  its source was inspected with, and finished with the summary of what the target prepared. The
  receipt read back is the row, so one record stands for both.
\<close>

record WorkspaceSyncIntent =
  wi_Source :: PrincipalIdentity
  wi_SyncID :: string
  wi_TargetDeviceID :: string
  wi_GitURL :: string
  wi_SourcePathHash :: string

record WorkspaceSyncKey =
  wk_ControllerID :: string
  wk_TreeID :: string
  wk_SourceAgentID :: string
  wk_SyncID :: string

type_synonym WorkspaceSyncReceipt = WorkspaceRow

definition Receipt_Manifest :: "WorkspaceSyncReceipt \<Rightarrow> WorkspaceManifest" where
  "Receipt_Manifest r =
     \<lparr>wf_GitURL = ws_git_url r, wf_HeadOID = ws_head_oid r, wf_ObjectFormat = ws_object_format r,
      wf_WorkingDirectory = ws_working_directory r, wf_Clean = ws_source_clean r,
      wf_SourceSnapshotHash = ws_source_snapshot_hash r, wf_Warnings = ws_source_warnings r\<rparr>"

definition Receipt_Summary :: "WorkspaceSyncReceipt \<Rightarrow> WorkspaceSummary" where
  "Receipt_Summary r =
     \<lparr>wsum_WorkspaceID = ws_sync_id r, wsum_SourceDeviceID = ws_source_device_id r,
      wsum_TargetDeviceID = ws_target_device_id r, wsum_HeadOID = ws_head_oid r,
      wsum_ObjectFormat = ws_object_format r, wsum_WorkingDirectory = ws_working_directory r,
      wsum_Strategy = ws_strategy r, wsum_ManifestHash = ws_manifest_hash r, wsum_Warnings = ws_warnings r\<rparr>"

definition WorkspaceSyncKey_Validate :: "WorkspaceSyncKey \<Rightarrow> err" where
  "WorkspaceSyncKey_Validate k = first_err
     [wrap ''controllerId'' (ValidateID (wk_ControllerID k)), wrap ''treeId'' (ValidateID (wk_TreeID k)),
      wrap ''sourceAgentId'' (ValidateID (wk_SourceAgentID k)), wrap ''syncId'' (ValidateID (wk_SyncID k))]"

definition validateWorkspaceSyncIntent :: "WorkspaceSyncIntent \<Rightarrow> err" where
  "validateWorkspaceSyncIntent i = first_err
     [wrap ''source'' (PrincipalIdentity_Validate (wi_Source i)),
      fail_if (pi_ParentAgentID (wi_Source i) \<noteq> '''') (Plain ''workspace source must be a tree root''),
      wrap ''syncId'' (ValidateID (wi_SyncID i)), wrap ''targetDeviceId'' (ValidateID (wi_TargetDeviceID i)),
      fail_if (wi_GitURL i = '''' \<or> length (wi_GitURL i) > MaximumGitURLBytes) (Plain ''gitUrl is invalid'')]"

definition workspaceReceiptMatchesIntent :: "WorkspaceSyncReceipt \<Rightarrow> WorkspaceSyncIntent \<Rightarrow> bool" where
  "workspaceReceiptMatchesIntent r i \<longleftrightarrow>
     ws_controller_id r = pi_ControllerID (wi_Source i) \<and> ws_tree_id r = pi_TreeID (wi_Source i)
     \<and> ws_source_agent_id r = pi_AgentID (wi_Source i) \<and> ws_sync_id r = wi_SyncID i
     \<and> ws_source_device_id r = pi_DeviceID (wi_Source i) \<and> ws_target_device_id r = wi_TargetDeviceID i
     \<and> ws_git_url r = wi_GitURL i \<and> ws_source_path_digest r = wi_SourcePathHash i"

text \<open>\<^verbatim>\<open>sameWorkspaceManifest\<close> and \<^verbatim>\<open>sameWorkspaceSummary\<close> compare every field.\<close>

definition sameWorkspaceManifest :: "WorkspaceManifest \<Rightarrow> WorkspaceManifest \<Rightarrow> bool" where
  "sameWorkspaceManifest a b \<longleftrightarrow>
     wf_GitURL a = wf_GitURL b \<and> wf_HeadOID a = wf_HeadOID b \<and> wf_ObjectFormat a = wf_ObjectFormat b
     \<and> wf_WorkingDirectory a = wf_WorkingDirectory b \<and> wf_Clean a = wf_Clean b
     \<and> wf_SourceSnapshotHash a = wf_SourceSnapshotHash b \<and> wf_Warnings a = wf_Warnings b"

definition sameWorkspaceSummary :: "WorkspaceSummary \<Rightarrow> WorkspaceSummary \<Rightarrow> bool" where
  "sameWorkspaceSummary a b \<longleftrightarrow>
     wsum_WorkspaceID a = wsum_WorkspaceID b \<and> wsum_SourceDeviceID a = wsum_SourceDeviceID b
     \<and> wsum_TargetDeviceID a = wsum_TargetDeviceID b \<and> wsum_HeadOID a = wsum_HeadOID b
     \<and> wsum_ObjectFormat a = wsum_ObjectFormat b \<and> wsum_WorkingDirectory a = wsum_WorkingDirectory b
     \<and> wsum_Strategy a = wsum_Strategy b \<and> wsum_ManifestHash a = wsum_ManifestHash b
     \<and> wsum_Warnings a = wsum_Warnings b"

section \<open>Reading a receipt\<close>

definition workspace_at :: "WorkspaceSyncKey \<Rightarrow> WorkspaceRow \<Rightarrow> bool" where
  "workspace_at k r \<longleftrightarrow>
     ws_controller_id r = wk_ControllerID k \<and> ws_tree_id r = wk_TreeID k
     \<and> ws_source_agent_id r = wk_SourceAgentID k \<and> ws_sync_id r = wk_SyncID k"

definition receipt_check :: "WorkspaceSyncReceipt \<Rightarrow> err" where
  "receipt_check r =
     (let manifest = wrap ''stored workspace source manifest is invalid'' (WorkspaceManifest_Validate (Receipt_Manifest r));
          hash_ok = (WorkspaceManifestHash (Receipt_Manifest r) = Inr (ws_manifest_hash r))
      in first_err (fail_if (length (ws_source_path_digest r) \<noteq> 32) (Plain ''stored source path digest is invalid'') #
        (case ws_status r of
           WorkspaceSyncPrepared \<Rightarrow>
             [wrap ''stored workspace sync receipt is invalid'' (WorkspaceSummary_Validate (Receipt_Summary r)), manifest,
              fail_if (\<not> hash_ok \<or> WorkspaceWarningsForStrategy (ws_source_warnings r) (ws_strategy r) \<noteq> Inr (ws_warnings r))
                (Plain ''stored prepared workspace authority is invalid'')]
         | WorkspaceSyncInspected \<Rightarrow>
             [manifest, fail_if (\<not> hash_ok) (Plain ''stored workspace manifest hash is invalid'')]
         | WorkspaceSyncPending \<Rightarrow> [])))"

definition queryWorkspaceSyncReceipt :: "WorkspaceSyncKey \<Rightarrow> BrokerDb \<Rightarrow> WorkspaceSyncReceipt result" where
  "queryWorkspaceSyncReceipt key s =
     (case sel1 (workspace_at key) (workspace_sync_receipts s) of
        None \<Rightarrow> Inl (Sentinel ErrNotFound)
      | Some r \<Rightarrow> guard_res (receipt_check r) (Inr r))"

section \<open>Beginning a sync\<close>

definition intent_key :: "WorkspaceSyncIntent \<Rightarrow> WorkspaceSyncKey" where
  "intent_key i =
     \<lparr>wk_ControllerID = pi_ControllerID (wi_Source i), wk_TreeID = pi_TreeID (wi_Source i),
      wk_SourceAgentID = pi_AgentID (wi_Source i), wk_SyncID = wi_SyncID i\<rparr>"

definition new_workspace_row :: "WorkspaceSyncIntent \<Rightarrow> int \<Rightarrow> WorkspaceRow" where
  "new_workspace_row i timestamp =
     \<lparr>ws_controller_id = pi_ControllerID (wi_Source i), ws_tree_id = pi_TreeID (wi_Source i),
      ws_source_agent_id = pi_AgentID (wi_Source i), ws_sync_id = wi_SyncID i,
      ws_source_device_id = pi_DeviceID (wi_Source i), ws_target_device_id = wi_TargetDeviceID i,
      ws_git_url = wi_GitURL i, ws_source_path_digest = wi_SourcePathHash i, ws_status = WorkspaceSyncPending,
      ws_head_oid = '''', ws_object_format = '''', ws_working_directory = '''', ws_source_clean = False,
      ws_source_snapshot_hash = '''', ws_strategy = WorkspaceStrategy_other '''', ws_manifest_hash = '''',
      ws_source_warnings = [], ws_warnings = [], ws_consumed_spawn_id = '''',
      ws_created_at = timestamp, ws_updated_at = timestamp\<rparr>"

definition workspace_insertable :: "WorkspaceRow \<Rightarrow> BrokerDb \<Rightarrow> bool" where
  "workspace_insertable r s \<longleftrightarrow>
     1 \<le> length (ws_git_url r) \<and> length (ws_git_url r) \<le> 4096 \<and> length (ws_source_path_digest r) = 32
     \<and> 0 \<le> ws_created_at r \<and> ws_created_at r \<le> ws_updated_at r
     \<and> list_all (\<lambda>x. \<not> (ws_controller_id x = ws_controller_id r \<and> ws_tree_id x = ws_tree_id r
                       \<and> ws_sync_id x = ws_sync_id r)) (workspace_sync_receipts s)
     \<and> list_ex (principal_at (ws_controller_id r) (ws_tree_id r) (ws_source_agent_id r)) (principals s)
     \<and> list_ex (device_at (ws_controller_id r) (ws_source_device_id r)) (devices s)
     \<and> list_ex (device_at (ws_controller_id r) (ws_target_device_id r)) (devices s)"

definition BeginWorkspaceSync_tx :: "WorkspaceSyncIntent \<Rightarrow> int \<Rightarrow> (BrokerDb, WorkspaceSyncReceipt) tx" where
  "BeginWorkspaceSync_tx intent timestamp =
     tx_bind (tx_query (authorizePrincipal (wi_Source intent) CapabilityWorkspaceSync)) (\<lambda>_.
     tx_bind (tx_query (\<lambda>s. or_not_found (queryWorkspaceSyncReceipt (intent_key intent) s))) (\<lambda>found.
     case found of
       Some receipt \<Rightarrow>
         if \<not> workspaceReceiptMatchesIntent receipt intent
         then tx_fail (Wrapped ''syncId already identifies another request'' (Sentinel ErrConflict))
         else tx_ret receipt
     | None \<Rightarrow>
         tx_bind (tx_query (\<lambda>s. case queryDevice (pi_ControllerID (wi_Source intent)) (wi_TargetDeviceID intent) s of
             Inl e \<Rightarrow> Inl (Wrapped ''workspace target'' e) | Inr x \<Rightarrow> Inr x)) (\<lambda>target.
         if \<not> dev_Online target
         then tx_fail (Wrapped ''workspace target must be online'' (Sentinel ErrConflict))
         else
           tx_bind (tx_insert ''create workspace sync receipt'' (workspace_insertable (new_workspace_row intent timestamp))
             (\<lambda>s. s\<lparr>workspace_sync_receipts := workspace_sync_receipts s @ [new_workspace_row intent timestamp]\<rparr>)) (\<lambda>_.
           tx_ret (new_workspace_row intent timestamp)))))"

definition BeginWorkspaceSync ::
    "WorkspaceSyncIntent \<Rightarrow> int \<Rightarrow> BrokerDb \<Rightarrow> WorkspaceSyncReceipt result \<times> BrokerDb" where
  "BeginWorkspaceSync intent createdAt =
     guard_tx (first_err [validateWorkspaceSyncIntent intent, unixTime createdAt ''createdAt''])
       (BeginWorkspaceSync_tx intent createdAt)"

section \<open>Pinning and finishing\<close>

definition pin_row :: "WorkspaceManifest \<Rightarrow> string \<Rightarrow> int \<Rightarrow> WorkspaceRow \<Rightarrow> WorkspaceRow" where
  "pin_row m hash timestamp r = r\<lparr>
     ws_status := WorkspaceSyncInspected, ws_head_oid := wf_HeadOID m, ws_object_format := wf_ObjectFormat m,
     ws_working_directory := wf_WorkingDirectory m, ws_source_clean := wf_Clean m,
     ws_source_snapshot_hash := wf_SourceSnapshotHash m, ws_manifest_hash := hash,
     ws_source_warnings := wf_Warnings m, ws_updated_at := timestamp\<rparr>"

definition update_workspace :: "WorkspaceSyncKey \<Rightarrow> (WorkspaceRow \<Rightarrow> WorkspaceRow) \<Rightarrow> BrokerDb \<Rightarrow> BrokerDb" where
  "update_workspace key f s =
     s\<lparr>workspace_sync_receipts := upd (workspace_at key) f (workspace_sync_receipts s)\<rparr>"

definition PinWorkspaceSyncManifest_tx ::
    "WorkspaceSyncKey \<Rightarrow> WorkspaceManifest \<Rightarrow> string \<Rightarrow> int \<Rightarrow> (BrokerDb, WorkspaceSyncReceipt) tx" where
  "PinWorkspaceSyncManifest_tx key manifest manifestHash timestamp =
     tx_bind (tx_query (queryWorkspaceSyncReceipt key)) (\<lambda>receipt.
     if ws_git_url receipt \<noteq> wf_GitURL manifest
     then tx_fail (Wrapped ''inspected Git URL differs'' (Sentinel ErrConflict))
     else if ws_status receipt \<noteq> WorkspaceSyncPending then
       if ws_manifest_hash receipt \<noteq> manifestHash \<or> \<not> sameWorkspaceManifest (Receipt_Manifest receipt) manifest
       then tx_fail (Wrapped ''source workspace changed for this syncId'' (Sentinel ErrConflict))
       else tx_ret receipt
     else if timestamp < ws_created_at receipt
     then tx_fail (Plain ''observedAt precedes workspace sync creation'')
     else
       tx_bind (tx_exec (update_workspace key (pin_row manifest manifestHash timestamp))) (\<lambda>_.
       tx_ret (pin_row manifest manifestHash timestamp receipt)))"

definition PinWorkspaceSyncManifest ::
    "WorkspaceSyncKey \<Rightarrow> WorkspaceManifest \<Rightarrow> int \<Rightarrow> BrokerDb \<Rightarrow> WorkspaceSyncReceipt result \<times> BrokerDb" where
  "PinWorkspaceSyncManifest key manifest observedAt s =
     (case WorkspaceSyncKey_Validate key of
        Some e \<Rightarrow> (Inl e, s)
      | None \<Rightarrow>
          (case WorkspaceManifestHash manifest of
             Inl e \<Rightarrow> (Inl e, s)
           | Inr manifestHash \<Rightarrow>
               guard_tx (unixTime observedAt ''observedAt'')
                 (PinWorkspaceSyncManifest_tx key manifest manifestHash observedAt) s))"

definition finish_row :: "WorkspaceSummary \<Rightarrow> int \<Rightarrow> WorkspaceRow \<Rightarrow> WorkspaceRow" where
  "finish_row sm timestamp r = r\<lparr>
     ws_status := WorkspaceSyncPrepared, ws_head_oid := wsum_HeadOID sm, ws_object_format := wsum_ObjectFormat sm,
     ws_working_directory := wsum_WorkingDirectory sm, ws_strategy := wsum_Strategy sm,
     ws_manifest_hash := wsum_ManifestHash sm, ws_warnings := wsum_Warnings sm, ws_updated_at := timestamp\<rparr>"

definition FinishWorkspaceSync_tx ::
    "WorkspaceSyncKey \<Rightarrow> WorkspaceSummary \<Rightarrow> int \<Rightarrow> (BrokerDb, WorkspaceSyncReceipt) tx" where
  "FinishWorkspaceSync_tx key summary timestamp =
     tx_bind (tx_query (queryWorkspaceSyncReceipt key)) (\<lambda>receipt.
     if ws_status receipt = WorkspaceSyncPrepared then
       if \<not> sameWorkspaceSummary (Receipt_Summary receipt) summary
       then tx_fail (Wrapped ''workspace result differs'' (Sentinel ErrConflict))
       else tx_ret receipt
     else if WorkspaceWarningsForStrategy (ws_source_warnings receipt) (wsum_Strategy summary) \<noteq> Inr (wsum_Warnings summary)
       \<or> ws_status receipt \<noteq> WorkspaceSyncInspected
       \<or> ws_manifest_hash receipt \<noteq> wsum_ManifestHash summary
       \<or> ws_head_oid receipt \<noteq> wsum_HeadOID summary \<or> ws_object_format receipt \<noteq> wsum_ObjectFormat summary
       \<or> ws_working_directory receipt \<noteq> wsum_WorkingDirectory summary
     then tx_fail (Wrapped ''workspace result differs from inspected source'' (Sentinel ErrConflict))
     else if ws_source_device_id receipt \<noteq> wsum_SourceDeviceID summary
       \<or> ws_target_device_id receipt \<noteq> wsum_TargetDeviceID summary
     then tx_fail (Wrapped ''workspace result authority differs'' (Sentinel ErrConflict))
     else if timestamp < ws_updated_at receipt then tx_fail (Plain ''observedAt precedes workspace sync state'')
     else
       tx_bind (tx_exec (update_workspace key (finish_row summary timestamp))) (\<lambda>_.
       tx_ret (finish_row summary timestamp receipt)))"

definition FinishWorkspaceSync ::
    "WorkspaceSyncKey \<Rightarrow> WorkspaceSummary \<Rightarrow> int \<Rightarrow> BrokerDb \<Rightarrow> WorkspaceSyncReceipt result \<times> BrokerDb" where
  "FinishWorkspaceSync key summary observedAt =
     guard_tx (first_err
       [WorkspaceSyncKey_Validate key, WorkspaceSummary_Validate summary,
        fail_if (wsum_WorkspaceID summary \<noteq> wk_SyncID key) (Plain ''workspace summary does not match its sync key''),
        unixTime observedAt ''observedAt''])
     (FinishWorkspaceSync_tx key summary observedAt)"

end
