(* ===== verification/Workspace_Inv.thy ===== *)
theory Workspace_Inv
  imports Workspace Contracts
begin

text \<open>
  The workspace invariant: sync identifiers are unique in their tree, every stored receipt passes
  the checks it is read with, its source is the tree's root and both its devices are registered.
  Receipts only move forward: pending, inspected, prepared.
\<close>

definition workspace_key :: "WorkspaceRow \<Rightarrow> string \<times> string \<times> string" where
  "workspace_key r = (ws_controller_id r, ws_tree_id r, ws_sync_id r)"

definition workspace_source :: "WorkspaceRow \<Rightarrow> PrincipalIdentity" where
  "workspace_source r =
     \<lparr>pi_ControllerID = ws_controller_id r, pi_TreeID = ws_tree_id r, pi_AgentID = ws_source_agent_id r,
      pi_ParentAgentID = '''', pi_DeviceID = ws_source_device_id r\<rparr>"

definition workspace_row_ok :: "BrokerDb \<Rightarrow> WorkspaceRow \<Rightarrow> bool" where
  "workspace_row_ok s r \<longleftrightarrow>
     receipt_check r = None \<and> ValidateID (ws_sync_id r) = None
     \<and> 0 \<le> ws_created_at r \<and> ws_created_at r \<le> ws_updated_at r
     \<and> (ws_status r = WorkspaceSyncPending \<longrightarrow> ws_updated_at r = ws_created_at r)
     \<and> (ws_consumed_spawn_id r \<noteq> '''' \<longrightarrow> ws_status r = WorkspaceSyncPrepared)
     \<and> workspace_source r \<in> identity_of ` set (principals s)
     \<and> (ws_controller_id r, ws_source_device_id r) \<in> device_key ` set (devices s)
     \<and> (ws_controller_id r, ws_target_device_id r) \<in> device_key ` set (devices s)"

definition workspace_inv :: "BrokerDb \<Rightarrow> bool" where
  "workspace_inv s \<longleftrightarrow>
     uniq workspace_key (workspace_sync_receipts s) \<and> (\<forall>r \<in> set (workspace_sync_receipts s). workspace_row_ok s r)"

lemma workspace_invD:
  assumes "workspace_inv s"
  shows "uniq workspace_key (workspace_sync_receipts s)"
    "\<And>r. r \<in> set (workspace_sync_receipts s) \<Longrightarrow> workspace_row_ok s r"
  using assms by (auto simp: workspace_inv_def)

lemma receipt_check_None:
  "receipt_check r = None \<longleftrightarrow>
     length (ws_source_path_digest r) = 32
     \<and> (ws_status r \<noteq> WorkspaceSyncPending \<longrightarrow> WorkspaceManifestHash (Receipt_Manifest r) = Inr (ws_manifest_hash r))
     \<and> (ws_status r = WorkspaceSyncPrepared \<longrightarrow> WorkspaceSummary_Validate (Receipt_Summary r) = None
          \<and> WorkspaceWarningsForStrategy (ws_source_warnings r) (ws_strategy r) = Inr (ws_warnings r))"
  by (cases "ws_status r") (auto simp: receipt_check_def WorkspaceManifestHash_Inr)

lemma workspace_inv_mono:
  assumes "workspace_inv s" "workspace_sync_receipts s' = workspace_sync_receipts s"
    "set (principals s) \<subseteq> set (principals s')"
    "device_key ` set (devices s) \<subseteq> device_key ` set (devices s')"
  shows "workspace_inv s'"
proof -
  have "workspace_row_ok s' r" if "workspace_row_ok s r" for r
    using that assms(3,4) unfolding workspace_row_ok_def by blast
  then show ?thesis using assms(1,2) by (simp add: workspace_inv_def)
qed

lemma workspace_inv_empty: "workspace_inv schemaCurrent"
  by (simp add: workspace_inv_def)

lemma queryWorkspaceSyncReceipt_inv:
  assumes "workspace_inv s"
  shows "queryWorkspaceSyncReceipt k s =
    (case sel1 (workspace_at k) (workspace_sync_receipts s) of None \<Rightarrow> Inl (Sentinel ErrNotFound) | Some r \<Rightarrow> Inr r)"
proof (cases "sel1 (workspace_at k) (workspace_sync_receipts s)")
  case (Some r)
  then have "workspace_row_ok s r" using workspace_invD(2) [OF assms] sel1_SomeD by metis
  then show ?thesis using Some by (simp add: queryWorkspaceSyncReceipt_def workspace_row_ok_def)
qed (simp add: queryWorkspaceSyncReceipt_def)

lemma queryWorkspaceSyncReceipt_Inr:
  assumes "workspace_inv s" "queryWorkspaceSyncReceipt k s = Inr r"
  shows "sel1 (workspace_at k) (workspace_sync_receipts s) = Some r" "r \<in> set (workspace_sync_receipts s)"
    "workspace_at k r" "workspace_row_ok s r"
proof -
  show sel: "sel1 (workspace_at k) (workspace_sync_receipts s) = Some r"
    using assms(2) by (simp add: queryWorkspaceSyncReceipt_inv [OF assms(1)] split: option.splits)
  show "r \<in> set (workspace_sync_receipts s)" "workspace_at k r" using sel1_SomeD [OF sel] by simp_all
  then show "workspace_row_ok s r" using workspace_invD(2) [OF assms(1)] by simp
qed

text \<open>A key names at most one row.\<close>

lemma workspace_at_unique:
  assumes "workspace_inv s" "r \<in> set (workspace_sync_receipts s)" "workspace_at k r"
  shows "sel1 (workspace_at k) (workspace_sync_receipts s) = Some r"
proof -
  obtain x where x: "sel1 (workspace_at k) (workspace_sync_receipts s) = Some x"
    using assms(2,3) by (cases "sel1 (workspace_at k) (workspace_sync_receipts s)") (auto simp: sel1_None_iff)
  then have "x \<in> set (workspace_sync_receipts s)" "workspace_at k x" by (auto dest: sel1_SomeD)
  then have "x = r"
    using uniq_same [OF workspace_invD(1) [OF assms(1)] _ assms(2)] assms(3)
    by (simp add: workspace_at_def workspace_key_def)
  with x show ?thesis by simp
qed

section \<open>Begin\<close>

lemma device_known: "list_ex (device_at c d) (devices s) \<longleftrightarrow> (c, d) \<in> device_key ` set (devices s)"
  by (force simp: list_ex_iff device_at_key image_iff)

lemma BeginWorkspaceSync_cases:
  assumes "workspace_inv s" "BeginWorkspaceSync i t s = (Inr r, s')"
  obtains (replay) p where "validateWorkspaceSyncIntent i = None" "0 \<le> t"
      "authorizePrincipal (wi_Source i) CapabilityWorkspaceSync s = Inr p"
      "sel1 (workspace_at (intent_key i)) (workspace_sync_receipts s) = Some r" "workspaceReceiptMatchesIntent r i" "s' = s"
  | (fresh) p d where "validateWorkspaceSyncIntent i = None" "0 \<le> t"
      "authorizePrincipal (wi_Source i) CapabilityWorkspaceSync s = Inr p"
      "sel1 (workspace_at (intent_key i)) (workspace_sync_receipts s) = None"
      "queryDevice (pi_ControllerID (wi_Source i)) (wi_TargetDeviceID i) s = Inr d" "dev_Online d"
      "workspace_insertable (new_workspace_row i t) s" "r = new_workspace_row i t"
      "s' = s\<lparr>workspace_sync_receipts := workspace_sync_receipts s @ [r]\<rparr>"
proof -
  have val: "validateWorkspaceSyncIntent i = None" "0 \<le> t" and tx: "BeginWorkspaceSync_tx i t s = Inr (r, s')"
    using assms(2) by (simp_all add: BeginWorkspaceSync_def)
  obtain p where p: "authorizePrincipal (wi_Source i) CapabilityWorkspaceSync s = Inr p"
    using tx unfolding BeginWorkspaceSync_tx_def by (rule tx_bind_queryE)
  note tx1 = tx [unfolded BeginWorkspaceSync_tx_def
      tx_bind_query(1) [of "authorizePrincipal (wi_Source i) CapabilityWorkspaceSync", OF p]]
  show thesis
  proof (cases "sel1 (workspace_at (intent_key i)) (workspace_sync_receipts s)")
    case (Some x)
    then have q: "or_not_found (queryWorkspaceSyncReceipt (intent_key i) s) = Inr (Some x)"
      by (simp add: queryWorkspaceSyncReceipt_inv [OF assms(1)])
    note tx2 = tx1 [unfolded tx_bind_query(1) [of "\<lambda>s. or_not_found (queryWorkspaceSyncReceipt (intent_key i) s)", OF q]]
    then have "workspaceReceiptMatchesIntent x i" "x = r" "s' = s" by (simp_all split: if_splits)
    then show thesis using replay [OF val p] Some by simp
  next
    case None
    then have q: "or_not_found (queryWorkspaceSyncReceipt (intent_key i) s) = Inr None"
      by (simp add: queryWorkspaceSyncReceipt_inv [OF assms(1)])
    note tx2 = tx1 [unfolded tx_bind_query(1) [of "\<lambda>s. or_not_found (queryWorkspaceSyncReceipt (intent_key i) s)", OF q]]
    then obtain d where "queryDevice (pi_ControllerID (wi_Source i)) (wi_TargetDeviceID i) s = Inr d" "dev_Online d"
      "workspace_insertable (new_workspace_row i t) s" "r = new_workspace_row i t"
      "s' = s\<lparr>workspace_sync_receipts := workspace_sync_receipts s @ [r]\<rparr>"
      by (auto split: sum.splits if_splits)
    then show thesis using fresh [OF val p None] by blast
  qed
qed

lemma new_workspace_row_simps [simp]:
  "workspace_key (new_workspace_row i t) = (pi_ControllerID (wi_Source i), pi_TreeID (wi_Source i), wi_SyncID i)"
  "workspace_at (intent_key i) (new_workspace_row i t)"
  "workspaceReceiptMatchesIntent (new_workspace_row i t) i"
  "ws_status (new_workspace_row i t) = WorkspaceSyncPending" "ws_sync_id (new_workspace_row i t) = wi_SyncID i"
  "ws_created_at (new_workspace_row i t) = t" "ws_updated_at (new_workspace_row i t) = t"
  "ws_consumed_spawn_id (new_workspace_row i t) = ''''" "ws_source_path_digest (new_workspace_row i t) = wi_SourcePathHash i"
  "ws_controller_id (new_workspace_row i t) = pi_ControllerID (wi_Source i)"
  "ws_tree_id (new_workspace_row i t) = pi_TreeID (wi_Source i)"
  "ws_source_agent_id (new_workspace_row i t) = pi_AgentID (wi_Source i)"
  "ws_source_device_id (new_workspace_row i t) = pi_DeviceID (wi_Source i)"
  "ws_target_device_id (new_workspace_row i t) = wi_TargetDeviceID i" "ws_git_url (new_workspace_row i t) = wi_GitURL i"
  by (simp_all add: new_workspace_row_def workspace_key_def workspace_at_def intent_key_def workspaceReceiptMatchesIntent_def)

lemma workspace_source_new:
  "pi_ParentAgentID (wi_Source i) = '''' \<Longrightarrow> workspace_source (new_workspace_row i t) = wi_Source i"
  by (cases "wi_Source i") (simp add: workspace_source_def)

lemma workspace_inv_add:
  assumes inv: "workspace_inv s" and tinv: "trees_inv s"
    and val: "validateWorkspaceSyncIntent i = None"
    and auth: "authorizePrincipal (wi_Source i) CapabilityWorkspaceSync s = Inr p"
    and ins: "workspace_insertable (new_workspace_row i t) s"
  shows "workspace_inv (s\<lparr>workspace_sync_receipts := workspace_sync_receipts s @ [new_workspace_row i t]\<rparr>)"
proof -
  let ?r = "new_workspace_row i t"
  let ?s = "s\<lparr>workspace_sync_receipts := workspace_sync_receipts s @ [?r]\<rparr>"
  have src: "pi_ParentAgentID (wi_Source i) = ''''" "ValidateID (wi_SyncID i) = None"
    using val by (simp_all add: validateWorkspaceSyncIntent_def)
  have "wi_Source i \<in> identity_of ` set (principals s)"
    using auth [unfolded authorizePrincipal_Inr [OF tinv]] by (metis imageI)
  then have "workspace_row_ok s ?r"
    using ins src workspace_source_new [OF src(1)]
    by (simp add: workspace_row_ok_def workspace_insertable_def receipt_check_None device_known)
  then have rows: "workspace_row_ok ?s r" if "r \<in> set (workspace_sync_receipts ?s)" for r
    using that workspace_invD(2) [OF inv] by (auto simp: workspace_row_ok_def)
  have "workspace_key ?r \<notin> workspace_key ` set (workspace_sync_receipts s)"
    using ins by (auto simp: workspace_insertable_def list_all_iff workspace_key_def)
  then show ?thesis
    using rows workspace_invD(1) [OF inv] by (simp add: workspace_inv_def)
qed


definition workspace_ok :: "BrokerDb \<Rightarrow> bool" where
  "workspace_ok s \<longleftrightarrow> workspace_inv s \<and> trees_inv s \<and> devices_inv s"

definition may_sync :: "WorkspaceSyncIntent \<Rightarrow> BrokerDb \<Rightarrow> bool" where
  "may_sync i s \<longleftrightarrow> validateWorkspaceSyncIntent i = None
     \<and> (\<exists>p. authorizePrincipal (wi_Source i) CapabilityWorkspaceSync s = Inr p)"

lemma authorizePrincipal_cong:
  assumes "trees s' = trees s" "principals s' = principals s"
  shows "authorizePrincipal p c s' = authorizePrincipal p c s"
  unfolding authorizePrincipal_def queryPrincipal_def queryTreeByID_def assms by simp

lemma BeginWorkspaceSync_inv:
  assumes "workspace_inv s" "trees_inv s" "BeginWorkspaceSync i t s = (Inr r, s')"
  shows "workspace_inv s'" "trees s' = trees s" "principals s' = principals s" "devices s' = devices s"
    "controller_registries s' = controller_registries s"
  using assms(1,3) by (cases rule: BeginWorkspaceSync_cases; use assms(1,2) workspace_inv_add in auto)+

lemma BeginWorkspaceSync_found:
  assumes "workspace_inv s" "may_sync i s" "0 \<le> t"
    "sel1 (workspace_at (intent_key i)) (workspace_sync_receipts s) = Some r"
  shows "BeginWorkspaceSync i t s =
    (if workspaceReceiptMatchesIntent r i then (Inr r, s)
     else (Inl (Wrapped ''syncId already identifies another request'' (Sentinel ErrConflict)), s))"
proof -
  obtain p where p: "authorizePrincipal (wi_Source i) CapabilityWorkspaceSync s = Inr p"
    using assms(2) by (auto simp: may_sync_def)
  have q: "or_not_found (queryWorkspaceSyncReceipt (intent_key i) s) = Inr (Some r)"
    using assms(4) by (simp add: queryWorkspaceSyncReceipt_inv [OF assms(1)])
  have "BeginWorkspaceSync_tx i t s =
    (if workspaceReceiptMatchesIntent r i then Inr (r, s)
     else Inl (Wrapped ''syncId already identifies another request'' (Sentinel ErrConflict)))"
    unfolding BeginWorkspaceSync_tx_def
      tx_bind_query(1) [of "authorizePrincipal (wi_Source i) CapabilityWorkspaceSync", OF p]
      tx_bind_query(1) [of "\<lambda>s. or_not_found (queryWorkspaceSyncReceipt (intent_key i) s)", OF q]
    by (simp add: tx_ret_def tx_fail_def)
  then show ?thesis
    using assms(2,3) by (simp add: BeginWorkspaceSync_def may_sync_def withImmediateTransaction_def)
qed

interpretation workspace_receipts:
  receipts workspace_ok may_sync BeginWorkspaceSync "\<lambda>i. queryWorkspaceSyncReceipt (intent_key i)"
    workspaceReceiptMatchesIntent
proof
  fix s i t r s'
  assume ok: "workspace_ok s" and run: "BeginWorkspaceSync i t s = (Inr r, s')"
  have inv: "workspace_inv s" "trees_inv s" "devices_inv s" using ok by (simp_all add: workspace_ok_def)
  note st = BeginWorkspaceSync_inv [OF inv(1,2) run]
  have dinv: "devices_inv s'"
    using inv(3) st(4,5) by (simp add: devices_inv_def regs_inv_def registry_revision_def)
  show "workspace_ok s'" using st inv(2) trees_inv_cong [OF st(2,3)] dinv by (simp add: workspace_ok_def)
  show "may_sync i s'"
    using inv(1) run
    by (cases rule: BeginWorkspaceSync_cases; use authorizePrincipal_cong [OF st(2,3)] in \<open>auto simp: may_sync_def\<close>)
  show "queryWorkspaceSyncReceipt (intent_key i) s' = Inr r \<and> workspaceReceiptMatchesIntent r i"
    using inv(1) run
  proof (cases rule: BeginWorkspaceSync_cases)
    case (replay p)
    then show ?thesis by (simp add: queryWorkspaceSyncReceipt_inv [OF inv(1)])
  next
    case (fresh p d)
    then show ?thesis unfolding queryWorkspaceSyncReceipt_inv [OF st(1)] by simp
  qed
next
  fix s i t r
  assume ok: "workspace_ok s" and al: "may_sync i s" "0 \<le> (t :: int)" and q: "queryWorkspaceSyncReceipt (intent_key i) s = Inr r"
  have inv: "workspace_inv s" using ok by (simp add: workspace_ok_def)
  note run = BeginWorkspaceSync_found [OF inv al queryWorkspaceSyncReceipt_Inr(1) [OF inv q]]
  show "BeginWorkspaceSync i t s = (Inr r, s)" if "workspaceReceiptMatchesIntent r i" using run that by simp
  show "\<exists>e. BeginWorkspaceSync i t s = (Inl e, s) \<and> errors_is e ErrConflict" if "\<not> workspaceReceiptMatchesIntent r i"
    using run that by simp
qed


section \<open>Pin and finish\<close>

text \<open>How a receipt may change: only forward, and never what an earlier step fixed.\<close>

fun status_rank :: "WorkspaceSyncStatus \<Rightarrow> nat" where
  "status_rank WorkspaceSyncPending = 0"
| "status_rank WorkspaceSyncInspected = 1"
| "status_rank WorkspaceSyncPrepared = 2"

definition workspace_le :: "WorkspaceRow \<Rightarrow> WorkspaceRow \<Rightarrow> bool" where
  "workspace_le r r' \<longleftrightarrow>
     workspace_key r' = workspace_key r \<and> workspace_source r' = workspace_source r
     \<and> ws_target_device_id r' = ws_target_device_id r \<and> ws_git_url r' = ws_git_url r
     \<and> ws_source_path_digest r' = ws_source_path_digest r \<and> ws_created_at r' = ws_created_at r
     \<and> ws_updated_at r \<le> ws_updated_at r' \<and> status_rank (ws_status r) \<le> status_rank (ws_status r')
     \<and> (ws_status r \<noteq> WorkspaceSyncPending \<longrightarrow>
          Receipt_Manifest r' = Receipt_Manifest r \<and> ws_manifest_hash r' = ws_manifest_hash r)
     \<and> (ws_status r = WorkspaceSyncPrepared \<longrightarrow> Receipt_Summary r' = Receipt_Summary r)
     \<and> (ws_consumed_spawn_id r \<noteq> '''' \<longrightarrow> ws_consumed_spawn_id r' = ws_consumed_spawn_id r)"

lemma workspace_le_refl [simp]: "workspace_le r r"
  by (simp add: workspace_le_def)

lemma status_rank_simps [simp]:
  "status_rank st = 0 \<longleftrightarrow> st = WorkspaceSyncPending" "status_rank st \<le> 2" "2 \<le> status_rank st \<longleftrightarrow> st = WorkspaceSyncPrepared"
  by (cases st; simp)+

lemma workspace_le_trans:
  assumes "workspace_le a b" "workspace_le b c"
  shows "workspace_le a c"
proof -
  have "ws_status b \<noteq> WorkspaceSyncPending" if "ws_status a \<noteq> WorkspaceSyncPending"
    using assms(1) that by (cases "ws_status a"; cases "ws_status b") (auto simp: workspace_le_def)
  moreover have "ws_status b = WorkspaceSyncPrepared" if "ws_status a = WorkspaceSyncPrepared"
    using assms(1) that by (cases "ws_status b") (auto simp: workspace_le_def)
  ultimately show ?thesis using assms unfolding workspace_le_def by (metis order_trans)
qed

definition workspaces_le :: "BrokerDb \<Rightarrow> BrokerDb \<Rightarrow> bool" where
  "workspaces_le s s' \<longleftrightarrow>
     (\<forall>r \<in> set (workspace_sync_receipts s). \<exists>r' \<in> set (workspace_sync_receipts s'). workspace_le r r')"

lemma workspaces_le_refl [simp]: "workspaces_le s s"
  unfolding workspaces_le_def using workspace_le_refl by blast

lemma workspaces_le_trans: "workspaces_le a b \<Longrightarrow> workspaces_le b c \<Longrightarrow> workspaces_le a c"
  unfolding workspaces_le_def by (meson workspace_le_trans)

text \<open>An update of the row of one key that keeps it well formed and only moves it forward.\<close>

lemma update_workspace_inv:
  assumes inv: "workspace_inv s" and sel: "sel1 (workspace_at k) (workspace_sync_receipts s) = Some r"
    and ok: "workspace_row_ok s (f r)" and le: "workspace_le r (f r)"
  shows "workspace_inv (update_workspace k f s)" "workspaces_le s (update_workspace k f s)"
    "sel1 (workspace_at k) (workspace_sync_receipts (update_workspace k f s)) = Some (f r)"
proof -
  have hit: "x = r" if "x \<in> set (workspace_sync_receipts s)" "workspace_at k x" for x
    using workspace_at_unique [OF inv that] sel by simp
  have rows: "workspace_sync_receipts (update_workspace k f s) =
      upd (workspace_at k) (\<lambda>x. f r) (workspace_sync_receipts s)"
    using hit by (auto simp: update_workspace_def upd_def)
  have "map workspace_key (upd (workspace_at k) (\<lambda>x. f r) (workspace_sync_receipts s)) =
      map workspace_key (workspace_sync_receipts s)"
    using hit le by (auto simp: upd_def workspace_le_def)
  then have "uniq workspace_key (workspace_sync_receipts (update_workspace k f s))"
    using workspace_invD(1) [OF inv] by (simp add: uniq_def rows)
  moreover have "workspace_row_ok (update_workspace k f s) x" if "x \<in> set (workspace_sync_receipts (update_workspace k f s))" for x
    using that [unfolded rows] ok workspace_invD(2) [OF inv]
    by (cases rule: in_upd_cases) (auto simp: workspace_row_ok_def update_workspace_def)
  ultimately show "workspace_inv (update_workspace k f s)" by (simp add: workspace_inv_def)
  show "workspaces_le s (update_workspace k f s)"
    unfolding workspaces_le_def
  proof
    fix x assume x: "x \<in> set (workspace_sync_receipts s)"
    show "\<exists>r' \<in> set (workspace_sync_receipts (update_workspace k f s)). workspace_le x r'"
    proof (cases "workspace_at k x")
      case True
      then show ?thesis using hit [OF x] le x by (auto simp: rows set_upd)
    next
      case False
      then have "x \<in> set (workspace_sync_receipts (update_workspace k f s))" using x by (force simp: rows set_upd)
      then show ?thesis using workspace_le_refl by blast
    qed
  qed
  have "workspace_at k r" using sel1_SomeD [OF sel] by simp
  then have "workspace_at k (f r)"
    using le by (auto simp: workspace_le_def workspace_at_def workspace_key_def workspace_source_def)
  then show "sel1 (workspace_at k) (workspace_sync_receipts (update_workspace k f s)) = Some (f r)"
    using sel sel1_upd_same [of "workspace_at k" "\<lambda>x. f r"] by (simp add: rows)
qed

lemma pin_row_simps [simp]:
  "workspace_key (pin_row m h t r) = workspace_key r" "workspace_source (pin_row m h t r) = workspace_source r"
  "ws_target_device_id (pin_row m h t r) = ws_target_device_id r" "ws_git_url (pin_row m h t r) = ws_git_url r"
  "ws_source_path_digest (pin_row m h t r) = ws_source_path_digest r" "ws_created_at (pin_row m h t r) = ws_created_at r"
  "ws_updated_at (pin_row m h t r) = t" "ws_status (pin_row m h t r) = WorkspaceSyncInspected"
  "ws_manifest_hash (pin_row m h t r) = h" "ws_consumed_spawn_id (pin_row m h t r) = ws_consumed_spawn_id r"
  "ws_controller_id (pin_row m h t r) = ws_controller_id r" "ws_source_device_id (pin_row m h t r) = ws_source_device_id r"
  "ws_sync_id (pin_row m h t r) = ws_sync_id r"
  by (simp_all add: pin_row_def workspace_key_def workspace_source_def)

lemma pin_row_manifest: "ws_git_url r = wf_GitURL m \<Longrightarrow> Receipt_Manifest (pin_row m h t r) = m"
  by (simp add: pin_row_def Receipt_Manifest_def)

lemma sameWorkspaceManifest_eq: "sameWorkspaceManifest a b \<longleftrightarrow> a = b"
  by (cases a; cases b) (auto simp: sameWorkspaceManifest_def)

lemma sameWorkspaceSummary_eq: "sameWorkspaceSummary a b \<longleftrightarrow> a = b"
  by (cases a; cases b) (auto simp: sameWorkspaceSummary_def)

lemma PinWorkspaceSyncManifest_cases:
  assumes "workspace_inv s" "PinWorkspaceSyncManifest k m t s = (Inr r', s')"
  obtains (same) "queryWorkspaceSyncReceipt k s = Inr r'" "ws_status r' \<noteq> WorkspaceSyncPending" "Receipt_Manifest r' = m"
      "WorkspaceManifestHash m = Inr (ws_manifest_hash r')" "s' = s"
  | (pinned) r h where "queryWorkspaceSyncReceipt k s = Inr r" "ws_status r = WorkspaceSyncPending" "ws_git_url r = wf_GitURL m"
      "WorkspaceManifestHash m = Inr h" "ws_created_at r \<le> t" "r' = pin_row m h t r" "s' = update_workspace k (pin_row m h t) s"
proof -
  obtain h where h: "WorkspaceManifestHash m = Inr h" and tx: "PinWorkspaceSyncManifest_tx k m h t s = Inr (r', s')"
    using assms(2) by (auto simp: PinWorkspaceSyncManifest_def split: option.splits sum.splits)
  obtain r where q: "queryWorkspaceSyncReceipt k s = Inr r"
    using tx unfolding PinWorkspaceSyncManifest_tx_def by (rule tx_bind_queryE)
  note tx' = tx [unfolded PinWorkspaceSyncManifest_tx_def tx_bind_query(1) [of "queryWorkspaceSyncReceipt k", OF q]]
  show thesis
  proof (cases "ws_status r = WorkspaceSyncPending")
    case True
    then show thesis using pinned [OF q True _ h] tx' by (auto split: if_splits)
  next
    case False
    then show thesis using same q h tx' by (auto simp: sameWorkspaceManifest_eq split: if_splits)
  qed
qed

lemma PinWorkspaceSyncManifest_inv:
  assumes "workspace_inv s" "PinWorkspaceSyncManifest k m t s = (Inr r', s')"
  shows "workspace_inv s' \<and> workspaces_le s s' \<and> queryWorkspaceSyncReceipt k s' = Inr r'
    \<and> Receipt_Manifest r' = m \<and> ws_status r' \<noteq> WorkspaceSyncPending"
  using assms
proof (cases rule: PinWorkspaceSyncManifest_cases)
  case same
  then show ?thesis using assms(1) by simp
next
  case (pinned r h)
  note r = queryWorkspaceSyncReceipt_Inr [OF assms(1) pinned(1)]
  have h: "WorkspaceManifest_Validate m = None" "WorkspaceManifestHash m = Inr h" using pinned(4) by (auto simp: WorkspaceManifestHash_Inr)
  have man: "Receipt_Manifest (pin_row m h t r) = m" by (rule pin_row_manifest [OF pinned(3)])
  have chk: "receipt_check (pin_row m h t r) = None"
    using h r(4) by (simp add: receipt_check_None man workspace_row_ok_def)
  have le: "workspace_le r (pin_row m h t r)" and ok: "workspace_row_ok s (pin_row m h t r)"
    using pinned(2,5) r(4) chk by (simp_all add: workspace_le_def workspace_row_ok_def)
  note up = update_workspace_inv [where f = "pin_row m h t", OF assms(1) r(1) ok le]
  have "queryWorkspaceSyncReceipt k s' = Inr r'"
    unfolding pinned(7) queryWorkspaceSyncReceipt_inv [OF up(1)] up(3) by (simp add: pinned(6))
  then show ?thesis using up(1,2) man by (simp add: pinned(6,7))
qed


lemma finish_row_simps [simp]:
  "workspace_key (finish_row m t r) = workspace_key r" "workspace_source (finish_row m t r) = workspace_source r"
  "ws_target_device_id (finish_row m t r) = ws_target_device_id r" "ws_git_url (finish_row m t r) = ws_git_url r"
  "ws_source_path_digest (finish_row m t r) = ws_source_path_digest r" "ws_created_at (finish_row m t r) = ws_created_at r"
  "ws_updated_at (finish_row m t r) = t" "ws_status (finish_row m t r) = WorkspaceSyncPrepared"
  "ws_manifest_hash (finish_row m t r) = wsum_ManifestHash m" "ws_consumed_spawn_id (finish_row m t r) = ws_consumed_spawn_id r"
  "ws_controller_id (finish_row m t r) = ws_controller_id r" "ws_source_device_id (finish_row m t r) = ws_source_device_id r"
  "ws_sync_id (finish_row m t r) = ws_sync_id r" "ws_strategy (finish_row m t r) = wsum_Strategy m"
  "ws_warnings (finish_row m t r) = wsum_Warnings m" "ws_source_warnings (finish_row m t r) = ws_source_warnings r"
  by (simp_all add: finish_row_def workspace_key_def workspace_source_def)

text \<open>The receipt a summary is accepted for, field by field.\<close>

definition summary_agrees :: "WorkspaceSummary \<Rightarrow> WorkspaceRow \<Rightarrow> bool" where
  "summary_agrees m r \<longleftrightarrow>
     WorkspaceWarningsForStrategy (ws_source_warnings r) (wsum_Strategy m) = Inr (wsum_Warnings m)
     \<and> ws_manifest_hash r = wsum_ManifestHash m \<and> ws_head_oid r = wsum_HeadOID m
     \<and> ws_object_format r = wsum_ObjectFormat m \<and> ws_working_directory r = wsum_WorkingDirectory m
     \<and> ws_source_device_id r = wsum_SourceDeviceID m \<and> ws_target_device_id r = wsum_TargetDeviceID m"

lemma finish_row_agrees:
  assumes "summary_agrees m r" "wsum_WorkspaceID m = ws_sync_id r"
  shows "Receipt_Manifest (finish_row m t r) = Receipt_Manifest r" "Receipt_Summary (finish_row m t r) = m"
  using assms by (simp_all add: summary_agrees_def finish_row_def Receipt_Manifest_def Receipt_Summary_def)

lemma FinishWorkspaceSync_cases:
  assumes "workspace_inv s" "FinishWorkspaceSync k m t s = (Inr r', s')"
  obtains (same) "queryWorkspaceSyncReceipt k s = Inr r'" "ws_status r' = WorkspaceSyncPrepared" "Receipt_Summary r' = m"
      "s' = s"
  | (finished) r where "queryWorkspaceSyncReceipt k s = Inr r" "ws_status r = WorkspaceSyncInspected" "summary_agrees m r"
      "ws_updated_at r \<le> t" "WorkspaceSummary_Validate m = None" "wsum_WorkspaceID m = wk_SyncID k"
      "r' = finish_row m t r" "s' = update_workspace k (finish_row m t) s"
proof -
  have val: "WorkspaceSummary_Validate m = None" "wsum_WorkspaceID m = wk_SyncID k"
    and tx: "FinishWorkspaceSync_tx k m t s = Inr (r', s')"
    using assms(2) by (simp_all add: FinishWorkspaceSync_def)
  obtain r where q: "queryWorkspaceSyncReceipt k s = Inr r"
    using tx unfolding FinishWorkspaceSync_tx_def by (rule tx_bind_queryE)
  note tx' = tx [unfolded FinishWorkspaceSync_tx_def tx_bind_query(1) [of "queryWorkspaceSyncReceipt k", OF q]]
  show thesis
  proof (cases "ws_status r = WorkspaceSyncPrepared")
    case True
    then show thesis using same q tx' by (auto simp: sameWorkspaceSummary_eq split: if_splits)
  next
    case False
    then show thesis
      using finished [OF q _ _ _ val] tx' by (auto simp: summary_agrees_def split: if_splits)
  qed
qed

lemma FinishWorkspaceSync_inv:
  assumes "workspace_inv s" "FinishWorkspaceSync k m t s = (Inr r', s')"
  shows "workspace_inv s' \<and> workspaces_le s s' \<and> queryWorkspaceSyncReceipt k s' = Inr r'
    \<and> Receipt_Summary r' = m \<and> ws_status r' = WorkspaceSyncPrepared"
  using assms
proof (cases rule: FinishWorkspaceSync_cases)
  case same
  then show ?thesis using assms(1) by simp
next
  case (finished r)
  note r = queryWorkspaceSyncReceipt_Inr [OF assms(1) finished(1)]
  have id: "wsum_WorkspaceID m = ws_sync_id r" using finished(6) r(3) by (simp add: workspace_at_def)
  note ag = finish_row_agrees [OF finished(3) id]
  have old: "receipt_check r = None" using r(4) by (simp add: workspace_row_ok_def)
  have chk: "receipt_check (finish_row m t r) = None"
    using old finished(2,3,5) unfolding receipt_check_None ag by (simp add: summary_agrees_def)
  have le: "workspace_le r (finish_row m t r)" and ok: "workspace_row_ok s (finish_row m t r)"
    using finished(2,3,4) r(4) chk ag by (simp_all add: workspace_le_def workspace_row_ok_def summary_agrees_def)
  note up = update_workspace_inv [where f = "finish_row m t", OF assms(1) r(1) ok le]
  have "queryWorkspaceSyncReceipt k s' = Inr r'"
    unfolding finished(8) queryWorkspaceSyncReceipt_inv [OF up(1)] up(3) by (simp add: finished(7))
  then show ?thesis using up(1,2) ag by (simp add: finished(7,8))
qed

text \<open>The steps of workspace syncs, whatever their arguments and answers.\<close>

inductive workspace_step :: "BrokerDb \<Rightarrow> BrokerDb \<Rightarrow> bool" where
  begin_sync: "workspace_step s (snd (BeginWorkspaceSync i t s))"
| pin_sync: "workspace_step s (snd (PinWorkspaceSyncManifest k m t s))"
| finish_sync: "workspace_step s (snd (FinishWorkspaceSync k sm t s))"

text \<open>What such a step does to the rest of the state: nothing.\<close>

definition but_workspaces :: "BrokerDb \<Rightarrow> BrokerDb" where
  "but_workspaces s = s\<lparr>workspace_sync_receipts := []\<rparr>"

lemma but_workspaces_simps [simp]:
  "but_workspaces (s\<lparr>workspace_sync_receipts := x\<rparr>) = but_workspaces s"
  "but_workspaces (update_workspace k f s) = but_workspaces s"
  by (simp_all add: but_workspaces_def update_workspace_def)

lemma workspace_tx_frame:
  "tx_preserves but_workspaces (BeginWorkspaceSync_tx i t)"
  "tx_preserves but_workspaces (PinWorkspaceSyncManifest_tx k m h t)"
  "tx_preserves but_workspaces (FinishWorkspaceSync_tx k sm t)"
  unfolding BeginWorkspaceSync_tx_def PinWorkspaceSyncManifest_tx_def FinishWorkspaceSync_tx_def
  by (intro tx_frame; simp)+

lemma workspace_step_frame: "workspace_step s s' \<Longrightarrow> but_workspaces s' = but_workspaces s"
proof (induction rule: workspace_step.induct)
  case (pin_sync s k m t)
  show ?case
    using guard_tx_preserves [OF workspace_tx_frame(2)]
    by (simp add: PinWorkspaceSyncManifest_def split: option.split sum.split)
qed (simp_all add: BeginWorkspaceSync_def FinishWorkspaceSync_def guard_tx_preserves workspace_tx_frame)

lemma but_workspaces_field:
  assumes "but_workspaces s' = but_workspaces s" "\<And>s x. g (s\<lparr>workspace_sync_receipts := x\<rparr>) = g s"
  shows "g s' = g s"
  using assms unfolding but_workspaces_def by metis

lemma but_workspacesD:
  assumes "but_workspaces s' = but_workspaces s"
  shows "trees s' = trees s" "principals s' = principals s" "devices s' = devices s"
    "controller_registries s' = controller_registries s" "mailboxes s' = mailboxes s"
    "mailbox_receipts s' = mailbox_receipts s" "mailbox_messages s' = mailbox_messages s"
    "agent_spawn_receipts s' = agent_spawn_receipts s" "agent_operation_receipts s' = agent_operation_receipts s"
    "peer_worker_sync_cursors s' = peer_worker_sync_cursors s" "agent_lifecycle_states s' = agent_lifecycle_states s"
    "controller_lifetime_counters s' = controller_lifetime_counters s" "credentials s' = credentials s"
    "device_worker_readiness s' = device_worker_readiness s" "broker_metadata s' = broker_metadata s"
  by (rule but_workspaces_field [OF assms], simp)+

lemma workspace_step_ok:
  assumes "workspace_step s s'" "workspace_inv s" "trees_inv s"
  shows "workspace_inv s' \<and> trees_inv s' \<and> workspaces_le s s'"
proof -
  have fr: "trees_inv s'"
    using trees_inv_cong [OF but_workspacesD(1,2) [OF workspace_step_frame [OF assms(1)]]] assms(3) by simp
  have "workspace_inv s' \<and> workspaces_le s s'"
    using assms(1)
  proof cases
    case (begin_sync i t)
    then show ?thesis
      unfolding begin_sync BeginWorkspaceSync_def
    proof (intro guard_tx_state [where P = "\<lambda>s'. workspace_inv s' \<and> workspaces_le s s'"])
      fix r s1
      assume "guard_tx (first_err [validateWorkspaceSyncIntent i, unixTime t ''createdAt'']) (BeginWorkspaceSync_tx i t) s = (Inr r, s1)"
      then have run: "BeginWorkspaceSync i t s = (Inr r, s1)" by (simp add: BeginWorkspaceSync_def)
      have "workspaces_le s s1"
        using assms(2) run
        by (cases rule: BeginWorkspaceSync_cases) (auto simp: workspaces_le_def intro: workspace_le_refl)
      then show "workspace_inv s1 \<and> workspaces_le s s1" using BeginWorkspaceSync_inv(1) [OF assms(2,3) run] by simp
    qed (use assms in simp)
  next
    case (pin_sync k m t)
    show ?thesis
    proof (cases "PinWorkspaceSyncManifest k m t s")
      case (Pair x s1)
      show ?thesis
      proof (cases x)
        case (Inl e)
        then have "s1 = s" using Pair by (auto simp: PinWorkspaceSyncManifest_def split: option.splits sum.splits)
        then show ?thesis using pin_sync Pair assms(2) by simp
      next
        case (Inr r)
        then show ?thesis using PinWorkspaceSyncManifest_inv [OF assms(2)] pin_sync Pair by simp
      qed
    qed
  next
    case (finish_sync k sm t)
    show ?thesis
      unfolding finish_sync FinishWorkspaceSync_def
      by (rule guard_tx_state [where P = "\<lambda>s'. workspace_inv s' \<and> workspaces_le s s'"])
        (use assms(2) FinishWorkspaceSync_inv [OF assms(2)] in \<open>auto simp: FinishWorkspaceSync_def\<close>)
  qed
  with fr show ?thesis by simp
qed

end
