(* ===== verification/Spawn.thy ===== *)
theory Spawn
  imports Workspace_Inv
begin

text \<open>
  Spawning agents: \<^verbatim>\<open>internal/store/agent_spawn.go\<close>, and the lifetime counters of
  \<^verbatim>\<open>internal/store/status.go\<close> it advances. A spawn reserves the next agent number of its tree, creates
  the worker's principal and consumes the prepared workspace it names, in one transaction; it is
  finished once, as started or failed. Joined tables have the joined columns as primary key, so a
  JOIN is a lookup of the one row.
\<close>

record AgentSpawnIntent =
  si_Source :: PrincipalIdentity
  si_SpawnID :: string
  si_AgentID :: string
  si_TargetDeviceID :: string
  si_TaskName :: string
  si_PromptDigest :: string
  si_WorkspaceID :: string

record AgentSpawnKey =
  sk_ControllerID :: string
  sk_TreeID :: string
  sk_SourceAgentID :: string
  sk_SpawnID :: string

record AgentSpawnReceipt =
  sr_Agent :: AgentSummary
  sr_PromptDigest :: string
  sr_CreatedAt :: int
  sr_UpdatedAt :: int

record AgentLifecycleRecord =
  al_TargetRevision :: nat
  al_Phase :: WorkerLifecyclePhase
  al_FailureCode :: string
  al_ObservedAt :: int

record AgentCurrentRecord =
  ac_Spawn :: AgentSummary
  ac_Lifecycle :: "AgentLifecycleRecord option"

record AgentPage =
  ap_Agents :: "AgentCurrentRecord list"
  ap_NextSequence :: nat

definition AgentSpawnKey_Validate :: "AgentSpawnKey \<Rightarrow> err" where
  "AgentSpawnKey_Validate k = first_err
     [wrap ''controllerId'' (ValidateID (sk_ControllerID k)), wrap ''treeId'' (ValidateID (sk_TreeID k)),
      wrap ''sourceAgentId'' (ValidateID (sk_SourceAgentID k)), wrap ''spawnId'' (ValidateID (sk_SpawnID k))]"

definition validateAgentSpawnIntent :: "AgentSpawnIntent \<Rightarrow> err" where
  "validateAgentSpawnIntent i = first_err
     [wrap ''source'' (PrincipalIdentity_Validate (si_Source i)),
      wrap ''spawnId'' (ValidateID (si_SpawnID i)), wrap ''agentId'' (ValidateID (si_AgentID i)),
      wrap ''targetDeviceId'' (ValidateID (si_TargetDeviceID i)),
      (if si_WorkspaceID i \<noteq> '''' then wrap ''workspaceId'' (ValidateID (si_WorkspaceID i)) else None),
      ValidateAgentTaskName (si_TaskName i)]"

definition receiptMatchesIntent :: "AgentSpawnReceipt \<Rightarrow> AgentSpawnIntent \<Rightarrow> bool" where
  "receiptMatchesIntent receipt i \<longleftrightarrow>
     (let a = sr_Agent receipt in
      as_SpawnID a = si_SpawnID i
      \<and> pi_ControllerID (as_Principal a) = pi_ControllerID (si_Source i)
      \<and> pi_TreeID (as_Principal a) = pi_TreeID (si_Source i)
      \<and> pi_ParentAgentID (as_Principal a) = pi_AgentID (si_Source i)
      \<and> pi_DeviceID (as_Principal a) = si_TargetDeviceID i
      \<and> as_TaskName a = si_TaskName i \<and> as_WorkspaceID a = si_WorkspaceID i
      \<and> sr_PromptDigest receipt = si_PromptDigest i)"

section \<open>Reading receipts\<close>

definition spawn_at :: "AgentSpawnKey \<Rightarrow> SpawnRow \<Rightarrow> bool" where
  "spawn_at k r \<longleftrightarrow>
     sp_controller_id r = sk_ControllerID k \<and> sp_tree_id r = sk_TreeID k
     \<and> sp_source_agent_id r = sk_SourceAgentID k \<and> sp_spawn_id r = sk_SpawnID k"

definition agentSpawnSelect :: "(SpawnRow \<Rightarrow> bool) \<Rightarrow> BrokerDb \<Rightarrow> (SpawnRow \<times> PrincipalRow) option" where
  "agentSpawnSelect P s =
     (case sel1 P (agent_spawn_receipts s) of
        None \<Rightarrow> None
      | Some r \<Rightarrow>
          map_option (Pair r) (sel1 (principal_at (sp_controller_id r) (sp_tree_id r) (sp_agent_id r)) (principals s)))"

definition summary_of :: "SpawnRow \<Rightarrow> PrincipalRow \<Rightarrow> AgentSummary" where
  "summary_of r p =
     \<lparr>as_SpawnID = sp_spawn_id r, as_Principal = identity_of p, as_TaskName = sp_task_name r,
      as_SpawnStatus = sp_status r, as_SpawnFailureCode = sp_failure_code r,
      as_WorkspaceID = sp_workspace_id r, as_Sequence = nat (sp_sequence r)\<rparr>"

definition stored_spawn_check :: "SpawnRow \<Rightarrow> PrincipalRow \<Rightarrow> err" where
  "stored_spawn_check r p = first_err
     [fail_if (sp_sequence r < 0) (Plain ''load agent spawn receipt''),
      fail_if (length (sp_prompt_digest r) \<noteq> 32) (Plain ''stored agent prompt digest is invalid''),
      fail_if (sp_target_device_id r \<noteq> pr_device_id p)
        (Plain ''stored agent target device does not match its principal''),
      wrap ''stored agent spawn receipt is invalid'' (AgentSummary_Validate (summary_of r p)),
      fail_if (sp_created_at r < 0 \<or> sp_updated_at r < sp_created_at r)
        (Plain ''stored agent spawn timestamps are invalid'')]"

definition scanAgentSpawnReceipt :: "(SpawnRow \<times> PrincipalRow) option \<Rightarrow> AgentSpawnReceipt result" where
  "scanAgentSpawnReceipt row =
     (case row of
        None \<Rightarrow> Inl (Sentinel ErrNotFound)
      | Some (r, p) \<Rightarrow>
          guard_res (stored_spawn_check r p)
            (Inr \<lparr>sr_Agent = summary_of r p, sr_PromptDigest = sp_prompt_digest r,
                  sr_CreatedAt = sp_created_at r, sr_UpdatedAt = sp_updated_at r\<rparr>))"

definition queryAgentSpawnReceipt :: "AgentSpawnKey \<Rightarrow> BrokerDb \<Rightarrow> AgentSpawnReceipt result" where
  "queryAgentSpawnReceipt key s = scanAgentSpawnReceipt (agentSpawnSelect (spawn_at key) s)"

section \<open>Lifetime counters\<close>

record statusLifetimeCounterIncrement =
  inc_DispatchesStarted :: int
  inc_TurnsStarted :: int
  inc_ResultPackagesDelivered :: int
  inc_ResultPackagesSourceAcknowledged :: int
  inc_ResultPackagesSourceReleased :: int
  inc_ResultPackageDetailsCompacted :: int

definition no_increment :: statusLifetimeCounterIncrement where
  "no_increment =
     \<lparr>inc_DispatchesStarted = 0, inc_TurnsStarted = 0, inc_ResultPackagesDelivered = 0,
      inc_ResultPackagesSourceAcknowledged = 0, inc_ResultPackagesSourceReleased = 0,
      inc_ResultPackageDetailsCompacted = 0\<rparr>"

definition counter_row :: "string \<Rightarrow> statusLifetimeCounterIncrement \<Rightarrow> CounterRow" where
  "counter_row c i =
     \<lparr>cnt_controller_id = c, cnt_dispatches_started = inc_DispatchesStarted i,
      cnt_turns_started = inc_TurnsStarted i, cnt_result_packages_delivered = inc_ResultPackagesDelivered i,
      cnt_result_packages_source_acknowledged = inc_ResultPackagesSourceAcknowledged i,
      cnt_result_packages_source_released = inc_ResultPackagesSourceReleased i,
      cnt_result_package_details_compacted = inc_ResultPackageDetailsCompacted i\<rparr>"

definition add_counters :: "statusLifetimeCounterIncrement \<Rightarrow> CounterRow \<Rightarrow> CounterRow" where
  "add_counters i r =
     \<lparr>cnt_controller_id = cnt_controller_id r,
      cnt_dispatches_started = cnt_dispatches_started r + inc_DispatchesStarted i,
      cnt_turns_started = cnt_turns_started r + inc_TurnsStarted i,
      cnt_result_packages_delivered = cnt_result_packages_delivered r + inc_ResultPackagesDelivered i,
      cnt_result_packages_source_acknowledged =
        cnt_result_packages_source_acknowledged r + inc_ResultPackagesSourceAcknowledged i,
      cnt_result_packages_source_released =
        cnt_result_packages_source_released r + inc_ResultPackagesSourceReleased i,
      cnt_result_package_details_compacted =
        cnt_result_package_details_compacted r + inc_ResultPackageDetailsCompacted i\<rparr>"

text \<open>The columns are CHECKed to be 64-bit naturals; a sum beyond them becomes a REAL, which a STRICT
  INTEGER column refuses.\<close>

definition counters_fit :: "CounterRow \<Rightarrow> bool" where
  "counters_fit r \<longleftrightarrow>
     list_all (\<lambda>n. 0 \<le> n \<and> n \<le> MaxInt64)
       [cnt_dispatches_started r, cnt_turns_started r, cnt_result_packages_delivered r,
        cnt_result_packages_source_acknowledged r, cnt_result_packages_source_released r,
        cnt_result_package_details_compacted r]"

definition counter_at :: "string \<Rightarrow> CounterRow \<Rightarrow> bool" where
  "counter_at c r \<longleftrightarrow> cnt_controller_id r = c"

definition bump_counters :: "string \<Rightarrow> statusLifetimeCounterIncrement \<Rightarrow> CounterRow list \<Rightarrow> CounterRow list" where
  "bump_counters c inc rows =
     (case sel1 (counter_at c) rows of
        None \<Rightarrow> rows @ [counter_row c inc]
      | Some r \<Rightarrow> upd (counter_at c) (add_counters inc) rows)"

definition incrementStatusLifetimeCounters ::
    "string \<Rightarrow> statusLifetimeCounterIncrement \<Rightarrow> (BrokerDb, unit) tx" where
  "incrementStatusLifetimeCounters c inc =
     tx_insert ''increment status lifetime counters''
       (\<lambda>s. list_ex (\<lambda>r. reg_controller_id r = c) (controller_registries s)
          \<and> (case sel1 (counter_at c) (controller_lifetime_counters s) of
               None \<Rightarrow> counters_fit (counter_row c inc)
             | Some r \<Rightarrow> counters_fit (add_counters inc r)))
       (\<lambda>s. s\<lparr>controller_lifetime_counters := bump_counters c inc (controller_lifetime_counters s)\<rparr>)"

section \<open>Beginning a spawn\<close>

definition spawn_key_of :: "AgentSpawnIntent \<Rightarrow> AgentSpawnKey" where
  "spawn_key_of i =
     \<lparr>sk_ControllerID = pi_ControllerID (si_Source i), sk_TreeID = pi_TreeID (si_Source i),
      sk_SourceAgentID = pi_AgentID (si_Source i), sk_SpawnID = si_SpawnID i\<rparr>"

definition spawn_workspace_key :: "AgentSpawnIntent \<Rightarrow> WorkspaceSyncKey" where
  "spawn_workspace_key i =
     \<lparr>wk_ControllerID = pi_ControllerID (si_Source i), wk_TreeID = pi_TreeID (si_Source i),
      wk_SourceAgentID = pi_AgentID (si_Source i), wk_SyncID = si_WorkspaceID i\<rparr>"

definition spawned_principal :: "AgentSpawnIntent \<Rightarrow> Principal" where
  "spawned_principal i =
     NewWorkerPrincipal (pi_ControllerID (si_Source i)) (pi_TreeID (si_Source i)) (si_AgentID i)
       (pi_AgentID (si_Source i)) (si_TargetDeviceID i)"

definition check_spawn_workspace :: "AgentSpawnIntent \<Rightarrow> (BrokerDb, unit) tx" where
  "check_spawn_workspace i =
     (if si_WorkspaceID i = '''' then tx_ret ()
      else
        tx_bind (tx_query (\<lambda>s. case queryWorkspaceSyncReceipt (spawn_workspace_key i) s of
            Inl e \<Rightarrow> Inl (Wrapped ''spawn workspace'' e) | Inr x \<Rightarrow> Inr x)) (\<lambda>workspace.
        tx_check (fail_if
          (ws_status workspace \<noteq> WorkspaceSyncPrepared \<or> ws_target_device_id workspace \<noteq> si_TargetDeviceID i
           \<or> (ws_consumed_spawn_id workspace \<noteq> '''' \<and> ws_consumed_spawn_id workspace \<noteq> si_SpawnID i))
          (Wrapped ''workspace is not available for this spawn'' (Sentinel ErrConflict)))))"

definition task_name_taken :: "AgentSpawnIntent \<Rightarrow> BrokerDb \<Rightarrow> bool" where
  "task_name_taken i s \<longleftrightarrow>
     list_ex (\<lambda>r. sp_controller_id r = pi_ControllerID (si_Source i) \<and> sp_tree_id r = pi_TreeID (si_Source i)
                \<and> sp_source_agent_id r = pi_AgentID (si_Source i) \<and> sp_task_name r = si_TaskName i)
       (agent_spawn_receipts s)"

definition query_agent_sequence :: "AgentSpawnIntent \<Rightarrow> BrokerDb \<Rightarrow> int result" where
  "query_agent_sequence i s =
     (case sel1 (tree_at (pi_ControllerID (si_Source i)) (pi_TreeID (si_Source i))) (trees s) of
        None \<Rightarrow> Inl (Sentinel ErrNotFound)
      | Some t \<Rightarrow> if t_last_agent_sequence t < 0 then Inl (Plain ''load tree agent sequence'')
                  else Inr (t_last_agent_sequence t))"

definition new_spawn_row :: "AgentSpawnIntent \<Rightarrow> int \<Rightarrow> int \<Rightarrow> SpawnRow" where
  "new_spawn_row i seqno timestamp =
     \<lparr>sp_controller_id = pi_ControllerID (si_Source i), sp_tree_id = pi_TreeID (si_Source i),
      sp_sequence = seqno, sp_source_agent_id = pi_AgentID (si_Source i), sp_spawn_id = si_SpawnID i,
      sp_agent_id = si_AgentID i, sp_target_device_id = si_TargetDeviceID i, sp_task_name = si_TaskName i,
      sp_workspace_id = si_WorkspaceID i, sp_prompt_digest = si_PromptDigest i,
      sp_status = AgentSpawnPending, sp_failure_code = '''',
      sp_created_at = timestamp, sp_updated_at = timestamp\<rparr>"

definition spawn_insertable :: "SpawnRow \<Rightarrow> BrokerDb \<Rightarrow> bool" where
  "spawn_insertable r s \<longleftrightarrow>
     1 \<le> sp_sequence r \<and> sp_sequence r \<le> 256
     \<and> 1 \<le> length (sp_task_name r) \<and> length (sp_task_name r) \<le> 64 \<and> length (sp_prompt_digest r) = 32
     \<and> 0 \<le> sp_created_at r \<and> sp_created_at r \<le> sp_updated_at r
     \<and> list_all (\<lambda>x. \<not> (sp_controller_id x = sp_controller_id r \<and> sp_tree_id x = sp_tree_id r
          \<and> (sp_sequence x = sp_sequence r \<or> sp_agent_id x = sp_agent_id r
             \<or> sp_source_agent_id x = sp_source_agent_id r
                \<and> (sp_spawn_id x = sp_spawn_id r \<or> sp_task_name x = sp_task_name r)))) (agent_spawn_receipts s)
     \<and> list_ex (tree_at (sp_controller_id r) (sp_tree_id r)) (trees s)
     \<and> list_ex (principal_at (sp_controller_id r) (sp_tree_id r) (sp_source_agent_id r)) (principals s)
     \<and> list_ex (principal_at (sp_controller_id r) (sp_tree_id r) (sp_agent_id r)) (principals s)"

definition advance_agent_sequence :: "AgentSpawnIntent \<Rightarrow> int \<Rightarrow> int \<Rightarrow> (BrokerDb, unit) tx" where
  "advance_agent_sequence i lastSequence seqno =
     (let at = (\<lambda>t. tree_at (pi_ControllerID (si_Source i)) (pi_TreeID (si_Source i)) t
                    \<and> t_last_agent_sequence t = lastSequence)
      in tx_bind (tx_update (\<lambda>s. affected at (trees s))
           (\<lambda>s. s\<lparr>trees := upd at (\<lambda>t. t\<lparr>t_last_agent_sequence := seqno\<rparr>) (trees s)\<rparr>)) (\<lambda>n.
         tx_check (fail_if (n \<noteq> 1) (Plain ''tree agent sequence changed during spawn''))))"

definition consume_spawn_workspace :: "AgentSpawnIntent \<Rightarrow> int \<Rightarrow> (BrokerDb, unit) tx" where
  "consume_spawn_workspace i timestamp =
     (if si_WorkspaceID i = '''' then tx_ret ()
      else
        let at = (\<lambda>r. workspace_at (spawn_workspace_key i) r \<and> ws_status r = WorkspaceSyncPrepared
                      \<and> ws_consumed_spawn_id r \<in> {'''', si_SpawnID i})
        in tx_bind (tx_update (\<lambda>s. affected at (workspace_sync_receipts s))
             (\<lambda>s. s\<lparr>workspace_sync_receipts :=
                upd at (\<lambda>r. r\<lparr>ws_consumed_spawn_id := si_SpawnID i, ws_updated_at := max (ws_updated_at r) timestamp\<rparr>)
                  (workspace_sync_receipts s)\<rparr>)) (\<lambda>n.
           tx_check (fail_if (n \<noteq> 1) (Wrapped ''workspace consumption raced'' (Sentinel ErrConflict)))))"

definition new_spawn_receipt :: "AgentSpawnIntent \<Rightarrow> int \<Rightarrow> int \<Rightarrow> AgentSpawnReceipt" where
  "new_spawn_receipt i seqno timestamp =
     \<lparr>sr_Agent = \<lparr>as_SpawnID = si_SpawnID i, as_Principal = p_Identity (spawned_principal i),
                  as_TaskName = si_TaskName i, as_SpawnStatus = AgentSpawnPending, as_SpawnFailureCode = '''',
                  as_WorkspaceID = si_WorkspaceID i, as_Sequence = nat seqno\<rparr>,
      sr_PromptDigest = si_PromptDigest i, sr_CreatedAt = timestamp, sr_UpdatedAt = timestamp\<rparr>"

definition reserve_spawn :: "AgentSpawnIntent \<Rightarrow> int \<Rightarrow> int \<Rightarrow> (BrokerDb, AgentSpawnReceipt) tx" where
  "reserve_spawn i lastSequence timestamp =
     (let next = lastSequence + 1; row = new_spawn_row i next timestamp in
      tx_bind (insert_principal ''create spawned worker principal'' (principal_row (spawned_principal i) timestamp)) (\<lambda>_.
      tx_bind (tx_insert ''create agent spawn receipt'' (spawn_insertable row)
        (\<lambda>s. s\<lparr>agent_spawn_receipts := agent_spawn_receipts s @ [row]\<rparr>)) (\<lambda>_.
      tx_bind (advance_agent_sequence i lastSequence next) (\<lambda>_.
      tx_bind (consume_spawn_workspace i timestamp) (\<lambda>_.
      tx_ret (new_spawn_receipt i next timestamp))))))"

definition BeginAgentSpawn_tx :: "AgentSpawnIntent \<Rightarrow> int \<Rightarrow> (BrokerDb, AgentSpawnReceipt) tx" where
  "BeginAgentSpawn_tx i timestamp =
     tx_bind (tx_query (authorizePrincipal (si_Source i) CapabilityAgentSpawn)) (\<lambda>_.
     tx_bind (tx_query (\<lambda>s. or_not_found (queryAgentSpawnReceipt (spawn_key_of i) s))) (\<lambda>found.
     case found of
       Some receipt \<Rightarrow>
         if \<not> receiptMatchesIntent receipt i
         then tx_fail (Wrapped ''spawnId already identifies another request'' (Sentinel ErrConflict))
         else tx_ret receipt
     | None \<Rightarrow>
         tx_bind (check_spawn_workspace i) (\<lambda>_.
         tx_bind (tx_query (\<lambda>s. case queryDevice (pi_ControllerID (si_Source i)) (si_TargetDeviceID i) s of
             Inl e \<Rightarrow> Inl (Wrapped ''worker device'' e) | Inr x \<Rightarrow> Inr x)) (\<lambda>device.
         if \<not> dev_Online device
         then tx_fail (Wrapped ''worker device must be online'' (Sentinel ErrConflict))
         else
           tx_bind (tx_get (task_name_taken i)) (\<lambda>taken.
           if taken then tx_fail (Wrapped ''taskName already identifies another agent'' (Sentinel ErrConflict))
           else
             tx_bind (tx_query (query_agent_sequence i)) (\<lambda>lastSequence.
             if lastSequence \<ge> int MaximumAgentsPerTree then tx_fail (Sentinel ErrAgentLimit)
             else reserve_spawn i lastSequence timestamp))))))"

definition BeginAgentSpawn :: "AgentSpawnIntent \<Rightarrow> int \<Rightarrow> BrokerDb \<Rightarrow> AgentSpawnReceipt result \<times> BrokerDb" where
  "BeginAgentSpawn i createdAt =
     guard_tx (first_err [validateAgentSpawnIntent i, unixTime createdAt ''createdAt'']) (BeginAgentSpawn_tx i createdAt)"

section \<open>Finishing a spawn\<close>

definition requireAffectedRow :: "nat \<Rightarrow> string \<Rightarrow> err" where
  "requireAffectedRow n operation = fail_if (n = 0) (Sentinel ErrNotFound)"

definition finish_spawn_row :: "AgentSpawnStatus \<Rightarrow> string \<Rightarrow> int \<Rightarrow> SpawnRow \<Rightarrow> SpawnRow" where
  "finish_spawn_row status failureCode timestamp r =
     r\<lparr>sp_status := status, sp_failure_code := failureCode, sp_updated_at := timestamp\<rparr>"

definition finished_receipt :: "AgentSpawnStatus \<Rightarrow> string \<Rightarrow> int \<Rightarrow> AgentSpawnReceipt \<Rightarrow> AgentSpawnReceipt" where
  "finished_receipt status failureCode timestamp r =
     r\<lparr>sr_Agent := (sr_Agent r)\<lparr>as_SpawnStatus := status, as_SpawnFailureCode := failureCode\<rparr>,
       sr_UpdatedAt := timestamp\<rparr>"

definition finishAgentSpawn_tx ::
    "AgentSpawnKey \<Rightarrow> AgentSpawnStatus \<Rightarrow> string \<Rightarrow> int \<Rightarrow> (BrokerDb, AgentSpawnReceipt) tx" where
  "finishAgentSpawn_tx key status failureCode timestamp =
     tx_bind (tx_query (queryAgentSpawnReceipt key)) (\<lambda>receipt.
     if as_SpawnStatus (sr_Agent receipt) = status then
       if as_SpawnFailureCode (sr_Agent receipt) \<noteq> failureCode
       then tx_fail (Wrapped ''agent terminal result differs'' (Sentinel ErrConflict))
       else tx_ret receipt
     else if as_SpawnStatus (sr_Agent receipt) \<noteq> AgentSpawnPending
     then tx_fail (Wrapped ''agent already has a terminal result'' (Sentinel ErrConflict))
     else if timestamp < sr_CreatedAt receipt then tx_fail (Plain ''observedAt precedes agent creation'')
     else
       let at = (\<lambda>r. spawn_at key r \<and> sp_status r = as_SpawnStatus (sr_Agent receipt)) in
       tx_bind (tx_update (\<lambda>s. affected at (agent_spawn_receipts s))
         (\<lambda>s. s\<lparr>agent_spawn_receipts :=
            upd at (finish_spawn_row status failureCode timestamp) (agent_spawn_receipts s)\<rparr>)) (\<lambda>n.
       tx_bind (tx_check (requireAffectedRow n ''finish agent spawn'')) (\<lambda>_.
       tx_bind (if status = AgentSpawnStarted
                then incrementStatusLifetimeCounters (sk_ControllerID key)
                       (no_increment\<lparr>inc_DispatchesStarted := 1, inc_TurnsStarted := 1\<rparr>)
                else tx_ret ()) (\<lambda>_.
       tx_ret (finished_receipt status failureCode timestamp receipt)))))"

definition finishAgentSpawn ::
    "AgentSpawnKey \<Rightarrow> AgentSpawnStatus \<Rightarrow> string \<Rightarrow> int \<Rightarrow> BrokerDb \<Rightarrow> AgentSpawnReceipt result \<times> BrokerDb" where
  "finishAgentSpawn key status failureCode observedAt =
     guard_tx (first_err
       [AgentSpawnKey_Validate key,
        fail_if (status \<noteq> AgentSpawnStarted \<and> status \<noteq> AgentSpawnFailed)
          (Plain ''agent spawn terminal status is invalid''),
        AgentSpawnStatus_Validate status failureCode, unixTime observedAt ''observedAt''])
     (finishAgentSpawn_tx key status failureCode observedAt)"

definition MarkAgentSpawnStarted :: "AgentSpawnKey \<Rightarrow> int \<Rightarrow> BrokerDb \<Rightarrow> AgentSpawnReceipt result \<times> BrokerDb" where
  "MarkAgentSpawnStarted key observedAt = finishAgentSpawn key AgentSpawnStarted '''' observedAt"

definition MarkAgentSpawnFailed ::
    "AgentSpawnKey \<Rightarrow> string \<Rightarrow> int \<Rightarrow> BrokerDb \<Rightarrow> AgentSpawnReceipt result \<times> BrokerDb" where
  "MarkAgentSpawnFailed key failureCode observedAt = finishAgentSpawn key AgentSpawnFailed failureCode observedAt"

section \<open>Listing\<close>

definition lifecycle_at :: "string \<Rightarrow> string \<Rightarrow> string \<Rightarrow> LifecycleRow \<Rightarrow> bool" where
  "lifecycle_at c t a r \<longleftrightarrow> lc_controller_id r = c \<and> lc_tree_id r = t \<and> lc_agent_id r = a"

definition agentListSelect ::
    "string \<Rightarrow> string \<Rightarrow> nat \<Rightarrow> int \<Rightarrow> BrokerDb \<Rightarrow> (SpawnRow \<times> PrincipalRow \<times> LifecycleRow option) list" where
  "agentListSelect c t after limit s =
     take (nat limit) (sort_key (\<lambda>(r, p, l). sp_sequence r)
       (List.map_filter
          (\<lambda>r. map_option
             (\<lambda>p. (r, p, sel1 (lifecycle_at c t (sp_agent_id r)) (agent_lifecycle_states s)))
             (sel1 (principal_at c t (sp_agent_id r)) (principals s)))
          (filter (\<lambda>r. sp_controller_id r = c \<and> sp_tree_id r = t \<and> sp_sequence r > int after)
             (agent_spawn_receipts s))))"

text \<open>The lifecycle columns are NOT NULL, so the joined columns are present together or absent together.\<close>

definition scanAgentCurrentRecord ::
    "SpawnRow \<times> PrincipalRow \<times> LifecycleRow option \<Rightarrow> AgentCurrentRecord result" where
  "scanAgentCurrentRecord row =
     (case row of (r, p, l) \<Rightarrow>
        guard_res (stored_spawn_check r p)
          (case l of
             None \<Rightarrow> Inr \<lparr>ac_Spawn = summary_of r p, ac_Lifecycle = None\<rparr>
           | Some x \<Rightarrow>
               guard_res (first_err
                 [fail_if (lc_target_revision x \<le> 0 \<or> lc_observed_at x < 0)
                    (Plain ''stored agent lifecycle metadata is invalid''),
                  wrap ''stored agent lifecycle state is invalid''
                    (WorkerLifecyclePhase_Validate (lc_phase x) (lc_failure_code x))])
               (Inr \<lparr>ac_Spawn = summary_of r p,
                     ac_Lifecycle = Some \<lparr>al_TargetRevision = uint64_of_int64 (lc_target_revision x),
                       al_Phase = lc_phase x, al_FailureCode = lc_failure_code x,
                       al_ObservedAt = lc_observed_at x\<rparr>\<rparr>)))"

definition ListAgents :: "PrincipalIdentity \<Rightarrow> nat \<Rightarrow> int \<Rightarrow> BrokerDb \<Rightarrow> AgentPage result" where
  "ListAgents source afterSequence limit s =
     guard_res (first_err [wrap ''source'' (PrincipalIdentity_Validate source), ListAgentsParams_Validate afterSequence limit])
       (case authorizePrincipal source CapabilityAgentManageDescendants s of
          Inl e \<Rightarrow> Inl e
        | Inr prin \<Rightarrow>
            (case traverse scanAgentCurrentRecord
               (agentListSelect (pi_ControllerID source) (pi_TreeID source) afterSequence (limit + 1) s) of
               Inl e \<Rightarrow> Inl e
             | Inr records \<Rightarrow>
                 let agents = take (nat limit) records in
                 Inr \<lparr>ap_Agents = agents,
                      ap_NextSequence = (if int (length records) > limit then as_Sequence (ac_Spawn (last agents)) else 0)\<rparr>))"

end
