(* ===== verification/Spawn_Inv.thy ===== *)
theory Spawn_Inv
  imports Spawn
begin

text \<open>
  The spawn invariant: keys are unique, every receipt passes the checks it is read with and has its
  worker's principal, the agents of a tree are numbered from 1 without gaps in the order of their
  creation, and a workspace a spawn names is prepared on its device and consumed by it. Beginning
  a spawn is idempotent and finishing it happens once.
\<close>

definition spawn_key :: "SpawnRow \<Rightarrow> string \<times> string \<times> string \<times> string" where
  "spawn_key r = (sp_controller_id r, sp_tree_id r, sp_source_agent_id r, sp_spawn_id r)"

definition spawned_key :: "SpawnRow \<Rightarrow> string \<times> string \<times> string" where
  "spawned_key r = (sp_controller_id r, sp_tree_id r, sp_agent_id r)"

definition spawn_identity :: "SpawnRow \<Rightarrow> PrincipalIdentity" where
  "spawn_identity r =
     \<lparr>pi_ControllerID = sp_controller_id r, pi_TreeID = sp_tree_id r, pi_AgentID = sp_agent_id r,
      pi_ParentAgentID = sp_source_agent_id r, pi_DeviceID = sp_target_device_id r\<rparr>"

definition spawn_summary :: "SpawnRow \<Rightarrow> AgentSummary" where
  "spawn_summary r =
     \<lparr>as_SpawnID = sp_spawn_id r, as_Principal = spawn_identity r, as_TaskName = sp_task_name r,
      as_SpawnStatus = sp_status r, as_SpawnFailureCode = sp_failure_code r,
      as_WorkspaceID = sp_workspace_id r, as_Sequence = nat (sp_sequence r)\<rparr>"

definition spawn_receipt :: "SpawnRow \<Rightarrow> AgentSpawnReceipt" where
  "spawn_receipt r =
     \<lparr>sr_Agent = spawn_summary r, sr_PromptDigest = sp_prompt_digest r,
      sr_CreatedAt = sp_created_at r, sr_UpdatedAt = sp_updated_at r\<rparr>"

definition consumed_by :: "BrokerDb \<Rightarrow> SpawnRow \<Rightarrow> bool" where
  "consumed_by s r \<longleftrightarrow> (\<exists>w \<in> set (workspace_sync_receipts s).
     workspace_key w = (sp_controller_id r, sp_tree_id r, sp_workspace_id r)
     \<and> ws_source_agent_id w = sp_source_agent_id r \<and> ws_status w = WorkspaceSyncPrepared
     \<and> ws_target_device_id w = sp_target_device_id r \<and> ws_consumed_spawn_id w = sp_spawn_id r)"

definition spawn_row_ok :: "BrokerDb \<Rightarrow> SpawnRow \<Rightarrow> bool" where
  "spawn_row_ok s r \<longleftrightarrow>
     spawn_identity r \<in> identity_of ` set (principals s)
     \<and> AgentSummary_Validate (spawn_summary r) = None \<and> length (sp_prompt_digest r) = 32
     \<and> 0 \<le> sp_created_at r \<and> sp_created_at r \<le> sp_updated_at r
     \<and> (sp_workspace_id r \<noteq> '''' \<longrightarrow> consumed_by s r)"

definition agents_of :: "string \<Rightarrow> string \<Rightarrow> BrokerDb \<Rightarrow> SpawnRow list" where
  "agents_of c t s = filter (\<lambda>r. sp_controller_id r = c \<and> sp_tree_id r = t) (agent_spawn_receipts s)"

definition numbered :: "BrokerDb \<Rightarrow> TreeRow \<Rightarrow> bool" where
  "numbered s t \<longleftrightarrow>
     map sp_sequence (agents_of (t_controller_id t) (t_tree_id t) s) = [1..t_last_agent_sequence t]"

definition spawns_inv :: "BrokerDb \<Rightarrow> bool" where
  "spawns_inv s \<longleftrightarrow>
     uniq spawn_key (agent_spawn_receipts s) \<and> uniq spawned_key (agent_spawn_receipts s)
     \<and> (\<forall>r \<in> set (agent_spawn_receipts s). spawn_row_ok s r) \<and> (\<forall>t \<in> set (trees s). numbered s t)"

lemma spawns_invD:
  assumes "spawns_inv s"
  shows "uniq spawn_key (agent_spawn_receipts s)" "uniq spawned_key (agent_spawn_receipts s)"
    "\<And>r. r \<in> set (agent_spawn_receipts s) \<Longrightarrow> spawn_row_ok s r" "\<And>t. t \<in> set (trees s) \<Longrightarrow> numbered s t"
  using assms by (auto simp: spawns_inv_def)

lemma spawns_inv_empty: "spawns_inv schemaCurrent"
  by (simp add: spawns_inv_def)

lemma spawn_identity_simps [simp]:
  "pi_ControllerID (spawn_identity r) = sp_controller_id r" "pi_TreeID (spawn_identity r) = sp_tree_id r"
  "pi_AgentID (spawn_identity r) = sp_agent_id r" "pi_ParentAgentID (spawn_identity r) = sp_source_agent_id r"
  "pi_DeviceID (spawn_identity r) = sp_target_device_id r"
  by (simp_all add: spawn_identity_def)

lemma spawn_summary_simps [simp]:
  "as_SpawnID (spawn_summary r) = sp_spawn_id r" "as_Principal (spawn_summary r) = spawn_identity r"
  "as_TaskName (spawn_summary r) = sp_task_name r" "as_SpawnStatus (spawn_summary r) = sp_status r"
  "as_SpawnFailureCode (spawn_summary r) = sp_failure_code r" "as_WorkspaceID (spawn_summary r) = sp_workspace_id r"
  "as_Sequence (spawn_summary r) = nat (sp_sequence r)"
  by (simp_all add: spawn_summary_def)

lemma spawn_receipt_simps [simp]:
  "sr_Agent (spawn_receipt r) = spawn_summary r" "sr_PromptDigest (spawn_receipt r) = sp_prompt_digest r"
  "sr_CreatedAt (spawn_receipt r) = sp_created_at r" "sr_UpdatedAt (spawn_receipt r) = sp_updated_at r"
  by (simp_all add: spawn_receipt_def)

text \<open>It reads the spawns, and grows with principals, trees and the progress of workspace syncs.\<close>

lemma consumed_by_mono:
  assumes "consumed_by s r" "workspaces_le s s'" "sp_spawn_id r \<noteq> ''''"
  shows "consumed_by s' r"
proof -
  obtain w where w: "w \<in> set (workspace_sync_receipts s)" "workspace_key w = (sp_controller_id r, sp_tree_id r, sp_workspace_id r)"
    "ws_source_agent_id w = sp_source_agent_id r" "ws_status w = WorkspaceSyncPrepared"
    "ws_target_device_id w = sp_target_device_id r" "ws_consumed_spawn_id w = sp_spawn_id r"
    using assms(1) by (auto simp: consumed_by_def)
  obtain w' where w': "w' \<in> set (workspace_sync_receipts s')" "workspace_le w w'"
    using assms(2) w(1) by (auto simp: workspaces_le_def)
  have "ws_status w' = WorkspaceSyncPrepared"
    using w'(2) w(4) by (cases "ws_status w'") (auto simp: workspace_le_def)
  then show ?thesis
    using w w' assms(3) by (auto simp: consumed_by_def workspace_le_def workspace_source_def intro!: bexI [of _ w'])
qed

lemma spawn_row_id: "spawn_row_ok s r \<Longrightarrow> sp_spawn_id r \<noteq> '''' \<and> sp_source_agent_id r \<noteq> '''' \<and> 1 \<le> sp_sequence r \<and> sp_sequence r \<le> 256"
  by (auto simp: spawn_row_ok_def AgentSummary_Validate_def MaximumAgentsPerTree_def)

lemma spawn_row_ok_mono:
  assumes "spawn_row_ok s r" "identity_of ` set (principals s) \<subseteq> identity_of ` set (principals s')" "workspaces_le s s'"
  shows "spawn_row_ok s' r"
  using assms consumed_by_mono [OF _ assms(3), of r] spawn_row_id [OF assms(1)] by (auto simp: spawn_row_ok_def)

lemma spawns_inv_mono:
  assumes "spawns_inv s" "agent_spawn_receipts s' = agent_spawn_receipts s"
    "identity_of ` set (principals s) \<subseteq> identity_of ` set (principals s')" "workspaces_le s s'"
    "\<And>t. t \<in> set (trees s') \<Longrightarrow> numbered s' t"
  shows "spawns_inv s'"
  using assms spawn_row_ok_mono [OF _ assms(3,4)] by (auto simp: spawns_inv_def)

section \<open>Queries in a well-formed state\<close>

definition spawn_ok :: "BrokerDb \<Rightarrow> bool" where
  "spawn_ok s \<longleftrightarrow> spawns_inv s \<and> trees_inv s \<and> workspace_inv s"

lemma spawn_okD:
  assumes "spawn_ok s"
  shows "spawns_inv s" "trees_inv s" "workspace_inv s"
  using assms by (simp_all add: spawn_ok_def)

lemma spawn_principal:
  assumes "trees_inv s" "spawn_row_ok s r"
  obtains p where "sel1 (principal_at (sp_controller_id r) (sp_tree_id r) (sp_agent_id r)) (principals s) = Some p"
    "identity_of p = spawn_identity r" "p \<in> set (principals s)"
proof -
  obtain p where p: "p \<in> set (principals s)" "identity_of p = spawn_identity r"
    using assms(2) unfolding spawn_row_ok_def by (metis imageE)
  have "principal_key p = (sp_controller_id r, sp_tree_id r, sp_agent_id r)"
    using arg_cong [OF p(2), of pi_ControllerID] arg_cong [OF p(2), of pi_TreeID] arg_cong [OF p(2), of pi_AgentID]
    by (simp add: principal_key_def)
  then show thesis
    using that [OF _ p(2,1)] uniq_sel1 [OF trees_invD(3) [OF assms(1)] p(1)] by (simp add: principal_at_key)
qed

lemma stored_spawn_ok:
  assumes "spawn_row_ok s r" "identity_of p = spawn_identity r"
  shows "stored_spawn_check r p = None" "summary_of r p = spawn_summary r"
proof -
  show eq: "summary_of r p = spawn_summary r" using assms(2) by (simp add: summary_of_def spawn_summary_def)
  have "pr_device_id p = sp_target_device_id r" using arg_cong [OF assms(2), of pi_DeviceID] by simp
  then show "stored_spawn_check r p = None"
    using assms(1) eq spawn_row_id [OF assms(1)] by (simp add: stored_spawn_check_def spawn_row_ok_def)
qed

lemma agentSpawnSelect_inv:
  assumes "spawns_inv s" "trees_inv s"
  shows "scanAgentSpawnReceipt (agentSpawnSelect P s) =
    (case sel1 P (agent_spawn_receipts s) of None \<Rightarrow> Inl (Sentinel ErrNotFound) | Some r \<Rightarrow> Inr (spawn_receipt r))"
proof (cases "sel1 P (agent_spawn_receipts s)")
  case (Some r)
  then have ok: "spawn_row_ok s r" using spawns_invD(3) [OF assms(1)] sel1_SomeD by metis
  obtain p where "sel1 (principal_at (sp_controller_id r) (sp_tree_id r) (sp_agent_id r)) (principals s) = Some p"
    and p: "identity_of p = spawn_identity r"
    using spawn_principal [OF assms(2) ok] by metis
  then show ?thesis
    using Some stored_spawn_ok [OF ok p]
    by (simp add: agentSpawnSelect_def scanAgentSpawnReceipt_def spawn_receipt_def)
qed (simp add: agentSpawnSelect_def scanAgentSpawnReceipt_def)

lemma queryAgentSpawnReceipt_inv:
  assumes "spawns_inv s" "trees_inv s"
  shows "queryAgentSpawnReceipt k s =
    (case sel1 (spawn_at k) (agent_spawn_receipts s) of None \<Rightarrow> Inl (Sentinel ErrNotFound) | Some r \<Rightarrow> Inr (spawn_receipt r))"
  unfolding queryAgentSpawnReceipt_def by (rule agentSpawnSelect_inv [OF assms])

lemma spawn_at_key: "spawn_at k = (\<lambda>r. spawn_key r = (sk_ControllerID k, sk_TreeID k, sk_SourceAgentID k, sk_SpawnID k))"
  by (auto simp: spawn_at_def spawn_key_def fun_eq_iff)

lemma queryAgentSpawnReceipt_Inr:
  assumes "spawns_inv s" "trees_inv s" "queryAgentSpawnReceipt k s = Inr x"
  obtains r where "sel1 (spawn_at k) (agent_spawn_receipts s) = Some r" "x = spawn_receipt r"
    "r \<in> set (agent_spawn_receipts s)" "spawn_at k r" "spawn_row_ok s r"
proof -
  obtain r where r: "sel1 (spawn_at k) (agent_spawn_receipts s) = Some r" "x = spawn_receipt r"
    using assms(3) by (auto simp: queryAgentSpawnReceipt_inv [OF assms(1,2)] split: option.splits)
  then show thesis
    using that [OF r] sel1_SomeD [OF r(1)] spawns_invD(3) [OF assms(1)] by simp
qed

section \<open>Begin\<close>

lemma upd_conj:
  "(\<And>r. r \<in> set rows \<Longrightarrow> P r \<Longrightarrow> Q r) \<Longrightarrow> upd (\<lambda>r. P r \<and> Q r) f rows = upd P f rows"
  by (auto simp: upd_def)

lemma uniq_filter_at: "uniq key rows \<Longrightarrow> r \<in> set rows \<Longrightarrow> key r = k \<Longrightarrow> sel1 (\<lambda>x. key x = k) rows = Some r"
  using uniq_sel1 [of key rows r] by simp

definition consume_row :: "AgentSpawnIntent \<Rightarrow> int \<Rightarrow> WorkspaceRow \<Rightarrow> WorkspaceRow" where
  "consume_row i t r = r\<lparr>ws_consumed_spawn_id := si_SpawnID i, ws_updated_at := max (ws_updated_at r) t\<rparr>"

definition add_spawn :: "AgentSpawnIntent \<Rightarrow> int \<Rightarrow> int \<Rightarrow> BrokerDb \<Rightarrow> BrokerDb" where
  "add_spawn i n t s = s\<lparr>
     principals := principals s @ [principal_row (spawned_principal i) t],
     agent_spawn_receipts := agent_spawn_receipts s @ [new_spawn_row i (n + 1) t],
     trees := upd (tree_at (pi_ControllerID (si_Source i)) (pi_TreeID (si_Source i)))
       (\<lambda>x. x\<lparr>t_last_agent_sequence := n + 1\<rparr>) (trees s)\<rparr>"

definition with_spawn :: "AgentSpawnIntent \<Rightarrow> int \<Rightarrow> int \<Rightarrow> BrokerDb \<Rightarrow> BrokerDb" where
  "with_spawn i n t s =
     (if si_WorkspaceID i = '''' then add_spawn i n t s
      else update_workspace (spawn_workspace_key i) (consume_row i t) (add_spawn i n t s))"

definition workspace_available :: "AgentSpawnIntent \<Rightarrow> WorkspaceRow \<Rightarrow> bool" where
  "workspace_available i w \<longleftrightarrow>
     ws_status w = WorkspaceSyncPrepared \<and> ws_target_device_id w = si_TargetDeviceID i
     \<and> ws_consumed_spawn_id w \<in> {'''', si_SpawnID i}"

lemma check_spawn_workspace_Inr:
  assumes "workspace_inv s"
  shows "check_spawn_workspace i s = Inr (u, s') \<longleftrightarrow>
    s' = s \<and> (si_WorkspaceID i \<noteq> '''' \<longrightarrow>
      (\<exists>w. sel1 (workspace_at (spawn_workspace_key i)) (workspace_sync_receipts s) = Some w \<and> workspace_available i w))"
  by (auto simp: check_spawn_workspace_def queryWorkspaceSyncReceipt_inv [OF assms] workspace_available_def
      split: option.splits)

lemma reserve_spawn_Inr:
  assumes inv: "trees_inv s" "workspace_inv s" and tx: "reserve_spawn i n t s = Inr (r, s')"
    and tree: "sel1 (tree_at (pi_ControllerID (si_Source i)) (pi_TreeID (si_Source i))) (trees s) = Some tr"
      "t_last_agent_sequence tr = n"
    and ws: "si_WorkspaceID i \<noteq> '''' \<longrightarrow>
      (\<exists>w. sel1 (workspace_at (spawn_workspace_key i)) (workspace_sync_receipts s) = Some w \<and> workspace_available i w)"
  shows "principal_insertable (principal_row (spawned_principal i) t) s"
    "spawn_insertable (new_spawn_row i (n + 1) t) (s\<lparr>principals := principals s @ [principal_row (spawned_principal i) t]\<rparr>)"
    "r = new_spawn_receipt i (n + 1) t" "s' = with_spawn i n t s"
proof -
  let ?c = "pi_ControllerID (si_Source i)" and ?t = "pi_TreeID (si_Source i)"
  let ?s1 = "s\<lparr>principals := principals s @ [principal_row (spawned_principal i) t]\<rparr>"
  let ?s2 = "?s1\<lparr>agent_spawn_receipts := agent_spawn_receipts s @ [new_spawn_row i (n + 1) t]\<rparr>"
  show ins: "principal_insertable (principal_row (spawned_principal i) t) s" "spawn_insertable (new_spawn_row i (n + 1) t) ?s1"
    "r = new_spawn_receipt i (n + 1) t"
    using tx by (auto simp: reserve_spawn_def Let_def insert_principal_def)
  have one: "x = tr" if "x \<in> set (trees s)" "tree_at ?c ?t x" for x
    using that sel1_SomeD [OF tree(1)] uniq_same [OF trees_invD(2) [OF inv(1)]] by (auto simp: tree_at_key)
  have trs: "upd (\<lambda>x. tree_at ?c ?t x \<and> t_last_agent_sequence x = n) f (trees s) = upd (tree_at ?c ?t) f (trees s)" for f
    by (rule upd_conj) (use one tree(2) in blast)
  obtain u v s3 where s3: "advance_agent_sequence i n (n + 1) ?s2 = Inr (u, s3)" "consume_spawn_workspace i t s3 = Inr (v, s')"
    using tx by (auto simp: reserve_spawn_def Let_def insert_principal_def)
  have "s3 = add_spawn i n t s"
    using s3(1) trs by (simp add: advance_agent_sequence_def Let_def add_spawn_def)
  then have con: "consume_spawn_workspace i t (add_spawn i n t s) = Inr (v, s')" using s3(2) by simp
  show "s' = with_spawn i n t s"
  proof (cases "si_WorkspaceID i = ''''")
    case True
    then show ?thesis using con by (simp add: consume_spawn_workspace_def with_spawn_def)
  next
    case False
    obtain w where w: "sel1 (workspace_at (spawn_workspace_key i)) (workspace_sync_receipts s) = Some w" "workspace_available i w"
      using ws False by blast
    have "upd (\<lambda>r. workspace_at (spawn_workspace_key i) r \<and> ws_status r = WorkspaceSyncPrepared
        \<and> ws_consumed_spawn_id r \<in> {'''', si_SpawnID i}) f (workspace_sync_receipts s) =
      upd (workspace_at (spawn_workspace_key i)) f (workspace_sync_receipts s)" for f
      by (rule upd_conj) (use workspace_at_unique [OF inv(2)] w in \<open>auto simp: workspace_available_def\<close>)
    then show ?thesis
      using con False
      by (simp add: consume_spawn_workspace_def Let_def with_spawn_def update_workspace_def add_spawn_def consume_row_def [abs_def])
  qed
qed

lemma BeginAgentSpawn_cases:
  assumes ok: "spawn_ok s" and run: "BeginAgentSpawn i t s = (Inr x, s')"
  obtains (replay) p r where "validateAgentSpawnIntent i = None" "0 \<le> t"
      "authorizePrincipal (si_Source i) CapabilityAgentSpawn s = Inr p"
      "sel1 (spawn_at (spawn_key_of i)) (agent_spawn_receipts s) = Some r" "x = spawn_receipt r"
      "receiptMatchesIntent x i" "s' = s"
  | (fresh) p d tr where "validateAgentSpawnIntent i = None" "0 \<le> t"
      "authorizePrincipal (si_Source i) CapabilityAgentSpawn s = Inr p"
      "sel1 (spawn_at (spawn_key_of i)) (agent_spawn_receipts s) = None"
      "queryDevice (pi_ControllerID (si_Source i)) (si_TargetDeviceID i) s = Inr d" "dev_Online d"
      "\<not> task_name_taken i s"
      "sel1 (tree_at (pi_ControllerID (si_Source i)) (pi_TreeID (si_Source i))) (trees s) = Some tr"
      "t_last_agent_sequence tr < 256"
      "si_WorkspaceID i \<noteq> '''' \<longrightarrow>
        (\<exists>w. sel1 (workspace_at (spawn_workspace_key i)) (workspace_sync_receipts s) = Some w \<and> workspace_available i w)"
      "principal_insertable (principal_row (spawned_principal i) t) s"
      "spawn_insertable (new_spawn_row i (t_last_agent_sequence tr + 1) t)
         (s\<lparr>principals := principals s @ [principal_row (spawned_principal i) t]\<rparr>)"
      "x = new_spawn_receipt i (t_last_agent_sequence tr + 1) t" "s' = with_spawn i (t_last_agent_sequence tr) t s"
proof -
  note inv = spawn_okD [OF ok]
  have val: "validateAgentSpawnIntent i = None" "0 \<le> t" and tx: "BeginAgentSpawn_tx i t s = Inr (x, s')"
    using run by (simp_all add: BeginAgentSpawn_def)
  obtain p where p: "authorizePrincipal (si_Source i) CapabilityAgentSpawn s = Inr p"
    using tx unfolding BeginAgentSpawn_tx_def by (rule tx_bind_queryE)
  note tx1 = tx [unfolded BeginAgentSpawn_tx_def
      tx_bind_query(1) [of "authorizePrincipal (si_Source i) CapabilityAgentSpawn", OF p]]
  show thesis
  proof (cases "sel1 (spawn_at (spawn_key_of i)) (agent_spawn_receipts s)")
    case (Some r)
    then have q: "or_not_found (queryAgentSpawnReceipt (spawn_key_of i) s) = Inr (Some (spawn_receipt r))"
      by (simp add: queryAgentSpawnReceipt_inv [OF inv(1,2)])
    note tx2 = tx1 [unfolded tx_bind_query(1) [of "\<lambda>s. or_not_found (queryAgentSpawnReceipt (spawn_key_of i) s)", OF q]]
    then have "receiptMatchesIntent (spawn_receipt r) i" "x = spawn_receipt r" "s' = s" by (simp_all split: if_splits)
    then show thesis using replay [OF val p Some] by simp
  next
    case None
    then have q: "or_not_found (queryAgentSpawnReceipt (spawn_key_of i) s) = Inr None"
      by (simp add: queryAgentSpawnReceipt_inv [OF inv(1,2)])
    note tx2 = tx1 [unfolded tx_bind_query(1) [of "\<lambda>s. or_not_found (queryAgentSpawnReceipt (spawn_key_of i) s)", OF q], unfolded option.case]
    then obtain ws where ws: "si_WorkspaceID i \<noteq> '''' \<longrightarrow>
        (\<exists>w. sel1 (workspace_at (spawn_workspace_key i)) (workspace_sync_receipts s) = Some w \<and> workspace_available i w)"
      and d: "queryDevice (pi_ControllerID (si_Source i)) (si_TargetDeviceID i) s = Inr ws" "dev_Online ws"
      and tk: "\<not> task_name_taken i s"
      and tx3: "tx_bind (tx_query (query_agent_sequence i)) (\<lambda>lastSequence.
             if lastSequence \<ge> int MaximumAgentsPerTree then tx_fail (Sentinel ErrAgentLimit)
             else reserve_spawn i lastSequence t) s = Inr (x, s')"
      by (auto simp: check_spawn_workspace_Inr [OF inv(3)] split: sum.splits if_splits)
    then obtain tr where tr: "sel1 (tree_at (pi_ControllerID (si_Source i)) (pi_TreeID (si_Source i))) (trees s) = Some tr"
      "t_last_agent_sequence tr < 256" and rs: "reserve_spawn i (t_last_agent_sequence tr) t s = Inr (x, s')"
      by (auto simp: query_agent_sequence_def MaximumAgentsPerTree_def split: option.splits if_splits)
    note st = reserve_spawn_Inr [OF inv(2,3) rs tr(1) refl ws]
    show thesis by (rule fresh [OF val p None d tk tr ws st])
  qed
qed

text \<open>Advancing one of a tree's counters within its bounds keeps the tree invariant.\<close>

lemma tree_of_eqD:
  assumes "tree_of y = tree_of x"
  shows "t_controller_id y = t_controller_id x" "t_tree_id y = t_tree_id x" "t_external_thread_id y = t_external_thread_id x"
    "t_root_agent_id y = t_root_agent_id x" "t_root_device_id y = t_root_device_id x"
  using assms by (simp_all add: tree_of_def)

lemma trees_inv_upd:
  assumes inv: "trees_inv s" and same: "\<And>x. tree_of (f x) = tree_of x"
    and bounds: "\<And>x. x \<in> set (trees s) \<Longrightarrow> P x \<Longrightarrow>
      0 \<le> t_last_agent_sequence (f x) \<and> t_last_agent_sequence (f x) \<le> 256
      \<and> 0 \<le> t_last_lifecycle_sequence (f x) \<and> t_last_lifecycle_sequence (f x) \<le> MaxInt64"
  shows "trees_inv (s\<lparr>trees := upd P f (trees s)\<rparr>)"
proof -
  let ?s = "s\<lparr>trees := upd P f (trees s)\<rparr>"
  note eq = tree_of_eqD [OF same]
  have "tree_row_ok ?s x" if x: "x \<in> set (trees ?s)" for x
  proof -
    obtain y where y: "y \<in> set (trees s)" "x = (if P y then f y else y)"
      using x by (auto simp: set_upd)
    then show ?thesis
      using trees_invD(4) [OF inv y(1)] bounds [OF y(1)] eq [of y] same [of y] by (auto simp: tree_row_ok_def)
  qed
  moreover have "principal_row_ok ?s r" if r: "r \<in> set (principals s)" for r
  proof -
    obtain y where y: "y \<in> set (trees s)" "tree_key y = (pr_controller_id r, pr_tree_id r)"
      "pr_parent_agent_id r = '''' \<longrightarrow> t_root_agent_id y = pr_agent_id r \<and> t_root_device_id y = pr_device_id r"
      using trees_invD(5) [OF inv r] by (auto simp: principal_row_ok_def)
    have "(if P y then f y else y) \<in> set (trees ?s)" using y(1) by (auto simp: set_upd)
    moreover have "tree_key (if P y then f y else y) = (pr_controller_id r, pr_tree_id r)"
      "pr_parent_agent_id r = '''' \<longrightarrow> t_root_agent_id (if P y then f y else y) = pr_agent_id r
         \<and> t_root_device_id (if P y then f y else y) = pr_device_id r"
      using y eq [of y] by (auto simp: tree_key_def)
    ultimately show ?thesis
      using trees_invD(5) [OF inv r] unfolding principal_row_ok_def by auto
  qed
  moreover have "uniq thread_key (trees ?s)" "uniq tree_key (trees ?s)"
    using trees_invD(1,2) [OF inv] eq by (simp_all add: thread_key_def tree_key_def)
  ultimately show ?thesis using trees_invD(3) [OF inv] by (simp add: trees_inv_def)
qed

lemma spawned_principal_simps [simp]:
  "pi_ControllerID (p_Identity (spawned_principal i)) = pi_ControllerID (si_Source i)"
  "pi_TreeID (p_Identity (spawned_principal i)) = pi_TreeID (si_Source i)"
  "pi_AgentID (p_Identity (spawned_principal i)) = si_AgentID i"
  "pi_ParentAgentID (p_Identity (spawned_principal i)) = pi_AgentID (si_Source i)"
  "pi_DeviceID (p_Identity (spawned_principal i)) = si_TargetDeviceID i"
  by (simp_all add: spawned_principal_def)

lemma new_spawn_row_simps [simp]:
  "sp_controller_id (new_spawn_row i n t) = pi_ControllerID (si_Source i)" "sp_tree_id (new_spawn_row i n t) = pi_TreeID (si_Source i)"
  "sp_sequence (new_spawn_row i n t) = n" "sp_source_agent_id (new_spawn_row i n t) = pi_AgentID (si_Source i)"
  "sp_spawn_id (new_spawn_row i n t) = si_SpawnID i" "sp_agent_id (new_spawn_row i n t) = si_AgentID i"
  "sp_target_device_id (new_spawn_row i n t) = si_TargetDeviceID i" "sp_task_name (new_spawn_row i n t) = si_TaskName i"
  "sp_workspace_id (new_spawn_row i n t) = si_WorkspaceID i" "sp_prompt_digest (new_spawn_row i n t) = si_PromptDigest i"
  "sp_status (new_spawn_row i n t) = AgentSpawnPending" "sp_failure_code (new_spawn_row i n t) = ''''"
  "sp_created_at (new_spawn_row i n t) = t" "sp_updated_at (new_spawn_row i n t) = t"
  "spawn_identity (new_spawn_row i n t) = p_Identity (spawned_principal i)"
  "spawn_at (spawn_key_of i) (new_spawn_row i n t)"
  "spawn_receipt (new_spawn_row i n t) = new_spawn_receipt i n t"
  "receiptMatchesIntent (new_spawn_receipt i n t) i"
  by (simp_all add: new_spawn_row_def spawn_identity_def spawned_principal_def NewWorkerPrincipal_def spawn_at_def
      spawn_key_of_def spawn_receipt_def spawn_summary_def new_spawn_receipt_def receiptMatchesIntent_def Let_def)

lemma add_spawn_simps [simp]:
  "principals (add_spawn i n t s) = principals s @ [principal_row (spawned_principal i) t]"
  "agent_spawn_receipts (add_spawn i n t s) = agent_spawn_receipts s @ [new_spawn_row i (n + 1) t]"
  "trees (add_spawn i n t s) = upd (tree_at (pi_ControllerID (si_Source i)) (pi_TreeID (si_Source i)))
       (\<lambda>x. x\<lparr>t_last_agent_sequence := n + 1\<rparr>) (trees s)"
  "workspace_sync_receipts (add_spawn i n t s) = workspace_sync_receipts s" "devices (add_spawn i n t s) = devices s"
  by (simp_all add: add_spawn_def)

text \<open>The source exists and differs from the new agent, whose key is free.\<close>

lemma spawned_principal_valid:
  assumes val: "validateAgentSpawnIntent i = None" and inv: "trees_inv s"
    and auth: "authorizePrincipal (si_Source i) CapabilityAgentSpawn s = Inr p"
    and ins: "principal_insertable (principal_row (spawned_principal i) t) s"
  obtains q where "q \<in> set (principals s)" "identity_of q = si_Source i" "Principal_Validate (spawned_principal i) = None"
    "pi_AgentID (si_Source i) \<noteq> ''''" "pi_ParentAgentID (si_Source i) = ''''"
proof -
  obtain q where q: "q \<in> set (principals s)" "identity_of q = si_Source i" "CapabilityAgentSpawn \<in> role_capabilities (si_Source i)"
    using auth [unfolded authorizePrincipal_Inr [OF inv]] by auto
  have fields: "pr_controller_id q = pi_ControllerID (si_Source i)" "pr_tree_id q = pi_TreeID (si_Source i)"
    "pr_agent_id q = pi_AgentID (si_Source i)"
    using q(2) by (simp_all flip: identity_of_simps)
  then have "si_AgentID i \<noteq> pi_AgentID (si_Source i)"
    using ins q(1) by (auto simp: principal_insertable_def list_all_iff principal_at_def)
  then have "Principal_Validate (spawned_principal i) = None"
    using val by (auto simp: Principal_Validate_def PrincipalIdentity_Validate_def validateAgentSpawnIntent_def
        spawned_principal_def NewWorkerPrincipal_def)
  moreover have "pi_AgentID (si_Source i) \<noteq> ''''"
    using val by (auto simp: validateAgentSpawnIntent_def PrincipalIdentity_Validate_def)
  moreover have "pi_ParentAgentID (si_Source i) = ''''"
    using q(3) by (auto simp: role_capabilities_def WorkerCapabilities_def capability_defs split: if_splits)
  ultimately show thesis by (rule that [OF q(1,2)])
qed

lemma add_spawn_trees_inv:
  assumes val: "validateAgentSpawnIntent i = None" and inv: "trees_inv s"
    and auth: "authorizePrincipal (si_Source i) CapabilityAgentSpawn s = Inr p"
    and ins: "principal_insertable (principal_row (spawned_principal i) t) s" and n: "0 \<le> n" "n < 256"
  shows "trees_inv (add_spawn i n t s)"
proof -
  let ?s1 = "s\<lparr>principals := principals s @ [principal_row (spawned_principal i) t]\<rparr>"
  let ?P = "tree_at (pi_ControllerID (si_Source i)) (pi_TreeID (si_Source i))"
  obtain q where q: "q \<in> set (principals s)" "identity_of q = si_Source i" "Principal_Validate (spawned_principal i) = None"
    "pi_AgentID (si_Source i) \<noteq> ''''"
    using spawned_principal_valid [OF val inv auth ins] by metis
  have key: "principal_key q = (pi_ControllerID (si_Source i), pi_TreeID (si_Source i), pi_AgentID (si_Source i))"
    using q(2) by (simp add: principal_key_def flip: identity_of_simps)
  have "trees_inv ?s1"
    by (rule trees_inv_add_worker [OF inv ins q(3) _ q(1)]) (simp_all add: key q(4))
  then have "trees_inv (?s1\<lparr>trees := upd ?P (\<lambda>x. x\<lparr>t_last_agent_sequence := n + 1\<rparr>) (trees ?s1)\<rparr>)"
    by (rule trees_inv_upd) (use n trees_invD(4) [OF inv] in \<open>auto simp: tree_of_def tree_row_ok_def\<close>)
  then show ?thesis by (subst trees_inv_cong [of _ "?s1\<lparr>trees := upd ?P (\<lambda>x. x\<lparr>t_last_agent_sequence := n + 1\<rparr>) (trees ?s1)\<rparr>"]) simp_all
qed

lemma consume_row_simps [simp]:
  "workspace_key (consume_row i t w) = workspace_key w" "workspace_source (consume_row i t w) = workspace_source w"
  "ws_source_agent_id (consume_row i t w) = ws_source_agent_id w" "ws_status (consume_row i t w) = ws_status w"
  "ws_target_device_id (consume_row i t w) = ws_target_device_id w" "ws_consumed_spawn_id (consume_row i t w) = si_SpawnID i"
  "receipt_check (consume_row i t w) = receipt_check w"
  by (simp_all add: consume_row_def workspace_key_def workspace_source_def receipt_check_def Receipt_Manifest_def
      Receipt_Summary_def cong: WorkspaceSyncStatus.case_cong)

lemma consume_row_ok:
  assumes "workspace_row_ok s w" "workspace_available i w"
  shows "workspace_row_ok s (consume_row i t w)" "workspace_le w (consume_row i t w)"
  using assms
  by (auto simp: workspace_row_ok_def workspace_available_def workspace_le_def consume_row_def workspace_source_def
      workspace_key_def receipt_check_None Receipt_Manifest_def Receipt_Summary_def)

lemma with_spawn_workspaces:
  assumes inv: "workspace_inv s"
    and ws: "si_WorkspaceID i \<noteq> '''' \<longrightarrow>
      (\<exists>w. sel1 (workspace_at (spawn_workspace_key i)) (workspace_sync_receipts s) = Some w \<and> workspace_available i w)"
  shows "workspace_inv (with_spawn i n t s)" "workspaces_le s (with_spawn i n t s)"
    "si_WorkspaceID i \<noteq> '''' \<Longrightarrow> consumed_by (with_spawn i n t s) (new_spawn_row i (n + 1) t)"
proof -
  let ?s1 = "add_spawn i n t s"
  have inv1: "workspace_inv ?s1" by (rule workspace_inv_mono [OF inv]) auto
  have le1: "workspaces_le s ?s1" unfolding workspaces_le_def add_spawn_simps by (auto intro: workspace_le_refl)
  have "workspace_inv (with_spawn i n t s) \<and> workspaces_le s (with_spawn i n t s)
    \<and> (si_WorkspaceID i \<noteq> '''' \<longrightarrow> consumed_by (with_spawn i n t s) (new_spawn_row i (n + 1) t))"
  proof (cases "si_WorkspaceID i = ''''")
    case True
    then show ?thesis using inv1 le1 by (simp add: with_spawn_def)
  next
    case False
    then obtain w where w: "sel1 (workspace_at (spawn_workspace_key i)) (workspace_sync_receipts ?s1) = Some w"
      and av: "workspace_available i w"
      using ws by auto
    have at: "w \<in> set (workspace_sync_receipts ?s1)" "workspace_at (spawn_workspace_key i) w" using sel1_SomeD [OF w] by simp_all
    note ok = consume_row_ok [OF workspace_invD(2) [OF inv1 at(1)] av, of t]
    note up = update_workspace_inv [where f = "consume_row i t", OF inv1 w ok]
    have "consumed_by (with_spawn i n t s) (new_spawn_row i (n + 1) t)"
      unfolding consumed_by_def
      using sel1_SomeD [OF up(3)] at(2) av False
      by (intro bexI [of _ "consume_row i t w"])
        (auto simp: with_spawn_def workspace_at_def spawn_workspace_key_def workspace_key_def workspace_available_def)
    then show ?thesis using up(1) workspaces_le_trans [OF le1 up(2)] False by (simp add: with_spawn_def)
  qed
  then show "workspace_inv (with_spawn i n t s)" "workspaces_le s (with_spawn i n t s)"
    "si_WorkspaceID i \<noteq> '''' \<Longrightarrow> consumed_by (with_spawn i n t s) (new_spawn_row i (n + 1) t)"
    by simp_all
qed

lemma with_spawn_simps [simp]:
  "principals (with_spawn i n t s) = principals s @ [principal_row (spawned_principal i) t]"
  "agent_spawn_receipts (with_spawn i n t s) = agent_spawn_receipts s @ [new_spawn_row i (n + 1) t]"
  "trees (with_spawn i n t s) = upd (tree_at (pi_ControllerID (si_Source i)) (pi_TreeID (si_Source i)))
       (\<lambda>x. x\<lparr>t_last_agent_sequence := n + 1\<rparr>) (trees s)"
  by (simp_all add: with_spawn_def update_workspace_def)

lemma with_spawn_numbered:
  assumes num: "\<And>x. x \<in> set (trees s) \<Longrightarrow> numbered s x" and inv: "trees_inv s"
    and tr: "sel1 (tree_at (pi_ControllerID (si_Source i)) (pi_TreeID (si_Source i))) (trees s) = Some tr"
      "t_last_agent_sequence tr = n"
    and y: "y \<in> set (trees (with_spawn i n t s))"
  shows "numbered (with_spawn i n t s) y"
  using y unfolding with_spawn_simps
proof (cases rule: in_upd_cases)
  case same
  then show ?thesis using num [of y] by (auto simp: numbered_def agents_of_def tree_at_def)
next
  case (changed x)
  have "x = tr"
    using changed(1,2) sel1_SomeD [OF tr(1)] uniq_same [OF trees_invD(2) [OF inv]] by (auto simp: tree_at_key)
  then have "t_last_agent_sequence x = n" "0 \<le> n"
    using tr(2) trees_invD(4) [OF inv changed(1)] by (auto simp: tree_row_ok_def)
  then show ?thesis
    using num [OF changed(1)] changed(2,3) upto_rec2 [of 1 "n + 1"]
    by (simp add: numbered_def agents_of_def tree_at_def)
qed

lemma with_spawn_ok:
  assumes ok: "spawn_ok s" and val: "validateAgentSpawnIntent i = None"
    and auth: "authorizePrincipal (si_Source i) CapabilityAgentSpawn s = Inr p"
    and tr: "sel1 (tree_at (pi_ControllerID (si_Source i)) (pi_TreeID (si_Source i))) (trees s) = Some tr"
      "t_last_agent_sequence tr = n" "n < 256"
    and ws: "si_WorkspaceID i \<noteq> '''' \<longrightarrow>
      (\<exists>w. sel1 (workspace_at (spawn_workspace_key i)) (workspace_sync_receipts s) = Some w \<and> workspace_available i w)"
    and ins: "principal_insertable (principal_row (spawned_principal i) t) s"
      "spawn_insertable (new_spawn_row i (n + 1) t) (s\<lparr>principals := principals s @ [principal_row (spawned_principal i) t]\<rparr>)"
  shows "spawn_ok (with_spawn i n t s)"
proof -
  let ?s = "with_spawn i n t s" and ?r = "new_spawn_row i (n + 1) t"
  note inv = spawn_okD [OF ok] and wsp = with_spawn_workspaces [OF spawn_okD(3) [OF ok] ws]
  have n: "0 \<le> n" using trees_invD(4) [OF inv(2)] sel1_SomeD [OF tr(1)] tr(2) by (auto simp: tree_row_ok_def)
  have trees: "trees_inv ?s"
    using add_spawn_trees_inv [OF val inv(2) auth ins(1) n tr(3)] trees_inv_cong [of ?s "add_spawn i n t s"] by simp
  obtain q where q: "Principal_Validate (spawned_principal i) = None" "pi_AgentID (si_Source i) \<noteq> ''''"
    using spawned_principal_valid [OF val inv(2) auth ins(1)] by metis
  have "AgentSummary_Validate (spawn_summary ?r) = None"
    using val q n tr(3)
    by (auto simp: AgentSummary_Validate_def validateAgentSpawnIntent_def Principal_Validate_def
        AgentSpawnStatus_Validate_def MaximumAgentsPerTree_def)
  then have "spawn_row_ok ?s ?r"
    using wsp(3) ins(2) by (auto simp: spawn_row_ok_def spawn_insertable_def image_iff)
  moreover have "spawn_row_ok ?s r" if "r \<in> set (agent_spawn_receipts s)" for r
    by (rule spawn_row_ok_mono [OF spawns_invD(3) [OF inv(1) that] _ wsp(2)]) auto
  moreover have "spawn_key ?r \<notin> spawn_key ` set (agent_spawn_receipts s)" "spawned_key ?r \<notin> spawned_key ` set (agent_spawn_receipts s)"
    using ins(2) by (auto simp: spawn_insertable_def list_all_iff spawn_key_def spawned_key_def)
  ultimately have "spawns_inv ?s"
    using spawns_invD(1,2) [OF inv(1)] with_spawn_numbered [OF spawns_invD(4) [OF inv(1)] inv(2) tr(1,2)]
    unfolding spawns_inv_def with_spawn_simps(2) by auto
  then show ?thesis using trees wsp(1) by (simp add: spawn_ok_def)
qed

end
