(* ===== verification/Spawn_Steps.thy ===== *)
theory Spawn_Steps
  imports Spawn_Inv
begin

text \<open>
  What the spawn operations promise: beginning is the \<open>receipts\<close> contract, finishing the \<open>terminal\<close>
  contract, and every step keeps the spawn invariant, only ever adds agents, and counts a started
  dispatch exactly once.
\<close>

definition may_spawn :: "AgentSpawnIntent \<Rightarrow> BrokerDb \<Rightarrow> bool" where
  "may_spawn i s \<longleftrightarrow> validateAgentSpawnIntent i = None
     \<and> (\<exists>p. authorizePrincipal (si_Source i) CapabilityAgentSpawn s = Inr p)"

lemma BeginAgentSpawn_ok:
  assumes ok: "spawn_ok s" and run: "BeginAgentSpawn i t s = (Inr x, s')"
  shows "spawn_ok s'" "workspaces_le s s'" "set (principals s) \<subseteq> set (principals s')"
    "queryAgentSpawnReceipt (spawn_key_of i) s' = Inr x" "receiptMatchesIntent x i" "may_spawn i s'"
proof -
  have "spawn_ok s' \<and> workspaces_le s s' \<and> set (principals s) \<subseteq> set (principals s')
    \<and> queryAgentSpawnReceipt (spawn_key_of i) s' = Inr x \<and> receiptMatchesIntent x i \<and> may_spawn i s'"
    using ok run
  proof (cases rule: BeginAgentSpawn_cases)
    case (replay p r)
    then show ?thesis
      using ok by (simp add: queryAgentSpawnReceipt_inv [OF spawn_okD(1,2) [OF ok]] may_spawn_def)
  next
    case (fresh p d tr)
    note ok' = with_spawn_ok [OF ok fresh(1,3,8) refl fresh(9,10,11,12)]
    have auth: "\<exists>p. authorizePrincipal (si_Source i) CapabilityAgentSpawn s' = Inr p"
      unfolding authorizePrincipal_Inr [OF spawn_okD(2) [OF ok', folded fresh(14)]]
      using fresh(3) [unfolded authorizePrincipal_Inr [OF spawn_okD(2) [OF ok]]] by (auto simp: fresh(14))
    have "queryAgentSpawnReceipt (spawn_key_of i) s' = Inr x"
      unfolding fresh(14) queryAgentSpawnReceipt_inv [OF spawn_okD(1,2) [OF ok']]
      by (simp add: fresh(4,13))
    then show ?thesis
      using ok' with_spawn_workspaces(2) [OF spawn_okD(3) [OF ok] fresh(10)] auth fresh(1,13,14)
      by (simp add: may_spawn_def) blast
  qed
  then show "spawn_ok s'" "workspaces_le s s'" "set (principals s) \<subseteq> set (principals s')"
    "queryAgentSpawnReceipt (spawn_key_of i) s' = Inr x" "receiptMatchesIntent x i" "may_spawn i s'"
    by simp_all
qed

lemma BeginAgentSpawn_found:
  assumes "spawn_ok s" "may_spawn i s" "0 \<le> t" "queryAgentSpawnReceipt (spawn_key_of i) s = Inr x"
  shows "BeginAgentSpawn i t s =
    (if receiptMatchesIntent x i then (Inr x, s)
     else (Inl (Wrapped ''spawnId already identifies another request'' (Sentinel ErrConflict)), s))"
proof -
  obtain p where p: "authorizePrincipal (si_Source i) CapabilityAgentSpawn s = Inr p"
    using assms(2) by (auto simp: may_spawn_def)
  have q: "or_not_found (queryAgentSpawnReceipt (spawn_key_of i) s) = Inr (Some x)" using assms(4) by simp
  have "BeginAgentSpawn_tx i t s =
    (if receiptMatchesIntent x i then Inr (x, s)
     else Inl (Wrapped ''spawnId already identifies another request'' (Sentinel ErrConflict)))"
    unfolding BeginAgentSpawn_tx_def
      tx_bind_query(1) [of "authorizePrincipal (si_Source i) CapabilityAgentSpawn", OF p]
      tx_bind_query(1) [of "\<lambda>s. or_not_found (queryAgentSpawnReceipt (spawn_key_of i) s)", OF q]
    by (simp add: tx_ret_def tx_fail_def)
  then show ?thesis
    using assms(2,3) by (simp add: BeginAgentSpawn_def may_spawn_def withImmediateTransaction_def)
qed

interpretation spawn_receipts:
  receipts spawn_ok may_spawn BeginAgentSpawn "\<lambda>i. queryAgentSpawnReceipt (spawn_key_of i)" receiptMatchesIntent
proof
  fix s i t x s'
  assume ok: "spawn_ok s" and run: "BeginAgentSpawn i t s = (Inr x, s')"
  show "spawn_ok s'" "may_spawn i s'" by (rule BeginAgentSpawn_ok [OF ok run])+
  show "queryAgentSpawnReceipt (spawn_key_of i) s' = Inr x \<and> receiptMatchesIntent x i"
    using BeginAgentSpawn_ok(4,5) [OF ok run] by simp
next
  fix s i t x
  assume al: "spawn_ok s" "may_spawn i s" "0 \<le> (t :: int)" and q: "queryAgentSpawnReceipt (spawn_key_of i) s = Inr x"
  note run = BeginAgentSpawn_found [OF al q]
  show "BeginAgentSpawn i t s = (Inr x, s)" if "receiptMatchesIntent x i" using run that by simp
  show "\<exists>e. BeginAgentSpawn i t s = (Inl e, s) \<and> errors_is e ErrConflict" if "\<not> receiptMatchesIntent x i"
    using run that by simp
qed

section \<open>Finishing\<close>

definition dispatch_counters :: "AgentSpawnKey \<Rightarrow> AgentSpawnStatus \<Rightarrow> CounterRow list \<Rightarrow> CounterRow list" where
  "dispatch_counters k status rows =
     (if status = AgentSpawnStarted
      then bump_counters (sk_ControllerID k) (no_increment\<lparr>inc_DispatchesStarted := 1, inc_TurnsStarted := 1\<rparr>) rows
      else rows)"

definition with_finished :: "AgentSpawnKey \<Rightarrow> AgentSpawnStatus \<Rightarrow> string \<Rightarrow> int \<Rightarrow> BrokerDb \<Rightarrow> BrokerDb" where
  "with_finished k status code t s = s\<lparr>
     agent_spawn_receipts := upd (spawn_at k) (finish_spawn_row status code t) (agent_spawn_receipts s),
     controller_lifetime_counters := dispatch_counters k status (controller_lifetime_counters s)\<rparr>"

lemma finished_receipt_row:
  "finished_receipt status code t (spawn_receipt r) = spawn_receipt (finish_spawn_row status code t r)"
  by (simp add: finished_receipt_def finish_spawn_row_def spawn_receipt_def spawn_summary_def spawn_identity_def)

lemma spawn_at_unique:
  assumes "spawns_inv s" "sel1 (spawn_at k) (agent_spawn_receipts s) = Some r" "x \<in> set (agent_spawn_receipts s)" "spawn_at k x"
  shows "x = r"
  using sel1_SomeD [OF assms(2)] assms(3,4) uniq_same [OF spawns_invD(1) [OF assms(1)]] by (auto simp: spawn_at_key)

lemma finishAgentSpawn_cases:
  assumes ok: "spawn_ok s" and run: "finishAgentSpawn k status code t s = (Inr x, s')"
  obtains (same) "queryAgentSpawnReceipt k s = Inr x" "as_SpawnStatus (sr_Agent x) = status"
      "as_SpawnFailureCode (sr_Agent x) = code" "status \<noteq> AgentSpawnPending" "s' = s"
  | (finished) r where "sel1 (spawn_at k) (agent_spawn_receipts s) = Some r" "sp_status r = AgentSpawnPending"
      "sp_created_at r \<le> t" "status \<in> {AgentSpawnStarted, AgentSpawnFailed}" "AgentSpawnStatus_Validate status code = None"
      "x = spawn_receipt (finish_spawn_row status code t r)" "s' = with_finished k status code t s"
proof -
  note inv = spawn_okD [OF ok]
  have val: "status \<in> {AgentSpawnStarted, AgentSpawnFailed}" "AgentSpawnStatus_Validate status code = None"
    and tx: "finishAgentSpawn_tx k status code t s = Inr (x, s')"
    using run by (auto simp: finishAgentSpawn_def)
  obtain y where q: "queryAgentSpawnReceipt k s = Inr y"
    using tx unfolding finishAgentSpawn_tx_def by (rule tx_bind_queryE)
  note tx' = tx [unfolded finishAgentSpawn_tx_def tx_bind_query(1) [of "queryAgentSpawnReceipt k", OF q]]
  obtain r where r: "sel1 (spawn_at k) (agent_spawn_receipts s) = Some r" "y = spawn_receipt r"
    using queryAgentSpawnReceipt_Inr [OF inv(1,2) q] by metis
  show thesis
  proof (cases "sp_status r = status")
    case True
    then show thesis using same q tx' val r(2) by (auto split: if_splits)
  next
    case False
    then have pend: "sp_status r = AgentSpawnPending" "sp_created_at r \<le> t" using tx' r(2) by (auto split: if_splits)
    have "upd (\<lambda>z. spawn_at k z \<and> sp_status z = AgentSpawnPending) f (agent_spawn_receipts s) =
        upd (spawn_at k) f (agent_spawn_receipts s)" for f
      by (rule upd_conj) (use spawn_at_unique [OF inv(1) r(1)] pend(1) in blast)
    then have "x = spawn_receipt (finish_spawn_row status code t r)" "s' = with_finished k status code t s"
      using tx' pend False r(2)
      by (auto simp: Let_def finished_receipt_row with_finished_def dispatch_counters_def
          incrementStatusLifetimeCounters_def split: if_splits)
    then show thesis using finished [OF r(1) pend val] by blast
  qed
qed

lemma finish_spawn_row_simps [simp]:
  "spawn_key (finish_spawn_row st code t r) = spawn_key r" "spawned_key (finish_spawn_row st code t r) = spawned_key r"
  "spawn_identity (finish_spawn_row st code t r) = spawn_identity r" "sp_sequence (finish_spawn_row st code t r) = sp_sequence r"
  "sp_controller_id (finish_spawn_row st code t r) = sp_controller_id r" "sp_tree_id (finish_spawn_row st code t r) = sp_tree_id r"
  "sp_agent_id (finish_spawn_row st code t r) = sp_agent_id r" "sp_source_agent_id (finish_spawn_row st code t r) = sp_source_agent_id r"
  "sp_status (finish_spawn_row st code t r) = st" "sp_failure_code (finish_spawn_row st code t r) = code"
  "sp_workspace_id (finish_spawn_row st code t r) = sp_workspace_id r" "sp_prompt_digest (finish_spawn_row st code t r) = sp_prompt_digest r"
  "sp_created_at (finish_spawn_row st code t r) = sp_created_at r" "sp_updated_at (finish_spawn_row st code t r) = t"
  "sp_spawn_id (finish_spawn_row st code t r) = sp_spawn_id r" "sp_task_name (finish_spawn_row st code t r) = sp_task_name r"
  "sp_target_device_id (finish_spawn_row st code t r) = sp_target_device_id r"
  "spawn_at k (finish_spawn_row st code t r) = spawn_at k r" "consumed_by s (finish_spawn_row st code t r) = consumed_by s r"
  by (simp_all add: finish_spawn_row_def spawn_key_def spawned_key_def spawn_identity_def spawn_at_def consumed_by_def)

lemma with_finished_simps [simp]:
  "agent_spawn_receipts (with_finished k st code t s) = upd (spawn_at k) (finish_spawn_row st code t) (agent_spawn_receipts s)"
  "controller_lifetime_counters (with_finished k st code t s) = dispatch_counters k st (controller_lifetime_counters s)"
  "trees (with_finished k st code t s) = trees s" "principals (with_finished k st code t s) = principals s"
  "workspace_sync_receipts (with_finished k st code t s) = workspace_sync_receipts s"
  "devices (with_finished k st code t s) = devices s"
  by (simp_all add: with_finished_def)

lemma agents_of_upd:
  assumes "\<And>r. sp_controller_id (f r) = sp_controller_id r" "\<And>r. sp_tree_id (f r) = sp_tree_id r" "\<And>r. sp_sequence (f r) = sp_sequence r"
  shows "map sp_sequence (filter (\<lambda>r. sp_controller_id r = c \<and> sp_tree_id r = t) (upd P f rows)) =
    map sp_sequence (filter (\<lambda>r. sp_controller_id r = c \<and> sp_tree_id r = t) rows)"
  using assms by (induction rows) auto

lemma with_finished_ok:
  assumes ok: "spawn_ok s" and r: "sel1 (spawn_at k) (agent_spawn_receipts s) = Some r"
    and st: "sp_created_at r \<le> t" "AgentSpawnStatus_Validate status code = None"
  shows "spawn_ok (with_finished k status code t s)"
proof -
  let ?s = "with_finished k status code t s"
  note inv = spawn_okD [OF ok]
  have row: "spawn_row_ok ?s x" if "x \<in> set (agent_spawn_receipts ?s)" for x
    using that unfolding with_finished_simps(1)
  proof (cases rule: in_upd_cases)
    case same
    then show ?thesis
      using spawns_invD(3) [OF inv(1)] by (simp add: spawn_row_ok_def consumed_by_def)
  next
    case (changed y)
    have "y = r" by (rule spawn_at_unique [OF inv(1) r changed(1,2)])
    then show ?thesis
      using spawns_invD(3) [OF inv(1) changed(1)] st changed(3)
      by (auto simp: spawn_row_ok_def AgentSummary_Validate_def consumed_by_def)
  qed
  have num: "numbered ?s x" if "x \<in> set (trees ?s)" for x
    using spawns_invD(4) [OF inv(1)] that by (simp add: numbered_def agents_of_def agents_of_upd)
  have "spawns_inv ?s"
    using row num spawns_invD(1,2) [OF inv(1)] by (simp add: spawns_inv_def)
  moreover have "trees_inv ?s" using inv(2) trees_inv_cong [of ?s s] by simp
  moreover have "workspace_inv ?s" by (rule workspace_inv_mono [OF inv(3)]) auto
  ultimately show ?thesis by (simp add: spawn_ok_def)
qed

lemma finishAgentSpawn_ok:
  assumes ok: "spawn_ok s" and run: "finishAgentSpawn k status code t s = (Inr x, s')"
  shows "spawn_ok s'" "queryAgentSpawnReceipt k s' = Inr x" "as_SpawnStatus (sr_Agent x) = status"
    "as_SpawnFailureCode (sr_Agent x) = code" "status \<noteq> AgentSpawnPending"
proof -
  have "spawn_ok s' \<and> queryAgentSpawnReceipt k s' = Inr x \<and> as_SpawnStatus (sr_Agent x) = status
    \<and> as_SpawnFailureCode (sr_Agent x) = code \<and> status \<noteq> AgentSpawnPending"
    using ok run
  proof (cases rule: finishAgentSpawn_cases)
    case same
    then show ?thesis using ok by simp
  next
    case (finished r)
    note ok' = with_finished_ok [OF ok finished(1,3,5), folded finished(7)]
    have "sel1 (spawn_at k) (agent_spawn_receipts s') = Some (finish_spawn_row status code t r)"
      using sel1_upd_same [of "spawn_at k" "finish_spawn_row status code t"] finished(1) by (simp add: finished(7))
    then have "queryAgentSpawnReceipt k s' = Inr x"
      unfolding queryAgentSpawnReceipt_inv [OF spawn_okD(1,2) [OF ok']] by (simp add: finished(6))
    then show ?thesis using ok' finished(4) by (auto simp: finished(6))
  qed
  then show "spawn_ok s'" "queryAgentSpawnReceipt k s' = Inr x" "as_SpawnStatus (sr_Agent x) = status"
    "as_SpawnFailureCode (sr_Agent x) = code" "status \<noteq> AgentSpawnPending"
    by simp_all
qed

interpretation spawn_terminal:
  terminal spawn_ok "\<lambda>k out. finishAgentSpawn k (fst out) (snd out)" queryAgentSpawnReceipt
    "\<lambda>x. (as_SpawnStatus (sr_Agent x), as_SpawnFailureCode (sr_Agent x))"
    "\<lambda>x. as_SpawnStatus (sr_Agent x) \<noteq> AgentSpawnPending"
proof
  fix s k out t x s'
  assume run: "spawn_ok s" "finishAgentSpawn k (fst out) (snd out) t s = (Inr x, s')"
  show "spawn_ok s'" by (rule finishAgentSpawn_ok(1) [OF run])
  show "queryAgentSpawnReceipt k s' = Inr x \<and> (as_SpawnStatus (sr_Agent x), as_SpawnFailureCode (sr_Agent x)) = out
    \<and> as_SpawnStatus (sr_Agent x) \<noteq> AgentSpawnPending"
    using finishAgentSpawn_ok [OF run] by simp
next
  fix s k x out t x' s'
  assume ok: "spawn_ok s" and q: "queryAgentSpawnReceipt k s = Inr x" "as_SpawnStatus (sr_Agent x) \<noteq> AgentSpawnPending"
    and run: "finishAgentSpawn k (fst out) (snd out) t s = (Inr x', s')"
  show "x' = x \<and> s' = s \<and> (as_SpawnStatus (sr_Agent x), as_SpawnFailureCode (sr_Agent x)) = out"
    using ok run
  proof (cases rule: finishAgentSpawn_cases)
    case same
    then show ?thesis using q by auto
  next
    case (finished r)
    then show ?thesis using q by (auto simp: queryAgentSpawnReceipt_inv [OF spawn_okD(1,2) [OF ok]])
  qed
qed

section \<open>Counting dispatches\<close>

definition counter_value :: "(CounterRow \<Rightarrow> int) \<Rightarrow> string \<Rightarrow> CounterRow list \<Rightarrow> int" where
  "counter_value f c rows = (case sel1 (counter_at c) rows of None \<Rightarrow> 0 | Some r \<Rightarrow> f r)"

lemma counter_at_simps [simp]:
  "counter_at c (counter_row c' inc) \<longleftrightarrow> c' = c" "counter_at c (add_counters inc r) = counter_at c r"
  by (simp_all add: counter_at_def counter_row_def add_counters_def)

lemma sel1_bump:
  "sel1 (counter_at c) (bump_counters c' inc rows) =
     (if c = c' then Some (case sel1 (counter_at c) rows of None \<Rightarrow> counter_row c inc | Some r \<Rightarrow> add_counters inc r)
      else sel1 (counter_at c) rows)"
proof (cases "sel1 (counter_at c') rows")
  case None
  then show ?thesis by (auto simp: bump_counters_def sel1_append split: option.splits)
next
  case (Some r)
  have "sel1 (counter_at c) (upd (counter_at c') (add_counters inc) rows) =
      map_option (\<lambda>r. if counter_at c' r then add_counters inc r else r) (sel1 (counter_at c) rows)"
    by (rule sel1_upd) simp
  then show ?thesis
    using Some sel1_SomeD [of "counter_at c" rows]
    by (cases "sel1 (counter_at c) rows") (auto simp: bump_counters_def counter_at_def)
qed

lemma counter_value_bump:
  "counter_value cnt_dispatches_started c (bump_counters c' inc rows) =
     counter_value cnt_dispatches_started c rows + (if c = c' then inc_DispatchesStarted inc else 0)"
  "counter_value cnt_turns_started c (bump_counters c' inc rows) =
     counter_value cnt_turns_started c rows + (if c = c' then inc_TurnsStarted inc else 0)"
  by (auto simp: counter_value_def sel1_bump counter_row_def add_counters_def split: option.splits)

lemma count_upd:
  assumes "sel1 Q rows = Some r" "distinct rows" "\<And>x. x \<in> set rows \<Longrightarrow> Q x \<Longrightarrow> x = r"
  shows "length (filter P (upd Q f rows)) + (if P r then 1 else 0) = length (filter P rows) + (if P (f r) then 1 else 0)"
  using assms
proof (induction rows)
  case (Cons a rows)
  show ?case
  proof (cases "Q a")
    case True
    then have "a = r" using Cons.prems(3) by simp
    moreover have "\<not> Q x" if "x \<in> set rows" for x
      using Cons.prems(2) Cons.prems(3) [of x] that \<open>a = r\<close> by auto
    then have "upd Q f rows = rows" by (simp add: upd_def map_idI)
    ultimately show ?thesis using True by simp
  next
    case False
    then have "length (filter P (upd Q f rows)) + (if P r then 1 else 0) = length (filter P rows) + (if P (f r) then 1 else 0)"
      using Cons by simp
    then show ?thesis using False by auto
  qed
qed simp

definition started_dispatches :: "string \<Rightarrow> BrokerDb \<Rightarrow> int" where
  "started_dispatches c s =
     int (length (filter (\<lambda>r. sp_controller_id r = c \<and> sp_status r = AgentSpawnStarted) (agent_spawn_receipts s)))"

lemma uniq_distinct: "uniq key rows \<Longrightarrow> distinct rows"
  by (simp add: uniq_def distinct_map)

lemma with_finished_counts:
  assumes ok: "spawn_ok s" and r: "sel1 (spawn_at k) (agent_spawn_receipts s) = Some r" "sp_status r = AgentSpawnPending"
  shows "started_dispatches c (with_finished k status code t s) =
    started_dispatches c s + (if status = AgentSpawnStarted \<and> c = sk_ControllerID k then 1 else 0)"
  using count_upd [OF r(1) uniq_distinct [OF spawns_invD(1) [OF spawn_okD(1) [OF ok]]] spawn_at_unique [OF spawn_okD(1) [OF ok] r(1)],
      of "\<lambda>r. sp_controller_id r = c \<and> sp_status r = AgentSpawnStarted" "finish_spawn_row status code t"]
    sel1_SomeD [OF r(1)] r(2)
  by (auto simp: started_dispatches_def spawn_at_def split: if_splits)

end
