(* ===== verification/Mailbox.thy ===== *)
theory Mailbox
  imports Trees_Inv "HOL-Library.Multiset"
begin

text \<open>
  Mailboxes: \<^verbatim>\<open>internal/store/mailbox.go\<close>. A recipient has one mailbox row with the last sequence
  it handed out, the pending messages, and a bounded window of receipts that make sending
  idempotent. Reading with a cursor acknowledges everything up to it.
\<close>

definition maximumPendingMailboxMessages :: nat where "maximumPendingMailboxMessages = 1024"
definition maximumMailboxReceipts :: nat where "maximumMailboxReceipts = 2 * maximumPendingMailboxMessages"

record MailboxDelivery =
  md_RecipientAgentID :: string
  md_MessageID :: string
  md_Sequence :: nat

record WaitMailboxResult =
  wm_Messages :: "MailboxMessage list"
  wm_NextCursor :: nat

definition mailbox_at :: "string \<Rightarrow> string \<Rightarrow> string \<Rightarrow> MailboxRow \<Rightarrow> bool" where
  "mailbox_at c t a r \<longleftrightarrow> mb_controller_id r = c \<and> mb_tree_id r = t \<and> mb_recipient_agent_id r = a"

definition message_for :: "string \<Rightarrow> string \<Rightarrow> string \<Rightarrow> MessageRow \<Rightarrow> bool" where
  "message_for c t a r \<longleftrightarrow> ms_controller_id r = c \<and> ms_tree_id r = t \<and> ms_recipient_agent_id r = a"

definition receipt_for :: "string \<Rightarrow> string \<Rightarrow> string \<Rightarrow> ReceiptRow \<Rightarrow> bool" where
  "receipt_for c t a r \<longleftrightarrow> mr_controller_id r = c \<and> mr_tree_id r = t \<and> mr_recipient_agent_id r = a"

section \<open>Sending\<close>

text \<open>The stored principal behind a claimed one; both operations start with it.\<close>

definition stored_principal :: "Principal \<Rightarrow> BrokerDb \<Rightarrow> Principal result" where
  "stored_principal claimed s =
     (let p = p_Identity claimed in
      case queryPrincipal (pi_ControllerID p) (pi_TreeID p) (pi_AgentID p) s of
        Inl e \<Rightarrow> if errors_is e ErrNotFound then Inl (Sentinel ErrAuthorizationDenied) else Inl e
      | Inr stored \<Rightarrow>
          if Principal_Matches stored p then Inr stored else Inl (Sentinel ErrAuthorizationDenied))"

definition resolveMessageRecipient :: "Principal \<Rightarrow> MessageTarget \<Rightarrow> BrokerDb \<Rightarrow> string result" where
  "resolveMessageRecipient source target s =
     (let p = p_Identity source in
      if pi_ParentAgentID p = '''' then
        if Require source CapabilityMessageTree \<noteq> None \<or> mt_Kind target \<noteq> MessageTargetAgent
        then Inl (Sentinel ErrAuthorizationDenied)
        else Inr (mt_AgentID target)
      else if Require source CapabilityMessageSendParent \<noteq> None then Inl (Sentinel ErrAuthorizationDenied)
      else case mt_Kind target of
             MessageTargetParent \<Rightarrow> Inr (pi_ParentAgentID p)
           | MessageTargetRoot \<Rightarrow>
               (case queryTreeByID (pi_ControllerID p) (pi_TreeID p) s of
                  Inl e \<Rightarrow> Inl e | Inr tree \<Rightarrow> Inr (tr_RootAgentID tree))
           | MessageTargetAgent \<Rightarrow> Inl (Sentinel ErrAuthorizationDenied)
           | MessageTargetKind_other _ \<Rightarrow> Inl (Plain ''message target was not validated''))"

definition receipt_matches :: "PrincipalIdentity \<Rightarrow> string \<Rightarrow> string \<Rightarrow> ReceiptRow \<Rightarrow> bool" where
  "receipt_matches source recipientAgentID message r \<longleftrightarrow>
     mr_controller_id r = pi_ControllerID source \<and> mr_tree_id r = pi_TreeID source
     \<and> mr_recipient_agent_id r = recipientAgentID \<and> mr_source_agent_id r = pi_AgentID source
     \<and> mr_source_parent_agent_id r = pi_ParentAgentID source
     \<and> mr_source_device_id r = pi_DeviceID source \<and> mr_message r = message"

definition findMailboxDelivery ::
    "PrincipalIdentity \<Rightarrow> string \<Rightarrow> string \<Rightarrow> string \<Rightarrow> BrokerDb \<Rightarrow> MailboxDelivery option result" where
  "findMailboxDelivery source recipientAgentID messageID message s =
     (case sel1 (\<lambda>r. mr_message_id r = messageID) (mailbox_receipts s) of
        None \<Rightarrow> Inr None
      | Some r \<Rightarrow>
          if \<not> receipt_matches source recipientAgentID message r then Inl (Sentinel ErrConflict)
          else Inr (Some \<lparr>md_RecipientAgentID = mr_recipient_agent_id r, md_MessageID = messageID,
                          md_Sequence = uint64_of_int64 (mr_sequence r)\<rparr>))"

definition open_mailbox :: "string \<Rightarrow> string \<Rightarrow> string \<Rightarrow> (BrokerDb, unit) tx" where
  "open_mailbox c t a =
     tx_insert ''initialize mailbox''
       (\<lambda>s. list_ex (mailbox_at c t a) (mailboxes s) \<or> list_ex (principal_at c t a) (principals s))
       (\<lambda>s. if list_ex (mailbox_at c t a) (mailboxes s) then s
            else s\<lparr>mailboxes := mailboxes s @
                     [\<lparr>mb_controller_id = c, mb_tree_id = t, mb_recipient_agent_id = a, mb_last_sequence = 0\<rparr>]\<rparr>)"

definition mailbox_sequence :: "string \<Rightarrow> string \<Rightarrow> string \<Rightarrow> BrokerDb \<Rightarrow> int result" where
  "mailbox_sequence c t a s =
     (case sel1 (mailbox_at c t a) (mailboxes s) of
        None \<Rightarrow> Inl (Wrapped ''load mailbox sequence'' (Plain ''sql: no rows in result set''))
      | Some r \<Rightarrow> Inr (mb_last_sequence r))"

text \<open>
  The receipts of a recipient that no pending message still needs, oldest first; pruning deletes
  the first of them by message identifier.
\<close>

definition acknowledged_receipts :: "string \<Rightarrow> string \<Rightarrow> string \<Rightarrow> BrokerDb \<Rightarrow> ReceiptRow list" where
  "acknowledged_receipts c t a s =
     sort_key mr_sequence
       (filter (\<lambda>r. receipt_for c t a r
                    \<and> \<not> list_ex (\<lambda>m. ms_message_id m = mr_message_id r) (mailbox_messages s))
          (mailbox_receipts s))"

definition pruneAcknowledgedMailboxReceipts :: "string \<Rightarrow> string \<Rightarrow> string \<Rightarrow> (BrokerDb, unit) tx" where
  "pruneAcknowledgedMailboxReceipts c t a =
     tx_bind (tx_get (\<lambda>s. int (affected (receipt_for c t a) (mailbox_receipts s)))) (\<lambda>count.
     let toDelete = count - int maximumMailboxReceipts + 1 in
     if toDelete \<le> 0 then tx_ret ()
     else
       tx_bind (tx_get (\<lambda>s. map mr_message_id (take (nat toDelete) (acknowledged_receipts c t a s)))) (\<lambda>ids.
       tx_bind (tx_update
         (\<lambda>s. affected (\<lambda>r. mr_message_id r \<in> set ids) (mailbox_receipts s))
         (\<lambda>s. s\<lparr>mailbox_receipts := filter (\<lambda>r. mr_message_id r \<notin> set ids) (mailbox_receipts s)\<rparr>)) (\<lambda>deleted.
       if int deleted \<noteq> toDelete
       then tx_fail (Plain ''mailbox receipt window is full of pending messages'')
       else tx_ret ())))"

definition advance_mailbox :: "string \<Rightarrow> string \<Rightarrow> string \<Rightarrow> int \<Rightarrow> int \<Rightarrow> BrokerDb \<Rightarrow> BrokerDb" where
  "advance_mailbox c t a lastSequence seq s =
     s\<lparr>mailboxes := upd (\<lambda>r. mailbox_at c t a r \<and> mb_last_sequence r = lastSequence)
        (\<lambda>r. r\<lparr>mb_last_sequence := seq\<rparr>) (mailboxes s)\<rparr>"

definition receipt_row :: "PrincipalIdentity \<Rightarrow> string \<Rightarrow> int \<Rightarrow> string \<Rightarrow> string \<Rightarrow> ReceiptRow" where
  "receipt_row source recipientAgentID seq messageID message =
     \<lparr>mr_controller_id = pi_ControllerID source, mr_tree_id = pi_TreeID source,
      mr_recipient_agent_id = recipientAgentID, mr_sequence = seq, mr_message_id = messageID,
      mr_source_agent_id = pi_AgentID source, mr_source_parent_agent_id = pi_ParentAgentID source,
      mr_source_device_id = pi_DeviceID source, mr_message = message\<rparr>"

definition message_row :: "PrincipalIdentity \<Rightarrow> string \<Rightarrow> int \<Rightarrow> string \<Rightarrow> string \<Rightarrow> int \<Rightarrow> MessageRow" where
  "message_row source recipientAgentID seq messageID message createdAt =
     \<lparr>ms_controller_id = pi_ControllerID source, ms_tree_id = pi_TreeID source,
      ms_recipient_agent_id = recipientAgentID, ms_sequence = seq, ms_message_id = messageID,
      ms_source_agent_id = pi_AgentID source, ms_source_parent_agent_id = pi_ParentAgentID source,
      ms_source_device_id = pi_DeviceID source, ms_message = message, ms_created_at = createdAt\<rparr>"

definition receipt_insertable :: "ReceiptRow \<Rightarrow> BrokerDb \<Rightarrow> bool" where
  "receipt_insertable r s \<longleftrightarrow>
     0 < mr_sequence r \<and> 1 \<le> length (mr_message r) \<and> length (mr_message r) \<le> 1024
     \<and> list_all (\<lambda>x. mr_message_id x \<noteq> mr_message_id r
          \<and> \<not> (receipt_for (mr_controller_id r) (mr_tree_id r) (mr_recipient_agent_id r) x
               \<and> mr_sequence x = mr_sequence r)) (mailbox_receipts s)
     \<and> list_ex (mailbox_at (mr_controller_id r) (mr_tree_id r) (mr_recipient_agent_id r)) (mailboxes s)
     \<and> list_ex (principal_at (mr_controller_id r) (mr_tree_id r) (mr_source_agent_id r)) (principals s)"

definition message_insertable :: "MessageRow \<Rightarrow> BrokerDb \<Rightarrow> bool" where
  "message_insertable r s \<longleftrightarrow>
     0 < ms_sequence r \<and> 1 \<le> length (ms_message r) \<and> length (ms_message r) \<le> 1024 \<and> 0 \<le> ms_created_at r
     \<and> list_all (\<lambda>x. ms_message_id x \<noteq> ms_message_id r
          \<and> \<not> (message_for (ms_controller_id r) (ms_tree_id r) (ms_recipient_agent_id r) x
               \<and> ms_sequence x = ms_sequence r)) (mailbox_messages s)
     \<and> list_ex (mailbox_at (ms_controller_id r) (ms_tree_id r) (ms_recipient_agent_id r)) (mailboxes s)
     \<and> list_ex (principal_at (ms_controller_id r) (ms_tree_id r) (ms_source_agent_id r)) (principals s)"

definition sendMailboxMessageTx ::
    "Principal \<Rightarrow> MessageTarget \<Rightarrow> string \<Rightarrow> string \<Rightarrow> int \<Rightarrow> (BrokerDb, MailboxDelivery) tx" where
  "sendMailboxMessageTx source target messageID message timestamp =
     (let p = p_Identity source; c = pi_ControllerID p; t = pi_TreeID p in
      tx_bind (tx_query (stored_principal source)) (\<lambda>storedSource.
      tx_bind (tx_query (resolveMessageRecipient storedSource target)) (\<lambda>recipientAgentID.
      tx_bind (tx_query (queryPrincipal c t recipientAgentID)) (\<lambda>_.
      tx_bind (tx_query (findMailboxDelivery p recipientAgentID messageID message)) (\<lambda>found.
      case found of
        Some existing \<Rightarrow> tx_ret existing
      | None \<Rightarrow>
          tx_bind (open_mailbox c t recipientAgentID) (\<lambda>_.
          tx_bind (tx_get (\<lambda>s. affected (message_for c t recipientAgentID) (mailbox_messages s))) (\<lambda>pending.
          if maximumPendingMailboxMessages \<le> pending then tx_fail (Sentinel ErrMailboxFull)
          else
            tx_bind (tx_query (mailbox_sequence c t recipientAgentID)) (\<lambda>lastSequence.
            if lastSequence = MaxInt64 then tx_fail (Sentinel ErrMailboxSequenceExhausted)
            else
              let seq = add_int64 lastSequence 1 in
              tx_bind (pruneAcknowledgedMailboxReceipts c t recipientAgentID) (\<lambda>_.
              tx_bind (tx_exec (advance_mailbox c t recipientAgentID lastSequence seq)) (\<lambda>_.
              tx_bind (tx_insert ''record mailbox message receipt''
                (receipt_insertable (receipt_row p recipientAgentID seq messageID message))
                (\<lambda>s. s\<lparr>mailbox_receipts := mailbox_receipts s @
                         [receipt_row p recipientAgentID seq messageID message]\<rparr>)) (\<lambda>_.
              tx_bind (tx_insert ''enqueue mailbox message''
                (message_insertable (message_row p recipientAgentID seq messageID message timestamp))
                (\<lambda>s. s\<lparr>mailbox_messages := mailbox_messages s @
                         [message_row p recipientAgentID seq messageID message timestamp]\<rparr>)) (\<lambda>_.
              tx_ret \<lparr>md_RecipientAgentID = recipientAgentID, md_MessageID = messageID,
                      md_Sequence = uint64_of_int64 seq\<rparr>))))))))))))"

definition SendMailboxMessage ::
    "Principal \<Rightarrow> MessageTarget \<Rightarrow> string \<Rightarrow> string \<Rightarrow> int \<Rightarrow> BrokerDb \<Rightarrow> MailboxDelivery result \<times> BrokerDb" where
  "SendMailboxMessage source target messageID message createdAt =
     guard_tx (first_err
       [wrap ''message source'' (Principal_Validate source), MessageTarget_Validate target,
        wrap ''messageId'' (ValidateID messageID), ValidateMailboxMessage message,
        unixTime createdAt ''createdAt''])
     (sendMailboxMessageTx source target messageID message createdAt)"

section \<open>Reading\<close>

definition scan_message :: "PrincipalIdentity \<Rightarrow> MessageRow \<Rightarrow> MailboxMessage result" where
  "scan_message recipient r =
     (let m = \<lparr>mm_MessageID = ms_message_id r, mm_Sequence = uint64_of_int64 (ms_sequence r),
               mm_Source = \<lparr>pi_ControllerID = pi_ControllerID recipient, pi_TreeID = pi_TreeID recipient,
                 pi_AgentID = ms_source_agent_id r, pi_ParentAgentID = ms_source_parent_agent_id r,
                 pi_DeviceID = ms_source_device_id r\<rparr>,
               mm_Message = ms_message r, mm_CreatedAt = ms_created_at r\<rparr>
      in case MailboxMessage_Validate m of
           Some e \<Rightarrow> Inl (Wrapped ''stored mailbox message is invalid'' e)
         | None \<Rightarrow> Inr m)"

definition acknowledge :: "string \<Rightarrow> string \<Rightarrow> string \<Rightarrow> nat \<Rightarrow> BrokerDb \<Rightarrow> BrokerDb" where
  "acknowledge c t a cursor s =
     (if cursor = 0 then s
      else s\<lparr>mailbox_messages :=
        filter (\<lambda>r. \<not> (message_for c t a r \<and> ms_sequence r \<le> int cursor)) (mailbox_messages s)\<rparr>)"

definition pending_after :: "string \<Rightarrow> string \<Rightarrow> string \<Rightarrow> nat \<Rightarrow> BrokerDb \<Rightarrow> MessageRow list" where
  "pending_after c t a cursor s =
     sort_key ms_sequence (filter (\<lambda>r. message_for c t a r \<and> int cursor < ms_sequence r) (mailbox_messages s))"

definition ReadMailbox_tx :: "Principal \<Rightarrow> nat \<Rightarrow> int \<Rightarrow> (BrokerDb, WaitMailboxResult) tx" where
  "ReadMailbox_tx recipient cursor limit =
     (let p = p_Identity recipient; c = pi_ControllerID p; t = pi_TreeID p; a = pi_AgentID p in
      tx_bind (tx_query (stored_principal recipient)) (\<lambda>_.
      tx_bind (tx_get (\<lambda>s. sel1 (mailbox_at c t a) (mailboxes s))) (\<lambda>row.
      case row of
        None \<Rightarrow>
          if cursor \<noteq> 0 then tx_fail (Sentinel ErrMailboxCursorAhead)
          else tx_ret \<lparr>wm_Messages = [], wm_NextCursor = cursor\<rparr>
      | Some mb \<Rightarrow>
          if uint64_of_int64 (mb_last_sequence mb) < cursor then tx_fail (Sentinel ErrMailboxCursorAhead)
          else
            tx_bind (tx_exec (acknowledge c t a cursor)) (\<lambda>_.
            tx_bind (tx_query (\<lambda>s. traverse (scan_message p) (take (nat limit) (pending_after c t a cursor s))))
              (\<lambda>messages.
            tx_ret \<lparr>wm_Messages = messages,
                    wm_NextCursor = (if messages = [] then cursor else mm_Sequence (last messages))\<rparr>)))))"

definition ReadMailbox :: "Principal \<Rightarrow> nat \<Rightarrow> int \<Rightarrow> BrokerDb \<Rightarrow> WaitMailboxResult result \<times> BrokerDb" where
  "ReadMailbox recipient cursor limit =
     guard_tx (first_err
       [wrap ''mailbox recipient'' (Principal_Validate recipient),
        fail_if (int cursor > MaxInt64) (Sentinel ErrMailboxCursorAhead),
        fail_if (limit < 1 \<or> limit > MaximumMailboxPage) (Plain ''mailbox page limit must be from 1 through 32''),
        fail_if (Require recipient
            (if pi_ParentAgentID (p_Identity recipient) \<noteq> '''' then CapabilityMessageReceiveSelf
             else CapabilityMessageTree) \<noteq> None) (Sentinel ErrAuthorizationDenied)])
     (ReadMailbox_tx recipient cursor limit)"

end
