(* ===== verification/Mailbox_Inv.thy ===== *)
theory Mailbox_Inv
  imports Mailbox
begin

text \<open>
  The mailbox invariant. Keys are unique; every pending message has its receipt; sequences do not
  run ahead of their mailbox; a recipient has at most 1024 pending messages and 2048 receipts. It is
  kept by both operations, and it implies that pruning always finds enough acknowledged receipts.
\<close>

definition mailbox_key :: "MailboxRow \<Rightarrow> string \<times> string \<times> string" where
  "mailbox_key r = (mb_controller_id r, mb_tree_id r, mb_recipient_agent_id r)"

definition receipt_box :: "ReceiptRow \<Rightarrow> string \<times> string \<times> string" where
  "receipt_box r = (mr_controller_id r, mr_tree_id r, mr_recipient_agent_id r)"

definition message_box :: "MessageRow \<Rightarrow> string \<times> string \<times> string" where
  "message_box r = (ms_controller_id r, ms_tree_id r, ms_recipient_agent_id r)"

definition receipt_slot :: "ReceiptRow \<Rightarrow> (string \<times> string \<times> string) \<times> int" where
  "receipt_slot r = (receipt_box r, mr_sequence r)"

definition message_source :: "MessageRow \<Rightarrow> PrincipalIdentity" where
  "message_source r =
     \<lparr>pi_ControllerID = ms_controller_id r, pi_TreeID = ms_tree_id r, pi_AgentID = ms_source_agent_id r,
      pi_ParentAgentID = ms_source_parent_agent_id r, pi_DeviceID = ms_source_device_id r\<rparr>"

definition receipt_of :: "MessageRow \<Rightarrow> ReceiptRow" where
  "receipt_of m = receipt_row (message_source m) (ms_recipient_agent_id m) (ms_sequence m) (ms_message_id m) (ms_message m)"

definition mailbox_message :: "MessageRow \<Rightarrow> MailboxMessage" where
  "mailbox_message r =
     \<lparr>mm_MessageID = ms_message_id r, mm_Sequence = nat (ms_sequence r), mm_Source = message_source r,
      mm_Message = ms_message r, mm_CreatedAt = ms_created_at r\<rparr>"

definition mailbox_row_ok :: "BrokerDb \<Rightarrow> MailboxRow \<Rightarrow> bool" where
  "mailbox_row_ok s r \<longleftrightarrow> 0 \<le> mb_last_sequence r \<and> mb_last_sequence r \<le> MaxInt64
     \<and> (\<exists>p \<in> set (principals s). principal_key p = mailbox_key r)"

definition receipt_row_ok :: "BrokerDb \<Rightarrow> ReceiptRow \<Rightarrow> bool" where
  "receipt_row_ok s r \<longleftrightarrow> 0 < mr_sequence r
     \<and> (\<exists>m \<in> set (mailboxes s). mailbox_key m = receipt_box r \<and> mr_sequence r \<le> mb_last_sequence m)"

definition message_row_ok :: "BrokerDb \<Rightarrow> MessageRow \<Rightarrow> bool" where
  "message_row_ok s r \<longleftrightarrow> receipt_of r \<in> set (mailbox_receipts s)
     \<and> MailboxMessage_Validate (mailbox_message r) = None"

definition mailbox_inv :: "BrokerDb \<Rightarrow> bool" where
  "mailbox_inv s \<longleftrightarrow>
     uniq mailbox_key (mailboxes s) \<and> uniq mr_message_id (mailbox_receipts s)
     \<and> uniq receipt_slot (mailbox_receipts s) \<and> uniq ms_message_id (mailbox_messages s)
     \<and> (\<forall>r \<in> set (mailboxes s). mailbox_row_ok s r) \<and> (\<forall>r \<in> set (mailbox_receipts s). receipt_row_ok s r)
     \<and> (\<forall>r \<in> set (mailbox_messages s). message_row_ok s r)
     \<and> (\<forall>c t a. affected (message_for c t a) (mailbox_messages s) \<le> maximumPendingMailboxMessages
          \<and> affected (receipt_for c t a) (mailbox_receipts s) \<le> maximumMailboxReceipts)"

lemma mailbox_invD:
  assumes "mailbox_inv s"
  shows "uniq mailbox_key (mailboxes s)" "uniq mr_message_id (mailbox_receipts s)"
    "uniq receipt_slot (mailbox_receipts s)" "uniq ms_message_id (mailbox_messages s)"
    "\<And>r. r \<in> set (mailboxes s) \<Longrightarrow> mailbox_row_ok s r"
    "\<And>r. r \<in> set (mailbox_receipts s) \<Longrightarrow> receipt_row_ok s r"
    "\<And>r. r \<in> set (mailbox_messages s) \<Longrightarrow> message_row_ok s r"
    "\<And>c t a. affected (message_for c t a) (mailbox_messages s) \<le> maximumPendingMailboxMessages"
    "\<And>c t a. affected (receipt_for c t a) (mailbox_receipts s) \<le> maximumMailboxReceipts"
  using assms by (simp_all add: mailbox_inv_def)

lemma box_keys:
  "mailbox_at c t a = (\<lambda>r. mailbox_key r = (c, t, a))"
  "message_for c t a = (\<lambda>r. message_box r = (c, t, a))"
  "receipt_for c t a = (\<lambda>r. receipt_box r = (c, t, a))"
  by (auto simp: mailbox_at_def mailbox_key_def message_for_def message_box_def receipt_for_def receipt_box_def)

lemma receipt_row_simps [simp]:
  "receipt_box (receipt_row p a n i m) = (pi_ControllerID p, pi_TreeID p, a)"
  "mr_sequence (receipt_row p a n i m) = n" "mr_message_id (receipt_row p a n i m) = i"
  "mr_controller_id (receipt_row p a n i m) = pi_ControllerID p" "mr_tree_id (receipt_row p a n i m) = pi_TreeID p"
  "mr_recipient_agent_id (receipt_row p a n i m) = a" "mr_source_agent_id (receipt_row p a n i m) = pi_AgentID p"
  "mr_source_parent_agent_id (receipt_row p a n i m) = pi_ParentAgentID p"
  "mr_source_device_id (receipt_row p a n i m) = pi_DeviceID p" "mr_message (receipt_row p a n i m) = m"
  by (simp_all add: receipt_row_def receipt_box_def)

lemma message_row_simps [simp]:
  "message_box (message_row p a n i m ts) = (pi_ControllerID p, pi_TreeID p, a)"
  "ms_sequence (message_row p a n i m ts) = n" "ms_message_id (message_row p a n i m ts) = i"
  "receipt_of (message_row p a n i m ts) = receipt_row p a n i m"
  "message_source (message_row p a n i m ts) = p" "ms_message (message_row p a n i m ts) = m"
  "ms_created_at (message_row p a n i m ts) = ts"
  by (simp_all add: message_row_def message_box_def receipt_of_def message_source_def)

lemma receipt_of_simps [simp]:
  "mr_message_id (receipt_of m) = ms_message_id m" "receipt_box (receipt_of m) = message_box m"
  "mr_sequence (receipt_of m) = ms_sequence m"
  by (simp_all add: receipt_of_def message_source_def message_box_def)

lemma mailbox_inv_empty: "mailbox_inv schemaCurrent"
  by (simp add: mailbox_inv_def affected_def)

text \<open>A state that differs elsewhere, and has at least the principals, keeps the invariant.\<close>

lemma mailbox_inv_cong:
  assumes "mailbox_inv s" "mailboxes s' = mailboxes s" "mailbox_receipts s' = mailbox_receipts s"
    "mailbox_messages s' = mailbox_messages s" "set (principals s) \<subseteq> set (principals s')"
  shows "mailbox_inv s'"
proof -
  have "mailbox_row_ok s' r" if "mailbox_row_ok s r" for r
    using that assms(5) unfolding mailbox_row_ok_def by blast
  then show ?thesis
    using assms(1-4) unfolding mailbox_inv_def receipt_row_ok_def message_row_ok_def by auto
qed

section \<open>Pruning\<close>

lemma affected_key_image:
  assumes "uniq key rows" "set xs \<subseteq> set rows" "distinct xs"
  shows "affected (\<lambda>r. key r \<in> set (map key xs)) rows = length xs"
proof -
  have "set (filter (\<lambda>r. key r \<in> set (map key xs)) rows) = set xs"
    using assms(1,2) uniq_same [OF assms(1)] by auto
  moreover have "distinct (filter (\<lambda>r. key r \<in> set (map key xs)) rows)"
    using assms(1) by (simp add: uniq_def distinct_map)
  ultimately show ?thesis
    using distinct_card assms(3) unfolding affected_def by metis
qed

lemma list_ex_upd:
  assumes "\<And>r. P r \<Longrightarrow> Q (f r) = Q r"
  shows "list_ex Q (upd P f rows) = list_ex Q rows"
  using assms by (induction rows) auto

lemma affected_split: "affected P rows = affected (\<lambda>r. P r \<and> Q r) rows + affected (\<lambda>r. P r \<and> \<not> Q r) rows"
  by (induction rows) (auto simp: affected_def)

lemma affected_conj_le: "affected (\<lambda>r. P r \<and> Q r) rows \<le> affected P rows"
  using affected_split [of P rows Q] by simp

lemma affected_filter: "affected P (filter Q rows) = affected (\<lambda>r. P r \<and> Q r) rows"
  by (simp add: affected_def conj_commute)

lemma affected_snoc: "affected P (rows @ [r]) = affected P rows + (if P r then 1 else 0)"
  by (simp add: affected_def)

definition awaited :: "BrokerDb \<Rightarrow> ReceiptRow \<Rightarrow> bool" where
  "awaited s r \<longleftrightarrow> list_ex (\<lambda>m. ms_message_id m = mr_message_id r) (mailbox_messages s)"

lemma awaited_message:
  assumes "mailbox_inv s" "r \<in> set (mailbox_receipts s)" "awaited s r"
  obtains m where "m \<in> set (mailbox_messages s)" "receipt_of m = r"
proof -
  obtain m where m: "m \<in> set (mailbox_messages s)" "ms_message_id m = mr_message_id r"
    using assms(3) by (auto simp: awaited_def list_ex_iff)
  then have "receipt_of m \<in> set (mailbox_receipts s)"
    using mailbox_invD(7) [OF assms(1)] by (simp add: message_row_ok_def)
  then have "receipt_of m = r"
    using uniq_same [OF mailbox_invD(2) [OF assms(1)] _ assms(2)] m(2) by simp
  with m(1) show thesis by (rule that)
qed

text \<open>No more receipts are awaited by pending messages than there are pending messages.\<close>

lemma awaited_le_pending:
  assumes "mailbox_inv s"
  shows "affected (\<lambda>r. receipt_for c t a r \<and> awaited s r) (mailbox_receipts s)
    \<le> affected (message_for c t a) (mailbox_messages s)"
proof -
  let ?R = "filter (\<lambda>r. receipt_for c t a r \<and> awaited s r) (mailbox_receipts s)"
  let ?M = "filter (message_for c t a) (mailbox_messages s)"
  have "set ?R \<subseteq> receipt_of ` set ?M"
  proof
    fix r assume "r \<in> set ?R"
    then have r: "r \<in> set (mailbox_receipts s)" "receipt_for c t a r" "awaited s r" by auto
    then obtain m where m: "m \<in> set (mailbox_messages s)" "receipt_of m = r"
      using awaited_message [OF assms] by metis
    have "message_for c t a m" using r(2) m(2) by (auto simp: box_keys)
    with m show "r \<in> receipt_of ` set ?M" by auto
  qed
  then have "card (set ?R) \<le> card (set ?M)"
    by (meson List.finite_set card_image_le card_mono finite_imageI order_trans)
  moreover have "distinct ?R" using mailbox_invD(2) [OF assms] by (simp add: uniq_def distinct_map)
  ultimately show ?thesis
    unfolding affected_def using distinct_card card_length order_trans by metis
qed

definition pruned :: "string \<Rightarrow> string \<Rightarrow> string \<Rightarrow> BrokerDb \<Rightarrow> ReceiptRow list" where
  "pruned c t a s =
     (let n = affected (receipt_for c t a) (mailbox_receipts s) + 1 - maximumMailboxReceipts;
          ids = map mr_message_id (take n (acknowledged_receipts c t a s))
      in filter (\<lambda>r. mr_message_id r \<notin> set ids) (mailbox_receipts s))"

lemma acknowledged_receipts_eq:
  "acknowledged_receipts c t a s =
     sort_key mr_sequence (filter (\<lambda>r. receipt_for c t a r \<and> \<not> awaited s r) (mailbox_receipts s))"
  by (simp add: acknowledged_receipts_def awaited_def)

lemma prune_facts:
  assumes "mailbox_inv s" "affected (message_for c t a) (mailbox_messages s) < maximumPendingMailboxMessages"
  defines "n \<equiv> affected (receipt_for c t a) (mailbox_receipts s) + 1 - maximumMailboxReceipts"
  shows "affected (\<lambda>r. mr_message_id r \<in> set (map mr_message_id (take n (acknowledged_receipts c t a s))))
      (mailbox_receipts s) = n"
    and "affected (receipt_for c t a) (pruned c t a s) < maximumMailboxReceipts"
    and "\<And>r. r \<in> set (mailbox_receipts s) \<Longrightarrow> awaited s r \<or> \<not> receipt_for c t a r \<Longrightarrow> r \<in> set (pruned c t a s)"
proof -
  let ?A = "acknowledged_receipts c t a s" and ?R = "mailbox_receipts s"
  note u = mailbox_invD(2) [OF assms(1)]
  have setA: "set ?A = {r \<in> set ?R. receipt_for c t a r \<and> \<not> awaited s r}"
    by (auto simp: acknowledged_receipts_eq)
  have dist: "distinct ?A" using u by (simp add: acknowledged_receipts_eq uniq_def distinct_map)
  have lenA: "length ?A = affected (\<lambda>r. receipt_for c t a r \<and> \<not> awaited s r) ?R"
    by (simp add: acknowledged_receipts_eq affected_def)
  have "affected (receipt_for c t a) ?R \<le> length ?A + affected (message_for c t a) (mailbox_messages s)"
    using affected_split [of "receipt_for c t a" ?R "awaited s"] awaited_le_pending [OF assms(1), of c t a] lenA
    by simp
  then have enough: "n \<le> length ?A"
    using assms(2) by (simp add: n_def maximumMailboxReceipts_def)
  have sub: "set (take n ?A) \<subseteq> set ?R" using setA set_take_subset [of n ?A] by auto
  show hits: "affected (\<lambda>r. mr_message_id r \<in> set (map mr_message_id (take n ?A))) ?R = n"
    using affected_key_image [OF u sub] dist enough by simp
  show kept: "\<And>r. r \<in> set ?R \<Longrightarrow> awaited s r \<or> \<not> receipt_for c t a r \<Longrightarrow> r \<in> set (pruned c t a s)"
  proof -
    fix r assume r: "r \<in> set ?R" "awaited s r \<or> \<not> receipt_for c t a r"
    have "mr_message_id r \<notin> mr_message_id ` set (take n ?A)"
    proof
      assume "mr_message_id r \<in> mr_message_id ` set (take n ?A)"
      then obtain x where x: "x \<in> set (take n ?A)" "mr_message_id x = mr_message_id r" by auto
      then have "x = r" using uniq_same [OF u] sub r(1) by blast
      then show False using x(1) set_take_subset [of n ?A] setA r(2) by auto
    qed
    then show "r \<in> set (pruned c t a s)" using r(1) by (simp add: pruned_def Let_def n_def)
  qed
  let ?hit = "\<lambda>r. mr_message_id r \<in> set (map mr_message_id (take n ?A))"
  have "affected (\<lambda>r. receipt_for c t a r \<and> ?hit r) ?R = affected ?hit ?R"
  proof -
    have "receipt_for c t a r" if "r \<in> set ?R" "?hit r" for r
    proof (rule ccontr)
      assume "\<not> receipt_for c t a r"
      then have "r \<in> set (pruned c t a s)" using kept that(1) by blast
      then show False using that(2) by (simp add: pruned_def Let_def n_def)
    qed
    then show ?thesis unfolding affected_def by (metis (mono_tags, lifting) filter_cong)
  qed
  moreover have "affected (receipt_for c t a) (pruned c t a s) = affected (\<lambda>r. receipt_for c t a r \<and> \<not> ?hit r) ?R"
    by (simp add: pruned_def Let_def affected_filter n_def)
  ultimately have "affected (receipt_for c t a) (pruned c t a s) + n = affected (receipt_for c t a) ?R"
    using affected_split [of "receipt_for c t a" ?R ?hit] hits by simp
  moreover have "affected (receipt_for c t a) ?R \<le> maximumMailboxReceipts" by (rule mailbox_invD(9) [OF assms(1)])
  ultimately show "affected (receipt_for c t a) (pruned c t a s) < maximumMailboxReceipts"
    by (simp add: n_def)
qed

text \<open>So pruning never fails: the window is never full of pending messages.\<close>

lemma prune_succeeds:
  assumes "mailbox_inv s" "affected (message_for c t a) (mailbox_messages s) < maximumPendingMailboxMessages"
  shows "pruneAcknowledgedMailboxReceipts c t a s = Inr ((), s\<lparr>mailbox_receipts := pruned c t a s\<rparr>)"
proof -
  define k where "k = affected (receipt_for c t a) (mailbox_receipts s)"
  define n where "n = k + 1 - maximumMailboxReceipts"
  note hits = prune_facts(1) [OF assms, folded k_def, folded n_def]
  show ?thesis
  proof (cases "n = 0")
    case True
    then have "pruned c t a s = mailbox_receipts s"
      by (simp add: pruned_def Let_def n_def k_def)
    moreover have "int k - int maximumMailboxReceipts + 1 \<le> 0" using True by (simp add: n_def)
    ultimately show ?thesis
      by (simp add: pruneAcknowledgedMailboxReceipts_def k_def)
  next
    case False
    then have n: "int k - int maximumMailboxReceipts + 1 = int n" by (simp add: n_def)
    have "\<not> int n \<le> 0" using False by simp
    moreover have "pruned c t a s = filter (\<lambda>r. mr_message_id r \<notin>
        set (map mr_message_id (take n (acknowledged_receipts c t a s)))) (mailbox_receipts s)"
      by (simp add: pruned_def Let_def n_def k_def)
    ultimately show ?thesis
      using hits False
      by (simp add: pruneAcknowledgedMailboxReceipts_def k_def [symmetric] n del: set_map)
  qed
qed


section \<open>Sending as one step\<close>

definition last_sequence :: "string \<Rightarrow> string \<Rightarrow> string \<Rightarrow> BrokerDb \<Rightarrow> int" where
  "last_sequence c t a s =
     (case sel1 (mailbox_at c t a) (mailboxes s) of None \<Rightarrow> 0 | Some r \<Rightarrow> mb_last_sequence r)"

definition opened :: "string \<Rightarrow> string \<Rightarrow> string \<Rightarrow> BrokerDb \<Rightarrow> BrokerDb" where
  "opened c t a s =
     (if list_ex (mailbox_at c t a) (mailboxes s) then s
      else s\<lparr>mailboxes := mailboxes s @
               [\<lparr>mb_controller_id = c, mb_tree_id = t, mb_recipient_agent_id = a, mb_last_sequence = 0\<rparr>]\<rparr>)"

definition enqueued :: "PrincipalIdentity \<Rightarrow> string \<Rightarrow> string \<Rightarrow> string \<Rightarrow> int \<Rightarrow> BrokerDb \<Rightarrow> BrokerDb" where
  "enqueued p a i m ts s =
     (let c = pi_ControllerID p; t = pi_TreeID p; n = last_sequence c t a s + 1 in
      s\<lparr>mailboxes := upd (mailbox_at c t a) (\<lambda>r. r\<lparr>mb_last_sequence := n\<rparr>) (mailboxes (opened c t a s)),
        mailbox_receipts := pruned c t a s @ [receipt_row p a n i m],
        mailbox_messages := mailbox_messages s @ [message_row p a n i m ts]\<rparr>)"

lemma opened_simps [simp]:
  "mailbox_receipts (opened c t a s) = mailbox_receipts s" "mailbox_messages (opened c t a s) = mailbox_messages s"
  "principals (opened c t a s) = principals s" "trees (opened c t a s) = trees s"
  by (simp_all add: opened_def)

lemma pruned_opened [simp]: "pruned c t a (opened c' t' a' s) = pruned c t a s"
  by (simp add: pruned_def acknowledged_receipts_def)

lemma pruned_subset: "set (pruned c t a s) \<subseteq> set (mailbox_receipts s)"
  by (auto simp: pruned_def Let_def)

lemma pruned_uniq: "uniq key (mailbox_receipts s) \<Longrightarrow> uniq key (pruned c t a s)"
  by (simp add: pruned_def Let_def uniq_filter)

lemma opened_sel1: "sel1 (mailbox_at c t a) (mailboxes (opened c t a s)) =
    Some \<lparr>mb_controller_id = c, mb_tree_id = t, mb_recipient_agent_id = a, mb_last_sequence = last_sequence c t a s\<rparr>"
proof (cases "sel1 (mailbox_at c t a) (mailboxes s)")
  case None
  then have "\<not> list_ex (mailbox_at c t a) (mailboxes s)" by (auto simp: list_ex_iff sel1_None_iff)
  moreover have "mailbox_at c t a \<lparr>mb_controller_id = c, mb_tree_id = t, mb_recipient_agent_id = a, mb_last_sequence = 0\<rparr>"
    by (simp add: mailbox_at_def)
  ultimately show ?thesis using None by (simp add: opened_def last_sequence_def)
next
  case (Some r)
  then have "r \<in> set (mailboxes s)" "mailbox_at c t a r" by (auto dest: sel1_SomeD)
  then have "opened c t a s = s" by (auto simp: opened_def list_ex_iff)
  then show ?thesis using Some \<open>mailbox_at c t a r\<close> by (cases r) (auto simp: last_sequence_def mailbox_at_def)
qed

lemma opened_inv:
  assumes "mailbox_inv s" "sel1 (principal_at c t a) (principals s) = Some p"
  shows "mailbox_inv (opened c t a s)"
proof (cases "list_ex (mailbox_at c t a) (mailboxes s)")
  case False
  then have "(c, t, a) \<notin> mailbox_key ` set (mailboxes s)" by (auto simp: list_ex_iff box_keys)
  moreover have "p \<in> set (principals s)" "principal_key p = (c, t, a)"
    using sel1_SomeD [OF assms(2)] by (simp_all add: principal_at_key)
  ultimately show ?thesis
    using assms(1) False
    unfolding mailbox_inv_def opened_def mailbox_row_ok_def receipt_row_ok_def message_row_ok_def
    by (auto simp: mailbox_key_def MaxInt64_def)
qed (use assms(1) in \<open>simp add: opened_def\<close>)

lemma last_sequence_bounds:
  assumes "mailbox_inv s"
  shows "0 \<le> last_sequence c t a s" "last_sequence c t a s \<le> MaxInt64"
proof -
  have "mailbox_row_ok s r" if "sel1 (mailbox_at c t a) (mailboxes s) = Some r" for r
    using that mailbox_invD(5) [OF assms] sel1_SomeD by metis
  then show "0 \<le> last_sequence c t a s" "last_sequence c t a s \<le> MaxInt64"
    by (auto simp: last_sequence_def mailbox_row_ok_def MaxInt64_def split: option.splits)
qed

lemma receipt_below_last:
  assumes "mailbox_inv s" "r \<in> set (mailbox_receipts s)" "receipt_box r = (c, t, a)"
  shows "0 < mr_sequence r" "mr_sequence r \<le> last_sequence c t a s"
proof -
  obtain m where m: "m \<in> set (mailboxes s)" "mailbox_key m = (c, t, a)" "mr_sequence r \<le> mb_last_sequence m"
    and pos: "0 < mr_sequence r"
    using mailbox_invD(6) [OF assms(1,2)] assms(3) by (auto simp: receipt_row_ok_def)
  show "0 < mr_sequence r" by (rule pos)
  have "sel1 (mailbox_at c t a) (mailboxes s) = Some m"
    using uniq_sel1 [OF mailbox_invD(1) [OF assms(1)] m(1)] m(2) by (simp add: box_keys)
  then show "mr_sequence r \<le> last_sequence c t a s" using m(3) by (simp add: last_sequence_def)
qed

lemma mailbox_message_length:
  assumes "ValidateMailboxMessage m = None"
  shows "1 \<le> length m" "length m \<le> 1024"
proof -
  have "runes [] = []" by (simp add: ascii_runes ascii_def)
  then show "1 \<le> length m" "length m \<le> 1024"
    using assms by (auto simp: ValidateMailboxMessage_def MaximumMailboxMessageBytes_def TrimSpace_empty_def Suc_le_eq)
qed

text \<open>The new row, the receipt and the message never violate a constraint of their tables.\<close>

lemma enqueue_insertable:
  assumes inv: "mailbox_inv s" and src: "list_ex (principal_at (pi_ControllerID p) (pi_TreeID p) (pi_AgentID p)) (principals s)"
    and msg: "ValidateMailboxMessage m = None" and ts: "0 \<le> ts"
    and fresh: "sel1 (\<lambda>r. mr_message_id r = i) (mailbox_receipts s) = None"
    and box: "list_ex (mailbox_at (pi_ControllerID p) (pi_TreeID p) a) (mailboxes s')"
    and s': "set (mailbox_receipts s') \<subseteq> set (mailbox_receipts s)" "mailbox_messages s' = mailbox_messages s"
      "principals s' = principals s"
  defines "n \<equiv> last_sequence (pi_ControllerID p) (pi_TreeID p) a s + 1"
  shows "receipt_insertable (receipt_row p a n i m) s'"
    and "message_insertable (message_row p a n i m ts) (s'\<lparr>mailbox_receipts := x\<rparr>)"
proof -
  note len = mailbox_message_length [OF msg]
  have n: "0 < n" using last_sequence_bounds(1) [OF inv] by (simp add: n_def add_nonneg_pos)
  have new: "mr_message_id x \<noteq> i \<and> \<not> (receipt_box x = (pi_ControllerID p, pi_TreeID p, a) \<and> mr_sequence x = n)"
    if "x \<in> set (mailbox_receipts s)" for x
    using that fresh receipt_below_last(2) [OF inv that] by (fastforce simp: n_def sel1_None_iff)
  have "list_all (\<lambda>x. mr_message_id x \<noteq> i
      \<and> \<not> (receipt_for (pi_ControllerID p) (pi_TreeID p) a x \<and> mr_sequence x = n)) (mailbox_receipts s')"
    using new s'(1) by (auto simp: list_all_iff box_keys)
  then show "receipt_insertable (receipt_row p a n i m) s'"
    using len n box src s'(3) by (simp add: receipt_insertable_def)
  have "list_all (\<lambda>x. ms_message_id x \<noteq> i
      \<and> \<not> (message_for (pi_ControllerID p) (pi_TreeID p) a x \<and> ms_sequence x = n)) (mailbox_messages s')"
    using new [of "receipt_of y" for y] mailbox_invD(7) [OF inv] s'(2)
    by (fastforce simp: list_all_iff box_keys message_row_ok_def)
  then show "message_insertable (message_row p a n i m ts) (s'\<lparr>mailbox_receipts := x\<rparr>)"
    using len n box src s'(3) ts by (simp add: message_insertable_def message_row_def)
qed


lemma stored_principal_Inr:
  assumes "trees_inv s" "stored_principal src s = Inr st"
  shows "\<exists>r \<in> set (principals s). identity_of r = p_Identity src \<and> st = principal_of r"
    "list_ex (principal_at (pi_ControllerID (p_Identity src)) (pi_TreeID (p_Identity src)) (pi_AgentID (p_Identity src)))
       (principals s)"
proof -
  let ?p = "p_Identity src"
  have "queryPrincipal (pi_ControllerID ?p) (pi_TreeID ?p) (pi_AgentID ?p) s = Inr st" "p_Identity st = ?p"
    using assms(2) by (auto simp: stored_principal_def Let_def Principal_Matches_def split: sum.splits if_splits)
  then obtain r where r: "sel1 (principal_at (pi_ControllerID ?p) (pi_TreeID ?p) (pi_AgentID ?p)) (principals s) = Some r"
    and st: "st = principal_of r" "identity_of r = ?p"
    by (auto simp: queryPrincipal_inv [OF assms(1)] split: option.splits)
  from sel1_SomeD [OF r] st show "\<exists>r \<in> set (principals s). identity_of r = ?p \<and> st = principal_of r"
    "list_ex (principal_at (pi_ControllerID ?p) (pi_TreeID ?p) (pi_AgentID ?p)) (principals s)"
    by (auto simp: list_ex_iff)
qed

text \<open>
  What a send does in a well-formed state, once its arguments are valid: resolve the recipient,
  answer a known message identifier from its receipt, refuse a full mailbox, or enqueue.
\<close>

definition send_spec ::
    "Principal \<Rightarrow> MessageTarget \<Rightarrow> string \<Rightarrow> string \<Rightarrow> int \<Rightarrow> BrokerDb \<Rightarrow> (MailboxDelivery \<times> BrokerDb) result" where
  "send_spec source target i m ts s =
     (let p = p_Identity source; c = pi_ControllerID p; t = pi_TreeID p in
      case stored_principal source s of
        Inl e \<Rightarrow> Inl e
      | Inr st \<Rightarrow>
          (case resolveMessageRecipient st target s of
             Inl e \<Rightarrow> Inl e
           | Inr a \<Rightarrow>
               (case queryPrincipal c t a s of
                  Inl e \<Rightarrow> Inl e
                | Inr _ \<Rightarrow>
                    (case findMailboxDelivery p a i m s of
                       Inl e \<Rightarrow> Inl e
                     | Inr (Some d) \<Rightarrow> Inr (d, s)
                     | Inr None \<Rightarrow>
                         if maximumPendingMailboxMessages \<le> affected (message_for c t a) (mailbox_messages s)
                         then Inl (Sentinel ErrMailboxFull)
                         else if last_sequence c t a s = MaxInt64 then Inl (Sentinel ErrMailboxSequenceExhausted)
                         else Inr (\<lparr>md_RecipientAgentID = a, md_MessageID = i,
                                    md_Sequence = nat (last_sequence c t a s + 1)\<rparr>,
                                   enqueued p a i m ts s)))))"

lemma send_tail:
  assumes inv: "mailbox_inv s" and tinv: "trees_inv s"
    and msg: "ValidateMailboxMessage m = None" and ts: "0 \<le> ts"
    and src: "list_ex (principal_at (pi_ControllerID p) (pi_TreeID p) (pi_AgentID p)) (principals s)"
    and fresh: "findMailboxDelivery p a i m s = Inr None"
    and rcpt: "sel1 (principal_at (pi_ControllerID p) (pi_TreeID p) a) (principals s) = Some q"
    and room: "affected (message_for (pi_ControllerID p) (pi_TreeID p) a) (mailbox_messages s) < maximumPendingMailboxMessages"
    and low: "last_sequence (pi_ControllerID p) (pi_TreeID p) a s \<noteq> MaxInt64"
  defines "c \<equiv> pi_ControllerID p" and "t \<equiv> pi_TreeID p"
  defines "n \<equiv> last_sequence c t a s + 1"
  defines "s1 \<equiv> (opened c t a s)\<lparr>mailbox_receipts := pruned c t a s\<rparr>"
  defines "s2 \<equiv> advance_mailbox c t a (last_sequence c t a s) n s1"
  shows "add_int64 (last_sequence c t a s) 1 = n" "uint64_of_int64 n = nat n"
    and "pruneAcknowledgedMailboxReceipts c t a (opened c t a s) = Inr ((), s1)"
    and "receipt_insertable (receipt_row p a n i m) s2"
    and "message_insertable (message_row p a n i m ts) (s2\<lparr>mailbox_receipts := x\<rparr>)"
    and "s2\<lparr>mailbox_receipts := mailbox_receipts s2 @ [receipt_row p a n i m],
            mailbox_messages := mailbox_messages s2 @ [message_row p a n i m ts]\<rparr> = enqueued p a i m ts s"
proof -
  note b = last_sequence_bounds [OF inv, of c t a]
  have low': "last_sequence c t a s < MaxInt64" using b low by (simp add: c_def t_def)
  show "add_int64 (last_sequence c t a s) 1 = n" using add_int64_succ b(1) low' by (simp add: n_def)
  show "uint64_of_int64 n = nat n" using uint64_of_int64_nat [of n] b(1) low' by (simp add: n_def)
  have inv1: "mailbox_inv (opened c t a s)" by (rule opened_inv [OF inv]) (use rcpt in \<open>simp add: c_def t_def\<close>)
  show "pruneAcknowledgedMailboxReceipts c t a (opened c t a s) = Inr ((), s1)"
    using prune_succeeds [OF inv1, of c t a] room by (simp add: s1_def c_def t_def)
  have boxes: "upd (\<lambda>r. mailbox_at c t a r \<and> mb_last_sequence r = last_sequence c t a s) f (mailboxes (opened c t a s))
      = upd (mailbox_at c t a) f (mailboxes (opened c t a s))" for f
  proof -
    have "mb_last_sequence r = last_sequence c t a s"
      if "r \<in> set (mailboxes (opened c t a s))" "mailbox_at c t a r" for r
      using uniq_sel1 [OF mailbox_invD(1) [OF inv1] that(1)] that(2) opened_sel1 [of c t a s]
      by (auto simp: box_keys)
    then show ?thesis unfolding upd_def by auto
  qed
  have hit: "list_ex (mailbox_at c t a) (mailboxes s2)"
  proof -
    have "list_ex (mailbox_at c t a) (mailboxes (opened c t a s))"
      using sel1_SomeD [OF opened_sel1 [of c t a s]] unfolding list_ex_iff by blast
    then show ?thesis by (simp add: s2_def s1_def advance_mailbox_def list_ex_upd mailbox_at_def)
  qed
  have none: "sel1 (\<lambda>r. mr_message_id r = i) (mailbox_receipts s) = None"
    using fresh by (auto simp: findMailboxDelivery_def split: option.splits if_splits)
  have s2: "mailbox_receipts s2 = pruned c t a s" "mailbox_messages s2 = mailbox_messages s" "principals s2 = principals s"
    by (simp_all add: s2_def s1_def advance_mailbox_def)
  note ins = enqueue_insertable [OF inv src msg ts none hit [unfolded c_def t_def], folded c_def t_def, folded n_def,
      unfolded s2(1), OF pruned_subset s2(2,3)]
  show "receipt_insertable (receipt_row p a n i m) s2"
    "message_insertable (message_row p a n i m ts) (s2\<lparr>mailbox_receipts := x\<rparr>)"
    by (rule ins)+
  show "s2\<lparr>mailbox_receipts := mailbox_receipts s2 @ [receipt_row p a n i m],
           mailbox_messages := mailbox_messages s2 @ [message_row p a n i m ts]\<rparr> = enqueued p a i m ts s"
    by (simp add: enqueued_def Let_def s2_def s1_def advance_mailbox_def boxes n_def c_def [symmetric] t_def [symmetric])
      (simp add: opened_def)
qed


lemma open_mailbox_eq:
  "open_mailbox c t a s =
     (if list_ex (mailbox_at c t a) (mailboxes s) \<or> list_ex (principal_at c t a) (principals s)
      then Inr ((), opened c t a s) else Inl (Wrapped ''initialize mailbox'' (SqlConstraint ''initialize mailbox'')))"
  by (simp add: open_mailbox_def tx_insert_def opened_def)

lemma sel1_Some_list_ex: "sel1 P rows = Some r \<Longrightarrow> list_ex P rows"
  by (auto simp: list_ex_iff dest: sel1_SomeD)

lemma sendMailboxMessageTx_eq:
  assumes "mailbox_inv s" "trees_inv s" "ValidateMailboxMessage m = None" "0 \<le> ts"
  shows "sendMailboxMessageTx source target i m ts s = send_spec source target i m ts s"
proof -
  define p where "p = p_Identity source"
  define c where "c = pi_ControllerID p"
  define t where "t = pi_TreeID p"
  note names = p_def [symmetric] c_def [symmetric] t_def [symmetric]
  show ?thesis
  proof (cases "stored_principal source s")
    case (Inr st)
    note st = Inr
    show ?thesis
    proof (cases "resolveMessageRecipient st target s")
      case (Inr a)
      note a = Inr
      show ?thesis
      proof (cases "queryPrincipal c t a s")
        case (Inr q)
        note q = Inr
        then obtain r where r: "sel1 (principal_at c t a) (principals s) = Some r"
          by (auto simp: queryPrincipal_inv [OF assms(2)] split: option.splits)
        have open_ok: "open_mailbox c t a s = Inr ((), opened c t a s)"
          using sel1_Some_list_ex [OF r] by (simp add: open_mailbox_eq)
        have seq: "mailbox_sequence c t a (opened c t a s) = Inr (last_sequence c t a s)"
          by (simp add: mailbox_sequence_def opened_sel1)
        show ?thesis
        proof (cases "findMailboxDelivery p a i m s")
          case (Inr found)
          show ?thesis
          proof (cases found)
            case None
            with Inr have fresh: "findMailboxDelivery p a i m s = Inr None" by simp
            show ?thesis
            proof (cases "maximumPendingMailboxMessages \<le> affected (message_for c t a) (mailbox_messages s)
                \<or> last_sequence c t a s = MaxInt64")
              case True
              then show ?thesis
                using st a q fresh open_ok seq
                by (auto simp: sendMailboxMessageTx_def send_spec_def names Let_def tx_defs)
            next
              case False
              note tail = send_tail [of s m ts p a i r, folded c_def t_def, OF assms
                  stored_principal_Inr(2) [OF assms(2) st, folded p_def, folded c_def t_def] fresh r]
              show ?thesis
                using st a q fresh open_ok seq False tail
                by (simp add: sendMailboxMessageTx_def send_spec_def names Let_def tx_defs not_le)
            qed
          qed (use st a q Inr in \<open>simp add: sendMailboxMessageTx_def send_spec_def names Let_def tx_defs\<close>)
        qed (use st a q in \<open>simp add: sendMailboxMessageTx_def send_spec_def names Let_def tx_defs\<close>)
      qed (use st a in \<open>simp add: sendMailboxMessageTx_def send_spec_def names Let_def tx_defs\<close>)
    qed (use st in \<open>simp add: sendMailboxMessageTx_def send_spec_def names Let_def tx_defs\<close>)
  qed (simp add: sendMailboxMessageTx_def send_spec_def names Let_def tx_defs)
qed

end
