(* ===== verification/Mailbox_Steps.thy ===== *)
theory Mailbox_Steps
  imports Mailbox_Inv
begin

text \<open>
  Sends and reads of mailboxes keep the mailbox invariant; what each of them changes, case by case.
\<close>

section \<open>Sends\<close>

lemma SendMailboxMessage_cases:
  assumes inv: "mailbox_inv s" "trees_inv s"
    and run: "SendMailboxMessage source target i m ts s = (Inr d, s')"
  defines "p \<equiv> p_Identity source"
  obtains (replay) st a q r where "stored_principal source s = Inr st" "resolveMessageRecipient st target s = Inr a"
      "sel1 (principal_at (pi_ControllerID p) (pi_TreeID p) a) (principals s) = Some q"
      "sel1 (\<lambda>r. mr_message_id r = i) (mailbox_receipts s) = Some r" "receipt_matches p a m r"
      "d = \<lparr>md_RecipientAgentID = a, md_MessageID = i, md_Sequence = nat (mr_sequence r)\<rparr>" "s' = s"
  | (fresh) st a q where "stored_principal source s = Inr st" "resolveMessageRecipient st target s = Inr a"
      "sel1 (principal_at (pi_ControllerID p) (pi_TreeID p) a) (principals s) = Some q"
      "sel1 (\<lambda>r. mr_message_id r = i) (mailbox_receipts s) = None"
      "affected (message_for (pi_ControllerID p) (pi_TreeID p) a) (mailbox_messages s) < maximumPendingMailboxMessages"
      "last_sequence (pi_ControllerID p) (pi_TreeID p) a s < MaxInt64"
      "d = \<lparr>md_RecipientAgentID = a, md_MessageID = i,
            md_Sequence = nat (last_sequence (pi_ControllerID p) (pi_TreeID p) a s + 1)\<rparr>"
      "s' = enqueued p a i m ts s"
proof -
  have val: "ValidateMailboxMessage m = None" "0 \<le> ts"
    and tx: "sendMailboxMessageTx source target i m ts s = Inr (d, s')"
    using run by (simp_all add: SendMailboxMessage_def)
  then have spec: "send_spec source target i m ts s = Inr (d, s')"
    using sendMailboxMessageTx_eq [OF inv val] by simp
  then obtain st a q f where st: "stored_principal source s = Inr st" and a: "resolveMessageRecipient st target s = Inr a"
    and q: "queryPrincipal (pi_ControllerID p) (pi_TreeID p) a s = Inr q" and f: "findMailboxDelivery p a i m s = Inr f"
    unfolding send_spec_def Let_def p_def by (auto split: sum.splits)
  obtain qr where qr: "sel1 (principal_at (pi_ControllerID p) (pi_TreeID p) a) (principals s) = Some qr"
    using q by (auto simp: queryPrincipal_inv [OF inv(2)] split: option.splits)
  show thesis
  proof (cases f)
    case None
    then have "sel1 (\<lambda>r. mr_message_id r = i) (mailbox_receipts s) = None"
      using f by (auto simp: findMailboxDelivery_def split: option.splits if_splits)
    then show thesis
      using fresh [OF st a qr] spec st a q f None last_sequence_bounds(2) [OF inv(1)]
      by (auto simp: send_spec_def Let_def p_def [symmetric] order.strict_iff_order split: if_splits)
  next
    case (Some e)
    then obtain r where r: "sel1 (\<lambda>r. mr_message_id r = i) (mailbox_receipts s) = Some r" "receipt_matches p a m r"
      and e: "e = \<lparr>md_RecipientAgentID = mr_recipient_agent_id r, md_MessageID = i,
                   md_Sequence = uint64_of_int64 (mr_sequence r)\<rparr>"
      using f by (auto simp: findMailboxDelivery_def split: option.splits if_splits)
    have rin: "r \<in> set (mailbox_receipts s)" using sel1_SomeD [OF r(1)] by simp
    have "uint64_of_int64 (mr_sequence r) = nat (mr_sequence r)"
      using uint64_of_int64_nat [of "mr_sequence r"] receipt_below_last [OF inv(1) rin receipt_box_def]
        order_trans [OF receipt_below_last(2) [OF inv(1) rin receipt_box_def] last_sequence_bounds(2) [OF inv(1)]]
      by simp
    then show thesis
      using replay [OF st a qr r] spec st a q f Some e r(2)
      by (auto simp: send_spec_def Let_def p_def [symmetric] receipt_matches_def)
  qed
qed

lemma mailbox_source_ok:
  assumes "trees_inv s" "stored_principal source s = Inr st"
  shows "PrincipalIdentity_Validate (p_Identity source) = None"
proof -
  obtain r where r: "r \<in> set (principals s)" "identity_of r = p_Identity source"
    using stored_principal_Inr(1) [OF assms] by auto
  then show ?thesis
    using trees_invD(5) [OF assms(1) r(1)] by (simp add: principal_row_ok_def Principal_Validate_def)
qed

lemma enqueued_tables:
  "trees (enqueued p a i m ts s) = trees s" "principals (enqueued p a i m ts s) = principals s"
  "mailbox_receipts (enqueued p a i m ts s) =
     pruned (pi_ControllerID p) (pi_TreeID p) a s
     @ [receipt_row p a (last_sequence (pi_ControllerID p) (pi_TreeID p) a s + 1) i m]"
  "mailbox_messages (enqueued p a i m ts s) =
     mailbox_messages s @ [message_row p a (last_sequence (pi_ControllerID p) (pi_TreeID p) a s + 1) i m ts]"
  "mailboxes (enqueued p a i m ts s) =
     upd (mailbox_at (pi_ControllerID p) (pi_TreeID p) a)
       (\<lambda>r. r\<lparr>mb_last_sequence := last_sequence (pi_ControllerID p) (pi_TreeID p) a s + 1\<rparr>)
       (mailboxes (opened (pi_ControllerID p) (pi_TreeID p) a s))"
  by (simp_all add: enqueued_def Let_def)

lemma mailbox_key_bump [simp]: "mailbox_key (r\<lparr>mb_last_sequence := n\<rparr>) = mailbox_key r"
  by (simp add: mailbox_key_def)

lemma enqueued_inv:
  assumes inv: "mailbox_inv s" and src: "PrincipalIdentity_Validate p = None"
    and msg: "ValidateMailboxMessage m = None" and ts: "0 \<le> ts" and id: "ValidateID i = None"
    and fresh: "sel1 (\<lambda>r. mr_message_id r = i) (mailbox_receipts s) = None"
    and rcpt: "sel1 (principal_at (pi_ControllerID p) (pi_TreeID p) a) (principals s) = Some q"
    and room: "affected (message_for (pi_ControllerID p) (pi_TreeID p) a) (mailbox_messages s) < maximumPendingMailboxMessages"
    and low: "last_sequence (pi_ControllerID p) (pi_TreeID p) a s < MaxInt64"
  shows "mailbox_inv (enqueued p a i m ts s)"
proof -
  define c where "c = pi_ControllerID p"
  define t where "t = pi_TreeID p"
  define n where "n = last_sequence c t a s + 1"
  define e where "e = enqueued p a i m ts s"
  note tab = enqueued_tables [of p a i m ts s, folded c_def t_def, folded n_def, folded e_def]
  have room': "affected (message_for c t a) (mailbox_messages s) < maximumPendingMailboxMessages"
    using room by (simp add: c_def t_def)
  have inv1: "mailbox_inv (opened c t a s)" by (rule opened_inv [OF inv]) (use rcpt in \<open>simp add: c_def t_def\<close>)
  have n: "0 < n" "n \<le> MaxInt64"
    using last_sequence_bounds(1) [OF inv, of c t a] low by (simp_all add: n_def c_def t_def)
  have "((c, t, a), n) \<noteq> receipt_slot r" if "r \<in> set (mailbox_receipts s)" for r
    using receipt_below_last(2) [OF inv that, of c t a] by (auto simp: receipt_slot_def n_def)
  then have new: "i \<notin> mr_message_id ` set (mailbox_receipts s)" "((c, t, a), n) \<notin> receipt_slot ` set (mailbox_receipts s)"
    using fresh by (auto simp: sel1_None_iff)
  have kept: "receipt_of x \<in> set (pruned c t a s)" if "x \<in> set (mailbox_messages s)" for x
  proof (rule prune_facts(3) [OF inv room'])
    show "receipt_of x \<in> set (mailbox_receipts s)" using mailbox_invD(7) [OF inv that] by (simp add: message_row_ok_def)
    show "awaited s (receipt_of x) \<or> \<not> receipt_for c t a (receipt_of x)"
      using that by (auto simp: awaited_def list_ex_iff)
  qed
  have keys: "uniq mailbox_key (mailboxes e)"
    using mailbox_invD(1) [OF inv1] by (simp add: tab mailbox_key_def)
  have ids: "uniq mr_message_id (mailbox_receipts e)" "uniq receipt_slot (mailbox_receipts e)"
    "uniq ms_message_id (mailbox_messages e)"
  proof -
    show "uniq mr_message_id (mailbox_receipts e)" "uniq receipt_slot (mailbox_receipts e)"
      using pruned_uniq [OF mailbox_invD(2) [OF inv], of c t a] pruned_uniq [OF mailbox_invD(3) [OF inv], of c t a]
        new pruned_subset [of c t a s] by (auto simp: tab receipt_slot_def c_def t_def)
    have "i \<notin> ms_message_id ` set (mailbox_messages s)"
      using new(1) mailbox_invD(7) [OF inv] by (force simp: message_row_ok_def)
    then show "uniq ms_message_id (mailbox_messages e)" using mailbox_invD(4) [OF inv] by (simp add: tab)
  qed
  have boxes: "mailbox_row_ok e r" if r: "r \<in> set (mailboxes e)" for r
    using r [unfolded tab(5)] mailbox_invD(5) [OF inv1] n
    by (cases rule: in_upd_cases) (auto simp: mailbox_row_ok_def tab mailbox_key_def)
  have grown: "\<exists>b' \<in> set (mailboxes e). mailbox_key b' = mailbox_key b \<and> mb_last_sequence b \<le> mb_last_sequence b'"
    if b: "b \<in> set (mailboxes (opened c t a s))" for b
  proof -
    have "mb_last_sequence b = last_sequence c t a s" if "mailbox_at c t a b"
      using uniq_sel1 [OF mailbox_invD(1) [OF inv1] b] that opened_sel1 [of c t a s] by (auto simp: box_keys)
    then have "mb_last_sequence b \<le> mb_last_sequence (if mailbox_at c t a b then b\<lparr>mb_last_sequence := n\<rparr> else b)"
      by (simp add: n_def)
    moreover have "(if mailbox_at c t a b then b\<lparr>mb_last_sequence := n\<rparr> else b) \<in> set (mailboxes e)"
      unfolding tab(5) set_upd using b by (rule imageI)
    ultimately show ?thesis by (metis (lifting) mailbox_key_bump)
  qed
  have rec: "receipt_row_ok e r" if r: "r \<in> set (mailbox_receipts e)" for r
  proof (cases "r \<in> set (mailbox_receipts s)")
    case True
    then show ?thesis
      using mailbox_invD(6) [OF inv1, of r] grown unfolding receipt_row_ok_def opened_simps by (metis order_trans)
  next
    case False
    then have r: "r = receipt_row p a n i m" using r pruned_subset [of c t a s] by (auto simp: tab)
    let ?b = "\<lparr>mb_controller_id = c, mb_tree_id = t, mb_recipient_agent_id = a, mb_last_sequence = last_sequence c t a s\<rparr>"
    have "?b \<in> set (mailboxes (opened c t a s))" "mailbox_at c t a ?b"
      using sel1_SomeD [OF opened_sel1 [of c t a s]] by simp_all
    then have "?b\<lparr>mb_last_sequence := n\<rparr> \<in> set (mailboxes e)"
      unfolding tab(5) set_upd by (intro image_eqI [where x = ?b]) simp_all
    then show ?thesis
      unfolding r receipt_row_ok_def using n(1) by (intro conjI bexI) (simp_all add: mailbox_key_def c_def t_def)
  qed
  have msgs: "message_row_ok e r" if r: "r \<in> set (mailbox_messages e)" for r
  proof (cases "r \<in> set (mailbox_messages s)")
    case True
    then show ?thesis using kept mailbox_invD(7) [OF inv] by (auto simp: message_row_ok_def tab)
  next
    case False
    then have "r = message_row p a n i m ts" using r by (auto simp: tab)
    then show ?thesis
      using src msg ts id n by (simp add: message_row_ok_def tab mailbox_message_def MailboxMessage_Validate_def)
  qed
  have quota: "affected (message_for c' t' a') (mailbox_messages e) \<le> maximumPendingMailboxMessages"
    "affected (receipt_for c' t' a') (mailbox_receipts e) \<le> maximumMailboxReceipts" for c' t' a'
  proof -
    show "affected (message_for c' t' a') (mailbox_messages e) \<le> maximumPendingMailboxMessages"
      using room' mailbox_invD(8) [OF inv, of c' t' a'] by (auto simp: tab affected_snoc box_keys c_def t_def)
    have "affected (receipt_for c' t' a') (pruned c t a s) \<le> affected (receipt_for c' t' a') (mailbox_receipts s)"
      unfolding pruned_def Let_def affected_filter by (rule affected_conj_le)
    then show "affected (receipt_for c' t' a') (mailbox_receipts e) \<le> maximumMailboxReceipts"
      using prune_facts(2) [OF inv room'] mailbox_invD(9) [OF inv, of c' t' a']
      by (auto simp: tab affected_snoc box_keys c_def t_def)
  qed
  show ?thesis
    using keys ids boxes rec msgs quota unfolding mailbox_inv_def e_def [symmetric] by blast
qed

lemma SendMailboxMessage_inv:
  assumes "mailbox_inv s" "trees_inv s"
  shows "mailbox_inv (snd (SendMailboxMessage source target i m ts s))
    \<and> trees_inv (snd (SendMailboxMessage source target i m ts s))"
proof -
  have "mailbox_inv s' \<and> trees_inv s'" if run: "SendMailboxMessage source target i m ts s = (Inr d, s')" for d s'
    using assms run
  proof (cases rule: SendMailboxMessage_cases)
    case (fresh st a q)
    have "ValidateMailboxMessage m = None" "0 \<le> ts" "ValidateID i = None"
      using run by (simp_all add: SendMailboxMessage_def)
    then show ?thesis
      using enqueued_inv [OF assms(1) mailbox_source_ok [OF assms(2) fresh(1)]] fresh assms(2)
        trees_inv_cong [of s' s] by (simp add: enqueued_tables)
  qed (use assms in simp)
  then show ?thesis
    using assms unfolding SendMailboxMessage_def by - (rule guard_tx_state, auto)
qed


section \<open>Reads\<close>

lemma sort_key_snoc_max:
  assumes "\<And>y. y \<in> set xs \<Longrightarrow> f y \<le> f x"
  shows "sort_key f (xs @ [x]) = sort_key f xs @ [x]"
proof (rule properties_for_sort_key)
  show "filter (\<lambda>y. f k = f y) (sort_key f xs @ [x]) = filter (\<lambda>y. f k = f y) (xs @ [x])" for k
    using sort_key_stable [of f "f k" xs] by (simp add: eq_commute)
  show "sorted (map f (sort_key f xs @ [x]))" using assms by (simp add: sorted_append)
qed simp

lemma message_sequence_bounds:
  assumes "mailbox_inv s" "r \<in> set (mailbox_messages s)"
  shows "0 < ms_sequence r" "ms_sequence r \<le> MaxInt64"
    "message_box r = (c, t, a) \<Longrightarrow> ms_sequence r \<le> last_sequence c t a s"
proof -
  have rc: "receipt_of r \<in> set (mailbox_receipts s)"
    using mailbox_invD(7) [OF assms] by (simp add: message_row_ok_def)
  note b = receipt_below_last [OF assms(1) rc]
  show "0 < ms_sequence r" using b(1) [OF receipt_box_def] by simp
  show "ms_sequence r \<le> MaxInt64"
    using order_trans [OF b(2) [OF receipt_box_def] last_sequence_bounds(2) [OF assms(1)]] by simp
  show "ms_sequence r \<le> last_sequence c t a s" if "message_box r = (c, t, a)"
    using b(2) [of c t a] that by simp
qed

lemma scan_message_ok:
  assumes "mailbox_inv s" "r \<in> set (mailbox_messages s)" "message_for (pi_ControllerID p) (pi_TreeID p) a r"
  shows "scan_message p r = Inr (mailbox_message r)"
proof -
  have "uint64_of_int64 (ms_sequence r) = nat (ms_sequence r)"
    using uint64_of_int64_nat message_sequence_bounds [OF assms(1,2)] by simp
  then show ?thesis
    using mailbox_invD(7) [OF assms(1,2)] assms(3)
    by (simp add: scan_message_def message_row_ok_def mailbox_message_def message_source_def message_for_def Let_def)
qed

lemma pending_after_acknowledge [simp]:
  "pending_after c t a k (acknowledge c t a k s) = pending_after c t a k s"
  by (auto simp: pending_after_def acknowledge_def intro!: arg_cong [where f = "sort_key ms_sequence"] filter_cong)

lemma set_pending_after:
  "set (pending_after c t a k s) = {r \<in> set (mailbox_messages s). message_for c t a r \<and> int k < ms_sequence r}"
  by (auto simp: pending_after_def)

definition read_page :: "string \<Rightarrow> string \<Rightarrow> string \<Rightarrow> nat \<Rightarrow> int \<Rightarrow> BrokerDb \<Rightarrow> WaitMailboxResult" where
  "read_page c t a cursor limit s =
     (let ms = map mailbox_message (take (nat limit) (pending_after c t a cursor s)) in
      \<lparr>wm_Messages = ms, wm_NextCursor = (if ms = [] then cursor else mm_Sequence (last ms))\<rparr>)"

lemma no_mailbox_no_messages:
  assumes "mailbox_inv s" "sel1 (mailbox_at c t a) (mailboxes s) = None"
  shows "pending_after c t a k s = []"
proof -
  have False if r: "r \<in> set (mailbox_messages s)" "message_box r = (c, t, a)" for r
  proof -
    have "receipt_of r \<in> set (mailbox_receipts s)"
      using mailbox_invD(7) [OF assms(1) r(1)] by (simp add: message_row_ok_def)
    then obtain m where "m \<in> set (mailboxes s)" "mailbox_key m = (c, t, a)"
      using mailbox_invD(6) [OF assms(1)] r(2) by (fastforce simp: receipt_row_ok_def)
    then show False using assms(2) by (auto simp: sel1_None_iff box_keys)
  qed
  then have "set (pending_after c t a k s) = {}" by (auto simp: set_pending_after box_keys)
  then show ?thesis by simp
qed

lemma ReadMailbox_tx_eq:
  fixes recipient :: Principal
  assumes "mailbox_inv s" "trees_inv s"
  defines "p \<equiv> p_Identity recipient"
  defines "c \<equiv> pi_ControllerID p" and "t \<equiv> pi_TreeID p" and "a \<equiv> pi_AgentID p"
  shows "ReadMailbox_tx recipient cursor limit s =
    (case stored_principal recipient s of
       Inl e \<Rightarrow> Inl e
     | Inr _ \<Rightarrow>
         if last_sequence c t a s < int cursor then Inl (Sentinel ErrMailboxCursorAhead)
         else Inr (read_page c t a cursor limit s, acknowledge c t a cursor s))"
proof (cases "stored_principal recipient s")
  case (Inr st)
  show ?thesis
  proof (cases "sel1 (mailbox_at c t a) (mailboxes s)")
    case None
    then have "last_sequence c t a s = 0" by (simp add: last_sequence_def)
    moreover have "read_page c t a 0 limit s = \<lparr>wm_Messages = [], wm_NextCursor = 0\<rparr>"
      using no_mailbox_no_messages [OF assms(1) None] by (simp add: read_page_def)
    ultimately show ?thesis
      using Inr None
      by (auto simp: ReadMailbox_tx_def p_def [symmetric] c_def [symmetric] t_def [symmetric] a_def [symmetric]
          Let_def tx_defs acknowledge_def)
  next
    case (Some mb)
    have seq: "uint64_of_int64 (mb_last_sequence mb) = nat (last_sequence c t a s)"
      using Some uint64_of_int64_nat [of "mb_last_sequence mb"] last_sequence_bounds [OF assms(1), of c t a]
      by (simp add: last_sequence_def)
    have ahead: "nat (last_sequence c t a s) < cursor \<longleftrightarrow> last_sequence c t a s < int cursor"
      using last_sequence_bounds(1) [OF assms(1), of c t a] by linarith
    have scan: "traverse (scan_message p) (take (nat limit) (pending_after c t a cursor s)) =
        Inr (map mailbox_message (take (nat limit) (pending_after c t a cursor s)))"
      by (rule traverse_all, rule scan_message_ok [OF assms(1), of _ _ a])
        (auto dest!: in_set_takeD simp: set_pending_after c_def t_def)
    show ?thesis
      using Inr Some seq ahead scan
      by (simp add: ReadMailbox_tx_def p_def [symmetric] c_def [symmetric] t_def [symmetric] a_def [symmetric]
          Let_def tx_defs read_page_def)
  qed
qed (simp add: ReadMailbox_tx_def Let_def tx_defs)

lemma acknowledge_inv:
  assumes "mailbox_inv s"
  shows "mailbox_inv (acknowledge c t a k s)"
proof (cases "k = 0")
  case False
  let ?keep = "\<lambda>r. \<not> (message_for c t a r \<and> ms_sequence r \<le> int k)"
  have s': "acknowledge c t a k s = s\<lparr>mailbox_messages := filter ?keep (mailbox_messages s)\<rparr>"
    using False by (simp add: acknowledge_def)
  have "affected (message_for c' t' a') (filter ?keep (mailbox_messages s)) \<le> maximumPendingMailboxMessages" for c' t' a'
    unfolding affected_filter by (rule order_trans [OF affected_conj_le mailbox_invD(8) [OF assms]])
  then show ?thesis
    using assms unfolding s' mailbox_inv_def mailbox_row_ok_def receipt_row_ok_def message_row_ok_def
    by (simp add: uniq_filter)
qed (use assms in \<open>simp add: acknowledge_def\<close>)

lemma acknowledge_simps [simp]:
  "trees (acknowledge c t a k s) = trees s" "principals (acknowledge c t a k s) = principals s"
  "mailboxes (acknowledge c t a k s) = mailboxes s" "mailbox_receipts (acknowledge c t a k s) = mailbox_receipts s"
  by (simp_all add: acknowledge_def)

lemma ReadMailbox_Inr:
  assumes "mailbox_inv s" "trees_inv s" "ReadMailbox recipient cursor limit s = (Inr w, s')"
  defines "c \<equiv> pi_ControllerID (p_Identity recipient)" and "t \<equiv> pi_TreeID (p_Identity recipient)"
    and "a \<equiv> pi_AgentID (p_Identity recipient)"
  shows "w = read_page c t a cursor limit s" "s' = acknowledge c t a cursor s"
    "int cursor \<le> last_sequence c t a s" "1 \<le> limit" "\<exists>st. stored_principal recipient s = Inr st"
proof -
  have tx: "ReadMailbox_tx recipient cursor limit s = Inr (w, s')" and lim: "1 \<le> limit"
    using assms(3) by (simp_all add: ReadMailbox_def)
  then show "w = read_page c t a cursor limit s" "s' = acknowledge c t a cursor s"
    "int cursor \<le> last_sequence c t a s" "1 \<le> limit" "\<exists>st. stored_principal recipient s = Inr st"
    by (auto simp: ReadMailbox_tx_eq [OF assms(1,2)] c_def t_def a_def split: sum.splits if_splits)
qed

lemma ReadMailbox_inv:
  assumes "mailbox_inv s" "trees_inv s"
  shows "mailbox_inv (snd (ReadMailbox recipient cursor limit s))
    \<and> trees_inv (snd (ReadMailbox recipient cursor limit s))"
proof -
  have "mailbox_inv s' \<and> trees_inv s'" if run: "ReadMailbox recipient cursor limit s = (Inr w, s')" for w s'
    using ReadMailbox_Inr(2) [OF assms run] acknowledge_inv [OF assms(1)] assms(2) trees_inv_cong [of s' s] by simp
  then show ?thesis
    using assms unfolding ReadMailbox_def by - (rule guard_tx_state, auto)
qed

section \<open>What mailbox operations leave alone\<close>

definition but_mailboxes :: "BrokerDb \<Rightarrow> BrokerDb" where
  "but_mailboxes s = s\<lparr>mailboxes := [], mailbox_messages := [], mailbox_receipts := []\<rparr>"

lemma but_mailboxes_simps [simp]:
  "but_mailboxes (s\<lparr>mailboxes := a\<rparr>) = but_mailboxes s" "but_mailboxes (s\<lparr>mailbox_messages := b\<rparr>) = but_mailboxes s"
  "but_mailboxes (s\<lparr>mailbox_receipts := d\<rparr>) = but_mailboxes s" "but_mailboxes (advance_mailbox c t a' m n s) = but_mailboxes s"
  "but_mailboxes (acknowledge c t a' n' s) = but_mailboxes s"
  by (simp_all add: but_mailboxes_def advance_mailbox_def acknowledge_def)

lemma mailbox_tx_frame [tx_frame]:
  "tx_preserves but_mailboxes (open_mailbox c t a)"
  "tx_preserves but_mailboxes (pruneAcknowledgedMailboxReceipts c t a)"
  unfolding open_mailbox_def pruneAcknowledgedMailboxReceipts_def by (intro tx_frame; simp)+

lemma sendMailboxMessageTx_frame:
  "tx_preserves but_mailboxes (sendMailboxMessageTx p target i m t)"
  unfolding sendMailboxMessageTx_def Let_def by (intro tx_frame; simp)+

lemma ReadMailbox_tx_frame: "tx_preserves but_mailboxes (ReadMailbox_tx p cursor limit)"
  unfolding ReadMailbox_tx_def Let_def by (intro tx_frame; simp)+

lemma but_mailboxes_field:
  assumes "but_mailboxes s' = but_mailboxes s"
    "\<And>s a b d. g (s\<lparr>mailboxes := a, mailbox_messages := b, mailbox_receipts := d\<rparr>) = g s"
  shows "g s' = g s"
  using assms unfolding but_mailboxes_def by metis

lemma but_mailboxesD:
  assumes "but_mailboxes s' = but_mailboxes s"
  shows "trees s' = trees s" "principals s' = principals s" "devices s' = devices s"
    "controller_registries s' = controller_registries s" "workspace_sync_receipts s' = workspace_sync_receipts s"
    "agent_spawn_receipts s' = agent_spawn_receipts s" "agent_operation_receipts s' = agent_operation_receipts s"
    "peer_worker_sync_cursors s' = peer_worker_sync_cursors s" "agent_lifecycle_states s' = agent_lifecycle_states s"
    "controller_lifetime_counters s' = controller_lifetime_counters s" "credentials s' = credentials s"
    "device_worker_readiness s' = device_worker_readiness s" "broker_metadata s' = broker_metadata s"
  by (rule but_mailboxes_field [OF assms], simp)+

end
