(* ===== verification/Operation.thy ===== *)
theory Operation
  imports Spawn_Steps Mailbox_Steps
begin

text \<open>
  Operations on running agents: \<^verbatim>\<open>internal/store/agent_operation.go\<close>. A root sends a message to, follows
  up on or interrupts an agent it spawned; the receipt is begun once per operation identifier and
  finished once. Queueing a message delivers it to the agent's mailbox and finishes the operation in
  one transaction.
\<close>

record AgentOperationIntent =
  oi_Source :: PrincipalIdentity
  oi_OperationID :: string
  oi_AgentID :: string
  oi_Action :: AgentOperationAction
  oi_PayloadDigest :: string

record AgentOperationKey =
  ok_ControllerID :: string
  ok_TreeID :: string
  ok_SourceAgentID :: string
  ok_OperationID :: string

record AgentOperationReceipt =
  or_Key :: AgentOperationKey
  or_AgentID :: string
  or_TargetDeviceID :: string
  or_Action :: AgentOperationAction
  or_PayloadDigest :: string
  or_Outcome :: AgentOperationOutcome
  or_FailureCode :: string
  or_CreatedAt :: int
  or_UpdatedAt :: int

definition AgentOperationKey_Validate :: "AgentOperationKey \<Rightarrow> err" where
  "AgentOperationKey_Validate k = first_err
     [wrap ''controllerId'' (ValidateID (ok_ControllerID k)), wrap ''treeId'' (ValidateID (ok_TreeID k)),
      wrap ''sourceAgentId'' (ValidateID (ok_SourceAgentID k)), wrap ''operationId'' (ValidateID (ok_OperationID k))]"

definition validateAgentOperationIntent :: "AgentOperationIntent \<Rightarrow> err" where
  "validateAgentOperationIntent i = first_err
     [wrap ''source'' (PrincipalIdentity_Validate (oi_Source i)),
      wrap ''operationId'' (ValidateID (oi_OperationID i)), wrap ''agentId'' (ValidateID (oi_AgentID i)),
      AgentOperationAction_Validate (oi_Action i)]"

definition agentOperationMatchesIntent :: "AgentOperationReceipt \<Rightarrow> AgentOperationIntent \<Rightarrow> bool" where
  "agentOperationMatchesIntent r i \<longleftrightarrow>
     ok_ControllerID (or_Key r) = pi_ControllerID (oi_Source i)
     \<and> ok_TreeID (or_Key r) = pi_TreeID (oi_Source i)
     \<and> ok_SourceAgentID (or_Key r) = pi_AgentID (oi_Source i)
     \<and> ok_OperationID (or_Key r) = oi_OperationID i
     \<and> or_AgentID r = oi_AgentID i \<and> or_Action r = oi_Action i \<and> or_PayloadDigest r = oi_PayloadDigest i"

section \<open>Reading receipts\<close>

definition operation_at :: "AgentOperationKey \<Rightarrow> OperationRow \<Rightarrow> bool" where
  "operation_at k r \<longleftrightarrow>
     op_controller_id r = ok_ControllerID k \<and> op_tree_id r = ok_TreeID k
     \<and> op_source_agent_id r = ok_SourceAgentID k \<and> op_operation_id r = ok_OperationID k"

definition agentOperationSelect :: "AgentOperationKey \<Rightarrow> BrokerDb \<Rightarrow> (OperationRow \<times> PrincipalRow) option" where
  "agentOperationSelect k s =
     (case sel1 (operation_at k) (agent_operation_receipts s) of
        None \<Rightarrow> None
      | Some r \<Rightarrow>
          map_option (Pair r) (sel1 (principal_at (op_controller_id r) (op_tree_id r) (op_agent_id r)) (principals s)))"

definition operation_receipt_of :: "OperationRow \<Rightarrow> string \<Rightarrow> AgentOperationReceipt" where
  "operation_receipt_of r device =
     \<lparr>or_Key = \<lparr>ok_ControllerID = op_controller_id r, ok_TreeID = op_tree_id r,
                ok_SourceAgentID = op_source_agent_id r, ok_OperationID = op_operation_id r\<rparr>,
      or_AgentID = op_agent_id r, or_TargetDeviceID = device, or_Action = op_action r,
      or_PayloadDigest = op_payload_digest r, or_Outcome = op_outcome r, or_FailureCode = op_failure_code r,
      or_CreatedAt = op_created_at r, or_UpdatedAt = op_updated_at r\<rparr>"

definition operation_result_of :: "AgentOperationReceipt \<Rightarrow> AgentOperationResult" where
  "operation_result_of x =
     \<lparr>aor_OperationID = ok_OperationID (or_Key x), aor_AgentID = or_AgentID x, aor_Action = or_Action x,
      aor_Outcome = or_Outcome x, aor_FailureCode = or_FailureCode x\<rparr>"

definition scanAgentOperationReceipt :: "(OperationRow \<times> PrincipalRow) option \<Rightarrow> AgentOperationReceipt result" where
  "scanAgentOperationReceipt row =
     (case row of
        None \<Rightarrow> Inl (Sentinel ErrNotFound)
      | Some (r, p) \<Rightarrow>
          let x = operation_receipt_of r (pr_device_id p) in
          guard_res (first_err
            [fail_if (length (op_payload_digest r) \<noteq> 32) (Plain ''stored agent operation payload digest is invalid''),
             wrap ''stored agent operation key is invalid'' (AgentOperationKey_Validate (or_Key x)),
             fail_if (pr_parent_agent_id p \<noteq> ok_SourceAgentID (or_Key x))
               (Plain ''stored agent operation target is not a direct descendant''),
             wrap ''stored agent operation targetDeviceId'' (ValidateID (or_TargetDeviceID x)),
             wrap ''stored agent operation receipt is invalid'' (AgentOperationResult_Validate (operation_result_of x)),
             fail_if (or_CreatedAt x < 0 \<or> or_UpdatedAt x < or_CreatedAt x)
               (Plain ''stored agent operation timestamps are invalid'')])
          (Inr x))"

definition queryAgentOperationReceipt :: "AgentOperationKey \<Rightarrow> BrokerDb \<Rightarrow> AgentOperationReceipt result" where
  "queryAgentOperationReceipt key s = scanAgentOperationReceipt (agentOperationSelect key s)"

definition authorizeAgentOperationSource :: "PrincipalIdentity \<Rightarrow> BrokerDb \<Rightarrow> unit result" where
  "authorizeAgentOperationSource source s =
     (case authorizePrincipal source CapabilityAgentManageDescendants s of
        Inl e \<Rightarrow> Inl e
      | Inr prin \<Rightarrow>
          if pi_ParentAgentID (p_Identity prin) \<noteq> '''' then Inl (Sentinel ErrAuthorizationDenied) else Inr ())"

definition spawned_agent_at :: "string \<Rightarrow> string \<Rightarrow> string \<Rightarrow> SpawnRow \<Rightarrow> bool" where
  "spawned_agent_at c t a r \<longleftrightarrow> sp_controller_id r = c \<and> sp_tree_id r = t \<and> sp_agent_id r = a"

definition queryStartedDirectDescendant :: "PrincipalIdentity \<Rightarrow> string \<Rightarrow> BrokerDb \<Rightarrow> AgentSpawnReceipt result" where
  "queryStartedDirectDescendant source agentID s =
     (case scanAgentSpawnReceipt
        (agentSpawnSelect (spawned_agent_at (pi_ControllerID source) (pi_TreeID source) agentID) s) of
        Inl e \<Rightarrow> Inl e
      | Inr receipt \<Rightarrow>
          if pi_ParentAgentID (as_Principal (sr_Agent receipt)) \<noteq> pi_AgentID source
          then Inl (Sentinel ErrAuthorizationDenied)
          else if as_SpawnStatus (sr_Agent receipt) \<noteq> AgentSpawnStarted
          then Inl (Wrapped ''managed agent has not started'' (Sentinel ErrConflict))
          else Inr receipt)"

section \<open>Begin and lookup\<close>

definition operation_key_of :: "PrincipalIdentity \<Rightarrow> string \<Rightarrow> AgentOperationKey" where
  "operation_key_of source operationID =
     \<lparr>ok_ControllerID = pi_ControllerID source, ok_TreeID = pi_TreeID source,
      ok_SourceAgentID = pi_AgentID source, ok_OperationID = operationID\<rparr>"

definition new_operation_row :: "AgentOperationIntent \<Rightarrow> int \<Rightarrow> OperationRow" where
  "new_operation_row i timestamp =
     \<lparr>op_controller_id = pi_ControllerID (oi_Source i), op_tree_id = pi_TreeID (oi_Source i),
      op_source_agent_id = pi_AgentID (oi_Source i), op_operation_id = oi_OperationID i,
      op_action = oi_Action i, op_agent_id = oi_AgentID i, op_payload_digest = oi_PayloadDigest i,
      op_outcome = AgentOperationOutcomePending, op_failure_code = '''',
      op_created_at = timestamp, op_updated_at = timestamp\<rparr>"

definition operation_insertable :: "OperationRow \<Rightarrow> BrokerDb \<Rightarrow> bool" where
  "operation_insertable r s \<longleftrightarrow>
     length (op_payload_digest r) = 32 \<and> 0 \<le> op_created_at r \<and> op_created_at r \<le> op_updated_at r
     \<and> op_action r \<in> {AgentOperationSend, AgentOperationFollowup, AgentOperationInterrupt}
     \<and> list_all (\<lambda>x. \<not> (op_controller_id x = op_controller_id r \<and> op_tree_id x = op_tree_id r
          \<and> op_source_agent_id x = op_source_agent_id r \<and> op_operation_id x = op_operation_id r))
          (agent_operation_receipts s)
     \<and> list_ex (tree_at (op_controller_id r) (op_tree_id r)) (trees s)
     \<and> list_ex (principal_at (op_controller_id r) (op_tree_id r) (op_source_agent_id r)) (principals s)
     \<and> list_ex (principal_at (op_controller_id r) (op_tree_id r) (op_agent_id r)) (principals s)"

definition BeginAgentOperation_tx :: "AgentOperationIntent \<Rightarrow> int \<Rightarrow> (BrokerDb, AgentOperationReceipt) tx" where
  "BeginAgentOperation_tx i timestamp =
     tx_bind (tx_query (authorizeAgentOperationSource (oi_Source i))) (\<lambda>_.
     tx_bind (tx_query (\<lambda>s. or_not_found
         (queryAgentOperationReceipt (operation_key_of (oi_Source i) (oi_OperationID i)) s))) (\<lambda>found.
     case found of
       Some receipt \<Rightarrow>
         if \<not> agentOperationMatchesIntent receipt i
         then tx_fail (Wrapped ''operationId already identifies another request'' (Sentinel ErrConflict))
         else tx_ret receipt
     | None \<Rightarrow>
         tx_bind (tx_query (queryStartedDirectDescendant (oi_Source i) (oi_AgentID i))) (\<lambda>target.
         tx_bind (tx_insert ''create agent operation receipt'' (operation_insertable (new_operation_row i timestamp))
           (\<lambda>s. s\<lparr>agent_operation_receipts := agent_operation_receipts s @ [new_operation_row i timestamp]\<rparr>)) (\<lambda>_.
         tx_ret (operation_receipt_of (new_operation_row i timestamp)
                   (pi_DeviceID (as_Principal (sr_Agent target))))))))"

definition BeginAgentOperation ::
    "AgentOperationIntent \<Rightarrow> int \<Rightarrow> BrokerDb \<Rightarrow> AgentOperationReceipt result \<times> BrokerDb" where
  "BeginAgentOperation i createdAt =
     guard_tx (first_err [validateAgentOperationIntent i, unixTime createdAt ''createdAt''])
       (BeginAgentOperation_tx i createdAt)"

definition GetAgentOperation :: "PrincipalIdentity \<Rightarrow> string \<Rightarrow> BrokerDb \<Rightarrow> AgentOperationReceipt result" where
  "GetAgentOperation source operationID s =
     guard_res (first_err [wrap ''source'' (PrincipalIdentity_Validate source), wrap ''operationId'' (ValidateID operationID)])
       (case authorizeAgentOperationSource source s of
          Inl e \<Rightarrow> Inl e
        | Inr _ \<Rightarrow> queryAgentOperationReceipt (operation_key_of source operationID) s)"

section \<open>Finish\<close>

definition finish_operation_row :: "AgentOperationOutcome \<Rightarrow> string \<Rightarrow> int \<Rightarrow> OperationRow \<Rightarrow> OperationRow" where
  "finish_operation_row out failureCode timestamp r =
     r\<lparr>op_outcome := out, op_failure_code := failureCode, op_updated_at := timestamp\<rparr>"

definition finishAgentOperationTx ::
    "AgentOperationReceipt \<Rightarrow> AgentOperationOutcome \<Rightarrow> string \<Rightarrow> int \<Rightarrow> (BrokerDb, AgentOperationReceipt) tx" where
  "finishAgentOperationTx receipt out failureCode timestamp =
     tx_bind (tx_check (AgentOperationOutcome_Validate out (or_Action receipt) failureCode)) (\<lambda>_.
     if or_Outcome receipt = out then
       if or_FailureCode receipt \<noteq> failureCode
       then tx_fail (Wrapped ''agent operation terminal result differs'' (Sentinel ErrConflict))
       else tx_ret receipt
     else if or_Outcome receipt \<noteq> AgentOperationOutcomePending
     then tx_fail (Wrapped ''agent operation already has a terminal result'' (Sentinel ErrConflict))
     else if timestamp < or_CreatedAt receipt
     then tx_fail (Plain ''observedAt precedes agent operation creation'')
     else
       let at = (\<lambda>r. operation_at (or_Key receipt) r \<and> op_outcome r = AgentOperationOutcomePending) in
       tx_bind (tx_update (\<lambda>s. affected at (agent_operation_receipts s))
         (\<lambda>s. s\<lparr>agent_operation_receipts :=
            upd at (finish_operation_row out failureCode timestamp) (agent_operation_receipts s)\<rparr>)) (\<lambda>n.
       tx_bind (tx_check (fail_if (n \<noteq> 1)
         (Wrapped ''agent operation changed while finishing'' (Sentinel ErrConflict)))) (\<lambda>_.
       tx_bind (if or_Action receipt = AgentOperationFollowup \<and> out = AgentOperationOutcomeStarted
                then incrementStatusLifetimeCounters (ok_ControllerID (or_Key receipt)) (no_increment\<lparr>inc_TurnsStarted := 1\<rparr>)
                else tx_ret ()) (\<lambda>_.
       tx_ret (receipt\<lparr>or_Outcome := out, or_FailureCode := failureCode, or_UpdatedAt := timestamp\<rparr>)))))"

definition FinishAgentOperation ::
    "AgentOperationKey \<Rightarrow> AgentOperationOutcome \<Rightarrow> string \<Rightarrow> int \<Rightarrow> BrokerDb
     \<Rightarrow> AgentOperationReceipt result \<times> BrokerDb" where
  "FinishAgentOperation key out failureCode observedAt =
     guard_tx (first_err
       [AgentOperationKey_Validate key,
        fail_if (out = AgentOperationOutcomePending) (Plain ''agent operation terminal outcome is invalid''),
        unixTime observedAt ''observedAt''])
     (tx_bind (tx_query (queryAgentOperationReceipt key)) (\<lambda>receipt.
      finishAgentOperationTx receipt out failureCode observedAt))"

definition no_delivery :: MailboxDelivery where
  "no_delivery = \<lparr>md_RecipientAgentID = '''', md_MessageID = '''', md_Sequence = 0\<rparr>"

definition QueueAgentMessage_tx ::
    "AgentOperationKey \<Rightarrow> string \<Rightarrow> int \<Rightarrow> (BrokerDb, AgentOperationReceipt \<times> MailboxDelivery) tx" where
  "QueueAgentMessage_tx key message timestamp =
     tx_bind (tx_query (queryAgentOperationReceipt key)) (\<lambda>receipt.
     if or_Action receipt \<noteq> AgentOperationSend \<or> or_PayloadDigest receipt \<noteq> sha256_sum message
     then tx_fail (Wrapped ''queued message does not match agent operation'' (Sentinel ErrConflict))
     else if or_Outcome receipt = AgentOperationOutcomeQueued then tx_ret (receipt, no_delivery)
     else if or_Outcome receipt \<noteq> AgentOperationOutcomePending
     then tx_fail (Wrapped ''agent operation already has a terminal result'' (Sentinel ErrConflict))
     else
       tx_bind (tx_query (queryPrincipal (ok_ControllerID key) (ok_TreeID key) (ok_SourceAgentID key))) (\<lambda>source.
       tx_bind (tx_query (authorizeAgentOperationSource (p_Identity source))) (\<lambda>_.
       tx_bind (sendMailboxMessageTx source \<lparr>mt_Kind = MessageTargetAgent, mt_AgentID = or_AgentID receipt\<rparr>
                  (ok_OperationID key) message timestamp) (\<lambda>delivery.
       tx_bind (finishAgentOperationTx receipt AgentOperationOutcomeQueued '''' timestamp) (\<lambda>finished.
       tx_ret (finished, delivery))))))"

definition QueueAgentMessageAndFinishOperation ::
    "AgentOperationKey \<Rightarrow> string \<Rightarrow> int \<Rightarrow> BrokerDb \<Rightarrow> (AgentOperationReceipt \<times> MailboxDelivery) result \<times> BrokerDb" where
  "QueueAgentMessageAndFinishOperation key message observedAt =
     guard_tx (first_err [AgentOperationKey_Validate key, ValidateMailboxMessage message, unixTime observedAt ''observedAt''])
       (QueueAgentMessage_tx key message observedAt)"

end
