(* ===== verification/Operation_Inv.thy ===== *)
theory Operation_Inv
  imports Operation
begin

text \<open>
  The operation invariant: every stored operation addresses an agent that its source spawned and that
  has started, and passes the checks it is read with. Beginning is the \<open>receipts\<close> contract, finishing
  the \<open>terminal\<close> contract.
\<close>

section \<open>Spawns only move forward\<close>

definition spawn_le :: "SpawnRow \<Rightarrow> SpawnRow \<Rightarrow> bool" where
  "spawn_le r r' \<longleftrightarrow>
     spawn_key r' = spawn_key r \<and> spawn_identity r' = spawn_identity r \<and> sp_sequence r' = sp_sequence r
     \<and> sp_task_name r' = sp_task_name r \<and> sp_workspace_id r' = sp_workspace_id r
     \<and> sp_prompt_digest r' = sp_prompt_digest r \<and> sp_created_at r' = sp_created_at r
     \<and> (sp_status r \<noteq> AgentSpawnPending \<longrightarrow>
          sp_status r' = sp_status r \<and> sp_failure_code r' = sp_failure_code r)"

definition spawns_le :: "BrokerDb \<Rightarrow> BrokerDb \<Rightarrow> bool" where
  "spawns_le s s' \<longleftrightarrow>
     (\<forall>r \<in> set (agent_spawn_receipts s). \<exists>r' \<in> set (agent_spawn_receipts s'). spawn_le r r')"

lemma spawn_le_refl [simp]: "spawn_le r r"
  by (simp add: spawn_le_def)

lemma spawn_le_trans: "spawn_le a b \<Longrightarrow> spawn_le b c \<Longrightarrow> spawn_le a c"
  by (auto simp: spawn_le_def)

lemma spawns_le_subset: "set (agent_spawn_receipts s) \<subseteq> set (agent_spawn_receipts s') \<Longrightarrow> spawns_le s s'"
  unfolding spawns_le_def using spawn_le_refl by blast

lemma spawns_le_refl [simp]: "spawns_le s s"
  by (rule spawns_le_subset) simp

lemma spawns_le_trans: "spawns_le a b \<Longrightarrow> spawns_le b c \<Longrightarrow> spawns_le a c"
  unfolding spawns_le_def by (meson spawn_le_trans)

lemma BeginAgentSpawn_le:
  assumes "spawn_ok s" "BeginAgentSpawn i t s = (Inr x, s')"
  shows "spawns_le s s'"
  using assms by (cases rule: BeginAgentSpawn_cases) (auto intro: spawns_le_subset)

lemma finishAgentSpawn_le:
  assumes ok: "spawn_ok s" and run: "finishAgentSpawn k status code t s = (Inr x, s')"
  shows "spawns_le s s'"
  using assms
proof (cases rule: finishAgentSpawn_cases)
  case (finished r)
  show ?thesis
    unfolding spawns_le_def
  proof
    fix y assume y: "y \<in> set (agent_spawn_receipts s)"
    show "\<exists>r' \<in> set (agent_spawn_receipts s'). spawn_le y r'"
    proof (cases "spawn_at k y")
      case True
      then have "y = r" by (rule spawn_at_unique [OF spawn_okD(1) [OF ok] finished(1) y])
      then have "spawn_le y (finish_spawn_row status code t y)" using finished(2) by (simp add: spawn_le_def)
      then show ?thesis using True y by (auto simp: finished(7) set_upd)
    next
      case False
      then have "y \<in> set (agent_spawn_receipts s')" using y by (force simp: finished(7) set_upd)
      then show ?thesis using spawn_le_refl by blast
    qed
  qed
qed simp

section \<open>The invariant\<close>

definition operation_key :: "OperationRow \<Rightarrow> string \<times> string \<times> string \<times> string" where
  "operation_key r = (op_controller_id r, op_tree_id r, op_source_agent_id r, op_operation_id r)"

definition targets_started :: "BrokerDb \<Rightarrow> OperationRow \<Rightarrow> bool" where
  "targets_started s r \<longleftrightarrow>
     (\<exists>x \<in> set (agent_spawn_receipts s).
        spawned_key x = (op_controller_id r, op_tree_id r, op_agent_id r)
        \<and> sp_source_agent_id x = op_source_agent_id r \<and> sp_status x = AgentSpawnStarted)"

definition operation_row_ok :: "BrokerDb \<Rightarrow> OperationRow \<Rightarrow> bool" where
  "operation_row_ok s r \<longleftrightarrow>
     targets_started s r \<and> length (op_payload_digest r) = 32
     \<and> AgentOperationKey_Validate (or_Key (operation_receipt_of r '''')) = None
     \<and> AgentOperationResult_Validate (operation_result_of (operation_receipt_of r '''')) = None
     \<and> 0 \<le> op_created_at r \<and> op_created_at r \<le> op_updated_at r"

definition operations_inv :: "BrokerDb \<Rightarrow> bool" where
  "operations_inv s \<longleftrightarrow>
     uniq operation_key (agent_operation_receipts s) \<and> (\<forall>r \<in> set (agent_operation_receipts s). operation_row_ok s r)"

lemma operations_invD:
  assumes "operations_inv s"
  shows "uniq operation_key (agent_operation_receipts s)" "\<And>r. r \<in> set (agent_operation_receipts s) \<Longrightarrow> operation_row_ok s r"
  using assms by (auto simp: operations_inv_def)

lemma operations_inv_empty: "operations_inv schemaCurrent"
  by (simp add: operations_inv_def)

lemma targets_started_mono:
  assumes "targets_started s r" "spawns_le s s'"
  shows "targets_started s' r"
proof -
  obtain x where x: "x \<in> set (agent_spawn_receipts s)" "spawned_key x = (op_controller_id r, op_tree_id r, op_agent_id r)"
    "sp_source_agent_id x = op_source_agent_id r" "sp_status x = AgentSpawnStarted"
    using assms(1) by (auto simp: targets_started_def)
  obtain y where y: "y \<in> set (agent_spawn_receipts s')" "spawn_le x y" using assms(2) x(1) by (auto simp: spawns_le_def)
  have "spawn_identity y = spawn_identity x" using y(2) by (simp add: spawn_le_def)
  then have "spawned_key y = spawned_key x" "sp_source_agent_id y = sp_source_agent_id x"
    by (simp_all add: spawned_key_def spawn_identity_def)
  then show ?thesis using x y by (auto simp: targets_started_def spawn_le_def)
qed

lemma operations_inv_mono:
  assumes "operations_inv s" "agent_operation_receipts s' = agent_operation_receipts s" "spawns_le s s'"
  shows "operations_inv s'"
  using assms targets_started_mono [OF _ assms(3)] by (auto simp: operations_inv_def operation_row_ok_def)

definition operation_ok :: "BrokerDb \<Rightarrow> bool" where
  "operation_ok s \<longleftrightarrow> spawn_ok s \<and> operations_inv s \<and> mailbox_inv s"

lemma operation_okD:
  assumes "operation_ok s"
  shows "spawn_ok s" "operations_inv s" "mailbox_inv s" "spawns_inv s" "trees_inv s" "workspace_inv s"
  using assms by (simp_all add: operation_ok_def spawn_ok_def)

lemma spawn_ok_same:
  assumes "spawn_ok s" "trees s' = trees s" "principals s' = principals s" "agent_spawn_receipts s' = agent_spawn_receipts s"
    "workspace_sync_receipts s' = workspace_sync_receipts s" "devices s' = devices s"
  shows "spawn_ok s'"
proof -
  have "spawns_inv s'"
    using assms spawns_invD [OF spawn_okD(1) [OF assms(1)]]
    by (auto simp: spawns_inv_def spawn_row_ok_def consumed_by_def numbered_def agents_of_def)
  moreover have "trees_inv s'" using spawn_okD(2) [OF assms(1)] trees_inv_cong [OF assms(2,3)] by simp
  moreover have "workspace_inv s'" by (rule workspace_inv_mono [OF spawn_okD(3) [OF assms(1)]]) (use assms in auto)
  ultimately show ?thesis by (simp add: spawn_ok_def)
qed

section \<open>Queries in a well-formed state\<close>

text \<open>The device of the agent an operation addresses.\<close>

definition target_device :: "BrokerDb \<Rightarrow> OperationRow \<Rightarrow> string" where
  "target_device s r =
     (case sel1 (principal_at (op_controller_id r) (op_tree_id r) (op_agent_id r)) (principals s) of
        None \<Rightarrow> '''' | Some p \<Rightarrow> pr_device_id p)"

lemma operation_receipt_simps [simp]:
  "or_AgentID (operation_receipt_of r d) = op_agent_id r" "or_TargetDeviceID (operation_receipt_of r d) = d"
  "or_Action (operation_receipt_of r d) = op_action r" "or_PayloadDigest (operation_receipt_of r d) = op_payload_digest r"
  "or_Outcome (operation_receipt_of r d) = op_outcome r" "or_FailureCode (operation_receipt_of r d) = op_failure_code r"
  "or_CreatedAt (operation_receipt_of r d) = op_created_at r" "or_UpdatedAt (operation_receipt_of r d) = op_updated_at r"
  "ok_ControllerID (or_Key (operation_receipt_of r d)) = op_controller_id r"
  "ok_TreeID (or_Key (operation_receipt_of r d)) = op_tree_id r"
  "ok_SourceAgentID (or_Key (operation_receipt_of r d)) = op_source_agent_id r"
  "ok_OperationID (or_Key (operation_receipt_of r d)) = op_operation_id r"
  by (simp_all add: operation_receipt_of_def)

lemma operation_receipt_device:
  "or_Key (operation_receipt_of r d) = or_Key (operation_receipt_of r '''')"
  "operation_result_of (operation_receipt_of r d) = operation_result_of (operation_receipt_of r '''')"
  by (simp_all add: operation_receipt_of_def operation_result_of_def)

lemma target_principal:
  assumes "trees_inv s" "spawns_inv s" "targets_started s r"
  obtains p x where "sel1 (principal_at (op_controller_id r) (op_tree_id r) (op_agent_id r)) (principals s) = Some p"
    "x \<in> set (agent_spawn_receipts s)" "spawned_key x = (op_controller_id r, op_tree_id r, op_agent_id r)"
    "pr_parent_agent_id p = op_source_agent_id r" "pr_device_id p = sp_target_device_id x" "principal_row_ok s p"
proof -
  obtain x where x: "x \<in> set (agent_spawn_receipts s)" "spawned_key x = (op_controller_id r, op_tree_id r, op_agent_id r)"
    "sp_source_agent_id x = op_source_agent_id r"
    using assms(3) by (auto simp: targets_started_def)
  obtain p where p: "sel1 (principal_at (sp_controller_id x) (sp_tree_id x) (sp_agent_id x)) (principals s) = Some p"
    "identity_of p = spawn_identity x" "p \<in> set (principals s)"
    using spawn_principal [OF assms(1) spawns_invD(3) [OF assms(2) x(1)]] by metis
  have "pr_parent_agent_id p = sp_source_agent_id x" "pr_device_id p = sp_target_device_id x"
    using arg_cong [OF p(2), of pi_ParentAgentID] arg_cong [OF p(2), of pi_DeviceID] by simp_all
  then show thesis
    using that [of p x] p x trees_invD(5) [OF assms(1) p(3)] by (simp add: spawned_key_def)
qed

lemma queryAgentOperationReceipt_inv:
  assumes "operation_ok s"
  shows "queryAgentOperationReceipt k s =
    (case sel1 (operation_at k) (agent_operation_receipts s) of
       None \<Rightarrow> Inl (Sentinel ErrNotFound) | Some r \<Rightarrow> Inr (operation_receipt_of r (target_device s r)))"
proof (cases "sel1 (operation_at k) (agent_operation_receipts s)")
  case (Some r)
  note inv = operation_okD [OF assms]
  have ok: "operation_row_ok s r" using operations_invD(2) [OF inv(2)] sel1_SomeD [OF Some] by simp
  then have "targets_started s r" by (simp add: operation_row_ok_def)
  then obtain p where p: "sel1 (principal_at (op_controller_id r) (op_tree_id r) (op_agent_id r)) (principals s) = Some p"
    "pr_parent_agent_id p = op_source_agent_id r" "principal_row_ok s p"
    using target_principal [OF inv(5,4)] by metis
  have "ValidateID (pr_device_id p) = None"
    using p(3) by (simp add: principal_row_ok_def Principal_Validate_def PrincipalIdentity_Validate_def)
  then show ?thesis
    using Some p ok
    by (simp add: queryAgentOperationReceipt_def agentOperationSelect_def scanAgentOperationReceipt_def Let_def
        operation_row_ok_def target_device_def operation_receipt_device [of r "pr_device_id p"])
qed (simp add: queryAgentOperationReceipt_def agentOperationSelect_def scanAgentOperationReceipt_def)

section \<open>Begin\<close>

lemma authorizeAgentOperationSource_Inr:
  assumes "trees_inv s"
  shows "authorizeAgentOperationSource p s = Inr u \<longleftrightarrow>
    p \<in> identity_of ` set (principals s) \<and> pi_ParentAgentID p = ''''"
proof -
  have root: "CapabilityAgentManageDescendants \<in> role_capabilities p \<longleftrightarrow> pi_ParentAgentID p = ''''"
    by (simp add: role_capabilities_def RootCapabilities_def WorkerCapabilities_def capability_defs)
  show ?thesis
  proof (cases "authorizePrincipal p CapabilityAgentManageDescendants s")
    case (Inl e)
    then have "\<not> (\<exists>q. authorizePrincipal p CapabilityAgentManageDescendants s = Inr q)" by simp
    then show ?thesis
      using Inl root unfolding authorizePrincipal_Inr [OF assms] by (auto simp: authorizeAgentOperationSource_def)
  next
    case (Inr q)
    then obtain r where "r \<in> set (principals s)" "identity_of r = p" "q = principal_of r"
      unfolding authorizePrincipal_Inr [OF assms] by auto
    then show ?thesis using Inr by (auto simp: authorizeAgentOperationSource_def)
  qed
qed

lemma queryStartedDirectDescendant_Inr:
  assumes "spawns_inv s" "trees_inv s"
  shows "queryStartedDirectDescendant src a s = Inr x \<longleftrightarrow>
    (\<exists>r. sel1 (spawned_agent_at (pi_ControllerID src) (pi_TreeID src) a) (agent_spawn_receipts s) = Some r
       \<and> x = spawn_receipt r \<and> sp_source_agent_id r = pi_AgentID src \<and> sp_status r = AgentSpawnStarted)"
  by (auto simp: queryStartedDirectDescendant_def agentSpawnSelect_inv [OF assms] split: option.splits if_splits)

abbreviation intent_operation :: "AgentOperationIntent \<Rightarrow> AgentOperationKey" where
  "intent_operation i \<equiv> operation_key_of (oi_Source i) (oi_OperationID i)"

definition may_operate :: "AgentOperationIntent \<Rightarrow> BrokerDb \<Rightarrow> bool" where
  "may_operate i s \<longleftrightarrow> validateAgentOperationIntent i = None \<and> authorizeAgentOperationSource (oi_Source i) s = Inr ()"

lemma BeginAgentOperation_cases:
  assumes ok: "operation_ok s" and run: "BeginAgentOperation i t s = (Inr x, s')"
  obtains (replay) r where "may_operate i s" "0 \<le> t"
      "sel1 (operation_at (intent_operation i)) (agent_operation_receipts s) = Some r"
      "x = operation_receipt_of r (target_device s r)" "agentOperationMatchesIntent x i" "s' = s"
  | (fresh) r where "may_operate i s" "0 \<le> t"
      "sel1 (operation_at (intent_operation i)) (agent_operation_receipts s) = None"
      "sel1 (spawned_agent_at (pi_ControllerID (oi_Source i)) (pi_TreeID (oi_Source i)) (oi_AgentID i)) (agent_spawn_receipts s) = Some r"
      "sp_source_agent_id r = pi_AgentID (oi_Source i)" "sp_status r = AgentSpawnStarted"
      "operation_insertable (new_operation_row i t) s"
      "x = operation_receipt_of (new_operation_row i t) (sp_target_device_id r)"
      "s' = s\<lparr>agent_operation_receipts := agent_operation_receipts s @ [new_operation_row i t]\<rparr>"
proof -
  note inv = operation_okD [OF ok]
  have val: "validateAgentOperationIntent i = None" "0 \<le> t" and tx: "BeginAgentOperation_tx i t s = Inr (x, s')"
    using run by (simp_all add: BeginAgentOperation_def)
  obtain u where p: "authorizeAgentOperationSource (oi_Source i) s = Inr u"
    using tx unfolding BeginAgentOperation_tx_def by (rule tx_bind_queryE)
  have may: "may_operate i s" using val(1) p by (simp add: may_operate_def)
  note tx1 = tx [unfolded BeginAgentOperation_tx_def
      tx_bind_query(1) [of "authorizeAgentOperationSource (oi_Source i)", OF p]]
  show thesis
  proof (cases "sel1 (operation_at (intent_operation i)) (agent_operation_receipts s)")
    case (Some r)
    then have q: "or_not_found (queryAgentOperationReceipt (intent_operation i) s) =
        Inr (Some (operation_receipt_of r (target_device s r)))"
      by (simp add: queryAgentOperationReceipt_inv [OF ok])
    note tx2 = tx1 [unfolded tx_bind_query(1) [of "\<lambda>s. or_not_found (queryAgentOperationReceipt (intent_operation i) s)", OF q]]
    then show thesis using replay [OF may val(2) Some] by (auto split: if_splits)
  next
    case None
    then have q: "or_not_found (queryAgentOperationReceipt (intent_operation i) s) = Inr None"
      by (simp add: queryAgentOperationReceipt_inv [OF ok])
    note tx2 = tx1 [unfolded tx_bind_query(1) [of "\<lambda>s. or_not_found (queryAgentOperationReceipt (intent_operation i) s)", OF q]]
    then obtain r where "sel1 (spawned_agent_at (pi_ControllerID (oi_Source i)) (pi_TreeID (oi_Source i)) (oi_AgentID i)) (agent_spawn_receipts s) = Some r"
      "sp_source_agent_id r = pi_AgentID (oi_Source i)" "sp_status r = AgentSpawnStarted"
      "operation_insertable (new_operation_row i t) s"
      "x = operation_receipt_of (new_operation_row i t) (sp_target_device_id r)"
      "s' = s\<lparr>agent_operation_receipts := agent_operation_receipts s @ [new_operation_row i t]\<rparr>"
      by (auto simp: queryStartedDirectDescendant_Inr [OF inv(4,5)])
    then show thesis by (rule fresh [OF may val(2) None])
  qed
qed

lemma new_operation_row_simps [simp]:
  "op_controller_id (new_operation_row i t) = pi_ControllerID (oi_Source i)" "op_tree_id (new_operation_row i t) = pi_TreeID (oi_Source i)"
  "op_source_agent_id (new_operation_row i t) = pi_AgentID (oi_Source i)" "op_operation_id (new_operation_row i t) = oi_OperationID i"
  "op_action (new_operation_row i t) = oi_Action i" "op_agent_id (new_operation_row i t) = oi_AgentID i"
  "op_payload_digest (new_operation_row i t) = oi_PayloadDigest i" "op_outcome (new_operation_row i t) = AgentOperationOutcomePending"
  "op_failure_code (new_operation_row i t) = ''''" "op_created_at (new_operation_row i t) = t" "op_updated_at (new_operation_row i t) = t"
  "operation_at (intent_operation i) (new_operation_row i t)"
  "agentOperationMatchesIntent (operation_receipt_of (new_operation_row i t) d) i"
  by (simp_all add: new_operation_row_def operation_at_def operation_key_of_def agentOperationMatchesIntent_def operation_receipt_of_def)

lemma operation_inv_add:
  assumes ok: "operation_ok s" and may: "may_operate i s"
    and r: "sel1 (spawned_agent_at (pi_ControllerID (oi_Source i)) (pi_TreeID (oi_Source i)) (oi_AgentID i)) (agent_spawn_receipts s) = Some r"
      "sp_source_agent_id r = pi_AgentID (oi_Source i)" "sp_status r = AgentSpawnStarted"
    and ins: "operation_insertable (new_operation_row i t) s"
  shows "operation_ok (s\<lparr>agent_operation_receipts := agent_operation_receipts s @ [new_operation_row i t]\<rparr>)"
    "target_device s (new_operation_row i t) = sp_target_device_id r"
proof -
  let ?n = "new_operation_row i t"
  let ?s = "s\<lparr>agent_operation_receipts := agent_operation_receipts s @ [?n]\<rparr>"
  note inv = operation_okD [OF ok]
  have at: "r \<in> set (agent_spawn_receipts s)" "spawned_key r = (op_controller_id ?n, op_tree_id ?n, op_agent_id ?n)"
    using sel1_SomeD [OF r(1)] by (auto simp: spawned_agent_at_def spawned_key_def)
  have tgt: "targets_started s ?n" unfolding targets_started_def using at r(2,3) by (auto intro!: bexI [of _ r])
  obtain p x where p: "sel1 (principal_at (op_controller_id ?n) (op_tree_id ?n) (op_agent_id ?n)) (principals s) = Some p"
    "x \<in> set (agent_spawn_receipts s)" "spawned_key x = (op_controller_id ?n, op_tree_id ?n, op_agent_id ?n)"
    "pr_device_id p = sp_target_device_id x"
    using target_principal [OF inv(5,4) tgt] by metis
  have "x = r" using uniq_same [OF spawns_invD(2) [OF inv(4)] p(2) at(1)] p(3) at(2) by simp
  then show "target_device s ?n = sp_target_device_id r" using p(1,4) by (simp add: target_device_def)
  have "operation_row_ok s ?n"
    using tgt ins may
    by (auto simp: operation_row_ok_def operation_insertable_def may_operate_def validateAgentOperationIntent_def
        AgentOperationKey_Validate_def operation_receipt_of_def operation_result_of_def AgentOperationResult_Validate_def
        validateAgentOperationTarget_def AgentOperationOutcome_Validate_def AgentOperationAction_accepts_def
        PrincipalIdentity_Validate_def)
  then have rows: "operation_row_ok ?s x" if "x \<in> set (agent_operation_receipts ?s)" for x
    using that operations_invD(2) [OF inv(2)] by (auto simp: operation_row_ok_def targets_started_def)
  have "operation_key ?n \<notin> operation_key ` set (agent_operation_receipts s)"
    using ins by (auto simp: operation_insertable_def list_all_iff operation_key_def)
  then have "operations_inv ?s" using rows operations_invD(1) [OF inv(2)] by (simp add: operations_inv_def)
  moreover have "spawn_ok ?s" by (rule spawn_ok_same [OF inv(1)]) simp_all
  moreover have "mailbox_inv ?s" by (rule mailbox_inv_cong [OF inv(3)]) simp_all
  ultimately show "operation_ok ?s" by (simp add: operation_ok_def)
qed

end
