(* ===== verification/Operation_Steps.thy ===== *)
theory Operation_Steps
  imports Operation_Inv
begin

text \<open>
  What the agent operations promise: beginning is the \<open>receipts\<close> contract, finishing the \<open>terminal\<close>
  contract, queueing a message delivers it and finishes its operation together, and a started
  follow-up counts one turn.
\<close>

lemma BeginAgentOperation_ok:
  assumes ok: "operation_ok s" and run: "BeginAgentOperation i t s = (Inr x, s')"
  shows "operation_ok s' \<and> queryAgentOperationReceipt (intent_operation i) s' = Inr x
    \<and> agentOperationMatchesIntent x i \<and> may_operate i s'"
  using assms
proof (cases rule: BeginAgentOperation_cases)
  case (replay r)
  then show ?thesis using ok by (simp add: queryAgentOperationReceipt_inv [OF ok])
next
  case (fresh r)
  note add = operation_inv_add [OF ok fresh(1,4-7)]
  have "authorizePrincipal p c s' = authorizePrincipal p c s" for p c
    by (rule authorizePrincipal_cong) (simp_all add: fresh(9))
  then have auth: "may_operate i s'"
    using fresh(1) by (simp add: may_operate_def authorizeAgentOperationSource_def)
  have dev: "target_device s' = target_device s" by (simp add: target_device_def fresh(9) fun_eq_iff)
  have "queryAgentOperationReceipt (intent_operation i) s' = Inr x"
    unfolding queryAgentOperationReceipt_inv [OF add(1) [folded fresh(9)]] dev
    by (simp add: fresh(3,8,9) add(2))
  then show ?thesis using add(1) auth by (simp add: fresh(8,9))
qed

lemma BeginAgentOperation_found:
  assumes "may_operate i s" "0 \<le> t" "queryAgentOperationReceipt (intent_operation i) s = Inr x"
  shows "BeginAgentOperation i t s =
    (if agentOperationMatchesIntent x i then (Inr x, s)
     else (Inl (Wrapped ''operationId already identifies another request'' (Sentinel ErrConflict)), s))"
proof -
  have p: "authorizeAgentOperationSource (oi_Source i) s = Inr ()" using assms(1) by (simp add: may_operate_def)
  have q: "or_not_found (queryAgentOperationReceipt (intent_operation i) s) = Inr (Some x)" using assms(3) by simp
  have "BeginAgentOperation_tx i t s =
    (if agentOperationMatchesIntent x i then Inr (x, s)
     else Inl (Wrapped ''operationId already identifies another request'' (Sentinel ErrConflict)))"
    unfolding BeginAgentOperation_tx_def
      tx_bind_query(1) [of "authorizeAgentOperationSource (oi_Source i)", OF p]
      tx_bind_query(1) [of "\<lambda>s. or_not_found (queryAgentOperationReceipt (intent_operation i) s)", OF q]
    by (simp add: tx_ret_def tx_fail_def)
  then show ?thesis
    using assms(1,2) by (simp add: BeginAgentOperation_def may_operate_def withImmediateTransaction_def)
qed

interpretation operation_receipts:
  receipts operation_ok may_operate BeginAgentOperation "\<lambda>i. queryAgentOperationReceipt (intent_operation i)"
    agentOperationMatchesIntent
proof
  fix s i t x s'
  assume run: "operation_ok s" "BeginAgentOperation i t s = (Inr x, s')"
  show "operation_ok s'" "may_operate i s'"
    "queryAgentOperationReceipt (intent_operation i) s' = Inr x \<and> agentOperationMatchesIntent x i"
    using BeginAgentOperation_ok [OF run] by simp_all
next
  fix s i t x
  assume al: "may_operate i s" "0 \<le> (t :: int)" and q: "queryAgentOperationReceipt (intent_operation i) s = Inr x"
  note run = BeginAgentOperation_found [OF al q]
  show "BeginAgentOperation i t s = (Inr x, s)" if "agentOperationMatchesIntent x i" using run that by simp
  show "\<exists>e. BeginAgentOperation i t s = (Inl e, s) \<and> errors_is e ErrConflict" if "\<not> agentOperationMatchesIntent x i"
    using run that by simp
qed

section \<open>Finish\<close>

definition turn_counters :: "OperationRow \<Rightarrow> AgentOperationOutcome \<Rightarrow> CounterRow list \<Rightarrow> CounterRow list" where
  "turn_counters r out rows =
     (if op_action r = AgentOperationFollowup \<and> out = AgentOperationOutcomeStarted
      then bump_counters (op_controller_id r) (no_increment\<lparr>inc_TurnsStarted := 1\<rparr>) rows else rows)"

definition with_outcome :: "AgentOperationKey \<Rightarrow> OperationRow \<Rightarrow> AgentOperationOutcome \<Rightarrow> string \<Rightarrow> int \<Rightarrow> BrokerDb \<Rightarrow> BrokerDb" where
  "with_outcome k r out code t s = s\<lparr>
     agent_operation_receipts := upd (operation_at k) (finish_operation_row out code t) (agent_operation_receipts s),
     controller_lifetime_counters := turn_counters r out (controller_lifetime_counters s)\<rparr>"

lemma with_outcome_simps [simp]:
  "agent_operation_receipts (with_outcome k r out code t s) =
     upd (operation_at k) (finish_operation_row out code t) (agent_operation_receipts s)"
  "controller_lifetime_counters (with_outcome k r out code t s) = turn_counters r out (controller_lifetime_counters s)"
  "trees (with_outcome k r out code t s) = trees s" "principals (with_outcome k r out code t s) = principals s"
  "workspace_sync_receipts (with_outcome k r out code t s) = workspace_sync_receipts s"
  "agent_spawn_receipts (with_outcome k r out code t s) = agent_spawn_receipts s"
  "devices (with_outcome k r out code t s) = devices s" "mailboxes (with_outcome k r out code t s) = mailboxes s"
  "mailbox_messages (with_outcome k r out code t s) = mailbox_messages s"
  "mailbox_receipts (with_outcome k r out code t s) = mailbox_receipts s"
  by (simp_all add: with_outcome_def)

lemma finish_operation_row_simps [simp]:
  "operation_key (finish_operation_row out code t r) = operation_key r" "op_action (finish_operation_row out code t r) = op_action r"
  "op_controller_id (finish_operation_row out code t r) = op_controller_id r"
  "op_outcome (finish_operation_row out code t r) = out" "op_failure_code (finish_operation_row out code t r) = code"
  "op_payload_digest (finish_operation_row out code t r) = op_payload_digest r"
  "op_created_at (finish_operation_row out code t r) = op_created_at r" "op_updated_at (finish_operation_row out code t r) = t"
  "operation_at k (finish_operation_row out code t r) = operation_at k r"
  "or_Key (operation_receipt_of (finish_operation_row out code t r) d) = or_Key (operation_receipt_of r d)"
  "target_device s (finish_operation_row out code t r) = target_device s r"
  "targets_started s (finish_operation_row out code t r) = targets_started s r"
  by (simp_all add: finish_operation_row_def operation_key_def operation_at_def operation_receipt_of_def
      target_device_def targets_started_def)

lemma operation_at_unique:
  assumes "operations_inv s" "sel1 (operation_at k) (agent_operation_receipts s) = Some r"
    "x \<in> set (agent_operation_receipts s)" "operation_at k x"
  shows "x = r"
  using sel1_SomeD [OF assms(2)] assms(3,4) uniq_same [OF operations_invD(1) [OF assms(1)]]
  by (auto simp: operation_at_def operation_key_def)

lemma operation_at_receipt:
  assumes "operation_at k r"
  shows "or_Key (operation_receipt_of r d) = k"
  using assms by (simp add: operation_receipt_of_def operation_at_def)

lemma finished_operation_receipt:
  "(operation_receipt_of r d)\<lparr>or_Outcome := out, or_FailureCode := code, or_UpdatedAt := t\<rparr> =
     operation_receipt_of (finish_operation_row out code t r) d"
  by (simp add: operation_receipt_of_def finish_operation_row_def)

lemma finishAgentOperationTx_cases:
  assumes inv: "operations_inv s" and r: "sel1 (operation_at k) (agent_operation_receipts s) = Some r"
    and tx: "finishAgentOperationTx (operation_receipt_of r d) out code t s = Inr (x, s')"
  obtains (same) "op_outcome r = out" "op_failure_code r = code" "x = operation_receipt_of r d" "s' = s"
  | (finished) "op_outcome r = AgentOperationOutcomePending" "out \<noteq> AgentOperationOutcomePending" "op_created_at r \<le> t"
      "AgentOperationOutcome_Validate out (op_action r) code = None"
      "x = operation_receipt_of (finish_operation_row out code t r) d" "s' = with_outcome k r out code t s"
proof (cases "op_outcome r = out")
  case True
  then show thesis using tx same by (auto simp: finishAgentOperationTx_def split: if_splits)
next
  case False
  have key: "or_Key (operation_receipt_of r d) = k" by (rule operation_at_receipt) (use sel1_SomeD [OF r] in simp)
  have pend: "op_outcome r = AgentOperationOutcomePending" "op_created_at r \<le> t"
    "AgentOperationOutcome_Validate out (op_action r) code = None"
    using tx False by (auto simp: finishAgentOperationTx_def split: if_splits)
  have "upd (\<lambda>z. operation_at k z \<and> op_outcome z = AgentOperationOutcomePending) f (agent_operation_receipts s) =
      upd (operation_at k) f (agent_operation_receipts s)" for f
    by (rule upd_conj) (use operation_at_unique [OF inv r] pend(1) in blast)
  then have "x = operation_receipt_of (finish_operation_row out code t r) d" "s' = with_outcome k r out code t s"
    using tx False pend key sel1_SomeD [OF r]
    by (auto simp: finishAgentOperationTx_def Let_def finished_operation_receipt with_outcome_def turn_counters_def
        incrementStatusLifetimeCounters_def operation_at_def split: if_splits)
  then show thesis using finished pend False by simp
qed

lemma with_outcome_ok:
  assumes ok: "operation_ok s" and r: "sel1 (operation_at k) (agent_operation_receipts s) = Some r"
    and st: "op_created_at r \<le> t" "AgentOperationOutcome_Validate out (op_action r) code = None"
  shows "operation_ok (with_outcome k r out code t s)"
    "queryAgentOperationReceipt k (with_outcome k r out code t s) =
       Inr (operation_receipt_of (finish_operation_row out code t r) (target_device s r))"
proof -
  let ?s = "with_outcome k r out code t s"
  note inv = operation_okD [OF ok]
  have "operation_row_ok ?s x" if "x \<in> set (agent_operation_receipts ?s)" for x
    using that unfolding with_outcome_simps(1)
  proof (cases rule: in_upd_cases)
    case same
    then show ?thesis using operations_invD(2) [OF inv(2)] by (simp add: operation_row_ok_def targets_started_def)
  next
    case (changed y)
    have "y = r" by (rule operation_at_unique [OF inv(2) r changed(1,2)])
    then show ?thesis
      using operations_invD(2) [OF inv(2) changed(1)] st changed(3)
      by (simp add: operation_row_ok_def targets_started_def finish_operation_row_def operation_receipt_of_def
          operation_result_of_def AgentOperationResult_Validate_def)
  qed
  then have "operations_inv ?s" using operations_invD(1) [OF inv(2)] by (simp add: operations_inv_def)
  moreover have "spawn_ok ?s" by (rule spawn_ok_same [OF inv(1)]) simp_all
  moreover have "mailbox_inv ?s" by (rule mailbox_inv_cong [OF inv(3)]) simp_all
  ultimately show ok': "operation_ok ?s" by (simp add: operation_ok_def)
  have "sel1 (operation_at k) (agent_operation_receipts ?s) = Some (finish_operation_row out code t r)"
    using sel1_upd_same [of "operation_at k" "finish_operation_row out code t"] r by simp
  moreover have "target_device ?s = target_device s" by (simp add: target_device_def fun_eq_iff)
  ultimately show "queryAgentOperationReceipt k ?s = Inr (operation_receipt_of (finish_operation_row out code t r) (target_device s r))"
    unfolding queryAgentOperationReceipt_inv [OF ok'] by simp
qed

lemma FinishAgentOperation_cases:
  assumes ok: "operation_ok s" and run: "FinishAgentOperation k out code t s = (Inr x, s')"
  obtains (same) r where "sel1 (operation_at k) (agent_operation_receipts s) = Some r" "op_outcome r = out" "op_failure_code r = code"
      "out \<noteq> AgentOperationOutcomePending" "x = operation_receipt_of r (target_device s r)" "s' = s"
  | (finished) r where "sel1 (operation_at k) (agent_operation_receipts s) = Some r" "op_outcome r = AgentOperationOutcomePending"
      "out \<noteq> AgentOperationOutcomePending" "op_created_at r \<le> t" "AgentOperationOutcome_Validate out (op_action r) code = None"
      "x = operation_receipt_of (finish_operation_row out code t r) (target_device s r)" "s' = with_outcome k r out code t s"
proof -
  have val: "out \<noteq> AgentOperationOutcomePending"
    and tx: "tx_bind (tx_query (queryAgentOperationReceipt k)) (\<lambda>receipt. finishAgentOperationTx receipt out code t) s = Inr (x, s')"
    using run by (simp_all add: FinishAgentOperation_def del: tx_bind_Inr)
  then obtain r where r: "sel1 (operation_at k) (agent_operation_receipts s) = Some r"
    and fin: "finishAgentOperationTx (operation_receipt_of r (target_device s r)) out code t s = Inr (x, s')"
    by (auto simp: queryAgentOperationReceipt_inv [OF ok] split: option.splits)
  show thesis
    using operation_okD(2) [OF ok] r fin
    by (cases rule: finishAgentOperationTx_cases) (auto intro: same [OF r _ _ val] finished [OF r _ val])
qed

lemma FinishAgentOperation_ok:
  assumes ok: "operation_ok s" and run: "FinishAgentOperation k out code t s = (Inr x, s')"
  shows "operation_ok s' \<and> queryAgentOperationReceipt k s' = Inr x \<and> or_Outcome x = out \<and> or_FailureCode x = code
    \<and> out \<noteq> AgentOperationOutcomePending"
  using assms
proof (cases rule: FinishAgentOperation_cases)
  case (same r)
  then show ?thesis using ok by (simp add: queryAgentOperationReceipt_inv [OF ok])
next
  case (finished r)
  note ok' = with_outcome_ok [OF ok finished(1,4,5)]
  then show ?thesis using finished(3) by (simp add: finished(6,7))
qed

interpretation operation_terminal:
  terminal operation_ok "\<lambda>k out. FinishAgentOperation k (fst out) (snd out)" queryAgentOperationReceipt
    "\<lambda>x. (or_Outcome x, or_FailureCode x)" "\<lambda>x. or_Outcome x \<noteq> AgentOperationOutcomePending"
proof
  fix s k out t x s'
  assume run: "operation_ok s" "FinishAgentOperation k (fst out) (snd out) t s = (Inr x, s')"
  show "operation_ok s'" "queryAgentOperationReceipt k s' = Inr x \<and> (or_Outcome x, or_FailureCode x) = out
    \<and> or_Outcome x \<noteq> AgentOperationOutcomePending"
    using FinishAgentOperation_ok [OF run] by auto
next
  fix s k x out t x' s'
  assume ok: "operation_ok s" and q: "queryAgentOperationReceipt k s = Inr x" "or_Outcome x \<noteq> AgentOperationOutcomePending"
    and run: "FinishAgentOperation k (fst out) (snd out) t s = (Inr x', s')"
  show "x' = x \<and> s' = s \<and> (or_Outcome x, or_FailureCode x) = out"
    using ok run by (cases rule: FinishAgentOperation_cases) (use q in \<open>auto simp: queryAgentOperationReceipt_inv [OF ok]\<close>)
qed

section \<open>Queueing a message\<close>

lemma operation_ok_send:
  assumes ok: "operation_ok s" and run: "SendMailboxMessage p target i m t s = (Inr d, s')"
  shows "operation_ok s'" "but_mailboxes s' = but_mailboxes s"
proof -
  note inv = operation_okD [OF ok]
  show fr: "but_mailboxes s' = but_mailboxes s"
    using run guard_tx_preserves [OF sendMailboxMessageTx_frame] unfolding SendMailboxMessage_def by (metis snd_conv)
  note f = but_mailboxesD [OF fr]
  have "mailbox_inv s'" using SendMailboxMessage_inv [OF inv(3,5), of p target i m t] run by simp
  moreover have "spawn_ok s'" by (rule spawn_ok_same [OF inv(1) f(1,2,6,5,3)])
  moreover have "operations_inv s'"
    by (rule operations_inv_mono [OF inv(2) f(7)]) (use f(6) in \<open>auto intro: spawns_le_subset\<close>)
  ultimately show "operation_ok s'" by (simp add: operation_ok_def)
qed

lemma Queue_cases:
  assumes ok: "operation_ok s" and run: "QueueAgentMessageAndFinishOperation k m t s = (Inr (x, d), s')"
  obtains (queued) r where "sel1 (operation_at k) (agent_operation_receipts s) = Some r" "op_action r = AgentOperationSend"
      "op_payload_digest r = sha256_sum m" "op_outcome r = AgentOperationOutcomeQueued"
      "x = operation_receipt_of r (target_device s r)" "d = no_delivery" "s' = s"
  | (delivered) r p s1 where "sel1 (operation_at k) (agent_operation_receipts s) = Some r" "op_action r = AgentOperationSend"
      "op_payload_digest r = sha256_sum m" "op_outcome r = AgentOperationOutcomePending" "op_created_at r \<le> t"
      "queryPrincipal (ok_ControllerID k) (ok_TreeID k) (ok_SourceAgentID k) s = Inr p" "pi_ParentAgentID (p_Identity p) = ''''"
      "SendMailboxMessage p \<lparr>mt_Kind = MessageTargetAgent, mt_AgentID = op_agent_id r\<rparr> (ok_OperationID k) m t s = (Inr d, s1)"
      "x = operation_receipt_of (finish_operation_row AgentOperationOutcomeQueued '''' t r) (target_device s r)"
      "s' = with_outcome k r AgentOperationOutcomeQueued '''' t s1"
proof -
  note inv = operation_okD [OF ok]
  have val: "AgentOperationKey_Validate k = None" "ValidateMailboxMessage m = None" "0 \<le> t"
    and tx: "QueueAgentMessage_tx k m t s = Inr ((x, d), s')"
    using run by (simp_all add: QueueAgentMessageAndFinishOperation_def)
  obtain y where q: "queryAgentOperationReceipt k s = Inr y"
    using tx unfolding QueueAgentMessage_tx_def by (rule tx_bind_queryE)
  then obtain r where r: "sel1 (operation_at k) (agent_operation_receipts s) = Some r"
    and y: "y = operation_receipt_of r (target_device s r)"
    by (auto simp: queryAgentOperationReceipt_inv [OF ok] split: option.splits)
  note tx1 = tx [unfolded QueueAgentMessage_tx_def tx_bind_query(1) [of "queryAgentOperationReceipt k", OF q], unfolded y, simplified operation_receipt_simps]
  have send: "op_action r = AgentOperationSend" "op_payload_digest r = sha256_sum m" using tx1 by (auto split: if_splits)
  show thesis
  proof (cases "op_outcome r = AgentOperationOutcomeQueued")
    case True
    then show thesis using queued [OF r send True] tx1 send by auto
  next
    case False
    then obtain p u s1 where pend: "op_outcome r = AgentOperationOutcomePending"
      and p: "queryPrincipal (ok_ControllerID k) (ok_TreeID k) (ok_SourceAgentID k) s = Inr p"
      and a: "authorizeAgentOperationSource (p_Identity p) s = Inr u"
      and snd: "sendMailboxMessageTx p \<lparr>mt_Kind = MessageTargetAgent, mt_AgentID = op_agent_id r\<rparr> (ok_OperationID k) m t s = Inr (d, s1)"
      and fin: "finishAgentOperationTx (operation_receipt_of r (target_device s r)) AgentOperationOutcomeQueued '''' t s1 = Inr (x, s')"
      using tx1 send by (auto split: if_splits)
    obtain pr where "p = principal_of pr" "principal_row_ok s pr" using queryPrincipal_Inr [OF inv(5) p] by metis
    then have "Principal_Validate p = None" by (simp add: principal_row_ok_def)
    moreover have "ValidateID (op_agent_id r) = None"
      using operations_invD(2) [OF inv(2)] sel1_SomeD [OF r]
      by (auto simp: operation_row_ok_def AgentOperationResult_Validate_def validateAgentOperationTarget_def operation_result_of_def)
    ultimately have run': "SendMailboxMessage p \<lparr>mt_Kind = MessageTargetAgent, mt_AgentID = op_agent_id r\<rparr> (ok_OperationID k) m t s = (Inr d, s1)"
      using snd val by (simp add: SendMailboxMessage_def MessageTarget_Validate_def AgentOperationKey_Validate_def)
    note ok1 = operation_ok_send [OF ok run']
    have r1: "sel1 (operation_at k) (agent_operation_receipts s1) = Some r" using r but_mailboxesD(7) [OF ok1(2)] by simp
    have root: "pi_ParentAgentID (p_Identity p) = ''''" using a by (simp add: authorizeAgentOperationSource_Inr [OF inv(5)])
    show thesis
      using operation_okD(2) [OF ok1(1)] r1 fin
      by (cases rule: finishAgentOperationTx_cases)
        (use pend in \<open>auto intro: delivered [OF r send pend _ p root run']\<close>)
  qed
qed

lemma Queue_ok:
  assumes ok: "operation_ok s" and run: "QueueAgentMessageAndFinishOperation k m t s = (Inr (x, d), s')"
  shows "operation_ok s' \<and> queryAgentOperationReceipt k s' = Inr x \<and> or_Outcome x = AgentOperationOutcomeQueued"
  using assms
proof (cases rule: Queue_cases)
  case (queued r)
  then show ?thesis using ok by (simp add: queryAgentOperationReceipt_inv [OF ok])
next
  case (delivered r p s1)
  note ok1 = operation_ok_send [OF ok delivered(8)]
  have r1: "sel1 (operation_at k) (agent_operation_receipts s1) = Some r"
    using delivered(1) but_mailboxesD(7) [OF ok1(2)] by simp
  have dev: "target_device s1 r = target_device s r" using but_mailboxesD(2) [OF ok1(2)] by (simp add: target_device_def)
  have "AgentOperationOutcome_Validate AgentOperationOutcomeQueued (op_action r) '''' = None"
    by (simp add: delivered(2) AgentOperationOutcome_Validate_def AgentOperationAction_Validate_def AgentOperationAction_accepts_def)
  then show ?thesis using with_outcome_ok [OF ok1(1) r1 delivered(5)] dev by (simp add: delivered(9,10))
qed

end
