(* ===== verification/Lifecycle.thy ===== *)
theory Lifecycle
  imports Spawn_Steps
begin

text \<open>
  Worker lifecycles: \<^verbatim>\<open>internal/store/agent_lifecycle.go\<close>. A peer claims a session under its device
  lease and then applies pages of worker snapshots in revision order; every change of phase gets the
  next lifecycle sequence of its tree, which roots page through. A validated snapshot satisfies the
  CHECK constraints of the table, so the UPDATEs have none to fail.
\<close>

record WorkerLifecycleSession =
  se_ControllerID :: string
  se_DeviceID :: string
  se_ConnectionID :: string
  se_LeaseRevision :: nat

record WorkerLifecycleSessionClaim =
  cl_Session :: WorkerLifecycleSession
  cl_WorkerRevision :: nat

record WorkerLifecyclePageApply =
  pa_Session :: WorkerLifecycleSession
  pa_Page :: SyncWorkerLifecycleParams
  pa_ObservedAt :: int

record StoredLifecycleActivity =
  sa_TreeID :: string
  sa_AgentID :: string
  sa_TargetDeviceID :: string
  sa_TargetRevision :: nat
  sa_Phase :: WorkerLifecyclePhase
  sa_FailureCode :: string
  sa_Sequence :: nat
  sa_ObservedAt :: int

record workerLifecycleAuthority =
  la_TargetDeviceID :: string
  la_AuthorityRevision :: nat
  la_Snapshot :: WorkerLifecycleSnapshot
  la_Sequence :: nat
  la_ObservedAt :: int

record AgentLifecyclePage =
  lp_Activities :: "StoredLifecycleActivity list"
  lp_NextSequence :: nat
  lp_Highwater :: nat

definition WorkerLifecycleSession_Validate :: "WorkerLifecycleSession \<Rightarrow> err" where
  "WorkerLifecycleSession_Validate x = first_err
     [wrap ''controllerId'' (ValidateID (se_ControllerID x)), wrap ''deviceId'' (ValidateID (se_DeviceID x)),
      wrap ''connectionId'' (ValidateID (se_ConnectionID x)),
      fail_if (se_LeaseRevision x = 0 \<or> int (se_LeaseRevision x) > MaxInt64)
        (Plain ''leaseRevision is outside the supported range'')]"

definition verifyWorkerLifecycleLease :: "WorkerLifecycleSession \<Rightarrow> BrokerDb \<Rightarrow> unit result" where
  "verifyWorkerLifecycleLease session s =
     (case queryDevice (se_ControllerID session) (se_DeviceID session) s of
        Inl e \<Rightarrow> if errors_is e ErrNotFound then Inl (Sentinel ErrWorkerLifecycleSessionFenced) else Inl e
      | Inr device \<Rightarrow>
          if \<not> dev_Online device \<or> dev_Revision device \<noteq> se_LeaseRevision session
          then Inl (Sentinel ErrWorkerLifecycleSessionFenced) else Inr ())"

section \<open>Sessions\<close>

definition cursor_at :: "WorkerLifecycleSession \<Rightarrow> CursorRow \<Rightarrow> bool" where
  "cursor_at session r \<longleftrightarrow> cu_controller_id r = se_ControllerID session \<and> cu_device_id r = se_DeviceID session"

definition claim_row :: "WorkerLifecycleSession \<Rightarrow> nat \<Rightarrow> CursorRow" where
  "claim_row session applied =
     \<lparr>cu_controller_id = se_ControllerID session, cu_device_id = se_DeviceID session,
      cu_active_connection_id = se_ConnectionID session, cu_active_lease_revision = int (se_LeaseRevision session),
      cu_applied_revision = int applied\<rparr>"

definition upsert_cursor :: "WorkerLifecycleSession \<Rightarrow> nat \<Rightarrow> BrokerDb \<Rightarrow> BrokerDb" where
  "upsert_cursor session applied s =
     s\<lparr>peer_worker_sync_cursors :=
       (if list_ex (cursor_at session) (peer_worker_sync_cursors s)
        then upd (cursor_at session)
          (\<lambda>r. r\<lparr>cu_active_connection_id := se_ConnectionID session,
                 cu_active_lease_revision := int (se_LeaseRevision session)\<rparr>) (peer_worker_sync_cursors s)
        else peer_worker_sync_cursors s @ [claim_row session applied])\<rparr>"

definition cursor_storable :: "WorkerLifecycleSession \<Rightarrow> BrokerDb \<Rightarrow> bool" where
  "cursor_storable session s \<longleftrightarrow>
     length (se_ConnectionID session) = 36 \<and> 0 < se_LeaseRevision session
     \<and> list_ex (device_at (se_ControllerID session) (se_DeviceID session)) (devices s)"

definition stored_applied :: "WorkerLifecycleSession \<Rightarrow> BrokerDb \<Rightarrow> nat" where
  "stored_applied session s =
     (case sel1 (cursor_at session) (peer_worker_sync_cursors s) of
        None \<Rightarrow> 0 | Some r \<Rightarrow> uint64_of_int64 (cu_applied_revision r))"

definition ClaimWorkerLifecycleSession_tx :: "WorkerLifecycleSessionClaim \<Rightarrow> (BrokerDb, nat) tx" where
  "ClaimWorkerLifecycleSession_tx claim =
     tx_bind (tx_query (verifyWorkerLifecycleLease (cl_Session claim))) (\<lambda>_.
     tx_bind (tx_get (stored_applied (cl_Session claim))) (\<lambda>appliedRevision.
     if appliedRevision > cl_WorkerRevision claim then tx_fail (Sentinel ErrWorkerLifecyclePeerBehind)
     else
       tx_bind (tx_insert ''claim peer worker lifecycle session'' (cursor_storable (cl_Session claim))
         (upsert_cursor (cl_Session claim) appliedRevision)) (\<lambda>_.
       tx_ret appliedRevision)))"

definition ClaimWorkerLifecycleSession :: "WorkerLifecycleSessionClaim \<Rightarrow> BrokerDb \<Rightarrow> nat result \<times> BrokerDb" where
  "ClaimWorkerLifecycleSession claim =
     guard_tx (first_err
       [WorkerLifecycleSession_Validate (cl_Session claim),
        fail_if (int (cl_WorkerRevision claim) > MaxInt64) (Plain ''workerRevision exceeds the supported range'')])
     (ClaimWorkerLifecycleSession_tx claim)"

definition queryWorkerLifecycleCursor :: "WorkerLifecycleSession \<Rightarrow> BrokerDb \<Rightarrow> nat result" where
  "queryWorkerLifecycleCursor session s =
     (case sel1 (cursor_at session) (peer_worker_sync_cursors s) of
        None \<Rightarrow> Inl (Sentinel ErrWorkerLifecycleSessionFenced)
      | Some r \<Rightarrow>
          if cu_active_connection_id r \<noteq> se_ConnectionID session
            \<or> uint64_of_int64 (cu_active_lease_revision r) \<noteq> se_LeaseRevision session
          then Inl (Sentinel ErrWorkerLifecycleSessionFenced)
          else Inr (uint64_of_int64 (cu_applied_revision r)))"

section \<open>Applying snapshots\<close>

definition authorizeWorkerLifecycleSnapshot ::
    "WorkerLifecycleSession \<Rightarrow> WorkerLifecycleSnapshot \<Rightarrow> BrokerDb \<Rightarrow> unit result" where
  "authorizeWorkerLifecycleSnapshot session snapshot s =
     (let c = se_ControllerID session; t = wl_TreeID snapshot; a = wl_AgentID snapshot in
      case (sel1 (principal_at c t a) (principals s), sel1 (tree_at c t) (trees s),
            sel1 (\<lambda>r. sp_controller_id r = c \<and> sp_tree_id r = t \<and> sp_agent_id r = a) (agent_spawn_receipts s)) of
        (Some p, Some tr, Some r) \<Rightarrow>
          if pr_parent_agent_id p = '''' \<or> pr_parent_agent_id p \<noteq> t_root_agent_id tr
            \<or> sp_source_agent_id r \<noteq> t_root_agent_id tr \<or> pr_device_id p \<noteq> se_DeviceID session
            \<or> sp_target_device_id r \<noteq> se_DeviceID session
          then Inl (Sentinel ErrAuthorizationDenied) else Inr ()
      | _ \<Rightarrow> Inl (Sentinel ErrAuthorizationDenied))"

definition snapshot_of :: "LifecycleRow \<Rightarrow> WorkerLifecycleSnapshot" where
  "snapshot_of r =
     \<lparr>wl_TreeID = lc_tree_id r, wl_AgentID = lc_agent_id r, wl_Revision = nat (lc_target_revision r),
      wl_Phase = lc_phase r, wl_FailureCode = lc_failure_code r, wl_CodexThreadID = lc_codex_thread_id r,
      wl_ActiveTurnID = lc_active_turn_id r\<rparr>"

definition queryWorkerLifecycleAuthority ::
    "string \<Rightarrow> string \<Rightarrow> string \<Rightarrow> BrokerDb \<Rightarrow> workerLifecycleAuthority result" where
  "queryWorkerLifecycleAuthority controllerID treeID agentID s =
     (case sel1 (lifecycle_at controllerID treeID agentID) (agent_lifecycle_states s) of
        None \<Rightarrow> Inl (Sentinel ErrNotFound)
      | Some r \<Rightarrow>
          guard_res (first_err
            [fail_if (lc_target_revision r < 0 \<or> lc_authority_revision r < 0 \<or> lc_lifecycle_sequence r < 0)
               (Plain ''load worker lifecycle authority''),
             wrap ''stored worker lifecycle targetDeviceId'' (ValidateID (lc_target_device_id r)),
             wrap ''stored worker lifecycle snapshot is invalid'' (WorkerLifecycleSnapshot_Validate (snapshot_of r)),
             fail_if (lc_authority_revision r = 0 \<or> lc_authority_revision r > lc_target_revision r
                      \<or> lc_lifecycle_sequence r = 0 \<or> lc_lifecycle_sequence r > MaxInt64 \<or> lc_observed_at r < 0)
               (Plain ''stored worker lifecycle metadata is invalid'')])
          (Inr \<lparr>la_TargetDeviceID = lc_target_device_id r, la_AuthorityRevision = nat (lc_authority_revision r),
                la_Snapshot = snapshot_of r, la_Sequence = nat (lc_lifecycle_sequence r),
                la_ObservedAt = lc_observed_at r\<rparr>))"

definition nextTreeLifecycleSequence :: "string \<Rightarrow> string \<Rightarrow> (BrokerDb, int) tx" where
  "nextTreeLifecycleSequence controllerID treeID =
     tx_bind (tx_query (\<lambda>s. case sel1 (tree_at controllerID treeID) (trees s) of
         None \<Rightarrow> Inl (Sentinel ErrNotFound) | Some r \<Rightarrow> Inr (t_last_lifecycle_sequence r))) (\<lambda>current.
     if current = MaxInt64 then tx_fail (Sentinel ErrAgentLifecycleSequenceExhausted)
     else
       let at = (\<lambda>r. tree_at controllerID treeID r \<and> t_last_lifecycle_sequence r = current) in
       tx_bind (tx_update (\<lambda>s. affected at (trees s))
         (\<lambda>s. s\<lparr>trees := upd at (\<lambda>r. r\<lparr>t_last_lifecycle_sequence := add_int64 current 1\<rparr>) (trees s)\<rparr>)) (\<lambda>n.
       tx_bind (tx_check (fail_if (n \<noteq> 1) (Plain ''tree lifecycle sequence changed during update''))) (\<lambda>_.
       tx_ret (add_int64 current 1))))"

definition new_lifecycle_row ::
    "WorkerLifecycleSession \<Rightarrow> WorkerLifecycleSnapshot \<Rightarrow> int \<Rightarrow> int \<Rightarrow> LifecycleRow" where
  "new_lifecycle_row session snapshot seqno observedAt =
     \<lparr>lc_controller_id = se_ControllerID session, lc_tree_id = wl_TreeID snapshot, lc_agent_id = wl_AgentID snapshot,
      lc_target_device_id = se_DeviceID session, lc_target_revision = int (wl_Revision snapshot),
      lc_authority_revision = int (wl_Revision snapshot), lc_codex_thread_id = wl_CodexThreadID snapshot,
      lc_active_turn_id = wl_ActiveTurnID snapshot, lc_phase = wl_Phase snapshot,
      lc_failure_code = wl_FailureCode snapshot, lc_lifecycle_sequence = seqno, lc_observed_at = observedAt\<rparr>"

definition lifecycle_insertable :: "LifecycleRow \<Rightarrow> BrokerDb \<Rightarrow> bool" where
  "lifecycle_insertable r s \<longleftrightarrow>
     0 < lc_target_revision r \<and> 0 < lc_authority_revision r \<and> lc_authority_revision r \<le> lc_target_revision r
     \<and> length (lc_codex_thread_id r) \<in> {0, 36} \<and> length (lc_active_turn_id r) \<in> {0, 36}
     \<and> WorkerLifecyclePhase_Validate (lc_phase r) (lc_failure_code r) = None
     \<and> phase_identity_check (lc_phase r) (lc_codex_thread_id r) (lc_active_turn_id r) = None
     \<and> 0 < lc_lifecycle_sequence r \<and> 0 \<le> lc_observed_at r
     \<and> list_all (\<lambda>x. \<not> (lc_controller_id x = lc_controller_id r \<and> lc_tree_id x = lc_tree_id r
          \<and> (lc_agent_id x = lc_agent_id r \<or> lc_lifecycle_sequence x = lc_lifecycle_sequence r)))
          (agent_lifecycle_states s)
     \<and> list_ex (device_at (lc_controller_id r) (lc_target_device_id r)) (devices s)
     \<and> list_ex (tree_at (lc_controller_id r) (lc_tree_id r)) (trees s)
     \<and> list_ex (principal_at (lc_controller_id r) (lc_tree_id r) (lc_agent_id r)) (principals s)
     \<and> list_ex (\<lambda>x. sp_controller_id x = lc_controller_id r \<and> sp_tree_id x = lc_tree_id r
          \<and> sp_agent_id x = lc_agent_id r) (agent_spawn_receipts s)"

definition requireSingleLifecycleUpdate :: "nat \<Rightarrow> err" where
  "requireSingleLifecycleUpdate n = fail_if (n \<noteq> 1) (Plain ''agent lifecycle state changed during update'')"

definition update_lifecycle ::
    "WorkerLifecycleSession \<Rightarrow> WorkerLifecycleSnapshot \<Rightarrow> nat \<Rightarrow> (LifecycleRow \<Rightarrow> LifecycleRow) \<Rightarrow> (BrokerDb, unit) tx" where
  "update_lifecycle session snapshot stored f =
     (let at = (\<lambda>r. lifecycle_at (se_ControllerID session) (wl_TreeID snapshot) (wl_AgentID snapshot) r
                    \<and> lc_target_revision r = int stored)
      in tx_bind (tx_update (\<lambda>s. affected at (agent_lifecycle_states s))
           (\<lambda>s. s\<lparr>agent_lifecycle_states := upd at f (agent_lifecycle_states s)\<rparr>)) (\<lambda>n.
         tx_check (requireSingleLifecycleUpdate n)))"

definition refresh_row :: "WorkerLifecycleSnapshot \<Rightarrow> nat \<Rightarrow> int \<Rightarrow> LifecycleRow \<Rightarrow> LifecycleRow" where
  "refresh_row snapshot authorityRevision observedAt r =
     r\<lparr>lc_target_revision := int (wl_Revision snapshot), lc_authority_revision := int authorityRevision,
       lc_codex_thread_id := wl_CodexThreadID snapshot, lc_active_turn_id := wl_ActiveTurnID snapshot,
       lc_observed_at := observedAt\<rparr>"

definition advance_row :: "WorkerLifecycleSnapshot \<Rightarrow> int \<Rightarrow> int \<Rightarrow> LifecycleRow \<Rightarrow> LifecycleRow" where
  "advance_row snapshot seqno observedAt r =
     (refresh_row snapshot (wl_Revision snapshot) observedAt r)
     \<lparr>lc_phase := wl_Phase snapshot, lc_failure_code := wl_FailureCode snapshot, lc_lifecycle_sequence := seqno\<rparr>"

definition applyWorkerLifecycleSnapshot ::
    "WorkerLifecycleSession \<Rightarrow> WorkerLifecycleSnapshot \<Rightarrow> int \<Rightarrow> (BrokerDb, unit) tx" where
  "applyWorkerLifecycleSnapshot session snapshot observedAt =
     (let c = se_ControllerID session; t = wl_TreeID snapshot; a = wl_AgentID snapshot in
      tx_bind (tx_query (authorizeWorkerLifecycleSnapshot session snapshot)) (\<lambda>_.
      tx_bind (tx_query (\<lambda>s. or_not_found (queryWorkerLifecycleAuthority c t a s))) (\<lambda>found.
      case found of
        None \<Rightarrow>
          tx_bind (nextTreeLifecycleSequence c t) (\<lambda>seqno.
          tx_insert ''create agent lifecycle state''
            (lifecycle_insertable (new_lifecycle_row session snapshot seqno observedAt))
            (\<lambda>s. s\<lparr>agent_lifecycle_states :=
               agent_lifecycle_states s @ [new_lifecycle_row session snapshot seqno observedAt]\<rparr>))
      | Some stored \<Rightarrow>
          if la_TargetDeviceID stored \<noteq> se_DeviceID session then tx_fail (Sentinel ErrAuthorizationDenied)
          else if wl_Revision snapshot \<le> wl_Revision (la_Snapshot stored)
          then tx_fail (Sentinel ErrWorkerLifecycleRevisionNotForward)
          else
            let observed = (if observedAt < la_ObservedAt stored then la_ObservedAt stored else observedAt);
                sameLifecycleEvent = (wl_Phase (la_Snapshot stored) = wl_Phase snapshot
                  \<and> wl_FailureCode (la_Snapshot stored) = wl_FailureCode snapshot);
                sameAuthority = (sameLifecycleEvent
                  \<and> wl_CodexThreadID (la_Snapshot stored) = wl_CodexThreadID snapshot
                  \<and> wl_ActiveTurnID (la_Snapshot stored) = wl_ActiveTurnID snapshot)
            in if sameLifecycleEvent
               then update_lifecycle session snapshot (wl_Revision (la_Snapshot stored))
                      (refresh_row snapshot (if sameAuthority then la_AuthorityRevision stored else wl_Revision snapshot)
                        observed)
               else
                 tx_bind (nextTreeLifecycleSequence c t) (\<lambda>seqno.
                 update_lifecycle session snapshot (wl_Revision (la_Snapshot stored))
                   (advance_row snapshot seqno observed)))))"

primrec tx_each :: "('a \<Rightarrow> ('s, unit) tx) \<Rightarrow> 'a list \<Rightarrow> ('s, unit) tx" where
  "tx_each f [] = tx_ret ()"
| "tx_each f (x # xs) = tx_bind (f x) (\<lambda>_. tx_each f xs)"

definition advance_cursor :: "WorkerLifecycleSession \<Rightarrow> nat \<Rightarrow> nat \<Rightarrow> (BrokerDb, unit) tx" where
  "advance_cursor session base applied =
     (let at = (\<lambda>r. cursor_at session r \<and> cu_active_connection_id r = se_ConnectionID session
                    \<and> cu_active_lease_revision r = int (se_LeaseRevision session)
                    \<and> cu_applied_revision r = int base)
      in tx_bind (tx_update (\<lambda>s. affected at (peer_worker_sync_cursors s))
           (\<lambda>s. s\<lparr>peer_worker_sync_cursors :=
              upd at (\<lambda>r. r\<lparr>cu_applied_revision := int applied\<rparr>) (peer_worker_sync_cursors s)\<rparr>)) (\<lambda>n.
         tx_check (fail_if (n \<noteq> 1) (Sentinel ErrWorkerLifecycleSessionFenced))))"

definition ApplyWorkerLifecyclePage_tx :: "WorkerLifecyclePageApply \<Rightarrow> nat \<Rightarrow> (BrokerDb, nat) tx" where
  "ApplyWorkerLifecyclePage_tx request applied =
     (let session = pa_Session request; page = pa_Page request in
      tx_bind (tx_query (verifyWorkerLifecycleLease session)) (\<lambda>_.
      tx_bind (tx_query (queryWorkerLifecycleCursor session)) (\<lambda>appliedRevision.
      if appliedRevision \<noteq> sl_BaseRevision page then tx_fail (Sentinel ErrWorkerLifecycleStaleBase)
      else
        tx_bind (tx_each (\<lambda>snapshot. applyWorkerLifecycleSnapshot session snapshot (pa_ObservedAt request))
          (sl_Workers page)) (\<lambda>_.
        tx_bind (advance_cursor session (sl_BaseRevision page) applied) (\<lambda>_.
        tx_ret applied)))))"

definition ApplyWorkerLifecyclePage :: "WorkerLifecyclePageApply \<Rightarrow> BrokerDb \<Rightarrow> nat result \<times> BrokerDb" where
  "ApplyWorkerLifecyclePage request s =
     (case WorkerLifecycleSession_Validate (pa_Session request) of
        Some e \<Rightarrow> (Inl e, s)
      | None \<Rightarrow>
          (case AppliedRevision (pa_Page request) of
             Inl e \<Rightarrow> (Inl e, s)
           | Inr applied \<Rightarrow>
               guard_tx (unixTime (pa_ObservedAt request) ''observedAt'')
                 (ApplyWorkerLifecyclePage_tx request applied) s))"

section \<open>Listing activity\<close>

definition scanAgentLifecycleActivity :: "LifecycleRow \<Rightarrow> StoredLifecycleActivity result" where
  "scanAgentLifecycleActivity r =
     guard_res (first_err
       [fail_if (lc_target_revision r < 0 \<or> lc_lifecycle_sequence r < 0) (Plain ''scan agent lifecycle activity''),
        wrap ''stored agent lifecycle treeId'' (ValidateID (lc_tree_id r)),
        wrap ''stored agent lifecycle agentId'' (ValidateID (lc_agent_id r)),
        wrap ''stored agent lifecycle targetDeviceId'' (ValidateID (lc_target_device_id r)),
        fail_if (lc_target_revision r = 0 \<or> lc_target_revision r > MaxInt64
                 \<or> lc_lifecycle_sequence r = 0 \<or> lc_lifecycle_sequence r > MaxInt64 \<or> lc_observed_at r < 0)
          (Plain ''stored agent lifecycle numeric state is invalid''),
        wrap ''stored agent lifecycle state is invalid'' (WorkerLifecyclePhase_Validate (lc_phase r) (lc_failure_code r))])
     (Inr \<lparr>sa_TreeID = lc_tree_id r, sa_AgentID = lc_agent_id r, sa_TargetDeviceID = lc_target_device_id r,
           sa_TargetRevision = nat (lc_target_revision r), sa_Phase = lc_phase r,
           sa_FailureCode = lc_failure_code r, sa_Sequence = nat (lc_lifecycle_sequence r),
           sa_ObservedAt = lc_observed_at r\<rparr>)"

definition activity_rows :: "string \<Rightarrow> string \<Rightarrow> nat \<Rightarrow> BrokerDb \<Rightarrow> LifecycleRow list" where
  "activity_rows c t after s =
     sort_key lc_lifecycle_sequence
       (filter (\<lambda>r. lc_controller_id r = c \<and> lc_tree_id r = t \<and> lc_lifecycle_sequence r > int after)
          (agent_lifecycle_states s))"

definition ListAgentLifecycleActivity ::
    "PrincipalIdentity \<Rightarrow> nat \<Rightarrow> int \<Rightarrow> BrokerDb \<Rightarrow> AgentLifecyclePage result" where
  "ListAgentLifecycleActivity root afterSequence limit s =
     guard_res (first_err
       [wrap ''root'' (PrincipalIdentity_Validate root),
        fail_if (int afterSequence > MaxInt64) (Sentinel ErrAgentLifecycleCursorAhead),
        fail_if (limit < 1 \<or> limit > int MaximumWorkerLifecyclePage)
          (Plain ''agent lifecycle page limit must be from 1 through 32'')])
     (case authorizePrincipal root CapabilityAgentManageDescendants s of
        Inl e \<Rightarrow> Inl e
      | Inr prin \<Rightarrow>
          if pi_ParentAgentID (p_Identity prin) \<noteq> '''' then Inl (Sentinel ErrAuthorizationDenied)
          else
            case sel1 (tree_at (pi_ControllerID root) (pi_TreeID root)) (trees s) of
              None \<Rightarrow> Inl (Sentinel ErrNotFound)
            | Some tr \<Rightarrow>
                if afterSequence > uint64_of_int64 (t_last_lifecycle_sequence tr)
                then Inl (Sentinel ErrAgentLifecycleCursorAhead)
                else
                  (case traverse scanAgentLifecycleActivity
                     (take (nat limit) (activity_rows (pi_ControllerID root) (pi_TreeID root) afterSequence s)) of
                     Inl e \<Rightarrow> Inl e
                   | Inr activities \<Rightarrow>
                       Inr \<lparr>lp_Activities = activities,
                            lp_NextSequence = (if activities = [] then afterSequence else sa_Sequence (last activities)),
                            lp_Highwater = uint64_of_int64 (t_last_lifecycle_sequence tr)\<rparr>))"

end
