(* ===== verification/Lifecycle_Inv.thy ===== *)
theory Lifecycle_Inv
  imports Lifecycle Operation_Inv
begin

text \<open>
  The lifecycle invariant: one row per agent with a valid snapshot, its sequence unique and at most
  the tree's highwater, its revision at most what its device's cursor has applied. The highwater is a
  \<open>sequence\<close>. A page changes the rows of its own device only, forward only, and every change of
  phase is numbered above the highwater before it.
\<close>

definition lifecycle_key :: "LifecycleRow \<Rightarrow> string \<times> string \<times> string" where
  "lifecycle_key r = (lc_controller_id r, lc_tree_id r, lc_agent_id r)"

definition lifecycle_slot :: "LifecycleRow \<Rightarrow> string \<times> string \<times> int" where
  "lifecycle_slot r = (lc_controller_id r, lc_tree_id r, lc_lifecycle_sequence r)"

definition cursor_key :: "CursorRow \<Rightarrow> string \<times> string" where
  "cursor_key r = (cu_controller_id r, cu_device_id r)"

definition lifecycle_high :: "string \<Rightarrow> string \<Rightarrow> BrokerDb \<Rightarrow> int" where
  "lifecycle_high c t s = (case sel1 (tree_at c t) (trees s) of None \<Rightarrow> 0 | Some r \<Rightarrow> t_last_lifecycle_sequence r)"

definition hosted :: "BrokerDb \<Rightarrow> LifecycleRow \<Rightarrow> bool" where
  "hosted s r \<longleftrightarrow> (\<exists>x \<in> set (agent_spawn_receipts s).
     spawned_key x = lifecycle_key r \<and> sp_target_device_id x = lc_target_device_id r)"

definition lifecycle_row_ok :: "BrokerDb \<Rightarrow> LifecycleRow \<Rightarrow> bool" where
  "lifecycle_row_ok s r \<longleftrightarrow>
     hosted s r \<and> WorkerLifecycleSnapshot_Validate (snapshot_of r) = None
     \<and> 0 < lc_authority_revision r \<and> lc_authority_revision r \<le> lc_target_revision r \<and> lc_target_revision r \<le> MaxInt64
     \<and> 0 < lc_lifecycle_sequence r \<and> lc_lifecycle_sequence r \<le> lifecycle_high (lc_controller_id r) (lc_tree_id r) s
     \<and> 0 \<le> lc_observed_at r"

definition lifecycle_core :: "BrokerDb \<Rightarrow> bool" where
  "lifecycle_core s \<longleftrightarrow>
     uniq lifecycle_key (agent_lifecycle_states s) \<and> uniq lifecycle_slot (agent_lifecycle_states s)
     \<and> (\<forall>r \<in> set (agent_lifecycle_states s). lifecycle_row_ok s r)"

definition cursor_row_ok :: "CursorRow \<Rightarrow> bool" where
  "cursor_row_ok r \<longleftrightarrow> 0 \<le> cu_applied_revision r \<and> cu_applied_revision r \<le> MaxInt64
     \<and> 0 < cu_active_lease_revision r \<and> cu_active_lease_revision r \<le> MaxInt64"

definition cursors_inv :: "BrokerDb \<Rightarrow> bool" where
  "cursors_inv s \<longleftrightarrow>
     uniq cursor_key (peer_worker_sync_cursors s) \<and> (\<forall>r \<in> set (peer_worker_sync_cursors s). cursor_row_ok r)"

definition within_cursor :: "BrokerDb \<Rightarrow> LifecycleRow \<Rightarrow> bool" where
  "within_cursor s r \<longleftrightarrow> (\<exists>x \<in> set (peer_worker_sync_cursors s).
     cursor_key x = (lc_controller_id r, lc_target_device_id r) \<and> lc_target_revision r \<le> cu_applied_revision x)"

definition lifecycle_inv :: "BrokerDb \<Rightarrow> bool" where
  "lifecycle_inv s \<longleftrightarrow>
     lifecycle_core s \<and> cursors_inv s \<and> (\<forall>r \<in> set (agent_lifecycle_states s). within_cursor s r)"

lemma lifecycle_coreD:
  assumes "lifecycle_core s"
  shows "uniq lifecycle_key (agent_lifecycle_states s)" "uniq lifecycle_slot (agent_lifecycle_states s)"
    "\<And>r. r \<in> set (agent_lifecycle_states s) \<Longrightarrow> lifecycle_row_ok s r"
  using assms by (auto simp: lifecycle_core_def)

lemma lifecycle_inv_empty: "lifecycle_inv schemaCurrent"
  by (simp add: lifecycle_inv_def lifecycle_core_def cursors_inv_def)

text \<open>It grows with spawns and highwaters.\<close>

lemma hosted_mono:
  assumes "hosted s r" "spawns_le s s'"
  shows "hosted s' r"
proof -
  obtain x where x: "x \<in> set (agent_spawn_receipts s)" "spawned_key x = lifecycle_key r" "sp_target_device_id x = lc_target_device_id r"
    using assms(1) by (auto simp: hosted_def)
  obtain y where y: "y \<in> set (agent_spawn_receipts s')" "spawn_le x y" using assms(2) x(1) by (auto simp: spawns_le_def)
  have "spawn_identity y = spawn_identity x" using y(2) by (simp add: spawn_le_def)
  then have "spawned_key y = spawned_key x" "sp_target_device_id y = sp_target_device_id x"
    by (simp_all add: spawned_key_def spawn_identity_def)
  then show ?thesis using x y(1) unfolding hosted_def by (intro bexI [of _ y]) simp_all
qed

lemma lifecycle_row_ok_mono:
  assumes "lifecycle_row_ok s r" "spawns_le s s'"
    "lifecycle_high (lc_controller_id r) (lc_tree_id r) s \<le> lifecycle_high (lc_controller_id r) (lc_tree_id r) s'"
  shows "lifecycle_row_ok s' r"
  using assms hosted_mono by (auto simp: lifecycle_row_ok_def)

lemma lifecycle_inv_mono:
  assumes inv: "lifecycle_inv s" and same: "agent_lifecycle_states s' = agent_lifecycle_states s"
      "peer_worker_sync_cursors s' = peer_worker_sync_cursors s"
    and grow: "spawns_le s s'" "\<And>c t. lifecycle_high c t s \<le> lifecycle_high c t s'"
  shows "lifecycle_inv s'"
  using inv same lifecycle_row_ok_mono [OF _ grow]
  by (auto simp: lifecycle_inv_def lifecycle_core_def cursors_inv_def within_cursor_def)

section \<open>The highwater\<close>

definition bump_lifecycle :: "string \<Rightarrow> string \<Rightarrow> int \<Rightarrow> BrokerDb \<Rightarrow> BrokerDb" where
  "bump_lifecycle c t n s =
     s\<lparr>trees := upd (tree_at c t) (\<lambda>r. r\<lparr>t_last_lifecycle_sequence := n\<rparr>) (trees s)\<rparr>"

lemma tree_at_bump [simp]: "tree_at c t (r\<lparr>t_last_lifecycle_sequence := n\<rparr>) = tree_at c t r"
  by (simp add: tree_at_def)

lemma lifecycle_high_bump:
  "lifecycle_high c' t' (bump_lifecycle c t n s) =
     (if (c', t') = (c, t) \<and> sel1 (tree_at c t) (trees s) \<noteq> None then n else lifecycle_high c' t' s)"
proof -
  have "sel1 (tree_at c' t') (trees (bump_lifecycle c t n s)) =
      map_option (\<lambda>r. if tree_at c t r then r\<lparr>t_last_lifecycle_sequence := n\<rparr> else r) (sel1 (tree_at c' t') (trees s))"
    unfolding bump_lifecycle_def by (simp add: sel1_upd)
  then show ?thesis
    using sel1_SomeD [of "tree_at c' t'" "trees s"]
    by (cases "sel1 (tree_at c' t') (trees s)") (auto simp: lifecycle_high_def tree_at_def)
qed

lemma lifecycle_high_bounds: "trees_inv s \<Longrightarrow> 0 \<le> lifecycle_high c t s \<and> lifecycle_high c t s \<le> MaxInt64"
  using trees_invD(4) [of s] sel1_SomeD [of "tree_at c t" "trees s"]
  by (auto simp: lifecycle_high_def tree_row_ok_def MaxInt64_def split: option.splits)

lemma nextTreeLifecycleSequence_Inr:
  assumes inv: "trees_inv s" and tx: "nextTreeLifecycleSequence c t s = Inr (n, s')"
  shows "lifecycle_high c t s < MaxInt64" "n = lifecycle_high c t s + 1" "s' = bump_lifecycle c t n s"
    "sel1 (tree_at c t) (trees s) \<noteq> None"
proof -
  obtain tr where tr: "sel1 (tree_at c t) (trees s) = Some tr" "t_last_lifecycle_sequence tr \<noteq> MaxInt64"
    using tx by (auto simp: nextTreeLifecycleSequence_def Let_def split: option.splits if_splits)
  have high: "lifecycle_high c t s = t_last_lifecycle_sequence tr" using tr(1) by (simp add: lifecycle_high_def)
  then show lt: "lifecycle_high c t s < MaxInt64" using lifecycle_high_bounds [OF inv, of c t] tr(2) by simp
  have succ: "add_int64 (t_last_lifecycle_sequence tr) 1 = t_last_lifecycle_sequence tr + 1"
    using lt high lifecycle_high_bounds [OF inv, of c t] by (simp add: add_int64_succ)
  have "upd (\<lambda>r. tree_at c t r \<and> t_last_lifecycle_sequence r = t_last_lifecycle_sequence tr) f (trees s) =
      upd (tree_at c t) f (trees s)" for f
    by (rule upd_conj)
      (use sel1_SomeD [OF tr(1)] uniq_same [OF trees_invD(2) [OF inv]] in \<open>unfold tree_at_key, metis\<close>)
  then show "n = lifecycle_high c t s + 1" "s' = bump_lifecycle c t n s"
    using tx tr succ high by (auto simp: nextTreeLifecycleSequence_def Let_def bump_lifecycle_def)
  show "sel1 (tree_at c t) (trees s) \<noteq> None" using tr(1) by simp
qed

lemma bump_lifecycle_simps [simp]:
  "principals (bump_lifecycle c t n s) = principals s" "agent_spawn_receipts (bump_lifecycle c t n s) = agent_spawn_receipts s"
  "workspace_sync_receipts (bump_lifecycle c t n s) = workspace_sync_receipts s" "devices (bump_lifecycle c t n s) = devices s"
  "agent_lifecycle_states (bump_lifecycle c t n s) = agent_lifecycle_states s"
  "peer_worker_sync_cursors (bump_lifecycle c t n s) = peer_worker_sync_cursors s"
  by (simp_all add: bump_lifecycle_def)

lemma bump_lifecycle_ok:
  assumes ok: "spawn_ok s" and n: "0 \<le> n" "n \<le> MaxInt64"
  shows "spawn_ok (bump_lifecycle c t n s)"
proof -
  note inv = spawn_okD [OF ok]
  let ?s = "bump_lifecycle c t n s"
  have "trees_inv ?s" unfolding bump_lifecycle_def
    by (rule trees_inv_upd [OF inv(2)]) (use n trees_invD(4) [OF inv(2)] in \<open>auto simp: tree_of_def tree_row_ok_def\<close>)
  moreover have "spawns_inv ?s"
  proof (rule spawns_inv_mono [OF inv(1)])
    show "numbered ?s x" if "x \<in> set (trees ?s)" for x
      using that spawns_invD(4) [OF inv(1)] by (auto simp: bump_lifecycle_def set_upd numbered_def agents_of_def)
  qed (auto simp: workspaces_le_def intro: workspace_le_refl)
  moreover have "workspace_inv ?s" by (rule workspace_inv_mono [OF inv(3)]) auto
  ultimately show ?thesis by (simp add: spawn_ok_def)
qed

text \<open>The lifecycle sequence of a tree hands out consecutive numbers.\<close>

interpretation lifecycle_seq:
  sequence spawn_ok "lifecycle_high c t" "nextTreeLifecycleSequence c t" "\<lambda>n. n" for c t
proof
  fix s n s'
  assume ok: "spawn_ok s" and tx: "nextTreeLifecycleSequence c t s = Inr (n, s')"
  note st = nextTreeLifecycleSequence_Inr [OF spawn_okD(2) [OF ok] tx]
  have n: "0 \<le> n" "n \<le> MaxInt64" using st(1,2) lifecycle_high_bounds [OF spawn_okD(2) [OF ok], of c t] by simp_all
  show "spawn_ok s'" unfolding st(3) by (rule bump_lifecycle_ok [OF ok n])
  show "n = lifecycle_high c t s + 1" by (rule st(2))
  show "lifecycle_high c t s' = lifecycle_high c t s + 1" unfolding st(3) lifecycle_high_bump using st(2,4) by simp
qed

section \<open>Applying one snapshot\<close>

lemma lifecycle_at_key: "lifecycle_at c t a = (\<lambda>r. lifecycle_key r = (c, t, a))"
  by (auto simp: lifecycle_at_def lifecycle_key_def fun_eq_iff)

definition authority_of :: "LifecycleRow \<Rightarrow> workerLifecycleAuthority" where
  "authority_of r =
     \<lparr>la_TargetDeviceID = lc_target_device_id r, la_AuthorityRevision = nat (lc_authority_revision r),
      la_Snapshot = snapshot_of r, la_Sequence = nat (lc_lifecycle_sequence r), la_ObservedAt = lc_observed_at r\<rparr>"

lemma hosted_device:
  assumes "spawns_inv s" "hosted s r"
  shows "ValidateID (lc_target_device_id r) = None"
proof -
  obtain x where x: "x \<in> set (agent_spawn_receipts s)" "sp_target_device_id x = lc_target_device_id r"
    using assms(2) by (auto simp: hosted_def)
  then have "ValidateID (sp_target_device_id x) = None"
    using spawns_invD(3) [OF assms(1) x(1)]
    by (simp add: spawn_row_ok_def AgentSummary_Validate_def PrincipalIdentity_Validate_def)
  then show ?thesis using x(2) by simp
qed

lemma queryWorkerLifecycleAuthority_inv:
  assumes "spawn_ok s" "lifecycle_core s"
  shows "queryWorkerLifecycleAuthority c t a s =
    (case sel1 (lifecycle_at c t a) (agent_lifecycle_states s) of
       None \<Rightarrow> Inl (Sentinel ErrNotFound) | Some r \<Rightarrow> Inr (authority_of r))"
proof (cases "sel1 (lifecycle_at c t a) (agent_lifecycle_states s)")
  case (Some r)
  then have ok: "lifecycle_row_ok s r" using lifecycle_coreD(3) [OF assms(2)] sel1_SomeD by metis
  then have "lc_lifecycle_sequence r \<le> MaxInt64" "hosted s r"
    using lifecycle_high_bounds [OF spawn_okD(2) [OF assms(1)], of "lc_controller_id r" "lc_tree_id r"]
    by (auto simp: lifecycle_row_ok_def)
  then show ?thesis
    using Some ok hosted_device [OF spawn_okD(1) [OF assms(1)]]
    by (auto simp: queryWorkerLifecycleAuthority_def lifecycle_row_ok_def authority_of_def)
qed (simp add: queryWorkerLifecycleAuthority_def)

lemma authorize_snapshot_hosted:
  assumes "authorizeWorkerLifecycleSnapshot se w s = Inr u"
  obtains x where "x \<in> set (agent_spawn_receipts s)" "spawned_key x = (se_ControllerID se, wl_TreeID w, wl_AgentID w)"
    "sp_target_device_id x = se_DeviceID se"
proof -
  obtain x where "sel1 (\<lambda>r. sp_controller_id r = se_ControllerID se \<and> sp_tree_id r = wl_TreeID w \<and> sp_agent_id r = wl_AgentID w)
      (agent_spawn_receipts s) = Some x" "sp_target_device_id x = se_DeviceID se"
    using assms by (auto simp: authorizeWorkerLifecycleSnapshot_def Let_def split: option.splits if_splits)
  then show thesis using that sel1_SomeD by (fastforce simp: spawned_key_def)
qed

lemma update_lifecycle_Inr:
  assumes uq: "uniq lifecycle_key (agent_lifecycle_states s)" and pos: "0 \<le> lc_target_revision r"
    and r: "sel1 (lifecycle_at (se_ControllerID se) (wl_TreeID w) (wl_AgentID w)) (agent_lifecycle_states s) = Some r"
    and tx: "update_lifecycle se w (nat (lc_target_revision r)) f s = Inr (u, s')"
  shows "s' = s\<lparr>agent_lifecycle_states :=
    upd (lifecycle_at (se_ControllerID se) (wl_TreeID w) (wl_AgentID w)) f (agent_lifecycle_states s)\<rparr>"
proof -
  let ?at = "lifecycle_at (se_ControllerID se) (wl_TreeID w) (wl_AgentID w)"
  have one: "x = r" if "x \<in> set (agent_lifecycle_states s)" "?at x" for x
    using that sel1_SomeD [OF r] uniq_same [OF uq] by (auto simp: lifecycle_at_key)
  have "upd (\<lambda>x. ?at x \<and> lc_target_revision x = int (nat (lc_target_revision r))) f (agent_lifecycle_states s) =
      upd ?at f (agent_lifecycle_states s)"
    by (rule upd_conj) (use one pos in auto)
  then show ?thesis using tx by (simp add: update_lifecycle_def Let_def)
qed

definition same_event :: "WorkerLifecycleSnapshot \<Rightarrow> LifecycleRow \<Rightarrow> bool" where
  "same_event w r \<longleftrightarrow> lc_phase r = wl_Phase w \<and> lc_failure_code r = wl_FailureCode w"

definition kept_authority :: "WorkerLifecycleSnapshot \<Rightarrow> LifecycleRow \<Rightarrow> nat" where
  "kept_authority w r =
     (if same_event w r \<and> lc_codex_thread_id r = wl_CodexThreadID w \<and> lc_active_turn_id r = wl_ActiveTurnID w
      then nat (lc_authority_revision r) else wl_Revision w)"

lemma apply_snapshot_cases:
  assumes ok: "spawn_ok s" "lifecycle_core s" and tx: "applyWorkerLifecycleSnapshot se w obs s = Inr (u, s')"
  defines "c \<equiv> se_ControllerID se" and "t \<equiv> wl_TreeID w" and "a \<equiv> wl_AgentID w"
  obtains (created) n where "authorizeWorkerLifecycleSnapshot se w s = Inr ()"
      "sel1 (lifecycle_at c t a) (agent_lifecycle_states s) = None"
      "nextTreeLifecycleSequence c t s = Inr (n, bump_lifecycle c t n s)"
      "s' = (bump_lifecycle c t n s)\<lparr>agent_lifecycle_states := agent_lifecycle_states s @ [new_lifecycle_row se w n obs]\<rparr>"
  | (refreshed) r where "sel1 (lifecycle_at c t a) (agent_lifecycle_states s) = Some r" "lc_target_device_id r = se_DeviceID se"
      "lc_target_revision r < int (wl_Revision w)" "same_event w r"
      "s' = s\<lparr>agent_lifecycle_states := upd (lifecycle_at c t a)
         (refresh_row w (kept_authority w r) (max (lc_observed_at r) obs)) (agent_lifecycle_states s)\<rparr>"
  | (advanced) r n where "sel1 (lifecycle_at c t a) (agent_lifecycle_states s) = Some r" "lc_target_device_id r = se_DeviceID se"
      "lc_target_revision r < int (wl_Revision w)" "\<not> same_event w r"
      "nextTreeLifecycleSequence c t s = Inr (n, bump_lifecycle c t n s)"
      "s' = (bump_lifecycle c t n s)\<lparr>agent_lifecycle_states := upd (lifecycle_at c t a)
         (advance_row w n (max (lc_observed_at r) obs)) (agent_lifecycle_states s)\<rparr>"
proof -
  obtain v where au: "authorizeWorkerLifecycleSnapshot se w s = Inr v"
    using tx unfolding applyWorkerLifecycleSnapshot_def Let_def by (rule tx_bind_queryE)
  note tx1 = tx [unfolded applyWorkerLifecycleSnapshot_def Let_def
      tx_bind_query(1) [of "authorizeWorkerLifecycleSnapshot se w", OF au], folded c_def t_def a_def]
  show thesis
  proof (cases "sel1 (lifecycle_at c t a) (agent_lifecycle_states s)")
    case None
    then have q: "or_not_found (queryWorkerLifecycleAuthority c t a s) = Inr None"
      by (simp add: queryWorkerLifecycleAuthority_inv [OF ok])
    note tx2 = tx1 [unfolded tx_bind_query(1) [of "\<lambda>s. or_not_found (queryWorkerLifecycleAuthority c t a s)", OF q]]
    then obtain n s1 where n: "nextTreeLifecycleSequence c t s = Inr (n, s1)"
      "s' = s1\<lparr>agent_lifecycle_states := agent_lifecycle_states s1 @ [new_lifecycle_row se w n obs]\<rparr>"
      by auto
    have "s1 = bump_lifecycle c t n s" by (rule nextTreeLifecycleSequence_Inr(3) [OF spawn_okD(2) [OF ok(1)] n(1)])
    then show thesis using created [of n] au None n by simp
  next
    case (Some r)
    then have q: "or_not_found (queryWorkerLifecycleAuthority c t a s) = Inr (Some (authority_of r))"
      by (simp add: queryWorkerLifecycleAuthority_inv [OF ok])
    have pos: "0 < lc_authority_revision r" "0 \<le> lc_target_revision r"
      using lifecycle_coreD(3) [OF ok(2)] sel1_SomeD [OF Some] by (fastforce simp: lifecycle_row_ok_def)+
    note tx2 = tx1 [unfolded tx_bind_query(1) [of "\<lambda>s. or_not_found (queryWorkerLifecycleAuthority c t a s)", OF q]]
    have obs: "(if obs < lc_observed_at r then lc_observed_at r else obs) = max (lc_observed_at r) obs" by simp
    have dev: "lc_target_device_id r = se_DeviceID se" "lc_target_revision r < int (wl_Revision w)"
      using tx2 pos(2) by (auto simp: authority_of_def snapshot_of_def split: if_splits)
    show thesis
    proof (cases "same_event w r")
      case True
      have "update_lifecycle se w (nat (lc_target_revision r))
          (refresh_row w (kept_authority w r) (max (lc_observed_at r) obs)) s = Inr (u, s')"
        using tx2 True dev by (auto simp: authority_of_def snapshot_of_def same_event_def kept_authority_def obs split: if_splits)
      from update_lifecycle_Inr [OF lifecycle_coreD(1) [OF ok(2)] pos(2) Some [unfolded c_def t_def a_def] this]
      show thesis using refreshed [OF Some dev True] by (simp add: c_def t_def a_def)
    next
      case False
      then obtain n s1 where n: "nextTreeLifecycleSequence c t s = Inr (n, s1)"
        and up: "update_lifecycle se w (nat (lc_target_revision r)) (advance_row w n (max (lc_observed_at r) obs)) s1 = Inr (u, s')"
        using tx2 dev by (auto simp: authority_of_def snapshot_of_def same_event_def obs split: if_splits)
      have s1: "s1 = bump_lifecycle c t n s" by (rule nextTreeLifecycleSequence_Inr(3) [OF spawn_okD(2) [OF ok(1)] n(1)])
      have "s' = s1\<lparr>agent_lifecycle_states := upd (lifecycle_at c t a) (advance_row w n (max (lc_observed_at r) obs)) (agent_lifecycle_states s1)\<rparr>"
        unfolding c_def t_def a_def
        by (rule update_lifecycle_Inr [OF _ pos(2) _ up]) (use Some lifecycle_coreD(1) [OF ok(2)] in \<open>simp_all add: s1 c_def t_def a_def\<close>)
      then show thesis using advanced [OF Some dev False] n s1 by simp
    qed
  qed
qed

section \<open>Progress\<close>

definition lifecycle_le :: "LifecycleRow \<Rightarrow> LifecycleRow \<Rightarrow> bool" where
  "lifecycle_le r r' \<longleftrightarrow>
     lifecycle_key r' = lifecycle_key r \<and> lc_target_device_id r' = lc_target_device_id r
     \<and> lc_target_revision r \<le> lc_target_revision r' \<and> lc_authority_revision r \<le> lc_authority_revision r'
     \<and> lc_lifecycle_sequence r \<le> lc_lifecycle_sequence r' \<and> lc_observed_at r \<le> lc_observed_at r'"

definition event_of :: "LifecycleRow \<Rightarrow> (string \<times> string \<times> string) \<times> int \<times> WorkerLifecyclePhase \<times> string" where
  "event_of r = (lifecycle_key r, lc_lifecycle_sequence r, lc_phase r, lc_failure_code r)"

definition lifecycle_grows :: "BrokerDb \<Rightarrow> BrokerDb \<Rightarrow> bool" where
  "lifecycle_grows s s' \<longleftrightarrow>
     (\<forall>c t. lifecycle_high c t s \<le> lifecycle_high c t s')
     \<and> (\<forall>r \<in> set (agent_lifecycle_states s). \<exists>r' \<in> set (agent_lifecycle_states s'). lifecycle_le r r')
     \<and> (\<forall>r' \<in> set (agent_lifecycle_states s').
          event_of r' \<in> event_of ` set (agent_lifecycle_states s)
          \<or> lifecycle_high (lc_controller_id r') (lc_tree_id r') s < lc_lifecycle_sequence r')"

lemma lifecycle_le_refl [simp]: "lifecycle_le r r"
  by (simp add: lifecycle_le_def)

lemma lifecycle_le_trans: "lifecycle_le a b \<Longrightarrow> lifecycle_le b c \<Longrightarrow> lifecycle_le a c"
  by (auto simp: lifecycle_le_def)

lemma lifecycle_grows_refl [simp]: "lifecycle_grows s s"
  unfolding lifecycle_grows_def using lifecycle_le_refl by blast

lemma event_ofD:
  assumes "event_of r' = event_of r"
  shows "lc_controller_id r' = lc_controller_id r" "lc_tree_id r' = lc_tree_id r" "lc_lifecycle_sequence r' = lc_lifecycle_sequence r"
  using assms by (simp_all add: event_of_def lifecycle_key_def)

lemma lifecycle_grows_trans:
  assumes ab: "lifecycle_grows a b" and bc: "lifecycle_grows b c"
  shows "lifecycle_grows a c"
  unfolding lifecycle_grows_def
proof (intro conjI allI ballI)
  show "lifecycle_high x y a \<le> lifecycle_high x y c" for x y
    using ab bc unfolding lifecycle_grows_def by (meson order_trans)
  show "\<exists>r' \<in> set (agent_lifecycle_states c). lifecycle_le r r'" if "r \<in> set (agent_lifecycle_states a)" for r
    using ab bc that unfolding lifecycle_grows_def by (meson lifecycle_le_trans)
  fix r'' assume r'': "r'' \<in> set (agent_lifecycle_states c)"
  consider r' where "r' \<in> set (agent_lifecycle_states b)" "event_of r'' = event_of r'"
    | "lifecycle_high (lc_controller_id r'') (lc_tree_id r'') b < lc_lifecycle_sequence r''"
    using bc r'' unfolding lifecycle_grows_def by blast
  then show "event_of r'' \<in> event_of ` set (agent_lifecycle_states a)
    \<or> lifecycle_high (lc_controller_id r'') (lc_tree_id r'') a < lc_lifecycle_sequence r''"
  proof cases
    case (1 r')
    then show ?thesis using ab event_ofD [OF 1(2)] unfolding lifecycle_grows_def by metis
  next
    case 2
    then show ?thesis using ab unfolding lifecycle_grows_def by (meson order_le_less_trans)
  qed
qed

text \<open>The rows a set of snapshots may have written, all of them its session's own.\<close>

definition touched_by :: "WorkerLifecycleSession \<Rightarrow> WorkerLifecycleSnapshot set \<Rightarrow> LifecycleRow \<Rightarrow> bool" where
  "touched_by se W r \<longleftrightarrow>
     lc_controller_id r = se_ControllerID se \<and> lc_target_device_id r = se_DeviceID se
     \<and> (\<exists>w \<in> W. lc_target_revision r = int (wl_Revision w) \<and> snapshot_of r = w)"

definition writes_only :: "WorkerLifecycleSession \<Rightarrow> WorkerLifecycleSnapshot set \<Rightarrow> BrokerDb \<Rightarrow> BrokerDb \<Rightarrow> bool" where
  "writes_only se W s s' \<longleftrightarrow>
     (\<forall>r \<in> set (agent_lifecycle_states s'). r \<in> set (agent_lifecycle_states s) \<or> touched_by se W r)"

lemma uniq_upd_fresh:
  assumes uq: "uniq key rows" and d: "distinct rows" and one: "\<And>x. x \<in> set rows \<Longrightarrow> P x \<Longrightarrow> x = r"
    and r: "r \<in> set rows" and fr: "key (f r) = key r \<or> key (f r) \<notin> key ` set rows"
  shows "uniq key (upd P f rows)"
proof -
  let ?g = "\<lambda>x. if P x then f x else x"
  have inj: "x = y" if "x \<in> set rows" "y \<in> set rows" "key x = key y" for x y by (rule uniq_same [OF uq that])
  have "inj_on (key \<circ> ?g) (set rows)"
  proof (rule inj_onI)
    fix x y assume xy: "x \<in> set rows" "y \<in> set rows" and eq: "(key \<circ> ?g) x = (key \<circ> ?g) y"
    have out: "key (f r) = key z \<longrightarrow> z = r" if "z \<in> set rows" for z
      using fr inj [OF r that] that by auto
    show "x = y"
      using eq one [OF xy(1)] one [OF xy(2)] out [OF xy(1)] out [OF xy(2)] inj [OF xy]
      by (cases "P x"; cases "P y") auto
  qed
  then show ?thesis using d by (simp add: uniq_def upd_def distinct_map)
qed

lemma lifecycle_upd_facts:
  assumes core: "lifecycle_core s" and sel: "sel1 (lifecycle_at c t a) (agent_lifecycle_states s) = Some r"
    and s1: "agent_lifecycle_states s1 = agent_lifecycle_states s" "spawns_le s s1" "\<And>c t. lifecycle_high c t s \<le> lifecycle_high c t s1"
    and fr: "lifecycle_row_ok s1 (f r)" "lifecycle_le r (f r)"
    and ev: "event_of (f r) = event_of r \<or> lifecycle_high c t s < lc_lifecycle_sequence (f r)"
    and s': "s' = s1\<lparr>agent_lifecycle_states := upd (lifecycle_at c t a) f (agent_lifecycle_states s)\<rparr>"
  shows "lifecycle_core s'" "lifecycle_grows s s'"
    "\<And>x. x \<in> set (agent_lifecycle_states s') \<Longrightarrow> x \<in> set (agent_lifecycle_states s) \<or> x = f r"
proof -
  have at: "r \<in> set (agent_lifecycle_states s)" "lifecycle_key r = (c, t, a)" using sel1_SomeD [OF sel] by (auto simp: lifecycle_at_key)
  have one: "x = r" if "x \<in> set (agent_lifecycle_states s)" "lifecycle_at c t a x" for x
    using that at uniq_same [OF lifecycle_coreD(1) [OF core]] by (auto simp: lifecycle_at_key)
  have rows: "x \<in> set (agent_lifecycle_states s) \<or> x = f r" if x: "x \<in> set (agent_lifecycle_states s')" for x
  proof -
    have "x \<in> set (upd (lifecycle_at c t a) f (agent_lifecycle_states s))" using x by (simp add: s')
    then show ?thesis by (cases rule: in_upd_cases) (use one in auto)
  qed
  then show "\<And>x. x \<in> set (agent_lifecycle_states s') \<Longrightarrow> x \<in> set (agent_lifecycle_states s) \<or> x = f r" .
  have high: "lifecycle_high c t s' = lifecycle_high c t s1" for c t by (simp add: s' lifecycle_high_def)
  have ok1: "lifecycle_row_ok s' x" if "lifecycle_row_ok s1 x" for x
    using that by (simp add: lifecycle_row_ok_def high) (simp add: hosted_def s')
  have "lifecycle_row_ok s' x" if "x \<in> set (agent_lifecycle_states s')" for x
    using rows [OF that] fr(1) lifecycle_row_ok_mono [OF _ s1(2,3)] lifecycle_coreD(3) [OF core] ok1 by blast
  moreover have d: "distinct (agent_lifecycle_states s)" using lifecycle_coreD(1) [OF core] by (rule uniq_distinct)
  have "uniq lifecycle_key (agent_lifecycle_states s')"
    unfolding s' using uniq_upd_fresh [OF lifecycle_coreD(1) [OF core] d one at(1)] fr(2) by (simp add: lifecycle_le_def)
  moreover have "lifecycle_slot (f r) = lifecycle_slot r \<or> lifecycle_slot (f r) \<notin> lifecycle_slot ` set (agent_lifecycle_states s)"
  proof (cases "event_of (f r) = event_of r")
    case True
    then show ?thesis using event_ofD [OF True] by (simp add: lifecycle_slot_def)
  next
    case False
    have k: "lc_controller_id (f r) = c" "lc_tree_id (f r) = t" using fr(2) at(2) by (simp_all add: lifecycle_le_def lifecycle_key_def)
    show ?thesis
      using ev False k lifecycle_coreD(3) [OF core] by (force simp: lifecycle_slot_def lifecycle_row_ok_def)
  qed
  then have "uniq lifecycle_slot (agent_lifecycle_states s')"
    unfolding s' using uniq_upd_fresh [OF lifecycle_coreD(2) [OF core] d one at(1)] by simp
  ultimately show "lifecycle_core s'" by (simp add: lifecycle_core_def)
  have fin: "f r \<in> set (agent_lifecycle_states s')" using at by (auto simp: s' set_upd lifecycle_at_key)
  show "lifecycle_grows s s'"
    unfolding lifecycle_grows_def
  proof (intro conjI allI ballI)
    show "lifecycle_high x y s \<le> lifecycle_high x y s'" for x y using s1(3) by (simp add: high)
    fix x assume x: "x \<in> set (agent_lifecycle_states s)"
    show "\<exists>r' \<in> set (agent_lifecycle_states s'). lifecycle_le x r'"
    proof (cases "lifecycle_at c t a x")
      case True
      then show ?thesis using one [OF x] fr(2) fin by blast
    next
      case False
      then have "x \<in> set (agent_lifecycle_states s')" using x by (force simp: s' set_upd)
      then show ?thesis using lifecycle_le_refl by blast
    qed
  next
    fix x assume x: "x \<in> set (agent_lifecycle_states s')"
    have "lc_controller_id (f r) = c" "lc_tree_id (f r) = t" using fr(2) at(2) by (simp_all add: lifecycle_le_def lifecycle_key_def)
    then show "event_of x \<in> event_of ` set (agent_lifecycle_states s)
      \<or> lifecycle_high (lc_controller_id x) (lc_tree_id x) s < lc_lifecycle_sequence x"
      using rows [OF x] ev at(1) by auto
  qed
qed

end
