(* ===== verification/Lifecycle_Steps.thy ===== *)
theory Lifecycle_Steps
  imports Lifecycle_Inv
begin

text \<open>
  Pages and sessions: applying a page keeps the lifecycle invariant, writes exactly the snapshots it
  carries, and moves the cursor to the page's end; a session is fenced by its lease and its
  connection. Reading pages of activity and of agents.
\<close>

lemma row_simps [simp]:
  "lifecycle_key (refresh_row w n o' r) = lifecycle_key r" "lc_target_device_id (refresh_row w n o' r) = lc_target_device_id r"
  "lc_target_revision (refresh_row w n o' r) = int (wl_Revision w)" "lc_authority_revision (refresh_row w n o' r) = int n"
  "lc_lifecycle_sequence (refresh_row w n o' r) = lc_lifecycle_sequence r" "lc_observed_at (refresh_row w n o' r) = o'"
  "lc_phase (refresh_row w n o' r) = lc_phase r" "lc_failure_code (refresh_row w n o' r) = lc_failure_code r"
  "lc_controller_id (refresh_row w n o' r) = lc_controller_id r" "lc_tree_id (refresh_row w n o' r) = lc_tree_id r"
  "lifecycle_key (advance_row w m o' r) = lifecycle_key r" "lc_target_device_id (advance_row w m o' r) = lc_target_device_id r"
  "lc_target_revision (advance_row w m o' r) = int (wl_Revision w)" "lc_authority_revision (advance_row w m o' r) = int (wl_Revision w)"
  "lc_lifecycle_sequence (advance_row w m o' r) = m" "lc_observed_at (advance_row w m o' r) = o'"
  "lc_controller_id (advance_row w m o' r) = lc_controller_id r" "lc_tree_id (advance_row w m o' r) = lc_tree_id r"
  "hosted s (refresh_row w n o' r) = hosted s r" "hosted s (advance_row w m o' r) = hosted s r"
  by (simp_all add: refresh_row_def advance_row_def lifecycle_key_def hosted_def)

lemma new_row_simps [simp]:
  "lifecycle_key (new_lifecycle_row se w n o') = (se_ControllerID se, wl_TreeID w, wl_AgentID w)"
  "lc_controller_id (new_lifecycle_row se w n o') = se_ControllerID se" "lc_tree_id (new_lifecycle_row se w n o') = wl_TreeID w"
  "lc_target_device_id (new_lifecycle_row se w n o') = se_DeviceID se" "lc_target_revision (new_lifecycle_row se w n o') = int (wl_Revision w)"
  "lc_authority_revision (new_lifecycle_row se w n o') = int (wl_Revision w)" "lc_lifecycle_sequence (new_lifecycle_row se w n o') = n"
  "lc_observed_at (new_lifecycle_row se w n o') = o'" "snapshot_of (new_lifecycle_row se w n o') = w"
  by (simp_all add: new_lifecycle_row_def lifecycle_key_def snapshot_of_def)

lemma snapshot_rows:
  assumes "lifecycle_key r = (c, wl_TreeID w, wl_AgentID w)"
  shows "same_event w r \<Longrightarrow> snapshot_of (refresh_row w n o' r) = w" "snapshot_of (advance_row w m o' r) = w"
  using assms by (simp_all add: snapshot_of_def refresh_row_def advance_row_def lifecycle_key_def same_event_def)

lemma snapshot_revision: "WorkerLifecycleSnapshot_Validate w = None \<Longrightarrow> 0 < wl_Revision w \<and> int (wl_Revision w) \<le> MaxInt64"
  by (auto simp: WorkerLifecycleSnapshot_Validate_def)

lemma high_unchanged [simp]:
  "lifecycle_high c t (s\<lparr>agent_lifecycle_states := x\<rparr>) = lifecycle_high c t s"
  "lifecycle_high c t (s\<lparr>peer_worker_sync_cursors := y\<rparr>) = lifecycle_high c t s"
  by (simp_all add: lifecycle_high_def)

text \<open>One snapshot.\<close>

definition snapshot_effect :: "WorkerLifecycleSession \<Rightarrow> WorkerLifecycleSnapshot set \<Rightarrow> BrokerDb \<Rightarrow> BrokerDb \<Rightarrow> bool" where
  "snapshot_effect se W s s' \<longleftrightarrow>
     spawn_ok s' \<and> lifecycle_core s' \<and> lifecycle_grows s s' \<and> writes_only se W s s'
     \<and> agent_spawn_receipts s' = agent_spawn_receipts s \<and> peer_worker_sync_cursors s' = peer_worker_sync_cursors s"

lemma created_effect:
  assumes ok: "spawn_ok s" "lifecycle_core s" and val: "WorkerLifecycleSnapshot_Validate w = None" "0 \<le> obs"
    and au: "authorizeWorkerLifecycleSnapshot se w s = Inr ()"
    and none: "sel1 (lifecycle_at (se_ControllerID se) (wl_TreeID w) (wl_AgentID w)) (agent_lifecycle_states s) = None"
    and n: "nextTreeLifecycleSequence (se_ControllerID se) (wl_TreeID w) s = Inr (n, b)" "b = bump_lifecycle (se_ControllerID se) (wl_TreeID w) n s"
  shows "snapshot_effect se {w} s (b\<lparr>agent_lifecycle_states := agent_lifecycle_states s @ [new_lifecycle_row se w n obs]\<rparr>)"
proof -
  let ?r = "new_lifecycle_row se w n obs"
  let ?s = "b\<lparr>agent_lifecycle_states := agent_lifecycle_states s @ [?r]\<rparr>"
  note st = nextTreeLifecycleSequence_Inr [OF spawn_okD(2) [OF ok(1)] n(1)]
  have b: "spawn_ok b" by (rule lifecycle_seq.advance_ok [OF ok(1) n(1)])
  have high: "lifecycle_high x y s \<le> lifecycle_high x y b" "lifecycle_high (se_ControllerID se) (wl_TreeID w) b = n" for x y
    using st(2,4) by (auto simp: n(2) lifecycle_high_bump)
  obtain x where x: "x \<in> set (agent_spawn_receipts s)" "spawned_key x = (se_ControllerID se, wl_TreeID w, wl_AgentID w)"
    "sp_target_device_id x = se_DeviceID se"
    using authorize_snapshot_hosted [OF au] by metis
  have n0: "0 < n" using st(2) lifecycle_high_bounds [OF spawn_okD(2) [OF ok(1)], of "se_ControllerID se" "wl_TreeID w"] by simp
  have "hosted ?s ?r" unfolding hosted_def using x by (intro bexI [of _ x]) (simp_all add: n(2))
  then have new: "lifecycle_row_ok ?s ?r"
    using val snapshot_revision [OF val(1)] high(2) n0 by (simp add: lifecycle_row_ok_def)
  have le: "spawns_le s ?s" by (rule spawns_le_subset) (simp add: n(2))
  have old: "lifecycle_row_ok ?s r" if "r \<in> set (agent_lifecycle_states s)" for r
    by (rule lifecycle_row_ok_mono [OF lifecycle_coreD(3) [OF ok(2) that] le]) (simp add: high(1))
  have below: "lc_lifecycle_sequence r < n" if "r \<in> set (agent_lifecycle_states s)" "lc_controller_id r = se_ControllerID se" "lc_tree_id r = wl_TreeID w" for r
    using lifecycle_coreD(3) [OF ok(2) that(1)] that(2,3) st(2) by (simp add: lifecycle_row_ok_def)
  have "lifecycle_core ?s"
    using new old lifecycle_coreD(1,2) [OF ok(2)] none below
    by (fastforce simp: lifecycle_core_def sel1_None_iff lifecycle_at_key lifecycle_slot_def)
  moreover have "spawn_ok ?s" by (rule spawn_ok_same [OF b]) simp_all
  moreover have "lifecycle_grows s ?s"
    unfolding lifecycle_grows_def using high st(2) by (auto intro: lifecycle_le_refl)
  moreover have "writes_only se {w} s ?s" by (auto simp: writes_only_def touched_by_def)
  ultimately show ?thesis by (simp add: snapshot_effect_def n(2))
qed

lemma updated_effect:
  assumes ok: "spawn_ok s" "lifecycle_core s"
    and sel: "sel1 (lifecycle_at c t a) (agent_lifecycle_states s) = Some r"
    and s1: "spawn_ok s1" "agent_lifecycle_states s1 = agent_lifecycle_states s" "agent_spawn_receipts s1 = agent_spawn_receipts s"
      "peer_worker_sync_cursors s1 = peer_worker_sync_cursors s" "\<And>c t. lifecycle_high c t s \<le> lifecycle_high c t s1"
    and fr: "lifecycle_row_ok s1 (f r)" "lifecycle_le r (f r)" "touched_by se {w} (f r)"
    and ev: "event_of (f r) = event_of r \<or> lifecycle_high c t s < lc_lifecycle_sequence (f r)"
  shows "snapshot_effect se {w} s (s1\<lparr>agent_lifecycle_states := upd (lifecycle_at c t a) f (agent_lifecycle_states s)\<rparr>)"
proof -
  let ?s = "s1\<lparr>agent_lifecycle_states := upd (lifecycle_at c t a) f (agent_lifecycle_states s)\<rparr>"
  have le: "spawns_le s s1" by (rule spawns_le_subset) (simp add: s1(3))
  note up = lifecycle_upd_facts [where f = f, OF ok(2) sel s1(2) le s1(5) fr(1,2) ev refl]
  have "spawn_ok ?s" by (rule spawn_ok_same [OF s1(1)]) simp_all
  moreover have "writes_only se {w} s ?s" unfolding writes_only_def using up(3) fr(3) by blast
  ultimately show ?thesis using up(1,2) s1(3,4) by (simp add: snapshot_effect_def)
qed

lemma kept_authority_bounds:
  assumes "lifecycle_row_ok s r" "lc_target_revision r < int (wl_Revision w)"
  shows "0 < kept_authority w r" "kept_authority w r \<le> wl_Revision w" "lc_authority_revision r \<le> int (kept_authority w r)"
  using assms by (auto simp: kept_authority_def lifecycle_row_ok_def)

lemma apply_snapshot_ok:
  assumes ok: "spawn_ok s" "lifecycle_core s" and val: "WorkerLifecycleSnapshot_Validate w = None" "0 \<le> obs"
    and tx: "applyWorkerLifecycleSnapshot se w obs s = Inr (u, s')"
  shows "snapshot_effect se {w} s s'"
  using ok tx
proof (cases rule: apply_snapshot_cases)
  case (created n)
  then show ?thesis using created_effect [OF ok val created(1,2,3) refl] by simp
next
  case (refreshed r)
  have r: "r \<in> set (agent_lifecycle_states s)" "lifecycle_key r = (se_ControllerID se, wl_TreeID w, wl_AgentID w)"
    using sel1_SomeD [OF refreshed(1)] by (auto simp: lifecycle_at_key)
  have row: "lifecycle_row_ok s r" by (rule lifecycle_coreD(3) [OF ok(2) r(1)])
  let ?f = "refresh_row w (kept_authority w r) (max (lc_observed_at r) obs)"
  have snap: "snapshot_of (?f r) = w" by (rule snapshot_rows(1) [OF r(2) refreshed(4)])
  show ?thesis
    unfolding refreshed(5)
  proof (rule updated_effect [where f = ?f, OF ok refreshed(1) ok(1)])
    show "lifecycle_row_ok s (?f r)"
      using row kept_authority_bounds [OF row refreshed(3)] val snapshot_revision [OF val(1)]
      by (simp add: lifecycle_row_ok_def snap)
    show "lifecycle_le r (?f r)" using kept_authority_bounds(3) [OF row refreshed(3)] refreshed(3) by (simp add: lifecycle_le_def)
    show "touched_by se {w} (?f r)" using r(2) refreshed(2) snap by (simp add: touched_by_def lifecycle_key_def)
    show "event_of (?f r) = event_of r \<or> lifecycle_high (se_ControllerID se) (wl_TreeID w) s < lc_lifecycle_sequence (?f r)"
      by (simp add: event_of_def)
  qed simp_all
next
  case (advanced r n)
  have r: "r \<in> set (agent_lifecycle_states s)" "lifecycle_key r = (se_ControllerID se, wl_TreeID w, wl_AgentID w)"
    using sel1_SomeD [OF advanced(1)] by (auto simp: lifecycle_at_key)
  have row: "lifecycle_row_ok s r" by (rule lifecycle_coreD(3) [OF ok(2) r(1)])
  note st = nextTreeLifecycleSequence_Inr [OF spawn_okD(2) [OF ok(1)] advanced(5)]
  let ?b = "bump_lifecycle (se_ControllerID se) (wl_TreeID w) n s"
  let ?f = "advance_row w n (max (lc_observed_at r) obs)"
  have snap: "snapshot_of (?f r) = w" by (rule snapshot_rows(2) [OF r(2)])
  have high: "lifecycle_high x y s \<le> lifecycle_high x y ?b" "lifecycle_high (se_ControllerID se) (wl_TreeID w) ?b = n" for x y
    using st(2,4) by (auto simp: lifecycle_high_bump)
  have ct: "lc_controller_id r = se_ControllerID se" "lc_tree_id r = wl_TreeID w" using r(2) by (simp_all add: lifecycle_key_def)
  have seq: "lc_lifecycle_sequence r < n" "0 < n" using row st(2) ct by (simp_all add: lifecycle_row_ok_def)
  show ?thesis
    unfolding advanced(6)
  proof (rule updated_effect [where f = ?f, OF ok advanced(1) lifecycle_seq.advance_ok [OF ok(1) advanced(5)]])
    show "lifecycle_row_ok ?b (?f r)"
      using row val snapshot_revision [OF val(1)] seq high(2) ct by (simp add: lifecycle_row_ok_def snap hosted_def)
    show "lifecycle_le r (?f r)" using row advanced(3) seq by (simp add: lifecycle_le_def lifecycle_row_ok_def)
    show "touched_by se {w} (?f r)" using r(2) advanced(2) snap by (simp add: touched_by_def lifecycle_key_def)
    show "event_of (?f r) = event_of r \<or> lifecycle_high (se_ControllerID se) (wl_TreeID w) s < lc_lifecycle_sequence (?f r)"
      using st(2) by simp
  qed (use high in simp_all)
qed

section \<open>A page\<close>

lemma snapshot_effect_trans:
  assumes "snapshot_effect se W s s1" "snapshot_effect se V s1 s2"
  shows "snapshot_effect se (W \<union> V) s s2"
proof -
  have "writes_only se (W \<union> V) s s2"
    using assms unfolding snapshot_effect_def writes_only_def touched_by_def by blast
  then show ?thesis using assms lifecycle_grows_trans unfolding snapshot_effect_def by metis
qed

lemma apply_page_ok:
  assumes "spawn_ok s" "lifecycle_core s" "\<And>w. w \<in> set ws \<Longrightarrow> WorkerLifecycleSnapshot_Validate w = None" "0 \<le> obs"
    and "tx_each (\<lambda>w. applyWorkerLifecycleSnapshot se w obs) ws s = Inr (u, s')"
  shows "snapshot_effect se (set ws) s s'"
  using assms
proof (induction ws arbitrary: s)
  case Nil
  then show ?case by (simp add: snapshot_effect_def writes_only_def)
next
  case (Cons w ws)
  obtain v s1 where st: "applyWorkerLifecycleSnapshot se w obs s = Inr (v, s1)"
    "tx_each (\<lambda>w. applyWorkerLifecycleSnapshot se w obs) ws s1 = Inr (u, s')"
    using Cons.prems(5) by auto
  have e1: "snapshot_effect se {w} s s1" by (rule apply_snapshot_ok [OF Cons.prems(1,2) _ Cons.prems(4) st(1)]) (use Cons.prems(3) in simp)
  then have "snapshot_effect se (set ws) s1 s'"
    using Cons.IH [OF _ _ _ Cons.prems(4) st(2)] Cons.prems(3) by (simp add: snapshot_effect_def)
  then show ?case using snapshot_effect_trans [OF e1] by simp
qed

text \<open>Each snapshot of a page ends up stored, since a page names an agent once.\<close>

definition snapshot_key :: "WorkerLifecycleSession \<Rightarrow> WorkerLifecycleSnapshot \<Rightarrow> string \<times> string \<times> string" where
  "snapshot_key se w = (se_ControllerID se, wl_TreeID w, wl_AgentID w)"

definition stored_snapshot :: "WorkerLifecycleSession \<Rightarrow> WorkerLifecycleSnapshot \<Rightarrow> BrokerDb \<Rightarrow> bool" where
  "stored_snapshot se w s \<longleftrightarrow> (\<exists>r \<in> set (agent_lifecycle_states s). lifecycle_key r = snapshot_key se w
     \<and> lc_target_device_id r = se_DeviceID se \<and> snapshot_of r = w)"

lemma in_upd: "x \<in> set rows \<Longrightarrow> (if P x then f x else x) \<in> set (upd P f rows)"
  by (auto simp: set_upd)

lemma in_upd_other: "x \<in> set rows \<Longrightarrow> \<not> P x \<Longrightarrow> x \<in> set (upd P f rows)"
  using in_upd [of x rows P f] by simp

lemma apply_snapshot_stores:
  assumes ok: "spawn_ok s" "lifecycle_core s" and tx: "applyWorkerLifecycleSnapshot se w obs s = Inr (u, s')"
  shows "stored_snapshot se w s'"
  using assms
proof (cases rule: apply_snapshot_cases)
  case (created n)
  then show ?thesis by (simp add: stored_snapshot_def snapshot_key_def)
next
  case (refreshed r)
  have r: "r \<in> set (agent_lifecycle_states s)" "lifecycle_key r = snapshot_key se w"
    using sel1_SomeD [OF refreshed(1)] by (auto simp: lifecycle_at_key snapshot_key_def)
  let ?f = "refresh_row w (kept_authority w r) (max (lc_observed_at r) obs)"
  have "?f r \<in> set (agent_lifecycle_states s')"
    using in_upd [OF r(1), of "lifecycle_at (se_ControllerID se) (wl_TreeID w) (wl_AgentID w)" ?f] r(2)
    by (simp add: refreshed(5) lifecycle_at_key snapshot_key_def)
  then show ?thesis
    unfolding stored_snapshot_def using r(2) refreshed(2) snapshot_rows(1) [OF r(2) [unfolded snapshot_key_def] refreshed(4)]
    by (intro bexI [of _ "?f r"]) simp_all
next
  case (advanced r n)
  have r: "r \<in> set (agent_lifecycle_states s)" "lifecycle_key r = snapshot_key se w"
    using sel1_SomeD [OF advanced(1)] by (auto simp: lifecycle_at_key snapshot_key_def)
  let ?f = "advance_row w n (max (lc_observed_at r) obs)"
  have "?f r \<in> set (agent_lifecycle_states s')"
    using in_upd [OF r(1), of "lifecycle_at (se_ControllerID se) (wl_TreeID w) (wl_AgentID w)" ?f] r(2)
    by (simp add: advanced(6) lifecycle_at_key snapshot_key_def)
  then show ?thesis
    unfolding stored_snapshot_def using r(2) advanced(2) snapshot_rows(2) [OF r(2) [unfolded snapshot_key_def]]
    by (intro bexI [of _ "?f r"]) simp_all
qed

lemma apply_snapshot_keeps:
  assumes ok: "spawn_ok s" "lifecycle_core s" and tx: "applyWorkerLifecycleSnapshot se w obs s = Inr (u, s')"
    and x: "x \<in> set (agent_lifecycle_states s)" "lifecycle_key x \<noteq> snapshot_key se w"
  shows "x \<in> set (agent_lifecycle_states s')"
  using ok tx
proof (cases rule: apply_snapshot_cases)
  case (refreshed r)
  then show ?thesis using in_upd_other [OF x(1)] x(2) by (simp add: lifecycle_at_key snapshot_key_def)
next
  case (advanced r n)
  then show ?thesis using in_upd_other [OF x(1)] x(2) by (simp add: lifecycle_at_key snapshot_key_def)
qed (use x in simp)

lemma apply_page_stores:
  assumes "spawn_ok s" "lifecycle_core s" "\<And>w. w \<in> set ws \<Longrightarrow> WorkerLifecycleSnapshot_Validate w = None" "0 \<le> obs"
    and "distinct (map (snapshot_key se) ws)" "tx_each (\<lambda>w. applyWorkerLifecycleSnapshot se w obs) ws s = Inr (u, s')"
  shows "(\<forall>w \<in> set ws. stored_snapshot se w s')
    \<and> (\<forall>x \<in> set (agent_lifecycle_states s). lifecycle_key x \<notin> snapshot_key se ` set ws \<longrightarrow> x \<in> set (agent_lifecycle_states s'))"
  using assms
proof (induction ws arbitrary: s)
  case (Cons w ws)
  obtain v s1 where st: "applyWorkerLifecycleSnapshot se w obs s = Inr (v, s1)"
    "tx_each (\<lambda>w. applyWorkerLifecycleSnapshot se w obs) ws s1 = Inr (u, s')"
    using Cons.prems(6) by auto
  have e1: "snapshot_effect se {w} s s1" by (rule apply_snapshot_ok [OF Cons.prems(1,2) _ Cons.prems(4) st(1)]) (use Cons.prems(3) in simp)
  have ih: "(\<forall>w \<in> set ws. stored_snapshot se w s')
    \<and> (\<forall>x \<in> set (agent_lifecycle_states s1). lifecycle_key x \<notin> snapshot_key se ` set ws \<longrightarrow> x \<in> set (agent_lifecycle_states s'))"
    using Cons.IH [OF _ _ _ Cons.prems(4) _ st(2)] e1 Cons.prems(3,5) by (simp add: snapshot_effect_def)
  obtain r where r: "r \<in> set (agent_lifecycle_states s1)" "lifecycle_key r = snapshot_key se w"
    "lc_target_device_id r = se_DeviceID se" "snapshot_of r = w"
    using apply_snapshot_stores [OF Cons.prems(1,2) st(1)] by (auto simp: stored_snapshot_def)
  have "snapshot_key se w \<notin> snapshot_key se ` set ws" using Cons.prems(5) by simp
  then have "r \<in> set (agent_lifecycle_states s')" using ih r(1,2) by simp
  then have "stored_snapshot se w s'" using r by (auto simp: stored_snapshot_def)
  then show ?case
    using ih apply_snapshot_keeps [OF Cons.prems(1,2) st(1)] by simp
qed simp

section \<open>Cursors\<close>

lemma AppliedRevision_Inr:
  assumes "AppliedRevision p = Inr n"
  shows "sl_BaseRevision p \<le> n" "n \<le> sl_ThroughRevision p" "int n \<le> MaxInt64"
    "\<And>w. w \<in> set (sl_Workers p) \<Longrightarrow>
      WorkerLifecycleSnapshot_Validate w = None \<and> sl_BaseRevision p < wl_Revision w \<and> wl_Revision w \<le> n"
    "distinct (map (snapshot_key se) (sl_Workers p))"
proof -
  have val: "SyncWorkerLifecycleParams_Validate p = None" using assms by (auto simp: AppliedRevision_def split: option.splits)
  obtain r where loop: "sync_workers_loop (sl_ThroughRevision p) (sl_BaseRevision p) [] (sl_Workers p) = Inr r"
    and b: "sl_BaseRevision p \<le> sl_ThroughRevision p" "int (sl_ThroughRevision p) \<le> MaxInt64"
    and c: "sl_Complete p \<or> length (sl_Workers p) = 32 \<and> r \<noteq> sl_ThroughRevision p"
    using SyncWorkerLifecycleParams_ValidateD [OF val] by blast
  note valid = sync_workers_loop_valid [OF loop] and sorted = sync_workers_loop_sorted [OF loop]
  have ne: "sl_Workers p \<noteq> []" if "\<not> sl_Complete p" using c that by auto
  then have n: "n = (if sl_Complete p then sl_ThroughRevision p else last (map wl_Revision (sl_Workers p)))"
    using assms val by (auto simp: AppliedRevision_def last_map last_conv_nth split: if_splits)
  have top: "wl_Revision w \<le> last (map wl_Revision (sl_Workers p))" if w: "w \<in> set (sl_Workers p)" for w
  proof -
    obtain us vs where sp: "sl_Workers p = us @ w # vs" using split_list [OF w] by blast
    show ?thesis
    proof (cases "vs = []")
      case False
      then have "last vs \<in> set vs" by simp
      then have "wl_Revision w < wl_Revision (last vs)" using sorted by (simp add: sp sorted_wrt_append)
      then show ?thesis using False by (simp add: sp last_map)
    qed (simp add: sp)
  qed
  show "sl_BaseRevision p \<le> n"
    using n b(1) ne sorted by (auto simp: last_map)
      (metis last_in_set less_imp_le)
  show thr: "n \<le> sl_ThroughRevision p" using n ne valid by (auto simp: last_map)
  then show "int n \<le> MaxInt64" using b(2) by simp
  show "WorkerLifecycleSnapshot_Validate w = None \<and> sl_BaseRevision p < wl_Revision w \<and> wl_Revision w \<le> n"
    if w: "w \<in> set (sl_Workers p)" for w
    using valid sorted top [OF w] w n by auto
  have "distinct (map worker_key (sl_Workers p))" using sync_workers_loop_distinct [OF loop] by simp
  then show "distinct (map (snapshot_key se) (sl_Workers p))"
    using valid worker_key_inject by (auto simp: distinct_map inj_on_def snapshot_key_def)
qed

lemma verifyWorkerLifecycleLease_Inr:
  "verifyWorkerLifecycleLease se s = Inr u \<longleftrightarrow>
     (\<exists>d. queryDevice (se_ControllerID se) (se_DeviceID se) s = Inr d \<and> dev_Online d \<and> dev_Revision d = se_LeaseRevision se)"
  by (auto simp: verifyWorkerLifecycleLease_def split: sum.splits)

lemma cursor_at_key: "cursor_at se = (\<lambda>r. cursor_key r = (se_ControllerID se, se_DeviceID se))"
  by (auto simp: cursor_at_def cursor_key_def fun_eq_iff)

lemma cursors_invD:
  assumes "cursors_inv s"
  shows "uniq cursor_key (peer_worker_sync_cursors s)" "\<And>r. r \<in> set (peer_worker_sync_cursors s) \<Longrightarrow> cursor_row_ok r"
  using assms by (auto simp: cursors_inv_def)

lemma lifecycle_invD:
  assumes "lifecycle_inv s"
  shows "lifecycle_core s" "cursors_inv s" "\<And>r. r \<in> set (agent_lifecycle_states s) \<Longrightarrow> within_cursor s r"
  using assms by (auto simp: lifecycle_inv_def)

lemma cursor_row_numbers:
  assumes "cursor_row_ok r"
  shows "uint64_of_int64 (cu_applied_revision r) = nat (cu_applied_revision r)"
    "uint64_of_int64 (cu_active_lease_revision r) = nat (cu_active_lease_revision r)"
  using assms by (simp_all add: cursor_row_ok_def uint64_of_int64_nat)

lemma queryWorkerLifecycleCursor_Inr:
  assumes "cursors_inv s"
  shows "queryWorkerLifecycleCursor se s = Inr n \<longleftrightarrow>
    (\<exists>r. sel1 (cursor_at se) (peer_worker_sync_cursors s) = Some r \<and> cu_active_connection_id r = se_ConnectionID se
       \<and> cu_active_lease_revision r = int (se_LeaseRevision se) \<and> cu_applied_revision r = int n)"
proof (cases "sel1 (cursor_at se) (peer_worker_sync_cursors s)")
  case (Some r)
  then have ok: "cursor_row_ok r" using cursors_invD(2) [OF assms] sel1_SomeD [OF Some] by simp
  show ?thesis
    using Some cursor_row_numbers [OF ok] ok by (auto simp: queryWorkerLifecycleCursor_def cursor_row_ok_def)
qed (simp add: queryWorkerLifecycleCursor_def)

text \<open>Rewriting the cursors without lowering any.\<close>

lemma lifecycle_inv_cursors:
  assumes core: "lifecycle_core s'" and cu: "cursors_inv s'"
    and within: "\<And>r. r \<in> set (agent_lifecycle_states s') \<Longrightarrow> within_cursor s r \<or> within_cursor s' r"
    and up: "\<And>x. x \<in> set (peer_worker_sync_cursors s) \<Longrightarrow>
      \<exists>y \<in> set (peer_worker_sync_cursors s'). cursor_key y = cursor_key x \<and> cu_applied_revision x \<le> cu_applied_revision y"
  shows "lifecycle_inv s'"
proof -
  have "within_cursor s' r" if "within_cursor s r" for r
    using that up unfolding within_cursor_def by (metis order_trans)
  then show ?thesis using core cu within by (auto simp: lifecycle_inv_def)
qed

section \<open>Claiming a session\<close>

definition session_cursor :: "WorkerLifecycleSession \<Rightarrow> BrokerDb \<Rightarrow> int" where
  "session_cursor se s = (case sel1 (cursor_at se) (peer_worker_sync_cursors s) of None \<Rightarrow> 0 | Some r \<Rightarrow> cu_applied_revision r)"

lemma stored_applied_inv:
  assumes "cursors_inv s"
  shows "int (stored_applied se s) = session_cursor se s"
  using cursors_invD(2) [OF assms] sel1_SomeD [of "cursor_at se" "peer_worker_sync_cursors s"]
  by (auto simp: stored_applied_def session_cursor_def cursor_row_numbers cursor_row_ok_def split: option.splits)

definition claim_update :: "WorkerLifecycleSession \<Rightarrow> CursorRow \<Rightarrow> CursorRow" where
  "claim_update se r = r\<lparr>cu_active_connection_id := se_ConnectionID se, cu_active_lease_revision := int (se_LeaseRevision se)\<rparr>"

lemma claim_update_simps [simp]:
  "cursor_key (claim_update se r) = cursor_key r" "cu_applied_revision (claim_update se r) = cu_applied_revision r"
  "cu_active_connection_id (claim_update se r) = se_ConnectionID se"
  "cu_active_lease_revision (claim_update se r) = int (se_LeaseRevision se)" "cursor_at se' (claim_update se r) = cursor_at se' r"
  by (simp_all add: claim_update_def cursor_key_def cursor_at_def)

lemma claim_row_simps [simp]:
  "cursor_key (claim_row se n) = (se_ControllerID se, se_DeviceID se)" "cu_applied_revision (claim_row se n) = int n"
  "cu_active_connection_id (claim_row se n) = se_ConnectionID se"
  "cu_active_lease_revision (claim_row se n) = int (se_LeaseRevision se)" "cursor_at se (claim_row se n)"
  by (simp_all add: claim_row_def cursor_key_def cursor_at_def)

lemma upsert_cursor_rows:
  "peer_worker_sync_cursors (upsert_cursor se n s) =
     (case sel1 (cursor_at se) (peer_worker_sync_cursors s) of
        None \<Rightarrow> peer_worker_sync_cursors s @ [claim_row se n]
      | Some r \<Rightarrow> upd (cursor_at se) (claim_update se) (peer_worker_sync_cursors s))"
proof -
  have "list_ex (cursor_at se) (peer_worker_sync_cursors s) \<longleftrightarrow> sel1 (cursor_at se) (peer_worker_sync_cursors s) \<noteq> None"
    by (auto simp: list_ex_iff sel1_None_iff)
  then show ?thesis by (auto simp: upsert_cursor_def claim_update_def [abs_def] split: option.splits)
qed

lemma upsert_cursor_inv:
  assumes inv: "lifecycle_inv s" and val: "0 < se_LeaseRevision se" "int (se_LeaseRevision se) \<le> MaxInt64"
    and n: "int n = session_cursor se s"
  shows "lifecycle_inv (upsert_cursor se n s)" "queryWorkerLifecycleCursor se (upsert_cursor se n s) = Inr n"
proof -
  let ?s = "upsert_cursor se n s"
  note cu = cursors_invD [OF lifecycle_invD(2) [OF inv]]
  have same: "agent_lifecycle_states ?s = agent_lifecycle_states s" by (simp add: upsert_cursor_def)
  have high: "lifecycle_high c t ?s = lifecycle_high c t s" for c t by (simp add: upsert_cursor_def)
  have "spawns_le s ?s" by (rule spawns_le_subset) (simp add: upsert_cursor_def)
  then have core: "lifecycle_core ?s"
    using lifecycle_invD(1) [OF inv] lifecycle_row_ok_mono [where s = s and s' = ?s] high by (simp add: lifecycle_core_def same)
  have "cursors_inv ?s \<and> queryWorkerLifecycleCursor se ?s = Inr n \<and> (\<forall>x \<in> set (peer_worker_sync_cursors s).
      \<exists>y \<in> set (peer_worker_sync_cursors ?s). cursor_key y = cursor_key x \<and> cu_applied_revision x \<le> cu_applied_revision y)"
  proof (cases "sel1 (cursor_at se) (peer_worker_sync_cursors s)")
    case None
    then have free: "(se_ControllerID se, se_DeviceID se) \<notin> cursor_key ` set (peer_worker_sync_cursors s)"
      by (auto simp: sel1_None_iff cursor_at_key)
    have "cursors_inv ?s"
      using cu free val n None by (auto simp: cursors_inv_def upsert_cursor_rows cursor_row_ok_def session_cursor_def MaxInt64_def)
    then show ?thesis
      using None by (auto simp: queryWorkerLifecycleCursor_Inr upsert_cursor_rows intro!: bexI)
  next
    case (Some r)
    have rows: "cursor_row_ok (claim_update se x)" if "cursor_row_ok x" for x
      using that val by (simp add: cursor_row_ok_def)
    have "cursors_inv ?s"
      using cu rows by (auto simp: cursors_inv_def upsert_cursor_rows Some set_upd)
    moreover have "sel1 (cursor_at se) (peer_worker_sync_cursors ?s) = Some (claim_update se r)"
      using sel1_upd_same [of "cursor_at se" "claim_update se"] Some by (simp add: upsert_cursor_rows)
    moreover have "cu_applied_revision r = int n" using n Some by (simp add: session_cursor_def)
    moreover have "\<exists>y \<in> set (peer_worker_sync_cursors ?s). cursor_key y = cursor_key x \<and> cu_applied_revision x \<le> cu_applied_revision y"
      if "x \<in> set (peer_worker_sync_cursors s)" for x
      unfolding upsert_cursor_rows Some option.case
      by (rule bexI [OF _ in_upd [OF that, of "cursor_at se" "claim_update se"]]) simp
    ultimately show ?thesis by (simp add: queryWorkerLifecycleCursor_Inr)
  qed
  then show "lifecycle_inv ?s" "queryWorkerLifecycleCursor se ?s = Inr n"
    using lifecycle_inv_cursors [OF core, of s] lifecycle_invD(3) [OF inv] by (auto simp: same)
qed

lemma Claim_cases:
  assumes inv: "lifecycle_inv s" and run: "ClaimWorkerLifecycleSession cl s = (Inr n, s')"
  shows "verifyWorkerLifecycleLease (cl_Session cl) s = Inr ()" "n \<le> cl_WorkerRevision cl"
    "int n = session_cursor (cl_Session cl) s" "s' = upsert_cursor (cl_Session cl) n s" "lifecycle_inv s'"
    "queryWorkerLifecycleCursor (cl_Session cl) s' = Inr n"
proof -
  have val: "0 < se_LeaseRevision (cl_Session cl)" "int (se_LeaseRevision (cl_Session cl)) \<le> MaxInt64"
    and tx: "ClaimWorkerLifecycleSession_tx cl s = Inr (n, s')"
    using run by (auto simp: ClaimWorkerLifecycleSession_def WorkerLifecycleSession_Validate_def)
  obtain u where ver: "verifyWorkerLifecycleLease (cl_Session cl) s = Inr u"
    using tx unfolding ClaimWorkerLifecycleSession_tx_def by (rule tx_bind_queryE)
  then show "verifyWorkerLifecycleLease (cl_Session cl) s = Inr ()" by simp
  have n: "n = stored_applied (cl_Session cl) s" and le: "n \<le> cl_WorkerRevision cl" and s': "s' = upsert_cursor (cl_Session cl) n s"
    using tx by (auto simp: ClaimWorkerLifecycleSession_tx_def split: if_splits)
  show "n \<le> cl_WorkerRevision cl" by (rule le)
  show cur: "int n = session_cursor (cl_Session cl) s" using stored_applied_inv [OF lifecycle_invD(2) [OF inv]] n by simp
  show "s' = upsert_cursor (cl_Session cl) n s" by (rule s')
  show "lifecycle_inv s'" "queryWorkerLifecycleCursor (cl_Session cl) s' = Inr n"
    unfolding s' by (rule upsert_cursor_inv [OF inv val cur])+
qed

section \<open>Applying a page\<close>

lemma advance_cursor_Inr:
  assumes cu: "cursors_inv s" and q: "queryWorkerLifecycleCursor se s = Inr base"
    and tx: "advance_cursor se base n s = Inr (u, s')"
  shows "s' = s\<lparr>peer_worker_sync_cursors := upd (cursor_at se) (\<lambda>r. r\<lparr>cu_applied_revision := int n\<rparr>) (peer_worker_sync_cursors s)\<rparr>"
proof -
  obtain r where r: "sel1 (cursor_at se) (peer_worker_sync_cursors s) = Some r" "cu_active_connection_id r = se_ConnectionID se"
    "cu_active_lease_revision r = int (se_LeaseRevision se)" "cu_applied_revision r = int base"
    using q by (auto simp: queryWorkerLifecycleCursor_Inr [OF cu])
  have one: "x = r" if "x \<in> set (peer_worker_sync_cursors s)" "cursor_at se x" for x
    using that sel1_SomeD [OF r(1)] uniq_same [OF cursors_invD(1) [OF cu]] by (auto simp: cursor_at_key)
  have "upd (\<lambda>x. cursor_at se x \<and> (cu_active_connection_id x = se_ConnectionID se
      \<and> cu_active_lease_revision x = int (se_LeaseRevision se) \<and> cu_applied_revision x = int base)) f (peer_worker_sync_cursors s) =
    upd (cursor_at se) f (peer_worker_sync_cursors s)" for f
    by (rule upd_conj) (use one r in blast)
  then show ?thesis using tx by (simp add: advance_cursor_def Let_def)
qed

lemma cursor_key_applied [simp]: "cursor_key (r\<lparr>cu_applied_revision := n\<rparr>) = cursor_key r" "cursor_at se (r\<lparr>cu_applied_revision := n\<rparr>) = cursor_at se r"
  by (simp_all add: cursor_key_def cursor_at_def)

lemma Apply_cases:
  assumes run: "ApplyWorkerLifecyclePage q s = (Inr n, s')"
  obtains s1 u where "AppliedRevision (pa_Page q) = Inr n" "0 \<le> pa_ObservedAt q"
    "verifyWorkerLifecycleLease (pa_Session q) s = Inr ()"
    "queryWorkerLifecycleCursor (pa_Session q) s = Inr (sl_BaseRevision (pa_Page q))"
    "tx_each (\<lambda>w. applyWorkerLifecycleSnapshot (pa_Session q) w (pa_ObservedAt q)) (sl_Workers (pa_Page q)) s = Inr (u, s1)"
    "advance_cursor (pa_Session q) (sl_BaseRevision (pa_Page q)) n s1 = Inr ((), s')"
proof -
  obtain m where m: "AppliedRevision (pa_Page q) = Inr m" "0 \<le> pa_ObservedAt q" and tx: "ApplyWorkerLifecyclePage_tx q m s = Inr (n, s')"
    using run by (auto simp: ApplyWorkerLifecyclePage_def split: option.splits sum.splits)
  then show thesis
    using that by (auto simp: ApplyWorkerLifecyclePage_tx_def Let_def split: if_splits)
qed

lemma Apply_ok:
  assumes ok: "spawn_ok s" and inv: "lifecycle_inv s" and run: "ApplyWorkerLifecyclePage q s = (Inr n, s')"
  defines "se \<equiv> pa_Session q" and "ws \<equiv> sl_Workers (pa_Page q)"
  shows "spawn_ok s'" "lifecycle_inv s'" "lifecycle_grows s s'" "writes_only se (set ws) s s'"
    "\<forall>w \<in> set ws. stored_snapshot se w s'" "queryWorkerLifecycleCursor se s' = Inr n"
    "agent_spawn_receipts s' = agent_spawn_receipts s"
    "\<forall>x \<in> set (agent_lifecycle_states s). lifecycle_key x \<notin> snapshot_key se ` set ws \<longrightarrow> x \<in> set (agent_lifecycle_states s')"
proof -
  let ?base = "sl_BaseRevision (pa_Page q)"
  obtain s1 u where ap: "AppliedRevision (pa_Page q) = Inr n" "0 \<le> pa_ObservedAt q"
    "queryWorkerLifecycleCursor se s = Inr ?base"
    "tx_each (\<lambda>w. applyWorkerLifecycleSnapshot se w (pa_ObservedAt q)) ws s = Inr (u, s1)"
    "advance_cursor se ?base n s1 = Inr ((), s')"
    using Apply_cases [OF run] unfolding se_def ws_def by metis
  note rev = AppliedRevision_Inr [OF ap(1), folded ws_def]
  have eff: "snapshot_effect se (set ws) s s1"
    by (rule apply_page_ok [OF ok lifecycle_invD(1) [OF inv] _ ap(2,4)]) (use rev(4) in blast)
  have sto: "(\<forall>w \<in> set ws. stored_snapshot se w s1)
    \<and> (\<forall>x \<in> set (agent_lifecycle_states s). lifecycle_key x \<notin> snapshot_key se ` set ws \<longrightarrow> x \<in> set (agent_lifecycle_states s1))"
    by (rule apply_page_stores [OF ok lifecycle_invD(1) [OF inv] _ ap(2) rev(5) ap(4)]) (use rev(4) in blast)
  have cu1: "peer_worker_sync_cursors s1 = peer_worker_sync_cursors s" using eff by (simp add: snapshot_effect_def)
  have cs1: "cursors_inv s1" and q1: "queryWorkerLifecycleCursor se s1 = Inr ?base"
    using lifecycle_invD(2) [OF inv] ap(3) cu1 by (simp_all add: cursors_inv_def queryWorkerLifecycleCursor_def)
  have s': "s' = s1\<lparr>peer_worker_sync_cursors := upd (cursor_at se) (\<lambda>r. r\<lparr>cu_applied_revision := int n\<rparr>) (peer_worker_sync_cursors s1)\<rparr>"
    by (rule advance_cursor_Inr [OF cs1 q1 ap(5)])
  obtain r where r: "sel1 (cursor_at se) (peer_worker_sync_cursors s) = Some r" "cu_active_connection_id r = se_ConnectionID se"
    "cu_active_lease_revision r = int (se_LeaseRevision se)" "cu_applied_revision r = int ?base"
    using ap(3) by (auto simp: queryWorkerLifecycleCursor_Inr [OF lifecycle_invD(2) [OF inv]])
  have states: "agent_lifecycle_states s' = agent_lifecycle_states s1" "agent_spawn_receipts s' = agent_spawn_receipts s1"
    by (simp_all add: s')
  have high: "lifecycle_high c t s' = lifecycle_high c t s1" for c t by (simp add: s')
  have core: "lifecycle_core s'"
    using eff lifecycle_row_ok_mono [where s = s1 and s' = s'] spawns_le_subset [of s1 s'] high
    by (simp add: lifecycle_core_def states snapshot_effect_def)
  have cs': "cursors_inv s'"
    using cs1 rev(3) by (auto simp: cursors_inv_def s' set_upd cursor_row_ok_def)
  have sel': "sel1 (cursor_at se) (peer_worker_sync_cursors s') = Some (r\<lparr>cu_applied_revision := int n\<rparr>)"
    using sel1_upd_same [of "cursor_at se" "\<lambda>r. r\<lparr>cu_applied_revision := int n\<rparr>"] r(1) by (simp add: s' cu1)
  then show "queryWorkerLifecycleCursor se s' = Inr n" using r by (simp add: queryWorkerLifecycleCursor_Inr [OF cs'])
  have one: "x = r" if "x \<in> set (peer_worker_sync_cursors s)" "cursor_at se x" for x
    using that sel1_SomeD [OF r(1)] uniq_same [OF cursors_invD(1) [OF lifecycle_invD(2) [OF inv]]] by (auto simp: cursor_at_key)
  show "lifecycle_inv s'"
  proof (rule lifecycle_inv_cursors [OF core cs'])
    fix x assume "x \<in> set (agent_lifecycle_states s')"
    then consider "x \<in> set (agent_lifecycle_states s)" | "touched_by se (set ws) x"
      using eff by (auto simp: snapshot_effect_def writes_only_def states)
    then show "within_cursor s x \<or> within_cursor s' x"
    proof cases
      case 2
      then have "lc_target_revision x \<le> int n" "(lc_controller_id x, lc_target_device_id x) = (se_ControllerID se, se_DeviceID se)"
        using rev(4) by (auto simp: touched_by_def)
      then show ?thesis
        using sel1_SomeD [OF sel'] by (auto simp: within_cursor_def cursor_at_key intro!: bexI [of _ "r\<lparr>cu_applied_revision := int n\<rparr>"])
    qed (use lifecycle_invD(3) [OF inv] in blast)
  next
    fix x assume x: "x \<in> set (peer_worker_sync_cursors s)"
    let ?y = "if cursor_at se x then x\<lparr>cu_applied_revision := int n\<rparr> else x"
    have "?y \<in> set (peer_worker_sync_cursors s')" unfolding s' using in_upd [OF x] by (simp add: cu1)
    moreover have "cursor_key ?y = cursor_key x" "cu_applied_revision x \<le> cu_applied_revision ?y"
      using one [OF x] r(4) rev(1) by auto
    ultimately show "\<exists>y \<in> set (peer_worker_sync_cursors s'). cursor_key y = cursor_key x \<and> cu_applied_revision x \<le> cu_applied_revision y"
      by blast
  qed
  show "spawn_ok s'" by (rule spawn_ok_same [of s1]) (use eff in \<open>simp_all add: snapshot_effect_def s'\<close>)
  show "lifecycle_grows s s'" using eff by (simp add: snapshot_effect_def lifecycle_grows_def states high)
  show "writes_only se (set ws) s s'" using eff by (simp add: snapshot_effect_def writes_only_def states)
  show "\<forall>w \<in> set ws. stored_snapshot se w s'" using sto by (simp add: stored_snapshot_def states)
  show "agent_spawn_receipts s' = agent_spawn_receipts s" using eff by (simp add: snapshot_effect_def states)
  show "\<forall>x \<in> set (agent_lifecycle_states s). lifecycle_key x \<notin> snapshot_key se ` set ws \<longrightarrow> x \<in> set (agent_lifecycle_states s')"
    using sto by (simp add: states)
qed

section \<open>Reading pages\<close>

definition activity_of :: "LifecycleRow \<Rightarrow> StoredLifecycleActivity" where
  "activity_of r =
     \<lparr>sa_TreeID = lc_tree_id r, sa_AgentID = lc_agent_id r, sa_TargetDeviceID = lc_target_device_id r,
      sa_TargetRevision = nat (lc_target_revision r), sa_Phase = lc_phase r, sa_FailureCode = lc_failure_code r,
      sa_Sequence = nat (lc_lifecycle_sequence r), sa_ObservedAt = lc_observed_at r\<rparr>"

lemma scanAgentLifecycleActivity_ok:
  assumes "spawn_ok s" "lifecycle_row_ok s r"
  shows "scanAgentLifecycleActivity r = Inr (activity_of r)"
proof -
  have "lc_lifecycle_sequence r \<le> MaxInt64"
    using assms(2) lifecycle_high_bounds [OF spawn_okD(2) [OF assms(1)], of "lc_controller_id r" "lc_tree_id r"]
    by (auto simp: lifecycle_row_ok_def)
  moreover have "ValidateID (lc_target_device_id r) = None"
    using hosted_device [OF spawn_okD(1) [OF assms(1)]] assms(2) by (simp add: lifecycle_row_ok_def)
  moreover have "ValidateID (lc_tree_id r) = None" "ValidateID (lc_agent_id r) = None"
    "WorkerLifecyclePhase_Validate (lc_phase r) (lc_failure_code r) = None"
    using assms(2) by (auto simp: lifecycle_row_ok_def WorkerLifecycleSnapshot_Validate_def snapshot_of_def)
  ultimately show ?thesis
    using assms(2) by (simp add: scanAgentLifecycleActivity_def activity_of_def lifecycle_row_ok_def)
qed

lemma authorize_root:
  assumes "trees_inv s" "r \<in> set (principals s)" "pr_parent_agent_id r = ''''"
  shows "authorizePrincipal (identity_of r) CapabilityAgentManageDescendants s = Inr (principal_of r)"
  using authorizePrincipal_row [OF assms(1,2)] assms(3)
  by (simp add: role_capabilities_def RootCapabilities_def capability_defs)

lemma root_tree:
  assumes "trees_inv s" "r \<in> set (principals s)"
  obtains tr where "sel1 (tree_at (pr_controller_id r) (pr_tree_id r)) (trees s) = Some tr" "tr \<in> set (trees s)"
    "t_controller_id tr = pr_controller_id r" "t_tree_id tr = pr_tree_id r"
proof -
  obtain tr where tr: "tr \<in> set (trees s)" "tree_key tr = (pr_controller_id r, pr_tree_id r)"
    using trees_invD(5) [OF assms] by (auto simp: principal_row_ok_def)
  have "sel1 (tree_at (pr_controller_id r) (pr_tree_id r)) (trees s) = Some tr"
    using uniq_sel1 [OF trees_invD(2) [OF assms(1)] tr(1)] by (simp add: tree_at_key tr(2))
  then show thesis using that tr by (simp add: tree_key_def)
qed

lemma ListAgentLifecycleActivity_eq:
  assumes ok: "spawn_ok s" "lifecycle_core s" and r: "r \<in> set (principals s)" "pr_parent_agent_id r = ''''"
    and lim: "1 \<le> limit" "limit \<le> 32" and cur: "int after \<le> lifecycle_high (pr_controller_id r) (pr_tree_id r) s"
  defines "rows \<equiv> take (nat limit) (activity_rows (pr_controller_id r) (pr_tree_id r) after s)"
  shows "ListAgentLifecycleActivity (identity_of r) after limit s =
    Inr \<lparr>lp_Activities = map activity_of rows,
         lp_NextSequence = (if rows = [] then after else nat (lc_lifecycle_sequence (last rows))),
         lp_Highwater = nat (lifecycle_high (pr_controller_id r) (pr_tree_id r) s)\<rparr>"
proof -
  note inv = spawn_okD [OF ok(1)]
  obtain tr where tr: "sel1 (tree_at (pr_controller_id r) (pr_tree_id r)) (trees s) = Some tr"
    using root_tree [OF inv(2) r(1)] by metis
  have high: "lifecycle_high (pr_controller_id r) (pr_tree_id r) s = t_last_lifecycle_sequence tr"
    "0 \<le> t_last_lifecycle_sequence tr" "t_last_lifecycle_sequence tr \<le> MaxInt64"
    using tr lifecycle_high_bounds [OF inv(2), of "pr_controller_id r" "pr_tree_id r"] by (simp_all add: lifecycle_high_def)
  have hi: "uint64_of_int64 (t_last_lifecycle_sequence tr) = nat (t_last_lifecycle_sequence tr)"
    by (rule uint64_of_int64_nat [OF high(2,3)])
  have "PrincipalIdentity_Validate (identity_of r) = None"
    using trees_invD(5) [OF inv(2) r(1)] by (simp add: principal_row_ok_def Principal_Validate_def)
  moreover have "traverse scanAgentLifecycleActivity rows = Inr (map activity_of rows)"
  proof (rule traverse_all)
    fix x assume "x \<in> set rows"
    then have "x \<in> set (agent_lifecycle_states s)"
      unfolding rows_def activity_rows_def by (auto dest: in_set_takeD)
    then show "scanAgentLifecycleActivity x = Inr (activity_of x)"
      by (intro scanAgentLifecycleActivity_ok [OF ok(1)] lifecycle_coreD(3) [OF ok(2)])
  qed
  ultimately show ?thesis
    using lim cur high hi authorize_root [OF inv(2) r] tr r(2)
    by (simp add: ListAgentLifecycleActivity_def rows_def [symmetric] MaximumWorkerLifecyclePage_def last_map activity_of_def)
qed

text \<open>Agents are listed in the order of their numbers, which is the order of their creation.\<close>

lemma filter_above:
  assumes "map f xs = [1..n]"
  shows "filter (\<lambda>x. int k < f x) xs = drop k xs"
proof -
  have len: "length xs = nat n" using arg_cong [OF assms, of length] by simp
  have at: "f (xs ! i) = 1 + int i" if "i < length xs" for i
    using that len nth_map [of i xs f, unfolded assms] by simp
  have lo: "filter (\<lambda>x. int k < f x) (take k xs) = []"
    unfolding filter_empty_conv by (auto simp: in_set_conv_nth at)
  have hi: "filter (\<lambda>x. int k < f x) (drop k xs) = drop k xs"
    unfolding filter_id_conv by (auto simp: in_set_conv_nth at)
  have "filter (\<lambda>x. int k < f x) (take k xs @ drop k xs) = drop k xs" unfolding filter_append lo hi by simp
  then show ?thesis by simp
qed

definition current_record :: "BrokerDb \<Rightarrow> SpawnRow \<Rightarrow> AgentCurrentRecord" where
  "current_record s r =
     \<lparr>ac_Spawn = spawn_summary r,
      ac_Lifecycle = map_option
        (\<lambda>x. \<lparr>al_TargetRevision = nat (lc_target_revision x), al_Phase = lc_phase x,
               al_FailureCode = lc_failure_code x, al_ObservedAt = lc_observed_at x\<rparr>)
        (sel1 (lifecycle_at (sp_controller_id r) (sp_tree_id r) (sp_agent_id r)) (agent_lifecycle_states s))\<rparr>"

lemma scanAgentCurrentRecord_ok:
  assumes core: "lifecycle_core s" and ok: "spawn_row_ok s r" and p: "identity_of p = spawn_identity r"
  shows "scanAgentCurrentRecord (r, p, sel1 (lifecycle_at (sp_controller_id r) (sp_tree_id r) (sp_agent_id r)) (agent_lifecycle_states s)) =
    Inr (current_record s r)"
proof (cases "sel1 (lifecycle_at (sp_controller_id r) (sp_tree_id r) (sp_agent_id r)) (agent_lifecycle_states s)")
  case None
  then show ?thesis using stored_spawn_ok [OF ok p] by (simp add: scanAgentCurrentRecord_def current_record_def)
next
  case (Some x)
  have x: "lifecycle_row_ok s x" using lifecycle_coreD(3) [OF core] sel1_SomeD [OF Some] by simp
  then have "WorkerLifecyclePhase_Validate (lc_phase x) (lc_failure_code x) = None"
    "uint64_of_int64 (lc_target_revision x) = nat (lc_target_revision x)"
    by (auto simp: lifecycle_row_ok_def WorkerLifecycleSnapshot_Validate_def snapshot_of_def uint64_of_int64_nat)
  then show ?thesis
    using Some x stored_spawn_ok [OF ok p] by (simp add: scanAgentCurrentRecord_def current_record_def lifecycle_row_ok_def)
qed

lemma agentListSelect_eq:
  assumes ok: "spawn_ok s" and tr: "tr \<in> set (trees s)" "t_controller_id tr = c" "t_tree_id tr = t"
  obtains g where "agentListSelect c t after limit s = map (\<lambda>r. (r, g r,
      sel1 (lifecycle_at c t (sp_agent_id r)) (agent_lifecycle_states s))) (take (nat limit) (drop after (agents_of c t s)))"
    "\<And>r. r \<in> set (agents_of c t s) \<Longrightarrow> identity_of (g r) = spawn_identity r"
proof -
  note inv = spawn_okD [OF ok]
  define look where "look r = sel1 (principal_at c t (sp_agent_id r)) (principals s)" for r :: SpawnRow
  have seq: "map sp_sequence (agents_of c t s) = [1..t_last_agent_sequence tr]"
    using spawns_invD(4) [OF inv(1) tr(1)] tr(2,3) by (simp add: numbered_def)
  have found: "look r \<noteq> None \<and> identity_of (the (look r)) = spawn_identity r" if r: "r \<in> set (agents_of c t s)" for r
  proof -
    have "r \<in> set (agent_spawn_receipts s)" "sp_controller_id r = c" "sp_tree_id r = t" using r by (auto simp: agents_of_def)
    then show ?thesis
      using spawn_principal [OF inv(2) spawns_invD(3) [OF inv(1)]] by (metis look_def option.sel option.distinct(1))
  qed
  have rows: "filter (\<lambda>r. sp_controller_id r = c \<and> sp_tree_id r = t \<and> int after < sp_sequence r) (agent_spawn_receipts s) =
      drop after (agents_of c t s)"
    using filter_above [OF seq, of after] by (simp add: agents_of_def conj_assoc)
  let ?row = "\<lambda>r. (r, the (look r), sel1 (lifecycle_at c t (sp_agent_id r)) (agent_lifecycle_states s))"
  have mf: "List.map_filter (\<lambda>r. map_option (\<lambda>p. (r, p, sel1 (lifecycle_at c t (sp_agent_id r)) (agent_lifecycle_states s))) (look r)) xs =
      map ?row xs" if "set xs \<subseteq> set (agents_of c t s)" for xs
    using that found by (induction xs) (auto simp: List.map_filter_def option.map_sel)
  have joined: "List.map_filter (\<lambda>r. map_option (\<lambda>p. (r, p, sel1 (lifecycle_at c t (sp_agent_id r)) (agent_lifecycle_states s))) (look r))
      (drop after (agents_of c t s)) = map ?row (drop after (agents_of c t s))"
    by (rule mf) (rule set_drop_subset)
  have "sorted (map sp_sequence (drop after (agents_of c t s)))"
    unfolding drop_map [symmetric] seq by (simp add: sorted_wrt_drop)
  then have "sort_key (\<lambda>(r, p, l). sp_sequence r) (map ?row (drop after (agents_of c t s))) = map ?row (drop after (agents_of c t s))"
    by (intro sort_key_id_if_sorted) (simp add: comp_def)
  then show thesis
    using that [of "\<lambda>r. the (look r)"] found joined
    by (simp add: agentListSelect_def rows look_def [symmetric] take_map)
qed

lemma ListAgents_eq:
  assumes ok: "spawn_ok s" "lifecycle_core s" and r: "r \<in> set (principals s)" "pr_parent_agent_id r = ''''"
    and lim: "1 \<le> limit" "limit \<le> 32" and cur: "after \<le> 256"
  defines "agents \<equiv> agents_of (pr_controller_id r) (pr_tree_id r) s"
  shows "ListAgents (identity_of r) after limit s =
    Inr \<lparr>ap_Agents = map (current_record s) (take (nat limit) (drop after agents)),
         ap_NextSequence = (if after + nat limit < length agents then after + nat limit else 0)\<rparr>"
proof -
  note inv = spawn_okD [OF ok(1)]
  let ?c = "pr_controller_id r" and ?t = "pr_tree_id r"
  obtain tr where tr: "tr \<in> set (trees s)" "t_controller_id tr = ?c" "t_tree_id tr = ?t" using root_tree [OF inv(2) r(1)] by metis
  have seq: "map sp_sequence agents = [1..t_last_agent_sequence tr]"
    using spawns_invD(4) [OF inv(1) tr(1)] tr(2,3) by (simp add: numbered_def agents_def)
  obtain g where g: "agentListSelect ?c ?t after (limit + 1) s = map (\<lambda>x. (x, g x,
      sel1 (lifecycle_at ?c ?t (sp_agent_id x)) (agent_lifecycle_states s))) (take (nat (limit + 1)) (drop after agents))"
    and id: "\<And>x. x \<in> set agents \<Longrightarrow> identity_of (g x) = spawn_identity x"
    unfolding agents_def using agentListSelect_eq [OF ok(1) tr, where after = after and limit = "limit + 1"] by blast
  have rec: "scanAgentCurrentRecord (x, g x, sel1 (lifecycle_at ?c ?t (sp_agent_id x)) (agent_lifecycle_states s)) = Inr (current_record s x)"
    if "x \<in> set agents" for x
    using scanAgentCurrentRecord_ok [OF ok(2) spawns_invD(3) [OF inv(1)] id [OF that]] that by (auto simp: agents_def agents_of_def)
  have "traverse scanAgentCurrentRecord (agentListSelect ?c ?t after (limit + 1) s) =
      Inr (map (current_record s) (take (nat (limit + 1)) (drop after agents)))"
  proof -
    have "traverse scanAgentCurrentRecord (map h xs) = Inr (map (current_record s) xs)"
      if "\<And>x. x \<in> set xs \<Longrightarrow> scanAgentCurrentRecord (h x) = Inr (current_record s x)" for h xs
      using that by (induction xs) auto
    then show ?thesis unfolding g using rec by (meson in_set_dropD in_set_takeD)
  qed
  moreover have "PrincipalIdentity_Validate (identity_of r) = None"
    using trees_invD(5) [OF inv(2) r(1)] by (simp add: principal_row_ok_def Principal_Validate_def)
  moreover have "take (nat limit) (take (nat (limit + 1)) xs) = take (nat limit) xs" for xs :: "AgentCurrentRecord list"
    using lim by (simp add: min_def)
  moreover have "as_Sequence (ac_Spawn (last (map (current_record s) (take (nat limit) (drop after agents))))) = after + nat limit"
    if more: "after + nat limit < length agents"
  proof -
    let ?i = "after + nat limit - 1"
    have i: "?i < length agents" using more by simp
    have "last (take (nat limit) (drop after agents)) = agents ! ?i"
      using more lim by (subst last_conv_nth) (auto simp: nth_append min_def)
    moreover have "sp_sequence (agents ! ?i) = 1 + int ?i"
      using i nth_map [OF i, of sp_sequence, unfolded seq] arg_cong [OF seq, of length] by simp
    moreover have "take (nat limit) (drop after agents) \<noteq> []" using more lim by simp
    ultimately show ?thesis using lim by (simp add: last_map current_record_def)
  qed
  moreover have "int (length (map (current_record s) (take (nat (limit + 1)) (drop after agents)))) > limit \<longleftrightarrow> after + nat limit < length agents"
    using lim by auto
  ultimately show ?thesis
    using lim cur authorize_root [OF inv(2) r] r(2)
    by (simp add: ListAgents_def ListAgentsParams_Validate_def MaximumAgentsPerTree_def MaximumAgentPage_def Let_def take_map)
qed

end
