(* ===== verification/Broker.thy ===== *)
theory Broker
  imports Operation_Steps Lifecycle_Steps
begin

text \<open>
  The broker's store as one state machine: every committed operation of every component is a step, and
  the components' invariants hold together in every reachable state. Each component writes its own
  tables; what it leaves alone follows from the structure of its transactions.
\<close>

section \<open>What each component leaves alone\<close>

definition but_registry :: "BrokerDb \<Rightarrow> BrokerDb" where
  "but_registry s = s\<lparr>credentials := [], broker_metadata := None, controller_registries := [], devices := [],
     device_worker_readiness := []\<rparr>"

lemma but_registry_simps [simp]:
  "but_registry (s\<lparr>credentials := a\<rparr>) = but_registry s" "but_registry (s\<lparr>broker_metadata := b\<rparr>) = but_registry s"
  "but_registry (s\<lparr>controller_registries := d\<rparr>) = but_registry s" "but_registry (s\<lparr>devices := e\<rparr>) = but_registry s"
  "but_registry (s\<lparr>device_worker_readiness := f\<rparr>) = but_registry s" "but_registry (init_registry c s) = but_registry s"
  "but_registry (upsert_device x s) = but_registry s" "but_registry (set_row c dv g s) = but_registry s"
  "but_registry (upsert_readiness c dv rd s) = but_registry s"
  by (simp_all add: but_registry_def init_registry_def upsert_device_def set_row_def upsert_readiness_def Let_def)

lemma nextControllerRevision_frame [tx_frame]: "tx_preserves but_registry (nextControllerRevision c)"
  unfolding nextControllerRevision_def Let_def by (intro tx_frame; simp)+

lemma registry_tx_frame:
  "tx_preserves but_registry (DisableCredential_tx c d)" "tx_preserves but_registry (registerDevice_tx m desc t)"
  "tx_preserves but_registry (updateDevicePresence_tx c d er t off)" "tx_preserves but_registry (markMatchingDevicesOffline_tx c p)"
  "tx_preserves but_registry (PutWorkerReadiness_tx c d r)"
  unfolding DisableCredential_tx_def registerDevice_tx_def updateDevicePresence_tx_def markMatchingDevicesOffline_tx_def
    PutWorkerReadiness_tx_def Let_def
  by (intro tx_frame; simp)+

lemma bindBrokerHostKind_frame: "but_registry (snd (bindBrokerHostKind k s)) = but_registry s"
proof -
  have "tx_preserves but_registry (tx_bind (tx_insert ''initialize broker state host kind'' (\<lambda>s. k = Codex \<or> k = TraeX)
      (\<lambda>s. if broker_metadata s = None then s\<lparr>broker_metadata := Some k\<rparr> else s)) (\<lambda>_. tx_query (verifyBrokerHostKind k)))"
    by (intro tx_frame; simp)
  from guard_tx_preserves [OF this, of None] show ?thesis by (simp add: bindBrokerHostKind_def)
qed

lemma mark_offline_frame: "but_registry (snd (markMatchingDevicesOffline c p s)) = but_registry s"
  unfolding markMatchingDevicesOffline_def by (rule guard_tx_preserves [OF registry_tx_frame(4)])

lemma registry_step_frame: "registry_step s s' \<Longrightarrow> but_registry s' = but_registry s"
proof (induction rule: registry_step.induct)
  case (epoch s c k)
  show ?case
  proof (cases "bindBrokerHostKind k s")
    case (Pair x s1)
    then have "but_registry s1 = but_registry s" using bindBrokerHostKind_frame [of k s] by simp
    then show ?thesis
      using Pair mark_offline_frame [of c dev_Online s1] by (simp add: BeginBrokerEpoch_def split: option.split sum.split)
  qed
next
  case (expire s c t)
  show ?case using mark_offline_frame by (simp add: ExpireDevices_def split: option.split)
qed (simp_all add: CreateCredential_def ActivateCredential_def PublishPendingCredential_def DeletePendingCredential_def
    DisableCredential_def registerDevice_def updateDevicePresence_def PutWorkerReadiness_def guard_tx_preserves
    registry_tx_frame Let_def split: option.split sum.split)

lemma but_registry_field:
  assumes "but_registry s' = but_registry s"
    "\<And>s a b d e f. g (s\<lparr>credentials := a, broker_metadata := b, controller_registries := d, devices := e,
       device_worker_readiness := f\<rparr>) = g s"
  shows "g s' = g s"
  using assms unfolding but_registry_def by metis

lemma but_registryD:
  assumes "but_registry s' = but_registry s"
  shows "trees s' = trees s" "principals s' = principals s" "workspace_sync_receipts s' = workspace_sync_receipts s"
    "agent_spawn_receipts s' = agent_spawn_receipts s" "agent_operation_receipts s' = agent_operation_receipts s"
    "peer_worker_sync_cursors s' = peer_worker_sync_cursors s" "agent_lifecycle_states s' = agent_lifecycle_states s"
    "controller_lifetime_counters s' = controller_lifetime_counters s" "mailboxes s' = mailboxes s"
    "mailbox_messages s' = mailbox_messages s" "mailbox_receipts s' = mailbox_receipts s"
  by (rule but_registry_field [OF assms], simp)+

lemma registry_inv_same:
  assumes "registry_inv s" "credentials s' = credentials s" "broker_metadata s' = broker_metadata s"
    "controller_registries s' = controller_registries s" "devices s' = devices s"
    "device_worker_readiness s' = device_worker_readiness s"
  shows "registry_inv s'"
  using assms
  by (simp add: registry_inv_def devices_inv_def regs_inv_def credentials_inv_def readiness_inv_def registry_revision_def)

section \<open>Counting turns\<close>

definition started_followups :: "string \<Rightarrow> BrokerDb \<Rightarrow> int" where
  "started_followups c s =
     int (length (filter (\<lambda>r. op_controller_id r = c \<and> op_action r = AgentOperationFollowup
                              \<and> op_outcome r = AgentOperationOutcomeStarted) (agent_operation_receipts s)))"

definition counters_inv :: "BrokerDb \<Rightarrow> bool" where
  "counters_inv s \<longleftrightarrow> (\<forall>c.
     counter_value cnt_dispatches_started c (controller_lifetime_counters s) = started_dispatches c s
     \<and> counter_value cnt_turns_started c (controller_lifetime_counters s) = started_dispatches c s + started_followups c s)"

lemma counters_inv_same:
  assumes "counters_inv s" "controller_lifetime_counters s' = controller_lifetime_counters s"
    "agent_spawn_receipts s' = agent_spawn_receipts s" "agent_operation_receipts s' = agent_operation_receipts s"
  shows "counters_inv s'"
  using assms by (simp add: counters_inv_def started_dispatches_def started_followups_def)

lemma counters_inv_empty: "counters_inv schemaCurrent"
  by (simp add: counters_inv_def counter_value_def started_dispatches_def started_followups_def)

lemma counters_inv_spawned:
  assumes "counters_inv s" "controller_lifetime_counters s' = controller_lifetime_counters s"
    "agent_spawn_receipts s' = agent_spawn_receipts s @ [r]" "sp_status r \<noteq> AgentSpawnStarted"
    "agent_operation_receipts s' = agent_operation_receipts s"
  shows "counters_inv s'"
  using assms by (simp add: counters_inv_def started_dispatches_def started_followups_def)

lemma counters_inv_finished:
  assumes "counters_inv s" "spawn_ok s" "sel1 (spawn_at k) (agent_spawn_receipts s) = Some r" "sp_status r = AgentSpawnPending"
  shows "counters_inv (with_finished k status code t s)"
proof -
  have "agent_operation_receipts (with_finished k status code t s) = agent_operation_receipts s" by (simp add: with_finished_def)
  then show ?thesis
    using assms(1) with_finished_counts [OF assms(2-4), of _ status code t]
    by (auto simp: counters_inv_def started_followups_def dispatch_counters_def counter_value_bump no_increment_def)
qed

lemma with_outcome_counts:
  assumes "operations_inv s" "sel1 (operation_at k) (agent_operation_receipts s) = Some r" "op_outcome r = AgentOperationOutcomePending"
  shows "started_followups c (with_outcome k r out code t s) = started_followups c s +
    (if op_controller_id r = c \<and> op_action r = AgentOperationFollowup \<and> out = AgentOperationOutcomeStarted then 1 else 0)"
  using count_upd [OF assms(2) uniq_distinct [OF operations_invD(1) [OF assms(1)]] operation_at_unique [OF assms(1,2)],
      of "\<lambda>r. op_controller_id r = c \<and> op_action r = AgentOperationFollowup \<and> op_outcome r = AgentOperationOutcomeStarted"
        "finish_operation_row out code t"] assms(3)
  by (auto simp: started_followups_def split: if_splits)

lemma counters_inv_outcome:
  assumes "counters_inv s" "operations_inv s" "sel1 (operation_at k) (agent_operation_receipts s) = Some r"
    "op_outcome r = AgentOperationOutcomePending"
  shows "counters_inv (with_outcome k r out code t s)"
  using assms(1) with_outcome_counts [OF assms(2-4), of _ out code t]
  by (auto simp: counters_inv_def started_dispatches_def turn_counters_def counter_value_bump no_increment_def)

section \<open>The invariant and the order\<close>

definition broker_inv :: "BrokerDb \<Rightarrow> bool" where
  "broker_inv s \<longleftrightarrow> registry_inv s \<and> operation_ok s \<and> lifecycle_inv s \<and> counters_inv s"

lemma broker_invD:
  assumes "broker_inv s"
  shows "registry_inv s" "operation_ok s" "lifecycle_inv s" "counters_inv s" "spawn_ok s" "operations_inv s"
    "mailbox_inv s" "spawns_inv s" "trees_inv s" "workspace_inv s"
  using assms by (simp_all add: broker_inv_def operation_ok_def spawn_ok_def)

lemma broker_inv_empty: "broker_inv schemaCurrent"
  by (simp add: broker_inv_def operation_ok_def spawn_ok_def registry_inv_empty spawns_inv_empty trees_inv_empty
      workspace_inv_empty operations_inv_empty mailbox_inv_empty lifecycle_inv_empty counters_inv_empty)

text \<open>An operation receipt keeps what was asked, and its outcome once it is terminal.\<close>

definition operation_le :: "OperationRow \<Rightarrow> OperationRow \<Rightarrow> bool" where
  "operation_le r r' \<longleftrightarrow>
     operation_key r' = operation_key r \<and> op_action r' = op_action r \<and> op_agent_id r' = op_agent_id r
     \<and> op_payload_digest r' = op_payload_digest r \<and> op_created_at r' = op_created_at r
     \<and> (op_outcome r \<noteq> AgentOperationOutcomePending \<longrightarrow>
          op_outcome r' = op_outcome r \<and> op_failure_code r' = op_failure_code r)"

definition operations_le :: "BrokerDb \<Rightarrow> BrokerDb \<Rightarrow> bool" where
  "operations_le s s' \<longleftrightarrow>
     (\<forall>r \<in> set (agent_operation_receipts s). \<exists>r' \<in> set (agent_operation_receipts s'). operation_le r r')"

lemma operation_le_refl [simp]: "operation_le r r"
  by (simp add: operation_le_def)

lemma operations_le_trans: "operations_le a b \<Longrightarrow> operations_le b c \<Longrightarrow> operations_le a c"
proof -
  have "operation_le x z" if "operation_le x y" "operation_le y z" for x y z
    using that by (auto simp: operation_le_def)
  then show "operations_le a b \<Longrightarrow> operations_le b c \<Longrightarrow> operations_le a c" unfolding operations_le_def by meson
qed

lemma operations_le_subset:
  "set (agent_operation_receipts s) \<subseteq> set (agent_operation_receipts s') \<Longrightarrow> operations_le s s'"
  unfolding operations_le_def using operation_le_refl by blast

lemma operations_le_eq: "agent_operation_receipts s' = agent_operation_receipts s \<Longrightarrow> operations_le s s'"
  by (rule operations_le_subset) simp

lemma operations_le_outcome:
  assumes "operations_inv s" "sel1 (operation_at k) (agent_operation_receipts s) = Some r" "op_outcome r = AgentOperationOutcomePending"
  shows "operations_le s (with_outcome k r out code t s)"
  unfolding operations_le_def
proof
  fix x assume x: "x \<in> set (agent_operation_receipts s)"
  have "operation_le x (if operation_at k x then finish_operation_row out code t x else x)"
    using operation_at_unique [OF assms(1,2) x] assms(3)
    by (auto simp: operation_le_def finish_operation_row_def operation_key_def)
  then show "\<exists>r' \<in> set (agent_operation_receipts (with_outcome k r out code t s)). operation_le x r'"
    using in_upd [OF x, of "operation_at k" "finish_operation_row out code t"] by auto
qed

text \<open>What never goes backwards.\<close>

definition broker_le :: "BrokerDb \<Rightarrow> BrokerDb \<Rightarrow> bool" where
  "broker_le s s' \<longleftrightarrow>
     registry_le s s' \<and> device_key ` set (devices s) \<subseteq> device_key ` set (devices s')
     \<and> set (principals s) \<subseteq> set (principals s') \<and> workspaces_le s s' \<and> spawns_le s s' \<and> operations_le s s'
     \<and> lifecycle_grows s s'"

lemma broker_le_refl [simp]: "broker_le s s"
  by (simp add: broker_le_def operations_le_eq)

lemma broker_le_trans: "broker_le a b \<Longrightarrow> broker_le b c \<Longrightarrow> broker_le a c"
  unfolding broker_le_def
  by (meson order_trans registry_le_trans workspaces_le_trans spawns_le_trans operations_le_trans lifecycle_grows_trans)

definition broker_ok :: "BrokerDb \<Rightarrow> BrokerDb \<Rightarrow> bool" where
  "broker_ok s s' \<longleftrightarrow> broker_inv s' \<and> broker_le s s'"

lemma broker_ok_refl: "broker_inv s \<Longrightarrow> broker_ok s s"
  by (simp add: broker_ok_def)

text \<open>Equal tables are in the order.\<close>

lemma workspaces_le_eq: "workspace_sync_receipts s' = workspace_sync_receipts s \<Longrightarrow> workspaces_le s s'"
  unfolding workspaces_le_def using workspace_le_refl by metis

lemma registry_le_eq:
  "controller_registries s' = controller_registries s \<Longrightarrow> devices s' = devices s \<Longrightarrow> registry_le s s'"
  by (simp add: registry_le_def registry_revision_def visible_devices_def)

lemma spawns_le_eq: "agent_spawn_receipts s' = agent_spawn_receipts s \<Longrightarrow> spawns_le s s'"
  by (rule spawns_le_subset) simp

lemma lifecycle_grows_eq:
  "agent_lifecycle_states s' = agent_lifecycle_states s \<Longrightarrow> (\<And>c t. lifecycle_high c t s \<le> lifecycle_high c t s') \<Longrightarrow> lifecycle_grows s s'"
  unfolding lifecycle_grows_def using lifecycle_le_refl by (metis imageI)

lemma lifecycle_high_eq: "trees s' = trees s \<Longrightarrow> lifecycle_high c t s' = lifecycle_high c t s"
  by (simp add: lifecycle_high_def)

text \<open>A step that leaves a component's tables alone leaves its invariant.\<close>

lemma lifecycle_inv_same:
  assumes "lifecycle_inv s" "agent_lifecycle_states s' = agent_lifecycle_states s"
    "peer_worker_sync_cursors s' = peer_worker_sync_cursors s" "spawns_le s s'" "trees s' = trees s"
  shows "lifecycle_inv s'"
  by (rule lifecycle_inv_mono [OF assms(1-4)]) (simp add: lifecycle_high_eq [OF assms(5)])

section \<open>The registry\<close>

lemma registry_step_broker:
  assumes inv: "broker_inv s" and st: "registry_step s s'"
  shows "broker_ok s s'"
proof -
  note i = broker_invD [OF inv] and f = but_registryD [OF registry_step_frame [OF st]]
  have reg: "registry_inv s'" "registry_le s s'" "device_key ` set (devices s) \<subseteq> device_key ` set (devices s')"
    using registry_step_ok [OF st i(1)] by (simp_all add: registry_ok_def)
  note le = spawns_le_eq [OF f(4)] workspaces_le_eq [OF f(3)] operations_le_eq [OF f(5)]
  have "trees_inv s'" using i(9) trees_inv_cong [OF f(1,2)] by simp
  moreover have "workspace_inv s'" by (rule workspace_inv_mono [OF i(10) f(3)]) (use f(2) reg(3) in simp_all)
  moreover have "spawns_inv s'"
    by (rule spawns_inv_mono [OF i(8) f(4)]) (use f le spawns_invD(4) [OF i(8)] in \<open>simp_all add: numbered_def agents_of_def\<close>)
  moreover have "operations_inv s'" by (rule operations_inv_mono [OF i(6) f(5) le(1)])
  moreover have "mailbox_inv s'" by (rule mailbox_inv_cong [OF i(7) f(9,11,10)]) (simp add: f(2))
  moreover have "lifecycle_inv s'" by (rule lifecycle_inv_same [OF i(3) f(7,6) le(1) f(1)])
  moreover have "counters_inv s'" by (rule counters_inv_same [OF i(4) f(8,4,5)])
  ultimately have "broker_inv s'" using reg(1) by (simp add: broker_inv_def operation_ok_def spawn_ok_def)
  moreover have "lifecycle_grows s s'" by (rule lifecycle_grows_eq [OF f(7)]) (simp add: lifecycle_high_eq [OF f(1)])
  ultimately show ?thesis
    using reg(2,3) f(2) le by (simp add: broker_ok_def broker_le_def)
qed

section \<open>Trees and principals\<close>

definition but_trees :: "BrokerDb \<Rightarrow> BrokerDb" where
  "but_trees s = s\<lparr>trees := [], principals := []\<rparr>"

lemma but_trees_simps [simp]:
  "but_trees (s\<lparr>trees := a\<rparr>) = but_trees s" "but_trees (s\<lparr>principals := b\<rparr>) = but_trees s"
  by (simp_all add: but_trees_def)

lemma but_trees_field:
  assumes "but_trees s' = but_trees s" "\<And>s a b. g (s\<lparr>trees := a, principals := b\<rparr>) = g s"
  shows "g s' = g s"
  using assms unfolding but_trees_def by metis

lemma but_treesD:
  assumes "but_trees s' = but_trees s"
  shows "credentials s' = credentials s" "broker_metadata s' = broker_metadata s"
    "controller_registries s' = controller_registries s" "devices s' = devices s"
    "device_worker_readiness s' = device_worker_readiness s" "workspace_sync_receipts s' = workspace_sync_receipts s"
    "agent_spawn_receipts s' = agent_spawn_receipts s" "agent_operation_receipts s' = agent_operation_receipts s"
    "peer_worker_sync_cursors s' = peer_worker_sync_cursors s" "agent_lifecycle_states s' = agent_lifecycle_states s"
    "controller_lifetime_counters s' = controller_lifetime_counters s" "mailboxes s' = mailboxes s"
    "mailbox_messages s' = mailbox_messages s" "mailbox_receipts s' = mailbox_receipts s"
  by (rule but_trees_field [OF assms], simp)+

lemma trees_step_broker:
  assumes inv: "broker_inv s" and fr: "but_trees s' = but_trees s" and tr: "trees_inv s'"
    and grow: "set (principals s) \<subseteq> set (principals s')" "\<And>c t. lifecycle_high c t s \<le> lifecycle_high c t s'"
    and num: "\<And>t. t \<in> set (trees s') \<Longrightarrow> numbered s t"
  shows "broker_ok s s'"
proof -
  note i = broker_invD [OF inv] and f = but_treesD [OF fr]
  note le = spawns_le_eq [OF f(7)] workspaces_le_eq [OF f(6)] operations_le_eq [OF f(8)]
  have reg: "registry_inv s'" by (rule registry_inv_same [OF i(1) f(1-5)])
  have "workspace_inv s'" by (rule workspace_inv_mono [OF i(10) f(6) grow(1)]) (simp add: f(4))
  moreover have "spawns_inv s'"
    by (rule spawns_inv_mono [OF i(8) f(7) image_mono [OF grow(1)] le(2)]) (use num f(7) in \<open>simp add: numbered_def agents_of_def\<close>)
  moreover have "operations_inv s'" by (rule operations_inv_mono [OF i(6) f(8) le(1)])
  moreover have "mailbox_inv s'" by (rule mailbox_inv_cong [OF i(7) f(12,14,13) grow(1)])
  moreover have "lifecycle_inv s'" by (rule lifecycle_inv_mono [OF i(3) f(10,9) le(1) grow(2)])
  moreover have "counters_inv s'" by (rule counters_inv_same [OF i(4) f(11,7,8)])
  ultimately have "broker_inv s'" using reg tr by (simp add: broker_inv_def operation_ok_def spawn_ok_def)
  then show ?thesis
    using registry_le_eq [OF f(3,4)] f(4) grow(1) le lifecycle_grows_eq [OF f(10) grow(2)]
    by (simp add: broker_ok_def broker_le_def)
qed

lemma EnsureRootTree_broker:
  assumes inv: "broker_inv s" and len: "length v1 = 16" "length v2 = 16"
    and run: "EnsureRootTree (Inr v1) (Inr v2) c x d t s = (Inr (tree, p), s')"
  shows "broker_ok s s'"
  using run
proof (cases rule: EnsureRootTree_cases)
  case found
  then show ?thesis using broker_ok_refl [OF inv] by simp
next
  case (created tid aid dev)
  note i = broker_invD [OF inv]
  have free: "\<And>y. y \<in> set (trees s) \<Longrightarrow> \<not> tree_at c tid y"
    using created(6) by (auto simp: created(4) tree_insertable_def list_all_iff)
  have none: "agents_of c tid s = []"
  proof -
    have False if r: "r \<in> set (agent_spawn_receipts s)" "sp_controller_id r = c" "sp_tree_id r = tid" for r
    proof -
      obtain q where q: "q \<in> set (principals s)" "identity_of q = spawn_identity r"
        using spawn_principal [OF i(9) spawns_invD(3) [OF i(8) r(1)]] by metis
      have "pr_controller_id q = c" "pr_tree_id q = tid"
        using arg_cong [OF q(2), of pi_ControllerID] arg_cong [OF q(2), of pi_TreeID] r(2,3) by simp_all
      then show False using root_tree [OF i(9) q(1)] free by (metis tree_at_def)
    qed
    then show ?thesis by (auto simp: agents_of_def filter_empty_conv)
  qed
  show ?thesis
  proof (rule trees_step_broker [OF inv _ EnsureRootTree_inv [OF i(9) len run]])
    show "but_trees s' = but_trees s" by (simp add: created(1) with_tree_def but_trees_def)
    show "set (principals s) \<subseteq> set (principals s')" by (auto simp: created(1) with_tree_def)
    show "lifecycle_high c' t' s \<le> lifecycle_high c' t' s'" for c' t'
      by (auto simp: lifecycle_high_def created(1) with_tree_def sel1_append split: option.splits)
    show "numbered s y" if "y \<in> set (trees s')" for y
      using that spawns_invD(4) [OF i(8)] none by (auto simp: created(1,4) with_tree_def numbered_def)
  qed
qed

lemma CreateWorkerPrincipal_broker:
  assumes inv: "broker_inv s" and run: "CreateWorkerPrincipal c t a par d w s = (Inr p, s')"
  shows "broker_ok s s'"
  using run
proof (cases rule: CreateWorkerPrincipal_cases)
  case found
  then show ?thesis using broker_ok_refl [OF inv] by simp
next
  case (created q)
  note i = broker_invD [OF inv]
  show ?thesis
    by (rule trees_step_broker [OF inv _ CreateWorkerPrincipal_inv [OF i(9) run]])
      (use spawns_invD(4) [OF i(8)] in \<open>auto simp: created(6) lifecycle_high_def\<close>)
qed

section \<open>Mailboxes and workspaces\<close>

lemma mailbox_step_broker:
  assumes inv: "broker_inv s" and fr: "but_mailboxes s' = but_mailboxes s" and mb: "mailbox_inv s'"
  shows "broker_ok s s'"
proof -
  note i = broker_invD [OF inv] and f = but_mailboxesD [OF fr]
  note le = spawns_le_eq [OF f(6)] workspaces_le_eq [OF f(5)] operations_le_eq [OF f(7)]
  have "registry_inv s'" by (rule registry_inv_same [OF i(1) f(11,13,4,3,12)])
  moreover have "spawn_ok s'" by (rule spawn_ok_same [OF i(5) f(1,2,6,5,3)])
  moreover have "operations_inv s'" by (rule operations_inv_mono [OF i(6) f(7) le(1)])
  moreover have "lifecycle_inv s'" by (rule lifecycle_inv_same [OF i(3) f(9,8) le(1) f(1)])
  moreover have "counters_inv s'" by (rule counters_inv_same [OF i(4) f(10,6,7)])
  moreover have "lifecycle_grows s s'" by (rule lifecycle_grows_eq [OF f(9)]) (simp add: lifecycle_high_eq [OF f(1)])
  ultimately show ?thesis
    using mb le registry_le_eq [OF f(4,3)] f(2,3) by (simp add: broker_ok_def broker_le_def broker_inv_def operation_ok_def)
qed

lemma workspace_step_broker:
  assumes inv: "broker_inv s" and st: "workspace_step s s'"
  shows "broker_ok s s'"
proof -
  note i = broker_invD [OF inv] and f = but_workspacesD [OF workspace_step_frame [OF st]]
  have w: "workspace_inv s'" "trees_inv s'" "workspaces_le s s'" using workspace_step_ok [OF st i(10,9)] by simp_all
  note le = spawns_le_eq [OF f(8)]
  have "registry_inv s'" by (rule registry_inv_same [OF i(1) f(13,15,4,3,14)])
  moreover have "spawns_inv s'"
    by (rule spawns_inv_mono [OF i(8) f(8) _ w(3)]) (use f spawns_invD(4) [OF i(8)] in \<open>simp_all add: numbered_def agents_of_def\<close>)
  moreover have "operations_inv s'" by (rule operations_inv_mono [OF i(6) f(9) le])
  moreover have "mailbox_inv s'" by (rule mailbox_inv_cong [OF i(7) f(5,6,7)]) (simp add: f(2))
  moreover have "lifecycle_inv s'" by (rule lifecycle_inv_same [OF i(3) f(11,10) le f(1)])
  moreover have "counters_inv s'" by (rule counters_inv_same [OF i(4) f(12,8,9)])
  moreover have "lifecycle_grows s s'" by (rule lifecycle_grows_eq [OF f(11)]) (simp add: lifecycle_high_eq [OF f(1)])
  ultimately show ?thesis
    using w le operations_le_eq [OF f(9)] registry_le_eq [OF f(4,3)] f(2,3)
    by (simp add: broker_ok_def broker_le_def broker_inv_def operation_ok_def spawn_ok_def)
qed

section \<open>Spawns\<close>

lemma with_spawn_frame:
  "credentials (with_spawn i n t s) = credentials s" "broker_metadata (with_spawn i n t s) = broker_metadata s"
  "controller_registries (with_spawn i n t s) = controller_registries s" "devices (with_spawn i n t s) = devices s"
  "device_worker_readiness (with_spawn i n t s) = device_worker_readiness s"
  "agent_operation_receipts (with_spawn i n t s) = agent_operation_receipts s"
  "peer_worker_sync_cursors (with_spawn i n t s) = peer_worker_sync_cursors s"
  "agent_lifecycle_states (with_spawn i n t s) = agent_lifecycle_states s"
  "controller_lifetime_counters (with_spawn i n t s) = controller_lifetime_counters s"
  "mailboxes (with_spawn i n t s) = mailboxes s" "mailbox_messages (with_spawn i n t s) = mailbox_messages s"
  "mailbox_receipts (with_spawn i n t s) = mailbox_receipts s"
  by (simp_all add: with_spawn_def update_workspace_def add_spawn_def)

lemma tree_at_agent_sequence [simp]: "tree_at c t (r\<lparr>t_last_agent_sequence := n\<rparr>) = tree_at c t r"
  by (simp add: tree_at_def)

lemma BeginAgentSpawn_broker:
  assumes inv: "broker_inv s" and run: "BeginAgentSpawn i t s = (Inr x, s')"
  shows "broker_ok s s'"
  using broker_invD(5) [OF inv] run
proof (cases rule: BeginAgentSpawn_cases)
  case (replay p r)
  then show ?thesis using broker_ok_refl [OF inv] by simp
next
  case (fresh p d tr)
  note i = broker_invD [OF inv] and f = with_spawn_frame [of i "t_last_agent_sequence tr" t s, folded fresh(14)]
    and ok = BeginAgentSpawn_ok [OF i(5) run]
  have sle: "spawns_le s s'" by (rule BeginAgentSpawn_le [OF i(5) run])
  have "sel1 (tree_at c' t') (trees s') = map_option (\<lambda>r. if tree_at (pi_ControllerID (si_Source i)) (pi_TreeID (si_Source i)) r
      then r\<lparr>t_last_agent_sequence := t_last_agent_sequence tr + 1\<rparr> else r) (sel1 (tree_at c' t') (trees s))" for c' t'
    unfolding fresh(14) with_spawn_simps by (rule sel1_upd) simp
  then have high: "lifecycle_high c' t' s \<le> lifecycle_high c' t' s'" for c' t'
    by (simp add: lifecycle_high_def split: option.split)
  have "registry_inv s'" by (rule registry_inv_same [OF i(1) f(1-5)])
  moreover have "operations_inv s'" by (rule operations_inv_mono [OF i(6) f(6) sle])
  moreover have "mailbox_inv s'" by (rule mailbox_inv_cong [OF i(7) f(10,12,11) ok(3)])
  moreover have "lifecycle_inv s'" by (rule lifecycle_inv_mono [OF i(3) f(8,7) sle high])
  moreover have "counters_inv s'"
    by (rule counters_inv_spawned [OF i(4) f(9) _ _ f(6), of "new_spawn_row i (t_last_agent_sequence tr + 1) t"])
      (simp_all add: fresh(14))
  ultimately show ?thesis
    using ok(1,2,3) sle operations_le_eq [OF f(6)] registry_le_eq [OF f(3,4)] f(4) lifecycle_grows_eq [OF f(8) high]
    by (simp add: broker_ok_def broker_le_def broker_inv_def operation_ok_def)
qed

lemma finishAgentSpawn_broker:
  assumes inv: "broker_inv s" and run: "finishAgentSpawn k status code t s = (Inr x, s')"
  shows "broker_ok s s'"
  using broker_invD(5) [OF inv] run
proof (cases rule: finishAgentSpawn_cases)
  case same
  then show ?thesis using broker_ok_refl [OF inv] by simp
next
  case (finished r)
  note i = broker_invD [OF inv]
  have f: "credentials s' = credentials s" "broker_metadata s' = broker_metadata s"
    "controller_registries s' = controller_registries s" "devices s' = devices s"
    "device_worker_readiness s' = device_worker_readiness s" "agent_operation_receipts s' = agent_operation_receipts s"
    "peer_worker_sync_cursors s' = peer_worker_sync_cursors s" "agent_lifecycle_states s' = agent_lifecycle_states s"
    "mailboxes s' = mailboxes s" "mailbox_messages s' = mailbox_messages s" "mailbox_receipts s' = mailbox_receipts s"
    "trees s' = trees s" "principals s' = principals s" "workspace_sync_receipts s' = workspace_sync_receipts s"
    by (simp_all add: finished(7) with_finished_def)
  have sle: "spawns_le s s'" by (rule finishAgentSpawn_le [OF i(5) run])
  have "registry_inv s'" by (rule registry_inv_same [OF i(1) f(1-5)])
  moreover have "operations_inv s'" by (rule operations_inv_mono [OF i(6) f(6) sle])
  moreover have "mailbox_inv s'" by (rule mailbox_inv_cong [OF i(7) f(9,11,10)]) (simp add: f(13))
  moreover have "lifecycle_inv s'" by (rule lifecycle_inv_same [OF i(3) f(8,7) sle f(12)])
  moreover have "counters_inv s'" unfolding finished(7) by (rule counters_inv_finished [OF i(4,5) finished(1,2)])
  moreover have "lifecycle_grows s s'" by (rule lifecycle_grows_eq [OF f(8)]) (simp add: lifecycle_high_eq [OF f(12)])
  ultimately show ?thesis
    using finishAgentSpawn_ok(1) [OF i(5) run] sle operations_le_eq [OF f(6)] registry_le_eq [OF f(3,4)] f(4,13) workspaces_le_eq [OF f(14)]
    by (simp add: broker_ok_def broker_le_def broker_inv_def operation_ok_def)
qed

section \<open>Operations\<close>

text \<open>A step on the operation receipts and counters only.\<close>

lemma operation_step_broker:
  assumes inv: "broker_inv s" and ok: "operation_ok s'" and cnt: "counters_inv s'" and le: "operations_le s s'"
    and s': "s' = s\<lparr>agent_operation_receipts := a, controller_lifetime_counters := b\<rparr>"
  shows "broker_ok s s'"
proof -
  note i = broker_invD [OF inv]
  have f: "agent_spawn_receipts s' = agent_spawn_receipts s" "workspace_sync_receipts s' = workspace_sync_receipts s"
    "trees s' = trees s" "agent_lifecycle_states s' = agent_lifecycle_states s"
    "peer_worker_sync_cursors s' = peer_worker_sync_cursors s" "controller_registries s' = controller_registries s"
    "devices s' = devices s" "principals s' = principals s"
    by (simp_all add: s')
  have "registry_inv s'" by (rule registry_inv_same [OF i(1)]) (simp_all add: s')
  moreover have "lifecycle_inv s'" by (rule lifecycle_inv_same [OF i(3) f(4,5) spawns_le_eq [OF f(1)] f(3)])
  moreover have "lifecycle_grows s s'" by (rule lifecycle_grows_eq [OF f(4)]) (simp add: lifecycle_high_eq [OF f(3)])
  ultimately show ?thesis
    using ok cnt le registry_le_eq [OF f(6,7)] f(7,8) workspaces_le_eq [OF f(2)] spawns_le_eq [OF f(1)]
    by (simp add: broker_ok_def broker_le_def broker_inv_def)
qed

lemma BeginAgentOperation_broker:
  assumes inv: "broker_inv s" and run: "BeginAgentOperation i t s = (Inr x, s')"
  shows "broker_ok s s'"
  using broker_invD(2) [OF inv] run
proof (cases rule: BeginAgentOperation_cases)
  case (replay r)
  then show ?thesis using broker_ok_refl [OF inv] by simp
next
  case (fresh r)
  have ok: "operation_ok s'" using BeginAgentOperation_ok [OF broker_invD(2) [OF inv] run] by simp
  have "counters_inv s'"
    using broker_invD(4) [OF inv] by (simp add: counters_inv_def fresh(9) started_dispatches_def started_followups_def)
  moreover have "operations_le s s'" by (rule operations_le_subset) (auto simp: fresh(9))
  ultimately show ?thesis
    by (rule operation_step_broker [OF inv ok, where a = "agent_operation_receipts s @ [new_operation_row i t]"
          and b = "controller_lifetime_counters s"]) (simp add: fresh(9))
qed

lemma with_outcome_broker:
  assumes inv: "broker_inv s" and r: "sel1 (operation_at k) (agent_operation_receipts s) = Some r"
    "op_outcome r = AgentOperationOutcomePending" and st: "op_created_at r \<le> t" "AgentOperationOutcome_Validate out (op_action r) code = None"
  shows "broker_ok s (with_outcome k r out code t s)"
  by (rule operation_step_broker [OF inv with_outcome_ok(1) [OF broker_invD(2) [OF inv] r(1) st]
        counters_inv_outcome [OF broker_invD(4,6) [OF inv] r] operations_le_outcome [OF broker_invD(6) [OF inv] r] with_outcome_def])

lemma FinishAgentOperation_broker:
  assumes inv: "broker_inv s" and run: "FinishAgentOperation k out code t s = (Inr x, s')"
  shows "broker_ok s s'"
  using broker_invD(2) [OF inv] run
proof (cases rule: FinishAgentOperation_cases)
  case (same r)
  then show ?thesis using broker_ok_refl [OF inv] by simp
next
  case (finished r)
  show ?thesis unfolding finished(7) by (rule with_outcome_broker [OF inv finished(1,2,4,5)])
qed

lemma Queue_broker:
  assumes inv: "broker_inv s" and run: "QueueAgentMessageAndFinishOperation k m t s = (Inr (x, d), s')"
  shows "broker_ok s s'"
  using broker_invD(2) [OF inv] run
proof (cases rule: Queue_cases)
  case (queued r)
  then show ?thesis using broker_ok_refl [OF inv] by simp
next
  case (delivered r p s1)
  note send = operation_ok_send [OF broker_invD(2) [OF inv] delivered(8)]
  have one: "broker_ok s s1" by (rule mailbox_step_broker [OF inv send(2) operation_okD(3) [OF send(1)]])
  have "sel1 (operation_at k) (agent_operation_receipts s1) = Some r" using delivered(1) but_mailboxesD(7) [OF send(2)] by simp
  moreover have "AgentOperationOutcome_Validate AgentOperationOutcomeQueued (op_action r) '''' = None"
    by (simp add: delivered(2) AgentOperationOutcome_Validate_def AgentOperationAction_Validate_def AgentOperationAction_accepts_def)
  ultimately have "broker_ok s1 s'"
    unfolding delivered(10) using one by (intro with_outcome_broker [OF _ _ delivered(4,5)]) (simp_all add: broker_ok_def)
  then show ?thesis using one broker_le_trans by (auto simp: broker_ok_def)
qed

section \<open>Lifecycles\<close>

definition but_lifecycle :: "BrokerDb \<Rightarrow> BrokerDb" where
  "but_lifecycle s = s\<lparr>trees := [], agent_lifecycle_states := [], peer_worker_sync_cursors := []\<rparr>"

lemma but_lifecycle_simps [simp]:
  "but_lifecycle (s\<lparr>trees := a\<rparr>) = but_lifecycle s" "but_lifecycle (s\<lparr>agent_lifecycle_states := b\<rparr>) = but_lifecycle s"
  "but_lifecycle (s\<lparr>peer_worker_sync_cursors := d\<rparr>) = but_lifecycle s" "but_lifecycle (upsert_cursor se n s) = but_lifecycle s"
  by (simp_all add: but_lifecycle_def upsert_cursor_def)

lemma lifecycle_tx_frame [tx_frame]:
  "tx_preserves but_lifecycle (nextTreeLifecycleSequence c t)" "tx_preserves but_lifecycle (update_lifecycle se w n f)"
  "tx_preserves but_lifecycle (advance_cursor se b m)"
  unfolding nextTreeLifecycleSequence_def update_lifecycle_def advance_cursor_def Let_def by (intro tx_frame; simp)+

lemma applyWorkerLifecycleSnapshot_frame [tx_frame]:
  "tx_preserves but_lifecycle (applyWorkerLifecycleSnapshot se w obs)"
  unfolding applyWorkerLifecycleSnapshot_def Let_def by (intro tx_frame; simp)+

lemma tx_each_frame [tx_frame]: "(\<And>x. tx_preserves g (f x)) \<Longrightarrow> tx_preserves g (tx_each f xs)"
  by (induction xs) (auto intro: tx_frame)

lemma lifecycle_page_frame:
  "tx_preserves but_lifecycle (ApplyWorkerLifecyclePage_tx q n)" "tx_preserves but_lifecycle (ClaimWorkerLifecycleSession_tx cl)"
  unfolding ApplyWorkerLifecyclePage_tx_def ClaimWorkerLifecycleSession_tx_def Let_def by (intro tx_frame; simp)+

lemma but_lifecycle_field:
  assumes "but_lifecycle s' = but_lifecycle s"
    "\<And>s a b d. g (s\<lparr>trees := a, agent_lifecycle_states := b, peer_worker_sync_cursors := d\<rparr>) = g s"
  shows "g s' = g s"
  using assms unfolding but_lifecycle_def by metis

lemma but_lifecycleD:
  assumes "but_lifecycle s' = but_lifecycle s"
  shows "credentials s' = credentials s" "broker_metadata s' = broker_metadata s"
    "controller_registries s' = controller_registries s" "devices s' = devices s"
    "device_worker_readiness s' = device_worker_readiness s" "workspace_sync_receipts s' = workspace_sync_receipts s"
    "agent_spawn_receipts s' = agent_spawn_receipts s" "agent_operation_receipts s' = agent_operation_receipts s"
    "principals s' = principals s" "controller_lifetime_counters s' = controller_lifetime_counters s"
    "mailboxes s' = mailboxes s" "mailbox_messages s' = mailbox_messages s" "mailbox_receipts s' = mailbox_receipts s"
  by (rule but_lifecycle_field [OF assms], simp)+

lemma lifecycle_step_broker:
  assumes inv: "broker_inv s" and fr: "but_lifecycle s' = but_lifecycle s"
    and ok: "spawn_ok s'" "lifecycle_inv s'" "lifecycle_grows s s'"
  shows "broker_ok s s'"
proof -
  note i = broker_invD [OF inv] and f = but_lifecycleD [OF fr]
  note le = spawns_le_eq [OF f(7)] workspaces_le_eq [OF f(6)] operations_le_eq [OF f(8)]
  have "registry_inv s'" by (rule registry_inv_same [OF i(1) f(1-5)])
  moreover have "operations_inv s'" by (rule operations_inv_mono [OF i(6) f(8) le(1)])
  moreover have "mailbox_inv s'" by (rule mailbox_inv_cong [OF i(7) f(11,13,12)]) (simp add: f(9))
  moreover have "counters_inv s'" by (rule counters_inv_same [OF i(4) f(10,7,8)])
  ultimately show ?thesis
    using ok le registry_le_eq [OF f(3,4)] f(4,9) by (simp add: broker_ok_def broker_le_def broker_inv_def operation_ok_def)
qed

lemma Claim_broker:
  assumes inv: "broker_inv s" and run: "ClaimWorkerLifecycleSession cl s = (Inr n, s')"
  shows "broker_ok s s'"
proof -
  note i = broker_invD [OF inv] and c = Claim_cases [OF broker_invD(3) [OF inv] run]
  have "spawn_ok s'" by (rule spawn_ok_same [OF i(5)]) (simp_all add: c(4) upsert_cursor_def)
  moreover have "lifecycle_grows s s'" by (rule lifecycle_grows_eq) (simp_all add: c(4) upsert_cursor_def)
  ultimately show ?thesis using lifecycle_step_broker [OF inv _ _ c(5)] by (simp add: c(4))
qed

lemma Apply_broker:
  assumes inv: "broker_inv s" and run: "ApplyWorkerLifecyclePage q s = (Inr n, s')"
  shows "broker_ok s s'"
proof -
  note i = broker_invD [OF inv] and a = Apply_ok [OF broker_invD(5,3) [OF inv] run]
  have "but_lifecycle (snd (ApplyWorkerLifecyclePage q s)) = but_lifecycle s"
    using guard_tx_preserves [OF lifecycle_page_frame(1)] by (simp add: ApplyWorkerLifecyclePage_def split: option.split sum.split)
  then show ?thesis using lifecycle_step_broker [OF inv _ a(1,2,3)] run by simp
qed

section \<open>The broker as a state machine\<close>

text \<open>
  One step is one call of a store operation with any arguments, successful or not. The identifiers of
  a new tree come from 16 random bytes each, or the draw fails.
\<close>

definition draw_ok :: "8 word list result \<Rightarrow> bool" where
  "draw_ok r \<longleftrightarrow> (case r of Inl _ \<Rightarrow> True | Inr v \<Rightarrow> length v = 16)"

inductive broker_step :: "BrokerDb \<Rightarrow> BrokerDb \<Rightarrow> bool" where
  registry: "registry_step s s' \<Longrightarrow> broker_step s s'"
| ensure_tree: "draw_ok r1 \<Longrightarrow> draw_ok r2 \<Longrightarrow> broker_step s (snd (EnsureRootTree r1 r2 c x d t s))"
| create_worker: "broker_step s (snd (CreateWorkerPrincipal c t a par d w s))"
| send: "broker_step s (snd (SendMailboxMessage source target i m ts s))"
| read: "broker_step s (snd (ReadMailbox recipient cursor limit s))"
| workspace: "workspace_step s s' \<Longrightarrow> broker_step s s'"
| begin_spawn: "broker_step s (snd (BeginAgentSpawn si ts s))"
| finish_spawn: "broker_step s (snd (finishAgentSpawn sk st code ts s))"
| begin_operation: "broker_step s (snd (BeginAgentOperation oi ts s))"
| finish_operation: "broker_step s (snd (FinishAgentOperation opk out code ts s))"
| queue: "broker_step s (snd (QueueAgentMessageAndFinishOperation opk m ts s))"
| claim: "broker_step s (snd (ClaimWorkerLifecycleSession cl s))"
| apply_page: "broker_step s (snd (ApplyWorkerLifecyclePage q s))"

text \<open>A failing operation commits nothing, so a step need only be examined when it succeeds.\<close>

definition rolls_back :: "('s \<Rightarrow> 'a result \<times> 's) \<Rightarrow> bool" where
  "rolls_back f \<longleftrightarrow> (\<forall>s e s'. f s = (Inl e, s') \<longrightarrow> s' = s)"

lemma guard_rolls_back: "rolls_back (guard_tx e m)"
  by (simp add: rolls_back_def)

lemma EnsureRootTree_rolls_back: "rolls_back (EnsureRootTree r1 r2 c x d t)"
  by (auto simp: rolls_back_def EnsureRootTree_def withImmediateTransaction_def split: option.splits sum.splits)

lemma Apply_rolls_back: "rolls_back (ApplyWorkerLifecyclePage q)"
  by (auto simp: rolls_back_def ApplyWorkerLifecyclePage_def split: option.splits sum.splits)

lemma tx_rolls_back:
  "rolls_back (CreateWorkerPrincipal c t a par d w)" "rolls_back (BeginAgentSpawn si ts)"
  "rolls_back (finishAgentSpawn sk st code ts)" "rolls_back (BeginAgentOperation oi ts)"
  "rolls_back (FinishAgentOperation opk out code ts)" "rolls_back (QueueAgentMessageAndFinishOperation opk m ts)"
  "rolls_back (ClaimWorkerLifecycleSession cl)"
  unfolding CreateWorkerPrincipal_def BeginAgentSpawn_def finishAgentSpawn_def BeginAgentOperation_def
    FinishAgentOperation_def QueueAgentMessageAndFinishOperation_def ClaimWorkerLifecycleSession_def Let_def
  by (rule guard_rolls_back)+

lemma step_state:
  assumes "rolls_back f" "P s" "\<And>x s'. f s = (Inr x, s') \<Longrightarrow> P s'"
  shows "P (snd (f s))"
  using assms unfolding rolls_back_def by (cases "f s", rename_tac y s', case_tac y) auto

lemma broker_step_ok:
  assumes "broker_step s s'" "broker_inv s"
  shows "broker_ok s s'"
  using assms
proof (induction rule: broker_step.induct)
  case (registry s s')
  then show ?case using registry_step_broker by blast
next
  case (ensure_tree r1 r2 s c x d t)
  show ?case
  proof (rule step_state [where P = "broker_ok s", OF EnsureRootTree_rolls_back broker_ok_refl [OF ensure_tree(3)]])
    fix y s' assume run: "EnsureRootTree r1 r2 c x d t s = (Inr y, s')"
    then obtain v1 v2 where v: "r1 = Inr v1" "r2 = Inr v2"
      by (cases r1; cases r2) (auto simp: EnsureRootTree_def NewID_def split: option.splits sum.splits)
    then show "broker_ok s s'"
      using EnsureRootTree_broker [OF ensure_tree(3), of v1 v2 c x d t "fst y" "snd y" s'] run ensure_tree(1,2)
      by (simp add: draw_ok_def)
  qed
next
  case (create_worker s c t a par d w)
  show ?case
    by (rule step_state [where P = "broker_ok s", OF tx_rolls_back(1) broker_ok_refl [OF create_worker]])
      (rule CreateWorkerPrincipal_broker [OF create_worker])
next
  case (send s source target i m ts)
  have "but_mailboxes (snd (SendMailboxMessage source target i m ts s)) = but_mailboxes s"
    unfolding SendMailboxMessage_def by (rule guard_tx_preserves [OF sendMailboxMessageTx_frame])
  then show ?case
    using mailbox_step_broker [OF send] SendMailboxMessage_inv [OF broker_invD(7,9) [OF send]] by simp
next
  case (read s recipient cursor limit)
  have "but_mailboxes (snd (ReadMailbox recipient cursor limit s)) = but_mailboxes s"
    unfolding ReadMailbox_def by (rule guard_tx_preserves [OF ReadMailbox_tx_frame])
  then show ?case
    using mailbox_step_broker [OF read] ReadMailbox_inv [OF broker_invD(7,9) [OF read]] by simp
next
  case (workspace s s')
  then show ?case using workspace_step_broker by blast
next
  case (begin_spawn s si ts)
  show ?case
    by (rule step_state [where P = "broker_ok s", OF tx_rolls_back(2) broker_ok_refl [OF begin_spawn]])
      (rule BeginAgentSpawn_broker [OF begin_spawn])
next
  case (finish_spawn s sk st code ts)
  show ?case
    by (rule step_state [where P = "broker_ok s", OF tx_rolls_back(3) broker_ok_refl [OF finish_spawn]])
      (rule finishAgentSpawn_broker [OF finish_spawn])
next
  case (begin_operation s oi ts)
  show ?case
    by (rule step_state [where P = "broker_ok s", OF tx_rolls_back(4) broker_ok_refl [OF begin_operation]])
      (rule BeginAgentOperation_broker [OF begin_operation])
next
  case (finish_operation s opk out code ts)
  show ?case
    by (rule step_state [where P = "broker_ok s", OF tx_rolls_back(5) broker_ok_refl [OF finish_operation]])
      (rule FinishAgentOperation_broker [OF finish_operation])
next
  case (queue s opk m ts)
  show ?case
    by (rule step_state [where P = "broker_ok s", OF tx_rolls_back(6) broker_ok_refl [OF queue]])
      (use Queue_broker [OF queue] in \<open>metis prod.collapse\<close>)
next
  case (claim s cl)
  show ?case
    by (rule step_state [where P = "broker_ok s", OF tx_rolls_back(7) broker_ok_refl [OF claim]])
      (rule Claim_broker [OF claim])
next
  case (apply_page s q)
  show ?case
    by (rule step_state [where P = "broker_ok s", OF Apply_rolls_back broker_ok_refl [OF apply_page]]) (rule Apply_broker [OF apply_page])
qed

lemma broker_steps_ok: "broker_step\<^sup>*\<^sup>* s s' \<Longrightarrow> broker_inv s \<Longrightarrow> broker_ok s s'"
proof (induction rule: rtranclp_induct)
  case base
  then show ?case by (rule broker_ok_refl)
next
  case (step s1 s2)
  then show ?case using broker_step_ok broker_le_trans unfolding broker_ok_def by blast
qed

end
