(* ===== verification/Broker_Kept.thy ===== *)
theory Broker_Kept
  imports Broker
begin

text \<open>
  What the broker's operations keep of each table, and what they may drop. Every table has a growth
  relation on its rows; a step keeps them all. Three kinds of rows can go: a pending credential that is
  withdrawn, a message its recipient has read past, and the receipt of such a message. For each of them
  the only operation that removes it is named.
\<close>

section \<open>Rows that stay\<close>

definition kept_rows :: "('a \<Rightarrow> 'a \<Rightarrow> bool) \<Rightarrow> 'a list \<Rightarrow> 'a list \<Rightarrow> bool" where
  "kept_rows le xs ys \<longleftrightarrow> (\<forall>x \<in> set xs. \<exists>y \<in> set ys. le x y)"

lemma kept_rows_subset: "(\<And>x. le x x) \<Longrightarrow> set xs \<subseteq> set ys \<Longrightarrow> kept_rows le xs ys"
  by (auto simp: kept_rows_def)

lemma kept_rows_trans:
  "(\<And>x y z. le x y \<Longrightarrow> le y z \<Longrightarrow> le x z) \<Longrightarrow> kept_rows le xs ys \<Longrightarrow> kept_rows le ys zs \<Longrightarrow> kept_rows le xs zs"
  unfolding kept_rows_def by meson

lemma kept_rows_upd:
  assumes "\<And>x. le x x" "\<And>x. x \<in> set xs \<Longrightarrow> P x \<Longrightarrow> le x (f x)"
  shows "kept_rows le xs (upd P f xs)"
  unfolding kept_rows_def
proof
  fix x assume x: "x \<in> set xs"
  show "\<exists>y \<in> set (upd P f xs). le x y"
    by (rule bexI [OF _ in_upd [OF x, of P f]]) (use assms x in simp)
qed

text \<open>A credential keeps its owner, its token and its issue time; a revoked one stays revoked.\<close>

definition same_token :: "Credential \<Rightarrow> Credential \<Rightarrow> bool" where
  "same_token x y \<longleftrightarrow> cr_ControllerID y = cr_ControllerID x \<and> cr_DeviceID y = cr_DeviceID x \<and> cr_MAC y = cr_MAC x
     \<and> cr_IssuedAt y = cr_IssuedAt x"

definition credential_le :: "Credential \<Rightarrow> Credential \<Rightarrow> bool" where
  "credential_le x y \<longleftrightarrow> same_token x y \<and> (cr_Disabled x \<longrightarrow> cr_Disabled y)"

definition settled :: "BrokerDb \<Rightarrow> Credential list" where
  "settled s = filter (\<lambda>c. \<not> cr_Pending c) (credentials s)"

text \<open>A tree keeps its identity, and its sequence numbers do not go back.\<close>

definition tree_le :: "TreeRow \<Rightarrow> TreeRow \<Rightarrow> bool" where
  "tree_le x y \<longleftrightarrow> tree_of y = tree_of x \<and> t_last_agent_sequence x \<le> t_last_agent_sequence y
     \<and> t_last_lifecycle_sequence x \<le> t_last_lifecycle_sequence y
     \<and> t_last_artifact_sequence x \<le> t_last_artifact_sequence y \<and> t_last_result_sequence x \<le> t_last_result_sequence y"

text \<open>A device's readiness is only replaced by a later one, and its lifecycle cursor only advances.\<close>

definition readiness_le :: "ReadinessRow \<Rightarrow> ReadinessRow \<Rightarrow> bool" where
  "readiness_le x y \<longleftrightarrow> readiness_key y = readiness_key x
     \<and> (y = x \<or> WorkerReadinessCursor_Before (WorkerReadiness_Cursor (rd_readiness x)) (rd_readiness y))"

definition cursor_le :: "CursorRow \<Rightarrow> CursorRow \<Rightarrow> bool" where
  "cursor_le x y \<longleftrightarrow> cursor_key y = cursor_key x \<and> cu_applied_revision x \<le> cu_applied_revision y"

definition counter_le :: "CounterRow \<Rightarrow> CounterRow \<Rightarrow> bool" where
  "counter_le x y \<longleftrightarrow> cnt_controller_id y = cnt_controller_id x \<and> cnt_dispatches_started x \<le> cnt_dispatches_started y
     \<and> cnt_turns_started x \<le> cnt_turns_started y \<and> cnt_result_packages_delivered x \<le> cnt_result_packages_delivered y
     \<and> cnt_result_packages_source_acknowledged x \<le> cnt_result_packages_source_acknowledged y
     \<and> cnt_result_packages_source_released x \<le> cnt_result_packages_source_released y
     \<and> cnt_result_package_details_compacted x \<le> cnt_result_package_details_compacted y"

lemma row_le_refl [simp]:
  "credential_le x x" "tree_le t t" "readiness_le r r" "cursor_le u u" "counter_le n n" "same_token x x"
  by (simp_all add: credential_le_def same_token_def tree_le_def readiness_le_def cursor_le_def counter_le_def)

lemma row_le_trans:
  "credential_le x y \<Longrightarrow> credential_le y z \<Longrightarrow> credential_le x z"
  "tree_le t t' \<Longrightarrow> tree_le t' t'' \<Longrightarrow> tree_le t t''"
  "readiness_le r r' \<Longrightarrow> readiness_le r' r'' \<Longrightarrow> readiness_le r r''"
  "cursor_le u u' \<Longrightarrow> cursor_le u' u'' \<Longrightarrow> cursor_le u u''"
  "counter_le n n' \<Longrightarrow> counter_le n' n'' \<Longrightarrow> counter_le n n''"
  by (auto simp: credential_le_def same_token_def tree_le_def cursor_le_def counter_le_def)
    (auto simp: readiness_le_def intro: Before_trans)

text \<open>
  A mailbox is never removed and its high-water mark does not go back. A message or receipt that is new
  has a number above the mark, so no number is used twice; messages go oldest first.
\<close>

definition box_last :: "BrokerDb \<Rightarrow> string \<times> string \<times> string \<Rightarrow> int" where
  "box_last s b = (case b of (c, t, a) \<Rightarrow> last_sequence c t a s)"

definition mailboxes_le :: "BrokerDb \<Rightarrow> BrokerDb \<Rightarrow> bool" where
  "mailboxes_le s s' \<longleftrightarrow>
     (\<forall>b. box_last s b \<le> box_last s' b) \<and> mailbox_key ` set (mailboxes s) \<subseteq> mailbox_key ` set (mailboxes s')
     \<and> (\<forall>m \<in> set (mailbox_messages s'). m \<in> set (mailbox_messages s) \<or> box_last s (message_box m) < ms_sequence m)
     \<and> (\<forall>r \<in> set (mailbox_receipts s'). r \<in> set (mailbox_receipts s) \<or> box_last s (receipt_box r) < mr_sequence r)
     \<and> (\<forall>m \<in> set (mailbox_messages s). \<forall>m' \<in> set (mailbox_messages s).
          message_box m' = message_box m \<and> ms_sequence m \<le> ms_sequence m' \<and> m \<in> set (mailbox_messages s')
          \<longrightarrow> m' \<in> set (mailbox_messages s'))"

definition tables_le :: "BrokerDb \<Rightarrow> BrokerDb \<Rightarrow> bool" where
  "tables_le s s' \<longleftrightarrow>
     kept_rows credential_le (settled s) (settled s')
     \<and> (broker_metadata s \<noteq> None \<longrightarrow> broker_metadata s' = broker_metadata s)
     \<and> kept_rows tree_le (trees s) (trees s')
     \<and> kept_rows readiness_le (device_worker_readiness s) (device_worker_readiness s')
     \<and> kept_rows cursor_le (peer_worker_sync_cursors s) (peer_worker_sync_cursors s')
     \<and> kept_rows counter_le (controller_lifetime_counters s) (controller_lifetime_counters s')
     \<and> mailboxes_le s s'"

text \<open>What a single step may drop, and by which operation.\<close>

definition drops_justified :: "BrokerDb \<Rightarrow> BrokerDb \<Rightarrow> bool" where
  "drops_justified s s' \<longleftrightarrow>
     (\<forall>x \<in> set (credentials s). (\<exists>y \<in> set (credentials s'). same_token x y)
        \<or> cr_Pending x \<and> s' = snd (DeletePendingCredential (cr_ControllerID x) (cr_DeviceID x) (cr_MAC x) s))
     \<and> (\<forall>m \<in> set (mailbox_messages s). m \<in> set (mailbox_messages s')
        \<or> (\<exists>recipient cursor limit. s' = snd (ReadMailbox recipient cursor limit s)
             \<and> message_box m = (pi_ControllerID (p_Identity recipient), pi_TreeID (p_Identity recipient), pi_AgentID (p_Identity recipient))
             \<and> ms_sequence m \<le> int cursor))
     \<and> (\<forall>r \<in> set (mailbox_receipts s). r \<in> set (mailbox_receipts s')
        \<or> (\<forall>m \<in> set (mailbox_messages s). ms_message_id m \<noteq> mr_message_id r))"

lemma box_last_cong: "mailboxes s' = mailboxes s \<Longrightarrow> box_last s' b = box_last s b"
  by (simp add: box_last_def last_sequence_def split: prod.split)

lemma mailboxes_le_eq:
  assumes "mailboxes s' = mailboxes s" "mailbox_messages s' = mailbox_messages s" "mailbox_receipts s' = mailbox_receipts s"
  shows "mailboxes_le s s'"
  using assms by (simp add: mailboxes_le_def box_last_cong [OF assms(1)])

lemma message_below_last:
  "mailbox_inv s \<Longrightarrow> m \<in> set (mailbox_messages s) \<Longrightarrow> ms_sequence m \<le> box_last s (message_box m)"
  using message_sequence_bounds(3) [of s m] by (cases "message_box m") (simp add: box_last_def)

lemma mailboxes_leD:
  assumes "mailboxes_le s s'"
  shows "box_last s b \<le> box_last s' b" "mailbox_key ` set (mailboxes s) \<subseteq> mailbox_key ` set (mailboxes s')"
    "m \<in> set (mailbox_messages s') \<Longrightarrow> m \<in> set (mailbox_messages s) \<or> box_last s (message_box m) < ms_sequence m"
    "r \<in> set (mailbox_receipts s') \<Longrightarrow> r \<in> set (mailbox_receipts s) \<or> box_last s (receipt_box r) < mr_sequence r"
    "m \<in> set (mailbox_messages s) \<Longrightarrow> m' \<in> set (mailbox_messages s) \<Longrightarrow> message_box m' = message_box m
       \<Longrightarrow> ms_sequence m \<le> ms_sequence m' \<Longrightarrow> m \<in> set (mailbox_messages s') \<Longrightarrow> m' \<in> set (mailbox_messages s')"
  using assms [unfolded mailboxes_le_def] by (elim conjE; metis)+

lemma mailboxes_le_trans:
  assumes inv: "mailbox_inv s" and le: "mailboxes_le s s1" "mailboxes_le s1 s2"
  shows "mailboxes_le s s2"
  unfolding mailboxes_le_def
proof (intro conjI allI ballI impI)
  note one = mailboxes_leD [OF le(1)] and two = mailboxes_leD [OF le(2)]
  show "box_last s b \<le> box_last s2 b" for b using one(1) [of b] two(1) [of b] by simp
  show "mailbox_key ` set (mailboxes s) \<subseteq> mailbox_key ` set (mailboxes s2)" using one(2) two(2) by (rule order_trans)
  show "m \<in> set (mailbox_messages s) \<or> box_last s (message_box m) < ms_sequence m" if "m \<in> set (mailbox_messages s2)" for m
    using one(3) two(3) [OF that] one(1) [of "message_box m"] by (meson order_le_less_trans)
  show "r \<in> set (mailbox_receipts s) \<or> box_last s (receipt_box r) < mr_sequence r" if "r \<in> set (mailbox_receipts s2)" for r
    using one(4) two(4) [OF that] one(1) [of "receipt_box r"] by (meson order_le_less_trans)
  fix m m'
  assume m: "m \<in> set (mailbox_messages s)" "m' \<in> set (mailbox_messages s)"
    and mm: "message_box m' = message_box m \<and> ms_sequence m \<le> ms_sequence m' \<and> m \<in> set (mailbox_messages s2)"
  then have m1: "m \<in> set (mailbox_messages s1)"
    using two(3) [of m] message_below_last [OF inv m(1)] one(1) [of "message_box m"] by auto
  have "m' \<in> set (mailbox_messages s1)" using one(5) [OF m] mm m1 by simp
  then show "m' \<in> set (mailbox_messages s2)" using two(5) [OF m1] mm by simp
qed

lemma tables_le_refl [simp]: "tables_le s s"
  by (simp add: tables_le_def mailboxes_le_eq kept_rows_subset)

lemma tables_le_trans: "mailbox_inv s \<Longrightarrow> tables_le s s1 \<Longrightarrow> tables_le s1 s2 \<Longrightarrow> tables_le s s2"
  unfolding tables_le_def
  by (auto intro: mailboxes_le_trans kept_rows_trans [of credential_le] kept_rows_trans [of tree_le]
      kept_rows_trans [of readiness_le] kept_rows_trans [of cursor_le] kept_rows_trans [of counter_le] row_le_trans)

lemma drops_justified_same:
  assumes "credentials s' = credentials s" "mailbox_messages s' = mailbox_messages s" "mailbox_receipts s' = mailbox_receipts s"
  shows "drops_justified s s'"
  unfolding drops_justified_def assms using row_le_refl(6) by blast

lemma drops_justified_refl [simp]: "drops_justified s s"
  by (rule drops_justified_same) simp_all

section \<open>The registry\<close>

definition enrolled :: "BrokerDb \<Rightarrow> Credential list \<times> ReadinessRow list \<times> HostKind option" where
  "enrolled s = (credentials s, device_worker_readiness s, broker_metadata s)"

lemma enrolled_simps [simp]:
  "enrolled (init_registry c s) = enrolled s" "enrolled (s\<lparr>controller_registries := a\<rparr>) = enrolled s"
  "enrolled (upsert_device x s) = enrolled s" "enrolled (set_row c d g s) = enrolled s" "enrolled (s\<lparr>devices := b\<rparr>) = enrolled s"
  by (simp_all add: enrolled_def init_registry_def upsert_device_def set_row_def Let_def)

lemma nextControllerRevision_enrolled [tx_frame]: "tx_preserves enrolled (nextControllerRevision c)"
  unfolding nextControllerRevision_def Let_def by (intro tx_frame; simp)+

lemma registry_tx_enrolled:
  "tx_preserves enrolled (registerDevice_tx m desc t)" "tx_preserves enrolled (updateDevicePresence_tx c d er t off)"
  "tx_preserves enrolled (markMatchingDevicesOffline_tx c p)"
  unfolding registerDevice_tx_def updateDevicePresence_tx_def markMatchingDevicesOffline_tx_def Let_def
  by (intro tx_frame; simp)+

lemma mark_offline_enrolled: "enrolled (snd (markMatchingDevicesOffline c p s)) = enrolled s"
  unfolding markMatchingDevicesOffline_def by (rule guard_tx_preserves [OF registry_tx_enrolled(3)])

definition registry_kept :: "BrokerDb \<Rightarrow> BrokerDb \<Rightarrow> bool" where
  "registry_kept s s' \<longleftrightarrow>
     kept_rows credential_le (settled s) (settled s')
     \<and> (broker_metadata s \<noteq> None \<longrightarrow> broker_metadata s' = broker_metadata s)
     \<and> kept_rows readiness_le (device_worker_readiness s) (device_worker_readiness s')
     \<and> (\<forall>x \<in> set (credentials s). (\<exists>y \<in> set (credentials s'). same_token x y)
        \<or> cr_Pending x \<and> s' = snd (DeletePendingCredential (cr_ControllerID x) (cr_DeviceID x) (cr_MAC x) s))"

lemma registry_kept_enrolled:
  assumes "set (credentials s) \<subseteq> set (credentials s')" "broker_metadata s \<noteq> None \<Longrightarrow> broker_metadata s' = broker_metadata s"
    "kept_rows readiness_le (device_worker_readiness s) (device_worker_readiness s')"
  shows "registry_kept s s'"
  unfolding registry_kept_def
proof (intro conjI impI ballI)
  show "(\<exists>y \<in> set (credentials s'). same_token x y) \<or> cr_Pending x
      \<and> s' = snd (DeletePendingCredential (cr_ControllerID x) (cr_DeviceID x) (cr_MAC x) s)" if "x \<in> set (credentials s)" for x
    using that assms(1) row_le_refl(6) by blast
  show "kept_rows credential_le (settled s) (settled s')" by (rule kept_rows_subset) (use assms(1) in \<open>auto simp: settled_def\<close>)
qed (use assms(2,3) in simp_all)

lemma registry_kept_same: "enrolled s' = enrolled s \<Longrightarrow> registry_kept s s'"
  by (rule registry_kept_enrolled) (simp_all add: enrolled_def kept_rows_subset)

lemma registry_kept_credentials:
  assumes "s' = s\<lparr>credentials := upd P f (credentials s)\<rparr>" "\<And>x. P x \<Longrightarrow> same_token x (f x) \<and> \<not> cr_Pending (f x)"
    "\<And>x. P x \<Longrightarrow> \<not> cr_Pending x \<Longrightarrow> cr_Disabled (f x)"
  shows "registry_kept s s'"
proof -
  have "\<exists>y \<in> set (settled s'). credential_le x y" if "x \<in> set (settled s)" for x
  proof (rule bexI)
    show "credential_le x (if P x then f x else x)" using that assms(2,3) by (auto simp: credential_le_def settled_def)
    show "(if P x then f x else x) \<in> set (settled s')"
      using that assms(2) in_upd [of x "credentials s" P f] by (auto simp: settled_def assms(1) split: if_splits)
  qed
  moreover have "\<exists>y \<in> set (credentials s'). same_token x y" if "x \<in> set (credentials s)" for x
    by (rule bexI [of _ "if P x then f x else x"]) (use that assms(2) in_upd [of x "credentials s" P f] in \<open>auto simp: assms(1)\<close>)
  moreover have "kept_rows readiness_le (device_worker_readiness s) (device_worker_readiness s')"
    by (rule kept_rows_subset) (simp_all add: assms(1))
  ultimately show ?thesis by (simp add: registry_kept_def kept_rows_def) (simp add: assms(1))
qed

lemma registry_kept_refl [simp]: "registry_kept s s"
  by (rule registry_kept_same) simp

lemma registry_kept_activate: "registry_kept s (s\<lparr>credentials := upd (\<lambda>x. P x \<and> cr_Pending x) activate (credentials s)\<rparr>)"
  by (rule registry_kept_credentials [OF refl]) (simp_all add: same_token_def activate_def)

lemma registry_kept_readiness:
  assumes "registry_inv s"
  shows "registry_kept s (snd (PutWorkerReadiness c d r s))"
  unfolding PutWorkerReadiness_def
proof (rule guard_tx_state)
  show "registry_kept s s" by simp
next
  fix x s'
  assume "guard_tx (first_err [validateDeviceIdentity c d, WorkerReadiness_Validate r])
    (PutWorkerReadiness_tx c d r) s = (Inr x, s')"
  then have "PutWorkerReadiness c d r s = (Inr x, s')" by (simp add: PutWorkerReadiness_def)
  then show "registry_kept s s'"
  proof (cases rule: PutWorkerReadiness_cases)
    case same
    then show ?thesis by (simp add: registry_kept_same)
  next
    case (put y)
    note inv = registry_invD(4) [OF assms]
    let ?row = "\<lparr>rd_controller_id = c, rd_device_id = d, rd_readiness = r\<rparr>"
    have later: "readiness_le q ?row" if "q \<in> set (device_worker_readiness s)" "readiness_at c d q" for q
    proof -
      have key: "readiness_key q = (c, d)" using that(2) by (simp add: readiness_at_def readiness_key_def)
      have "sel1 (readiness_at c d) (device_worker_readiness s) = Some q"
        using uniq_sel1 [of readiness_key "device_worker_readiness s" q] inv that(1) key
        by (simp add: readiness_inv_def) (simp add: readiness_at_def [abs_def] readiness_key_def)
      then show ?thesis
        using put(6) key by (auto simp: queryWorkerReadiness_inv [OF inv] readiness_le_def readiness_key_def)
    qed
    have "kept_rows readiness_le (device_worker_readiness s) (device_worker_readiness s')"
      unfolding put(2) upsert_readiness_def Let_def
      by (auto intro: kept_rows_subset kept_rows_upd later)
    then show ?thesis by (intro registry_kept_enrolled) (simp_all add: put(2))
  qed
qed

lemma registry_kept_delete: "registry_kept s (snd (DeletePendingCredential c d mac s))"
proof -
  let ?s = "snd (DeletePendingCredential c d mac s)"
  have rows: "x \<in> set (credentials ?s) \<or> cr_Pending x \<and> cr_ControllerID x = c \<and> cr_DeviceID x = d \<and> cr_MAC x = mac"
    if "x \<in> set (credentials s)" for x
    using that by (auto simp: DeletePendingCredential_def Let_def credential_at_def split: option.split)
  then have "set (settled s) \<subseteq> set (settled ?s)" by (auto simp: settled_def)
  moreover have "device_worker_readiness ?s = device_worker_readiness s" "broker_metadata ?s = broker_metadata s"
    by (simp_all add: DeletePendingCredential_def Let_def split: option.split)
  moreover have "(\<exists>y \<in> set (credentials ?s). same_token x y) \<or> cr_Pending x
      \<and> ?s = snd (DeletePendingCredential (cr_ControllerID x) (cr_DeviceID x) (cr_MAC x) s)" if "x \<in> set (credentials s)" for x
    using rows [OF that] row_le_refl(6) by blast
  ultimately show ?thesis unfolding registry_kept_def by (simp add: kept_rows_subset)
qed

lemma registry_kept_epoch: "registry_kept s (snd (BeginBrokerEpoch c k s))"
proof -
  define t where "t = snd (bindBrokerHostKind k s)"
  have t: "credentials t = credentials s \<and> device_worker_readiness t = device_worker_readiness s
      \<and> (broker_metadata s \<noteq> None \<longrightarrow> broker_metadata t = broker_metadata s)"
    unfolding t_def by (rule bindBrokerHostKind_state [of k s]) simp_all
  have "snd (BeginBrokerEpoch c k s) \<in> {s, t, snd (markMatchingDevicesOffline c dev_Online t)}"
    by (auto simp: BeginBrokerEpoch_def t_def split: option.split prod.split sum.split)
  then have "enrolled (snd (BeginBrokerEpoch c k s)) \<in> {enrolled s, enrolled t}"
    using mark_offline_enrolled [of c dev_Online t] by auto
  then show ?thesis using t by (intro registry_kept_enrolled) (auto simp: enrolled_def kept_rows_subset)
qed

lemma registry_kept_disable:
  assumes "registry_inv s"
  shows "registry_kept s (snd (DisableCredential c d s))"
  unfolding DisableCredential_def
proof (rule guard_tx_state)
  show "registry_kept s s" by simp
next
  fix x s'
  assume "guard_tx (validateCredentialIdentity c d) (DisableCredential_tx c d) s = (Inr x, s')"
  then have "DisableCredential c d s = (Inr x, s')" by (simp add: DisableCredential_def)
  note st = DisableCredential_step [OF registry_invD(2,3) [OF assms] this]
  let ?t = "s\<lparr>credentials := upd (credential_at c d) disable_row (credentials s)\<rparr>"
  have "registry_kept s ?t"
    by (rule registry_kept_credentials [OF refl]) (simp_all add: disable_row_def same_token_def)
  moreover have "\<exists>y \<in> set (credentials s'). same_token x y" if "x \<in> set (credentials s)" for x
    unfolding st(3) disabled_credentials_def
    by (rule bexI [OF _ in_upd [OF that]]) (simp add: disable_row_def same_token_def)
  ultimately show "registry_kept s s'" using st(3-5) by (simp add: registry_kept_def settled_def disabled_credentials_def)
qed

lemma registry_step_kept:
  assumes "registry_step s s'" "registry_inv s"
  shows "registry_kept s s'"
  using assms
proof (induction rule: registry_step.induct)
  case (create s c)
  have "set (credentials s) \<subseteq> set (credentials (snd (CreateCredential c s)))
      \<and> device_worker_readiness (snd (CreateCredential c s)) = device_worker_readiness s
      \<and> broker_metadata (snd (CreateCredential c s)) = broker_metadata s"
    by (auto simp: CreateCredential_def split: option.split)
  then show ?case by (intro registry_kept_enrolled) (simp_all add: kept_rows_subset)
next
  case (activated s c d mac)
  show ?case
    using registry_kept_activate [of s "\<lambda>x. credential_at c d x \<and> cr_MAC x = mac"]
    by (simp add: ActivateCredential_def Let_def split: option.split sum.split)
next
  case (publish s c d mac p)
  show ?case
    using registry_kept_activate [of s "\<lambda>x. credential_at c d x \<and> cr_MAC x = mac \<and> cr_Disabled x"]
    by (simp add: PublishPendingCredential_def Let_def split: option.split sum.split)
next
  case (delete s c d mac)
  show ?case by (rule registry_kept_delete)
next
  case (disable s c d)
  then show ?case by (rule registry_kept_disable)
next
  case (register s m desc t)
  show ?case
    unfolding registerDevice_def by (rule registry_kept_same [OF guard_tx_preserves [OF registry_tx_enrolled(1)]])
next
  case (presence s c d er t off)
  show ?case
    unfolding updateDevicePresence_def by (rule registry_kept_same [OF guard_tx_preserves [OF registry_tx_enrolled(2)]])
next
  case (epoch s c k)
  show ?case by (rule registry_kept_epoch)
next
  case (expire s c t)
  show ?case by (rule registry_kept_same) (simp add: ExpireDevices_def mark_offline_enrolled split: option.split)
next
  case (readiness s c d r)
  then show ?case by (rule registry_kept_readiness)
qed

lemma registry_step_tables:
  assumes "registry_step s s'" "broker_inv s"
  shows "tables_le s s' \<and> drops_justified s s'"
proof -
  note f = but_registryD [OF registry_step_frame [OF assms(1)]] and k = registry_step_kept [OF assms(1) broker_invD(1) [OF assms(2)]]
  have "tables_le s s'"
    using k mailboxes_le_eq [OF f(9,10,11)] by (simp add: registry_kept_def tables_le_def f kept_rows_subset)
  moreover have "drops_justified s s'" using k by (simp add: registry_kept_def drops_justified_def f)
  ultimately show ?thesis ..
qed

section \<open>Trees, counters and cursors\<close>

text \<open>A step that leaves the registry's tables alone, and keeps the rows of the others.\<close>

lemma tables_leI:
  assumes "credentials s' = credentials s" "broker_metadata s' = broker_metadata s"
    "device_worker_readiness s' = device_worker_readiness s" "kept_rows tree_le (trees s) (trees s')"
    "kept_rows cursor_le (peer_worker_sync_cursors s) (peer_worker_sync_cursors s')"
    "kept_rows counter_le (controller_lifetime_counters s) (controller_lifetime_counters s')" "mailboxes_le s s'"
  shows "tables_le s s'"
  using assms by (simp add: tables_le_def settled_def kept_rows_subset)

lemma kept_counters_bump:
  assumes "0 \<le> inc_DispatchesStarted i" "0 \<le> inc_TurnsStarted i" "0 \<le> inc_ResultPackagesDelivered i"
    "0 \<le> inc_ResultPackagesSourceAcknowledged i" "0 \<le> inc_ResultPackagesSourceReleased i"
    "0 \<le> inc_ResultPackageDetailsCompacted i"
  shows "kept_rows counter_le rows (bump_counters c i rows)"
proof -
  have "counter_le r (add_counters i r)" for r using assms by (simp add: counter_le_def add_counters_def)
  then show ?thesis by (auto simp: bump_counters_def intro: kept_rows_subset kept_rows_upd split: option.split)
qed

lemma kept_counters:
  "kept_rows counter_le rows (dispatch_counters k status rows)" "kept_rows counter_le rows (turn_counters r out rows)"
  by (simp_all add: dispatch_counters_def turn_counters_def no_increment_def kept_counters_bump kept_rows_subset)

text \<open>Applying a page changes of a tree only its lifecycle sequence.\<close>

definition tree_bodies :: "BrokerDb \<Rightarrow> TreeRow list" where
  "tree_bodies s = map (\<lambda>r. r\<lparr>t_last_lifecycle_sequence := 0\<rparr>) (trees s)"

lemma tree_bodies_simps [simp]:
  "tree_bodies (s\<lparr>trees := upd P (\<lambda>r. r\<lparr>t_last_lifecycle_sequence := n\<rparr>) (trees s)\<rparr>) = tree_bodies s"
  "tree_bodies (s\<lparr>agent_lifecycle_states := b\<rparr>) = tree_bodies s" "tree_bodies (s\<lparr>peer_worker_sync_cursors := d\<rparr>) = tree_bodies s"
  by (simp_all add: tree_bodies_def upd_def)

lemma lifecycle_tx_bodies [tx_frame]:
  "tx_preserves tree_bodies (nextTreeLifecycleSequence c t)" "tx_preserves tree_bodies (update_lifecycle se w n f)"
  "tx_preserves tree_bodies (advance_cursor se b m)"
  unfolding nextTreeLifecycleSequence_def update_lifecycle_def advance_cursor_def Let_def by (intro tx_frame; simp)+

lemma applyWorkerLifecycleSnapshot_bodies [tx_frame]: "tx_preserves tree_bodies (applyWorkerLifecycleSnapshot se w obs)"
  unfolding applyWorkerLifecycleSnapshot_def Let_def by (intro tx_frame; simp)+

lemma lifecycle_page_bodies: "tx_preserves tree_bodies (ApplyWorkerLifecyclePage_tx q n)"
  unfolding ApplyWorkerLifecyclePage_tx_def Let_def by (intro tx_frame; simp)+

lemma tree_le_bodies:
  assumes inv: "trees_inv s" "trees_inv s'" and eq: "tree_bodies s' = tree_bodies s"
    and high: "\<And>c t. lifecycle_high c t s \<le> lifecycle_high c t s'"
  shows "kept_rows tree_le (trees s) (trees s')"
  unfolding kept_rows_def
proof
  fix x assume x: "x \<in> set (trees s)"
  then have "x\<lparr>t_last_lifecycle_sequence := 0\<rparr> \<in> set (tree_bodies s')" by (simp add: eq) (simp add: tree_bodies_def)
  then obtain y where y: "y \<in> set (trees s')" "x\<lparr>t_last_lifecycle_sequence := 0\<rparr> = y\<lparr>t_last_lifecycle_sequence := 0\<rparr>"
    by (auto simp: tree_bodies_def)
  have key: "tree_key y = tree_key x" and rest: "tree_of y = tree_of x" "t_last_agent_sequence y = t_last_agent_sequence x"
    "t_last_artifact_sequence y = t_last_artifact_sequence x" "t_last_result_sequence y = t_last_result_sequence x"
    using y(2) by (cases x; cases y; simp add: tree_key_def tree_of_def)+
  have "lifecycle_high (fst (tree_key x)) (snd (tree_key x)) s = t_last_lifecycle_sequence x"
    "lifecycle_high (fst (tree_key x)) (snd (tree_key x)) s' = t_last_lifecycle_sequence y"
    using uniq_sel1 [OF trees_invD(2) [OF inv(1)] x] uniq_sel1 [OF trees_invD(2) [OF inv(2)] y(1)] key
    by (simp_all add: lifecycle_high_def tree_at_key)
  then have "tree_le x y" using high [of "fst (tree_key x)" "snd (tree_key x)"] rest by (simp add: tree_le_def)
  then show "\<exists>y \<in> set (trees s'). tree_le x y" using y(1) by blast
qed

section \<open>Mailboxes\<close>

lemma box_last_enqueued:
  "box_last (enqueued p a i m ts s) b =
     (if b = (pi_ControllerID p, pi_TreeID p, a) then box_last s b + 1 else box_last s b)"
proof -
  obtain c' t' a' where b: "b = (c', t', a')" by (cases b)
  define c where "c = pi_ControllerID p"
  define t where "t = pi_TreeID p"
  define n where "n = last_sequence c t a s + 1"
  have boxes: "mailboxes (enqueued p a i m ts s) = upd (mailbox_at c t a) (\<lambda>r. r\<lparr>mb_last_sequence := n\<rparr>) (mailboxes (opened c t a s))"
    by (simp add: enqueued_tables c_def t_def n_def)
  have "sel1 (mailbox_at c' t' a') (mailboxes (enqueued p a i m ts s)) =
      map_option (\<lambda>r. if mailbox_at c t a r then r\<lparr>mb_last_sequence := n\<rparr> else r) (sel1 (mailbox_at c' t' a') (mailboxes (opened c t a s)))"
    unfolding boxes by (rule sel1_upd) (simp add: mailbox_at_def)
  moreover have "sel1 (mailbox_at c' t' a') (mailboxes (opened c t a s)) = sel1 (mailbox_at c' t' a') (mailboxes s)"
    if "(c', t', a') \<noteq> (c, t, a)"
    using that by (auto simp: opened_def sel1_append mailbox_at_def split: option.split)
  moreover have "\<not> mailbox_at c t a r" if "sel1 (mailbox_at c' t' a') (mailboxes s) = Some r" "(c', t', a') \<noteq> (c, t, a)" for r
    using that sel1_SomeD [OF that(1)] by (auto simp: mailbox_at_def)
  ultimately show ?thesis
    by (cases "(c', t', a') = (c, t, a)")
      (auto simp: b box_last_def last_sequence_def [where s = "enqueued p a i m ts s"] last_sequence_def [of c' t' a' s]
         opened_sel1 mailbox_at_def n_def c_def t_def split: option.splits)
qed

lemma enqueued_boxes: "mailbox_key ` set (mailboxes s) \<subseteq> mailbox_key ` set (mailboxes (enqueued p a i m ts s))"
proof -
  have "mailbox_key ` set (upd P (\<lambda>r. r\<lparr>mb_last_sequence := n\<rparr>) rows) = mailbox_key ` set rows" for P n and rows :: "MailboxRow list"
    unfolding set_upd image_image by (rule image_cong) simp_all
  then show ?thesis by (auto simp: enqueued_tables opened_def)
qed

lemma send_kept:
  assumes inv: "mailbox_inv s" "trees_inv s" and run: "SendMailboxMessage source target i m ts s = (Inr d, s')"
  shows "mailboxes_le s s'" "set (mailbox_messages s) \<subseteq> set (mailbox_messages s')"
    "\<And>r. r \<in> set (mailbox_receipts s) \<Longrightarrow> r \<in> set (mailbox_receipts s') \<or> \<not> awaited s r"
proof -
  let ?p = "p_Identity source"
  have "mailboxes_le s s' \<and> set (mailbox_messages s) \<subseteq> set (mailbox_messages s')
      \<and> (\<forall>r \<in> set (mailbox_receipts s). r \<in> set (mailbox_receipts s') \<or> \<not> awaited s r)"
    using inv run
  proof (cases rule: SendMailboxMessage_cases)
    case replay
    then show ?thesis by (simp add: mailboxes_le_eq)
  next
    case (fresh st a q)
    let ?b = "(pi_ControllerID ?p, pi_TreeID ?p, a)"
    note tab = enqueued_tables [of ?p a i m ts s, folded fresh(8)]
    have "box_last s b \<le> box_last s' b" for b by (simp add: fresh(8) box_last_enqueued)
    moreover have "box_last s ?b < last_sequence (pi_ControllerID ?p) (pi_TreeID ?p) a s + 1" by (simp add: box_last_def)
    moreover have "mailbox_key ` set (mailboxes s) \<subseteq> mailbox_key ` set (mailboxes s')"
      unfolding fresh(8) by (rule enqueued_boxes)
    ultimately have "mailboxes_le s s'"
      using pruned_subset [of "pi_ControllerID ?p" "pi_TreeID ?p" a s] unfolding mailboxes_le_def tab(3,4) by auto
    then show ?thesis using prune_facts(3) [OF inv(1) fresh(5)] by (auto simp: tab)
  qed
  then show "mailboxes_le s s'" "set (mailbox_messages s) \<subseteq> set (mailbox_messages s')"
    "\<And>r. r \<in> set (mailbox_receipts s) \<Longrightarrow> r \<in> set (mailbox_receipts s') \<or> \<not> awaited s r" by simp_all
qed

lemma acknowledge_kept: "mailboxes_le s (acknowledge c t a n s)"
proof -
  have last: "box_last (acknowledge c t a n s) b = box_last s b" for b by (rule box_last_cong) simp
  have sub: "m \<in> set (mailbox_messages (acknowledge c t a n s)) \<longleftrightarrow>
      m \<in> set (mailbox_messages s) \<and> \<not> (0 < n \<and> message_box m = (c, t, a) \<and> ms_sequence m \<le> int n)" for m
    by (simp add: acknowledge_def box_keys)
  then show ?thesis unfolding mailboxes_le_def last by (auto simp: sub)
qed

lemma drops_justified_send:
  assumes "credentials s' = credentials s" "set (mailbox_messages s) \<subseteq> set (mailbox_messages s')"
    "\<And>r. r \<in> set (mailbox_receipts s) \<Longrightarrow> r \<in> set (mailbox_receipts s') \<or> \<not> awaited s r"
  shows "drops_justified s s'"
  unfolding drops_justified_def
proof (intro conjI ballI)
  show "(\<exists>y \<in> set (credentials s'). same_token x y) \<or> cr_Pending x
      \<and> s' = snd (DeletePendingCredential (cr_ControllerID x) (cr_DeviceID x) (cr_MAC x) s)" if "x \<in> set (credentials s)" for x
    by (rule disjI1, rule bexI [of _ x]) (use that assms(1) in simp_all)
  show "r \<in> set (mailbox_receipts s') \<or> (\<forall>m \<in> set (mailbox_messages s). ms_message_id m \<noteq> mr_message_id r)"
    if "r \<in> set (mailbox_receipts s)" for r
    using assms(3) [OF that] by (auto simp: awaited_def list_ex_iff)
qed (rule disjI1, use assms(2) in blast)

lemma mailbox_step_tables:
  assumes "but_mailboxes s' = but_mailboxes s" "mailboxes_le s s'"
  shows "tables_le s s'"
  using but_mailboxesD [OF assms(1)] assms(2) by (intro tables_leI) (simp_all add: kept_rows_subset)

lemma send_tables:
  assumes inv: "mailbox_inv s" "trees_inv s" and run: "SendMailboxMessage source target i m ts s = (Inr d, s')"
  shows "tables_le s s' \<and> drops_justified s s'"
proof -
  have "but_mailboxes (snd (SendMailboxMessage source target i m ts s)) = but_mailboxes s"
    unfolding SendMailboxMessage_def by (rule guard_tx_preserves [OF sendMailboxMessageTx_frame])
  then have fr: "but_mailboxes s' = but_mailboxes s" by (simp add: run)
  note k = send_kept [OF inv run]
  show ?thesis
    using mailbox_step_tables [OF fr k(1)] drops_justified_send [OF but_mailboxesD(11) [OF fr] k(2,3)] by blast
qed

lemma read_tables:
  assumes inv: "mailbox_inv s" "trees_inv s" and run: "ReadMailbox recipient cursor limit s = (Inr w, s')"
  shows "tables_le s s' \<and> drops_justified s s'"
proof -
  let ?p = "p_Identity recipient"
  note s' = ReadMailbox_Inr(2) [OF inv run]
  have "tables_le s s'" unfolding s' by (rule mailbox_step_tables [OF _ acknowledge_kept]) simp
  moreover have "drops_justified s s'"
    unfolding drops_justified_def
  proof (intro conjI ballI)
    show "(\<exists>y \<in> set (credentials s'). same_token x y) \<or> cr_Pending x
        \<and> s' = snd (DeletePendingCredential (cr_ControllerID x) (cr_DeviceID x) (cr_MAC x) s)" if "x \<in> set (credentials s)" for x
      by (rule disjI1, rule bexI [of _ x]) (use that in \<open>simp_all add: s' acknowledge_def\<close>)
    show "m \<in> set (mailbox_messages s') \<or> (\<exists>recipient cursor limit. s' = snd (ReadMailbox recipient cursor limit s)
        \<and> message_box m = (pi_ControllerID (p_Identity recipient), pi_TreeID (p_Identity recipient), pi_AgentID (p_Identity recipient))
        \<and> ms_sequence m \<le> int cursor)" if m: "m \<in> set (mailbox_messages s)" for m
    proof (cases "m \<in> set (mailbox_messages s')")
      case False
      then have "message_box m = (pi_ControllerID ?p, pi_TreeID ?p, pi_AgentID ?p)" "ms_sequence m \<le> int cursor"
        using m by (auto simp: s' acknowledge_def box_keys split: if_splits)
      moreover have "s' = snd (ReadMailbox recipient cursor limit s)" by (simp add: run)
      ultimately show ?thesis by blast
    qed simp
  qed (simp add: s')
  ultimately show ?thesis ..
qed

section \<open>Every step\<close>

lemma with_outcome_tables: "tables_le s (with_outcome k r out code t s) \<and> drops_justified s (with_outcome k r out code t s)"
  by (intro conjI tables_leI drops_justified_same mailboxes_le_eq) (simp_all add: with_outcome_def kept_counters kept_rows_subset)

lemma EnsureRootTree_tables:
  assumes "EnsureRootTree r1 r2 c x d t s = (Inr y, s')"
  shows "tables_le s s' \<and> drops_justified s s'"
proof -
  obtain tree p where y: "y = (tree, p)" by (cases y)
  from assms [unfolded y] show ?thesis
  proof (cases rule: EnsureRootTree_cases)
    case created
    then show ?thesis
      by (intro conjI tables_leI drops_justified_same mailboxes_le_eq kept_rows_subset) (auto simp: with_tree_def)
  qed simp
qed

lemma CreateWorkerPrincipal_tables:
  assumes "CreateWorkerPrincipal c t a par d w s = (Inr p, s')"
  shows "tables_le s s' \<and> drops_justified s s'"
  using assms
proof (cases rule: CreateWorkerPrincipal_cases)
  case created
  then show ?thesis by (intro conjI tables_leI drops_justified_same mailboxes_le_eq kept_rows_subset) simp_all
qed simp

lemma workspace_step_tables:
  assumes "workspace_step s s'"
  shows "tables_le s s' \<and> drops_justified s s'"
proof -
  note f = but_workspacesD [OF workspace_step_frame [OF assms]]
  show ?thesis by (intro conjI tables_leI drops_justified_same mailboxes_le_eq kept_rows_subset) (simp_all add: f)
qed

lemma BeginAgentSpawn_tables:
  assumes inv: "broker_inv s" and run: "BeginAgentSpawn i t s = (Inr x, s')"
  shows "tables_le s s' \<and> drops_justified s s'"
  using broker_invD(5) [OF inv] run
proof (cases rule: BeginAgentSpawn_cases)
  case (fresh p d tr)
  note f = with_spawn_frame [of i "t_last_agent_sequence tr" t s, folded fresh(14)]
  have "tree_le r (r\<lparr>t_last_agent_sequence := t_last_agent_sequence tr + 1\<rparr>)"
    if "r \<in> set (trees s)" "tree_at (pi_ControllerID (si_Source i)) (pi_TreeID (si_Source i)) r" for r
  proof -
    have "r = tr"
      using that sel1_SomeD [OF fresh(8)] uniq_same [OF trees_invD(2) [OF broker_invD(9) [OF inv]]] by (auto simp: tree_at_key)
    then show ?thesis by (simp add: tree_le_def tree_of_def)
  qed
  then have "kept_rows tree_le (trees s) (trees s')" unfolding fresh(14) with_spawn_simps by (intro kept_rows_upd) simp_all
  then show ?thesis by (intro conjI tables_leI drops_justified_same mailboxes_le_eq) (simp_all add: f kept_rows_subset)
qed simp

lemma finishAgentSpawn_tables:
  assumes inv: "broker_inv s" and run: "finishAgentSpawn k status code t s = (Inr x, s')"
  shows "tables_le s s' \<and> drops_justified s s'"
  using broker_invD(5) [OF inv] run
proof (cases rule: finishAgentSpawn_cases)
  case (finished r)
  then show ?thesis
    by (intro conjI tables_leI drops_justified_same mailboxes_le_eq)
      (simp_all add: with_finished_def kept_counters kept_rows_subset)
qed simp

lemma BeginAgentOperation_tables:
  assumes inv: "broker_inv s" and run: "BeginAgentOperation i t s = (Inr x, s')"
  shows "tables_le s s' \<and> drops_justified s s'"
  using broker_invD(2) [OF inv] run
proof (cases rule: BeginAgentOperation_cases)
  case (fresh r)
  then show ?thesis by (intro conjI tables_leI drops_justified_same mailboxes_le_eq) (simp_all add: kept_rows_subset)
qed simp

lemma FinishAgentOperation_tables:
  assumes inv: "broker_inv s" and run: "FinishAgentOperation k out code t s = (Inr x, s')"
  shows "tables_le s s' \<and> drops_justified s s'"
  using broker_invD(2) [OF inv] run
  by (cases rule: FinishAgentOperation_cases) (simp_all add: with_outcome_tables)

lemma Queue_tables:
  assumes inv: "broker_inv s" and run: "QueueAgentMessageAndFinishOperation k m t s = (Inr (x, d), s')"
  shows "tables_le s s' \<and> drops_justified s s'"
  using broker_invD(2) [OF inv] run
proof (cases rule: Queue_cases)
  case (delivered r p s1)
  note i = broker_invD(7,9) [OF inv]
  note k = send_kept [OF i delivered(8)] and one = send_tables [OF i delivered(8)]
  have fr: "credentials s1 = credentials s"
    using but_mailboxesD(11) [OF operation_ok_send(2) [OF broker_invD(2) [OF inv] delivered(8)]] .
  have "tables_le s s'"
    unfolding delivered(10) using tables_le_trans [OF i(1)] one with_outcome_tables by blast
  moreover have "drops_justified s s'"
    unfolding delivered(10) by (rule drops_justified_send) (use k(2,3) fr in \<open>auto simp: with_outcome_def\<close>)
  ultimately show ?thesis ..
qed simp

lemma Claim_tables:
  assumes inv: "broker_inv s" and run: "ClaimWorkerLifecycleSession cl s = (Inr n, s')"
  shows "tables_le s s' \<and> drops_justified s s'"
proof -
  note s' = Claim_cases(4) [OF broker_invD(3) [OF inv] run]
  have "kept_rows cursor_le (peer_worker_sync_cursors s) (peer_worker_sync_cursors s')"
    unfolding s' upsert_cursor_rows
    by (auto simp: cursor_le_def intro!: kept_rows_subset kept_rows_upd split: option.split)
  then show ?thesis
    by (intro conjI tables_leI drops_justified_same mailboxes_le_eq) (simp_all add: s' upsert_cursor_def kept_rows_subset)
qed

lemma snapshots_cursors [tx_frame]:
  "tx_preserves peer_worker_sync_cursors (nextTreeLifecycleSequence c t)"
  "tx_preserves peer_worker_sync_cursors (update_lifecycle se w n f)"
  unfolding nextTreeLifecycleSequence_def update_lifecycle_def Let_def by (intro tx_frame; simp)+

lemma applyWorkerLifecycleSnapshot_cursors [tx_frame]: "tx_preserves peer_worker_sync_cursors (applyWorkerLifecycleSnapshot se w obs)"
  unfolding applyWorkerLifecycleSnapshot_def Let_def by (intro tx_frame; simp)+

lemma Apply_tables:
  assumes inv: "broker_inv s" and run: "ApplyWorkerLifecyclePage q s = (Inr n, s')"
  shows "tables_le s s' \<and> drops_justified s s'"
proof -
  note i = broker_invD [OF inv] and ok = Apply_ok [OF broker_invD(5,3) [OF inv] run]
  let ?se = "pa_Session q" and ?base = "sl_BaseRevision (pa_Page q)"
  have "but_lifecycle (snd (ApplyWorkerLifecyclePage q s)) = but_lifecycle s"
    "tree_bodies (snd (ApplyWorkerLifecyclePage q s)) = tree_bodies s"
    using guard_tx_preserves [OF lifecycle_page_frame(1)] guard_tx_preserves [OF lifecycle_page_bodies]
    by (simp_all add: ApplyWorkerLifecyclePage_def split: option.split sum.split)
  then have fr: "but_lifecycle s' = but_lifecycle s" and body: "tree_bodies s' = tree_bodies s" by (simp_all add: run)
  note f = but_lifecycleD [OF fr]
  have trees: "kept_rows tree_le (trees s) (trees s')"
    by (rule tree_le_bodies [OF i(9) _ body]) (use ok(1,3) in \<open>simp_all add: spawn_ok_def lifecycle_grows_def\<close>)
  obtain s1 u where ap: "AppliedRevision (pa_Page q) = Inr n" "queryWorkerLifecycleCursor ?se s = Inr ?base"
    "tx_each (\<lambda>w. applyWorkerLifecycleSnapshot ?se w (pa_ObservedAt q)) (sl_Workers (pa_Page q)) s = Inr (u, s1)"
    "advance_cursor ?se ?base n s1 = Inr ((), s')"
    using Apply_cases [OF run] by metis
  have "tx_preserves peer_worker_sync_cursors (tx_each (\<lambda>w. applyWorkerLifecycleSnapshot ?se w (pa_ObservedAt q)) (sl_Workers (pa_Page q)))"
    by (intro tx_frame)
  then have cu1: "peer_worker_sync_cursors s1 = peer_worker_sync_cursors s" using ap(3) by (auto simp: tx_preserves_def)
  have cs: "cursors_inv s" by (rule lifecycle_invD(2) [OF i(3)])
  then have "cursors_inv s1" "queryWorkerLifecycleCursor ?se s1 = Inr ?base"
    using ap(2) cu1 by (simp_all add: cursors_inv_def queryWorkerLifecycleCursor_def)
  note s' = advance_cursor_Inr [OF this ap(4)]
  obtain r where r: "sel1 (cursor_at ?se) (peer_worker_sync_cursors s) = Some r" "cu_applied_revision r = int ?base"
    using ap(2) by (auto simp: queryWorkerLifecycleCursor_Inr [OF cs])
  have "cursor_le x (x\<lparr>cu_applied_revision := int n\<rparr>)" if "x \<in> set (peer_worker_sync_cursors s)" "cursor_at ?se x" for x
  proof -
    have "x = r" using that sel1_SomeD [OF r(1)] uniq_same [OF cursors_invD(1) [OF cs]] by (auto simp: cursor_at_key)
    then show ?thesis using AppliedRevision_Inr(1) [OF ap(1)] r(2) by (simp add: cursor_le_def)
  qed
  then have "kept_rows cursor_le (peer_worker_sync_cursors s) (peer_worker_sync_cursors s')"
    unfolding s' by (simp add: cu1) (intro kept_rows_upd, simp_all)
  then show ?thesis
    using trees by (intro conjI tables_leI drops_justified_same mailboxes_le_eq) (simp_all add: f kept_rows_subset)
qed

lemma step_tables:
  assumes "rolls_back f" "\<And>x s'. f s = (Inr x, s') \<Longrightarrow> tables_le s s' \<and> drops_justified s s'"
  shows "tables_le s (snd (f s)) \<and> drops_justified s (snd (f s))"
  by (rule step_state [where P = "\<lambda>t. tables_le s t \<and> drops_justified s t", OF assms(1)]) (simp_all add: assms(2))

lemma broker_step_tables:
  assumes "broker_step s s'" "broker_inv s"
  shows "tables_le s s' \<and> drops_justified s s'"
  using assms
proof (induction rule: broker_step.induct)
  case (registry s s')
  then show ?case by (rule registry_step_tables)
next
  case (ensure_tree r1 r2 s c x d t)
  show ?case
    by (rule step_tables [OF EnsureRootTree_rolls_back])
      (simp_all add: EnsureRootTree_tables)
next
  case (create_worker s c t a par d w)
  show ?case
    by (rule step_tables [OF tx_rolls_back(1)])
      (simp_all add: CreateWorkerPrincipal_tables)
next
  case (send s source target i m ts)
  have "rolls_back (SendMailboxMessage source target i m ts)" unfolding SendMailboxMessage_def by (rule guard_rolls_back)
  then show ?case
    by (rule step_tables)
      (simp_all add: send_tables [OF broker_invD(7,9) [OF send]])
next
  case (read s recipient cursor limit)
  have "rolls_back (ReadMailbox recipient cursor limit)" unfolding ReadMailbox_def by (rule guard_rolls_back)
  then show ?case
    by (rule step_tables)
      (simp_all add: read_tables [OF broker_invD(7,9) [OF read]])
next
  case (workspace s s')
  then show ?case by (intro workspace_step_tables)
next
  case (begin_spawn s si ts)
  show ?case
    by (rule step_tables [OF tx_rolls_back(2)])
      (simp_all add: BeginAgentSpawn_tables [OF begin_spawn])
next
  case (finish_spawn s sk st code ts)
  show ?case
    by (rule step_tables [OF tx_rolls_back(3)])
      (simp_all add: finishAgentSpawn_tables [OF finish_spawn])
next
  case (begin_operation s oi ts)
  show ?case
    by (rule step_tables [OF tx_rolls_back(4)])
      (simp_all add: BeginAgentOperation_tables [OF begin_operation])
next
  case (finish_operation s opk out code ts)
  show ?case
    by (rule step_tables [OF tx_rolls_back(5)])
      (simp_all add: FinishAgentOperation_tables [OF finish_operation])
next
  case (queue s opk m ts)
  show ?case
    by (rule step_tables [OF tx_rolls_back(6)])
      (use Queue_tables [OF queue] in \<open>auto split: prod.splits\<close>)
next
  case (claim s cl)
  show ?case
    by (rule step_tables [OF tx_rolls_back(7)])
      (simp_all add: Claim_tables [OF claim])
next
  case (apply_page s q)
  show ?case
    by (rule step_tables [OF Apply_rolls_back])
      (simp_all add: Apply_tables [OF apply_page])
qed

lemma broker_steps_tables: "broker_step\<^sup>*\<^sup>* s s' \<Longrightarrow> broker_inv s \<Longrightarrow> tables_le s s'"
proof (induction rule: rtranclp_induct)
  case (step s1 s2)
  have inv: "broker_inv s1" using broker_steps_ok [OF step(1,4)] by (simp add: broker_ok_def)
  have "tables_le s s1" "tables_le s1 s2" using step(3) [OF step(4)] broker_step_tables [OF step(2) inv] by blast+
  then show ?case by (rule tables_le_trans [OF broker_invD(7) [OF step(4)]])
qed simp

end
