(* ===== verification/Registry_Props.thy ===== *)
theory Registry_Props
  imports Registry_Inv
begin

text \<open>
  What the registry promises its callers: the invariant of every reachable state, registration and
  lookup, fencing by revision, broker epochs and expiry, revocation, complete device pages and
  newest-wins readiness. Each property has a concrete instance below it.
\<close>

section \<open>A concrete registry\<close>

definition peer_descriptor :: "string \<Rightarrow> DeviceDescriptor" where
  "peer_descriptor d =
     \<lparr>dd_ControllerID = uid CHR ''a'', dd_DeviceID = d, dd_Name = ''peer'', dd_OS = ''linux'',
      dd_Arch = ''amd64'', dd_RuntimeVersion = ''1.0'', dd_ProtocolVersion = 7,
      dd_Features = [''mailboxV1'', ''peerRootV1'']\<rparr>"

lemma bounded_texts [simp]:
  "validateBoundedText n ''peer'' 128 = None" "validateBoundedText n ''linux'' 32 = None"
  "validateBoundedText n ''amd64'' 32 = None" "validateBoundedText n ''1.0'' 64 = None"
proof -
  have "printable ''peer''" "printable ''linux''" "printable ''amd64''" "printable ''1.0''"
    by (simp_all add: printable_def byte_def)
  then show "validateBoundedText n ''peer'' 128 = None" "validateBoundedText n ''linux'' 32 = None"
    "validateBoundedText n ''amd64'' 32 = None" "validateBoundedText n ''1.0'' 64 = None"
    by (simp_all add: validateBoundedText_def printable_text)
qed

lemma peer_features [simp]: "validate_features [''mailboxV1'', ''peerRootV1''] = None"
  by (simp add: validate_features_None featurePattern_def lower_def upper_def digit_def byte_def
      less_list_code less_char_def)

lemma peer_descriptor_valid: "ValidateID d = None \<Longrightarrow> DeviceDescriptor_Validate (peer_descriptor d) = None"
  by (simp add: DeviceDescriptor_Validate_def peer_descriptor_def)

definition one_peer :: BrokerDb where
  "one_peer = snd (RegisterTrustedDevice (peer_descriptor (uid CHR ''d'')) 5 schemaCurrent)"

lemma empty_registry [simp]: "registry_revision c schemaCurrent = 0"
  by (simp add: registry_revision_def)

lemma nextControllerRevision_empty:
  "nextControllerRevision c schemaCurrent =
     Inr (1, schemaCurrent\<lparr>controller_registries := [\<lparr>reg_controller_id = c, reg_revision = 1\<rparr>]\<rparr>)"
  using nextControllerRevision_eq [OF registry_invD(1) [OF registry_inv_empty], of c]
  by (simp add: MaxInt64_def next_regs_def init_registry_def)

lemma RegisterTrustedDevice_empty:
  "RegisterTrustedDevice (peer_descriptor (uid CHR ''d'')) 5 schemaCurrent =
     (Inr (deviceFromDescriptor (peer_descriptor (uid CHR ''d'')) 5 1),
      schemaCurrent\<lparr>controller_registries := [\<lparr>reg_controller_id = uid CHR ''a'', reg_revision = 1\<rparr>],
        devices := [deviceFromDescriptor (peer_descriptor (uid CHR ''d'')) 5 1]\<rparr>)"
proof -
  have "dd_ControllerID (peer_descriptor d) = uid CHR ''a''" for d
    by (simp add: peer_descriptor_def)
  moreover have "device_checks (deviceFromDescriptor (peer_descriptor (uid CHR ''d'')) 5 1)"
    by (simp add: device_checks_def deviceFromDescriptor_def peer_descriptor_def)
  ultimately show ?thesis
    by (simp add: RegisterTrustedDevice_def registerDevice_def registerDevice_tx_def authorize_mac_def
        nextControllerRevision_empty peer_descriptor_valid upsert_device_def Let_def tx_defs)
qed

lemma one_peer_eq:
  "one_peer = schemaCurrent\<lparr>controller_registries := [\<lparr>reg_controller_id = uid CHR ''a'', reg_revision = 1\<rparr>],
     devices := [deviceFromDescriptor (peer_descriptor (uid CHR ''d'')) 5 1]\<rparr>"
  by (simp add: one_peer_def RegisterTrustedDevice_empty)

lemma peer_descriptor_ids [simp]:
  "dd_ControllerID (peer_descriptor d) = uid CHR ''a''" "dd_DeviceID (peer_descriptor d) = d"
  by (simp_all add: peer_descriptor_def)

lemma one_peer_devices: "devices one_peer = [deviceFromDescriptor (peer_descriptor (uid CHR ''d'')) 5 1]"
  by (simp add: one_peer_eq)

lemma one_peer_step: "registry_step\<^sup>*\<^sup>* schemaCurrent one_peer"
  using register [of schemaCurrent None "peer_descriptor (uid CHR ''d'')" 5]
  by (simp add: one_peer_def RegisterTrustedDevice_def r_into_rtranclp)

lemma one_peer_inv: "registry_inv one_peer"
  using registry_steps_ok [OF one_peer_step registry_inv_empty] by (simp add: registry_ok_def)

lemma one_peer_revision [simp]: "registry_revision (uid CHR ''a'') one_peer = 1"
  by (simp add: one_peer_eq registry_revision_def)

section \<open>The invariant\<close>

text \<open>
  C5. In every state the registry can reach from the empty database, by any sequence of its ten
  operations with any arguments, the tables are well formed: keys and MACs unique, every row valid,
  no device ahead of its controller's revision, readiness only for registered devices. From there
  on no operation lowers a controller's revision, and one that leaves it unchanged leaves that
  controller's devices unchanged but for the time they were last seen, which is what lets a page
  cursor name a revision.
\<close>

theorem registry_reachable:
  assumes "registry_step\<^sup>*\<^sup>* schemaCurrent s" "registry_step\<^sup>*\<^sup>* s s'"
  shows "registry_inv s' \<and> registry_le s s'"
proof -
  have "registry_inv s"
    using registry_steps_ok [OF assms(1) registry_inv_empty] by (simp add: registry_ok_def)
  then show ?thesis
    using registry_steps_ok [OF assms(2)] by (simp add: registry_ok_def)
qed

theorem registry_reachable_witness:
  "registry_inv (snd (MarkDeviceOffline (uid CHR ''a'') (uid CHR ''d'') 1 9 one_peer))
   \<and> registry_le one_peer (snd (MarkDeviceOffline (uid CHR ''a'') (uid CHR ''d'') 1 9 one_peer))
   \<and> length (devices one_peer) = 1"
proof -
  have "registry_step\<^sup>*\<^sup>* one_peer (snd (MarkDeviceOffline (uid CHR ''a'') (uid CHR ''d'') 1 9 one_peer))"
    unfolding MarkDeviceOffline_def by (rule r_into_rtranclp, rule presence)
  then show ?thesis
    using registry_reachable [OF one_peer_step] by (simp add: one_peer_eq)
qed

section \<open>Registration and fencing\<close>

lemma upsert_device_lookup:
  "sel1 (device_at (dev_ControllerID d) (dev_DeviceID d)) (devices (upsert_device d s)) = Some d"
proof -
  have at: "device_at (dev_ControllerID d) (dev_DeviceID d) d" by (simp add: device_at_def)
  show ?thesis
    by (cases "sel1 (device_at (dev_ControllerID d) (dev_DeviceID d)) (devices s)")
      (simp_all add: upsert_device_def at sel1_upd_same)
qed

lemma controllerRevision_inv:
  assumes "regs_inv s"
  shows "controllerRevision c s = Inr (nat (registry_revision c s))"
proof (cases "sel1 (registry_at c) (controller_registries s)")
  case (Some r)
  then have "0 \<le> reg_revision r" "reg_revision r \<le> MaxInt64"
    using registry_revision_bounds [OF assms, of c] by (simp_all add: registry_revision_alt)
  then show ?thesis
    using Some by (simp add: controllerRevision_def registry_revision_alt uint64_of_int64_nat)
qed (simp add: controllerRevision_def registry_revision_alt)

lemma registered_query:
  assumes inv: "registry_inv s" and reg: "registerDevice m desc t s = (Inr d, s')"
  shows "registry_inv s'" "queryDevice (dd_ControllerID desc) (dd_DeviceID desc) s' = Inr d"
    "int (dev_Revision d) = registry_revision (dd_ControllerID desc) s + 1"
    "registry_revision (dd_ControllerID desc) s' = int (dev_Revision d)"
    "DeviceDescriptor_Validate desc = None"
proof -
  show inv': "registry_inv s'"
    using registerDevice_ok [OF inv, of m desc t] reg by (simp add: registry_ok_def)
  note st = registerDevice_step [OF registry_invD(2) [OF inv] reg]
  have d: "d = deviceFromDescriptor desc t (nat (registry_revision (dd_ControllerID desc) s + 1))"
    by (rule st(2))
  have ids: "dev_ControllerID d = dd_ControllerID desc" "dev_DeviceID d = dd_DeviceID desc"
    by (simp_all add: d)
  show "queryDevice (dd_ControllerID desc) (dd_DeviceID desc) s' = Inr d"
    using upsert_device_lookup [of d s] st(3) ids by (simp add: queryDevice_inv [OF registry_invD(2) [OF inv']])
  show rev: "int (dev_Revision d) = registry_revision (dd_ControllerID desc) s + 1"
    using registry_revision_bounds [OF registry_invD(1) [OF inv], of "dd_ControllerID desc"] by (simp add: d)
  obtain n s1 where nxt: "nextControllerRevision (dd_ControllerID desc) s = Inr (n, s1)" "s' = upsert_device d s1"
    using reg by (auto simp: registerDevice_def registerDevice_tx_def Let_def)
  show "registry_revision (dd_ControllerID desc) s' = int (dev_Revision d)"
    using nextControllerRevision_Inr [OF registry_invD(1) [OF inv] nxt(1)] nxt(2) rev
    by (simp add: upsert_device_def Let_def)
  show "DeviceDescriptor_Validate desc = None"
    using reg by (simp add: registerDevice_def)
qed

text \<open>
  C6. A registration takes the next revision of its controller and is what a lookup then returns,
  with the registry revision equal to the device's: the stored device is online and its descriptor
  is the one that was sent, features included.
\<close>

theorem register_describe:
  assumes "registry_inv s" "registerDevice m desc t s = (Inr d, s')"
  shows "DescribeDevice (dd_ControllerID desc) (dd_DeviceID desc) s' = Inr (dev_Revision d, d)
    \<and> Device_Descriptor d = desc \<and> dev_Online d
    \<and> int (dev_Revision d) = registry_revision (dd_ControllerID desc) s + 1"
proof -
  note q = registered_query [OF assms]
  have "d = deviceFromDescriptor desc t (nat (registry_revision (dd_ControllerID desc) s + 1))"
    by (rule registerDevice_step(2) [OF registry_invD(2) [OF assms(1)] assms(2)])
  then have "Device_Descriptor d = desc" "dev_Online d"
    by (cases desc, simp add: Device_Descriptor_def deviceFromDescriptor_def)+
  moreover have "validateDeviceIdentity (dd_ControllerID desc) (dd_DeviceID desc) = None"
    using q(5) by (simp add: validateDeviceIdentity_def DeviceDescriptor_Validate_def)
  ultimately show ?thesis
    using q controllerRevision_inv [OF registry_invD(1) [OF q(1)]] by (simp add: DescribeDevice_def)
qed

theorem register_describe_witness:
  "DescribeDevice (uid CHR ''a'') (uid CHR ''d'') one_peer =
     Inr (1, deviceFromDescriptor (peer_descriptor (uid CHR ''d'')) 5 1)"
proof -
  have "registerDevice None (peer_descriptor (uid CHR ''d'')) 5 schemaCurrent =
      (Inr (deviceFromDescriptor (peer_descriptor (uid CHR ''d'')) 5 1), one_peer)"
    using RegisterTrustedDevice_empty by (simp add: RegisterTrustedDevice_def one_peer_eq)
  from register_describe [OF registry_inv_empty this] show ?thesis
    by (simp add: peer_descriptor_def)
qed

text \<open>
  C7. A device that registers again fences its earlier sessions: a heartbeat or an offline mark that
  carries any other revision than the new one is answered with the stale-revision error and leaves
  the database as it was.
\<close>

theorem stale_revision_fenced:
  assumes "registry_inv s" "registerDevice m desc t s = (Inr d, s')"
    and "er \<noteq> dev_Revision d" "0 < er" "0 \<le> t'"
  shows "updateDevicePresence (dd_ControllerID desc) (dd_DeviceID desc) er t' off s' =
    (Inl (Sentinel ErrStaleRevision), s')"
proof -
  note q = registered_query [OF assms(1,2)]
  have "validateDeviceIdentity (dd_ControllerID desc) (dd_DeviceID desc) = None"
    using q(5) by (simp add: validateDeviceIdentity_def DeviceDescriptor_Validate_def)
  then show ?thesis
    using assms(3-5) q(2)
    by (simp add: updateDevicePresence_def updateDevicePresence_tx_def tx_bind_query tx_fail_def)
qed

theorem stale_revision_fenced_witness:
  "HeartbeatDevice (uid CHR ''a'') (uid CHR ''d'') 9 7 one_peer = (Inl (Sentinel ErrStaleRevision), one_peer)"
proof -
  have "registerDevice None (peer_descriptor (uid CHR ''d'')) 5 schemaCurrent =
      (Inr (deviceFromDescriptor (peer_descriptor (uid CHR ''d'')) 5 1), one_peer)"
    using RegisterTrustedDevice_empty by (simp add: RegisterTrustedDevice_def one_peer_eq)
  from stale_revision_fenced [OF registry_inv_empty this, of 9 7 False] show ?thesis
    by (simp add: HeartbeatDevice_def peer_descriptor_def)
qed

section \<open>Epochs, expiry and revocation\<close>

text \<open>
  C8. A broker that begins its epoch finds every device of its controller offline: whatever presence
  an earlier broker left behind is cleared under one new revision, devices that were offline keep
  their rows, and the state stays bound to the broker's host kind.
\<close>

theorem broker_epoch_clears_presence:
  assumes "registry_inv s" "BeginBrokerEpoch c k s = (Inr p, s')"
  shows "(\<forall>d \<in> set (devices s'). dev_ControllerID d = c \<longrightarrow> \<not> dev_Online d)
    \<and> devices s' = upd (\<lambda>d. dev_ControllerID d = c \<and> dev_Online d) (set_offline (pt_Revision p)) (devices s)
    \<and> broker_metadata s' = Some k"
proof -
  define t where "t = snd (bindBrokerHostKind k s)"
  have bound: "fst (bindBrokerHostKind k s) = Inr ()" and m: "markMatchingDevicesOffline c dev_Online t = (Inr p, s')"
    using assms(2) by (auto simp: BeginBrokerEpoch_def t_def split: option.splits prod.splits sum.splits)
  have "registry_inv t \<and> devices t = devices s"
    unfolding t_def
    by (rule bindBrokerHostKind_state [of k s])
      (use assms(1) in \<open>simp_all add: registry_inv_def credentials_inv_def readiness_inv_def\<close>)
  then have t: "registry_inv t" "devices t = devices s" by simp_all
  have kind: "broker_metadata t = Some k"
    using bound unfolding t_def
    by (auto simp: bindBrokerHostKind_def go_defs verifyBrokerHostKind_def split: sum.splits option.splits if_splits)
  have "broker_metadata s' = broker_metadata t"
    using m
  proof (cases rule: markMatching_cases)
    case (some n s1)
    then show ?thesis
      using nextControllerRevision_devices [OF registry_invD(1) [OF t(1)] some(1)] by simp
  qed simp
  moreover note dv = markMatching_devices(1) [OF registry_invD(2) [OF t(1)] m, unfolded t(2)]
  moreover have "\<not> dev_Online d" if "d \<in> set (devices s')" "dev_ControllerID d = c" for d
  proof -
    have "d \<in> set (upd (\<lambda>d. dev_ControllerID d = c \<and> dev_Online d) (set_offline (pt_Revision p)) (devices s))"
      using that(1) dv by simp
    then show ?thesis using that(2) by (cases rule: in_upd_cases) auto
  qed
  ultimately show ?thesis using kind by metis
qed

theorem broker_epoch_clears_presence_witness:
  "\<exists>p s'. BeginBrokerEpoch (uid CHR ''a'') Codex one_peer = (Inr p, s')
     \<and> (\<forall>d \<in> set (devices s'). \<not> dev_Online d) \<and> broker_metadata s' = Some Codex \<and> pt_Revision p = 2"
proof -
  define t where "t = one_peer\<lparr>broker_metadata := Some Codex\<rparr>"
  have t: "registry_inv t" "regs_inv t"
    using one_peer_inv by (simp_all add: t_def registry_inv_def credentials_inv_def readiness_inv_def
        HostKind_Validate_def devices_inv_def)
  have dev: "devices t = [deviceFromDescriptor (peer_descriptor (uid CHR ''d'')) 5 1]"
    by (simp add: t_def one_peer_devices)
  have "registry_revision (uid CHR ''a'') t = 1" by (simp add: t_def)
  then have nxt: "nextControllerRevision (uid CHR ''a'') t =
      Inr (2, t\<lparr>controller_registries := next_regs (uid CHR ''a'') t\<rparr>)"
    using nextControllerRevision_eq [OF t(2), of "uid CHR ''a''"] by (simp add: MaxInt64_def)
  have "bindBrokerHostKind Codex one_peer = (Inr (), t)"
    by (simp add: bindBrokerHostKind_def go_defs t_def one_peer_eq verifyBrokerHostKind_def HostKind_Validate_def)
  moreover have "\<exists>s'. markMatchingDevicesOffline (uid CHR ''a'') dev_Online t =
      (Inr \<lparr>pt_Revision = 2, pt_Count = 1\<rparr>, s')"
    by (simp add: markMatchingDevicesOffline_def markMatchingDevicesOffline_tx_def tx_defs Let_def
        affected_def dev nxt)
  ultimately obtain s' where ep: "BeginBrokerEpoch (uid CHR ''a'') Codex one_peer =
      (Inr \<lparr>pt_Revision = 2, pt_Count = 1\<rparr>, s')"
    by (auto simp: BeginBrokerEpoch_def first_err.simps HostKind_Validate_def)
  from broker_epoch_clears_presence [OF one_peer_inv ep]
  have "\<forall>d \<in> set (devices s'). \<not> dev_Online d" "broker_metadata s' = Some Codex"
    by (simp_all add: one_peer_devices)
  then show ?thesis using ep by simp
qed

text \<open>
  C9. Expiry is exact: the devices of the controller that were online and last seen at or before
  the cutoff go offline under one revision, the count reported is their number, and every other row
  is untouched.
\<close>

theorem expire_exact:
  assumes "registry_inv s" "ExpireDevices c cutoff s = (Inr p, s')"
  shows "devices s' = upd (\<lambda>d. dev_ControllerID d = c \<and> dev_Online d \<and> dev_LastSeenAt d \<le> cutoff)
      (set_offline (pt_Revision p)) (devices s)
    \<and> pt_Count p = int (affected (\<lambda>d. dev_ControllerID d = c \<and> dev_Online d \<and> dev_LastSeenAt d \<le> cutoff) (devices s))"
proof -
  have "markMatchingDevicesOffline c (\<lambda>d. dev_Online d \<and> dev_LastSeenAt d \<le> cutoff) s = (Inr p, s')"
    using assms(2) by (simp add: ExpireDevices_def split: option.splits)
  then show ?thesis
    using markMatching_devices [OF registry_invD(2) [OF assms(1)]] by simp
qed

theorem expire_exact_witness:
  "\<exists>p s'. ExpireDevices (uid CHR ''a'') 4 one_peer = (Inr p, s') \<and> pt_Count p = 0 \<and> devices s' = devices one_peer"
proof -
  have "ExpireDevices (uid CHR ''a'') 4 one_peer = (Inr \<lparr>pt_Revision = 1, pt_Count = 0\<rparr>, one_peer)"
    using controllerRevision_inv [OF registry_invD(1) [OF one_peer_inv], of "uid CHR ''a''"]
    by (simp add: ExpireDevices_def unixTime_def fail_if_def markMatchingDevicesOffline_def
        markMatchingDevicesOffline_tx_def tx_defs Let_def affected_def one_peer_devices)
  from expire_exact [OF one_peer_inv this] this show ?thesis
    by (simp add: one_peer_devices)
qed

text \<open>
  C10. Revocation is complete: once a credential is disabled, no token authenticates it again, a
  registration with its MAC is refused, and the device it belonged to is offline.
\<close>

theorem disable_revokes:
  assumes "registry_inv s" "DisableCredential c d s = (Inr u, s')"
    and "x \<in> set (credentials s)" "cr_ControllerID x = c" "cr_DeviceID x = d"
  shows "AuthenticateCredential (cr_MAC x) s' = Inl (Sentinel ErrCredentialDisabled)
    \<and> (DeviceDescriptor_Validate desc = None \<and> 0 \<le> t \<longrightarrow>
        registerDevice (Some (cr_MAC x)) desc t s' = (Inl (Sentinel ErrCredentialDisabled), s'))
    \<and> (\<forall>y. sel1 (device_at c d) (devices s') = Some y \<longrightarrow> \<not> dev_Online y)"
proof -
  note st = DisableCredential_step [OF registry_invD(2,3) [OF assms(1)] assms(2)]
  have "credential_at c d x" using assms(4,5) by (simp add: credential_at_def)
  then have mem: "disable_row x \<in> set (credentials s')"
    using assms(3) by (auto simp: st(3) disabled_credentials_def set_upd)
  have mac: "cr_MAC (disable_row x) = cr_MAC x" by (simp add: disable_row_def)
  have "uniq cr_MAC (credentials s')" using st(2) by (simp add: credentials_inv_def)
  from uniq_sel1 [OF this mem]
  have "queryCredentialByMAC (cr_MAC x) s' = Inr (disable_row x)"
    by (simp add: queryCredentialByMAC_inv [OF st(2)] mac)
  then show ?thesis
    using st(6)
    by (simp add: AuthenticateCredential_def registerDevice_def registerDevice_tx_def authorize_mac_def
        tx_bind_Inl tx_query_def disable_row_def)
qed

definition one_credential :: BrokerDb where
  "one_credential = snd (CreateCredential (NewCredential (uid CHR ''a'') (uid CHR ''d'') (replicate 32 CHR ''k'') 3) one_peer)"

lemma one_credential_eq:
  "one_credential = one_peer\<lparr>credentials :=
     [NewCredential (uid CHR ''a'') (uid CHR ''d'') (replicate 32 CHR ''k'') 3]\<rparr>"
  by (simp add: one_credential_def CreateCredential_def Credential_Validate_def NewCredential_def first_err.simps
      fail_if_def credential_insertable_def CredentialMACSize_def one_peer_eq)

lemma one_credential_inv: "registry_inv one_credential"
  using registry_step_ok [OF create one_peer_inv] by (simp add: one_credential_def registry_ok_def)

theorem disable_revokes_witness:
  "\<exists>s'. DisableCredential (uid CHR ''a'') (uid CHR ''d'') one_credential = (Inr (), s')
     \<and> AuthenticateCredential (replicate 32 CHR ''k'') s' = Inl (Sentinel ErrCredentialDisabled)"
proof -
  let ?t = "one_credential\<lparr>credentials := disabled_credentials (uid CHR ''a'') (uid CHR ''d'') one_credential\<rparr>"
  have t: "regs_inv ?t" "registry_revision (uid CHR ''a'') ?t = 1"
    using registry_invD(1) [OF one_credential_inv] by (simp_all add: one_credential_eq)
  have nxt: "nextControllerRevision (uid CHR ''a'') ?t = Inr (2, ?t\<lparr>controller_registries := next_regs (uid CHR ''a'') ?t\<rparr>)"
    using nextControllerRevision_eq [OF t(1), of "uid CHR ''a''"] t(2) by (simp add: MaxInt64_def)
  have q: "queryCredential (uid CHR ''a'') (uid CHR ''d'') one_credential =
      Inr (NewCredential (uid CHR ''a'') (uid CHR ''d'') (replicate 32 CHR ''k'') 3)"
    unfolding queryCredential_inv [OF registry_invD(3) [OF one_credential_inv]]
    by (simp add: one_credential_eq credential_at_def NewCredential_def)
  have dr: "(\<lambda>c. c\<lparr>cr_Disabled := True, cr_Pending := False\<rparr>) = disable_row"
    by (simp add: disable_row_def fun_eq_iff)
  have "\<exists>s'. DisableCredential (uid CHR ''a'') (uid CHR ''d'') one_credential = (Inr (), s')"
    using nxt unfolding DisableCredential_def DisableCredential_tx_def dr guard_tx_Inr
      tx_bind_query(1) [of "queryCredential (uid CHR ''a'') (uid CHR ''d'')", OF q]
    by (simp add: validateCredentialIdentity_def disabled_credentials_def one_credential_eq one_peer_devices
        device_at_def)
  then obtain s' where s': "DisableCredential (uid CHR ''a'') (uid CHR ''d'') one_credential = (Inr (), s')" ..
  then show ?thesis
    using disable_revokes [OF one_credential_inv s',
        of "NewCredential (uid CHR ''a'') (uid CHR ''d'') (replicate 32 CHR ''k'') 3"]
    by (auto simp: one_credential_eq NewCredential_def)
qed

section \<open>Enrolment\<close>

text \<open>The row a pending token names is the only one the statements on it can hit.\<close>

lemma pending_hit:
  assumes "credentials_inv s" "sel1 (credential_at c d) (credentials s) = Some x" "cr_MAC x = mac"
    "cr_Disabled x" "cr_Pending x" "y \<in> set (credentials s)"
  shows "credential_at c d y \<and> cr_MAC y = mac \<and> cr_Disabled y \<and> cr_Pending y \<longleftrightarrow> y = x"
proof -
  have x: "x \<in> set (credentials s)" "credential_at c d x" using sel1_SomeD [OF assms(2)] by simp_all
  have "y = x" if "credential_at c d y"
    using uniq_same [of credential_key "credentials s" y x] assms(1,6) x that
    by (simp add: credentials_inv_def credential_at_key)
  then show ?thesis using x(2) assms(3-5) by auto
qed

lemma authenticate_sel1:
  assumes "credentials_inv s"
  shows "AuthenticateCredential mac s =
    (case sel1 (\<lambda>c. cr_MAC c = mac) (credentials s) of
       None \<Rightarrow> Inl (Sentinel ErrNotFound)
     | Some c \<Rightarrow> if cr_Disabled c \<or> cr_Pending c then Inl (Sentinel ErrCredentialDisabled) else Inr c)"
  by (simp add: AuthenticateCredential_def queryCredentialByMAC_inv [OF assms] split: option.split)

lemma sel1_map_other:
  assumes "\<And>y. y \<in> set rows \<Longrightarrow> P (f y) = P y" "\<And>y. y \<in> set rows \<Longrightarrow> P y \<Longrightarrow> f y = y"
  shows "sel1 P (map f rows) = sel1 P rows"
  using assms by (induction rows) auto

lemma sel1_filter_other:
  assumes "\<And>y. y \<in> set rows \<Longrightarrow> P y \<Longrightarrow> Q y"
  shows "sel1 P (filter Q rows) = sel1 P rows"
  using assms by (induction rows) auto

lemma publish_success:
  assumes inv: "credentials_inv s" and run: "PublishPendingCredential c d mac p s = ((committed, None), s')"
  obtains x where "committed = fst p" "snd p = None" "sel1 (credential_at c d) (credentials s) = Some x"
    "cr_Disabled x" "cr_Pending x" "cr_MAC x = mac"
    "s' = s\<lparr>credentials := map (\<lambda>y. if y = x then activate x else y) (credentials s)\<rparr>"
proof -
  define hit where "hit = (\<lambda>y. credential_at c d y \<and> cr_MAC y = mac \<and> cr_Disabled y \<and> cr_Pending y)"
  obtain x where x: "queryCredential c d s = Inr x"
    and cond: "cr_Disabled x" "cr_Pending x" "cr_MAC x = mac" and p: "snd p = None" "committed = fst p"
    and s': "s' = s\<lparr>credentials := upd hit activate (credentials s)\<rparr>"
    using run by (auto simp: PublishPendingCredential_def Let_def hit_def split: option.splits sum.splits if_splits)
  have sel: "sel1 (credential_at c d) (credentials s) = Some x"
    using x by (simp add: queryCredential_inv [OF inv] split: option.splits)
  have "upd hit activate (credentials s) = map (\<lambda>y. if y = x then activate x else y) (credentials s)"
    unfolding upd_def by (rule map_cong [OF refl]) (simp add: hit_def pending_hit [OF inv sel cond(3,1,2)])
  then show thesis using s' by (intro that [OF p(2,1) sel cond]) (simp only:)
qed

text \<open>
  C11. Publishing a pending enrolment is fenced by the token: it succeeds only for the MAC that is
  pending at that moment, it then makes exactly that token authenticate, and if the publisher or the
  fence fails the pending credential is left as it was. On success the one pending row is activated and
  every other row of the table, revoked ones included, and every other table stay as they were, so
  every other token authenticates, or is refused, as before.
\<close>

theorem publish_activates:
  assumes "registry_inv s" "PublishPendingCredential c d mac p s = ((committed, e), s')"
  shows "(e = None \<longrightarrow> committed = fst p \<and> snd p = None
      \<and> (\<exists>x. sel1 (credential_at c d) (credentials s) = Some x \<and> cr_Pending x \<and> cr_MAC x = mac
           \<and> AuthenticateCredential mac s' = Inr (activate x)
           \<and> s' = s\<lparr>credentials := map (\<lambda>y. if y = x then activate x else y) (credentials s)\<rparr>
           \<and> (\<forall>other. other \<noteq> mac \<longrightarrow> AuthenticateCredential other s' = AuthenticateCredential other s)))
    \<and> (e \<noteq> None \<longrightarrow> s' = s)"
proof (cases e)
  case None
  note inv = registry_invD(3) [OF assms(1)]
  obtain x where p: "committed = fst p" "snd p = None" and sel: "sel1 (credential_at c d) (credentials s) = Some x"
    and cond: "cr_Disabled x" "cr_Pending x" "cr_MAC x = mac"
    and s': "s' = s\<lparr>credentials := map (\<lambda>y. if y = x then activate x else y) (credentials s)\<rparr>"
    by (rule publish_success [OF inv assms(2) [unfolded None]])
  have "credentials_inv (snd (PublishPendingCredential c d mac p s))" by (rule PublishPendingCredential_inv [OF inv])
  then have inv': "credentials_inv s'" using assms(2) by simp
  have mem: "activate x \<in> set (credentials s')" using sel1_SomeD [OF sel] by (auto simp: s')
  have "sel1 (\<lambda>c. cr_MAC c = mac) (credentials s') = Some (activate x)"
    using uniq_sel1 [of cr_MAC "credentials s'" "activate x"] inv' mem cond(3) by (simp add: credentials_inv_def)
  moreover have "sel1 (\<lambda>c. cr_MAC c = other) (credentials s') = sel1 (\<lambda>c. cr_MAC c = other) (credentials s)"
    if "other \<noteq> mac" for other
    unfolding s' using that cond(3) by (simp, intro sel1_map_other) auto
  ultimately have "AuthenticateCredential mac s' = Inr (activate x)"
    "\<forall>other. other \<noteq> mac \<longrightarrow> AuthenticateCredential other s' = AuthenticateCredential other s"
    by (simp_all add: authenticate_sel1 [OF inv'] authenticate_sel1 [OF inv])
  then show ?thesis using None p sel cond(2,3) s' by blast
next
  case (Some err)
  then have "s' = s"
    using assms(2)
    by (auto simp: PublishPendingCredential_def Let_def split: option.splits sum.splits if_splits)
  then show ?thesis using Some by simp
qed

definition pending_credential :: Credential where
  "pending_credential = (NewCredential (uid CHR ''a'') (uid CHR ''d'') (replicate 32 CHR ''k'') 3)
     \<lparr>cr_Disabled := True, cr_Pending := True\<rparr>"

definition revoked_credential :: Credential where
  "revoked_credential = (NewCredential (uid CHR ''a'') (uid CHR ''e'') (replicate 32 CHR ''r'') 2)\<lparr>cr_Disabled := True\<rparr>"

definition enrolling :: BrokerDb where
  "enrolling = schemaCurrent\<lparr>credentials := [revoked_credential, pending_credential]\<rparr>"

lemma enrolling_run:
  "snd (CreateCredential pending_credential (snd (CreateCredential revoked_credential schemaCurrent))) = enrolling"
  by (simp add: CreateCredential_def Credential_Validate_def pending_credential_def NewCredential_def enrolling_def
      revoked_credential_def first_err.simps fail_if_def credential_insertable_def CredentialMACSize_def
      credential_at_def replicate_eq_replicate)

lemma enrolling_inv: "registry_inv enrolling"
proof -
  have "registry_inv (snd (CreateCredential revoked_credential schemaCurrent))"
    using registry_step_ok [OF create registry_inv_empty] by (simp add: registry_ok_def)
  from registry_step_ok [OF create this, of pending_credential] show ?thesis
    by (simp add: registry_ok_def enrolling_run)
qed

lemma enrolling_rows:
  "sel1 (credential_at (uid CHR ''a'') (uid CHR ''d'')) (credentials enrolling) = Some pending_credential"
  "queryCredential (uid CHR ''a'') (uid CHR ''d'') enrolling = Inr pending_credential"
  "AuthenticateCredential (replicate 32 CHR ''r'') enrolling = Inl (Sentinel ErrCredentialDisabled)"
proof -
  show sel: "sel1 (credential_at (uid CHR ''a'') (uid CHR ''d'')) (credentials enrolling) = Some pending_credential"
    by (simp add: enrolling_def credential_at_def pending_credential_def revoked_credential_def NewCredential_def)
  note inv = registry_invD(3) [OF enrolling_inv]
  show "queryCredential (uid CHR ''a'') (uid CHR ''d'') enrolling = Inr pending_credential"
    using sel by (simp add: queryCredential_inv [OF inv])
  show "AuthenticateCredential (replicate 32 CHR ''r'') enrolling = Inl (Sentinel ErrCredentialDisabled)"
    by (simp add: authenticate_sel1 [OF inv]) (simp add: enrolling_def revoked_credential_def NewCredential_def)
qed

theorem publish_activates_witness:
  "\<exists>s'. PublishPendingCredential (uid CHR ''a'') (uid CHR ''d'') (replicate 32 CHR ''k'') (True, None) enrolling
       = ((True, None), s')
     \<and> AuthenticateCredential (replicate 32 CHR ''k'') s' = Inr (activate pending_credential)
     \<and> AuthenticateCredential (replicate 32 CHR ''r'') s' = Inl (Sentinel ErrCredentialDisabled)
     \<and> revoked_credential \<in> set (credentials s')"
proof -
  have neq: "replicate 32 CHR ''r'' \<noteq> replicate 32 CHR ''k''" "revoked_credential \<noteq> pending_credential"
    by (auto simp: replicate_eq_replicate revoked_credential_def pending_credential_def NewCredential_def)
  have "affected (\<lambda>y. credential_at (uid CHR ''a'') (uid CHR ''d'') y \<and> cr_MAC y = replicate 32 CHR ''k''
      \<and> cr_Disabled y \<and> cr_Pending y) (credentials enrolling) = 1"
    by (simp add: enrolling_def affected_def credential_at_def pending_credential_def revoked_credential_def NewCredential_def)
  then obtain s' where run: "PublishPendingCredential (uid CHR ''a'') (uid CHR ''d'') (replicate 32 CHR ''k'') (True, None) enrolling
      = ((True, None), s')"
    by (simp add: PublishPendingCredential_def validateCredentialIdentity_def first_err.simps enrolling_rows(2))
      (simp add: pending_credential_def NewCredential_def)
  from publish_activates [OF enrolling_inv run] have
    "AuthenticateCredential (replicate 32 CHR ''k'') s' = Inr (activate pending_credential)"
    "\<forall>other. other \<noteq> replicate 32 CHR ''k'' \<longrightarrow> AuthenticateCredential other s' = AuthenticateCredential other enrolling"
    "s' = enrolling\<lparr>credentials := map (\<lambda>y. if y = pending_credential then activate pending_credential else y)
       (credentials enrolling)\<rparr>"
    using enrolling_rows(1) by auto
  then show ?thesis using run neq enrolling_rows(3) by (auto simp: enrolling_def)
qed

text \<open>
  C35. Withdrawing an enrolment deletes exactly the pending row with that token: it succeeds exactly when
  the device's credential is still pending under this MAC, so an activated or revoked credential cannot be
  removed by it; every other row stays, every other token authenticates or is refused as before, and a
  publication of the withdrawn token is refused afterwards. A refused withdrawal changes nothing.
\<close>

theorem withdraw_exact:
  assumes "registry_inv s" "DeletePendingCredential c d mac s = (r, s')" "validateCredentialIdentity c d = None"
  shows "(r = Inr () \<longleftrightarrow> (\<exists>x. sel1 (credential_at c d) (credentials s) = Some x
            \<and> cr_MAC x = mac \<and> cr_Disabled x \<and> cr_Pending x))
    \<and> (r = Inr () \<longrightarrow> (\<exists>x. sel1 (credential_at c d) (credentials s) = Some x
            \<and> s' = s\<lparr>credentials := filter (\<lambda>y. y \<noteq> x) (credentials s)\<rparr>)
         \<and> AuthenticateCredential mac s' = Inl (Sentinel ErrNotFound)
         \<and> (\<forall>other. other \<noteq> mac \<longrightarrow> AuthenticateCredential other s' = AuthenticateCredential other s)
         \<and> (\<forall>p. PublishPendingCredential c d mac p s' = ((False, Some (Sentinel ErrNotFound)), s')))
    \<and> (r \<noteq> Inr () \<longrightarrow> r = Inl (Sentinel ErrNotFound) \<and> s' = s)"
proof (cases "\<exists>x. sel1 (credential_at c d) (credentials s) = Some x \<and> cr_MAC x = mac \<and> cr_Disabled x \<and> cr_Pending x")
  case True
  then obtain x where sel: "sel1 (credential_at c d) (credentials s) = Some x"
    and cond: "cr_MAC x = mac" "cr_Disabled x" "cr_Pending x" by blast
  note inv = registry_invD(3) [OF assms(1)] and hit = pending_hit [OF registry_invD(3) [OF assms(1)] sel cond]
  have x: "x \<in> set (credentials s)" using sel1_SomeD [OF sel] by simp
  define P where "P = (\<lambda>y. credential_at c d y \<and> cr_MAC y = mac \<and> cr_Disabled y \<and> cr_Pending y)"
  have "affected P (credentials s) \<noteq> 0" "filter (\<lambda>y. \<not> P y) (credentials s) = filter (\<lambda>y. y \<noteq> x) (credentials s)"
    using x hit by (auto simp: P_def affected_def filter_empty_conv intro: filter_cong)
  moreover have "DeletePendingCredential c d mac s = (if affected P (credentials s) = 0 then (Inl (Sentinel ErrNotFound), s)
      else (Inr (), s\<lparr>credentials := filter (\<lambda>y. \<not> P y) (credentials s)\<rparr>))"
    by (simp add: DeletePendingCredential_def Let_def P_def assms(3))
  ultimately have run: "r = Inr ()" and s': "s' = s\<lparr>credentials := filter (\<lambda>y. y \<noteq> x) (credentials s)\<rparr>"
    using assms(2) by simp_all
  have "credentials_inv (snd (DeletePendingCredential c d mac s))" by (rule DeletePendingCredential_inv [OF inv])
  then have inv': "credentials_inv s'" using assms(2) by simp
  have "y = x" if "y \<in> set (credentials s)" "cr_MAC y = mac \<or> credential_at c d y" for y
    using that x cond(1) sel1_SomeD [OF sel] inv uniq_same [of cr_MAC "credentials s" y x]
      uniq_same [of credential_key "credentials s" y x]
    by (auto simp: credentials_inv_def credential_at_key)
  then have none: "sel1 (\<lambda>c. cr_MAC c = mac) (credentials s') = None" "sel1 (credential_at c d) (credentials s') = None"
    by (auto simp: s' sel1_None_iff)
  moreover have "sel1 (\<lambda>c. cr_MAC c = other) (credentials s') = sel1 (\<lambda>c. cr_MAC c = other) (credentials s)"
    if "other \<noteq> mac" for other
    unfolding s' using that cond(1) by (simp, intro sel1_filter_other) auto
  moreover have "queryCredential c d s' = Inl (Sentinel ErrNotFound)"
    using none(2) by (simp add: queryCredential_inv [OF inv'])
  ultimately have "AuthenticateCredential mac s' = Inl (Sentinel ErrNotFound)"
    "\<forall>other. other \<noteq> mac \<longrightarrow> AuthenticateCredential other s' = AuthenticateCredential other s"
    "\<forall>p. PublishPendingCredential c d mac p s' = ((False, Some (Sentinel ErrNotFound)), s')"
    using assms(3) by (simp_all add: authenticate_sel1 [OF inv'] authenticate_sel1 [OF inv] PublishPendingCredential_def)
  then show ?thesis using run s' True sel by blast
next
  case False
  have "sel1 (credential_at c d) (credentials s) = Some y" if "y \<in> set (credentials s)" "credential_at c d y" for y
    using uniq_sel1 [of credential_key "credentials s" y] registry_invD(3) [OF assms(1)] that
    by (simp add: credentials_inv_def credential_at_key)
  then have "affected (\<lambda>y. credential_at c d y \<and> cr_MAC y = mac \<and> cr_Disabled y \<and> cr_Pending y) (credentials s) = 0"
    using False by (auto simp: affected_def filter_empty_conv)
  then have "r = Inl (Sentinel ErrNotFound)" "s' = s"
    using assms(2,3) by (simp_all add: DeletePendingCredential_def)
  then show ?thesis using False by simp
qed

theorem withdraw_exact_witness:
  "\<exists>s'. DeletePendingCredential (uid CHR ''a'') (uid CHR ''d'') (replicate 32 CHR ''k'') enrolling = (Inr (), s')
     \<and> credentials s' = [revoked_credential]
     \<and> AuthenticateCredential (replicate 32 CHR ''k'') s' = Inl (Sentinel ErrNotFound)"
proof -
  have neq: "revoked_credential \<noteq> pending_credential"
    by (simp add: revoked_credential_def pending_credential_def NewCredential_def)
  have val: "validateCredentialIdentity (uid CHR ''a'') (uid CHR ''d'') = None"
    by (simp add: validateCredentialIdentity_def first_err.simps)
  obtain r s' where run: "DeletePendingCredential (uid CHR ''a'') (uid CHR ''d'') (replicate 32 CHR ''k'') enrolling = (r, s')"
    by force
  have "cr_MAC pending_credential = replicate 32 CHR ''k''" "cr_Disabled pending_credential" "cr_Pending pending_credential"
    by (simp_all add: pending_credential_def NewCredential_def)
  then have "r = Inr ()" "s' = enrolling\<lparr>credentials := filter (\<lambda>y. y \<noteq> pending_credential) (credentials enrolling)\<rparr>"
    "AuthenticateCredential (replicate 32 CHR ''k'') s' = Inl (Sentinel ErrNotFound)"
    using withdraw_exact [OF enrolling_inv run val] enrolling_rows(1) by auto
  then show ?thesis using run neq by (simp add: enrolling_def)
qed

section \<open>Device pages\<close>

text \<open>A client that pages through the registry: every page at the revision of the first.\<close>

fun collect_pages :: "nat \<Rightarrow> string \<Rightarrow> int \<Rightarrow> nat \<Rightarrow> string \<Rightarrow> BrokerDb \<Rightarrow> Device list result" where
  "collect_pages 0 c limit er after s = Inl (Plain ''out of fuel'')"
| "collect_pages (Suc n) c limit er after s =
     (case ListDevices c \<lparr>dpr_AfterDeviceID = after, dpr_Limit = limit, dpr_ExpectedRevision = Some er\<rparr> s of
        Inl e \<Rightarrow> Inl e
      | Inr page \<Rightarrow>
          if dp_NextCursor page = '''' then Inr (dp_Devices page)
          else (case collect_pages n c limit er (dp_NextCursor page) s of
                  Inl e \<Rightarrow> Inl e
                | Inr rest \<Rightarrow> Inr (dp_Devices page @ rest)))"

lemma filter_after_nth:
  assumes "sorted_wrt (\<lambda>a b. f a < (f b :: 'k :: linorder)) xs" "n < length xs"
  shows "filter (\<lambda>x. f (xs ! n) < f x) xs = drop (Suc n) xs"
  using assms
proof (induction xs arbitrary: n)
  case (Cons a xs)
  show ?case
  proof (cases n)
    case 0
    then show ?thesis using Cons.prems(1) by simp
  next
    case (Suc m)
    then have "xs ! m \<in> set xs" using Cons.prems(2) by simp
    then have "\<not> f (xs ! m) < f a" using Cons.prems(1) by fastforce
    then show ?thesis using Cons.IH [of m] Cons.prems Suc by simp
  qed
qed simp

lemma device_rows_sorted:
  assumes "devices_inv s"
  shows "sorted_wrt (\<lambda>a b. dev_DeviceID a < dev_DeviceID b) (device_rows c after s)"
proof -
  let ?xs = "filter (\<lambda>d. dev_ControllerID d = c \<and> after < dev_DeviceID d) (devices s)"
  have "inj_on dev_DeviceID (set ?xs)"
    using assms by (auto simp: devices_inv_def uniq_def distinct_map inj_on_def device_key_def)
  moreover have "distinct ?xs"
    using assms by (simp add: devices_inv_def uniq_def distinct_map)
  ultimately have "distinct (map dev_DeviceID (device_rows c after s))"
    by (simp add: device_rows_def distinct_map)
  moreover have "sorted (map dev_DeviceID (device_rows c after s))"
    by (simp add: device_rows_def)
  ultimately show ?thesis
    by (metis sorted_wrt_map strict_sorted_iff)
qed

lemma device_rows_next:
  assumes inv: "devices_inv s" and n: "n < length (device_rows c after s)"
  shows "device_rows c (dev_DeviceID (device_rows c after s ! n)) s = drop (Suc n) (device_rows c after s)"
proof -
  let ?R = "device_rows c after s"
  let ?k = "dev_DeviceID (?R ! n)"
  have "?R ! n \<in> set ?R" using n by simp
  then have "after < ?k" by (simp add: device_rows_def)
  then have eq: "(\<lambda>d. dev_ControllerID d = c \<and> ?k < dev_DeviceID d) =
      (\<lambda>d. (dev_ControllerID d = c \<and> after < dev_DeviceID d) \<and> ?k < dev_DeviceID d)"
    by (auto simp: fun_eq_iff)
  have "device_rows c ?k s = filter (\<lambda>d. ?k < dev_DeviceID d) ?R"
    unfolding device_rows_def [of c ?k] eq
    by (simp add: device_rows_def filter_sort [symmetric] conj_commute flip: filter_filter)
  also have "\<dots> = drop (Suc n) ?R"
    by (rule filter_after_nth [OF device_rows_sorted [OF inv] n])
  finally show ?thesis .
qed

lemma ListDevices_page:
  assumes "registry_inv s" "ValidateID c = None" "1 \<le> limit" "limit \<le> 32"
    and "after = '''' \<or> ValidateID after = None"
  shows "ListDevices c \<lparr>dpr_AfterDeviceID = after, dpr_Limit = limit,
      dpr_ExpectedRevision = Some (nat (registry_revision c s))\<rparr> s =
    Inr (make_page (nat (registry_revision c s)) (nat limit) (take (nat limit + 1) (device_rows c after s)))"
proof -
  have "traverse (\<lambda>d. scanDevice (Some d)) (take (nat limit + 1) (device_rows c after s)) =
      Inr (map (\<lambda>d. d) (take (nat limit + 1) (device_rows c after s)))"
  proof (rule traverse_all)
    fix x
    assume "x \<in> set (take (nat limit + 1) (device_rows c after s))"
    then have "x \<in> set (devices s)" by (auto simp: device_rows_def dest!: in_set_takeD)
    then show "scanDevice (Some x) = Inr x"
      using registry_invD(2) [OF assms(1)] by (intro scanDevice_valid) (simp add: devices_inv_def)
  qed
  then show ?thesis
    using assms(2-5) controllerRevision_inv [OF registry_invD(1) [OF assms(1)], of c]
    by (auto simp: ListDevices_def MaximumDevicePage_def)
qed

lemma collect_pages_rows:
  assumes "registry_inv s" "ValidateID c = None" "1 \<le> limit" "limit \<le> 32"
    and "after = '''' \<or> ValidateID after = None" "length (device_rows c after s) < fuel"
  shows "collect_pages fuel c limit (nat (registry_revision c s)) after s = Inr (device_rows c after s)"
  using assms(5,6)
proof (induction fuel arbitrary: after)
  case (Suc n)
  let ?R = "device_rows c after s"
  have page: "ListDevices c \<lparr>dpr_AfterDeviceID = after, dpr_Limit = limit,
      dpr_ExpectedRevision = Some (nat (registry_revision c s))\<rparr> s =
    Inr (make_page (nat (registry_revision c s)) (nat limit) (take (nat limit + 1) ?R))"
    by (rule ListDevices_page [OF assms(1-4) Suc.prems(1)])
  show ?case
  proof (cases "length ?R \<le> nat limit")
    case True
    then show ?thesis using page by (simp add: make_page_def)
  next
    case False
    define k where "k = nat limit - 1"
    have k: "nat limit = Suc k" "k < length ?R" using False assms(3) by (auto simp: k_def)
    have "?R ! k \<in> set (devices s)"
      using nth_mem [OF k(2)] by (simp add: device_rows_def)
    then have cur: "ValidateID (dev_DeviceID (?R ! k)) = None"
      using registry_invD(2) [OF assms(1)]
      by (auto simp: devices_inv_def Device_Validate_def DeviceDescriptor_Validate_def Device_Descriptor_def)
    have next_rows: "device_rows c (dev_DeviceID (?R ! k)) s = drop (Suc k) ?R"
      by (rule device_rows_next [OF registry_invD(2) [OF assms(1)] k(2)])
    have "collect_pages n c limit (nat (registry_revision c s)) (dev_DeviceID (?R ! k)) s = Inr (drop (Suc k) ?R)"
      unfolding next_rows [symmetric]
      by (rule Suc.IH) (use cur next_rows Suc.prems(2) k in auto)
    then show ?thesis
      using page False k cur ValidateID_nonempty [OF cur] by (simp add: make_page_def min_def)
  qed
qed simp

text \<open>
  C12. Paging is complete: following the cursors from the start, at the revision of the first page and
  with any allowed page size, returns every device of the controller exactly once, in the order of
  their identifiers, after at most one page more than there are devices.
\<close>

theorem device_pages_complete:
  assumes "registry_inv s" "ValidateID c = None" "1 \<le> limit" "limit \<le> 32"
    and "length (devices s) < fuel"
  shows "collect_pages fuel c limit (nat (registry_revision c s)) '''' s =
    Inr (sort_key dev_DeviceID (filter (\<lambda>d. dev_ControllerID d = c) (devices s)))"
proof -
  have pos: "[] < dev_DeviceID d" if "d \<in> set (devices s)" for d
  proof -
    have "dev_DeviceID d \<noteq> []"
      using that registry_invD(2) [OF assms(1)] ValidateID_nonempty
      by (auto simp: devices_inv_def Device_Validate_def DeviceDescriptor_Validate_def Device_Descriptor_def)
    then show ?thesis by (cases "dev_DeviceID d") simp_all
  qed
  then have eq: "filter (\<lambda>d. dev_ControllerID d = c \<and> [] < dev_DeviceID d) (devices s) =
      filter (\<lambda>d. dev_ControllerID d = c) (devices s)"
    by (auto intro!: filter_cong)
  have "length (device_rows c '''' s) < fuel"
    using le_less_trans [OF length_filter_le [of "\<lambda>d. dev_ControllerID d = c" "devices s"] assms(5)]
    by (simp add: device_rows_def eq)
  then show ?thesis
    using collect_pages_rows [OF assms(1-4), of "''''" fuel] by (simp add: device_rows_def eq)
qed

theorem device_pages_complete_witness:
  "collect_pages 2 (uid CHR ''a'') 1 1 '''' one_peer = Inr (devices one_peer)"
  using device_pages_complete [OF one_peer_inv, of "uid CHR ''a''" 1 2] by (simp add: one_peer_devices)

section \<open>Readiness\<close>

text \<open>
  C13. The readiness the broker holds for a device only moves forward: after an accepted publication
  a read returns exactly the published snapshot, and a snapshot stored before was either the same
  one or strictly older by epoch and update time.
\<close>

theorem readiness_newest_wins:
  assumes "registry_inv s" "PutWorkerReadiness c d r s = (Inr x, s')"
  shows "x = r \<and> WorkerReadiness_read c d s' = Inr r
    \<and> (\<forall>q. WorkerReadiness_read c d s = Inr q \<longrightarrow>
         q = r \<and> s' = s \<or> WorkerReadinessCursor_Before (WorkerReadiness_Cursor q) r)"
proof -
  have val: "validateDeviceIdentity c d = None"
    using assms(2) by (simp add: PutWorkerReadiness_def)
  then have rd: "WorkerReadiness_read c d s0 = queryWorkerReadiness c d s0" for s0
    by (simp add: WorkerReadiness_read_def validateDeviceIdentity_def guard_res_def first_err.simps)
  have inv': "readiness_inv s'"
    using PutWorkerReadiness_ok [OF assms(1), of c d r] assms(2) by (simp add: registry_ok_def registry_inv_def)
  show ?thesis
    using assms(2)
  proof (cases rule: PutWorkerReadiness_cases)
    case same
    then show ?thesis by (simp add: rd)
  next
    case (put y)
    then have "queryWorkerReadiness c d s' = Inr r"
      using inv' upsert_readiness_same [of c d r s] by (simp add: queryWorkerReadiness_inv)
    then show ?thesis using put by (simp add: rd)
  qed
qed

definition first_readiness :: WorkerReadiness where
  "first_readiness = NewPendingWorkerReadiness (replicate 64 CHR ''a'') (replicate 64 CHR ''b'') 1000"

lemma first_readiness_valid: "WorkerReadiness_Validate first_readiness = None"
  unfolding first_readiness_def
  by (rule NewPending_valid)
    (simp_all add: readinessDigestPattern_def match_exact_def hexdigit_def digit_def byte_def list_all_iff)

theorem readiness_newest_wins_witness:
  "\<exists>s'. PutWorkerReadiness (uid CHR ''a'') (uid CHR ''d'') first_readiness one_peer = (Inr first_readiness, s')
     \<and> WorkerReadiness_read (uid CHR ''a'') (uid CHR ''d'') s' = Inr first_readiness"
proof -
  have q: "queryDevice (uid CHR ''a'') (uid CHR ''d'') one_peer =
      Inr (deviceFromDescriptor (peer_descriptor (uid CHR ''d'')) 5 1)"
    unfolding queryDevice_inv [OF registry_invD(2) [OF one_peer_inv]]
    by (simp add: one_peer_devices device_at_def)
  have none: "or_not_found (queryWorkerReadiness (uid CHR ''a'') (uid CHR ''d'') one_peer) = Inr None"
    by (simp add: queryWorkerReadiness_def one_peer_eq)
  have "int (wr_Epoch first_readiness) \<le> MaxInt64"
    by (simp add: first_readiness_def NewPendingWorkerReadiness_def MaxInt64_def)
  then obtain s' where run: "PutWorkerReadiness (uid CHR ''a'') (uid CHR ''d'') first_readiness one_peer
      = (Inr first_readiness, s')"
    unfolding PutWorkerReadiness_def PutWorkerReadiness_tx_def guard_tx_Inr
      tx_bind_query(1) [of "queryDevice (uid CHR ''a'') (uid CHR ''d'')", OF q]
      tx_bind_query(1) [of "\<lambda>s. or_not_found (queryWorkerReadiness (uid CHR ''a'') (uid CHR ''d'') s)", OF none]
    by (simp add: Let_def validateDeviceIdentity_def first_readiness_valid)
  from readiness_newest_wins [OF one_peer_inv run] run show ?thesis by blast
qed

end
