(* ===== verification/Trees_Props.thy ===== *)
theory Trees_Props
  imports Trees_Inv Registry_Props
begin

text \<open>
  Properties of trees and authorization, and the concrete tree the instances of the later theories
  start from: one controller, one online device, one tree with its root agent.
\<close>

section \<open>A concrete tree\<close>

definition demo_tree :: Tree where
  "demo_tree = \<lparr>tr_ControllerID = uid CHR ''a'', tr_TreeID = uid CHR ''1'', tr_ExternalThreadID = uid CHR ''e'',
     tr_RootAgentID = uid CHR ''2'', tr_RootDeviceID = uid CHR ''d'', tr_CreatedAt = 6\<rparr>"

definition demo_root :: PrincipalIdentity where
  "demo_root = p_Identity (NewRootPrincipal (uid CHR ''a'') (uid CHR ''1'') (uid CHR ''2'') (uid CHR ''d''))"

definition rooted :: BrokerDb where
  "rooted = with_tree demo_tree one_peer"

lemma demo_tree_simps [simp]:
  "tr_ControllerID demo_tree = uid CHR ''a''" "tr_TreeID demo_tree = uid CHR ''1''"
  "tr_ExternalThreadID demo_tree = uid CHR ''e''" "tr_RootAgentID demo_tree = uid CHR ''2''"
  "tr_RootDeviceID demo_tree = uid CHR ''d''" "tr_CreatedAt demo_tree = 6"
  by (simp_all add: demo_tree_def)

lemma demo_root_simps [simp]:
  "pi_ControllerID demo_root = uid CHR ''a''" "pi_TreeID demo_root = uid CHR ''1''"
  "pi_AgentID demo_root = uid CHR ''2''" "pi_ParentAgentID demo_root = ''''" "pi_DeviceID demo_root = uid CHR ''d''"
  by (simp_all add: demo_root_def)

lemma demo_root_valid: "PrincipalIdentity_Validate demo_root = None"
  by (simp add: PrincipalIdentity_Validate_def)

lemma one_peer_tables [simp]:
  "trees one_peer = []" "principals one_peer = []" "workspace_sync_receipts one_peer = []"
  "agent_spawn_receipts one_peer = []" "agent_operation_receipts one_peer = []"
  "peer_worker_sync_cursors one_peer = []" "agent_lifecycle_states one_peer = []" "mailboxes one_peer = []"
  "mailbox_messages one_peer = []" "mailbox_receipts one_peer = []" "controller_lifetime_counters one_peer = []"
  "credentials one_peer = []" "device_worker_readiness one_peer = []"
  by (simp_all add: one_peer_eq)

lemma trees_inv_one_peer: "trees_inv one_peer"
  using trees_inv_empty trees_inv_cong [of one_peer schemaCurrent] by simp

lemma rooted_inv: "trees_inv rooted"
  unfolding rooted_def
  by (rule with_tree_inv [OF trees_inv_one_peer])
    (simp_all add: Tree_Validate_def tree_insertable_def principal_insertable_def tree_at_def)

lemma rooted_registry: "registry_inv rooted"
proof -
  have "registry_revision c rooted = registry_revision c one_peer" for c
    by (simp add: registry_revision_def rooted_def with_tree_def)
  then show ?thesis
    using one_peer_inv
    by (simp add: registry_inv_def devices_inv_def regs_inv_def credentials_inv_def readiness_inv_def
        rooted_def with_tree_def)
qed

lemma rooted_tables [simp]:
  "workspace_sync_receipts rooted = []"
  "agent_spawn_receipts rooted = []" "agent_operation_receipts rooted = []"
  "peer_worker_sync_cursors rooted = []" "agent_lifecycle_states rooted = []" "mailboxes rooted = []"
  "mailbox_messages rooted = []" "mailbox_receipts rooted = []" "controller_lifetime_counters rooted = []"
  "devices rooted = devices one_peer" "controller_registries rooted = controller_registries one_peer"
  by (simp_all add: rooted_def with_tree_def)

lemma rooted_trees: "trees rooted = [new_tree_row demo_tree]"
  by (simp add: rooted_def with_tree_def)

lemma rooted_principals:
  "principals rooted =
     [principal_row (NewRootPrincipal (uid CHR ''a'') (uid CHR ''1'') (uid CHR ''2'') (uid CHR ''d'')) 6]"
  by (simp add: rooted_def with_tree_def)

text \<open>The same tree with a worker below its root.\<close>

definition demo_worker :: PrincipalIdentity where
  "demo_worker = p_Identity (NewWorkerPrincipal (uid CHR ''a'') (uid CHR ''1'') (uid CHR ''3'') (uid CHR ''2'') (uid CHR ''d''))"

definition staffed :: BrokerDb where
  "staffed = rooted\<lparr>principals := principals rooted @
     [principal_row (NewWorkerPrincipal (uid CHR ''a'') (uid CHR ''1'') (uid CHR ''3'') (uid CHR ''2'') (uid CHR ''d'')) 7]\<rparr>"

lemma staffed_inv: "trees_inv staffed"
  unfolding staffed_def
  by (rule trees_inv_add_worker [OF rooted_inv, where q =
        "principal_row (NewRootPrincipal (uid CHR ''a'') (uid CHR ''1'') (uid CHR ''2'') (uid CHR ''d'')) 6"])
    (simp_all add: Principal_Validate_def NewWorkerPrincipal_def PrincipalIdentity_Validate_def principal_insertable_def rooted_trees
      rooted_principals tree_at_def principal_at_def)

lemma staffed_tables [simp]:
  "mailboxes staffed = []" "mailbox_messages staffed = []" "mailbox_receipts staffed = []"
  "agent_spawn_receipts staffed = []" "agent_operation_receipts staffed = []"
  "workspace_sync_receipts staffed = []" "controller_lifetime_counters staffed = []"
  "trees staffed = trees rooted" "devices staffed = devices one_peer"
  "peer_worker_sync_cursors staffed = []" "agent_lifecycle_states staffed = []"
  by (simp_all add: staffed_def)

lemma demo_worker_simps [simp]:
  "pi_ControllerID demo_worker = uid CHR ''a''" "pi_TreeID demo_worker = uid CHR ''1''"
  "pi_AgentID demo_worker = uid CHR ''3''" "pi_ParentAgentID demo_worker = uid CHR ''2''"
  "pi_DeviceID demo_worker = uid CHR ''d''"
  by (simp_all add: demo_worker_def)

section \<open>Properties\<close>

text \<open>
  C14. Ensuring a root tree is idempotent. Once it has succeeded for a thread and a device, every
  later call for them, with other random identifiers and another time, answers with the same tree
  and the same root principal and changes nothing; a call for the same thread from another device
  is a conflict and changes nothing either.
\<close>

theorem ensure_root_tree_idempotent:
  assumes "trees_inv s" "length v1 = 16" "length v2 = 16"
    and "EnsureRootTree (Inr v1) (Inr v2) c x d t s = (Inr (tree, p), s')" "0 \<le> t'"
  shows "EnsureRootTree (Inr w1) (Inr w2) c x d t' s' = (Inr (tree, p), s')
    \<and> (ValidateID d' = None \<and> d' \<noteq> d \<longrightarrow>
        EnsureRootTree (Inr w1) (Inr w2) c x d' t' s' =
          (Inl (Wrapped ''thread is bound to a different root device'' (Sentinel ErrConflict)), s'))"
proof -
  note st = EnsureRootTree_stored [OF assms(1-4)]
  have val: "ValidateID c = None" "ValidateID x = None" "ValidateID d = None"
    using assms(4) by (auto simp: EnsureRootTree_def split: option.splits)
  have ids: "\<exists>i. NewID (Inr w) = Inr i" for w
    by (simp add: NewID_def Let_def)
  have found: "or_not_found (queryTreeByThread c x s') = Inr (Some tree)"
    using st(1) by simp
  have same: "EnsureRootTree_tx c x d t' i j s' = Inr ((tree, p), s')" for i j
    unfolding EnsureRootTree_tx_def
      tx_bind_query(1) [of "\<lambda>s. or_not_found (queryTreeByThread c x s)", OF found] option.case
    using st(2-4) by (simp add: Let_def Principal_Matches_def)
  have other: "EnsureRootTree_tx c x d' t' i j s' =
      Inl (Wrapped ''thread is bound to a different root device'' (Sentinel ErrConflict))" if "d' \<noteq> d" for i j
    unfolding EnsureRootTree_tx_def
      tx_bind_query(1) [of "\<lambda>s. or_not_found (queryTreeByThread c x s)", OF found] option.case
    using st(2) that by (simp add: tx_fail_def)
  have pre: "first_err [wrap ''controllerId'' (ValidateID c), wrap ''threadId'' (ValidateID x),
      wrap ''rootDeviceId'' (ValidateID e), unixTime t' ''createdAt''] = None" if "ValidateID e = None" for e
    using val that assms(5) by simp
  obtain i j where ij: "NewID (Inr w1) = Inr i" "NewID (Inr w2) = Inr j" using ids by metis
  have run: "EnsureRootTree (Inr w1) (Inr w2) c x e t' s' = withImmediateTransaction (EnsureRootTree_tx c x e t' i j) s'"
    if "ValidateID e = None" for e
    unfolding EnsureRootTree_def pre [OF that] by (simp add: ij)
  show ?thesis
    using run [OF val(3)] run [of d'] same other by (simp add: withImmediateTransaction_def)
qed

theorem ensure_root_tree_idempotent_witness:
  "\<exists>tree p s'. EnsureRootTree (Inr (replicate 16 1)) (Inr (replicate 16 2)) (uid CHR ''a'') (uid CHR ''e'') (uid CHR ''d'') 6 one_peer
       = (Inr (tree, p), s')
     \<and> EnsureRootTree (Inr (replicate 16 3)) (Inr (replicate 16 4)) (uid CHR ''a'') (uid CHR ''e'') (uid CHR ''d'') 9 s'
       = (Inr (tree, p), s')"
proof -
  let ?v = "\<lambda>n :: 8 word. replicate 16 n"
  obtain tid where tid: "NewID (Inr (?v 1)) = Inr tid" by (simp add: NewID_def Let_def)
  obtain aid where aid: "NewID (Inr (?v 2)) = Inr aid" by (simp add: NewID_def Let_def)
  have none: "or_not_found (queryTreeByThread (uid CHR ''a'') (uid CHR ''e'') one_peer) = Inr None"
    by (simp add: queryTreeByThread_def scanTree_def)
  have dev: "queryDevice (uid CHR ''a'') (uid CHR ''d'') one_peer =
      Inr (deviceFromDescriptor (peer_descriptor (uid CHR ''d'')) 5 1)"
    unfolding queryDevice_inv [OF registry_invD(2) [OF one_peer_inv]]
    by (simp add: one_peer_devices device_at_def)
  have "\<exists>tree p s'. EnsureRootTree_tx (uid CHR ''a'') (uid CHR ''e'') (uid CHR ''d'') 6 tid aid one_peer
      = Inr ((tree, p), s')"
    unfolding EnsureRootTree_tx_def
      tx_bind_query(1) [of "\<lambda>s. or_not_found (queryTreeByThread (uid CHR ''a'') (uid CHR ''e'') s)", OF none]
      option.case tx_bind_query(1) [of "queryDevice (uid CHR ''a'') (uid CHR ''d'')", OF dev]
    by (simp add: Let_def insert_tree_def insert_principal_def tree_insertable_def principal_insertable_def tree_at_def)
  then obtain tree p s' where
    "EnsureRootTree_tx (uid CHR ''a'') (uid CHR ''e'') (uid CHR ''d'') 6 tid aid one_peer = Inr ((tree, p), s')"
    by blast
  then have run: "EnsureRootTree (Inr (?v 1)) (Inr (?v 2)) (uid CHR ''a'') (uid CHR ''e'') (uid CHR ''d'') 6 one_peer
      = (Inr (tree, p), s')"
    by (simp add: EnsureRootTree_def tid aid first_err.simps unixTime_def fail_if_def)
  from ensure_root_tree_idempotent [OF trees_inv_one_peer _ _ run, of 9 "?v 3" "?v 4"] run
  show ?thesis by auto
qed

text \<open>
  C15. Authorization is exact. In a well-formed state a claimed identity is authorized for a
  capability exactly when the claim is a valid identity that is stored, field for field, and the
  capability belongs to its role: six capabilities for a root, three others for a worker, none
  shared. The principal returned is the stored one; every refusal is the authorization error.
\<close>

theorem authorize_exact:
  assumes "trees_inv s"
  shows "(AuthorizePrincipal claimed cap s = Inr p \<longleftrightarrow>
      (\<exists>r \<in> set (principals s). identity_of r = claimed \<and> p = principal_of r
         \<and> cap \<in> set (if pi_ParentAgentID claimed = '''' then RootCapabilities else WorkerCapabilities)))
    \<and> (\<forall>e. AuthorizePrincipal claimed cap s = Inl e \<longrightarrow> errors_is e ErrAuthorizationDenied)
    \<and> set RootCapabilities \<inter> set WorkerCapabilities = {}"
proof -
  have cap: "Capability_Validate cap = None" if "cap \<in> role_capabilities claimed"
    using that by (auto simp: role_capabilities_def Capability_Validate_def RootCapabilities_def
        WorkerCapabilities_def split: if_splits)
  have valid: "PrincipalIdentity_Validate claimed = None" if "r \<in> set (principals s)" "identity_of r = claimed" for r
    using trees_invD(5) [OF assms that(1)] that(2) by (auto simp: principal_row_ok_def Principal_Validate_def)
  have role: "role_capabilities claimed =
      set (if pi_ParentAgentID claimed = '''' then RootCapabilities else WorkerCapabilities)"
    by (simp add: role_capabilities_def)
  have "AuthorizePrincipal claimed cap s = Inr p \<longleftrightarrow>
      (\<exists>r \<in> set (principals s). identity_of r = claimed \<and> p = principal_of r \<and> cap \<in> role_capabilities claimed)"
    using cap valid by (auto simp: AuthorizePrincipal_def authorizePrincipal_Inr [OF assms])
  moreover have "errors_is e ErrAuthorizationDenied" if err: "AuthorizePrincipal claimed cap s = Inl e" for e
  proof (cases "PrincipalIdentity_Validate claimed = None \<and> Capability_Validate cap = None")
    case False
    then show ?thesis
      using err by (auto simp: AuthorizePrincipal_def guard_res_def first_err.simps fail_if_def split: if_splits)
  next
    case True
    then have auth: "authorizePrincipal claimed cap s = Inl e"
      using err by (simp add: AuthorizePrincipal_def guard_res_def first_err.simps fail_if_def)
    show ?thesis
    proof (cases "\<exists>r \<in> set (principals s). identity_of r = claimed")
      case True
      then show ?thesis using auth authorizePrincipal_row [OF assms] by (auto split: if_splits)
    next
      case False
      show ?thesis
      proof (cases "queryPrincipal (pi_ControllerID claimed) (pi_TreeID claimed) (pi_AgentID claimed) s")
        case (Inl x)
        then have "x = Sentinel ErrNotFound"
          by (simp add: queryPrincipal_inv [OF assms] split: option.splits)
        then show ?thesis using auth Inl by (auto simp: authorizePrincipal_def denied_def)
      next
        case (Inr q)
        then have "p_Identity q \<noteq> claimed" using False queryPrincipal_Inr [OF assms Inr] by fastforce
        then show ?thesis using auth Inr by (auto simp: authorizePrincipal_def denied_def Principal_Matches_def)
      qed
    qed
  qed
  ultimately show ?thesis using roles_disjoint unfolding role by blast
qed

theorem authorize_exact_witness:
  "AuthorizePrincipal demo_root CapabilityAgentSpawn rooted =
     Inr (NewRootPrincipal (uid CHR ''a'') (uid CHR ''1'') (uid CHR ''2'') (uid CHR ''d''))
   \<and> (\<exists>e. AuthorizePrincipal demo_root CapabilityMessageSendParent rooted = Inl e \<and> errors_is e ErrAuthorizationDenied)"
proof -
  have "AuthorizePrincipal demo_root CapabilityAgentSpawn rooted =
      Inr (NewRootPrincipal (uid CHR ''a'') (uid CHR ''1'') (uid CHR ''2'') (uid CHR ''d''))"
    using authorize_exact [OF rooted_inv, of demo_root CapabilityAgentSpawn]
    by (simp add: rooted_principals demo_root_def RootCapabilities_def)
  moreover have "AuthorizePrincipal demo_root CapabilityMessageSendParent rooted \<noteq> Inr p" for p
    using authorize_exact [OF rooted_inv, of demo_root CapabilityMessageSendParent p]
    by (simp add: RootCapabilities_def capability_defs)
  then obtain e where "AuthorizePrincipal demo_root CapabilityMessageSendParent rooted = Inl e"
    by (cases "AuthorizePrincipal demo_root CapabilityMessageSendParent rooted") auto
  ultimately show ?thesis
    using authorize_exact [OF rooted_inv, of demo_root CapabilityMessageSendParent] by blast
qed

end
