(* ===== verification/Workspace_Props.thy ===== *)
theory Workspace_Props
  imports Workspace_Inv Trees_Props
begin

text \<open>
  Properties of workspace syncs: begin is idempotent, receipts only move forward, a finished
  workspace is the one that was inspected, transfers are bounded, and one way in which the
  manifest check falls short.
\<close>

section \<open>A concrete sync\<close>

definition demo_intent :: WorkspaceSyncIntent where
  "demo_intent = \<lparr>wi_Source = demo_root, wi_SyncID = uid CHR ''8'', wi_TargetDeviceID = uid CHR ''d'',
     wi_GitURL = ''ssh://host/repo'', wi_SourcePathHash = replicate 32 CHR ''p''\<rparr>"

definition demo_manifest :: WorkspaceManifest where
  "demo_manifest = \<lparr>wf_GitURL = ''ssh://host/repo'', wf_HeadOID = replicate 40 CHR ''a'', wf_ObjectFormat = ''sha1'',
     wf_WorkingDirectory = '''', wf_Clean = True, wf_SourceSnapshotHash = replicate 64 CHR ''0'', wf_Warnings = []\<rparr>"

lemma demo_intent_simps [simp]:
  "wi_Source demo_intent = demo_root" "wi_SyncID demo_intent = uid CHR ''8''"
  "wi_TargetDeviceID demo_intent = uid CHR ''d''" "wi_GitURL demo_intent = ''ssh://host/repo''"
  "wi_SourcePathHash demo_intent = replicate 32 CHR ''p''"
  by (simp_all add: demo_intent_def)

lemma workspace_inv_rooted: "workspace_inv rooted"
  by (simp add: workspace_inv_def)

lemma rooted_ok: "workspace_ok rooted"
  using workspace_inv_rooted rooted_inv registry_invD(2) [OF rooted_registry] by (simp add: workspace_ok_def)

lemma demo_intent_valid: "validateWorkspaceSyncIntent demo_intent = None"
  by (simp add: validateWorkspaceSyncIntent_def demo_root_valid MaximumGitURLBytes_def)

lemma rooted_authorizes:
  "authorizePrincipal demo_root CapabilityWorkspaceSync rooted =
     Inr (NewRootPrincipal (uid CHR ''a'') (uid CHR ''1'') (uid CHR ''2'') (uid CHR ''d''))"
  by (simp add: authorizePrincipal_Inr [OF rooted_inv] rooted_principals demo_root_def role_capabilities_def
      RootCapabilities_def)

lemma rooted_device:
  "queryDevice (uid CHR ''a'') (uid CHR ''d'') rooted = Inr (deviceFromDescriptor (peer_descriptor (uid CHR ''d'')) 5 1)"
  unfolding queryDevice_inv [OF registry_invD(2) [OF rooted_registry]]
  by (simp add: one_peer_devices device_at_def)

definition begun :: BrokerDb where
  "begun = rooted\<lparr>workspace_sync_receipts := [new_workspace_row demo_intent 7]\<rparr>"

lemma demo_insertable: "workspace_insertable (new_workspace_row demo_intent 7) rooted"
  by (simp add: workspace_insertable_def rooted_principals principal_at_def one_peer_devices device_at_def demo_root_def)

lemma begun_run: "BeginWorkspaceSync demo_intent 7 rooted = (Inr (new_workspace_row demo_intent 7), begun)"
proof -
  have q: "or_not_found (queryWorkspaceSyncReceipt (intent_key demo_intent) rooted) = Inr None"
    by (simp add: queryWorkspaceSyncReceipt_def)
  have "BeginWorkspaceSync_tx demo_intent 7 rooted = Inr (new_workspace_row demo_intent 7, begun)"
    unfolding BeginWorkspaceSync_tx_def demo_intent_simps
      tx_bind_query(1) [of "authorizePrincipal demo_root CapabilityWorkspaceSync", OF rooted_authorizes]
      tx_bind_query(1) [of "\<lambda>s. or_not_found (queryWorkspaceSyncReceipt (intent_key demo_intent) s)", OF q]
    using demo_insertable
    by (simp add: tx_bind_def tx_query_def rooted_device tx_insert_def tx_ret_def begun_def)
  then show ?thesis by (simp add: BeginWorkspaceSync_def demo_intent_valid withImmediateTransaction_def)
qed

lemma demo_manifest_valid: "WorkspaceManifest_Validate demo_manifest = None"
proof -
  have "printable ''ssh://host/repo''" by (simp add: printable_def byte_def)
  from printable_text [OF this] have "validateWorkspaceText ''gitUrl'' ''ssh://host/repo'' MaximumGitURLBytes = None"
    by (simp add: validateWorkspaceText_def MaximumGitURLBytes_def)
  moreover have "working_directory_check '''' = None"
    by (simp add: working_directory_check_def MaximumWorkspaceRelativeBytes_def ascii_valid ascii_def ContainsRune_def
        ascii_runes path_IsAbs_def path_Clean_def HasPrefix_def)
  moreover have "match_exact hexdigit 40 (replicate 40 CHR ''a'')" "match_exact hexdigit 64 (replicate 64 CHR ''0'')"
    by (simp_all add: match_exact_def list_all_iff hexdigit_def digit_def byte_def)
  ultimately show ?thesis
    by (simp add: WorkspaceManifest_Validate_def demo_manifest_def gitObjectIDPattern_def object_format_check_def
        sha256DigestPattern_def ValidateWorkspaceSourceWarnings_def ValidateWorkspaceWarnings_def MaximumWorkspaceWarnings_def)
qed

section \<open>Begin\<close>

text \<open>
  C20. Beginning a workspace sync is idempotent: repeating the request at any later time answers with
  the same receipt and changes nothing, and another request under the same sync identifier that
  differs in its device, repository or source path is a conflict that changes nothing.
\<close>

theorem workspace_begin_idempotent:
  assumes "workspace_ok s" "BeginWorkspaceSync i t s = (Inr r, s')" "0 \<le> t'"
  shows "BeginWorkspaceSync i t' s' = (Inr r, s')
    \<and> (intent_key j = intent_key i \<and> may_sync j s' \<and> \<not> workspaceReceiptMatchesIntent r j \<longrightarrow>
        (\<exists>e. BeginWorkspaceSync j t' s' = (Inl e, s') \<and> errors_is e ErrConflict))"
  using workspace_receipts.retry_is_idempotent [OF assms] workspace_receipts.reused_key_conflicts [OF assms, of j] by simp

theorem workspace_begin_idempotent_witness:
  "BeginWorkspaceSync demo_intent 9 begun = (Inr (new_workspace_row demo_intent 7), begun)"
  using workspace_begin_idempotent [OF rooted_ok begun_run, of 9] by simp

section \<open>Receipts move forward\<close>

lemma workspace_steps_ok:
  assumes "workspace_step\<^sup>*\<^sup>* s s'" "workspace_inv s" "trees_inv s"
  shows "workspace_inv s' \<and> trees_inv s' \<and> workspaces_le s s'"
  using assms
proof (induction rule: rtranclp_induct)
  case (step y z)
  then show ?case using workspace_step_ok [of y z] workspaces_le_trans [of s y z] by simp
qed simp

text \<open>
  C21. Through any sequence of workspace operations every receipt stays and only moves forward: its
  status never goes back, its source, target, repository and creation time never change, once a
  source has been inspected its manifest and hash stay what they were, and once it is prepared so
  does the whole summary. Every stored receipt keeps passing the checks it is read with.
\<close>

theorem workspace_receipts_forward:
  assumes "workspace_inv s" "trees_inv s" "workspace_step\<^sup>*\<^sup>* s s'"
  shows "workspace_inv s' \<and> (\<forall>r \<in> set (workspace_sync_receipts s). \<exists>r' \<in> set (workspace_sync_receipts s'). workspace_le r r')"
  using workspace_steps_ok [OF assms(3,1,2)] by (simp add: workspaces_le_def)

theorem workspace_receipts_forward_witness:
  "workspace_inv begun \<and> workspace_sync_receipts begun = [new_workspace_row demo_intent 7]"
proof -
  have "workspace_step rooted begun" using workspace_step.begin_sync [of rooted demo_intent 7] begun_run by simp
  then have "workspace_step\<^sup>*\<^sup>* rooted begun" by blast
  from workspace_receipts_forward [OF workspace_inv_rooted rooted_inv this] show ?thesis by (simp add: begun_def)
qed

lemma workspace_row_follows:
  assumes "workspace_inv s'" "workspaces_le s s'" "queryWorkspaceSyncReceipt k s = Inr r" "workspace_inv s"
  obtains r' where "queryWorkspaceSyncReceipt k s' = Inr r'" "workspace_le r r'"
proof -
  note r = queryWorkspaceSyncReceipt_Inr [OF assms(4,3)]
  obtain r' where r': "r' \<in> set (workspace_sync_receipts s')" "workspace_le r r'"
    using assms(2) r(2) by (auto simp: workspaces_le_def)
  have "workspace_at k r'"
    using r(3) r'(2) by (auto simp: workspace_at_def workspace_le_def workspace_key_def workspace_source_def)
  then show thesis
    using that r'(2) workspace_at_unique [OF assms(1) r'(1)] by (simp add: queryWorkspaceSyncReceipt_inv [OF assms(1)])
qed

text \<open>
  C22. A prepared workspace is the inspected one. After a manifest was pinned under a sync key, and
  whatever workspace operations followed, only that manifest can be pinned there again, and a sync
  that finishes there does so with a summary of that manifest's commit, object format, directory
  and SHA-256 hash.
\<close>

theorem finished_is_inspected:
  assumes "workspace_inv s" "trees_inv s" "PinWorkspaceSyncManifest k m t s = (Inr r, s1)" "workspace_step\<^sup>*\<^sup>* s1 s2"
  shows "(PinWorkspaceSyncManifest k m' t' s2 = (Inr r', s') \<longrightarrow> m' = m)
    \<and> (FinishWorkspaceSync k sm t' s2 = (Inr r', s') \<longrightarrow>
        wsum_HeadOID sm = wf_HeadOID m \<and> wsum_ObjectFormat sm = wf_ObjectFormat m
        \<and> wsum_WorkingDirectory sm = wf_WorkingDirectory m \<and> wsum_ManifestHash sm = sha256_hex (manifest_json m))"
proof -
  note pin = PinWorkspaceSyncManifest_inv [OF assms(1,3)]
  have pinst: "workspace_step s s1" using workspace_step.pin_sync [of s k m t] assms(3) by simp
  have tinv1: "trees_inv s1" using workspace_step_ok [OF pinst assms(1,2)] by simp
  note st = workspace_steps_ok [OF assms(4) conjunct1 [OF pin] tinv1]
  have one: "workspace_inv s1" and q1: "queryWorkspaceSyncReceipt k s1 = Inr r" using pin by simp_all
  have two: "workspace_inv s2" and le12: "workspaces_le s1 s2" using st by simp_all
  obtain r2 where r2: "queryWorkspaceSyncReceipt k s2 = Inr r2" "workspace_le r r2"
    by (rule workspace_row_follows [OF two le12 q1 one])
  then have man: "Receipt_Manifest r2 = m" "ws_status r2 \<noteq> WorkspaceSyncPending"
    using pin by (auto simp: workspace_le_def)
  have hash: "ws_manifest_hash r2 = sha256_hex (manifest_json m)"
    using queryWorkspaceSyncReceipt_Inr(4) [OF two r2(1)] man
    by (simp add: workspace_row_ok_def receipt_check_None WorkspaceManifestHash_Inr)
  have "m' = m" if "PinWorkspaceSyncManifest k m' t' s2 = (Inr r', s')"
    using two that by (cases rule: PinWorkspaceSyncManifest_cases) (use r2(1) man in auto)
  moreover have "wsum_HeadOID sm = wf_HeadOID m \<and> wsum_ObjectFormat sm = wf_ObjectFormat m
      \<and> wsum_WorkingDirectory sm = wf_WorkingDirectory m \<and> wsum_ManifestHash sm = sha256_hex (manifest_json m)"
    if "FinishWorkspaceSync k sm t' s2 = (Inr r', s')"
    using two that
    by (cases rule: FinishWorkspaceSync_cases)
      (use r2(1) man(1) hash in \<open>auto simp: Receipt_Manifest_def Receipt_Summary_def summary_agrees_def\<close>)
  ultimately show ?thesis by blast
qed

lemma begun_inv: "workspace_inv begun" "trees_inv begun"
  using BeginWorkspaceSync_inv(1) [OF workspace_inv_rooted rooted_inv begun_run]
    trees_inv_cong [OF BeginWorkspaceSync_inv(2,3) [OF workspace_inv_rooted rooted_inv begun_run]] rooted_inv by simp_all

theorem finished_is_inspected_witness:
  "\<exists>r s1. PinWorkspaceSyncManifest (intent_key demo_intent) demo_manifest 8 begun = (Inr r, s1)
     \<and> \<not> (\<exists>r' s'. PinWorkspaceSyncManifest (intent_key demo_intent) (demo_manifest\<lparr>wf_Clean := False\<rparr>) 9 s1 = (Inr r', s'))"
proof -
  have q: "queryWorkspaceSyncReceipt (intent_key demo_intent) begun = Inr (new_workspace_row demo_intent 7)"
    unfolding queryWorkspaceSyncReceipt_inv [OF begun_inv(1)] by (simp add: begun_def)
  have h: "WorkspaceManifestHash demo_manifest = Inr (sha256_hex (manifest_json demo_manifest))"
    by (simp add: WorkspaceManifestHash_Inr demo_manifest_valid)
  have key: "WorkspaceSyncKey_Validate (intent_key demo_intent) = None"
    by (simp add: WorkspaceSyncKey_Validate_def intent_key_def)
  have url: "wf_GitURL demo_manifest = ''ssh://host/repo''" by (simp add: demo_manifest_def)
  obtain r s1 where run: "PinWorkspaceSyncManifest (intent_key demo_intent) demo_manifest 8 begun = (Inr r, s1)"
    by (simp add: PinWorkspaceSyncManifest_def key h PinWorkspaceSyncManifest_tx_def tx_bind_def tx_query_def q url
        tx_exec_def tx_ret_def withImmediateTransaction_def)
  have "demo_manifest\<lparr>wf_Clean := False\<rparr> \<noteq> demo_manifest" by (simp add: demo_manifest_def)
  then show ?thesis using run finished_is_inspected [OF begun_inv run] by blast
qed

section \<open>Manifests\<close>

text \<open>
  C24. The manifest check is meant to keep the working directory inside the repository, yet it accepts
  the path "a/../..", whose cleaned form is the parent directory: the prefix test looks for "../" and
  misses a path that cleans to exactly ".." without being written so.
\<close>

theorem manifest_accepts_parent:
  "WorkspaceManifest_Validate (demo_manifest\<lparr>wf_WorkingDirectory := ''a/../..''\<rparr>) = None \<and> path_Clean ''a/../..'' = ''..''"
proof -
  have clean: "path_Clean ''a/../..'' = ''..''" by code_simp
  have pr: "printable ''a/../..''" by (simp add: printable_def byte_def)
  have "working_directory_check ''a/../..'' = None"
    using printable_text [OF pr]
    by (simp add: working_directory_check_def MaximumWorkspaceRelativeBytes_def path_IsAbs_def clean HasPrefix_def)
  then show ?thesis
    using demo_manifest_valid clean by (simp add: WorkspaceManifest_Validate_def demo_manifest_def)
qed

text \<open>
  C23. A transfer manifest that validates is bounded: one or two artifacts of distinct kinds, each from 1
  byte through 256 MiB, whose sizes add up without overflow to at most 512 MiB; there is a bundle
  exactly for the two bundle strategies, and the fallback warning exactly for the full one.
\<close>

theorem transfer_manifest_bounds:
  assumes "WorkspaceTransferManifest_Validate m = None"
  shows "1 \<le> length (wt_Artifacts m) \<and> length (wt_Artifacts m) \<le> 2
    \<and> (\<forall>a \<in> set (wt_Artifacts m). 1 \<le> wad_Size a \<and> wad_Size a \<le> 268435456 \<and> sha256DigestPattern (wad_SHA256 a))
    \<and> sum_list (map wad_Size (wt_Artifacts m)) \<le> 536870912
    \<and> ((\<exists>a \<in> set (wt_Artifacts m). wad_Kind a = ''bundle'') \<longleftrightarrow> wt_Strategy m \<in> {WorkspaceStrategyThin, WorkspaceStrategyFull})
    \<and> (WorkspaceWarningFullHistoryFallback \<in> set (wt_Warnings m) \<longleftrightarrow> wt_Strategy m = WorkspaceStrategyFull)
    \<and> distinct (map wad_Kind (wt_Artifacts m))"
proof -
  have len: "1 \<le> length (wt_Artifacts m)" "length (wt_Artifacts m) \<le> 2"
    and val: "WorkspaceStrategy_Validate (wt_Strategy m) = None"
    using assms by (auto simp: WorkspaceTransferManifest_Validate_def Suc_le_eq split: option.splits)
  obtain n b where loop: "artifacts_loop '''' 0 False (wt_Artifacts m) = Inr (n, b)"
    and rest: "n \<le> MaximumWorkspaceTransferBytes"
      "(wt_Strategy m = WorkspaceStrategyThin \<or> wt_Strategy m = WorkspaceStrategyFull) = b"
      "(wt_Strategy m = WorkspaceStrategyFull) = (WorkspaceWarningFullHistoryFallback \<in> set (wt_Warnings m))"
    using assms by (auto simp: WorkspaceTransferManifest_Validate_def split: option.splits sum.splits prod.splits)
  have "int (length (wt_Artifacts m)) * MaximumWorkspaceArtifactBytes \<le> 2 * MaximumWorkspaceArtifactBytes"
    using len(2) by (simp add: MaximumWorkspaceArtifactBytes_def)
  then have fits: "0 + int (length (wt_Artifacts m)) * MaximumWorkspaceArtifactBytes \<le> MaxInt64"
    by (simp add: MaximumWorkspaceArtifactBytes_def MaxInt64_def)
  note lp = artifacts_loop_Inr [OF loop order_refl fits]
  have dist: "distinct (map wad_Kind (wt_Artifacts m))"
  proof (cases "wt_Artifacts m")
    case (Cons x xs)
    have "wad_Kind x \<noteq> ''''" using lp(3) Cons
      by (auto simp: WorkspaceArtifactDescriptor_Validate_def WorkspaceArtifactKind_Validate_def
          WorkspaceArtifactBundle_def WorkspaceArtifactOverlay_def)
    then show ?thesis using Cons len(2) loop by (cases xs) (auto split: option.splits if_splits)
  qed simp
  show ?thesis
    using len lp rest dist
    by (auto simp: WorkspaceArtifactDescriptor_Validate_def MaximumWorkspaceArtifactBytes_def
        MaximumWorkspaceTransferBytes_def WorkspaceArtifactBundle_def)
qed

definition demo_transfer :: WorkspaceTransferManifest where
  "demo_transfer = \<lparr>wt_TransferID = uid CHR ''4'', wt_WorkspaceID = uid CHR ''8'', wt_Strategy = WorkspaceStrategyThin,
     wt_ManifestHash = replicate 64 CHR ''0'',
     wt_Artifacts = [\<lparr>wad_Kind = ''bundle'', wad_Size = 10, wad_SHA256 = replicate 64 CHR ''0''\<rparr>], wt_Warnings = []\<rparr>"

theorem transfer_manifest_bounds_witness:
  "WorkspaceTransferManifest_Validate demo_transfer = None \<and> sum_list (map wad_Size (wt_Artifacts demo_transfer)) \<le> 536870912"
proof -
  have "match_exact hexdigit 64 (replicate 64 CHR ''0'')"
    by (simp add: match_exact_def list_all_iff hexdigit_def digit_def byte_def)
  then have "WorkspaceTransferManifest_Validate demo_transfer = None"
    by (simp add: WorkspaceTransferManifest_Validate_def demo_transfer_def first_err.simps fail_if_def wrap_def
        sha256DigestPattern_def WorkspaceArtifactDescriptor_Validate_def WorkspaceArtifactKind_Validate_def
        WorkspaceArtifactBundle_def WorkspaceArtifactOverlay_def MaximumWorkspaceArtifactBytes_def
        MaximumWorkspaceTransferBytes_def add_int64_def wrap_int64_def ValidateWorkspaceWarnings_def
        MaximumWorkspaceWarnings_def)
  with transfer_manifest_bounds [OF this] show ?thesis by blast
qed

end
