(* ===== verification/Mailbox_Props.thy ===== *)
theory Mailbox_Props
  imports Mailbox_Steps Trees_Props
begin

text \<open>
  Properties of mailboxes: sending never fails for want of a receipt slot, retries are answered from
  their receipt, reading delivers every message once and in order, and messages stay on the edges
  of their tree.
\<close>

section \<open>Concrete mailboxes\<close>

definition worker_principal :: Principal where
  "worker_principal = NewWorkerPrincipal (uid CHR ''a'') (uid CHR ''1'') (uid CHR ''3'') (uid CHR ''2'') (uid CHR ''d'')"

definition root_principal :: Principal where
  "root_principal = NewRootPrincipal (uid CHR ''a'') (uid CHR ''1'') (uid CHR ''2'') (uid CHR ''d'')"

definition to_parent :: MessageTarget where
  "to_parent = \<lparr>mt_Kind = MessageTargetParent, mt_AgentID = ''''\<rparr>"

lemma mailbox_inv_staffed: "mailbox_inv staffed"
  by (simp add: mailbox_inv_def affected_def)

lemma staffed_principals:
  "principals staffed = [principal_row root_principal 6, principal_row worker_principal 7]"
  by (simp add: staffed_def rooted_principals root_principal_def worker_principal_def)

lemma demo_principals:
  "p_Identity worker_principal = demo_worker" "p_Identity root_principal = demo_root"
  "Principal_Validate worker_principal = None" "Principal_Validate root_principal = None"
  by (simp_all add: worker_principal_def root_principal_def demo_worker_def demo_root_def
      Principal_Validate_def PrincipalIdentity_Validate_def NewWorkerPrincipal_def NewRootPrincipal_def)

lemma staffed_stored:
  "stored_principal worker_principal staffed = Inr worker_principal"
  "stored_principal root_principal staffed = Inr root_principal"
  by (simp_all add: stored_principal_def Let_def demo_principals queryPrincipal_inv [OF staffed_inv]
      staffed_principals principal_at_def Principal_Matches_def)

lemma hello_message: "ValidateMailboxMessage ''hello'' = None"
proof -
  have "printable ''hello''" by (simp add: printable_def byte_def)
  from printable_text [OF this] show ?thesis
    by (simp add: ValidateMailboxMessage_def MaximumMailboxMessageBytes_def)
qed

lemma worker_to_parent: "resolveMessageRecipient worker_principal to_parent staffed = Inr (uid CHR ''2'')"
  by (simp add: resolveMessageRecipient_def Let_def demo_principals to_parent_def Require_role role_capabilities_def
      WorkerCapabilities_def)

section \<open>Sending\<close>

text \<open>
  C16. A send is only ever refused for a stated reason. In a well-formed state, a valid message from a
  stored source to a resolvable, stored recipient, under a message identifier that has no receipt, is
  accepted whenever fewer than 1024 messages are pending and the sequence is not exhausted: pruning
  always finds an acknowledged receipt to drop, and no table constraint is violated. The message gets
  the next sequence of its recipient, goes to the end of that recipient's queue, and no other
  recipient's queue changes.
\<close>

theorem send_enqueues:
  assumes "mailbox_inv s" "trees_inv s"
    and "Principal_Validate source = None" "MessageTarget_Validate target = None" "ValidateID i = None"
      "ValidateMailboxMessage m = None" "0 \<le> ts"
    and "stored_principal source s = Inr st" "resolveMessageRecipient st target s = Inr a"
      "queryPrincipal c t a s = Inr q"
    and "sel1 (\<lambda>r. mr_message_id r = i) (mailbox_receipts s) = None"
    and "affected (message_for c t a) (mailbox_messages s) < maximumPendingMailboxMessages"
      "last_sequence c t a s < MaxInt64"
    and "c = pi_ControllerID (p_Identity source)" "t = pi_TreeID (p_Identity source)"
  shows "\<exists>s'. SendMailboxMessage source target i m ts s =
      (Inr \<lparr>md_RecipientAgentID = a, md_MessageID = i, md_Sequence = nat (last_sequence c t a s + 1)\<rparr>, s')
    \<and> pending_after c t a 0 s' =
        pending_after c t a 0 s @ [message_row (p_Identity source) a (last_sequence c t a s + 1) i m ts]
    \<and> (\<forall>c' t' a'. (c', t', a') \<noteq> (c, t, a) \<longrightarrow> pending_after c' t' a' 0 s' = pending_after c' t' a' 0 s)"
proof -
  let ?p = "p_Identity source" and ?n = "last_sequence c t a s + 1"
  let ?s = "enqueued ?p a i m ts s" and ?row = "message_row (p_Identity source) a (last_sequence c t a s + 1) i m ts"
  have none: "findMailboxDelivery ?p a i m s = Inr None" using assms(11) by (simp add: findMailboxDelivery_def)
  have "send_spec source target i m ts s =
      Inr (\<lparr>md_RecipientAgentID = a, md_MessageID = i, md_Sequence = nat ?n\<rparr>, ?s)"
    using assms(8-10,12-) none by (simp add: send_spec_def Let_def)
  then have run: "SendMailboxMessage source target i m ts s =
      (Inr \<lparr>md_RecipientAgentID = a, md_MessageID = i, md_Sequence = nat ?n\<rparr>, ?s)"
    using sendMailboxMessageTx_eq [OF assms(1,2,6,7)] assms(3-7) by (simp add: SendMailboxMessage_def)
  have msgs: "mailbox_messages ?s = mailbox_messages s @ [?row]"
    by (simp add: enqueued_tables assms(14,15))
  have below: "ms_sequence r \<le> ?n" if "r \<in> set (mailbox_messages s)" "message_for c t a r" for r
    using message_sequence_bounds(3) [OF assms(1) that(1), of c t a] that(2) by (simp add: box_keys)
  have n: "0 < ?n" using last_sequence_bounds(1) [OF assms(1), of c t a] by simp
  have "pending_after c t a 0 ?s = sort_key ms_sequence
      (filter (\<lambda>r. message_for c t a r \<and> 0 < ms_sequence r) (mailbox_messages s) @ [?row])"
    using n by (simp add: pending_after_def msgs box_keys assms(14,15))
  also have "\<dots> = pending_after c t a 0 s @ [?row]"
    unfolding pending_after_def using below by (subst sort_key_snoc_max) auto
  finally have own: "pending_after c t a 0 ?s = pending_after c t a 0 s @ [?row]" .
  have "pending_after c' t' a' 0 ?s = pending_after c' t' a' 0 s" if "(c', t', a') \<noteq> (c, t, a)" for c' t' a'
  proof -
    have "\<not> message_for c' t' a' ?row" using that by (auto simp: box_keys assms(14,15))
    then show ?thesis by (simp add: pending_after_def msgs)
  qed
  with run own show ?thesis by blast
qed

theorem send_enqueues_witness:
  "\<exists>s'. SendMailboxMessage worker_principal to_parent (uid CHR ''7'') ''hello'' 8 staffed =
     (Inr \<lparr>md_RecipientAgentID = uid CHR ''2'', md_MessageID = uid CHR ''7'', md_Sequence = 1\<rparr>, s')
   \<and> pending_after (uid CHR ''a'') (uid CHR ''1'') (uid CHR ''2'') 0 s' =
       [message_row demo_worker (uid CHR ''2'') 1 (uid CHR ''7'') ''hello'' 8]"
proof -
  let ?A = "uid CHR ''a''" and ?T = "uid CHR ''1''" and ?R = "uid CHR ''2''"
  have q: "queryPrincipal ?A ?T ?R staffed = Inr root_principal"
    by (simp add: queryPrincipal_inv [OF staffed_inv] staffed_principals principal_at_def demo_principals)
  have seq: "last_sequence ?A ?T ?R staffed = 0" "pending_after ?A ?T ?R 0 staffed = []"
    by (simp_all add: last_sequence_def pending_after_def)
  have tgt: "MessageTarget_Validate to_parent = None" by (simp add: MessageTarget_Validate_def to_parent_def)
  have id: "ValidateID (uid CHR ''7'') = None" by simp
  have none: "sel1 (\<lambda>r. mr_message_id r = uid CHR ''7'') (mailbox_receipts staffed) = None" by simp
  have room: "affected (message_for ?A ?T ?R) (mailbox_messages staffed) < maximumPendingMailboxMessages"
    "last_sequence ?A ?T ?R staffed < MaxInt64"
    by (simp_all add: affected_def maximumPendingMailboxMessages_def MaxInt64_def seq)
  have ct: "?A = pi_ControllerID (p_Identity worker_principal)" "?T = pi_TreeID (p_Identity worker_principal)"
    by (simp_all add: demo_principals)
  from send_enqueues [OF mailbox_inv_staffed staffed_inv demo_principals(3) tgt id hello_message, of 8,
      OF _ staffed_stored(1) worker_to_parent q none room ct]
  show ?thesis unfolding seq demo_principals by force
qed


section \<open>Retries\<close>

type_synonym mailbox_read = "Principal \<times> nat \<times> int"

definition run_reads :: "mailbox_read list \<Rightarrow> BrokerDb \<Rightarrow> BrokerDb" where
  "run_reads rs s = fold (\<lambda>(r, k, l) s. snd (ReadMailbox r k l s)) rs s"

lemma ReadMailbox_frame:
  fixes r :: Principal and k :: nat and l :: int
  assumes "mailbox_inv s" "trees_inv s"
  defines "s' \<equiv> snd (ReadMailbox r k l s)"
  shows "mailbox_inv s'" "trees_inv s'" "mailbox_receipts s' = mailbox_receipts s"
    "principals s' = principals s" "trees s' = trees s"
proof -
  show "mailbox_inv s'" "trees_inv s'" using ReadMailbox_inv [OF assms(1,2)] by (simp_all add: s'_def)
  have "mailbox_receipts s' = mailbox_receipts s \<and> principals s' = principals s \<and> trees s' = trees s"
  proof (cases "ReadMailbox r k l s")
    case (Pair x s1)
    then show ?thesis
    proof (cases x)
      case (Inl e)
      then show ?thesis using Pair guard_tx_rollback unfolding s'_def ReadMailbox_def by (metis snd_conv)
    next
      case (Inr w)
      then have "ReadMailbox r k l s = (Inr w, s1)" using Pair by simp
      from ReadMailbox_Inr(2) [OF assms(1,2) this] Pair show ?thesis by (simp add: s'_def)
    qed
  qed
  then show "mailbox_receipts s' = mailbox_receipts s" "principals s' = principals s" "trees s' = trees s" by simp_all
qed

lemma run_reads_frame:
  assumes "mailbox_inv s" "trees_inv s"
  shows "mailbox_inv (run_reads rs s) \<and> trees_inv (run_reads rs s)
    \<and> mailbox_receipts (run_reads rs s) = mailbox_receipts s \<and> principals (run_reads rs s) = principals s
    \<and> trees (run_reads rs s) = trees s"
  using assms
proof (induction rs arbitrary: s)
  case (Cons x rs)
  obtain r k l where x: "x = (r, k, l)" by (cases x) auto
  note f = ReadMailbox_frame [OF Cons.prems, of r k l]
  show ?case using Cons.IH [OF f(1,2)] f(3-5) by (simp add: run_reads_def x)
qed (simp add: run_reads_def)

lemma queries_cong:
  assumes "principals s' = principals s" "trees s' = trees s"
  shows "stored_principal p s' = stored_principal p s" "resolveMessageRecipient p g s' = resolveMessageRecipient p g s"
    "queryPrincipal c t a s' = queryPrincipal c t a s"
  unfolding stored_principal_def resolveMessageRecipient_def queryPrincipal_def queryTreeByID_def assms by simp_all

text \<open>
  C17. A retried send is answered, not repeated. After a send has succeeded, and whatever reads have
  happened since, sending the same message again under its identifier gives the same delivery and
  changes nothing, even when the message has long been acknowledged; sending another text under that
  identifier is a conflict and changes nothing either.
\<close>

theorem send_retry:
  assumes "mailbox_inv s" "trees_inv s"
    and "SendMailboxMessage source target i m ts s = (Inr d, s1)" "0 \<le> ts'"
  shows "SendMailboxMessage source target i m ts' (run_reads rs s1) = (Inr d, run_reads rs s1)
    \<and> (ValidateMailboxMessage m' = None \<and> m' \<noteq> m \<longrightarrow>
        SendMailboxMessage source target i m' ts' (run_reads rs s1) = (Inl (Sentinel ErrConflict), run_reads rs s1))"
proof -
  let ?p = "p_Identity source"
  let ?c = "pi_ControllerID ?p" and ?t = "pi_TreeID ?p"
  obtain st a q r where st: "stored_principal source s = Inr st" and a: "resolveMessageRecipient st target s = Inr a"
    and q: "sel1 (principal_at ?c ?t a) (principals s) = Some q"
    and r: "sel1 (\<lambda>r. mr_message_id r = i) (mailbox_receipts s1) = Some r" "receipt_matches ?p a m r"
      "d = \<lparr>md_RecipientAgentID = a, md_MessageID = i, md_Sequence = nat (mr_sequence r)\<rparr>"
      "r \<in> set (mailbox_receipts s1)"
    and same: "principals s1 = principals s" "trees s1 = trees s"
    using assms(1-3)
  proof (cases rule: SendMailboxMessage_cases)
    case (replay st a q r)
    then show thesis using that [OF replay(1-3), of r] sel1_SomeD [OF replay(4)] by simp
  next
    case (fresh st a q)
    let ?r = "receipt_row ?p a (last_sequence ?c ?t a s + 1) i m"
    have none: "sel1 (\<lambda>r. mr_message_id r = i) (pruned ?c ?t a s) = None"
      using fresh(4) pruned_subset [of ?c ?t a s] by (auto simp: sel1_None_iff)
    show thesis
      by (rule that [OF fresh(1-3), of ?r]) (simp_all add: fresh(7,8) enqueued_tables none receipt_matches_def)
  qed
  note inv1 = SendMailboxMessage_inv [OF assms(1,2), of source target i m ts, unfolded assms(3) snd_conv]
  define s2 where "s2 = run_reads rs s1"
  have s2: "mailbox_inv s2" "trees_inv s2" "mailbox_receipts s2 = mailbox_receipts s1"
    "principals s2 = principals s" "trees s2 = trees s"
    using run_reads_frame [of s1 rs] inv1 same by (simp_all add: s2_def)
  have seq: "uint64_of_int64 (mr_sequence r) = nat (mr_sequence r)"
    using uint64_of_int64_nat [of "mr_sequence r"] r(4) inv1 receipt_below_last [OF _ r(4) receipt_box_def]
      order_trans [OF receipt_below_last(2) [OF _ r(4) receipt_box_def] last_sequence_bounds(2)] by simp
  have val: "Principal_Validate source = None" "MessageTarget_Validate target = None" "ValidateID i = None"
    "ValidateMailboxMessage m = None"
    using assms(3) by (simp_all add: SendMailboxMessage_def)
  have q2: "queryPrincipal ?c ?t a s2 = Inr (principal_of q)"
    using q by (simp add: queryPrincipal_inv [OF s2(2)] s2(4))
  note here = queries_cong [OF s2(4,5)]
  have spec: "send_spec source target i x ts' s2 =
      (if receipt_matches ?p a x r then Inr (d, s2) else Inl (Sentinel ErrConflict))" for x
    using st a q2 r(1-3) seq
    by (simp add: send_spec_def Let_def here(1,2) s2(3) findMailboxDelivery_def receipt_matches_def)
  have run: "SendMailboxMessage source target i x ts' s2 =
      (if receipt_matches ?p a x r then (Inr d, s2) else (Inl (Sentinel ErrConflict), s2))"
    if "ValidateMailboxMessage x = None" for x
    using spec [of x] sendMailboxMessageTx_eq [OF s2(1,2) that assms(4)] val that assms(4)
    by (simp add: SendMailboxMessage_def)
  show ?thesis
    using run [OF val(4)] run [of m'] r(2) unfolding s2_def [symmetric] by (auto simp: receipt_matches_def)
qed

theorem send_retry_witness:
  "\<exists>s1. SendMailboxMessage worker_principal to_parent (uid CHR ''7'') ''hello'' 8 staffed =
      (Inr \<lparr>md_RecipientAgentID = uid CHR ''2'', md_MessageID = uid CHR ''7'', md_Sequence = 1\<rparr>, s1)
    \<and> SendMailboxMessage worker_principal to_parent (uid CHR ''7'') ''hello'' 9 (run_reads [(root_principal, 1, 4)] s1) =
      (Inr \<lparr>md_RecipientAgentID = uid CHR ''2'', md_MessageID = uid CHR ''7'', md_Sequence = 1\<rparr>,
       run_reads [(root_principal, 1, 4)] s1)"
proof -
  have spec: "send_spec worker_principal to_parent (uid CHR ''7'') ''hello'' 8 staffed =
      Inr (\<lparr>md_RecipientAgentID = uid CHR ''2'', md_MessageID = uid CHR ''7'', md_Sequence = 1\<rparr>,
        enqueued demo_worker (uid CHR ''2'') (uid CHR ''7'') ''hello'' 8 staffed)"
    by (simp add: send_spec_def Let_def staffed_stored worker_to_parent demo_principals
        queryPrincipal_inv [OF staffed_inv] staffed_principals principal_at_def findMailboxDelivery_def affected_def
        maximumPendingMailboxMessages_def last_sequence_def MaxInt64_def)
  have "MessageTarget_Validate to_parent = None" by (simp add: MessageTarget_Validate_def to_parent_def)
  then have run: "SendMailboxMessage worker_principal to_parent (uid CHR ''7'') ''hello'' 8 staffed =
      (Inr \<lparr>md_RecipientAgentID = uid CHR ''2'', md_MessageID = uid CHR ''7'', md_Sequence = 1\<rparr>,
       enqueued demo_worker (uid CHR ''2'') (uid CHR ''7'') ''hello'' 8 staffed)"
    using spec sendMailboxMessageTx_eq [OF mailbox_inv_staffed staffed_inv hello_message, of 8] hello_message
      demo_principals(3) by (simp add: SendMailboxMessage_def)
  have "(0 :: int) \<le> 9" by simp
  from send_retry [OF mailbox_inv_staffed staffed_inv run this, of "[(root_principal, 1, 4)]"] run show ?thesis by blast
qed


section \<open>Reading\<close>

text \<open>A reader that follows the cursors until a page is empty.\<close>

fun drain :: "nat \<Rightarrow> Principal \<Rightarrow> nat \<Rightarrow> int \<Rightarrow> BrokerDb \<Rightarrow> (MailboxMessage list \<times> BrokerDb) result" where
  "drain 0 r k l s = Inl (Plain ''out of fuel'')"
| "drain (Suc fuel) r k l s =
     (case ReadMailbox r k l s of
        (Inl e, _) \<Rightarrow> Inl e
      | (Inr w, s') \<Rightarrow>
          if wm_Messages w = [] then Inr ([], s')
          else case drain fuel r (wm_NextCursor w) l s' of
                 Inl e \<Rightarrow> Inl e | Inr (ms, s'') \<Rightarrow> Inr (wm_Messages w @ ms, s''))"

definition may_read :: "Principal \<Rightarrow> bool" where
  "may_read r \<longleftrightarrow> Principal_Validate r = None"

lemma ReadMailbox_run:
  assumes "mailbox_inv s" "trees_inv s" "may_read r" "stored_principal r s = Inr st" "1 \<le> l" "l \<le> 32"
    and "int k \<le> last_sequence c t a s"
    and "c = pi_ControllerID (p_Identity r)" "t = pi_TreeID (p_Identity r)" "a = pi_AgentID (p_Identity r)"
  shows "ReadMailbox r k l s = (Inr (read_page c t a k l s), acknowledge c t a k s)"
proof -
  have "Require r (if pi_ParentAgentID (p_Identity r) \<noteq> '''' then CapabilityMessageReceiveSelf else CapabilityMessageTree) = None"
    using assms(3) by (simp add: Require_role may_read_def role_capabilities_def RootCapabilities_def WorkerCapabilities_def)
  moreover have "\<not> MaxInt64 < int k"
    using assms(7) last_sequence_bounds(2) [OF assms(1), of c t a] by simp
  ultimately show ?thesis
    using assms(3-) ReadMailbox_tx_eq [OF assms(1,2), of r k l]
    by (simp add: ReadMailbox_def may_read_def MaximumMailboxPage_def withImmediateTransaction_def)
qed

lemma pending_sorted:
  assumes "mailbox_inv s"
  shows "sorted_wrt (<) (map ms_sequence (pending_after c t a k s))"
proof -
  let ?P = "pending_after c t a k s"
  have "inj_on ms_sequence (set ?P)"
  proof (rule inj_onI)
    fix x y assume xy: "x \<in> set ?P" "y \<in> set ?P" "ms_sequence x = ms_sequence y"
    then have "receipt_of x \<in> set (mailbox_receipts s)" "receipt_of y \<in> set (mailbox_receipts s)"
      "receipt_slot (receipt_of x) = receipt_slot (receipt_of y)"
      using mailbox_invD(7) [OF assms] by (auto simp: set_pending_after message_row_ok_def receipt_slot_def box_keys)
    then have "ms_message_id x = ms_message_id y"
      using uniq_same [OF mailbox_invD(3) [OF assms]] by (metis receipt_of_simps(1))
    then show "x = y" using uniq_same [OF mailbox_invD(4) [OF assms]] xy by (auto simp: set_pending_after)
  qed
  moreover have "distinct ?P" using mailbox_invD(4) [OF assms] by (simp add: pending_after_def uniq_def distinct_map)
  ultimately have "distinct (map ms_sequence ?P)" by (simp add: distinct_map)
  moreover have "sorted (map ms_sequence ?P)" by (simp add: pending_after_def)
  ultimately show ?thesis by (simp add: strict_sorted_iff)
qed

text \<open>What is left behind a page that ends at its last message.\<close>

lemma sorted_drop_filter:
  assumes "sorted_wrt (<) (map f xs)" "0 < n" "n \<le> length xs"
  shows "drop n xs = filter (\<lambda>x. f (xs ! (n - 1)) < (f x :: int)) xs"
proof -
  have lt: "f (xs ! i) < f (xs ! j)" if "i < j" "j < length xs" for i j
    using assms(1) that by (simp add: sorted_wrt_iff_nth_less)
  have "filter (\<lambda>x. f (xs ! (n - 1)) < f x) (take n xs) = []"
  proof -
    have "\<not> f (xs ! (n - 1)) < f (xs ! i)" if "i < n" for i
    proof (cases "i = n - 1")
      case False
      then have "i < n - 1" "n - 1 < length xs" using that assms(2,3) by linarith+
      from lt [OF this] show ?thesis by simp
    qed simp
    then show ?thesis by (auto simp: filter_empty_conv in_set_conv_nth)
  qed
  moreover have "filter (\<lambda>x. f (xs ! (n - 1)) < f x) (drop n xs) = drop n xs"
    using lt assms(2,3) by (auto simp: filter_id_conv in_set_conv_nth)
  ultimately show ?thesis
    using filter_append [of "\<lambda>x. f (xs ! (n - 1)) < f x" "take n xs" "drop n xs"] by simp
qed


lemma pending_after_later:
  "k \<le> k' \<Longrightarrow> pending_after c t a k' s = filter (\<lambda>r. int k' < ms_sequence r) (pending_after c t a k s)"
  by (auto simp: pending_after_def filter_sort intro!: arg_cong [where f = "sort_key ms_sequence"] filter_cong)

lemma read_page_next:
  assumes inv: "mailbox_inv s" and l: "1 \<le> l" and ne: "pending_after c t a k s \<noteq> []"
  defines "P \<equiv> pending_after c t a k s" and "n \<equiv> min (nat l) (length (pending_after c t a k s))"
  shows "wm_Messages (read_page c t a k l s) = map mailbox_message (take n P)"
    "int (wm_NextCursor (read_page c t a k l s)) = ms_sequence (P ! (n - 1))"
    "int k < int (wm_NextCursor (read_page c t a k l s))"
    "int (wm_NextCursor (read_page c t a k l s)) \<le> last_sequence c t a s"
    "pending_after c t a (wm_NextCursor (read_page c t a k l s)) s = drop n P" "0 < n" "n \<le> length P"
proof -
  let ?w = "read_page c t a k l s"
  show n: "0 < n" "n \<le> length P" using l ne by (auto simp: n_def P_def)
  have page: "take (nat l) P = take n P" by (simp add: n_def P_def min_def)
  then show "wm_Messages ?w = map mailbox_message (take n P)"
    by (simp add: read_page_def Let_def P_def [symmetric])
  have last: "P ! (n - 1) \<in> set P" using n by (simp add: nth_mem)
  then have mem: "P ! (n - 1) \<in> set (mailbox_messages s)" "message_box (P ! (n - 1)) = (c, t, a)" "int k < ms_sequence (P ! (n - 1))"
    by (simp_all add: P_def set_pending_after box_keys)
  have "take n P \<noteq> []" using n by auto
  moreover from this have "last (take n P) = P ! (n - 1)" using n by (simp add: last_conv_nth)
  ultimately have "wm_NextCursor ?w = nat (ms_sequence (P ! (n - 1)))"
    unfolding read_page_def Let_def P_def [symmetric] page by (simp add: last_map mailbox_message_def)
  then show next_eq: "int (wm_NextCursor ?w) = ms_sequence (P ! (n - 1))"
    using message_sequence_bounds(1) [OF inv mem(1)] by simp
  show "int k < int (wm_NextCursor ?w)" using next_eq mem(3) by simp
  show "int (wm_NextCursor ?w) \<le> last_sequence c t a s"
    using next_eq message_sequence_bounds(3) [OF inv mem(1,2)] by simp
  have "k \<le> wm_NextCursor ?w" using next_eq mem(3) by simp
  then have "pending_after c t a (wm_NextCursor ?w) s = filter (\<lambda>r. ms_sequence (P ! (n - 1)) < ms_sequence r) P"
    using pending_after_later [of k "wm_NextCursor ?w" c t a s] by (simp add: P_def next_eq [unfolded P_def])
  then show "pending_after c t a (wm_NextCursor ?w) s = drop n P"
    using sorted_drop_filter [OF pending_sorted [OF inv, of c t a k, folded P_def] n] by simp
qed


lemma acknowledge_others:
  "filter (\<lambda>r. \<not> message_for c t a r) (mailbox_messages (acknowledge c t a k s)) =
   filter (\<lambda>r. \<not> message_for c t a r) (mailbox_messages s)"
  by (auto simp: acknowledge_def intro: filter_cong)

lemma acknowledge_last:
  assumes "mailbox_inv s" "pending_after c t a k s = []"
  shows "acknowledge c t a k s = s\<lparr>mailbox_messages := filter (\<lambda>r. \<not> message_for c t a r) (mailbox_messages s)\<rparr>"
proof -
  have none: "\<not> int k < ms_sequence r" if "r \<in> set (mailbox_messages s)" "message_for c t a r" for r
    using assms(2) that set_pending_after [of c t a k s] by auto
  have pos: "0 < ms_sequence r" if "r \<in> set (mailbox_messages s)" for r
    by (rule message_sequence_bounds(1) [OF assms(1) that])
  have "mailbox_messages (acknowledge c t a k s) = filter (\<lambda>r. \<not> message_for c t a r) (mailbox_messages s)"
  proof (cases "k = 0")
    case True
    then have "filter (\<lambda>r. \<not> message_for c t a r) (mailbox_messages s) = mailbox_messages s"
      unfolding filter_id_conv using none pos by fastforce
    then show ?thesis using True by (simp add: acknowledge_def)
  next
    case False
    then show ?thesis using none by (auto simp: acknowledge_def not_less intro!: filter_cong)
  qed
  then show ?thesis by (simp add: acknowledge_def split: if_splits)
qed

lemma drain_pages:
  assumes "mailbox_inv s" "trees_inv s" "may_read r" "stored_principal r s = Inr st" "1 \<le> l" "l \<le> 32"
    and "int k \<le> last_sequence c t a s" "length (pending_after c t a k s) < fuel"
    and "c = pi_ControllerID (p_Identity r)" "t = pi_TreeID (p_Identity r)" "a = pi_AgentID (p_Identity r)"
  shows "drain fuel r k l s = Inr (map mailbox_message (pending_after c t a k s),
    s\<lparr>mailbox_messages := filter (\<lambda>r. \<not> message_for c t a r) (mailbox_messages s)\<rparr>)"
  using assms(1,2,4,7,8)
proof (induction fuel arbitrary: k s)
  case (Suc fuel)
  note run = ReadMailbox_run [OF Suc.prems(1,2) assms(3) Suc.prems(3) assms(5,6) Suc.prems(4) assms(9-11)]
  show ?case
  proof (cases "pending_after c t a k s = []")
    case True
    then show ?thesis using acknowledge_last [OF Suc.prems(1) True] by (simp add: run read_page_def)
  next
    case False
    let ?w = "read_page c t a k l s" and ?s = "acknowledge c t a k s" and ?P = "pending_after c t a k s"
    note pg = read_page_next [OF Suc.prems(1) assms(5) False]
    have kle: "k \<le> wm_NextCursor ?w" using pg(3) by simp
    have rest: "pending_after c t a (wm_NextCursor ?w) ?s = drop (min (nat l) (length ?P)) ?P"
      using pg(5) pending_after_later [OF kle, of c t a ?s] pending_after_later [OF kle, of c t a s] by simp
    have last: "last_sequence c t a ?s = last_sequence c t a s" by (simp add: last_sequence_def)
    have "drain fuel r (wm_NextCursor ?w) l ?s =
        Inr (map mailbox_message (pending_after c t a (wm_NextCursor ?w) ?s),
          ?s\<lparr>mailbox_messages := filter (\<lambda>r. \<not> message_for c t a r) (mailbox_messages ?s)\<rparr>)"
    proof (rule Suc.IH)
      show "mailbox_inv ?s" by (rule acknowledge_inv [OF Suc.prems(1)])
      show "trees_inv ?s" using Suc.prems(2) trees_inv_cong [of ?s s] by simp
      show "stored_principal r ?s = Inr st" using Suc.prems(3) queries_cong(1) [of ?s s] by simp
      show "int (wm_NextCursor ?w) \<le> last_sequence c t a ?s" using pg(4) last by simp
      show "length (pending_after c t a (wm_NextCursor ?w) ?s) < fuel"
        unfolding rest length_drop using pg(6,7) Suc.prems(5) by linarith
    qed
    moreover have "?s\<lparr>mailbox_messages := x\<rparr> = s\<lparr>mailbox_messages := x\<rparr>" for x by (simp add: acknowledge_def)
    moreover have "wm_Messages ?w \<noteq> []" unfolding pg(1) using pg(6) False by simp
    ultimately show ?thesis
      using pg(1) by (simp add: run acknowledge_others rest flip: map_append)
  qed
qed simp

text \<open>
  C18. Reading loses nothing, repeats nothing and keeps order. A recipient that follows the cursors
  from any cursor it may hold, with any page size, reads every pending message behind that cursor
  exactly once, in strictly increasing sequence; at the end its mailbox is empty, every other
  mailbox is untouched and so is the rest of the state. One page more than there are messages
  is enough.
\<close>

theorem mailbox_drained:
  assumes "mailbox_inv s" "trees_inv s" "Principal_Validate r = None" "stored_principal r s = Inr st"
    and "1 \<le> l" "l \<le> 32" "int k \<le> last_sequence c t a s" "length (mailbox_messages s) < fuel"
    and "c = pi_ControllerID (p_Identity r)" "t = pi_TreeID (p_Identity r)" "a = pi_AgentID (p_Identity r)"
  shows "drain fuel r k l s = Inr (map mailbox_message (pending_after c t a k s),
      s\<lparr>mailbox_messages := filter (\<lambda>r. \<not> message_for c t a r) (mailbox_messages s)\<rparr>)
    \<and> sorted_wrt (<) (map ms_sequence (pending_after c t a k s))
    \<and> set (pending_after c t a k s) = {r \<in> set (mailbox_messages s). message_for c t a r \<and> int k < ms_sequence r}"
proof -
  have "length (pending_after c t a k s) \<le> length (mailbox_messages s)"
    by (simp add: pending_after_def)
  then have "length (pending_after c t a k s) < fuel" using assms(8) by simp
  then show ?thesis
    using drain_pages [OF assms(1,2) _ assms(4-7)] assms(3,9-) pending_sorted [OF assms(1)] set_pending_after
    by (simp add: may_read_def)
qed

definition posted :: BrokerDb where
  "posted = enqueued demo_worker (uid CHR ''2'') (uid CHR ''7'') ''hello'' 8 staffed"

lemma posted_inv: "mailbox_inv posted" "trees_inv posted"
proof -
  have src: "PrincipalIdentity_Validate demo_worker = None"
    by (simp add: PrincipalIdentity_Validate_def)
  show "mailbox_inv posted"
    unfolding posted_def
    by (rule enqueued_inv [OF mailbox_inv_staffed src hello_message, where q = "principal_row root_principal 6"])
      (simp_all add: staffed_principals principal_at_def demo_principals affected_def maximumPendingMailboxMessages_def
        last_sequence_def MaxInt64_def)
  show "trees_inv posted" using staffed_inv trees_inv_cong [of posted staffed] by (simp add: posted_def enqueued_tables)
qed

theorem mailbox_drained_witness:
  "\<exists>s'. drain 2 root_principal 0 1 posted =
      Inr ([mailbox_message (message_row demo_worker (uid CHR ''2'') 1 (uid CHR ''7'') ''hello'' 8)], s')
    \<and> mailbox_messages s' = []"
proof -
  let ?A = "uid CHR ''a''" and ?T = "uid CHR ''1''" and ?R = "uid CHR ''2''"
  let ?m = "message_row demo_worker ?R 1 (uid CHR ''7'') ''hello'' 8"
  have msgs: "mailbox_messages posted = [?m]" by (simp add: posted_def enqueued_tables last_sequence_def)
  have own: "message_for ?A ?T ?R ?m" by (simp add: box_keys)
  have pend: "pending_after ?A ?T ?R 0 posted = [?m]" using own by (simp add: pending_after_def msgs)
  have st: "stored_principal root_principal posted = Inr root_principal"
    using staffed_stored(2) queries_cong(1) [of posted staffed] by (simp add: posted_def enqueued_tables)
  have low: "int 0 \<le> last_sequence ?A ?T ?R posted" using last_sequence_bounds(1) [OF posted_inv(1)] by simp
  have ids: "?A = pi_ControllerID (p_Identity root_principal)" "?T = pi_TreeID (p_Identity root_principal)"
    "?R = pi_AgentID (p_Identity root_principal)" by (simp_all add: demo_principals)
  have fuel: "length (mailbox_messages posted) < 2" by (simp add: msgs)
  have one: "(1 :: int) \<le> 1" "(1 :: int) \<le> 32" by simp_all
  from mailbox_drained [OF posted_inv demo_principals(4) st one low fuel ids] own show ?thesis
    unfolding pend by (simp add: msgs)
qed

section \<open>Routing\<close>

text \<open>
  C19. Messages stay on the edges of their tree. A delivery means that the source is a stored principal
  whose every field is the claimed one and that the recipient is a stored principal of the same
  controller and tree; a root reaches exactly the agent it names, a worker only its own parent or
  the root of its tree.
\<close>

theorem message_routing:
  assumes "mailbox_inv s" "trees_inv s" "SendMailboxMessage source target i m ts s = (Inr d, s')"
  shows "\<exists>p \<in> set (principals s). \<exists>q \<in> set (principals s). \<exists>tree \<in> set (trees s).
      identity_of p = p_Identity source
    \<and> principal_key q = (pr_controller_id p, pr_tree_id p, md_RecipientAgentID d)
    \<and> tree_key tree = (pr_controller_id p, pr_tree_id p)
    \<and> (if pr_parent_agent_id p = '''' then mt_Kind target = MessageTargetAgent \<and> md_RecipientAgentID d = mt_AgentID target
       else mt_Kind target = MessageTargetParent \<and> md_RecipientAgentID d = pr_parent_agent_id p
          \<or> mt_Kind target = MessageTargetRoot \<and> md_RecipientAgentID d = t_root_agent_id tree)"
proof -
  let ?p = "p_Identity source"
  obtain st a q where st: "stored_principal source s = Inr st" and a: "resolveMessageRecipient st target s = Inr a"
    and q: "sel1 (principal_at (pi_ControllerID ?p) (pi_TreeID ?p) a) (principals s) = Some q"
    and d: "md_RecipientAgentID d = a"
    using assms by (cases rule: SendMailboxMessage_cases) auto
  obtain p where p: "p \<in> set (principals s)" "identity_of p = ?p" "st = principal_of p"
    using stored_principal_Inr(1) [OF assms(2) st] by blast
  then have ids: "pi_ControllerID ?p = pr_controller_id p" "pi_TreeID ?p = pr_tree_id p"
    by (metis identity_of_simps)+
  obtain tree where tree: "tree \<in> set (trees s)" "tree_key tree = (pr_controller_id p, pr_tree_id p)"
    using trees_invD(5) [OF assms(2) p(1)] by (auto simp: principal_row_ok_def)
  have sel: "sel1 (tree_at (pr_controller_id p) (pr_tree_id p)) (trees s) = Some tree"
    using uniq_sel1 [OF trees_invD(2) [OF assms(2)] tree(1)] by (simp add: tree_at_key tree(2))
  have route: "if pr_parent_agent_id p = '''' then mt_Kind target = MessageTargetAgent \<and> a = mt_AgentID target
      else mt_Kind target = MessageTargetParent \<and> a = pr_parent_agent_id p
         \<or> mt_Kind target = MessageTargetRoot \<and> a = t_root_agent_id tree"
    using a p(3) sel queryTreeByID_inv [OF assms(2)]
    by (auto simp: resolveMessageRecipient_def Let_def split: if_splits MessageTargetKind.splits)
  have "q \<in> set (principals s)" "principal_key q = (pr_controller_id p, pr_tree_id p, a)"
    using sel1_SomeD [OF q] by (simp_all add: principal_at_key ids)
  with p(1,2) tree route show ?thesis unfolding d by blast
qed

theorem message_routing_witness:
  "\<exists>d s'. SendMailboxMessage worker_principal to_parent (uid CHR ''7'') ''hello'' 8 staffed = (Inr d, s')
    \<and> (\<exists>p \<in> set (principals staffed). identity_of p = demo_worker \<and> md_RecipientAgentID d = pr_parent_agent_id p)"
proof -
  have tgt: "MessageTarget_Validate to_parent = None" by (simp add: MessageTarget_Validate_def to_parent_def)
  have spec: "send_spec worker_principal to_parent (uid CHR ''7'') ''hello'' 8 staffed =
      Inr (\<lparr>md_RecipientAgentID = uid CHR ''2'', md_MessageID = uid CHR ''7'', md_Sequence = 1\<rparr>, posted)"
    by (simp add: send_spec_def Let_def staffed_stored worker_to_parent demo_principals posted_def
        queryPrincipal_inv [OF staffed_inv] staffed_principals principal_at_def findMailboxDelivery_def affected_def
        maximumPendingMailboxMessages_def last_sequence_def MaxInt64_def)
  have run: "SendMailboxMessage worker_principal to_parent (uid CHR ''7'') ''hello'' 8 staffed =
      (Inr \<lparr>md_RecipientAgentID = uid CHR ''2'', md_MessageID = uid CHR ''7'', md_Sequence = 1\<rparr>, posted)"
    using spec sendMailboxMessageTx_eq [OF mailbox_inv_staffed staffed_inv hello_message, of 8] hello_message tgt
      demo_principals(3) by (simp add: SendMailboxMessage_def)
  from message_routing [OF mailbox_inv_staffed staffed_inv run] obtain p where
    p: "p \<in> set (principals staffed)" "identity_of p = demo_worker"
      "if pr_parent_agent_id p = '''' then mt_Kind to_parent = MessageTargetAgent
       else mt_Kind to_parent = MessageTargetParent \<and> uid CHR ''2'' = pr_parent_agent_id p \<or> mt_Kind to_parent = MessageTargetRoot"
    by (auto simp: demo_principals split: if_splits)
  then have "uid CHR ''2'' = pr_parent_agent_id p" by (simp add: to_parent_def split: if_splits)
  with run p(1,2) show ?thesis by auto
qed

end
