(* ===== verification/Spawn_Props.thy ===== *)
theory Spawn_Props
  imports Broker Workspace_Props Mailbox_Props
begin

text \<open>
  Properties of agent spawns: a spawn is refused only for a stated reason, retries are answered from
  their receipt, a tree numbers its agents densely up to its limit, a workspace serves one spawn, and
  a terminal result is final whatever the broker does next.
\<close>

section \<open>A concrete spawn\<close>

definition demo_spawn :: AgentSpawnIntent where
  "demo_spawn = \<lparr>si_Source = demo_root, si_SpawnID = uid CHR ''4'', si_AgentID = uid CHR ''3'',
     si_TargetDeviceID = uid CHR ''d'', si_TaskName = ''build'', si_PromptDigest = replicate 32 CHR ''x'',
     si_WorkspaceID = ''''\<rparr>"

lemma demo_spawn_simps [simp]:
  "si_Source demo_spawn = demo_root" "si_SpawnID demo_spawn = uid CHR ''4''" "si_AgentID demo_spawn = uid CHR ''3''"
  "si_TargetDeviceID demo_spawn = uid CHR ''d''" "si_TaskName demo_spawn = ''build''"
  "si_PromptDigest demo_spawn = replicate 32 CHR ''x''" "si_WorkspaceID demo_spawn = ''''"
  by (simp_all add: demo_spawn_def)

lemma build_task: "ValidateAgentTaskName ''build'' = None"
  by (simp add: ValidateAgentTaskName_def MaximumAgentTaskNameBytes_def agentTaskNamePattern_def lower_def upper_def digit_def byte_def)

lemma demo_spawn_valid: "validateAgentSpawnIntent demo_spawn = None"
  by (simp add: validateAgentSpawnIntent_def demo_root_valid build_task)

lemma rooted_may_spawn:
  "authorizePrincipal demo_root CapabilityAgentSpawn rooted =
     Inr (NewRootPrincipal (uid CHR ''a'') (uid CHR ''1'') (uid CHR ''2'') (uid CHR ''d''))"
  by (simp add: authorizePrincipal_Inr [OF rooted_inv] rooted_principals demo_root_def role_capabilities_def
      RootCapabilities_def)

lemma rooted_spawn_ok: "spawn_ok rooted"
proof -
  have "numbered rooted (new_tree_row demo_tree)" by (simp add: numbered_def agents_of_def new_tree_row_def)
  then show ?thesis
    using rooted_inv workspace_inv_rooted by (simp add: spawn_ok_def spawns_inv_def rooted_trees)
qed

section \<open>Reserving an agent\<close>

lemma affected_one:
  assumes "sel1 P rows = Some r" "distinct rows" "\<And>x. x \<in> set rows \<Longrightarrow> P x \<Longrightarrow> x = r"
  shows "affected P rows = 1"
proof -
  have "set (filter P rows) = {r}" using sel1_SomeD [OF assms(1)] assms(3) by auto
  then have "card (set (filter P rows)) = 1" by simp
  then show ?thesis using distinct_card [OF distinct_filter [OF assms(2), of P]] by (simp add: affected_def)
qed

lemma sel1_conj:
  assumes "sel1 P rows = Some r" "Q r" "\<And>x. x \<in> set rows \<Longrightarrow> P x \<Longrightarrow> x = r"
  shows "sel1 (\<lambda>x. P x \<and> Q x) rows = Some r"
proof -
  have "(P x \<and> Q x) = P x" if "x \<in> set rows" for x using assms that by auto
  then have "sel1 (\<lambda>x. P x \<and> Q x) rows = sel1 P rows" by (induction rows) auto
  then show ?thesis using assms(1) by simp
qed

text \<open>The table constraints follow from what the transaction has checked before it inserts.\<close>

lemma spawn_insertable_fresh:
  assumes ok: "spawn_ok s" and val: "validateAgentSpawnIntent i = None" "0 \<le> t" "length (si_PromptDigest i) = 32"
    and p: "authorizePrincipal (si_Source i) CapabilityAgentSpawn s = Inr p"
    and free: "sel1 (spawn_at (spawn_key_of i)) (agent_spawn_receipts s) = None" "\<not> task_name_taken i s"
      "sel1 (principal_at (pi_ControllerID (si_Source i)) (pi_TreeID (si_Source i)) (si_AgentID i)) (principals s) = None"
    and tree: "sel1 (tree_at (pi_ControllerID (si_Source i)) (pi_TreeID (si_Source i))) (trees s) = Some tr"
      "t_last_agent_sequence tr < 256"
  shows "principal_insertable (principal_row (spawned_principal i) t) s"
    "spawn_insertable (new_spawn_row i (t_last_agent_sequence tr + 1) t)
       (s\<lparr>principals := principals s @ [principal_row (spawned_principal i) t]\<rparr>)"
proof -
  let ?c = "pi_ControllerID (si_Source i)" and ?t = "pi_TreeID (si_Source i)" and ?n = "t_last_agent_sequence tr"
  note inv = spawn_okD [OF ok]
  have tr: "tr \<in> set (trees s)" "t_controller_id tr = ?c" "t_tree_id tr = ?t"
    using sel1_SomeD [OF tree(1)] by (simp_all add: tree_at_def)
  have seqs: "map sp_sequence (agents_of ?c ?t s) = [1..?n]"
    using spawns_invD(4) [OF inv(1) tr(1)] tr(2,3) by (simp add: numbered_def)
  show prin: "principal_insertable (principal_row (spawned_principal i) t) s"
    using free(3) val(2) tr
    by (auto simp: principal_insertable_def spawned_principal_def list_all_iff list_ex_iff tree_at_def sel1_None_iff)
  have bound: "sp_sequence r \<le> ?n" if "r \<in> set (agents_of ?c ?t s)" for r
    using that arg_cong [OF seqs, of set] by force
  have other: "sp_sequence r \<noteq> ?n + 1 \<and> sp_agent_id r \<noteq> si_AgentID i
      \<and> (sp_source_agent_id r = pi_AgentID (si_Source i) \<longrightarrow> sp_spawn_id r \<noteq> si_SpawnID i \<and> sp_task_name r \<noteq> si_TaskName i)"
    if r: "r \<in> set (agent_spawn_receipts s)" "sp_controller_id r = ?c" "sp_tree_id r = ?t" for r
  proof -
    have "sp_sequence r \<le> ?n" by (rule bound) (use r in \<open>simp add: agents_of_def\<close>)
    moreover obtain q where "sel1 (principal_at ?c ?t (sp_agent_id r)) (principals s) = Some q"
      using spawn_principal [OF inv(2) spawns_invD(3) [OF inv(1) r(1)]] r(2,3) by metis
    then have "sp_agent_id r \<noteq> si_AgentID i" using free(3) by auto
    ultimately show ?thesis
      using r free(1,2) by (auto simp: sel1_None_iff spawn_at_def spawn_key_of_def task_name_taken_def list_ex_iff)
  qed
  obtain q where q: "q \<in> set (principals s)" "identity_of q = si_Source i"
    using p authorizePrincipal_Inr [OF inv(2)] by metis
  have src: "principal_at ?c ?t (pi_AgentID (si_Source i)) q" by (simp add: principal_at_def q(2) [symmetric])
  have "1 \<le> length (si_TaskName i)" "length (si_TaskName i) \<le> 64"
    using val(1) by (simp_all add: validateAgentSpawnIntent_def ValidateAgentTaskName_def MaximumAgentTaskNameBytes_def Suc_le_eq)
  moreover have "0 \<le> ?n" using trees_invD(4) [OF inv(2) tr(1)] by (simp add: tree_row_ok_def)
  moreover have "tree_at ?c ?t tr" using tr by (simp add: tree_at_def)
  moreover have "principal_at ?c ?t (si_AgentID i) (principal_row (spawned_principal i) t)"
    by (simp add: principal_at_def spawned_principal_def)
  ultimately show "spawn_insertable (new_spawn_row i (?n + 1) t)
      (s\<lparr>principals := principals s @ [principal_row (spawned_principal i) t]\<rparr>)"
    using val tree(2) tr(1) q(1) src other by (auto simp: spawn_insertable_def new_spawn_row_def list_all_iff list_ex_iff)
qed

lemma reserve_spawn_eq:
  assumes ok: "spawn_ok s"
    and ins: "principal_insertable (principal_row (spawned_principal i) t) s"
      "spawn_insertable (new_spawn_row i (n + 1) t) (s\<lparr>principals := principals s @ [principal_row (spawned_principal i) t]\<rparr>)"
    and tree: "sel1 (tree_at (pi_ControllerID (si_Source i)) (pi_TreeID (si_Source i))) (trees s) = Some tr"
      "t_last_agent_sequence tr = n"
    and ws: "si_WorkspaceID i \<noteq> '''' \<longrightarrow>
      (\<exists>w. sel1 (workspace_at (spawn_workspace_key i)) (workspace_sync_receipts s) = Some w \<and> workspace_available i w)"
  shows "reserve_spawn i n t s = Inr (new_spawn_receipt i (n + 1) t, with_spawn i n t s)"
proof -
  let ?at = "tree_at (pi_ControllerID (si_Source i)) (pi_TreeID (si_Source i))"
  note inv = spawn_okD [OF ok]
  have one: "x = tr" if "x \<in> set (trees s)" "?at x" for x
    using that sel1_SomeD [OF tree(1)] uniq_same [OF trees_invD(2) [OF inv(2)]] by (auto simp: tree_at_key)
  have cnt: "affected (\<lambda>x. ?at x \<and> t_last_agent_sequence x = n) (trees s) = 1"
    by (rule affected_one [OF sel1_conj [OF tree(1)] uniq_distinct [OF trees_invD(2) [OF inv(2)]]]) (use tree(2) one in auto)
  have ws': "\<exists>v. consume_spawn_workspace i t s1 = Inr v" if "workspace_sync_receipts s1 = workspace_sync_receipts s" for s1
  proof (cases "si_WorkspaceID i = ''''")
    case True
    then show ?thesis by (simp add: consume_spawn_workspace_def tx_ret_def)
  next
    case False
    then obtain w where w: "sel1 (workspace_at (spawn_workspace_key i)) (workspace_sync_receipts s) = Some w" "workspace_available i w"
      using ws by blast
    have "affected (\<lambda>r. workspace_at (spawn_workspace_key i) r \<and> ws_status r = WorkspaceSyncPrepared
        \<and> ws_consumed_spawn_id r \<in> {'''', si_SpawnID i}) (workspace_sync_receipts s) = 1"
      by (rule affected_one [OF sel1_conj [OF w(1)] uniq_distinct [OF workspace_invD(1) [OF inv(3)]]])
        (use w workspace_at_unique [OF inv(3)] in \<open>auto simp: workspace_available_def\<close>)
    then show ?thesis
      using False that by (simp add: consume_spawn_workspace_def Let_def tx_bind_def tx_update_def tx_check_def)
  qed
  have "\<exists>y. reserve_spawn i n t s = Inr y"
    using ins cnt ws' [of "s\<lparr>principals := principals s @ [principal_row (spawned_principal i) t],
        agent_spawn_receipts := agent_spawn_receipts s @ [new_spawn_row i (n + 1) t],
        trees := upd (\<lambda>x. ?at x \<and> t_last_agent_sequence x = n) (t_last_agent_sequence_update (\<lambda>_. n + 1)) (trees s)\<rparr>"]
    by (auto simp: reserve_spawn_def Let_def insert_principal_def advance_agent_sequence_def tx_bind_def tx_insert_def
        tx_update_def tx_check_def tx_ret_def split: sum.splits)
  then obtain r s' where run: "reserve_spawn i n t s = Inr (r, s')" by auto
  show ?thesis using reserve_spawn_Inr(3,4) [OF inv(2,3) run tree ws] run by simp
qed

text \<open>What a fresh spawn runs into, in the order the transaction looks.\<close>

lemma BeginAgentSpawn_fresh:
  assumes ok: "spawn_ok s" and val: "validateAgentSpawnIntent i = None" "0 \<le> t"
    and p: "authorizePrincipal (si_Source i) CapabilityAgentSpawn s = Inr p"
    and free: "sel1 (spawn_at (spawn_key_of i)) (agent_spawn_receipts s) = None" "\<not> task_name_taken i s"
    and dev: "queryDevice (pi_ControllerID (si_Source i)) (si_TargetDeviceID i) s = Inr d" "dev_Online d"
    and tree: "sel1 (tree_at (pi_ControllerID (si_Source i)) (pi_TreeID (si_Source i))) (trees s) = Some tr"
    and ws: "si_WorkspaceID i \<noteq> '''' \<longrightarrow>
      (\<exists>w. sel1 (workspace_at (spawn_workspace_key i)) (workspace_sync_receipts s) = Some w \<and> workspace_available i w)"
  shows "BeginAgentSpawn i t s =
    (if t_last_agent_sequence tr \<ge> 256 then (Inl (Sentinel ErrAgentLimit), s)
     else withImmediateTransaction (reserve_spawn i (t_last_agent_sequence tr) t) s)"
proof -
  note inv = spawn_okD [OF ok]
  have q: "or_not_found (queryAgentSpawnReceipt (spawn_key_of i) s) = Inr None"
    using free(1) by (simp add: queryAgentSpawnReceipt_inv [OF inv(1,2)])
  have c: "check_spawn_workspace i s = Inr ((), s)" by (subst check_spawn_workspace_Inr [OF inv(3)]) (use ws in simp)
  have tr: "tr \<in> set (trees s)" using sel1_SomeD [OF tree] by simp
  have n: "query_agent_sequence i s = Inr (t_last_agent_sequence tr)"
    using tree trees_invD(4) [OF inv(2) tr] by (simp add: query_agent_sequence_def tree_row_ok_def)
  have dq: "(case queryDevice (pi_ControllerID (si_Source i)) (si_TargetDeviceID i) s of
      Inl e \<Rightarrow> Inl (Wrapped ''worker device'' e) | Inr x \<Rightarrow> Inr x) = Inr d"
    using dev(1) by simp
  have "BeginAgentSpawn_tx i t s =
      (if t_last_agent_sequence tr \<ge> 256 then Inl (Sentinel ErrAgentLimit)
       else reserve_spawn i (t_last_agent_sequence tr) t s)"
    unfolding BeginAgentSpawn_tx_def
      tx_bind_query(1) [of "authorizePrincipal (si_Source i) CapabilityAgentSpawn", OF p]
      tx_bind_query(1) [of "\<lambda>s. or_not_found (queryAgentSpawnReceipt (spawn_key_of i) s)", OF q] option.case
    by (simp add: tx_bind_def c tx_query_def dq dev(2) tx_get_def free(2) n MaximumAgentsPerTree_def tx_fail_def)
  moreover have pre: "first_err [validateAgentSpawnIntent i, unixTime t ''createdAt''] = None" using val by simp
  ultimately show ?thesis unfolding BeginAgentSpawn_def pre by (simp add: withImmediateTransaction_def)
qed

lemma BeginAgentSpawn_reserved:
  assumes ok: "spawn_ok s" and val: "validateAgentSpawnIntent i = None" "0 \<le> t" "length (si_PromptDigest i) = 32"
    and p: "authorizePrincipal (si_Source i) CapabilityAgentSpawn s = Inr p"
    and free: "sel1 (spawn_at (spawn_key_of i)) (agent_spawn_receipts s) = None" "\<not> task_name_taken i s"
      "sel1 (principal_at (pi_ControllerID (si_Source i)) (pi_TreeID (si_Source i)) (si_AgentID i)) (principals s) = None"
    and dev: "queryDevice (pi_ControllerID (si_Source i)) (si_TargetDeviceID i) s = Inr d" "dev_Online d"
    and tree: "sel1 (tree_at (pi_ControllerID (si_Source i)) (pi_TreeID (si_Source i))) (trees s) = Some tr"
      "t_last_agent_sequence tr < 256"
    and ws: "si_WorkspaceID i \<noteq> '''' \<longrightarrow>
      (\<exists>w. sel1 (workspace_at (spawn_workspace_key i)) (workspace_sync_receipts s) = Some w \<and> workspace_available i w)"
  shows "BeginAgentSpawn i t s =
    (Inr (new_spawn_receipt i (t_last_agent_sequence tr + 1) t), with_spawn i (t_last_agent_sequence tr) t s)"
  using BeginAgentSpawn_fresh [OF ok val(1,2) p free(1,2) dev tree(1) ws] tree(2)
    reserve_spawn_eq [OF ok spawn_insertable_fresh [OF ok val p free tree] tree(1) refl ws]
  by (simp add: withImmediateTransaction_def)

text \<open>
  C25. A spawn is only ever refused for a stated reason. In a well-formed state, a valid and authorized
  intent under an unused spawn identifier, task name and agent identifier, for an online device and
  with its workspace (if it names one) prepared for that device and not consumed by another spawn, is
  accepted whenever the tree has fewer than 256 agents: the reservation never hits a table constraint,
  the agent gets the next number of its tree and goes to the end of its list, its principal is a
  worker below the caller on the target device, and the workspace is marked as consumed by this spawn.
  With 256 agents it is refused with the agent limit and nothing changes.
\<close>

theorem spawn_reserves:
  assumes "spawn_ok s" "validateAgentSpawnIntent i = None" "0 \<le> t" "length (si_PromptDigest i) = 32"
    and "authorizePrincipal (si_Source i) CapabilityAgentSpawn s = Inr p"
    and "sel1 (spawn_at (spawn_key_of i)) (agent_spawn_receipts s) = None" "\<not> task_name_taken i s"
      "sel1 (principal_at c u (si_AgentID i)) (principals s) = None"
    and "queryDevice c (si_TargetDeviceID i) s = Inr d" "dev_Online d"
    and "si_WorkspaceID i \<noteq> '''' \<longrightarrow>
      (\<exists>w. sel1 (workspace_at (spawn_workspace_key i)) (workspace_sync_receipts s) = Some w \<and> workspace_available i w)"
    and "c = pi_ControllerID (si_Source i)" "u = pi_TreeID (si_Source i)"
  defines "n \<equiv> int (length (agents_of c u s)) + 1"
  shows "if n \<le> 256
    then \<exists>s'. BeginAgentSpawn i t s = (Inr (new_spawn_receipt i n t), s')
      \<and> agents_of c u s' = agents_of c u s @ [new_spawn_row i n t]
      \<and> principals s' = principals s @ [principal_row (spawned_principal i) t]
      \<and> (si_WorkspaceID i \<noteq> '''' \<longrightarrow>
          (\<exists>w \<in> set (workspace_sync_receipts s'). workspace_at (spawn_workspace_key i) w \<and> ws_consumed_spawn_id w = si_SpawnID i))
    else BeginAgentSpawn i t s = (Inl (Sentinel ErrAgentLimit), s)"
proof -
  note inv = spawn_okD [OF assms(1)]
  obtain q where q: "q \<in> set (principals s)" "identity_of q = si_Source i"
    using assms(5) authorizePrincipal_Inr [OF inv(2)] by metis
  obtain tr where tr: "sel1 (tree_at c u) (trees s) = Some tr" "tr \<in> set (trees s)" "t_controller_id tr = c" "t_tree_id tr = u"
    using root_tree [OF inv(2) q(1)] by (metis assms(12,13) identity_of_simps(1,2) q(2))
  have seqs: "map sp_sequence (agents_of c u s) = [1..t_last_agent_sequence tr]"
    using spawns_invD(4) [OF inv(1) tr(2)] tr(3,4) by (simp add: numbered_def)
  have "0 \<le> t_last_agent_sequence tr" using trees_invD(4) [OF inv(2) tr(2)] by (simp add: tree_row_ok_def)
  then have n: "n = t_last_agent_sequence tr + 1" using arg_cong [OF seqs, of length] by (simp add: n_def)
  note run = BeginAgentSpawn_fresh [OF assms(1-3,5-7) _ assms(10) _ assms(11), folded assms(12,13), OF assms(9) tr(1)]
  show ?thesis
  proof (cases "n \<le> 256")
    case False
    then show ?thesis using run n by simp
  next
    case True
    let ?s = "with_spawn i (n - 1) t s"
    have m: "n - 1 + 1 = n" "t_last_agent_sequence tr = n - 1" "t_last_agent_sequence tr < 256" using n True by simp_all
    have began: "BeginAgentSpawn i t s = (Inr (new_spawn_receipt i n t), ?s)"
      using BeginAgentSpawn_reserved [OF assms(1-7) assms(8) [unfolded assms(12,13)] assms(9) [unfolded assms(12)] assms(10)
          tr(1) [unfolded assms(12,13)] m(3) assms(11)]
      unfolding m(1,2) .
    have "agents_of c u ?s = agents_of c u s @ [new_spawn_row i n t]"
      by (simp add: agents_of_def new_spawn_row_def assms(12,13))
    moreover have "principals ?s = principals s @ [principal_row (spawned_principal i) t]" by simp
    moreover have "\<exists>w \<in> set (workspace_sync_receipts ?s). workspace_at (spawn_workspace_key i) w \<and> ws_consumed_spawn_id w = si_SpawnID i"
      if "si_WorkspaceID i \<noteq> ''''"
      using with_spawn_workspaces(3) [OF inv(3) assms(11) that, of "n - 1" t]
      by (auto simp: consumed_by_def workspace_key_def workspace_at_def new_spawn_row_def spawn_workspace_key_def)
    ultimately show ?thesis using began True by auto
  qed
qed

lemma rooted_free:
  "sel1 (spawn_at (spawn_key_of demo_spawn)) (agent_spawn_receipts rooted) = None" "\<not> task_name_taken demo_spawn rooted"
  "sel1 (principal_at (uid CHR ''a'') (uid CHR ''1'') (si_AgentID demo_spawn)) (principals rooted) = None"
  by (simp_all add: task_name_taken_def rooted_principals principal_at_def)

theorem spawn_reserves_witness:
  "\<exists>s'. BeginAgentSpawn demo_spawn 7 rooted = (Inr (new_spawn_receipt demo_spawn 1 7), s')
     \<and> agents_of (uid CHR ''a'') (uid CHR ''1'') s' = [new_spawn_row demo_spawn 1 7]"
proof -
  have none: "agents_of (uid CHR ''a'') (uid CHR ''1'') rooted = []" by (simp add: agents_of_def)
  have auth: "authorizePrincipal (si_Source demo_spawn) CapabilityAgentSpawn rooted =
      Inr (NewRootPrincipal (uid CHR ''a'') (uid CHR ''1'') (uid CHR ''2'') (uid CHR ''d''))"
    using rooted_may_spawn by simp
  have dev: "queryDevice (uid CHR ''a'') (si_TargetDeviceID demo_spawn) rooted =
      Inr (deviceFromDescriptor (peer_descriptor (uid CHR ''d'')) 5 1)"
    "dev_Online (deviceFromDescriptor (peer_descriptor (uid CHR ''d'')) 5 1)"
    using rooted_device by (simp_all add: deviceFromDescriptor_def)
  have at: "uid CHR ''a'' = pi_ControllerID (si_Source demo_spawn)" "uid CHR ''1'' = pi_TreeID (si_Source demo_spawn)" by simp_all
  from spawn_reserves [OF rooted_spawn_ok demo_spawn_valid, of 7, OF _ _ auth rooted_free dev _ at, unfolded none]
  show ?thesis by auto
qed

lemma rooted_broker: "broker_inv rooted"
proof -
  have "mailbox_inv rooted" by (simp add: mailbox_inv_def affected_def)
  moreover have "operations_inv rooted" by (simp add: operations_inv_def)
  moreover have "lifecycle_inv rooted" by (simp add: lifecycle_inv_def lifecycle_core_def cursors_inv_def)
  moreover have "counters_inv rooted"
    by (simp add: counters_inv_def counter_value_def started_dispatches_def started_followups_def)
  ultimately show ?thesis using rooted_registry rooted_spawn_ok by (simp add: broker_inv_def operation_ok_def)
qed

definition spawned :: BrokerDb where
  "spawned = snd (BeginAgentSpawn demo_spawn 7 rooted)"

lemma rooted_tree: "sel1 (tree_at (uid CHR ''a'') (uid CHR ''1'')) (trees rooted) = Some (new_tree_row demo_tree)"
  by (simp add: rooted_trees tree_at_def new_tree_row_def)

lemma spawned_run: "BeginAgentSpawn demo_spawn 7 rooted = (Inr (new_spawn_receipt demo_spawn 1 7), with_spawn demo_spawn 0 7 rooted)"
proof -
  have auth: "authorizePrincipal (si_Source demo_spawn) CapabilityAgentSpawn rooted =
      Inr (NewRootPrincipal (uid CHR ''a'') (uid CHR ''1'') (uid CHR ''2'') (uid CHR ''d''))"
    using rooted_may_spawn by simp
  have tree: "sel1 (tree_at (pi_ControllerID (si_Source demo_spawn)) (pi_TreeID (si_Source demo_spawn))) (trees rooted) =
      Some (new_tree_row demo_tree)" "t_last_agent_sequence (new_tree_row demo_tree) = 0"
    using rooted_tree by (simp_all add: new_tree_row_def)
  have free: "sel1 (principal_at (pi_ControllerID (si_Source demo_spawn)) (pi_TreeID (si_Source demo_spawn)) (si_AgentID demo_spawn))
      (principals rooted) = None"
    using rooted_free(3) by simp
  have dev: "queryDevice (pi_ControllerID (si_Source demo_spawn)) (si_TargetDeviceID demo_spawn) rooted =
      Inr (deviceFromDescriptor (peer_descriptor (uid CHR ''d'')) 5 1)"
    "dev_Online (deviceFromDescriptor (peer_descriptor (uid CHR ''d'')) 5 1)"
    using rooted_device by (simp_all add: deviceFromDescriptor_def)
  have ws: "si_WorkspaceID demo_spawn \<noteq> '''' \<longrightarrow> (\<exists>w. sel1 (workspace_at (spawn_workspace_key demo_spawn))
      (workspace_sync_receipts rooted) = Some w \<and> workspace_available demo_spawn w)"
    by simp
  show ?thesis
    using BeginAgentSpawn_reserved [OF rooted_spawn_ok demo_spawn_valid, of 7, OF _ _ auth rooted_free(1,2) free dev tree(1) _ ws]
    by (simp add: tree(2))
qed

lemma spawned_broker: "broker_inv spawned"
  using BeginAgentSpawn_broker [OF rooted_broker spawned_run] by (simp add: spawned_def spawned_run broker_ok_def)

section \<open>Retries\<close>

text \<open>
  C26. Beginning a spawn is idempotent: repeating the request at any later time, even with another
  proposed agent identifier, answers with the receipt of the first one and changes nothing, and
  another request under the same spawn identifier that differs in its device, task name, workspace
  or prompt is a conflict that changes nothing.
\<close>

theorem spawn_begin_idempotent:
  assumes "spawn_ok s" "BeginAgentSpawn i t s = (Inr r, s')" "0 \<le> t'" "ValidateID a = None"
  shows "BeginAgentSpawn (i\<lparr>si_AgentID := a\<rparr>) t' s' = (Inr r, s')
    \<and> (spawn_key_of j = spawn_key_of i \<and> may_spawn j s' \<and> \<not> receiptMatchesIntent r j \<longrightarrow>
        (\<exists>e. BeginAgentSpawn j t' s' = (Inl e, s') \<and> errors_is e ErrConflict))"
proof -
  let ?i = "i\<lparr>si_AgentID := a\<rparr>"
  note ok = BeginAgentSpawn_ok [OF assms(1,2)]
  have "may_spawn ?i s'" using ok(6) assms(4) by (simp add: may_spawn_def validateAgentSpawnIntent_def split: if_splits)
  moreover have "spawn_key_of ?i = spawn_key_of i" "receiptMatchesIntent r ?i"
    using ok(5) by (simp_all add: spawn_key_of_def receiptMatchesIntent_def)
  ultimately have "BeginAgentSpawn ?i t' s' = (Inr r, s')"
    using BeginAgentSpawn_found [OF ok(1) _ assms(3), of ?i r] ok(4) by simp
  then show ?thesis using spawn_receipts.reused_key_conflicts [OF assms(1-3), of j] by simp
qed

theorem spawn_begin_idempotent_witness:
  "BeginAgentSpawn (demo_spawn\<lparr>si_AgentID := uid CHR ''9''\<rparr>) 8 spawned = (Inr (new_spawn_receipt demo_spawn 1 7), spawned)"
  using spawn_begin_idempotent [OF rooted_spawn_ok spawned_run, of 8 "uid CHR ''9''"] by (simp add: spawned_def spawned_run)

section \<open>Terminal results\<close>

lemma spawn_row_follows:
  assumes inv: "broker_inv s" and run: "broker_step\<^sup>*\<^sup>* s s'" and q: "queryAgentSpawnReceipt k s = Inr x"
  obtains r r' where "x = spawn_receipt r" "queryAgentSpawnReceipt k s' = Inr (spawn_receipt r')" "spawn_le r r'" "broker_inv s'"
proof -
  note i = broker_invD [OF inv]
  have ok: "broker_inv s'" "spawns_le s s'" using broker_steps_ok [OF run inv] by (simp_all add: broker_ok_def broker_le_def)
  note i' = broker_invD [OF ok(1)]
  obtain r where r: "sel1 (spawn_at k) (agent_spawn_receipts s) = Some r" "x = spawn_receipt r"
    using q by (auto simp: queryAgentSpawnReceipt_inv [OF i(8,9)] split: option.splits)
  have mem: "r \<in> set (agent_spawn_receipts s)" "spawn_at k r" using sel1_SomeD [OF r(1)] by simp_all
  obtain r' where r': "r' \<in> set (agent_spawn_receipts s')" "spawn_le r r'" using ok(2) mem(1) by (auto simp: spawns_le_def)
  have "spawn_at k r'" using mem(2) r'(2) by (simp add: spawn_at_key spawn_le_def)
  then have "sel1 (spawn_at k) (agent_spawn_receipts s') = Some r'"
    using r'(1) uniq_sel1 [OF spawns_invD(1) [OF i'(8)] r'(1)] by (simp add: spawn_at_key)
  then show thesis using that r(2) r'(2) ok(1) by (simp add: queryAgentSpawnReceipt_inv [OF i'(8,9)])
qed

text \<open>
  C27. A terminal spawn result is final. Once a spawn is recorded as started or failed, then after any
  sequence of broker operations, of any component, its receipt still carries that result, and a later
  attempt to finish it succeeds only with the same status and failure code, without changing anything.
\<close>

theorem spawn_result_final:
  assumes "broker_inv s" "finishAgentSpawn k st code t s = (Inr r, s1)" "broker_step\<^sup>*\<^sup>* s1 s2"
  shows "(\<exists>r2. queryAgentSpawnReceipt k s2 = Inr r2 \<and> as_SpawnStatus (sr_Agent r2) = st \<and> as_SpawnFailureCode (sr_Agent r2) = code)
    \<and> (finishAgentSpawn k st' code' t' s2 = (Inr r', s3) \<longrightarrow> st' = st \<and> code' = code \<and> s3 = s2)"
proof -
  have inv1: "broker_inv s1" using finishAgentSpawn_broker [OF assms(1,2)] by (simp add: broker_ok_def)
  note fin = finishAgentSpawn_ok [OF broker_invD(5) [OF assms(1)] assms(2)]
  obtain x y where xy: "r = spawn_receipt x" "queryAgentSpawnReceipt k s2 = Inr (spawn_receipt y)" "spawn_le x y" "broker_inv s2"
    by (rule spawn_row_follows [OF inv1 assms(3) fin(2)])
  have y: "sp_status y = st" "sp_failure_code y = code" "st \<noteq> AgentSpawnPending"
    using xy(3) fin(3-5) unfolding xy(1) spawn_le_def by (simp_all add: spawn_receipt_def spawn_summary_def)
  then have res: "as_SpawnStatus (sr_Agent (spawn_receipt y)) = st" "as_SpawnFailureCode (sr_Agent (spawn_receipt y)) = code"
    by (simp_all add: spawn_receipt_def spawn_summary_def)
  have "st' = st \<and> code' = code \<and> s3 = s2" if "finishAgentSpawn k st' code' t' s2 = (Inr r', s3)"
    using spawn_terminal.finish_final [OF broker_invD(5) [OF xy(4)] xy(2), of "(st', code')" t' r' s3] that res y(3) by simp
  then show ?thesis using xy(2) res by blast
qed

definition demo_spawn_key :: AgentSpawnKey where
  "demo_spawn_key = spawn_key_of demo_spawn"

lemma spawned_query: "queryAgentSpawnReceipt demo_spawn_key spawned = Inr (spawn_receipt (new_spawn_row demo_spawn 1 7))"
  using BeginAgentSpawn_ok(4) [OF rooted_spawn_ok spawned_run]
  by (simp add: demo_spawn_key_def spawned_def spawned_run)

lemma spawned_tables:
  "agent_spawn_receipts spawned = [new_spawn_row demo_spawn 1 7]" "controller_registries spawned = controller_registries one_peer"
  "controller_lifetime_counters spawned = []" "agent_operation_receipts spawned = []"
  "principals spawned = principals rooted @ [principal_row (spawned_principal demo_spawn) 7]"
  "mailboxes spawned = []" "mailbox_messages spawned = []" "mailbox_receipts spawned = []" "devices spawned = devices one_peer"
  "peer_worker_sync_cursors spawned = []" "agent_lifecycle_states spawned = []"
  "trees spawned = [(new_tree_row demo_tree)\<lparr>t_last_agent_sequence := 1\<rparr>]"
  by (simp_all add: spawned_def spawned_run with_spawn_def add_spawn_def rooted_trees tree_at_def new_tree_row_def)

definition started :: BrokerDb where
  "started = with_finished demo_spawn_key AgentSpawnStarted '''' 8 spawned"

lemma started_run:
  "finishAgentSpawn demo_spawn_key AgentSpawnStarted '''' 8 spawned =
     (Inr (spawn_receipt (finish_spawn_row AgentSpawnStarted '''' 8 (new_spawn_row demo_spawn 1 7))), started)"
proof -
  let ?r = "new_spawn_row demo_spawn 1 7"
  have at: "spawn_at demo_spawn_key ?r" by (simp add: spawn_at_def demo_spawn_key_def spawn_key_of_def new_spawn_row_def)
  have key: "sk_ControllerID demo_spawn_key = uid CHR ''a''" by (simp add: demo_spawn_key_def spawn_key_of_def)
  have st: "as_SpawnStatus (sr_Agent (new_spawn_receipt demo_spawn 1 7)) = AgentSpawnPending"
    "sr_CreatedAt (new_spawn_receipt demo_spawn 1 7) = 7" "sp_status ?r = AgentSpawnPending"
    by (simp_all add: new_spawn_receipt_def new_spawn_row_def)
  have "\<exists>y. finishAgentSpawn_tx demo_spawn_key AgentSpawnStarted '''' 8 spawned = Inr y"
    unfolding finishAgentSpawn_tx_def tx_bind_query(1) [of "queryAgentSpawnReceipt demo_spawn_key", OF spawned_query]
    by (simp add: st at Let_def tx_bind_def tx_update_def tx_check_def affected_def spawned_tables requireAffectedRow_def
        incrementStatusLifetimeCounters_def tx_insert_def tx_ret_def counters_fit_def counter_row_def no_increment_def
        MaxInt64_def key one_peer_eq del: tx_bind_Inr)
  then obtain x s' where tx: "finishAgentSpawn_tx demo_spawn_key AgentSpawnStarted '''' 8 spawned = Inr (x, s')" by auto
  have val: "AgentSpawnKey_Validate demo_spawn_key = None"
    by (simp add: AgentSpawnKey_Validate_def demo_spawn_key_def spawn_key_of_def)
  have run: "finishAgentSpawn demo_spawn_key AgentSpawnStarted '''' 8 spawned = (Inr x, s')"
    using tx val by (simp add: finishAgentSpawn_def AgentSpawnStatus_Validate_def)
  from broker_invD(5) [OF spawned_broker] this show ?thesis
  proof (cases rule: finishAgentSpawn_cases)
    case same
    then show ?thesis using spawned_query st(1) by simp
  next
    case (finished r)
    have "r = ?r" using finished(1) at by (simp add: spawned_tables)
    then show ?thesis using run finished(6,7) by (simp add: started_def)
  qed
qed

lemma started_broker: "broker_inv started"
  using finishAgentSpawn_broker [OF spawned_broker started_run] by (simp add: broker_ok_def)

theorem spawn_result_final_witness:
  "(\<exists>r. queryAgentSpawnReceipt demo_spawn_key (snd (MarkAgentSpawnFailed demo_spawn_key ''lost'' 9 started)) = Inr r
      \<and> as_SpawnStatus (sr_Agent r) = AgentSpawnStarted)
   \<and> (\<forall>r s3. MarkAgentSpawnFailed demo_spawn_key ''lost'' 10
          (snd (MarkAgentSpawnFailed demo_spawn_key ''lost'' 9 started)) \<noteq> (Inr r, s3))"
proof -
  have "broker_step\<^sup>*\<^sup>* started (snd (MarkAgentSpawnFailed demo_spawn_key ''lost'' 9 started))"
    unfolding MarkAgentSpawnFailed_def by (rule r_into_rtranclp, rule finish_spawn)
  note final = spawn_result_final [OF spawned_broker started_run this]
  have no: "AgentSpawnFailed \<noteq> AgentSpawnStarted" by simp
  show ?thesis
    using final [of AgentSpawnFailed "''lost''" 10, folded MarkAgentSpawnFailed_def] no by blast
qed

section \<open>Workspaces\<close>

lemma spawn_stored:
  assumes inv: "broker_inv s" and q: "queryAgentSpawnReceipt k s = Inr (spawn_receipt r)" "sp_workspace_id r \<noteq> ''''"
  obtains r' w where "spawn_receipt r' = spawn_receipt r" "spawn_at k r'" "w \<in> set (workspace_sync_receipts s)"
    "workspace_key w = (sp_controller_id r', sp_tree_id r', sp_workspace_id r')"
    "ws_source_agent_id w = sp_source_agent_id r'" "ws_consumed_spawn_id w = sp_spawn_id r'"
proof -
  note i = broker_invD [OF inv]
  obtain r' where r': "sel1 (spawn_at k) (agent_spawn_receipts s) = Some r'" "spawn_receipt r' = spawn_receipt r"
    using q(1) by (auto simp: queryAgentSpawnReceipt_inv [OF i(8,9)] split: option.splits)
  have mem: "r' \<in> set (agent_spawn_receipts s)" "spawn_at k r'" using sel1_SomeD [OF r'(1)] by simp_all
  have "sp_workspace_id r' = sp_workspace_id r"
    using arg_cong [OF r'(2), of "\<lambda>x. as_WorkspaceID (sr_Agent x)"] by (simp add: spawn_receipt_def spawn_summary_def)
  then have "consumed_by s r'" using spawns_invD(3) [OF i(8) mem(1)] q(2) by (simp add: spawn_row_ok_def)
  then show thesis using that [OF r'(2) mem(2)] by (auto simp: consumed_by_def)
qed

text \<open>
  C28. A prepared workspace serves one spawn. After a spawn that names a workspace, and whatever the
  broker does next, no other spawn of the same tree that names that workspace is ever accepted: the
  attempt is an error and changes nothing.
\<close>

theorem workspace_serves_one_spawn:
  assumes "broker_inv s" "BeginAgentSpawn i t s = (Inr r, s1)" "si_WorkspaceID i \<noteq> ''''" "broker_step\<^sup>*\<^sup>* s1 s2"
    and "si_WorkspaceID j = si_WorkspaceID i" "pi_ControllerID (si_Source j) = pi_ControllerID (si_Source i)"
      "pi_TreeID (si_Source j) = pi_TreeID (si_Source i)" "spawn_key_of j \<noteq> spawn_key_of i"
  shows "\<exists>e. BeginAgentSpawn j t' s2 = (Inl e, s2)"
proof (cases "fst (BeginAgentSpawn j t' s2)")
  case (Inl e)
  then have "BeginAgentSpawn j t' s2 = (Inl e, snd (BeginAgentSpawn j t' s2))" by (simp add: prod_eq_iff)
  then show ?thesis using tx_rolls_back(2) unfolding rolls_back_def by metis
next
  case (Inr x)
  define s3 where "s3 = snd (BeginAgentSpawn j t' s2)"
  have run: "BeginAgentSpawn j t' s2 = (Inr x, s3)" using Inr by (simp add: s3_def prod_eq_iff)
  have inv1: "broker_inv s1" using BeginAgentSpawn_broker [OF assms(1,2)] by (simp add: broker_ok_def)
  have inv2: "broker_inv s2" using broker_steps_ok [OF assms(4) inv1] by (simp add: broker_ok_def)
  have "broker_step s2 s3" using begin_spawn [of s2 j t'] by (simp add: s3_def)
  then have path: "broker_step\<^sup>*\<^sup>* s1 s3" using assms(4) by simp
  note q1 = BeginAgentSpawn_ok [OF broker_invD(5) [OF assms(1)] assms(2)] and q3 = BeginAgentSpawn_ok [OF broker_invD(5) [OF inv2] run]
  obtain a b where ab: "r = spawn_receipt a" "queryAgentSpawnReceipt (spawn_key_of i) s3 = Inr (spawn_receipt b)" "spawn_le a b" "broker_inv s3"
    by (rule spawn_row_follows [OF inv1 path q1(4)])
  have wa: "sp_workspace_id b = si_WorkspaceID i"
    using q1(5) ab(3) unfolding ab(1) by (simp add: receiptMatchesIntent_def spawn_receipt_def spawn_summary_def spawn_le_def)
  obtain c where c: "x = spawn_receipt c"
    using q3(4) by (auto simp: queryAgentSpawnReceipt_inv [OF broker_invD(8,9) [OF ab(4)]] split: option.splits)
  have wc: "sp_workspace_id c = si_WorkspaceID i"
    using q3(5) assms(5) unfolding c by (simp add: receiptMatchesIntent_def spawn_receipt_def spawn_summary_def)
  have ws: "sp_workspace_id y = si_WorkspaceID i" if "spawn_receipt y = spawn_receipt z" "sp_workspace_id z = si_WorkspaceID i" for y z
    using that(2) arg_cong [OF that(1), of "\<lambda>x. as_WorkspaceID (sr_Agent x)"] by (simp add: spawn_receipt_def spawn_summary_def)
  have nb: "sp_workspace_id b \<noteq> ''''" and nc: "sp_workspace_id c \<noteq> ''''" using wa wc assms(3) by simp_all
  obtain b' v where bv: "spawn_receipt b' = spawn_receipt b" "spawn_at (spawn_key_of i) b'" "v \<in> set (workspace_sync_receipts s3)"
    "workspace_key v = (sp_controller_id b', sp_tree_id b', sp_workspace_id b')"
    "ws_source_agent_id v = sp_source_agent_id b'" "ws_consumed_spawn_id v = sp_spawn_id b'"
    by (rule spawn_stored [OF ab(4,2) nb])
  obtain c' w where cw: "spawn_receipt c' = spawn_receipt c" "spawn_at (spawn_key_of j) c'" "w \<in> set (workspace_sync_receipts s3)"
    "workspace_key w = (sp_controller_id c', sp_tree_id c', sp_workspace_id c')"
    "ws_source_agent_id w = sp_source_agent_id c'" "ws_consumed_spawn_id w = sp_spawn_id c'"
    by (rule spawn_stored [OF ab(4) q3(4) [unfolded c] nc])
  have "workspace_key v = workspace_key w"
    using bv(2,4) cw(2,4) ws [OF bv(1) wa] ws [OF cw(1) wc] assms(6,7) by (simp add: spawn_at_def spawn_key_of_def)
  then have "v = w" by (rule uniq_same [OF workspace_invD(1) [OF broker_invD(10) [OF ab(4)]] bv(3) cw(3)])
  then have "spawn_key_of j = spawn_key_of i"
    using bv(2,5,6) cw(2,5,6) assms(6,7) by (simp add: spawn_at_def spawn_key_of_def)
  then show ?thesis using assms(8) by simp
qed

text \<open>The concrete sync carried through to a prepared workspace.\<close>

definition demo_summary :: WorkspaceSummary where
  "demo_summary = \<lparr>wsum_WorkspaceID = uid CHR ''8'', wsum_SourceDeviceID = uid CHR ''d'', wsum_TargetDeviceID = uid CHR ''d'',
     wsum_HeadOID = replicate 40 CHR ''a'', wsum_ObjectFormat = ''sha1'', wsum_WorkingDirectory = '''',
     wsum_Strategy = WorkspaceStrategyThin, wsum_ManifestHash = sha256_hex (manifest_json demo_manifest), wsum_Warnings = []\<rparr>"

definition pinned :: BrokerDb where
  "pinned = snd (PinWorkspaceSyncManifest (intent_key demo_intent) demo_manifest 8 begun)"

definition prepared :: BrokerDb where
  "prepared = snd (FinishWorkspaceSync (intent_key demo_intent) demo_summary 9 pinned)"

lemma begun_query: "queryWorkspaceSyncReceipt (intent_key demo_intent) begun = Inr (new_workspace_row demo_intent 7)"
  unfolding queryWorkspaceSyncReceipt_inv [OF begun_inv(1)] by (simp add: begun_def)

lemma demo_key_valid: "WorkspaceSyncKey_Validate (intent_key demo_intent) = None"
  by (simp add: WorkspaceSyncKey_Validate_def intent_key_def)

lemma pinned_run:
  "PinWorkspaceSyncManifest (intent_key demo_intent) demo_manifest 8 begun =
     (Inr (pin_row demo_manifest (sha256_hex (manifest_json demo_manifest)) 8 (new_workspace_row demo_intent 7)), pinned)"
proof -
  have h: "WorkspaceManifestHash demo_manifest = Inr (sha256_hex (manifest_json demo_manifest))"
    by (simp add: WorkspaceManifestHash_Inr demo_manifest_valid)
  have url: "wf_GitURL demo_manifest = ''ssh://host/repo''" by (simp add: demo_manifest_def)
  have "\<exists>s1. PinWorkspaceSyncManifest (intent_key demo_intent) demo_manifest 8 begun =
      (Inr (pin_row demo_manifest (sha256_hex (manifest_json demo_manifest)) 8 (new_workspace_row demo_intent 7)), s1)"
    by (simp add: PinWorkspaceSyncManifest_def demo_key_valid h PinWorkspaceSyncManifest_tx_def tx_bind_def tx_query_def begun_query url
        tx_exec_def tx_ret_def withImmediateTransaction_def)
  then show ?thesis unfolding pinned_def by auto
qed

lemma demo_summary_valid: "WorkspaceSummary_Validate demo_summary = None"
proof -
  have "summary_manifest demo_summary = demo_manifest\<lparr>wf_GitURL := ''ssh://validated.invalid/repository''\<rparr>"
    by (simp add: summary_manifest_def demo_summary_def demo_manifest_def)
  moreover have "printable ''ssh://validated.invalid/repository''" by (simp add: printable_def byte_def)
  from printable_text [OF this]
  have "validateWorkspaceText ''gitUrl'' ''ssh://validated.invalid/repository'' MaximumGitURLBytes = None"
    by (simp add: validateWorkspaceText_def MaximumGitURLBytes_def)
  ultimately have "WorkspaceManifest_Validate (summary_manifest demo_summary) = None"
    using demo_manifest_valid by (simp add: WorkspaceManifest_Validate_def)
  then show ?thesis
    by (simp add: WorkspaceSummary_Validate_def)
      (simp add: demo_summary_def sha256_hex_pattern ValidateWorkspaceWarnings_def MaximumWorkspaceWarnings_def)
qed

lemma prepared_run:
  "FinishWorkspaceSync (intent_key demo_intent) demo_summary 9 pinned =
     (Inr (finish_row demo_summary 9 (pin_row demo_manifest (sha256_hex (manifest_json demo_manifest)) 8 (new_workspace_row demo_intent 7))),
      prepared)"
proof -
  let ?r = "pin_row demo_manifest (sha256_hex (manifest_json demo_manifest)) 8 (new_workspace_row demo_intent 7)"
  have q: "queryWorkspaceSyncReceipt (intent_key demo_intent) pinned = Inr ?r"
    using PinWorkspaceSyncManifest_inv [OF begun_inv(1) pinned_run] by simp
  have warn: "WorkspaceWarningsForStrategy [] WorkspaceStrategyThin = Inr []"
    by (simp add: WorkspaceWarningsForStrategy_def ValidateWorkspaceSourceWarnings_def ValidateWorkspaceWarnings_def MaximumWorkspaceWarnings_def)
  have r: "ws_status ?r = WorkspaceSyncInspected" "ws_source_warnings ?r = []" "ws_updated_at ?r = 8"
    "ws_manifest_hash ?r = wsum_ManifestHash demo_summary" "ws_head_oid ?r = wsum_HeadOID demo_summary"
    "ws_object_format ?r = wsum_ObjectFormat demo_summary" "ws_working_directory ?r = wsum_WorkingDirectory demo_summary"
    "ws_source_device_id ?r = wsum_SourceDeviceID demo_summary" "ws_target_device_id ?r = wsum_TargetDeviceID demo_summary"
    by (simp_all add: pin_row_def demo_manifest_def demo_summary_def new_workspace_row_def)
  have sm: "wsum_Strategy demo_summary = WorkspaceStrategyThin" "wsum_Warnings demo_summary = []"
    "wsum_WorkspaceID demo_summary = wk_SyncID (intent_key demo_intent)"
    by (simp_all add: demo_summary_def intent_key_def)
  have "\<exists>y. FinishWorkspaceSync_tx (intent_key demo_intent) demo_summary 9 pinned = Inr (finish_row demo_summary 9 ?r, y)"
    unfolding FinishWorkspaceSync_tx_def tx_bind_query(1) [of "queryWorkspaceSyncReceipt (intent_key demo_intent)", OF q] r sm warn
    by (simp add: tx_bind_def tx_exec_def tx_ret_def)
  moreover have pre: "first_err [WorkspaceSyncKey_Validate (intent_key demo_intent), WorkspaceSummary_Validate demo_summary,
      fail_if (wsum_WorkspaceID demo_summary \<noteq> wk_SyncID (intent_key demo_intent)) (Plain ''workspace summary does not match its sync key''),
      unixTime 9 ''observedAt''] = None"
    by (simp add: demo_key_valid demo_summary_valid sm(3))
  ultimately show ?thesis
    unfolding prepared_def FinishWorkspaceSync_def pre by (auto simp: withImmediateTransaction_def)
qed

lemma prepared_broker: "broker_inv prepared"
proof -
  have "workspace_step\<^sup>*\<^sup>* rooted prepared"
  proof -
    have "workspace_step rooted begun" using workspace_step.begin_sync [of rooted demo_intent 7] begun_run by simp
    moreover have "workspace_step begun pinned" "workspace_step pinned prepared"
      unfolding pinned_def prepared_def by (rule workspace_step.pin_sync, rule workspace_step.finish_sync)
    ultimately show ?thesis by simp
  qed
  moreover have "broker_inv y" if "workspace_step x y" "broker_inv x" for x y
    using workspace_step_broker [OF that(2,1)] by (simp add: broker_ok_def)
  ultimately show ?thesis using rooted_broker by (induction rule: rtranclp_induct) auto
qed

definition demo_placed :: AgentSpawnIntent where
  "demo_placed = demo_spawn\<lparr>si_WorkspaceID := uid CHR ''8''\<rparr>"

lemma prepared_fields:
  "principals prepared = principals rooted" "trees prepared = trees rooted" "devices prepared = devices rooted"
  "agent_spawn_receipts prepared = []"
proof -
  have "but_workspaces prepared = but_workspaces rooted"
  proof -
    have "but_workspaces begun = but_workspaces rooted" by (simp add: begun_def)
    then show ?thesis
      using workspace_step_frame [OF workspace_step.pin_sync [of begun "intent_key demo_intent" demo_manifest 8]]
        workspace_step_frame [OF workspace_step.finish_sync [of pinned "intent_key demo_intent" demo_summary 9]]
      by (simp add: pinned_def prepared_def)
  qed
  from but_workspacesD [OF this] show "principals prepared = principals rooted" "trees prepared = trees rooted"
    "devices prepared = devices rooted" "agent_spawn_receipts prepared = []"
    by simp_all
qed

lemma placed_run: "\<exists>r s1. BeginAgentSpawn demo_placed 10 prepared = (Inr r, s1)"
proof -
  let ?w = "finish_row demo_summary 9 (pin_row demo_manifest (sha256_hex (manifest_json demo_manifest)) 8 (new_workspace_row demo_intent 7))"
  note i = broker_invD [OF prepared_broker]
  have src: "si_Source demo_placed = demo_root" "si_AgentID demo_placed = uid CHR ''3''" "si_TargetDeviceID demo_placed = uid CHR ''d''"
    "si_SpawnID demo_placed = uid CHR ''4''" "si_WorkspaceID demo_placed = uid CHR ''8''"
    by (simp_all add: demo_placed_def)
  have winv: "workspace_inv pinned" using PinWorkspaceSyncManifest_inv [OF begun_inv(1) pinned_run] by simp
  have "queryWorkspaceSyncReceipt (intent_key demo_intent) prepared = Inr ?w"
    using FinishWorkspaceSync_inv [OF winv prepared_run] by simp
  then have w: "sel1 (workspace_at (intent_key demo_intent)) (workspace_sync_receipts prepared) = Some ?w"
    by (simp add: queryWorkspaceSyncReceipt_inv [OF i(10)] split: option.splits)
  have key: "spawn_workspace_key demo_placed = intent_key demo_intent"
    by (simp add: spawn_workspace_key_def intent_key_def src)
  have "workspace_available demo_placed ?w"
    by (simp add: workspace_available_def finish_row_def pin_row_def new_workspace_row_def src)
  then have ws: "si_WorkspaceID demo_placed \<noteq> '''' \<longrightarrow> (\<exists>w. sel1 (workspace_at (spawn_workspace_key demo_placed))
      (workspace_sync_receipts prepared) = Some w \<and> workspace_available demo_placed w)"
    using w unfolding key by blast
  have val: "validateAgentSpawnIntent demo_placed = None"
    using demo_spawn_valid by (simp add: validateAgentSpawnIntent_def demo_placed_def)
  have auth: "authorizePrincipal (si_Source demo_placed) CapabilityAgentSpawn prepared =
      Inr (NewRootPrincipal (uid CHR ''a'') (uid CHR ''1'') (uid CHR ''2'') (uid CHR ''d''))"
    unfolding src rooted_may_spawn [symmetric] by (rule authorizePrincipal_cong) (simp_all add: prepared_fields)
  have dev: "queryDevice (pi_ControllerID (si_Source demo_placed)) (si_TargetDeviceID demo_placed) prepared =
      Inr (deviceFromDescriptor (peer_descriptor (uid CHR ''d'')) 5 1)"
    using rooted_device by (simp add: queryDevice_def prepared_fields src)
  have "dev_Online (deviceFromDescriptor (peer_descriptor (uid CHR ''d'')) 5 1)" by (simp add: deviceFromDescriptor_def)
  note run = BeginAgentSpawn_reserved [OF i(5) val, of 10, OF _ _ auth _ _ _ dev this _ _ ws, of "new_tree_row demo_tree"]
  have "sel1 (tree_at (pi_ControllerID (si_Source demo_placed)) (pi_TreeID (si_Source demo_placed))) (trees prepared) = Some (new_tree_row demo_tree)"
    using rooted_tree by (simp add: prepared_fields src)
  moreover have "t_last_agent_sequence (new_tree_row demo_tree) < 256" by (simp add: new_tree_row_def)
  moreover have "length (si_PromptDigest demo_placed) = 32" by (simp add: demo_placed_def)
  moreover have "sel1 (principal_at (pi_ControllerID (si_Source demo_placed)) (pi_TreeID (si_Source demo_placed)) (si_AgentID demo_placed))
      (principals prepared) = None"
    using rooted_free(3) by (simp add: prepared_fields src)
  moreover have "\<not> task_name_taken demo_placed prepared" by (simp add: task_name_taken_def prepared_fields)
  ultimately show ?thesis using run by (simp add: prepared_fields)
qed

theorem workspace_serves_one_spawn_witness:
  "\<exists>r s1 e. BeginAgentSpawn demo_placed 10 prepared = (Inr r, s1)
     \<and> BeginAgentSpawn (demo_placed\<lparr>si_SpawnID := uid CHR ''5'', si_TaskName := ''other''\<rparr>) 11 s1 = (Inl e, s1)"
proof -
  obtain r s1 where run: "BeginAgentSpawn demo_placed 10 prepared = (Inr r, s1)" using placed_run by auto
  have ws: "si_WorkspaceID demo_placed \<noteq> ''''" by (simp add: demo_placed_def)
  let ?j = "demo_placed\<lparr>si_SpawnID := uid CHR ''5'', si_TaskName := ''other''\<rparr>"
  have "spawn_key_of ?j \<noteq> spawn_key_of demo_placed" by (simp add: spawn_key_of_def demo_placed_def)
  from workspace_serves_one_spawn [OF prepared_broker run ws rtranclp.rtrancl_refl _ _ _ this, of 11] run show ?thesis by simp
qed

section \<open>Listing\<close>

text \<open>A caller that follows the page cursors until there is no next page.\<close>

partial_function (option) agent_pages ::
    "PrincipalIdentity \<Rightarrow> int \<Rightarrow> BrokerDb \<Rightarrow> nat \<Rightarrow> AgentCurrentRecord list result option" where
  "agent_pages p limit s after =
     (case ListAgents p after limit s of
        Inl e \<Rightarrow> Some (Inl e)
      | Inr page \<Rightarrow>
          if ap_NextSequence page = 0 then Some (Inr (ap_Agents page))
          else Option.bind (agent_pages p limit s (ap_NextSequence page)) (\<lambda>rest.
            Some (case rest of Inl e \<Rightarrow> Inl e | Inr xs \<Rightarrow> Inr (ap_Agents page @ xs))))"

lemma agents_bounded:
  assumes "spawn_ok s" "r \<in> set (principals s)"
  shows "length (agents_of (pr_controller_id r) (pr_tree_id r) s) \<le> 256"
proof -
  note inv = spawn_okD [OF assms(1)]
  obtain tr where tr: "tr \<in> set (trees s)" "t_controller_id tr = pr_controller_id r" "t_tree_id tr = pr_tree_id r"
    using root_tree [OF inv(2) assms(2)] by metis
  then show ?thesis
    using arg_cong [OF spawns_invD(4) [OF inv(1) tr(1), unfolded numbered_def], of length] trees_invD(4) [OF inv(2) tr(1)]
    by (auto simp: tree_row_ok_def)
qed

lemma agent_pages_from:
  assumes ok: "spawn_ok s" "lifecycle_core s" and r: "r \<in> set (principals s)" "pr_parent_agent_id r = ''''"
    and lim: "1 \<le> limit" "limit \<le> 32"
  defines "agents \<equiv> agents_of (pr_controller_id r) (pr_tree_id r) s"
  shows "after \<le> length agents \<Longrightarrow>
    agent_pages (identity_of r) limit s after = Some (Inr (map (current_record s) (drop after agents)))"
proof (induction "length agents - after" arbitrary: after rule: less_induct)
  case less
  have "after \<le> 256" using less.prems agents_bounded [OF ok(1) r(1)] by (simp add: agents_def)
  note page = ListAgents_eq [OF ok r lim this, folded agents_def]
  show ?case
  proof (cases "after + nat limit < length agents")
    case True
    have "agent_pages (identity_of r) limit s (after + nat limit) = Some (Inr (map (current_record s) (drop (after + nat limit) agents)))"
      using True lim(1) less.prems by (intro less.hyps) linarith+
    moreover have "drop after agents = take (nat limit) (drop after agents) @ drop (after + nat limit) agents"
      by (metis add.commute append_take_drop_id drop_drop)
    ultimately show ?thesis
      using page True lim(1) by (subst agent_pages.simps) (simp add: map_append [symmetric] del: map_append)
  next
    case False
    then show ?thesis using page by (subst agent_pages.simps) simp
  qed
qed

text \<open>
  C29. Listing ends and is complete. In a well-formed state a root that follows the page cursors with any
  allowed page size comes to an end without an error, and has then seen every agent of its tree
  exactly once, in the order of their numbers, each with its spawn status and its latest reported
  lifecycle.
\<close>

theorem agent_pages_complete:
  assumes "spawn_ok s" "lifecycle_core s" "r \<in> set (principals s)" "pr_parent_agent_id r = ''''" "1 \<le> limit" "limit \<le> 32"
  shows "agent_pages (identity_of r) limit s 0 =
    Some (Inr (map (current_record s) (agents_of (pr_controller_id r) (pr_tree_id r) s)))"
  using agent_pages_from [OF assms, of 0] by simp

theorem agent_pages_complete_witness:
  "agent_pages demo_root 1 started 0 =
     Some (Inr [\<lparr>ac_Spawn = spawn_summary (finish_spawn_row AgentSpawnStarted '''' 8 (new_spawn_row demo_spawn 1 7)),
                 ac_Lifecycle = None\<rparr>])"
proof -
  let ?r = "principal_row (NewRootPrincipal (uid CHR ''a'') (uid CHR ''1'') (uid CHR ''2'') (uid CHR ''d'')) 6"
  note i = broker_invD [OF started_broker]
  have r: "?r \<in> set (principals started)" by (simp add: started_def spawned_tables rooted_principals)
  have root: "pr_parent_agent_id ?r = ''''" "identity_of ?r = demo_root" "pr_controller_id ?r = uid CHR ''a''" "pr_tree_id ?r = uid CHR ''1''"
    by (simp_all add: demo_root_def)
  have at: "spawn_at demo_spawn_key (new_spawn_row demo_spawn 1 7)"
    by (simp add: spawn_at_def demo_spawn_key_def spawn_key_of_def new_spawn_row_def)
  have rows: "agent_spawn_receipts started = [finish_spawn_row AgentSpawnStarted '''' 8 (new_spawn_row demo_spawn 1 7)]"
    using at by (simp add: started_def spawned_tables)
  have agents: "agents_of (uid CHR ''a'') (uid CHR ''1'') started = agent_spawn_receipts started"
    by (simp add: agents_of_def rows)
  have none: "agent_lifecycle_states started = []" by (simp add: started_def with_finished_def spawned_tables)
  show ?thesis
    using agent_pages_complete [OF i(5) lifecycle_invD(1) [OF i(3)] r root(1), of 1] unfolding root agents rows
    by (simp add: current_record_def none)
qed

end
