(* ===== verification/Operation_Props.thy ===== *)
theory Operation_Props
  imports Spawn_Props
begin

text \<open>
  Properties of agent operations: queueing a message delivers it and finishes its operation in one
  step, never twice, and a terminal outcome is final.
\<close>

section \<open>Queueing forwards\<close>

lemma guard_tx_pass: "e = None \<Longrightarrow> guard_tx e m s = withImmediateTransaction m s"
  by simp

lemma finish_queued:
  assumes inv: "operations_inv s" and r: "sel1 (operation_at k) (agent_operation_receipts s) = Some r"
    "op_action r = AgentOperationSend" "op_outcome r = AgentOperationOutcomePending" "op_created_at r \<le> t"
  shows "finishAgentOperationTx (operation_receipt_of r d) AgentOperationOutcomeQueued '''' t s =
    Inr (operation_receipt_of (finish_operation_row AgentOperationOutcomeQueued '''' t r) d,
         with_outcome k r AgentOperationOutcomeQueued '''' t s)"
proof -
  have key: "or_Key (operation_receipt_of r d) = k" by (rule operation_at_receipt) (use sel1_SomeD [OF r(1)] in simp)
  have val: "AgentOperationOutcome_Validate AgentOperationOutcomeQueued AgentOperationSend '''' = None"
    by (simp add: AgentOperationOutcome_Validate_def AgentOperationAction_Validate_def AgentOperationAction_accepts_def)
  have "affected (\<lambda>x. operation_at k x \<and> op_outcome x = AgentOperationOutcomePending) (agent_operation_receipts s) = 1"
    by (rule affected_one [OF sel1_conj [OF r(1)] uniq_distinct [OF operations_invD(1) [OF inv]]])
      (use r(3) operation_at_unique [OF inv r(1)] in auto)
  then have "\<exists>y. finishAgentOperationTx (operation_receipt_of r d) AgentOperationOutcomeQueued '''' t s = Inr y"
    using r(2-4) by (simp add: finishAgentOperationTx_def key val Let_def tx_bind_def tx_check_def tx_update_def tx_ret_def)
  then obtain x s' where tx: "finishAgentOperationTx (operation_receipt_of r d) AgentOperationOutcomeQueued '''' t s = Inr (x, s')" by auto
  from inv r(1) this show ?thesis by (cases rule: finishAgentOperationTx_cases) (use tx r(3) in auto)
qed

lemma QueueAgentMessage_tx_eq:
  assumes "operation_ok s" "AgentOperationKey_Validate k = None" "ValidateMailboxMessage m = None" "0 \<le> t"
    and "sel1 (operation_at k) (agent_operation_receipts s) = Some r"
      "op_action r = AgentOperationSend" "op_outcome r = AgentOperationOutcomePending" "op_payload_digest r = sha256_sum m"
      "op_created_at r \<le> t"
    and "queryPrincipal (ok_ControllerID k) (ok_TreeID k) (ok_SourceAgentID k) s = Inr p"
      "authorizeAgentOperationSource (p_Identity p) s = Inr ()"
  shows "QueueAgentMessage_tx k m t s =
    (case sendMailboxMessageTx p \<lparr>mt_Kind = MessageTargetAgent, mt_AgentID = op_agent_id r\<rparr> (ok_OperationID k) m t s of
       Inl e \<Rightarrow> Inl e
     | Inr (d, s1) \<Rightarrow>
         Inr ((operation_receipt_of (finish_operation_row AgentOperationOutcomeQueued '''' t r) (target_device s r), d),
              s1\<lparr>agent_operation_receipts :=
                   upd (operation_at k) (finish_operation_row AgentOperationOutcomeQueued '''' t) (agent_operation_receipts s)\<rparr>))"
    "SendMailboxMessage p \<lparr>mt_Kind = MessageTargetAgent, mt_AgentID = op_agent_id r\<rparr> (ok_OperationID k) m t s =
       withImmediateTransaction (sendMailboxMessageTx p \<lparr>mt_Kind = MessageTargetAgent, mt_AgentID = op_agent_id r\<rparr> (ok_OperationID k) m t) s"
proof -
  note inv = operation_okD [OF assms(1)]
  let ?to = "\<lparr>mt_Kind = MessageTargetAgent, mt_AgentID = op_agent_id r\<rparr>"
  have q: "queryAgentOperationReceipt k s = Inr (operation_receipt_of r (target_device s r))"
    using assms(5) by (simp add: queryAgentOperationReceipt_inv [OF assms(1)])
  obtain pr where "p = principal_of pr" "principal_row_ok s pr" using queryPrincipal_Inr [OF inv(5) assms(10)] by metis
  then have pv: "Principal_Validate p = None" by (simp add: principal_row_ok_def)
  have "ValidateID (op_agent_id r) = None"
    using operations_invD(2) [OF inv(2)] sel1_SomeD [OF assms(5)]
    by (auto simp: operation_row_ok_def AgentOperationResult_Validate_def validateAgentOperationTarget_def operation_result_of_def)
  then show send: "SendMailboxMessage p ?to (ok_OperationID k) m t s =
      withImmediateTransaction (sendMailboxMessageTx p ?to (ok_OperationID k) m t) s"
    unfolding SendMailboxMessage_def
    by (intro guard_tx_pass) (use pv assms(2-4) in \<open>simp add: MessageTarget_Validate_def AgentOperationKey_Validate_def\<close>)
  have tx: "QueueAgentMessage_tx k m t s =
      (case sendMailboxMessageTx p ?to (ok_OperationID k) m t s of
         Inl e \<Rightarrow> Inl e
       | Inr (d, s1) \<Rightarrow>
           (case finishAgentOperationTx (operation_receipt_of r (target_device s r)) AgentOperationOutcomeQueued '''' t s1 of
              Inl e \<Rightarrow> Inl e | Inr (x, s2) \<Rightarrow> Inr ((x, d), s2)))"
    unfolding QueueAgentMessage_tx_def tx_bind_query(1) [of "queryAgentOperationReceipt k", OF q]
      operation_receipt_simps assms(6-8)
      tx_bind_query(1) [of "queryPrincipal (ok_ControllerID k) (ok_TreeID k) (ok_SourceAgentID k)", OF assms(10)]
      tx_bind_query(1) [of "authorizeAgentOperationSource (p_Identity p)", OF assms(11)]
    by (simp add: tx_bind_query(1) [of "queryPrincipal (ok_ControllerID k) (ok_TreeID k) (ok_SourceAgentID k)", OF assms(10)]
        tx_bind_query(1) [of "authorizeAgentOperationSource (p_Identity p)", OF assms(11)])
      (simp add: tx_bind_def tx_ret_def split: sum.split)
  show "QueueAgentMessage_tx k m t s =
    (case sendMailboxMessageTx p ?to (ok_OperationID k) m t s of
       Inl e \<Rightarrow> Inl e
     | Inr (d, s1) \<Rightarrow>
         Inr ((operation_receipt_of (finish_operation_row AgentOperationOutcomeQueued '''' t r) (target_device s r), d),
              s1\<lparr>agent_operation_receipts :=
                   upd (operation_at k) (finish_operation_row AgentOperationOutcomeQueued '''' t) (agent_operation_receipts s)\<rparr>))"
  proof (cases "sendMailboxMessageTx p ?to (ok_OperationID k) m t s")
    case (Inl e)
    then show ?thesis using tx by simp
  next
    case (Inr y)
    obtain d s1 where y: "y = (d, s1)" by (cases y) auto
    have run: "SendMailboxMessage p ?to (ok_OperationID k) m t s = (Inr d, s1)" using send Inr y by (simp add: withImmediateTransaction_def)
    note ok1 = operation_ok_send [OF assms(1) run]
    have ops: "agent_operation_receipts s1 = agent_operation_receipts s" using but_mailboxesD(7) [OF ok1(2)] by simp
    note fin = finish_queued [OF operation_okD(2) [OF ok1(1)] _ assms(6,7,9), of k, unfolded ops, OF assms(5)]
    have "with_outcome k r AgentOperationOutcomeQueued '''' t s1 =
        s1\<lparr>agent_operation_receipts := upd (operation_at k) (finish_operation_row AgentOperationOutcomeQueued '''' t) (agent_operation_receipts s)\<rparr>"
      by (simp add: with_outcome_def turn_counters_def ops)
    then show ?thesis
      using tx Inr y fin [of "target_device s r"] by simp
  qed
qed

text \<open>
  C30. Queueing is atomic. For a pending send operation whose payload is the message, by its root agent,
  the operation succeeds exactly when the mailbox accepts the message for the operation's agent under
  the operation's identifier: then the mailboxes are what that send leaves, the receipt is queued, and
  nothing else changes; when the mailbox refuses, its error is returned and nothing changes at all.
\<close>

theorem queue_is_atomic:
  assumes "operation_ok s" "AgentOperationKey_Validate k = None" "ValidateMailboxMessage m = None" "0 \<le> t"
    and "sel1 (operation_at k) (agent_operation_receipts s) = Some r"
      "op_action r = AgentOperationSend" "op_outcome r = AgentOperationOutcomePending" "op_payload_digest r = sha256_sum m"
      "op_created_at r \<le> t"
    and "queryPrincipal (ok_ControllerID k) (ok_TreeID k) (ok_SourceAgentID k) s = Inr p"
      "authorizeAgentOperationSource (p_Identity p) s = Inr ()"
  shows "QueueAgentMessageAndFinishOperation k m t s =
    (case SendMailboxMessage p \<lparr>mt_Kind = MessageTargetAgent, mt_AgentID = op_agent_id r\<rparr> (ok_OperationID k) m t s of
       (Inl e, _) \<Rightarrow> (Inl e, s)
     | (Inr d, s1) \<Rightarrow>
         (Inr (operation_receipt_of (finish_operation_row AgentOperationOutcomeQueued '''' t r) (target_device s r), d),
          s1\<lparr>agent_operation_receipts :=
               upd (operation_at k) (finish_operation_row AgentOperationOutcomeQueued '''' t) (agent_operation_receipts s)\<rparr>))"
proof -
  note eq = QueueAgentMessage_tx_eq [OF assms]
  have queue: "QueueAgentMessageAndFinishOperation k m t s = withImmediateTransaction (QueueAgentMessage_tx k m t) s"
    unfolding QueueAgentMessageAndFinishOperation_def by (intro guard_tx_pass) (use assms(2-4) in simp)
  show ?thesis
    unfolding queue eq(2) withImmediateTransaction_def eq(1) by (simp split: sum.split prod.split)
qed

section \<open>A concrete operation\<close>

definition demo_operation :: AgentOperationIntent where
  "demo_operation = \<lparr>oi_Source = demo_root, oi_OperationID = uid CHR ''6'', oi_AgentID = uid CHR ''3'',
     oi_Action = AgentOperationSend, oi_PayloadDigest = sha256_sum ''hello''\<rparr>"

definition demo_operation_key :: AgentOperationKey where
  "demo_operation_key = operation_key_of demo_root (uid CHR ''6'')"

lemma demo_operation_simps [simp]:
  "oi_Source demo_operation = demo_root" "oi_OperationID demo_operation = uid CHR ''6''" "oi_AgentID demo_operation = uid CHR ''3''"
  "oi_Action demo_operation = AgentOperationSend" "oi_PayloadDigest demo_operation = sha256_sum ''hello''"
  "ok_ControllerID demo_operation_key = uid CHR ''a''" "ok_TreeID demo_operation_key = uid CHR ''1''"
  "ok_SourceAgentID demo_operation_key = uid CHR ''2''" "ok_OperationID demo_operation_key = uid CHR ''6''"
  by (simp_all add: demo_operation_def demo_operation_key_def operation_key_of_def)

lemma started_rows: "agent_spawn_receipts started = [finish_spawn_row AgentSpawnStarted '''' 8 (new_spawn_row demo_spawn 1 7)]"
proof -
  have "spawn_at demo_spawn_key (new_spawn_row demo_spawn 1 7)"
    by (simp add: spawn_at_def demo_spawn_key_def spawn_key_of_def new_spawn_row_def)
  then show ?thesis by (simp add: started_def spawned_tables)
qed

lemma started_tables:
  "principals started = principals rooted @ [principal_row (spawned_principal demo_spawn) 7]" "agent_operation_receipts started = []"
  "mailboxes started = []" "mailbox_messages started = []" "mailbox_receipts started = []" "devices started = devices one_peer"
  "trees started = [(new_tree_row demo_tree)\<lparr>t_last_agent_sequence := 1\<rparr>]" "peer_worker_sync_cursors started = []"
  "agent_lifecycle_states started = []"
  by (simp_all add: started_def with_finished_def spawned_tables)

lemma started_root:
  "queryPrincipal (uid CHR ''a'') (uid CHR ''1'') (uid CHR ''2'') started = Inr root_principal"
  "authorizeAgentOperationSource demo_root started = Inr ()"
proof -
  note i = broker_invD [OF started_broker]
  show "queryPrincipal (uid CHR ''a'') (uid CHR ''1'') (uid CHR ''2'') started = Inr root_principal"
    by (simp add: queryPrincipal_inv [OF i(9)] started_tables rooted_principals principal_at_def root_principal_def)
  let ?r = "principal_row (NewRootPrincipal (uid CHR ''a'') (uid CHR ''1'') (uid CHR ''2'') (uid CHR ''d'')) 6"
  have r: "?r \<in> set (principals started)" by (simp add: started_tables rooted_principals)
  have "pr_parent_agent_id ?r = ''''" "identity_of ?r = demo_root" by (simp_all add: demo_root_def)
  then show "authorizeAgentOperationSource demo_root started = Inr ()"
    using authorize_root [OF i(9) r] by (simp add: authorizeAgentOperationSource_def demo_root_def)
qed

definition operated :: BrokerDb where
  "operated = started\<lparr>agent_operation_receipts := [new_operation_row demo_operation 9]\<rparr>"

lemma operated_run:
  "BeginAgentOperation demo_operation 9 started =
     (Inr (operation_receipt_of (new_operation_row demo_operation 9) (uid CHR ''d'')), operated)"
proof -
  note i = broker_invD [OF started_broker]
  let ?sp = "finish_spawn_row AgentSpawnStarted '''' 8 (new_spawn_row demo_spawn 1 7)"
  have p: "authorizeAgentOperationSource (oi_Source demo_operation) started = Inr ()" using started_root(2) by simp
  have q: "or_not_found (queryAgentOperationReceipt (operation_key_of (oi_Source demo_operation) (oi_OperationID demo_operation)) started) = Inr None"
    by (simp add: queryAgentOperationReceipt_inv [OF i(2)] started_tables)
  have at: "spawned_agent_at (uid CHR ''a'') (uid CHR ''1'') (uid CHR ''3'') ?sp"
    by (simp add: spawned_agent_at_def new_spawn_row_def)
  have t: "queryStartedDirectDescendant (oi_Source demo_operation) (oi_AgentID demo_operation) started = Inr (spawn_receipt ?sp)"
    by (simp add: queryStartedDirectDescendant_Inr [OF i(8,9)] started_rows at)
  have "operation_insertable (new_operation_row demo_operation 9) started"
    by (simp add: operation_insertable_def started_tables rooted_principals tree_at_def principal_at_def new_tree_row_def
        spawned_principal_def sha256_sum_length)
  then have "BeginAgentOperation_tx demo_operation 9 started =
      Inr (operation_receipt_of (new_operation_row demo_operation 9) (uid CHR ''d''), operated)"
    unfolding BeginAgentOperation_tx_def
      tx_bind_query(1) [of "authorizeAgentOperationSource (oi_Source demo_operation)", OF p]
      tx_bind_query(1) [of "\<lambda>s. or_not_found (queryAgentOperationReceipt (operation_key_of (oi_Source demo_operation) (oi_OperationID demo_operation)) s)", OF q]
      option.case tx_bind_query(1) [of "queryStartedDirectDescendant (oi_Source demo_operation) (oi_AgentID demo_operation)", OF t]
    by (simp add: tx_bind_def tx_insert_def tx_ret_def operated_def started_tables spawn_receipt_def spawn_summary_def spawn_identity_def
        new_spawn_row_def finish_spawn_row_def)
  moreover have pre: "first_err [validateAgentOperationIntent demo_operation, unixTime 9 ''createdAt''] = None"
    by (simp add: validateAgentOperationIntent_def demo_root_valid AgentOperationAction_Validate_def)
  ultimately show ?thesis unfolding BeginAgentOperation_def pre by (simp add: withImmediateTransaction_def)
qed

lemma operated_broker: "broker_inv operated"
  using BeginAgentOperation_broker [OF started_broker operated_run] by (simp add: broker_ok_def)

lemma operated_tables:
  "principals operated = principals started" "trees operated = trees started" "mailboxes operated = []"
  "mailbox_messages operated = []" "mailbox_receipts operated = []"
  "agent_operation_receipts operated = [new_operation_row demo_operation 9]"
  by (simp_all add: operated_def started_tables)

lemma operated_root:
  "queryPrincipal (uid CHR ''a'') (uid CHR ''1'') (uid CHR ''2'') operated = Inr root_principal"
  "authorizeAgentOperationSource demo_root operated = Inr ()"
proof -
  show "queryPrincipal (uid CHR ''a'') (uid CHR ''1'') (uid CHR ''2'') operated = Inr root_principal"
    using started_root(1) by (simp add: queryPrincipal_def operated_tables)
  have "authorizePrincipal demo_root c operated = authorizePrincipal demo_root c started" for c
    by (rule authorizePrincipal_cong) (simp_all add: operated_tables)
  then show "authorizeAgentOperationSource demo_root operated = Inr ()"
    using started_root(2) by (simp add: authorizeAgentOperationSource_def)
qed

lemma operated_send:
  "SendMailboxMessage root_principal \<lparr>mt_Kind = MessageTargetAgent, mt_AgentID = uid CHR ''3''\<rparr> (uid CHR ''6'') ''hello'' 10 operated =
     (Inr \<lparr>md_RecipientAgentID = uid CHR ''3'', md_MessageID = uid CHR ''6'', md_Sequence = 1\<rparr>,
      enqueued demo_root (uid CHR ''3'') (uid CHR ''6'') ''hello'' 10 operated)"
proof -
  let ?to = "\<lparr>mt_Kind = MessageTargetAgent, mt_AgentID = uid CHR ''3''\<rparr>"
  note i = broker_invD [OF operated_broker]
  have st: "stored_principal root_principal operated = Inr root_principal"
    using operated_root(1) by (simp add: stored_principal_def demo_principals Principal_Matches_def)
  have q: "queryPrincipal (uid CHR ''a'') (uid CHR ''1'') (uid CHR ''3'') operated = Inr (spawned_principal demo_spawn)"
    by (simp add: queryPrincipal_inv [OF i(9)] operated_tables started_tables rooted_principals principal_at_def spawned_principal_def)
  have res: "resolveMessageRecipient root_principal ?to operated = Inr (uid CHR ''3'')"
    by (simp add: resolveMessageRecipient_def Let_def demo_principals Require_role role_capabilities_def RootCapabilities_def)
  have "send_spec root_principal ?to (uid CHR ''6'') ''hello'' 10 operated =
      Inr (\<lparr>md_RecipientAgentID = uid CHR ''3'', md_MessageID = uid CHR ''6'', md_Sequence = 1\<rparr>,
        enqueued demo_root (uid CHR ''3'') (uid CHR ''6'') ''hello'' 10 operated)"
    by (simp add: send_spec_def Let_def st res q demo_principals findMailboxDelivery_def affected_def operated_tables
        maximumPendingMailboxMessages_def last_sequence_def MaxInt64_def)
  then have "sendMailboxMessageTx root_principal ?to (uid CHR ''6'') ''hello'' 10 operated =
      Inr (\<lparr>md_RecipientAgentID = uid CHR ''3'', md_MessageID = uid CHR ''6'', md_Sequence = 1\<rparr>,
        enqueued demo_root (uid CHR ''3'') (uid CHR ''6'') ''hello'' 10 operated)"
    using sendMailboxMessageTx_eq [OF i(7,9) hello_message, of 10] by simp
  then show ?thesis by (simp add: SendMailboxMessage_def demo_principals MessageTarget_Validate_def hello_message)
qed

lemma demo_key_at: "sel1 (operation_at demo_operation_key) (agent_operation_receipts operated) = Some (new_operation_row demo_operation 9)"
  by (simp add: operated_tables operation_at_def)

lemma demo_operation_key_valid: "AgentOperationKey_Validate demo_operation_key = None"
  by (simp add: AgentOperationKey_Validate_def)

theorem queue_is_atomic_witness:
  "\<exists>x s'. QueueAgentMessageAndFinishOperation demo_operation_key ''hello'' 10 operated =
      (Inr (x, \<lparr>md_RecipientAgentID = uid CHR ''3'', md_MessageID = uid CHR ''6'', md_Sequence = 1\<rparr>), s')
    \<and> or_Outcome x = AgentOperationOutcomeQueued \<and> length (mailbox_messages s') = 1"
proof -
  have msgs: "length (mailbox_messages (enqueued demo_root (uid CHR ''3'') (uid CHR ''6'') ''hello'' 10 operated)) = 1"
    by (simp add: enqueued_tables operated_tables)
  have src: "queryPrincipal (ok_ControllerID demo_operation_key) (ok_TreeID demo_operation_key) (ok_SourceAgentID demo_operation_key) operated =
      Inr root_principal" "authorizeAgentOperationSource (p_Identity root_principal) operated = Inr ()"
    using operated_root by (simp_all add: demo_principals)
  from queue_is_atomic [OF broker_invD(2) [OF operated_broker] demo_operation_key_valid hello_message, of 10, OF _ demo_key_at _ _ _ _ src]
    operated_send msgs
  show ?thesis by simp
qed

section \<open>Exactly once\<close>

lemma operation_row_follows:
  assumes inv: "broker_inv s" and run: "broker_step\<^sup>*\<^sup>* s s'" and r: "sel1 (operation_at k) (agent_operation_receipts s) = Some r"
  obtains r' where "sel1 (operation_at k) (agent_operation_receipts s') = Some r'" "operation_le r r'" "broker_inv s'"
proof -
  have ok: "broker_inv s'" "operations_le s s'" using broker_steps_ok [OF run inv] by (simp_all add: broker_ok_def broker_le_def)
  have mem: "r \<in> set (agent_operation_receipts s)" "operation_at k r" using sel1_SomeD [OF r] by simp_all
  obtain r' where r': "r' \<in> set (agent_operation_receipts s')" "operation_le r r'" using ok(2) mem(1) by (auto simp: operations_le_def)
  have at: "operation_at k = (\<lambda>r. operation_key r = (ok_ControllerID k, ok_TreeID k, ok_SourceAgentID k, ok_OperationID k))"
    by (auto simp: operation_at_def operation_key_def fun_eq_iff)
  have "operation_key r' = (ok_ControllerID k, ok_TreeID k, ok_SourceAgentID k, ok_OperationID k)"
    using mem(2) r'(2) by (simp add: at operation_le_def)
  then have "sel1 (operation_at k) (agent_operation_receipts s') = Some r'"
    using uniq_sel1 [OF operations_invD(1) [OF broker_invD(6) [OF ok(1)]] r'(1)] by (simp add: at)
  then show thesis using that r'(2) ok(1) by blast
qed

lemma queue_again:
  assumes "operation_ok s" "AgentOperationKey_Validate k = None" "ValidateMailboxMessage m = None" "0 \<le> t"
    and "sel1 (operation_at k) (agent_operation_receipts s) = Some r" "op_action r = AgentOperationSend"
      "op_outcome r = AgentOperationOutcomeQueued"
  shows "QueueAgentMessageAndFinishOperation k m t s =
    (if op_payload_digest r = sha256_sum m then (Inr (operation_receipt_of r (target_device s r), no_delivery), s)
     else (Inl (Wrapped ''queued message does not match agent operation'' (Sentinel ErrConflict)), s))"
proof -
  have q: "queryAgentOperationReceipt k s = Inr (operation_receipt_of r (target_device s r))"
    using assms(5) by (simp add: queryAgentOperationReceipt_inv [OF assms(1)])
  have "QueueAgentMessageAndFinishOperation k m t s = withImmediateTransaction (QueueAgentMessage_tx k m t) s"
    unfolding QueueAgentMessageAndFinishOperation_def by (intro guard_tx_pass) (use assms(2-4) in simp)
  then show ?thesis
    unfolding QueueAgentMessage_tx_def withImmediateTransaction_def tx_bind_query(1) [of "queryAgentOperationReceipt k", OF q]
    using assms(6,7) by (simp add: tx_ret_def tx_fail_def)
qed

text \<open>
  C3. A queued message is delivered once. After it was queued, and whatever the broker does next,
  including the recipient reading and acknowledging it, repeating the call reports the queued receipt
  without a second delivery and changes nothing, a message with another digest under that operation is
  a conflict, and the operation cannot be finished with any other outcome.
\<close>

theorem queue_exactly_once:
  assumes "broker_inv s" "QueueAgentMessageAndFinishOperation k m t s = (Inr (x, d), s1)" "broker_step\<^sup>*\<^sup>* s1 s2" "0 \<le> t'"
  shows "(\<exists>x'. QueueAgentMessageAndFinishOperation k m t' s2 = (Inr (x', no_delivery), s2) \<and> or_Outcome x' = AgentOperationOutcomeQueued)
    \<and> (ValidateMailboxMessage m' = None \<and> sha256_sum m' \<noteq> sha256_sum m \<longrightarrow>
         (\<exists>e. QueueAgentMessageAndFinishOperation k m' t' s2 = (Inl e, s2) \<and> errors_is e ErrConflict))
    \<and> (FinishAgentOperation k out code t' s2 = (Inr y, s3) \<longrightarrow> out = AgentOperationOutcomeQueued \<and> s3 = s2)"
proof -
  have inv1: "broker_inv s1" using Queue_broker [OF assms(1,2)] by (simp add: broker_ok_def)
  have val: "AgentOperationKey_Validate k = None" "ValidateMailboxMessage m = None"
    using assms(2) by (simp_all add: QueueAgentMessageAndFinishOperation_def)
  obtain r where r: "sel1 (operation_at k) (agent_operation_receipts s1) = Some r" "op_action r = AgentOperationSend"
    "op_payload_digest r = sha256_sum m" "op_outcome r = AgentOperationOutcomeQueued"
    using broker_invD(2) [OF assms(1)] assms(2)
  proof (cases rule: Queue_cases)
    case (queued r)
    then show thesis using that by simp
  next
    case (delivered r p s')
    have "agent_operation_receipts s' = agent_operation_receipts s"
      using but_mailboxesD(7) [OF operation_ok_send(2) [OF broker_invD(2) [OF assms(1)] delivered(8)]] .
    moreover have "sel1 (operation_at k) (upd (operation_at k) (finish_operation_row AgentOperationOutcomeQueued '''' t) (agent_operation_receipts s)) =
        Some (finish_operation_row AgentOperationOutcomeQueued '''' t r)"
      by (subst sel1_upd_same) (simp_all add: delivered(1))
    ultimately show thesis using that delivered(2,3) by (simp add: delivered(10))
  qed
  obtain r2 where r2: "sel1 (operation_at k) (agent_operation_receipts s2) = Some r2" "operation_le r r2" "broker_inv s2"
    by (rule operation_row_follows [OF inv1 assms(3) r(1)])
  have row: "op_action r2 = AgentOperationSend" "op_payload_digest r2 = sha256_sum m" "op_outcome r2 = AgentOperationOutcomeQueued"
    using r2(2) r(2-4) by (simp_all add: operation_le_def)
  note again = queue_again [OF broker_invD(2) [OF r2(3)] val(1) _ assms(4) r2(1) row(1,3)]
  have q: "queryAgentOperationReceipt k s2 = Inr (operation_receipt_of r2 (target_device s2 r2))"
    using r2(1) by (simp add: queryAgentOperationReceipt_inv [OF broker_invD(2) [OF r2(3)]])
  have "out = AgentOperationOutcomeQueued \<and> s3 = s2" if "FinishAgentOperation k out code t' s2 = (Inr y, s3)"
    using operation_terminal.finish_final [OF broker_invD(2) [OF r2(3)] q, of "(out, code)" t' y s3] that row(3) by simp
  then show ?thesis using again [OF val(2)] again [of m'] row by simp
qed

theorem queue_exactly_once_witness:
  "\<exists>x d s1. QueueAgentMessageAndFinishOperation demo_operation_key ''hello'' 10 operated = (Inr (x, d), s1)
     \<and> (\<exists>x'. QueueAgentMessageAndFinishOperation demo_operation_key ''hello'' 12 (snd (ReadMailbox (spawned_principal demo_spawn) 1 4 s1)) =
          (Inr (x', no_delivery), snd (ReadMailbox (spawned_principal demo_spawn) 1 4 s1)))"
proof -
  have "\<exists>x d s1. QueueAgentMessage_tx demo_operation_key ''hello'' 10 operated = Inr ((x, d), s1)"
  proof -
    have src: "queryPrincipal (ok_ControllerID demo_operation_key) (ok_TreeID demo_operation_key) (ok_SourceAgentID demo_operation_key) operated =
        Inr root_principal" "authorizeAgentOperationSource (p_Identity root_principal) operated = Inr ()"
      using operated_root by (simp_all add: demo_principals)
    note eq = QueueAgentMessage_tx_eq [OF broker_invD(2) [OF operated_broker] demo_operation_key_valid hello_message, of 10, OF _ demo_key_at _ _ _ _ src]
    obtain d s1 where "sendMailboxMessageTx root_principal \<lparr>mt_Kind = MessageTargetAgent, mt_AgentID = uid CHR ''3''\<rparr> (uid CHR ''6'') ''hello'' 10 operated = Inr (d, s1)"
      using operated_send by (simp add: SendMailboxMessage_def)
    then show ?thesis using eq(1) by simp
  qed
  then obtain x d s1 where run: "QueueAgentMessageAndFinishOperation demo_operation_key ''hello'' 10 operated = (Inr (x, d), s1)"
    by (auto simp: QueueAgentMessageAndFinishOperation_def demo_operation_key_valid hello_message)
  have step: "broker_step\<^sup>*\<^sup>* s1 (snd (ReadMailbox (spawned_principal demo_spawn) 1 4 s1))" by (rule r_into_rtranclp, rule read)
  have "\<exists>x'. QueueAgentMessageAndFinishOperation demo_operation_key ''hello'' 12 (snd (ReadMailbox (spawned_principal demo_spawn) 1 4 s1)) =
      (Inr (x', no_delivery), snd (ReadMailbox (spawned_principal demo_spawn) 1 4 s1))"
    using conjunct1 [OF queue_exactly_once [OF operated_broker run step, of 12]] by auto
  then show ?thesis using run by blast
qed

end
