(* ===== verification/Lifecycle_Props.thy ===== *)
theory Lifecycle_Props
  imports Operation_Props
begin

text \<open>
  Properties of worker lifecycles: sessions and pages refine a map from agents to their latest report
  with one session per device, a newer session fences older ones, and a follower of the activity feed
  misses no event.
\<close>

section \<open>The abstract contract\<close>

text \<open>
  What a peer relies on: the broker holds, for every agent, the last snapshot it was sent, and for
  every device, the session that may send and the revision up to which it has applied.
\<close>

record LifecycleSpec =
  latest :: "string \<times> string \<times> string \<rightharpoonup> WorkerLifecycleSnapshot"
  session :: "string \<times> string \<rightharpoonup> string \<times> nat \<times> nat"

definition device_of :: "WorkerLifecycleSession \<Rightarrow> string \<times> string" where
  "device_of se = (se_ControllerID se, se_DeviceID se)"

definition spec_claim :: "WorkerLifecycleSession \<Rightarrow> LifecycleSpec \<Rightarrow> nat \<times> LifecycleSpec" where
  "spec_claim se a =
     (let n = (case session a (device_of se) of None \<Rightarrow> 0 | Some (_, _, n) \<Rightarrow> n)
      in (n, a\<lparr>session := (session a)(device_of se \<mapsto> (se_ConnectionID se, se_LeaseRevision se, n))\<rparr>))"

definition spec_may_apply :: "WorkerLifecycleSession \<Rightarrow> nat \<Rightarrow> LifecycleSpec \<Rightarrow> bool" where
  "spec_may_apply se base a \<longleftrightarrow> session a (device_of se) = Some (se_ConnectionID se, se_LeaseRevision se, base)"

definition spec_apply :: "WorkerLifecycleSession \<Rightarrow> WorkerLifecycleSnapshot list \<Rightarrow> nat \<Rightarrow> LifecycleSpec \<Rightarrow> LifecycleSpec" where
  "spec_apply se ws n a =
     a\<lparr>latest := latest a ++ map_of (map (\<lambda>w. (snapshot_key se w, w)) ws),
       session := (session a)(device_of se \<mapsto> (se_ConnectionID se, se_LeaseRevision se, n))\<rparr>"

definition lifecycle_view :: "BrokerDb \<Rightarrow> LifecycleSpec" where
  "lifecycle_view s =
     \<lparr>latest = (\<lambda>k. map_option snapshot_of (sel1 (\<lambda>r. lifecycle_key r = k) (agent_lifecycle_states s))),
      session = (\<lambda>k. map_option (\<lambda>r. (cu_active_connection_id r, nat (cu_active_lease_revision r), nat (cu_applied_revision r)))
        (sel1 (\<lambda>r. cursor_key r = k) (peer_worker_sync_cursors s)))\<rparr>"

lemma latest_uniq:
  assumes "lifecycle_core s" "r \<in> set (agent_lifecycle_states s)"
  shows "latest (lifecycle_view s) (lifecycle_key r) = Some (snapshot_of r)"
  using uniq_sel1 [OF lifecycle_coreD(1) [OF assms(1)] assms(2)] by (simp add: lifecycle_view_def)

lemma latest_None: "latest (lifecycle_view s) k = None \<longleftrightarrow> (\<forall>r \<in> set (agent_lifecycle_states s). lifecycle_key r \<noteq> k)"
  by (simp add: lifecycle_view_def sel1_None_iff)

lemma latest_apply:
  assumes core: "lifecycle_core s" "lifecycle_core s'" and dist: "distinct (map (snapshot_key se) ws)"
    and stored: "\<forall>w \<in> set ws. stored_snapshot se w s'" and wo: "writes_only se (set ws) s s'"
    and kept: "\<forall>x \<in> set (agent_lifecycle_states s). lifecycle_key x \<notin> snapshot_key se ` set ws \<longrightarrow> x \<in> set (agent_lifecycle_states s')"
  shows "latest (lifecycle_view s') = latest (lifecycle_view s) ++ map_of (map (\<lambda>w. (snapshot_key se w, w)) ws)"
proof
  fix k
  let ?m = "map_of (map (\<lambda>w. (snapshot_key se w, w)) ws)"
  show "latest (lifecycle_view s') k = (latest (lifecycle_view s) ++ ?m) k"
  proof (cases "k \<in> snapshot_key se ` set ws")
    case True
    then obtain w where w: "w \<in> set ws" "k = snapshot_key se w" by blast
    have "?m k = Some w" using w dist by (intro map_of_is_SomeI) (auto simp: comp_def)
    moreover have "latest (lifecycle_view s') k = Some w"
      using stored w latest_uniq [OF core(2)] unfolding stored_snapshot_def by metis
    ultimately show ?thesis by simp
  next
    case False
    then have none: "?m k = None" by (auto simp: map_of_eq_None_iff)
    have touched: "lifecycle_key r \<in> snapshot_key se ` set ws" if t: "touched_by se (set ws) r" for r
    proof -
      obtain w where w: "w \<in> set ws" "snapshot_of r = w" "lc_controller_id r = se_ControllerID se"
        using t by (auto simp: touched_by_def)
      have "lifecycle_key r = snapshot_key se w" unfolding w(2) [symmetric] using w(3) by (simp add: lifecycle_key_def snapshot_key_def snapshot_of_def)
      then show ?thesis using w(1) by blast
    qed
    have "latest (lifecycle_view s') k = latest (lifecycle_view s) k"
    proof (cases "latest (lifecycle_view s) k")
      case None
      then have "\<forall>r \<in> set (agent_lifecycle_states s'). lifecycle_key r \<noteq> k"
        using wo False touched by (auto simp: latest_None writes_only_def)
      then have "latest (lifecycle_view s') k = None" by (simp add: latest_None)
      then show ?thesis using None by simp
    next
      case (Some w)
      then obtain r where r: "r \<in> set (agent_lifecycle_states s)" "lifecycle_key r = k"
        by (metis latest_None option.distinct(1))
      then have "r \<in> set (agent_lifecycle_states s')" using kept False by simp
      then show ?thesis using latest_uniq [OF core(2)] latest_uniq [OF core(1) r(1)] r(2) by force
    qed
    then show ?thesis using none by (simp add: map_add_def)
  qed
qed

lemma session_upd:
  assumes "\<And>r. cursor_key (f r) = cursor_key r"
  shows "sel1 (\<lambda>r. cursor_key r = k) (upd (cursor_at se) f rows) =
    (if k = device_of se then map_option f (sel1 (cursor_at se) rows) else sel1 (\<lambda>r. cursor_key r = k) rows)"
proof -
  have "sel1 (\<lambda>r. cursor_key r = k) (upd (cursor_at se) f rows) =
      map_option (\<lambda>r. if cursor_at se r then f r else r) (sel1 (\<lambda>r. cursor_key r = k) rows)"
    by (rule sel1_upd) (simp add: assms)
  then show ?thesis
    by (cases "sel1 (\<lambda>r. cursor_key r = k) rows") (auto simp: cursor_at_key device_of_def dest: sel1_SomeD)
qed

lemma session_view: "session (lifecycle_view s) (device_of se) =
    map_option (\<lambda>r. (cu_active_connection_id r, nat (cu_active_lease_revision r), nat (cu_applied_revision r)))
      (sel1 (cursor_at se) (peer_worker_sync_cursors s))"
  by (simp add: lifecycle_view_def device_of_def cursor_at_key)

lemma claim_refines:
  assumes inv: "lifecycle_inv s" and run: "ClaimWorkerLifecycleSession cl s = (Inr n, s')"
  shows "(n, lifecycle_view s') = spec_claim (cl_Session cl) (lifecycle_view s)"
proof -
  let ?se = "cl_Session cl" and ?rows = "peer_worker_sync_cursors s"
  note c = Claim_cases [OF inv run]
  have n: "n = (case session (lifecycle_view s) (device_of ?se) of None \<Rightarrow> 0 | Some (_, _, n) \<Rightarrow> n)"
    using c(3) by (auto simp: session_view session_cursor_def split: option.splits)
  have "session (lifecycle_view s') = (session (lifecycle_view s))(device_of ?se \<mapsto> (se_ConnectionID ?se, se_LeaseRevision ?se, n))"
  proof
    fix k
    show "session (lifecycle_view s') k = ((session (lifecycle_view s))(device_of ?se \<mapsto> (se_ConnectionID ?se, se_LeaseRevision ?se, n))) k"
    proof (cases "sel1 (cursor_at ?se) ?rows")
      case None
      have at: "sel1 (\<lambda>r. cursor_key r = device_of ?se) ?rows = None" using None by (simp add: cursor_at_key device_of_def)
      have new: "cursor_key (claim_row ?se n) = device_of ?se" by (simp add: device_of_def)
      show ?thesis
        unfolding c(4) lifecycle_view_def
        using None at new by (auto simp: upsert_cursor_rows sel1_append split: option.splits)
    next
      case (Some r)
      then have "cu_applied_revision r = int n" using c(3) by (simp add: session_cursor_def)
      then show ?thesis
        unfolding c(4) lifecycle_view_def using Some by (simp add: upsert_cursor_rows session_upd)
    qed
  qed
  moreover have "latest (lifecycle_view s') = latest (lifecycle_view s)" by (simp add: c(4) lifecycle_view_def upsert_cursor_def)
  ultimately show ?thesis using n by (simp add: spec_claim_def Let_def)
qed

lemma apply_refines:
  assumes ok: "spawn_ok s" and inv: "lifecycle_inv s" and run: "ApplyWorkerLifecyclePage q s = (Inr n, s')"
  defines "se \<equiv> pa_Session q"
  shows "spec_may_apply se (sl_BaseRevision (pa_Page q)) (lifecycle_view s)
    \<and> lifecycle_view s' = spec_apply se (sl_Workers (pa_Page q)) n (lifecycle_view s)"
proof -
  note a = Apply_ok [OF ok inv run, folded se_def]
  obtain s1 u where ap: "AppliedRevision (pa_Page q) = Inr n" "0 \<le> pa_ObservedAt q"
    "queryWorkerLifecycleCursor se s = Inr (sl_BaseRevision (pa_Page q))"
    "tx_each (\<lambda>w. applyWorkerLifecycleSnapshot se w (pa_ObservedAt q)) (sl_Workers (pa_Page q)) s = Inr (u, s1)"
    "advance_cursor se (sl_BaseRevision (pa_Page q)) n s1 = Inr ((), s')"
    using Apply_cases [OF run] unfolding se_def by metis
  note rev = AppliedRevision_Inr [OF ap(1)]
  note cs = lifecycle_invD(2) [OF inv]
  obtain r where r: "sel1 (cursor_at se) (peer_worker_sync_cursors s) = Some r" "cu_active_connection_id r = se_ConnectionID se"
    "cu_active_lease_revision r = int (se_LeaseRevision se)" "cu_applied_revision r = int (sl_BaseRevision (pa_Page q))"
    using ap(3) by (auto simp: queryWorkerLifecycleCursor_Inr [OF cs])
  have eff: "snapshot_effect se (set (sl_Workers (pa_Page q))) s s1"
    by (rule apply_page_ok [OF ok lifecycle_invD(1) [OF inv] _ ap(2,4)]) (use rev(4) in blast)
  have cu1: "peer_worker_sync_cursors s1 = peer_worker_sync_cursors s" using eff by (simp add: snapshot_effect_def)
  have cs1: "cursors_inv s1" and q1: "queryWorkerLifecycleCursor se s1 = Inr (sl_BaseRevision (pa_Page q))"
    using cs ap(3) cu1 by (simp_all add: cursors_inv_def queryWorkerLifecycleCursor_def)
  have cu: "peer_worker_sync_cursors s' = upd (cursor_at se) (\<lambda>r. r\<lparr>cu_applied_revision := int n\<rparr>) (peer_worker_sync_cursors s)"
    by (simp add: advance_cursor_Inr [OF cs1 q1 ap(5)] cu1)
  have ck: "cursor_key (r\<lparr>cu_applied_revision := int n\<rparr>) = cursor_key r" for r :: CursorRow by (simp add: cursor_key_def)
  have "session (lifecycle_view s') = (session (lifecycle_view s))(device_of se \<mapsto> (se_ConnectionID se, se_LeaseRevision se, n))"
    using r by (auto simp: fun_eq_iff lifecycle_view_def cu session_upd [OF ck])
  moreover have "latest (lifecycle_view s') = latest (lifecycle_view s) ++ map_of (map (\<lambda>w. (snapshot_key se w, w)) (sl_Workers (pa_Page q)))"
    by (rule latest_apply [OF lifecycle_invD(1) [OF inv] lifecycle_invD(1) [OF a(2)] rev(5) a(5,4,8)])
  ultimately show ?thesis using r by (simp add: spec_apply_def spec_may_apply_def session_view)
qed

text \<open>
  C2. The lifecycle store refines its contract. Seen as a map from agents to their last report and from
  devices to their session, a successful claim is exactly the abstract claim, which installs the session
  and keeps the applied revision, and returns that revision; a successful page is exactly the abstract
  page, which is allowed only to the installed session at its applied revision, replaces the reports of
  the agents it names, keeps all others, and advances the revision.
\<close>

theorem lifecycle_refines:
  assumes "spawn_ok s" "lifecycle_inv s"
  shows "(ClaimWorkerLifecycleSession cl s = (Inr n, s') \<longrightarrow> (n, lifecycle_view s') = spec_claim (cl_Session cl) (lifecycle_view s))
    \<and> (ApplyWorkerLifecyclePage q s = (Inr m, s'') \<longrightarrow>
        spec_may_apply (pa_Session q) (sl_BaseRevision (pa_Page q)) (lifecycle_view s)
        \<and> lifecycle_view s'' = spec_apply (pa_Session q) (sl_Workers (pa_Page q)) m (lifecycle_view s))"
  using claim_refines [OF assms(2)] apply_refines [OF assms] by blast

section \<open>A concrete session\<close>

definition demo_session :: WorkerLifecycleSession where
  "demo_session = \<lparr>se_ControllerID = uid CHR ''a'', se_DeviceID = uid CHR ''d'', se_ConnectionID = uid CHR ''c'', se_LeaseRevision = 1\<rparr>"

definition demo_claim :: WorkerLifecycleSessionClaim where
  "demo_claim = \<lparr>cl_Session = demo_session, cl_WorkerRevision = 5\<rparr>"

definition demo_snapshot :: WorkerLifecycleSnapshot where
  "demo_snapshot = \<lparr>wl_TreeID = uid CHR ''1'', wl_AgentID = uid CHR ''3'', wl_Revision = 1, wl_Phase = WorkerLifecycleStarting,
     wl_FailureCode = '''', wl_CodexThreadID = '''', wl_ActiveTurnID = ''''\<rparr>"

definition demo_page :: WorkerLifecyclePageApply where
  "demo_page = \<lparr>pa_Session = demo_session, pa_Page = \<lparr>sl_BaseRevision = 0, sl_ThroughRevision = 1, sl_Complete = True,
     sl_Workers = [demo_snapshot]\<rparr>, pa_ObservedAt = 12\<rparr>"

definition claimed :: BrokerDb where
  "claimed = started\<lparr>peer_worker_sync_cursors := [claim_row demo_session 0]\<rparr>"

lemma demo_session_simps [simp]:
  "se_ControllerID demo_session = uid CHR ''a''" "se_DeviceID demo_session = uid CHR ''d''"
  "se_ConnectionID demo_session = uid CHR ''c''" "se_LeaseRevision demo_session = 1" "cl_Session demo_claim = demo_session"
  "cl_WorkerRevision demo_claim = 5" "pa_Session demo_page = demo_session" "pa_ObservedAt demo_page = 12"
  by (simp_all add: demo_session_def demo_claim_def demo_page_def)

lemma demo_lease: "devices s = devices one_peer \<Longrightarrow> verifyWorkerLifecycleLease demo_session s = Inr ()"
proof -
  assume "devices s = devices one_peer"
  then have "queryDevice (uid CHR ''a'') (uid CHR ''d'') s = Inr (deviceFromDescriptor (peer_descriptor (uid CHR ''d'')) 5 1)"
    using rooted_device by (simp add: queryDevice_def)
  then show ?thesis by (simp add: verifyWorkerLifecycleLease_def deviceFromDescriptor_def)
qed

lemma demo_session_valid: "WorkerLifecycleSession_Validate demo_session = None"
  by (simp add: WorkerLifecycleSession_Validate_def MaxInt64_def)

lemma claimed_run: "ClaimWorkerLifecycleSession demo_claim started = (Inr 0, claimed)"
proof -
  have l: "verifyWorkerLifecycleLease (cl_Session demo_claim) started = Inr ()"
    using demo_lease [of started] by (simp add: started_tables)
  have "cursor_storable demo_session started"
    by (simp add: cursor_storable_def started_tables one_peer_devices device_at_def)
  then have "ClaimWorkerLifecycleSession_tx demo_claim started = Inr (0, claimed)"
    unfolding ClaimWorkerLifecycleSession_tx_def
      tx_bind_query(1) [of "verifyWorkerLifecycleLease (cl_Session demo_claim)", OF l]
    by (simp add: tx_bind_def tx_get_def tx_insert_def tx_ret_def stored_applied_def started_tables claimed_def upsert_cursor_def)
  moreover have pre: "first_err [WorkerLifecycleSession_Validate (cl_Session demo_claim),
      fail_if (int (cl_WorkerRevision demo_claim) > MaxInt64) (Plain ''workerRevision exceeds the supported range'')] = None"
    by (simp add: demo_session_valid MaxInt64_def)
  ultimately show ?thesis unfolding ClaimWorkerLifecycleSession_def pre by (simp add: withImmediateTransaction_def)
qed

lemma claimed_broker: "broker_inv claimed"
  using Claim_broker [OF started_broker claimed_run] by (simp add: broker_ok_def)

lemma claimed_tables:
  "devices claimed = devices one_peer" "agent_lifecycle_states claimed = []" "agent_spawn_receipts claimed = agent_spawn_receipts started"
  "principals claimed = principals started" "trees claimed = trees started" "peer_worker_sync_cursors claimed = [claim_row demo_session 0]"
  by (simp_all add: claimed_def started_tables)

lemma demo_snapshot_valid: "WorkerLifecycleSnapshot_Validate demo_snapshot = None"
  by (simp add: WorkerLifecycleSnapshot_Validate_def demo_snapshot_def MaxInt64_def WorkerLifecyclePhase_Validate_def phase_identity_check_def)

lemma demo_page_applied: "AppliedRevision (pa_Page demo_page) = Inr 1"
proof -
  have "wl_Revision demo_snapshot = 1" by (simp add: demo_snapshot_def)
  then have "sync_workers_loop 1 0 [] [demo_snapshot] = Inr 1" by (simp add: demo_snapshot_valid sync_workers_loop.simps)
  then have "SyncWorkerLifecycleParams_Validate (pa_Page demo_page) = None"
    by (simp add: SyncWorkerLifecycleParams_Validate_def demo_page_def MaxInt64_def MaximumWorkerLifecyclePage_def)
  then show ?thesis by (simp add: AppliedRevision_def demo_page_def)
qed

lemma applied_run:
  "\<exists>s'. ApplyWorkerLifecyclePage demo_page claimed = (Inr 1, s')
     \<and> agent_lifecycle_states s' = [new_lifecycle_row demo_session demo_snapshot 1 12]"
proof -
  note l = demo_lease [OF claimed_tables(1)]
  have q: "queryWorkerLifecycleCursor demo_session claimed = Inr 0"
    by (simp add: queryWorkerLifecycleCursor_def claimed_tables claim_row_def cursor_at_def uint64_of_int64_def)
  have au: "authorizeWorkerLifecycleSnapshot demo_session demo_snapshot claimed = Inr ()"
    by (simp add: authorizeWorkerLifecycleSnapshot_def Let_def claimed_tables started_tables started_rows rooted_principals
        principal_at_def tree_at_def new_tree_row_def spawned_principal_def demo_snapshot_def)
  have none: "or_not_found (queryWorkerLifecycleAuthority (uid CHR ''a'') (uid CHR ''1'') (uid CHR ''3'') claimed) = Inr None"
    by (simp add: queryWorkerLifecycleAuthority_def claimed_tables)
  have key: "se_ControllerID demo_session = uid CHR ''a''" "wl_TreeID demo_snapshot = uid CHR ''1''" "wl_AgentID demo_snapshot = uid CHR ''3''"
    by (simp_all add: demo_session_def demo_snapshot_def)
  have tr: "sel1 (tree_at (uid CHR ''a'') (uid CHR ''1'')) (trees claimed) = Some ((new_tree_row demo_tree)\<lparr>t_last_agent_sequence := 1\<rparr>)"
    by (simp add: claimed_tables started_tables tree_at_def new_tree_row_def)

  have ins: "lifecycle_insertable (new_lifecycle_row demo_session demo_snapshot 1 12) (bump_lifecycle (uid CHR ''a'') (uid CHR ''1'') 1 claimed)"
    unfolding lifecycle_insertable_def bump_lifecycle_def
    by (simp add: started_rows new_lifecycle_row_def demo_snapshot_def WorkerLifecyclePhase_Validate_def phase_identity_check_def
        claimed_tables started_tables tree_at_def new_tree_row_def one_peer_devices device_at_def principal_at_def spawned_principal_def)
  have nx: "nextTreeLifecycleSequence (uid CHR ''a'') (uid CHR ''1'') claimed = Inr (1, bump_lifecycle (uid CHR ''a'') (uid CHR ''1'') 1 claimed)"
    by (simp add: nextTreeLifecycleSequence_def tx_bind_def tx_query_def tr Let_def tx_update_def tx_check_def tx_ret_def affected_def
        claimed_tables started_tables tree_at_def new_tree_row_def bump_lifecycle_def MaxInt64_def add_int64_def wrap_int64_def)
  have "applyWorkerLifecycleSnapshot demo_session demo_snapshot 12 claimed =
      Inr ((), (bump_lifecycle (uid CHR ''a'') (uid CHR ''1'') 1 claimed)
        \<lparr>agent_lifecycle_states := [new_lifecycle_row demo_session demo_snapshot 1 12]\<rparr>)"
    unfolding applyWorkerLifecycleSnapshot_def Let_def key
      tx_bind_query(1) [of "authorizeWorkerLifecycleSnapshot demo_session demo_snapshot", OF au]
      tx_bind_query(1) [of "\<lambda>s. or_not_found (queryWorkerLifecycleAuthority (uid CHR ''a'') (uid CHR ''1'') (uid CHR ''3'') s)", OF none]
    using ins nx by (simp add: bump_lifecycle_def claimed_tables)
  moreover have "pa_Page demo_page = \<lparr>sl_BaseRevision = 0, sl_ThroughRevision = 1, sl_Complete = True, sl_Workers = [demo_snapshot]\<rparr>"
    by (simp add: demo_page_def)
  ultimately have "\<exists>s'. ApplyWorkerLifecyclePage_tx demo_page 1 claimed = Inr (1, s')
      \<and> agent_lifecycle_states s' = [new_lifecycle_row demo_session demo_snapshot 1 12]"
    using l q by (simp add: ApplyWorkerLifecyclePage_tx_def Let_def bump_lifecycle_def tx_bind_def tx_query_def tx_ret_def advance_cursor_def
        tx_update_def tx_check_def affected_def claimed_tables)
  then show ?thesis by (auto simp: ApplyWorkerLifecyclePage_def demo_session_valid demo_page_applied)
qed

theorem lifecycle_refines_witness:
  "\<exists>s1 s2. ClaimWorkerLifecycleSession demo_claim started = (Inr 0, s1) \<and> ApplyWorkerLifecyclePage demo_page s1 = (Inr 1, s2)
     \<and> latest (lifecycle_view s2) = [(uid CHR ''a'', uid CHR ''1'', uid CHR ''3'') \<mapsto> demo_snapshot]
     \<and> session (lifecycle_view s2) (device_of demo_session) = Some (uid CHR ''c'', 1, 1)"
proof -
  obtain s2 where run: "ApplyWorkerLifecyclePage demo_page claimed = (Inr 1, s2)" using applied_run by auto
  note i = broker_invD [OF claimed_broker]
  have "lifecycle_view s2 = spec_apply demo_session [demo_snapshot] 1 (lifecycle_view claimed)"
    using lifecycle_refines [OF i(5,3), of _ _ _ demo_page 1 s2] run by (simp add: demo_page_def)
  moreover have "snapshot_key demo_session demo_snapshot = (uid CHR ''a'', uid CHR ''1'', uid CHR ''3'')"
    by (simp add: snapshot_key_def demo_snapshot_def)
  moreover have "latest (lifecycle_view claimed) = Map.empty" by (auto simp: lifecycle_view_def claimed_tables)
  ultimately show ?thesis using claimed_run run by (simp add: spec_apply_def)
qed

section \<open>Fencing\<close>

text \<open>
  C31. A newer session fences the older ones. Once a session has claimed a device, any page sent for that
  device by a session with another connection or another lease is refused, and nothing changes.
\<close>

theorem newer_session_fences:
  assumes "lifecycle_inv s" "ClaimWorkerLifecycleSession cl s = (Inr n, s')"
    and "device_of (pa_Session q) = device_of (cl_Session cl)" "pa_Session q \<noteq> cl_Session cl"
  shows "\<exists>e. ApplyWorkerLifecyclePage q s' = (Inl e, s')"
proof (cases "fst (ApplyWorkerLifecyclePage q s')")
  case (Inl e)
  then have "ApplyWorkerLifecyclePage q s' = (Inl e, snd (ApplyWorkerLifecyclePage q s'))" by (simp add: prod_eq_iff)
  then show ?thesis using Apply_rolls_back unfolding rolls_back_def by metis
next
  case (Inr m)
  note c = Claim_cases [OF assms(1,2)]
  note cur = queryWorkerLifecycleCursor_Inr [OF lifecycle_invD(2) [OF c(5)]]
  have "ApplyWorkerLifecyclePage q s' = (Inr m, snd (ApplyWorkerLifecyclePage q s'))" using Inr by (simp add: prod_eq_iff)
  then have "queryWorkerLifecycleCursor (pa_Session q) s' = Inr (sl_BaseRevision (pa_Page q))" by (rule Apply_cases)
  moreover have "cursor_at (pa_Session q) = cursor_at (cl_Session cl)" using assms(3) by (simp add: cursor_at_key device_of_def)
  ultimately have "pa_Session q = cl_Session cl"
    using c(6) assms(3) by (auto simp: cur device_of_def intro: WorkerLifecycleSession.equality)
  then show ?thesis using assms(4) by simp
qed

theorem newer_session_fences_witness:
  "\<exists>e. ApplyWorkerLifecyclePage (demo_page\<lparr>pa_Session := demo_session\<lparr>se_ConnectionID := uid CHR ''b''\<rparr>\<rparr>) claimed = (Inl e, claimed)"
proof (rule newer_session_fences [OF broker_invD(3) [OF started_broker] claimed_run])
  show "device_of (pa_Session (demo_page\<lparr>pa_Session := demo_session\<lparr>se_ConnectionID := uid CHR ''b''\<rparr>\<rparr>)) = device_of (cl_Session demo_claim)"
    by (simp add: device_of_def)
  show "pa_Session (demo_page\<lparr>pa_Session := demo_session\<lparr>se_ConnectionID := uid CHR ''b''\<rparr>\<rparr>) \<noteq> cl_Session demo_claim"
    by (simp add: demo_session_def)
qed

section \<open>The activity feed\<close>

text \<open>A root that follows the feed from a cursor until a page is empty.\<close>

partial_function (option) activity_feed ::
    "PrincipalIdentity \<Rightarrow> int \<Rightarrow> BrokerDb \<Rightarrow> nat \<Rightarrow> StoredLifecycleActivity list result option" where
  "activity_feed p limit s after =
     (case ListAgentLifecycleActivity p after limit s of
        Inl e \<Rightarrow> Some (Inl e)
      | Inr page \<Rightarrow>
          if lp_Activities page = [] then Some (Inr [])
          else Option.bind (activity_feed p limit s (lp_NextSequence page)) (\<lambda>rest.
            Some (case rest of Inl e \<Rightarrow> Inl e | Inr xs \<Rightarrow> Inr (lp_Activities page @ xs))))"

lemma activity_rows_sorted:
  assumes "lifecycle_core s"
  shows "sorted_wrt (<) (map lc_lifecycle_sequence (activity_rows c t k s))"
proof -
  let ?R = "activity_rows c t k s"
  have mem: "x \<in> set (agent_lifecycle_states s) \<and> lc_controller_id x = c \<and> lc_tree_id x = t" if "x \<in> set ?R" for x
    using that by (simp add: activity_rows_def)
  have "inj_on lc_lifecycle_sequence (set ?R)"
    using uniq_same [OF lifecycle_coreD(2) [OF assms]] mem by (auto intro!: inj_onI simp: lifecycle_slot_def)
  moreover have "distinct ?R" using uniq_distinct [OF lifecycle_coreD(1) [OF assms]] by (simp add: activity_rows_def)
  moreover have "sorted (map lc_lifecycle_sequence ?R)" by (simp add: activity_rows_def)
  ultimately show ?thesis by (simp add: strict_sorted_iff distinct_map)
qed

lemma activity_rows_later:
  "k \<le> k' \<Longrightarrow> activity_rows c t k' s = filter (\<lambda>r. int k' < lc_lifecycle_sequence r) (activity_rows c t k s)"
  by (auto simp: activity_rows_def filter_sort intro!: arg_cong [where f = "sort_key lc_lifecycle_sequence"] filter_cong)

lemma activity_feed_from:
  assumes ok: "spawn_ok s" "lifecycle_core s" and r: "r \<in> set (principals s)" "pr_parent_agent_id r = ''''"
    and lim: "1 \<le> limit" "limit \<le> 32"
  shows "int after \<le> lifecycle_high (pr_controller_id r) (pr_tree_id r) s \<Longrightarrow>
    activity_feed (identity_of r) limit s after =
      Some (Inr (map activity_of (activity_rows (pr_controller_id r) (pr_tree_id r) after s)))"
proof (induction "length (activity_rows (pr_controller_id r) (pr_tree_id r) after s)" arbitrary: after rule: less_induct)
  case less
  let ?c = "pr_controller_id r" and ?t = "pr_tree_id r"
  define R where "R = activity_rows ?c ?t after s"
  define n where "n = min (nat limit) (length R)"
  note page = ListAgentLifecycleActivity_eq [OF ok r lim less.prems, folded R_def]
  show ?case
  proof (cases "R = []")
    case True
    then show ?thesis using page by (subst activity_feed.simps) (simp add: R_def)
  next
    case False
    have tk: "take (nat limit) R = take n R" by (simp add: n_def min_def)
    have n: "0 < n" "n \<le> length R" using False lim by (auto simp: n_def)
    then have ne: "take n R \<noteq> []" "last (take n R) = R ! (n - 1)" using False by (auto simp: last_conv_nth)
    let ?x = "R ! (n - 1)"
    have "?x \<in> set R" using n by simp
    then have x: "?x \<in> set (agent_lifecycle_states s)" "lc_controller_id ?x = ?c" "lc_tree_id ?x = ?t" "int after < lc_lifecycle_sequence ?x"
      by (auto simp: R_def activity_rows_def)
    have hi: "lc_lifecycle_sequence ?x \<le> lifecycle_high ?c ?t s"
      using lifecycle_coreD(3) [OF ok(2) x(1)] x(2,3) by (simp add: lifecycle_row_ok_def)
    define k where "k = nat (lc_lifecycle_sequence ?x)"
    have k: "int k = lc_lifecycle_sequence ?x" "after \<le> k" using x(4) by (simp_all add: k_def)
    have rest: "activity_rows ?c ?t k s = drop n R"
      unfolding activity_rows_later [OF k(2)] R_def [symmetric] k(1)
      by (rule sorted_drop_filter [OF activity_rows_sorted [OF ok(2), of ?c ?t after, folded R_def] n, symmetric])
    have "length (activity_rows ?c ?t k s) < length (activity_rows ?c ?t after s)"
      using rest n by (simp add: R_def [symmetric])
    then have "activity_feed (identity_of r) limit s k = Some (Inr (map activity_of (drop n R)))"
      using less.hyps [of k] hi k(1) rest by simp
    moreover have "ListAgentLifecycleActivity (identity_of r) after limit s =
        Inr \<lparr>lp_Activities = map activity_of (take n R), lp_NextSequence = k, lp_Highwater = nat (lifecycle_high ?c ?t s)\<rparr>"
      using page ne by (simp add: tk k_def)
    ultimately show ?thesis
      using ne by (subst activity_feed.simps) (simp add: map_append [symmetric] R_def [symmetric] del: map_append)
  qed
qed

lemma listing_highwater:
  assumes "trees_inv s" "ListAgentLifecycleActivity root after limit s = Inr page"
  shows "int (lp_Highwater page) = lifecycle_high (pi_ControllerID root) (pi_TreeID root) s"
proof -
  have b: "0 \<le> lifecycle_high (pi_ControllerID root) (pi_TreeID root) s" "lifecycle_high (pi_ControllerID root) (pi_TreeID root) s \<le> MaxInt64"
    using lifecycle_high_bounds [OF assms(1)] by auto
  obtain tr where tr: "sel1 (tree_at (pi_ControllerID root) (pi_TreeID root)) (trees s) = Some tr"
      "lp_Highwater page = uint64_of_int64 (t_last_lifecycle_sequence tr)"
    using assms(2) unfolding ListAgentLifecycleActivity_def
    by (auto simp: guard_res_def split: option.splits sum.splits if_splits)
  then show ?thesis using b by (simp add: lifecycle_high_def uint64_of_int64_nat)
qed

lemma fresh_events:
  assumes g: "lifecycle_grows s s'" and core: "lifecycle_core s"
    and k: "int k = lifecycle_high c t s"
  shows "set (activity_rows c t k s') =
    {x \<in> set (agent_lifecycle_states s'). (lc_controller_id x, lc_tree_id x) = (c, t) \<and> event_of x \<notin> event_of ` set (agent_lifecycle_states s)}"
proof -
  have "lifecycle_high c t s < lc_lifecycle_sequence x \<longleftrightarrow> event_of x \<notin> event_of ` set (agent_lifecycle_states s)"
    if x: "x \<in> set (agent_lifecycle_states s')" "lc_controller_id x = c" "lc_tree_id x = t" for x
  proof
    assume "event_of x \<notin> event_of ` set (agent_lifecycle_states s)"
    then show "lifecycle_high c t s < lc_lifecycle_sequence x" using g x unfolding lifecycle_grows_def by blast
  next
    assume hi: "lifecycle_high c t s < lc_lifecycle_sequence x"
    show "event_of x \<notin> event_of ` set (agent_lifecycle_states s)"
    proof
      assume "event_of x \<in> event_of ` set (agent_lifecycle_states s)"
      then obtain y where y: "y \<in> set (agent_lifecycle_states s)" "event_of x = event_of y" by auto
      then show False
        using lifecycle_coreD(3) [OF core y(1)] event_ofD [OF y(2)] x(2,3) hi by (simp add: lifecycle_row_ok_def)
    qed
  qed
  then show ?thesis by (auto simp: activity_rows_def k)
qed

text \<open>
  C4. The activity feed loses nothing and repeats nothing. A root that saw a page with some highwater and,
  after any further broker operations, follows the feed from that highwater with any admissible page size,
  comes to an empty page, and has then read exactly the events of its tree that were recorded in between,
  the latest one of each agent, in the order of their sequence numbers.
\<close>

theorem activity_feed_complete:
  assumes inv: "broker_inv s" and steps: "broker_step\<^sup>*\<^sup>* s s'"
    and r: "r \<in> set (principals s)" "pr_parent_agent_id r = ''''"
    and seen: "ListAgentLifecycleActivity (identity_of r) after limit s = Inr page"
    and lim: "1 \<le> limit'" "limit' \<le> 32"
  shows "\<exists>feed. activity_feed (identity_of r) limit' s' (lp_Highwater page) = Some (Inr feed)
    \<and> sorted_wrt (<) (map sa_Sequence feed)
    \<and> set feed = activity_of ` {x \<in> set (agent_lifecycle_states s').
        (lc_controller_id x, lc_tree_id x) = (pr_controller_id r, pr_tree_id r) \<and> event_of x \<notin> event_of ` set (agent_lifecycle_states s)}"
proof -
  let ?c = "pr_controller_id r" and ?t = "pr_tree_id r" and ?k = "lp_Highwater page"
  have "broker_ok s s'" by (rule broker_steps_ok [OF steps inv])
  then have inv': "broker_inv s'" and le: "broker_le s s'" by (simp_all add: broker_ok_def)
  have core: "lifecycle_core s" "lifecycle_core s'" using broker_invD(3) inv inv' lifecycle_invD(1) by blast+
  have k: "int ?k = lifecycle_high ?c ?t s" using listing_highwater [OF broker_invD(9) [OF inv] seen] by simp
  have g: "lifecycle_grows s s'" "r \<in> set (principals s')" using le r(1) by (auto simp: broker_le_def)
  then have "int ?k \<le> lifecycle_high ?c ?t s'" by (simp add: k lifecycle_grows_def)
  note feed = activity_feed_from [OF broker_invD(5) [OF inv'] core(2) g(2) r(2) lim this]
  have "sorted_wrt (<) (map lc_lifecycle_sequence (activity_rows ?c ?t ?k s'))" by (rule activity_rows_sorted [OF core(2)])
  then have "sorted_wrt (<) (map sa_Sequence (map activity_of (activity_rows ?c ?t ?k s')))" unfolding map_map
    by (auto simp: sorted_wrt_map activity_of_def activity_rows_def elim!: sorted_wrt_mono_rel [rotated])
  moreover have "set (map activity_of (activity_rows ?c ?t ?k s')) =
      activity_of ` {x \<in> set (agent_lifecycle_states s'). (lc_controller_id x, lc_tree_id x) = (?c, ?t) \<and> event_of x \<notin> event_of ` set (agent_lifecycle_states s)}"
    unfolding set_map fresh_events [OF g(1) core(1) k] ..
  ultimately show ?thesis using feed by blast
qed

theorem activity_feed_complete_witness:
  "\<exists>s'. ApplyWorkerLifecyclePage demo_page claimed = (Inr 1, s') \<and>
     (\<exists>feed. activity_feed demo_root 1 s' 0 = Some (Inr feed) \<and> map sa_AgentID feed = [uid CHR ''3''])"
proof -
  obtain s' where run: "ApplyWorkerLifecyclePage demo_page claimed = (Inr 1, s')"
      and rows: "agent_lifecycle_states s' = [new_lifecycle_row demo_session demo_snapshot 1 12]" using applied_run by auto
  define r where "r = principal_row root_principal 6"
  have r: "r \<in> set (principals claimed)" "pr_parent_agent_id r = ''''" "identity_of r = demo_root"
      "pr_controller_id r = uid CHR ''a''" "pr_tree_id r = uid CHR ''1''"
    by (simp_all add: r_def claimed_tables started_tables rooted_principals root_principal_def demo_root_def)
  have "lifecycle_high (uid CHR ''a'') (uid CHR ''1'') claimed = 0"
    by (simp add: lifecycle_high_def claimed_tables started_tables tree_at_def new_tree_row_def)
  note i = broker_invD [OF claimed_broker]
  then have "\<exists>page. ListAgentLifecycleActivity demo_root 0 1 claimed = Inr page \<and> lp_Highwater page = 0"
    using ListAgentLifecycleActivity_eq [OF i(5) lifecycle_invD(1) [OF i(3)] r(1,2), of 1 0] r \<open>lifecycle_high _ _ _ = 0\<close> by simp
  then obtain page where page: "ListAgentLifecycleActivity demo_root 0 1 claimed = Inr page" "lp_Highwater page = 0" by blast
  let ?x = "new_lifecycle_row demo_session demo_snapshot 1 12"
  have only: "{x \<in> set (agent_lifecycle_states s'). (lc_controller_id x, lc_tree_id x) = (uid CHR ''a'', uid CHR ''1'')
      \<and> event_of x \<notin> event_of ` set (agent_lifecycle_states claimed)} = {?x}"
    by (auto simp: rows claimed_tables) (simp_all add: new_lifecycle_row_def demo_snapshot_def)
  have "broker_step\<^sup>*\<^sup>* claimed s'" using broker_step.apply_page [of claimed demo_page] run by auto
  from activity_feed_complete [OF claimed_broker this r(1,2), of 0 1 page 1] obtain feed
    where feed: "activity_feed demo_root 1 s' 0 = Some (Inr feed)" "sorted_wrt (<) (map sa_Sequence feed)"
      "set feed = {activity_of ?x}"
    unfolding r only page by auto
  have "distinct feed" using feed(2) strict_sorted_iff distinct_map by blast
  then have "feed = [activity_of ?x]" using feed(3) by (cases feed) (auto simp: subset_singleton_iff)
  then show ?thesis using run feed(1) by (auto simp: activity_of_def new_lifecycle_row_def demo_snapshot_def)
qed

end
