(* ===== verification/GoJsonValue.thy ===== *)
theory GoJsonValue
  imports GoDigest GoPath GoJson
begin

text \<open>
  Decoding with \<^verbatim>\<open>encoding/json\<close>: a JSON text becomes a value, and a value fills the fields of a
  struct. The parser accepts what Go's scanner accepts and unquotes strings as \<^verbatim>\<open>unquoteBytes\<close> does.
  Numbers keep their text, since Go converts them only at the field they are stored in.
\<close>

datatype json = JNull | JBool bool | JNum string | JStr string | JArr "json list" | JObj "(string \<times> json) list"

section \<open>Strings\<close>

text \<open>\<^verbatim>\<open>utf8.EncodeRune\<close>; surrogates and runes out of range become \<^verbatim>\<open>utf8.RuneError\<close>.\<close>

definition EncodeRune :: "nat \<Rightarrow> string" where
  "EncodeRune r0 =
     (let r = (if 0xD800 \<le> r0 \<and> r0 \<le> 0xDFFF \<or> 0x10FFFF < r0 then RuneError else r0) in
      map char_of
        (if r < 0x80 then [r]
         else if r < 0x800 then [192 + r div 64, 128 + r mod 64]
         else if r < 0x10000 then [224 + r div 4096, 128 + r div 64 mod 64, 128 + r mod 64]
         else [240 + r div 262144, 128 + r div 4096 mod 64, 128 + r div 64 mod 64, 128 + r mod 64]))"

definition hex_value :: "char \<Rightarrow> nat option" where
  "hex_value c =
     (if digit c then Some (byte c - 48)
      else if 97 \<le> byte c \<and> byte c \<le> 102 then Some (byte c - 87)
      else if 65 \<le> byte c \<and> byte c \<le> 70 then Some (byte c - 55)
      else None)"

text \<open>\<^verbatim>\<open>getu4\<close>: the four digits of an escape whose backslash and \<^verbatim>\<open>u\<close> are still in front.\<close>

fun getu4 :: "string \<Rightarrow> nat option" where
  "getu4 (b # u # d1 # d2 # d3 # d4 # rest) =
     (if b = CHR 0x5C \<and> u = CHR ''u'' then
        (case (hex_value d1, hex_value d2, hex_value d3, hex_value d4) of
           (Some h1, Some h2, Some h3, Some h4) \<Rightarrow> Some (((h1 * 16 + h2) * 16 + h3) * 16 + h4)
         | _ \<Rightarrow> None)
      else None)"
| "getu4 _ = None"

text \<open>\<^verbatim>\<open>utf16.DecodeRune\<close>, and the code units and bytes one escape stands for.\<close>

definition DecodeSurrogates :: "nat \<Rightarrow> nat option \<Rightarrow> nat option" where
  "DecodeSurrogates r1 second =
     (case second of
        None \<Rightarrow> None
      | Some r2 \<Rightarrow>
          if 0xD800 \<le> r1 \<and> r1 < 0xDC00 \<and> 0xDC00 \<le> r2 \<and> r2 < 0xE000
          then Some ((r1 - 0xD800) * 1024 + (r2 - 0xDC00) + 0x10000) else None)"

definition escape_u :: "string \<Rightarrow> (string \<times> nat) option" where
  "escape_u s =
     (case getu4 s of
        None \<Rightarrow> None
      | Some rr \<Rightarrow>
          if 0xD800 \<le> rr \<and> rr \<le> 0xDFFF then
            (case DecodeSurrogates rr (getu4 (drop 6 s)) of
               Some dec \<Rightarrow> Some (EncodeRune dec, 12)
             | None \<Rightarrow> Some (EncodeRune RuneError, 6))
          else Some (EncodeRune rr, 6))"

definition simple_escape :: "char \<Rightarrow> char option" where
  "simple_escape c =
     (if c = CHR 0x22 \<or> c = CHR 0x5C \<or> c = CHR ''/'' then Some c
      else if c = CHR ''b'' then Some (CHR 0x08)
      else if c = CHR ''f'' then Some (CHR 0x0C)
      else if c = CHR ''n'' then Some (CHR 0x0A)
      else if c = CHR ''r'' then Some (CHR 0x0D)
      else if c = CHR ''t'' then Some (CHR 0x09)
      else None)"

text \<open>The characters of a string literal up to its closing quote.\<close>

function json_chars :: "string \<Rightarrow> (string \<times> string) option" where
  "json_chars [] = None"
| "json_chars (c # cs) =
     (if c = CHR 0x22 then Some ([], cs)
      else if c = CHR 0x5C then
        (case cs of
           [] \<Rightarrow> None
         | e # rest \<Rightarrow>
             if e = CHR ''u'' then
               (case escape_u (c # cs) of
                  None \<Rightarrow> None
                | Some (bytes, n) \<Rightarrow> map_option (\<lambda>(s, r). (bytes @ s, r)) (json_chars (drop (n - 1) cs)))
             else
               (case simple_escape e of
                  None \<Rightarrow> None
                | Some x \<Rightarrow> map_option (\<lambda>(s, r). (x # s, r)) (json_chars rest)))
      else if byte c < 32 then None
      else if byte c < 128 then map_option (\<lambda>(s, r). (c # s, r)) (json_chars cs)
      else
        let (r, w, ok) = decode_rune (c # cs) in
        map_option (\<lambda>(s, rest). (EncodeRune r @ s, rest)) (json_chars (drop (w - 1) cs)))"
  by pat_completeness auto
termination by (relation "measure length") (auto simp: le_imp_less_Suc)

declare json_chars.simps(2) [simp del]

section \<open>Numbers\<close>

definition json_digits :: "string \<Rightarrow> (string \<times> string) option" where
  "json_digits s = (case takeWhile digit s of [] \<Rightarrow> None | ds \<Rightarrow> Some (ds, dropWhile digit s))"

definition json_int_part :: "string \<Rightarrow> (string \<times> string) option" where
  "json_int_part s =
     (case s of
        [] \<Rightarrow> None
      | c # cs \<Rightarrow> if c = CHR ''0'' then Some (''0'', cs) else json_digits s)"

definition json_fraction :: "string \<Rightarrow> (string \<times> string) option" where
  "json_fraction s =
     (case s of
        [] \<Rightarrow> Some ([], [])
      | c # cs \<Rightarrow>
          if c = CHR ''.'' then map_option (\<lambda>(ds, r). (c # ds, r)) (json_digits cs) else Some ([], s))"

definition json_exponent :: "string \<Rightarrow> (string \<times> string) option" where
  "json_exponent s =
     (case s of
        [] \<Rightarrow> Some ([], [])
      | c # cs \<Rightarrow>
          if c = CHR ''e'' \<or> c = CHR ''E'' then
            (case cs of
               [] \<Rightarrow> None
             | d # ds \<Rightarrow>
                 if d = CHR ''+'' \<or> d = CHR ''-'' then map_option (\<lambda>(xs, r). (c # d # xs, r)) (json_digits ds)
                 else map_option (\<lambda>(xs, r). (c # xs, r)) (json_digits cs))
          else Some ([], s))"

definition json_unsigned :: "string \<Rightarrow> (string \<times> string) option" where
  "json_unsigned s =
     (case json_int_part s of
        None \<Rightarrow> None
      | Some (i, s1) \<Rightarrow>
          (case json_fraction s1 of
             None \<Rightarrow> None
           | Some (f, s2) \<Rightarrow>
               (case json_exponent s2 of None \<Rightarrow> None | Some (e, s3) \<Rightarrow> Some (i @ f @ e, s3))))"

definition json_number :: "string \<Rightarrow> (string \<times> string) option" where
  "json_number s =
     (case s of
        [] \<Rightarrow> None
      | c # cs \<Rightarrow> if c = CHR ''-'' then map_option (\<lambda>(n, r). (c # n, r)) (json_unsigned cs) else json_unsigned s)"

section \<open>Values\<close>

definition skip_space :: "string \<Rightarrow> string" where
  "skip_space = dropWhile json_space"

text \<open>
  The mutually recursive parser spends one unit of fuel at each call. Every second call at least consumes
  a character, so twice the length of the text is enough, as \<open>json_fuel_enough\<close> below shows.
\<close>

fun json_value :: "nat \<Rightarrow> string \<Rightarrow> (json \<times> string) option"
and json_elements :: "nat \<Rightarrow> string \<Rightarrow> (json list \<times> string) option"
and json_members :: "nat \<Rightarrow> string \<Rightarrow> ((string \<times> json) list \<times> string) option" where
  "json_value 0 s = None"
| "json_value (Suc n) s =
     (case s of
        [] \<Rightarrow> None
      | c # cs \<Rightarrow>
          if c = CHR ''{'' then
            (case skip_space cs of
               [] \<Rightarrow> None
             | d # ds \<Rightarrow>
                 if d = CHR ''}'' then Some (JObj [], ds)
                 else map_option (\<lambda>(kvs, r). (JObj kvs, r)) (json_members n (d # ds)))
          else if c = CHR ''['' then
            (case skip_space cs of
               [] \<Rightarrow> None
             | d # ds \<Rightarrow>
                 if d = CHR '']'' then Some (JArr [], ds)
                 else map_option (\<lambda>(vs, r). (JArr vs, r)) (json_elements n (d # ds)))
          else if c = CHR 0x22 then map_option (\<lambda>(x, r). (JStr x, r)) (json_chars cs)
          else if HasPrefix s ''true'' then Some (JBool True, drop 4 s)
          else if HasPrefix s ''false'' then Some (JBool False, drop 5 s)
          else if HasPrefix s ''null'' then Some (JNull, drop 4 s)
          else map_option (\<lambda>(x, r). (JNum x, r)) (json_number s))"
| "json_elements 0 s = None"
| "json_elements (Suc n) s =
     (case json_value n s of
        None \<Rightarrow> None
      | Some (v, r) \<Rightarrow>
          (case skip_space r of
             [] \<Rightarrow> None
           | c # cs \<Rightarrow>
               if c = CHR '']'' then Some ([v], cs)
               else if c = CHR '','' then map_option (\<lambda>(vs, r). (v # vs, r)) (json_elements n (skip_space cs))
               else None))"
| "json_members 0 s = None"
| "json_members (Suc n) s =
     (case s of
        [] \<Rightarrow> None
      | q # qs \<Rightarrow>
          if q \<noteq> CHR 0x22 then None
          else
            (case json_chars qs of
               None \<Rightarrow> None
             | Some (k, r) \<Rightarrow>
                 (case skip_space r of
                    [] \<Rightarrow> None
                  | x # xs \<Rightarrow>
                      if x \<noteq> CHR '':'' then None
                      else
                        (case json_value n (skip_space xs) of
                           None \<Rightarrow> None
                         | Some (v, r2) \<Rightarrow>
                             (case skip_space r2 of
                                [] \<Rightarrow> None
                              | c # cs \<Rightarrow>
                                  if c = CHR ''}'' then Some ([(k, v)], cs)
                                  else if c = CHR '',''
                                  then map_option (\<lambda>(kvs, r). ((k, v) # kvs, r)) (json_members n (skip_space cs))
                                  else None)))))"

text \<open>One value and nothing else but white space.\<close>

definition json_parse :: "string \<Rightarrow> json option" where
  "json_parse s =
     (case json_value (2 * length s + 1) (skip_space s) of
        None \<Rightarrow> None
      | Some (v, r) \<Rightarrow> if skip_space r = [] then Some v else None)"

section \<open>Filling the fields of a struct\<close>

text \<open>
  A key of an object selects the field of that exact name, or else the field whose name folds to the same
  letters. The only runes beyond ASCII that fold to ASCII letters are the long s and the Kelvin sign.
\<close>

definition fold_rune :: "nat \<Rightarrow> nat" where
  "fold_rune r = (if 97 \<le> r \<and> r \<le> 122 then r - 32 else if r = 0x17F then 83 else if r = 0x212A then 75 else r)"

definition foldName :: "string \<Rightarrow> nat list" where
  "foldName s = map fold_rune (runes s)"

definition field_of :: "string list \<Rightarrow> string \<Rightarrow> string option" where
  "field_of names k =
     (if k \<in> set names then Some k else List.find (\<lambda>n. foldName n = foldName k) names)"

text \<open>
  Every value a text gives to a field, in order, and whether the objects hold known fields only, which
  \<^verbatim>\<open>DisallowUnknownFields\<close> demands. A null leaves a struct as it is.
\<close>

definition occurrences :: "string list \<Rightarrow> string \<Rightarrow> json list \<Rightarrow> json list" where
  "occurrences names k vs =
     concat (map (\<lambda>v. case v of JObj kvs \<Rightarrow> map snd (filter (\<lambda>(k', x). field_of names k' = Some k) kvs) | _ \<Rightarrow> []) vs)"

definition struct_ok :: "string list \<Rightarrow> json list \<Rightarrow> bool" where
  "struct_ok names vs \<longleftrightarrow>
     list_all (\<lambda>v. case v of JNull \<Rightarrow> True | JObj kvs \<Rightarrow> list_all (\<lambda>(k, x). field_of names k \<noteq> None) kvs | _ \<Rightarrow> False) vs"

text \<open>A scalar field takes the last value that is not null; each value must have the field's type.\<close>

fun scalar :: "(json \<Rightarrow> 'a option) \<Rightarrow> 'a \<Rightarrow> json list \<Rightarrow> 'a option" where
  "scalar f x [] = Some x"
| "scalar f x (v # vs) =
     (if v = JNull then scalar f x vs else case f v of None \<Rightarrow> None | Some y \<Rightarrow> scalar f y vs)"

text \<open>
  A slice is filled in place: element by element over what an earlier occurrence of the field left in
  its backing array, and then cut to the new length. Null makes it nil and an empty array makes it new.
\<close>

fun fill :: "('a \<Rightarrow> json \<Rightarrow> 'a option) \<Rightarrow> 'a \<Rightarrow> 'a list \<Rightarrow> json list \<Rightarrow> 'a list option" where
  "fill f zero backing [] = Some backing"
| "fill f zero backing (v # vs) =
     (case f (case backing of [] \<Rightarrow> zero | b # _ \<Rightarrow> b) v of
        None \<Rightarrow> None
      | Some y \<Rightarrow> map_option (\<lambda>ys. y # ys) (fill f zero (tl backing) vs))"

fun slice :: "('a \<Rightarrow> json \<Rightarrow> 'a option) \<Rightarrow> 'a \<Rightarrow> nat option \<times> 'a list \<Rightarrow> json list \<Rightarrow> 'a list option option" where
  "slice f zero (n, backing) [] = Some (map_option (\<lambda>k. take k backing) n)"
| "slice f zero (n, backing) (v # vs) =
     (case v of
        JNull \<Rightarrow> slice f zero (None, []) vs
      | JArr [] \<Rightarrow> slice f zero (Some 0, []) vs
      | JArr xs \<Rightarrow> (case fill f zero backing xs of None \<Rightarrow> None | Some b \<Rightarrow> slice f zero (Some (length xs), b) vs)
      | _ \<Rightarrow> None)"

definition as_string :: "json \<Rightarrow> string option" where
  "as_string v = (case v of JStr s \<Rightarrow> Some s | _ \<Rightarrow> None)"

definition as_bool :: "json \<Rightarrow> bool option" where
  "as_bool v = (case v of JBool b \<Rightarrow> Some b | _ \<Rightarrow> None)"

definition digit_value :: "string \<Rightarrow> nat" where
  "digit_value = foldl (\<lambda>n c. 10 * n + (byte c - 48)) 0"

text \<open>\<^verbatim>\<open>strconv.ParseInt\<close> and \<^verbatim>\<open>ParseUint\<close> of a number's text, at 64 bits.\<close>

definition ParseInt :: "string \<Rightarrow> int option" where
  "ParseInt s =
     (let neg = (s \<noteq> [] \<and> hd s = CHR ''-''); ds = (if neg then tl s else s) in
      if ds = [] \<or> \<not> list_all digit ds then None
      else let n = (if neg then - int (digit_value ds) else int (digit_value ds)) in
           if - (2 ^ 63) \<le> n \<and> n < 2 ^ 63 then Some n else None)"

definition ParseUint :: "string \<Rightarrow> nat option" where
  "ParseUint s =
     (if s = [] \<or> \<not> list_all digit s \<or> 2 ^ 64 \<le> digit_value s then None else Some (digit_value s))"

definition as_int64 :: "json \<Rightarrow> int option" where
  "as_int64 v = (case v of JNum s \<Rightarrow> ParseInt s | _ \<Rightarrow> None)"

definition as_uint64 :: "json \<Rightarrow> nat option" where
  "as_uint64 v = (case v of JNum s \<Rightarrow> ParseUint s | _ \<Rightarrow> None)"

section \<open>Printing numbers\<close>

fun dec_nat :: "nat \<Rightarrow> string" where
  "dec_nat n = (if n < 10 then [char_of (48 + n)] else dec_nat (n div 10) @ [char_of (48 + n mod 10)])"

declare dec_nat.simps [simp del]

definition dec_int :: "int \<Rightarrow> string" where
  "dec_int n = (if n < 0 then CHR ''-'' # dec_nat (nat (- n)) else dec_nat (nat n))"

definition json_list :: "string list \<Rightarrow> string" where
  "json_list xs = CHR ''['' # json_commas xs @ '']''"

section \<open>The fuel is enough\<close>

lemma json_chars_shorter: "json_chars s = Some (x, r) \<Longrightarrow> length r < length s"
proof (induction s arbitrary: x rule: json_chars.induct)
  case (2 c cs)
  show ?case
  proof (cases "c = CHR 0x22 \<or> c = CHR 0x5C \<or> byte c < 128")
    case True
    then show ?thesis
      using 2 by (subst (asm) json_chars.simps) (fastforce split: if_splits list.splits option.splits)
  next
    case False
    obtain rr w ok where d: "decode_rune (c # cs) = (rr, w, ok)" by (cases "decode_rune (c # cs)") auto
    with False 2(5) obtain y where "json_chars (drop (w - 1) cs) = Some (y, r)" by (auto simp: json_chars.simps(2))
    moreover have "\<not> byte c < 32" using False by simp
    ultimately have "length r < length (drop (w - 1) cs)" using 2(4) False d by auto
    then show ?thesis by simp
  qed
qed simp

lemma json_digits_shorter: "json_digits s = Some (x, r) \<Longrightarrow> length r < length s"
proof -
  assume "json_digits s = Some (x, r)"
  then have "takeWhile digit s \<noteq> []" "r = dropWhile digit s" by (auto simp: json_digits_def split: list.splits)
  moreover have "length s = length (takeWhile digit s) + length (dropWhile digit s)"
    by (metis length_append takeWhile_dropWhile_id)
  ultimately show ?thesis by (cases "takeWhile digit s") auto
qed

lemma json_number_shorter: "json_number s = Some (x, r) \<Longrightarrow> length r < length s"
proof -
  assume run: "json_number s = Some (x, r)"
  have u: "length r < length s" if un: "json_unsigned s = Some (x, r)" for s x r
  proof -
    obtain i s1 f s2 e where p: "json_int_part s = Some (i, s1)" "json_fraction s1 = Some (f, s2)" "json_exponent s2 = Some (e, r)"
      using un by (auto simp: json_unsigned_def split: option.splits)
    have "length s1 < length s"
      using p(1) json_digits_shorter [of s i s1] by (auto simp: json_int_part_def split: list.splits if_splits)
    moreover have "length s2 \<le> length s1"
      using p(2) json_digits_shorter by (fastforce simp: json_fraction_def split: list.splits if_splits)
    moreover have "length r \<le> length s2"
      using p(3) json_digits_shorter by (fastforce simp: json_exponent_def split: list.splits if_splits)
    ultimately show ?thesis by simp
  qed
  show ?thesis
    using run u by (fastforce simp: json_number_def split: list.splits if_splits)
qed

lemma skip_space_le: "length (skip_space s) \<le> length s"
  by (simp add: skip_space_def length_dropWhile_le)

lemma skip_space_Cons: "skip_space s = c # cs \<Longrightarrow> length cs < length s"
  using skip_space_le [of s] by simp

lemma json_shorter:
  "json_value n s = Some (v, r) \<Longrightarrow> length r < length s"
  "json_elements n s = Some (vs, r) \<Longrightarrow> length r < length s"
  "json_members n s = Some (kvs, r) \<Longrightarrow> length r < length s"
proof (induction n s and n s and n s arbitrary: v r and vs r and kvs r rule: json_value_json_elements_json_members.induct)
  case (2 n s)
  show ?case
  proof (cases s)
    case Nil
    then show ?thesis using 2 by simp
  next
    case (Cons c cs)
    have sk: "length (skip_space cs) \<le> length cs" by (rule skip_space_le)
    show ?thesis
      using 2 Cons sk json_chars_shorter [of cs] json_number_shorter [of s]
      by (auto split: if_splits list.splits simp: HasPrefix_def) (meson less_le_trans less_SucI)+
  qed
next
  case (4 n s)
  then obtain v r1 c cs where v: "json_value n s = Some (v, r1)" "skip_space r1 = c # cs"
    by (auto split: option.splits list.splits)
  then have "length r1 < length s" using 4(1) by blast
  moreover have "length (c # cs) \<le> length r1" using v(2) skip_space_le [of r1] by simp
  moreover have "length (skip_space cs) \<le> length cs" by (rule skip_space_le)
  ultimately show ?case using 4 v by (fastforce split: if_splits)
next
  case (6 n s)
  then obtain qs k r1 xs v r2 c cs where s: "s = CHR 0x22 # qs" "json_chars qs = Some (k, r1)" "skip_space r1 = CHR '':'' # xs"
      "json_value n (skip_space xs) = Some (v, r2)" "skip_space r2 = c # cs"
    by (auto split: option.splits list.splits if_splits)
  have "length r1 < length qs" using s(2) by (rule json_chars_shorter)
  moreover have "length xs < length r1" using s(3) by (rule skip_space_Cons)
  moreover have "length r2 < length (skip_space xs)" using 6(1) s by auto
  moreover have "length (skip_space xs) \<le> length xs" "length (skip_space cs) \<le> length cs" by (rule skip_space_le)+
  moreover have "length cs < length r2" using s(5) by (rule skip_space_Cons)
  ultimately show ?case using 6 s by (fastforce split: if_splits)
qed simp_all

lemma json_more_fuel:
  "json_value m s = Some x \<Longrightarrow> 2 * length s + 1 \<le> n \<Longrightarrow> json_value n s = Some x"
  "json_elements m s = Some y \<Longrightarrow> 2 * length s + 2 \<le> n \<Longrightarrow> json_elements n s = Some y"
  "json_members m s = Some z \<Longrightarrow> 2 * length s + 2 \<le> n \<Longrightarrow> json_members n s = Some z"
proof (induction m s and m s and m s arbitrary: x n and y n and z n rule: json_value_json_elements_json_members.induct)
  case (2 m s)
  obtain n' where n: "n = Suc n'" using 2(4) by (cases n) auto
  obtain c cs where s: "s = c # cs" using 2(3) by (cases s) auto
  have sk: "length (skip_space cs) \<le> length cs" by (rule skip_space_le)
  have mem: "json_members n' (d # ds) = Some z"
    if "c = CHR ''{''" "skip_space cs = d # ds" "d \<noteq> CHR ''}''" "json_members m (d # ds) = Some z" for d ds z
    using 2(1) [OF s that] 2(4) sk that(2) by (simp add: s n)
  have elt: "json_elements n' (d # ds) = Some z"
    if "c = CHR ''[''" "skip_space cs = d # ds" "d \<noteq> CHR '']''" "json_elements m (d # ds) = Some z" for d ds z
    using 2(2) [OF s _ that] 2(4) sk that(1,2) by (simp add: s n)
  show ?case
    using 2(3) mem elt by (auto simp: s n split: if_splits list.splits)
next
  case (4 m s)
  obtain n' where n: "n = Suc n'" using 4(4) by (cases n) auto
  obtain v r c cs where v: "json_value m s = Some (v, r)" "skip_space r = c # cs"
    using 4(3) by (auto split: option.splits list.splits)
  have "json_value n' s = Some (v, r)" using 4(1) v(1) 4(4) by (simp add: n)
  moreover have "length (skip_space cs) < length s"
    using json_shorter(1) [OF v(1)] skip_space_Cons [OF v(2)] skip_space_le [of cs] by simp
  then have "json_elements n' (skip_space cs) = Some z"
    if "c \<noteq> CHR '']''" "c = CHR '',''" "json_elements m (skip_space cs) = Some z" for z
    using 4(2) [OF v(1) refl v(2) that] 4(4) by (simp add: n)
  ultimately show ?case using 4(3) v by (auto simp: n split: if_splits)
next
  case (6 m s)
  obtain n' where n: "n = Suc n'" using 6(4) by (cases n) auto
  obtain qs k r1 xs v r2 c cs where s: "s = CHR 0x22 # qs" "json_chars qs = Some (k, r1)" "skip_space r1 = CHR '':'' # xs"
      "json_value m (skip_space xs) = Some (v, r2)" "skip_space r2 = c # cs"
    using 6(3) by (auto split: option.splits list.splits if_splits)
  have len: "length (skip_space xs) < length s" "length (skip_space cs) < length s"
    using json_chars_shorter [OF s(2)] skip_space_Cons [OF s(3)] skip_space_le [of xs] json_shorter(1) [OF s(4)]
      skip_space_Cons [OF s(5)] skip_space_le [of cs] by (simp_all add: s(1))
  have "2 * length (skip_space xs) + 1 \<le> n'" "2 * length (skip_space cs) + 2 \<le> n'" using 6(4) len by (simp_all add: n)
  note n' = this
  have "json_value n' (skip_space xs) = Some (v, r2)" by (rule 6(1) [OF s(1) _ s(2) refl s(3) _ s(4) n'(1)]) simp_all
  moreover have "json_members n' (skip_space cs) = Some z"
    if "c \<noteq> CHR ''}''" "c = CHR '',''" "json_members m (skip_space cs) = Some z" for z
    by (rule 6(2) [OF s(1) _ s(2) refl s(3) _ s(4) refl s(5) that n'(2)]) simp_all
  ultimately show ?case using 6(3) s by (auto simp: n split: if_splits)
qed simp_all

lemma json_fuel_enough:
  assumes "2 * length s + 1 \<le> n"
  shows "json_value n s = json_value (2 * length s + 1) s"
proof (cases "json_value n s")
  case None
  then show ?thesis using json_more_fuel(1) [OF _ assms] by (metis not_None_eq)
next
  case (Some x)
  then show ?thesis using json_more_fuel(1) [of n s x "2 * length s + 1"] by simp
qed

section \<open>Printing and parsing back\<close>

text \<open>
  A text that denotes a value wherever it stands in a larger one: before a character that cannot
  continue a number, and with fuel for its length.
\<close>

definition ends_value :: "string \<Rightarrow> bool" where
  "ends_value rest \<longleftrightarrow> rest = [] \<or> hd rest \<in> {CHR '','', CHR '']'', CHR ''}'', CHR 0x0A}"

definition denotes :: "string \<Rightarrow> json \<Rightarrow> bool" where
  "denotes t v \<longleftrightarrow>
     t \<noteq> [] \<and> \<not> json_space (hd t) \<and> hd t \<noteq> CHR '']''
     \<and> (\<forall>n rest. ends_value rest \<longrightarrow> 2 * length t + 1 \<le> n \<longrightarrow> json_value n (t @ rest) = Some (v, rest))"

definition plain :: "string \<Rightarrow> bool" where
  "plain s \<longleftrightarrow> list_all (\<lambda>c. 32 \<le> byte c \<and> byte c < 128 \<and> c \<notin> set ''<>&'' \<and> c \<noteq> CHR 0x22 \<and> c \<noteq> CHR 0x5C) s"

lemma plain_body: "plain s \<Longrightarrow> json_body s = s"
proof (induction s)
  case (Cons c cs)
  then have c: "byte c < 128" "json_body cs = cs" by (simp_all add: plain_def)
  have "byte c \<noteq> byte CHR 0x5C" "byte c \<noteq> byte CHR 0x22" using Cons.prems by (simp_all add: plain_def)
  moreover have "byte CHR 0x5C = 0x5C" "byte CHR 0x22 = 0x22" by (simp_all add: byte_def)
  ultimately have "json_ascii c = [c]" using Cons.prems by (auto simp: plain_def json_ascii_def)
  then show ?case using c by (simp add: json_body.simps(2))
qed simp

lemma plain_chars: "plain s \<Longrightarrow> json_chars (s @ CHR 0x22 # rest) = Some (s, rest)"
  by (induction s) (simp_all add: plain_def json_chars.simps(2))

lemma denotes_string: "plain s \<Longrightarrow> denotes (json_string s) (JStr s)"
  unfolding denotes_def
proof (intro conjI allI impI)
  fix n rest assume p: "plain s" "2 * length (json_string s) + 1 \<le> (n :: nat)"
  then obtain m where "n = Suc m" by (cases n) auto
  then show "json_value n (json_string s @ rest) = Some (JStr s, rest)"
    using plain_chars [OF p(1), of rest] p(1) by (simp add: json_string_def plain_body)
qed (simp_all add: json_string_def json_space_def byte_def)

lemma denotes_bool: "denotes (json_bool b) (JBool b)"
  unfolding denotes_def
proof (intro conjI allI impI)
  fix n rest assume "2 * length (json_bool b) + 1 \<le> (n :: nat)"
  then obtain m where "n = Suc m" by (cases n) auto
  then show "json_value n (json_bool b @ rest) = Some (JBool b, rest)"
    by (simp add: json_bool_def HasPrefix_def)
qed (simp_all add: json_bool_def json_space_def byte_def)

lemma digit_char [simp]: "n < 10 \<Longrightarrow> digit (char_of (48 + n))" "n < 10 \<Longrightarrow> byte (char_of (48 + n)) = 48 + n"
  by (simp_all add: digit_def byte_def)

lemma dec_nat_digits: "list_all digit (dec_nat n)"
  by (induction n rule: dec_nat.induct) (subst dec_nat.simps, simp)

lemma dec_nat_nonempty [simp]: "dec_nat n \<noteq> []" "[] \<noteq> dec_nat n"
  by (subst dec_nat.simps, simp)+

lemma dec_nat_value: "digit_value (dec_nat n) = n"
proof (induction n rule: dec_nat.induct)
  case (1 n)
  then show ?case by (subst dec_nat.simps) (simp add: digit_value_def)
qed

lemma dec_nat_hd: "hd (dec_nat n) = CHR ''0'' \<Longrightarrow> n = 0"
proof (induction n rule: dec_nat.induct)
  case (1 n)
  show ?case
  proof (cases "n < 10")
    case True
    then have "byte (hd (dec_nat n)) = 48 + n" by (subst dec_nat.simps) simp
    then show ?thesis using 1(2) by (simp add: byte_def)
  next
    case False
    then have "hd (dec_nat n) = hd (dec_nat (n div 10))" by (subst dec_nat.simps) simp
    then show ?thesis using 1 False by simp
  qed
qed

lemma takeWhile_digits:
  assumes "list_all digit ds" "ends_value rest"
  shows "takeWhile digit (ds @ rest) = ds" "dropWhile digit (ds @ rest) = rest"
proof -
  have "rest = [] \<or> \<not> digit (hd rest)" using assms(2) by (auto simp: ends_value_def digit_def byte_def)
  then have "takeWhile digit rest = []" "dropWhile digit rest = rest" by (cases rest; simp)+
  then show "takeWhile digit (ds @ rest) = ds" "dropWhile digit (ds @ rest) = rest"
    using assms(1) by (simp_all add: list_all_iff)
qed

lemma json_unsigned_dec:
  assumes "ends_value rest"
  shows "json_unsigned (dec_nat n @ rest) = Some (dec_nat n, rest)"
proof -
  note tw = takeWhile_digits [OF dec_nat_digits assms]
  obtain c cs where cs: "dec_nat n = c # cs" by (cases "dec_nat n") auto
  have "json_int_part (dec_nat n @ rest) = Some (dec_nat n, rest)"
  proof (cases "c = CHR ''0''")
    case True
    then have "n = 0" using dec_nat_hd [of n] cs by simp
    moreover have "(char_of (48 :: nat)) = CHR ''0''" using byte_inject [of "char_of (48 :: nat)" "CHR ''0''"] by (simp add: byte_def)
    ultimately have "dec_nat n = ''0''" by (simp add: dec_nat.simps)
    then show ?thesis by (simp add: json_int_part_def)
  next
    case False
    then show ?thesis using tw [of n] cs by (simp add: json_int_part_def json_digits_def)
  qed
  moreover have "json_fraction rest = Some ([], rest)" "json_exponent rest = Some ([], rest)"
    using assms by (auto simp: ends_value_def json_fraction_def json_exponent_def split: list.splits)
  ultimately show ?thesis by (simp add: json_unsigned_def)
qed

lemma number_start:
  "digit c \<Longrightarrow> \<not> json_space c \<and> c \<notin> {CHR '']'', CHR ''{'', CHR ''['', CHR 0x22, CHR ''t'', CHR ''f'', CHR ''n'', CHR ''-''}"
  by (auto simp: digit_def json_space_def byte_def)

lemma denotes_number:
  assumes "t = dec_nat k \<or> t = CHR ''-'' # dec_nat k"
  shows "denotes t (JNum t)"
  unfolding denotes_def
proof (intro conjI allI impI)
  obtain c cs where t: "t = c # cs" using assms by (cases t) auto
  have dg: "c = CHR ''-'' \<or> digit c" using assms dec_nat_digits [of k] t by (metis list.inject list.pred_inject(2))
  have c: "\<not> json_space c" "c \<notin> {CHR '']'', CHR ''{'', CHR ''['', CHR 0x22, CHR ''t'', CHR ''f'', CHR ''n''}"
    using number_start [of c] dg by (auto simp: json_space_def byte_def)
  then show "t \<noteq> []" "\<not> json_space (hd t)" "hd t \<noteq> CHR '']''" by (simp_all add: t)
  fix n rest assume r: "ends_value rest" "2 * length t + 1 \<le> (n :: nat)"
  then obtain m where n: "n = Suc m" by (cases n) auto
  have "json_number (t @ rest) = Some (t, rest)"
  proof (cases "c = CHR ''-''")
    case True
    have "\<not> digit CHR ''-''" by (simp add: digit_def byte_def)
    then have "t \<noteq> dec_nat k" using dec_nat_digits [of k] t True by (metis list.pred_inject(2))
    then show ?thesis using assms json_unsigned_dec [OF r(1), of k] by (simp add: json_number_def)
  next
    case False
    then have k: "dec_nat k = c # cs" using assms t by auto
    show ?thesis using json_unsigned_dec [OF r(1), of k] False unfolding k t by (simp add: json_number_def)
  qed
  then show "json_value n (t @ rest) = Some (JNum t, rest)"
    using c by (simp add: n t HasPrefix_def)
qed

lemma denotes_int: "denotes (dec_int n) (JNum (dec_int n))"
  unfolding dec_int_def by (rule denotes_number [of _ "nat (if n < 0 then - n else n)"]) simp

lemma ParseInt_dec: "- (2 ^ 63) \<le> n \<Longrightarrow> n < 2 ^ 63 \<Longrightarrow> ParseInt (dec_int n) = Some n"
proof -
  assume r: "- (2 ^ 63) \<le> n" "n < 2 ^ 63"
  have "hd (dec_nat k) \<noteq> CHR ''-''" for k
    using dec_nat_digits [of k] dec_nat_nonempty(1) [of k] number_start by (cases "dec_nat k") auto
  then show ?thesis
    using r dec_nat_digits by (auto simp: dec_int_def ParseInt_def Let_def dec_nat_value)
qed

lemma ParseUint_dec: "n < 2 ^ 64 \<Longrightarrow> ParseUint (dec_nat n) = Some n"
  using dec_nat_digits by (simp add: ParseUint_def dec_nat_value)

text \<open>Arrays and objects of texts that denote values.\<close>

lemma denotes_hd:
  assumes "denotes t v"
  shows "skip_space (t @ rest) = t @ rest" "t \<noteq> []" "hd t \<noteq> CHR '']''"
  using assms by (cases t; simp add: denotes_def skip_space_def)+

lemma ends_value_comma [simp]: "ends_value (CHR '','' # r)" "ends_value (CHR '']'' # r)" "ends_value (CHR ''}'' # r)" "ends_value [CHR 0x0A]"
  by (simp_all add: ends_value_def)

lemma skip_space_mark [simp]:
  "skip_space (CHR '','' # r) = CHR '','' # r" "skip_space (CHR '']'' # r) = CHR '']'' # r" "skip_space (CHR ''}'' # r) = CHR ''}'' # r"
  "skip_space (CHR '':'' # r) = CHR '':'' # r" "skip_space (CHR 0x22 # r) = CHR 0x22 # r"
  by (simp_all add: skip_space_def json_space_def byte_def)

lemma json_elements_commas:
  assumes "list_all2 denotes ts vs" "ts \<noteq> []" "2 * length (json_commas ts) + 2 \<le> n"
  shows "json_elements n (json_commas ts @ CHR '']'' # rest) = Some (vs, rest)"
  using assms
proof (induction ts arbitrary: vs n rule: json_commas.induct)
  case (2 t)
  then obtain v where v: "vs = [v]" "denotes t v" by (auto simp: list_all2_Cons1)
  obtain m where n: "n = Suc m" using 2 by (cases n) auto
  have "json_value m (t @ CHR '']'' # rest) = Some (v, CHR '']'' # rest)" using v(2) 2(3) by (simp add: n denotes_def)
  then show ?case by (simp add: n v)
next
  case (3 t u us)
  then obtain v vs' where v: "vs = v # vs'" "denotes t v" "list_all2 denotes (u # us) vs'" by (auto simp: list_all2_Cons1)
  obtain m where n: "n = Suc m" using 3 by (cases n) auto
  let ?r = "json_commas (u # us) @ CHR '']'' # rest"
  have "json_value m (t @ CHR '','' # ?r) = Some (v, CHR '','' # ?r)" using v(2) 3(4) by (simp add: n denotes_def)
  moreover have "json_elements m ?r = Some (vs', rest)" using 3(1) [OF v(3)] 3(4) by (simp add: n)
  moreover have "skip_space ?r = ?r"
  proof -
    obtain w where "denotes u w" using v(3) by (auto simp: list_all2_Cons1)
    then show ?thesis using denotes_hd(1) by (cases us) simp_all
  qed
  ultimately show ?case by (simp add: n v)
qed simp

lemma denotes_list:
  assumes "list_all2 denotes ts vs"
  shows "denotes (json_list ts) (JArr vs)"
  unfolding denotes_def
proof (intro conjI allI impI)
  fix n rest assume "2 * length (json_list ts) + 1 \<le> (n :: nat)"
  then obtain m where n: "n = Suc m" "2 * length (json_commas ts) + 2 \<le> m" by (cases n) (auto simp: json_list_def)
  show "json_value n (json_list ts @ rest) = Some (JArr vs, rest)"
  proof (cases "ts = []")
    case True
    then show ?thesis using assms by (simp add: n json_list_def)
  next
    case False
    then obtain t us v where t: "ts = t # us" "denotes t v" using assms by (cases ts) (auto simp: list_all2_Cons1)
    define r where "r = json_commas ts @ CHR '']'' # rest"
    have sk: "skip_space r = r" using denotes_hd(1) [OF t(2)] t(1) by (cases us) (simp_all add: r_def)
    obtain d ds where d: "r = d # ds" "d \<noteq> CHR '']''"
      using denotes_hd(2,3) [OF t(2)] t(1) by (cases t; cases us) (auto simp: r_def)
    have "json_elements m r = Some (vs, rest)" unfolding r_def by (rule json_elements_commas [OF assms False n(2)])
    moreover have "json_list ts @ rest = CHR ''['' # r" by (simp add: json_list_def r_def)
    ultimately show ?thesis using sk d by (simp add: n(1))
  qed
qed (simp_all add: json_list_def json_space_def byte_def)

definition denotes_members :: "(string \<times> string) list \<Rightarrow> (string \<times> json) list \<Rightarrow> bool" where
  "denotes_members = list_all2 (\<lambda>(k, t) (k', v). k' = k \<and> plain k \<and> denotes t v)"

definition member_text :: "string \<times> string \<Rightarrow> string" where
  "member_text = (\<lambda>(k, v). json_string k @ CHR '':'' # v)"

lemma json_members_commas:
  assumes "denotes_members ts vs" "ts \<noteq> []" "2 * length (json_commas (map member_text ts)) + 2 \<le> n"
  shows "json_members n (json_commas (map member_text ts) @ CHR ''}'' # rest) = Some (vs, rest)"
  using assms
proof (induction ts arbitrary: vs n rule: induct_list012)
  case (2 x)
  then obtain k t v where v: "x = (k, t)" "vs = [(k, v)]" "denotes t v" "plain k"
    by (cases x) (auto simp: denotes_members_def list_all2_Cons1)
  obtain m where n: "n = Suc m" using 2 by (cases n) auto
  have "json_value m (t @ CHR ''}'' # rest) = Some (v, CHR ''}'' # rest)"
    using v(1,3) 2(3) by (simp add: n denotes_def member_text_def json_string_def)
  then show ?case
    using plain_chars [OF v(4)] denotes_hd(1) [OF v(3)]
    by (simp add: n v(1,2) member_text_def json_string_def plain_body [OF v(4)])
next
  case (3 x y zs)
  then obtain k t v vs' where v: "x = (k, t)" "vs = (k, v) # vs'" "denotes t v" "plain k" "denotes_members (y # zs) vs'"
    by (cases x) (auto simp: denotes_members_def list_all2_Cons1)
  obtain m where n: "n = Suc m" using 3 by (cases n) auto
  let ?r = "json_commas (map member_text (y # zs)) @ CHR ''}'' # rest"
  have "json_value m (t @ CHR '','' # ?r) = Some (v, CHR '','' # ?r)"
    using v(1,3) 3(5) by (simp add: n denotes_def member_text_def json_string_def)
  moreover have "json_members m ?r = Some (vs', rest)"
    using 3(2) [OF v(5)] 3(5) by (simp add: n v(1) member_text_def json_string_def)
  moreover have "skip_space ?r = ?r"
    by (cases y; cases zs) (simp_all add: member_text_def json_string_def)
  ultimately show ?case
    using plain_chars [OF v(4)] denotes_hd(1) [OF v(3)]
    by (simp add: n v(1,2) member_text_def json_string_def plain_body [OF v(4)])
qed simp

lemma denotes_object:
  assumes "denotes_members ts vs"
  shows "denotes (json_object ts) (JObj vs)"
  unfolding denotes_def
proof (intro conjI allI impI)
  fix n rest assume "2 * length (json_object ts) + 1 \<le> (n :: nat)"
  then obtain m where n: "n = Suc m" "2 * length (json_commas (map member_text ts)) + 2 \<le> m"
    by (cases n) (auto simp: json_object_def member_text_def)
  show "json_value n (json_object ts @ rest) = Some (JObj vs, rest)"
  proof (cases ts)
    case Nil
    then show ?thesis using assms by (simp add: n json_object_def denotes_members_def)
  next
    case (Cons x xs)
    define r where "r = json_commas (map member_text ts) @ CHR ''}'' # rest"
    obtain ds where d: "r = CHR 0x22 # ds"
      unfolding r_def Cons by (cases x; cases xs) (simp_all add: member_text_def json_string_def)
    have "json_members m r = Some (vs, rest)" unfolding r_def by (rule json_members_commas [OF assms _ n(2)]) (simp add: Cons)
    moreover have "json_object ts @ rest = CHR ''{'' # r" by (simp add: json_object_def r_def member_text_def)
    ultimately show ?thesis using d by (simp add: n(1))
  qed
qed (simp_all add: json_object_def json_space_def byte_def)

lemma json_parse_denoted:
  assumes "denotes t v"
  shows "json_parse (t @ [CHR 0x0A]) = Some v"
proof -
  have "skip_space (t @ [CHR 0x0A]) = t @ [CHR 0x0A]" by (rule denotes_hd(1) [OF assms])
  moreover have "json_value (2 * length (t @ [CHR 0x0A]) + 1) (t @ [CHR 0x0A]) = Some (v, [CHR 0x0A])"
    using assms unfolding denotes_def by (metis add_le_mono1 ends_value_comma(4) length_append mult_le_mono2 nat_le_iff_add)
  moreover have "skip_space [CHR 0x0A] = []" by (simp add: skip_space_def json_space_def byte_def)
  ultimately show ?thesis by (simp add: json_parse_def)
qed

end
