(* ===== verification/ResultProtocol.thy ===== *)
theory ResultProtocol
  imports GoJsonValue WorkspaceProtocol AgentProtocol
begin

text \<open>
  Result packages on the wire (\<^verbatim>\<open>internal/protocol/result_package.go\<close>): the manifest a finished turn
  leaves, its canonical text with a digest, the strict decoder, and the messages that publish, transfer,
  acknowledge and release a package. A slice that may be nil is an option.
\<close>

definition ResultManifestVersion :: int where "ResultManifestVersion = 2"
definition ResultPackageChunkBytes :: int where "ResultPackageChunkBytes = 128 * 1024"
definition MaximumResultManifestBytes :: int where "MaximumResultManifestBytes = 64 * 1024"
definition MaximumResultRolloutBytes :: int where "MaximumResultRolloutBytes = 64 * 1024 * 1024"
definition MaximumResultRolloutRawBytes :: int where "MaximumResultRolloutRawBytes = 64 * 1024 * 1024"
definition MaximumResultChangesBundleBytes :: int where "MaximumResultChangesBundleBytes = 256 * 1024 * 1024"
definition MaximumResultChangesOverlayBytes :: int where "MaximumResultChangesOverlayBytes = 256 * 1024 * 1024"
definition MaximumResultPackageBytes :: int where "MaximumResultPackageBytes = 512 * 1024 * 1024"
definition MaximumResultPackagePayloadParts :: nat where "MaximumResultPackagePayloadParts = 3"

lemmas result_limits =
  ResultPackageChunkBytes_def MaximumResultManifestBytes_def MaximumResultRolloutBytes_def MaximumResultRolloutRawBytes_def
  MaximumResultChangesBundleBytes_def MaximumResultChangesOverlayBytes_def MaximumResultPackageBytes_def
  MaximumResultPackagePayloadParts_def

section \<open>Parts\<close>

datatype ResultPackagePartKind =
    ResultPackagePartChangesBundle | ResultPackagePartChangesOverlay | ResultPackagePartManifest | ResultPackagePartRollout
  | ResultPackagePart_other string

fun part_kind_string :: "ResultPackagePartKind \<Rightarrow> string" where
  "part_kind_string ResultPackagePartChangesBundle = ''changesBundle''"
| "part_kind_string ResultPackagePartChangesOverlay = ''changesOverlay''"
| "part_kind_string ResultPackagePartManifest = ''manifest''"
| "part_kind_string ResultPackagePartRollout = ''rollout''"
| "part_kind_string (ResultPackagePart_other s) = s"

definition part_kind_of_string :: "string \<Rightarrow> ResultPackagePartKind" where
  "part_kind_of_string s =
     (if s = ''changesBundle'' then ResultPackagePartChangesBundle
      else if s = ''changesOverlay'' then ResultPackagePartChangesOverlay
      else if s = ''manifest'' then ResultPackagePartManifest
      else if s = ''rollout'' then ResultPackagePartRollout
      else ResultPackagePart_other s)"

fun ResultPackagePartKind_Validate :: "ResultPackagePartKind \<Rightarrow> err" where
  "ResultPackagePartKind_Validate (ResultPackagePart_other s) = Some (Plain ''unsupported result package part kind'')"
| "ResultPackagePartKind_Validate _ = None"

fun FileName :: "ResultPackagePartKind \<Rightarrow> string result" where
  "FileName ResultPackagePartChangesBundle = Inr ''changes.bundle''"
| "FileName ResultPackagePartChangesOverlay = Inr ''changes-overlay.tar.zst''"
| "FileName ResultPackagePartManifest = Inr ''result-manifest.json''"
| "FileName ResultPackagePartRollout = Inr ''rollout.jsonl.zst''"
| "FileName (ResultPackagePart_other s) = Inl (Plain ''unsupported result package part kind'')"

fun MaximumBytes :: "ResultPackagePartKind \<Rightarrow> int result" where
  "MaximumBytes ResultPackagePartChangesBundle = Inr MaximumResultChangesBundleBytes"
| "MaximumBytes ResultPackagePartChangesOverlay = Inr MaximumResultChangesOverlayBytes"
| "MaximumBytes ResultPackagePartManifest = Inr MaximumResultManifestBytes"
| "MaximumBytes ResultPackagePartRollout = Inr MaximumResultRolloutBytes"
| "MaximumBytes (ResultPackagePart_other s) = Inl (Plain ''unsupported result package part kind'')"

definition validatePayloadKind :: "ResultPackagePartKind \<Rightarrow> err" where
  "validatePayloadKind k =
     first_err [ResultPackagePartKind_Validate k,
       fail_if (k = ResultPackagePartManifest) (Plain ''result package payload must not use the manifest part'')]"

record ResultPackagePartDescriptor =
  rd_Kind :: ResultPackagePartKind
  rd_Size :: int
  rd_SHA256 :: string

definition ResultPackagePartDescriptor_Validate :: "ResultPackagePartDescriptor \<Rightarrow> err" where
  "ResultPackagePartDescriptor_Validate d =
     (case MaximumBytes (rd_Kind d) of
        Inl e \<Rightarrow> Some e
      | Inr maximum \<Rightarrow>
          first_err
            [fail_if (rd_Size d < 1 \<or> rd_Size d > maximum) (Plain ''result package part size''),
             fail_if (\<not> sha256DigestPattern (rd_SHA256 d))
               (Plain ''result package part sha256 must be a lowercase SHA-256 digest'')])"

section \<open>Components\<close>

datatype ResultTerminalOutcome =
    ResultTerminalCompleted | ResultTerminalFailed | ResultTerminalInterrupted | ResultTerminal_other string

fun terminal_string :: "ResultTerminalOutcome \<Rightarrow> string" where
  "terminal_string ResultTerminalCompleted = ''completed''"
| "terminal_string ResultTerminalFailed = ''failed''"
| "terminal_string ResultTerminalInterrupted = ''interrupted''"
| "terminal_string (ResultTerminal_other s) = s"

definition terminal_of_string :: "string \<Rightarrow> ResultTerminalOutcome" where
  "terminal_of_string s =
     (if s = ''completed'' then ResultTerminalCompleted else if s = ''failed'' then ResultTerminalFailed
      else if s = ''interrupted'' then ResultTerminalInterrupted else ResultTerminal_other s)"

record ResultTerminal =
  rt_Outcome :: ResultTerminalOutcome
  rt_FailureCode :: string

definition ResultTerminal_Validate :: "ResultTerminal \<Rightarrow> err" where
  "ResultTerminal_Validate t =
     (case rt_Outcome t of
        ResultTerminalCompleted \<Rightarrow>
          fail_if (rt_FailureCode t \<noteq> '''') (Plain ''completed result terminal must not contain failureCode'')
      | ResultTerminal_other s \<Rightarrow> Some (Plain ''unsupported result terminal outcome'')
      | _ \<Rightarrow> ValidateFailureCode (rt_FailureCode t))"

datatype ResultRolloutStatus = ResultRolloutAvailable | ResultRolloutCaptureFailed | ResultRollout_other string

fun rollout_string :: "ResultRolloutStatus \<Rightarrow> string" where
  "rollout_string ResultRolloutAvailable = ''available''"
| "rollout_string ResultRolloutCaptureFailed = ''captureFailed''"
| "rollout_string (ResultRollout_other s) = s"

definition rollout_of_string :: "string \<Rightarrow> ResultRolloutStatus" where
  "rollout_of_string s =
     (if s = ''available'' then ResultRolloutAvailable else if s = ''captureFailed'' then ResultRolloutCaptureFailed
      else ResultRollout_other s)"

record ResultRolloutComponent =
  rr_Status :: ResultRolloutStatus
  rr_RawSize :: int
  rr_RawSHA256 :: string
  rr_FailureCode :: string

definition ResultRolloutComponent_Validate :: "ResultRolloutComponent \<Rightarrow> err" where
  "ResultRolloutComponent_Validate r =
     (case rr_Status r of
        ResultRolloutAvailable \<Rightarrow>
          first_err
            [fail_if (rr_RawSize r < 1 \<or> rr_RawSize r > MaximumResultRolloutRawBytes) (Plain ''rollout rawSize''),
             fail_if (\<not> sha256DigestPattern (rr_RawSHA256 r)) (Plain ''rollout rawSha256 must be a lowercase SHA-256 digest''),
             fail_if (rr_FailureCode r \<noteq> '''') (Plain ''available rollout must not contain failureCode'')]
      | ResultRolloutCaptureFailed \<Rightarrow>
          first_err
            [fail_if (rr_RawSize r \<noteq> 0 \<or> rr_RawSHA256 r \<noteq> '''') (Plain ''failed rollout capture must not claim raw bytes''),
             ValidateFailureCode (rr_FailureCode r)]
      | ResultRollout_other s \<Rightarrow> Some (Plain ''unsupported rollout status''))"

datatype ResultWorkspaceStatus =
    ResultWorkspaceNotManaged | ResultWorkspaceUnchanged | ResultWorkspaceChanged | ResultWorkspaceCaptureFailed
  | ResultWorkspace_other string

fun result_workspace_string :: "ResultWorkspaceStatus \<Rightarrow> string" where
  "result_workspace_string ResultWorkspaceNotManaged = ''notManaged''"
| "result_workspace_string ResultWorkspaceUnchanged = ''unchanged''"
| "result_workspace_string ResultWorkspaceChanged = ''changed''"
| "result_workspace_string ResultWorkspaceCaptureFailed = ''captureFailed''"
| "result_workspace_string (ResultWorkspace_other s) = s"

definition result_workspace_of_string :: "string \<Rightarrow> ResultWorkspaceStatus" where
  "result_workspace_of_string s =
     (if s = ''notManaged'' then ResultWorkspaceNotManaged else if s = ''unchanged'' then ResultWorkspaceUnchanged
      else if s = ''changed'' then ResultWorkspaceChanged else if s = ''captureFailed'' then ResultWorkspaceCaptureFailed
      else ResultWorkspace_other s)"

record ResultWorkspaceComponent =
  rw_Status :: ResultWorkspaceStatus
  rw_WorkspaceID :: string
  rw_SourceDeviceID :: string
  rw_TargetDeviceID :: string
  rw_ObjectFormat :: string
  rw_BaseHeadOID :: string
  rw_BaseManifestHash :: string
  rw_BaseSnapshotHash :: string
  rw_BaseClean :: bool
  rw_ResultHeadOID :: string
  rw_ResultSnapshotHash :: string
  rw_ResultClean :: bool
  rw_BaseWarnings :: "string list option"
  rw_ResultWarnings :: "string list option"
  rw_FailureCode :: string

text \<open>The elements of a slice, nil having none.\<close>

definition elems :: "'a list option \<Rightarrow> 'a list" where
  "elems xs = (case xs of None \<Rightarrow> [] | Some ys \<Rightarrow> ys)"

definition validateResultGitBase :: "ResultWorkspaceComponent \<Rightarrow> err" where
  "validateResultGitBase w =
     first_err
       [fail_if (\<not> gitObjectIDPattern (rw_BaseHeadOID w)) (Plain ''baseHeadOid must be a lowercase SHA-1 or SHA-256 object ID''),
        (if rw_ObjectFormat w = ''sha1''
         then fail_if (length (rw_BaseHeadOID w) \<noteq> 40) (Plain ''SHA-1 workspace must use a 40-byte baseHeadOid'')
         else if rw_ObjectFormat w = ''sha256''
         then fail_if (length (rw_BaseHeadOID w) \<noteq> 64) (Plain ''SHA-256 workspace must use a 64-byte baseHeadOid'')
         else Some (Plain ''unsupported Git object format'')),
        fail_if (\<not> sha256DigestPattern (rw_BaseManifestHash w)) (Plain ''baseManifestHash must be a lowercase SHA-256 digest''),
        fail_if (\<not> sha256DigestPattern (rw_BaseSnapshotHash w)) (Plain ''baseSnapshotHash must be a lowercase SHA-256 digest'')]"

definition validateResultGitResult :: "ResultWorkspaceComponent \<Rightarrow> err" where
  "validateResultGitResult w =
     first_err
       [fail_if (\<not> gitObjectIDPattern (rw_ResultHeadOID w) \<or> length (rw_ResultHeadOID w) \<noteq> length (rw_BaseHeadOID w))
          (Plain ''resultHeadOid must use the base Git object format''),
        fail_if (\<not> sha256DigestPattern (rw_ResultSnapshotHash w))
          (Plain ''resultSnapshotHash must be a lowercase SHA-256 digest'')]"

definition workspace_stateless :: "ResultWorkspaceComponent \<Rightarrow> bool" where
  "workspace_stateless w \<longleftrightarrow>
     rw_WorkspaceID w = '''' \<and> rw_SourceDeviceID w = '''' \<and> rw_TargetDeviceID w = '''' \<and> rw_ObjectFormat w = ''''
     \<and> rw_BaseHeadOID w = '''' \<and> rw_BaseManifestHash w = '''' \<and> rw_BaseSnapshotHash w = '''' \<and> \<not> rw_BaseClean w
     \<and> rw_ResultHeadOID w = '''' \<and> rw_ResultSnapshotHash w = '''' \<and> \<not> rw_ResultClean w
     \<and> elems (rw_BaseWarnings w) = [] \<and> elems (rw_ResultWarnings w) = [] \<and> rw_FailureCode w = ''''"

definition same_as_base :: "ResultWorkspaceComponent \<Rightarrow> bool" where
  "same_as_base w \<longleftrightarrow>
     rw_ResultHeadOID w = rw_BaseHeadOID w \<and> rw_ResultSnapshotHash w = rw_BaseSnapshotHash w \<and> rw_ResultClean w = rw_BaseClean w"

definition ResultWorkspaceComponent_Validate :: "ResultWorkspaceComponent \<Rightarrow> err" where
  "ResultWorkspaceComponent_Validate w =
     (if rw_BaseWarnings w = None \<or> rw_ResultWarnings w = None
      then Some (Plain ''workspace warning lists must be present'')
      else if rw_Status w = ResultWorkspaceNotManaged
      then fail_if (\<not> workspace_stateless w) (Plain ''unmanaged workspace result must not contain workspace state'')
      else first_err
        [wrap ''workspaceId'' (ValidateID (rw_WorkspaceID w)),
         wrap ''workspace sourceDeviceId'' (ValidateID (rw_SourceDeviceID w)),
         wrap ''workspace targetDeviceId'' (ValidateID (rw_TargetDeviceID w)),
         validateResultGitBase w,
         wrap ''baseWarnings'' (ValidateWorkspaceWarnings (elems (rw_BaseWarnings w))),
         wrap ''resultWarnings'' (ValidateWorkspaceSourceWarnings (elems (rw_ResultWarnings w))),
         (case rw_Status w of
            ResultWorkspaceUnchanged \<Rightarrow>
              first_err
                [fail_if (rw_FailureCode w \<noteq> '''') (Plain ''unchanged workspace result must not contain failureCode''),
                 validateResultGitResult w,
                 fail_if (\<not> same_as_base w) (Plain ''unchanged workspace result must equal its base'')]
          | ResultWorkspaceChanged \<Rightarrow>
              first_err
                [fail_if (rw_FailureCode w \<noteq> '''') (Plain ''changed workspace result must not contain failureCode''),
                 validateResultGitResult w,
                 fail_if (same_as_base w) (Plain ''changed workspace result must differ from its base'')]
          | ResultWorkspaceCaptureFailed \<Rightarrow>
              first_err
                [fail_if (rw_ResultHeadOID w \<noteq> '''' \<or> rw_ResultSnapshotHash w \<noteq> '''' \<or> rw_ResultClean w
                          \<or> elems (rw_ResultWarnings w) \<noteq> [])
                   (Plain ''failed workspace capture must not claim result state''),
                 ValidateFailureCode (rw_FailureCode w)]
          | _ \<Rightarrow> Some (Plain ''unsupported workspace status''))])"

section \<open>The manifest\<close>

record ResultManifest =
  rm_Version :: int
  rm_PackageID :: string
  rm_ControllerID :: string
  rm_TreeID :: string
  rm_SourceAgentID :: string
  rm_SourceDeviceID :: string
  rm_ManagedThreadID :: string
  rm_TurnID :: string
  rm_LifecycleRevision :: nat
  rm_Terminal :: ResultTerminal
  rm_CapturedAt :: int
  rm_Rollout :: ResultRolloutComponent
  rm_Workspace :: ResultWorkspaceComponent
  rm_Parts :: "ResultPackagePartDescriptor list option"

text \<open>The loop over the parts, with the last kind seen and the bytes so far.\<close>

fun parts_loop :: "string \<Rightarrow> int \<Rightarrow> ResultPackagePartDescriptor list \<Rightarrow> err" where
  "parts_loop previous total_bytes [] = None"
| "parts_loop previous total_bytes (part # rest) =
     (case first_err
        [ResultPackagePartDescriptor_Validate part,
         validatePayloadKind (rd_Kind part),
         fail_if (previous \<noteq> '''' \<and> part_kind_string (rd_Kind part) \<le> previous)
           (Plain ''result package parts must be sorted and unique''),
         fail_if (rd_Size part > MaximumResultPackageBytes - MaximumResultManifestBytes - total_bytes)
           (Plain ''result package payload exceeds its limit'')] of
        Some e \<Rightarrow> Some e
      | None \<Rightarrow> parts_loop (part_kind_string (rd_Kind part)) (total_bytes + rd_Size part) rest)"

definition has_part :: "ResultPackagePartKind \<Rightarrow> ResultPackagePartDescriptor list \<Rightarrow> bool" where
  "has_part k parts \<longleftrightarrow> list_ex (\<lambda>p. rd_Kind p = k) parts"

definition validateParts :: "ResultManifest \<Rightarrow> err" where
  "validateParts m =
     (case rm_Parts m of
        None \<Rightarrow> Some (Plain ''result manifest parts must be present'')
      | Some parts \<Rightarrow>
          let w = rm_Workspace m;
              hasBundle = has_part ResultPackagePartChangesBundle parts;
              hasOverlay = has_part ResultPackagePartChangesOverlay parts
          in first_err
            [fail_if (length parts > MaximumResultPackagePayloadParts) (Plain ''result manifest has too many payload parts''),
             parts_loop '''' 0 parts,
             fail_if (has_part ResultPackagePartRollout parts \<noteq> (rr_Status (rm_Rollout m) = ResultRolloutAvailable))
               (Plain ''rollout part does not match rollout component status''),
             (case rw_Status w of
                ResultWorkspaceChanged \<Rightarrow>
                  first_err
                    [fail_if (hasBundle \<noteq> (rw_ResultHeadOID w \<noteq> rw_BaseHeadOID w))
                       (Plain ''changes bundle does not match the result HEAD''),
                     fail_if (hasOverlay \<noteq> (\<not> rw_ResultClean w)) (Plain ''changes overlay does not match result cleanliness''),
                     fail_if (\<not> hasBundle \<and> \<not> hasOverlay \<and> rw_BaseClean w)
                       (Plain ''payload-free workspace changes must reset a dirty base'')]
              | ResultWorkspace_other s \<Rightarrow> Some (Plain ''unsupported workspace status'')
              | _ \<Rightarrow> fail_if (hasBundle \<or> hasOverlay) (Plain ''workspace status must not contain changes payloads''))])"

definition ResultManifest_Validate :: "ResultManifest \<Rightarrow> err" where
  "ResultManifest_Validate m =
     first_err
       [fail_if (rm_Version m \<noteq> ResultManifestVersion) (Plain ''unsupported result manifest version''),
        wrap ''packageId'' (ValidateID (rm_PackageID m)),
        wrap ''controllerId'' (ValidateID (rm_ControllerID m)),
        wrap ''treeId'' (ValidateID (rm_TreeID m)),
        wrap ''sourceAgentId'' (ValidateID (rm_SourceAgentID m)),
        wrap ''sourceDeviceId'' (ValidateID (rm_SourceDeviceID m)),
        wrap ''managedThreadId'' (ValidateID (rm_ManagedThreadID m)),
        wrap ''turnId'' (ValidateID (rm_TurnID m)),
        fail_if (rm_LifecycleRevision m = 0 \<or> int (rm_LifecycleRevision m) > MaxInt64)
          (Plain ''result lifecycleRevision is outside the supported range''),
        fail_if (rm_CapturedAt m < 0) (Plain ''result capturedAt must not be negative''),
        ResultTerminal_Validate (rm_Terminal m),
        ResultRolloutComponent_Validate (rm_Rollout m),
        ResultWorkspaceComponent_Validate (rm_Workspace m),
        fail_if (rw_Status (rm_Workspace m) \<noteq> ResultWorkspaceNotManaged
                 \<and> rw_TargetDeviceID (rm_Workspace m) \<noteq> rm_SourceDeviceID m)
          (Plain ''workspace targetDeviceId must match result sourceDeviceId''),
        validateParts m]"

section \<open>The canonical text\<close>

definition part_json :: "ResultPackagePartDescriptor \<Rightarrow> string" where
  "part_json d =
     json_object [(''kind'', json_string (part_kind_string (rd_Kind d))), (''size'', dec_int (rd_Size d)),
       (''sha256'', json_string (rd_SHA256 d))]"

definition json_slice :: "('a \<Rightarrow> string) \<Rightarrow> 'a list option \<Rightarrow> string" where
  "json_slice f xs = (case xs of None \<Rightarrow> ''null'' | Some ys \<Rightarrow> json_list (map f ys))"

definition terminal_json :: "ResultTerminal \<Rightarrow> string" where
  "terminal_json t =
     json_object [(''outcome'', json_string (terminal_string (rt_Outcome t))), (''failureCode'', json_string (rt_FailureCode t))]"

definition rollout_json :: "ResultRolloutComponent \<Rightarrow> string" where
  "rollout_json r =
     json_object [(''status'', json_string (rollout_string (rr_Status r))), (''rawSize'', dec_int (rr_RawSize r)),
       (''rawSha256'', json_string (rr_RawSHA256 r)), (''failureCode'', json_string (rr_FailureCode r))]"

definition result_workspace_json :: "ResultWorkspaceComponent \<Rightarrow> string" where
  "result_workspace_json w =
     json_object
       [(''status'', json_string (result_workspace_string (rw_Status w))), (''workspaceId'', json_string (rw_WorkspaceID w)),
        (''sourceDeviceId'', json_string (rw_SourceDeviceID w)), (''targetDeviceId'', json_string (rw_TargetDeviceID w)),
        (''objectFormat'', json_string (rw_ObjectFormat w)), (''baseHeadOid'', json_string (rw_BaseHeadOID w)),
        (''baseManifestHash'', json_string (rw_BaseManifestHash w)), (''baseSnapshotHash'', json_string (rw_BaseSnapshotHash w)),
        (''baseClean'', json_bool (rw_BaseClean w)), (''resultHeadOid'', json_string (rw_ResultHeadOID w)),
        (''resultSnapshotHash'', json_string (rw_ResultSnapshotHash w)), (''resultClean'', json_bool (rw_ResultClean w)),
        (''baseWarnings'', json_slice json_string (rw_BaseWarnings w)),
        (''resultWarnings'', json_slice json_string (rw_ResultWarnings w)), (''failureCode'', json_string (rw_FailureCode w))]"

definition result_manifest_json :: "ResultManifest \<Rightarrow> string" where
  "result_manifest_json m =
     json_object
       [(''version'', dec_int (rm_Version m)), (''packageId'', json_string (rm_PackageID m)),
        (''controllerId'', json_string (rm_ControllerID m)), (''treeId'', json_string (rm_TreeID m)),
        (''sourceAgentId'', json_string (rm_SourceAgentID m)), (''sourceDeviceId'', json_string (rm_SourceDeviceID m)),
        (''managedThreadId'', json_string (rm_ManagedThreadID m)), (''turnId'', json_string (rm_TurnID m)),
        (''lifecycleRevision'', dec_nat (rm_LifecycleRevision m)), (''terminal'', terminal_json (rm_Terminal m)),
        (''capturedAt'', dec_int (rm_CapturedAt m)), (''rollout'', rollout_json (rm_Rollout m)),
        (''workspace'', result_workspace_json (rm_Workspace m)), (''parts'', json_slice part_json (rm_Parts m))]"

definition EncodeResultManifest :: "ResultManifest \<Rightarrow> (string \<times> ResultPackagePartDescriptor) result" where
  "EncodeResultManifest manifest =
     (case ResultManifest_Validate manifest of
        Some e \<Rightarrow> Inl e
      | None \<Rightarrow>
          let text = result_manifest_json manifest @ [CHR 0x0A] in
          if int (length text) > MaximumResultManifestBytes then Inl (Plain ''result manifest exceeds its limit'')
          else Inr (text, \<lparr>rd_Kind = ResultPackagePartManifest, rd_Size = int (length text), rd_SHA256 = sha256_hex text\<rparr>))"

section \<open>The decoder\<close>

definition manifest_fields :: "string list" where
  "manifest_fields =
     [''version'', ''packageId'', ''controllerId'', ''treeId'', ''sourceAgentId'', ''sourceDeviceId'', ''managedThreadId'',
      ''turnId'', ''lifecycleRevision'', ''terminal'', ''capturedAt'', ''rollout'', ''workspace'', ''parts'']"

definition terminal_fields :: "string list" where
  "terminal_fields = [''outcome'', ''failureCode'']"

definition rollout_fields :: "string list" where
  "rollout_fields = [''status'', ''rawSize'', ''rawSha256'', ''failureCode'']"

definition workspace_fields :: "string list" where
  "workspace_fields =
     [''status'', ''workspaceId'', ''sourceDeviceId'', ''targetDeviceId'', ''objectFormat'', ''baseHeadOid'', ''baseManifestHash'',
      ''baseSnapshotHash'', ''baseClean'', ''resultHeadOid'', ''resultSnapshotHash'', ''resultClean'', ''baseWarnings'',
      ''resultWarnings'', ''failureCode'']"

definition part_fields :: "string list" where
  "part_fields = [''kind'', ''size'', ''sha256'']"

text \<open>What the values found for each struct make of its fields, starting from the zero value.\<close>

definition decode_string :: "string list \<Rightarrow> json list \<Rightarrow> string \<Rightarrow> string option" where
  "decode_string names vs k = scalar as_string '''' (occurrences names k vs)"

definition decode_bool :: "string list \<Rightarrow> json list \<Rightarrow> string \<Rightarrow> bool option" where
  "decode_bool names vs k = scalar as_bool False (occurrences names k vs)"

definition decode_int :: "string list \<Rightarrow> json list \<Rightarrow> string \<Rightarrow> int option" where
  "decode_int names vs k = scalar as_int64 0 (occurrences names k vs)"

definition decode_strings :: "string list \<Rightarrow> json list \<Rightarrow> string \<Rightarrow> string list option option" where
  "decode_strings names vs k =
     slice (\<lambda>old v. if v = JNull then Some old else as_string v) '''' (None, []) (occurrences names k vs)"

definition decode_part :: "ResultPackagePartDescriptor \<Rightarrow> json \<Rightarrow> ResultPackagePartDescriptor option" where
  "decode_part old v =
     (if \<not> struct_ok part_fields [v] then None
      else
        case (scalar as_string (part_kind_string (rd_Kind old)) (occurrences part_fields ''kind'' [v]),
              scalar as_int64 (rd_Size old) (occurrences part_fields ''size'' [v]),
              scalar as_string (rd_SHA256 old) (occurrences part_fields ''sha256'' [v])) of
          (Some k, Some n, Some h) \<Rightarrow> Some \<lparr>rd_Kind = part_kind_of_string k, rd_Size = n, rd_SHA256 = h\<rparr>
        | _ \<Rightarrow> None)"

definition zero_part :: ResultPackagePartDescriptor where
  "zero_part = \<lparr>rd_Kind = ResultPackagePart_other '''', rd_Size = 0, rd_SHA256 = ''''\<rparr>"

definition decode_terminal :: "json list \<Rightarrow> ResultTerminal option" where
  "decode_terminal vs =
     (if \<not> struct_ok terminal_fields vs then None
      else
        case (decode_string terminal_fields vs ''outcome'', decode_string terminal_fields vs ''failureCode'') of
          (Some x, Some c) \<Rightarrow> Some \<lparr>rt_Outcome = terminal_of_string x, rt_FailureCode = c\<rparr>
        | _ \<Rightarrow> None)"

definition decode_rollout :: "json list \<Rightarrow> ResultRolloutComponent option" where
  "decode_rollout vs =
     (if \<not> struct_ok rollout_fields vs then None
      else
        case (decode_string rollout_fields vs ''status'', decode_int rollout_fields vs ''rawSize'',
              decode_string rollout_fields vs ''rawSha256'', decode_string rollout_fields vs ''failureCode'') of
          (Some x, Some n, Some h, Some c) \<Rightarrow>
            Some \<lparr>rr_Status = rollout_of_string x, rr_RawSize = n, rr_RawSHA256 = h, rr_FailureCode = c\<rparr>
        | _ \<Rightarrow> None)"

definition decode_workspace :: "json list \<Rightarrow> ResultWorkspaceComponent option" where
  "decode_workspace vs =
     (let str = decode_string workspace_fields vs; flag = decode_bool workspace_fields vs; lst = decode_strings workspace_fields vs in
      if \<not> struct_ok workspace_fields vs then None
      else
        case ((str ''status'', str ''workspaceId'', str ''sourceDeviceId'', str ''targetDeviceId'', str ''objectFormat''),
              (str ''baseHeadOid'', str ''baseManifestHash'', str ''baseSnapshotHash'', flag ''baseClean''),
              (str ''resultHeadOid'', str ''resultSnapshotHash'', flag ''resultClean''),
              (lst ''baseWarnings'', lst ''resultWarnings'', str ''failureCode'')) of
          ((Some st, Some wid, Some sd, Some td, Some fmt), (Some bh, Some bm, Some bs, Some bc), (Some rh, Some rs, Some rc),
           (Some bw, Some rw, Some code)) \<Rightarrow>
            Some \<lparr>rw_Status = result_workspace_of_string st, rw_WorkspaceID = wid, rw_SourceDeviceID = sd, rw_TargetDeviceID = td,
              rw_ObjectFormat = fmt, rw_BaseHeadOID = bh, rw_BaseManifestHash = bm, rw_BaseSnapshotHash = bs, rw_BaseClean = bc,
              rw_ResultHeadOID = rh, rw_ResultSnapshotHash = rs, rw_ResultClean = rc, rw_BaseWarnings = bw,
              rw_ResultWarnings = rw, rw_FailureCode = code\<rparr>
        | _ \<Rightarrow> None)"

definition decode_manifest :: "json \<Rightarrow> ResultManifest option" where
  "decode_manifest v =
     (let str = decode_string manifest_fields [v]; occ = (\<lambda>k. occurrences manifest_fields k [v]) in
      if \<not> struct_ok manifest_fields [v] then None
      else
        case ((decode_int manifest_fields [v] ''version'', str ''packageId'', str ''controllerId'', str ''treeId''),
              (str ''sourceAgentId'', str ''sourceDeviceId'', str ''managedThreadId'', str ''turnId''),
              (scalar as_uint64 0 (occ ''lifecycleRevision''), decode_terminal (occ ''terminal''),
               decode_int manifest_fields [v] ''capturedAt''),
              (decode_rollout (occ ''rollout''), decode_workspace (occ ''workspace''),
               slice decode_part zero_part (None, []) (occ ''parts''))) of
          ((Some ver, Some pid, Some cid, Some tid), (Some sa, Some sd, Some mt, Some tu), (Some rv, Some ter, Some cap),
           (Some ro, Some ws, Some ps)) \<Rightarrow>
            Some \<lparr>rm_Version = ver, rm_PackageID = pid, rm_ControllerID = cid, rm_TreeID = tid, rm_SourceAgentID = sa,
              rm_SourceDeviceID = sd, rm_ManagedThreadID = mt, rm_TurnID = tu, rm_LifecycleRevision = rv, rm_Terminal = ter,
              rm_CapturedAt = cap, rm_Rollout = ro, rm_Workspace = ws, rm_Parts = ps\<rparr>
        | _ \<Rightarrow> None)"

text \<open>
  The second pass over the text: decoded to a map, every object has exactly the required keys, none null.
  The map keeps the last of several members with one key.
\<close>

definition requiredJSONObject :: "json \<Rightarrow> string \<Rightarrow> string list \<Rightarrow> (string \<Rightarrow> json option) result" where
  "requiredJSONObject v name names =
     (case v of
        JObj kvs \<Rightarrow>
          let object = map_of (rev kvs) in
          if length (remdups (map fst kvs)) \<noteq> length names then Inl (Plain (name @ '' must contain every required field''))
          else if list_ex (\<lambda>f. object f = None \<or> object f = Some JNull) names
          then Inl (Plain (name @ '' field must be present and non-null''))
          else Inr object
      | JNull \<Rightarrow> if names = [] then Inr Map.empty else Inl (Plain (name @ '' must contain every required field''))
      | _ \<Rightarrow> Inl (Plain (''decode '' @ name @ '' fields'')))"

definition required :: "json option \<Rightarrow> string \<Rightarrow> string list \<Rightarrow> err" where
  "required v name names =
     (case v of
        None \<Rightarrow> Some (Plain (''decode '' @ name @ '' fields''))
      | Some x \<Rightarrow> (case requiredJSONObject x name names of Inl e \<Rightarrow> Some e | Inr _ \<Rightarrow> None))"

definition validateResultManifestFields :: "json \<Rightarrow> err" where
  "validateResultManifestFields v =
     (case requiredJSONObject v ''result manifest'' manifest_fields of
        Inl e \<Rightarrow> Some e
      | Inr members \<Rightarrow>
          first_err
            [required (members ''terminal'') ''result terminal'' terminal_fields,
             required (members ''rollout'') ''result rollout'' rollout_fields,
             required (members ''workspace'') ''result workspace'' workspace_fields,
             (case members ''parts'' of
                Some (JArr parts) \<Rightarrow> first_err (map (\<lambda>p. required (Some p) ''result part'' part_fields) parts)
              | _ \<Rightarrow> Some (Plain ''decode result manifest parts''))])"

definition DecodeResultManifest :: "string \<Rightarrow> ResultManifest result" where
  "DecodeResultManifest data =
     (if length data < 1 \<or> int (length data) > MaximumResultManifestBytes
      then Inl (Plain ''result manifest must contain from 1 through 65536 bytes'')
      else
        case json_parse data of
          None \<Rightarrow> Inl (Plain ''decode result manifest'')
        | Some v \<Rightarrow>
            (case decode_manifest v of
               None \<Rightarrow> Inl (Plain ''decode result manifest'')
             | Some manifest \<Rightarrow>
                 (case first_err [validateResultManifestFields v, ResultManifest_Validate manifest] of
                    Some e \<Rightarrow> Inl e
                  | None \<Rightarrow> Inr manifest)))"

section \<open>Package metadata\<close>

record ResultPackageMetadata =
  md_Manifest :: string
  md_ManifestDescriptor :: ResultPackagePartDescriptor

fun aggregate_loop :: "int \<Rightarrow> ResultPackagePartDescriptor list \<Rightarrow> int option" where
  "aggregate_loop total_bytes [] = Some total_bytes"
| "aggregate_loop total_bytes (part # rest) =
     (if rd_Size part > MaximumResultPackageBytes - total_bytes then None else aggregate_loop (total_bytes + rd_Size part) rest)"

definition DecodeManifest :: "ResultPackageMetadata \<Rightarrow> ResultManifest result" where
  "DecodeManifest m =
     guard_res (first_err
       [ResultPackagePartDescriptor_Validate (md_ManifestDescriptor m),
        fail_if (rd_Kind (md_ManifestDescriptor m) \<noteq> ResultPackagePartManifest)
          (Plain ''result package metadata descriptor must describe the manifest''),
        fail_if (int (length (md_Manifest m)) \<noteq> rd_Size (md_ManifestDescriptor m))
          (Plain ''result manifest bytes do not match their descriptor size''),
        fail_if (sha256_hex (md_Manifest m) \<noteq> rd_SHA256 (md_ManifestDescriptor m))
          (Plain ''result manifest bytes do not match their descriptor digest'')])
     (case DecodeResultManifest (md_Manifest m) of
        Inl e \<Rightarrow> Inl e
      | Inr manifest \<Rightarrow>
          if aggregate_loop (rd_Size (md_ManifestDescriptor m)) (elems (rm_Parts manifest)) = None
          then Inl (Plain ''result package exceeds its aggregate limit'')
          else Inr manifest)"

definition ResultPackageMetadata_Validate :: "ResultPackageMetadata \<Rightarrow> err" where
  "ResultPackageMetadata_Validate m = (case DecodeManifest m of Inl e \<Rightarrow> Some e | Inr _ \<Rightarrow> None)"

definition SameResultPackageMetadata :: "ResultPackageMetadata \<Rightarrow> ResultPackageMetadata \<Rightarrow> bool" where
  "SameResultPackageMetadata l r \<longleftrightarrow>
     md_ManifestDescriptor l = md_ManifestDescriptor r \<and> md_Manifest l = md_Manifest r"

section \<open>Messages\<close>

record BeginResultPackageParams =
  bp_AttemptID :: string
  bp_PackageID :: string
  bp_RetentionFloor :: nat
  bp_LeaseExpiresAt :: int
  bp_Metadata :: ResultPackageMetadata

definition BeginResultPackageParams_Validate :: "BeginResultPackageParams \<Rightarrow> err" where
  "BeginResultPackageParams_Validate p =
     first_err
       [wrap ''attemptId'' (ValidateID (bp_AttemptID p)),
        wrap ''packageId'' (ValidateID (bp_PackageID p)),
        fail_if (bp_LeaseExpiresAt p < 1) (Plain ''result package leaseExpiresAt must be positive''),
        fail_if (int (bp_RetentionFloor p) > MaxInt64) (Plain ''result package retentionFloor is out of range''),
        (case DecodeManifest (bp_Metadata p) of
           Inl e \<Rightarrow> Some e
         | Inr manifest \<Rightarrow>
             fail_if (rm_PackageID manifest \<noteq> bp_PackageID p) (Plain ''begin packageId does not match the result manifest''))]"

definition SameBeginResultPackageParams :: "BeginResultPackageParams \<Rightarrow> BeginResultPackageParams \<Rightarrow> bool" where
  "SameBeginResultPackageParams l r \<longleftrightarrow>
     bp_AttemptID l = bp_AttemptID r \<and> bp_PackageID l = bp_PackageID r \<and> bp_RetentionFloor l = bp_RetentionFloor r
     \<and> bp_LeaseExpiresAt l = bp_LeaseExpiresAt r \<and> SameResultPackageMetadata (bp_Metadata l) (bp_Metadata r)"

datatype ResultPackageBeginOutcome = ResultPackageReceiving | ResultPackageAlreadyAvailable | ResultPackageBegin_other string

record ResultPackagePartOffset =
  ro_Kind :: ResultPackagePartKind
  ro_NextOffset :: int

text \<open>\<^verbatim>\<open>maximum, _ := k.MaximumBytes()\<close>, where an unsupported kind gives zero.\<close>

definition maximum_bytes :: "ResultPackagePartKind \<Rightarrow> int" where
  "maximum_bytes k = (case MaximumBytes k of Inl _ \<Rightarrow> 0 | Inr n \<Rightarrow> n)"

definition ResultPackagePartOffset_Validate :: "ResultPackagePartOffset \<Rightarrow> err" where
  "ResultPackagePartOffset_Validate p =
     first_err
       [validatePayloadKind (ro_Kind p),
        fail_if (ro_NextOffset p < 0 \<or> ro_NextOffset p > maximum_bytes (ro_Kind p)) (Plain ''result package nextOffset is out of range'')]"

record BeginResultPackageResult =
  br_AttemptID :: string
  br_PackageID :: string
  br_RetentionOrdinal :: nat
  br_Outcome :: ResultPackageBeginOutcome
  br_Offsets :: "ResultPackagePartOffset list option"

fun offsets_loop :: "string \<Rightarrow> ResultPackagePartOffset list \<Rightarrow> err" where
  "offsets_loop previous [] = None"
| "offsets_loop previous (p # rest) =
     (case first_err
        [ResultPackagePartOffset_Validate p,
         fail_if (previous \<noteq> '''' \<and> part_kind_string (ro_Kind p) \<le> previous)
           (Plain ''result package offsets must be sorted and unique'')] of
        Some e \<Rightarrow> Some e
      | None \<Rightarrow> offsets_loop (part_kind_string (ro_Kind p)) rest)"

definition BeginResultPackageResult_Validate :: "BeginResultPackageResult \<Rightarrow> err" where
  "BeginResultPackageResult_Validate r =
     first_err
       [wrap ''attemptId'' (ValidateID (br_AttemptID r)),
        wrap ''packageId'' (ValidateID (br_PackageID r)),
        fail_if (br_Offsets r = None) (Plain ''result package offsets must be present''),
        fail_if (br_RetentionOrdinal r = 0 \<or> int (br_RetentionOrdinal r) > MaxInt64)
          (Plain ''result package retentionOrdinal is out of range''),
        (case br_Outcome r of
           ResultPackageReceiving \<Rightarrow> None
         | ResultPackageAlreadyAvailable \<Rightarrow>
             fail_if (elems (br_Offsets r) \<noteq> []) (Plain ''already available result package must not contain offsets'')
         | ResultPackageBegin_other s \<Rightarrow> Some (Plain ''unsupported result package begin outcome'')),
        fail_if (length (elems (br_Offsets r)) > MaximumResultPackagePayloadParts) (Plain ''result package has too many offsets''),
        offsets_loop '''' (elems (br_Offsets r))]"

definition ReadResultPackagePartParams_Validate :: "string \<Rightarrow> ResultPackagePartKind \<Rightarrow> int \<Rightarrow> int \<Rightarrow> err" where
  "ReadResultPackagePartParams_Validate packageID kind offs limit =
     first_err
       [wrap ''packageId'' (ValidateID packageID),
        validatePayloadKind kind,
        fail_if (offs < 0 \<or> offs \<ge> maximum_bytes kind \<or> limit < 1 \<or> limit > ResultPackageChunkBytes
                 \<or> limit > maximum_bytes kind - offs)
          (Plain ''result package part read has invalid bounds'')]"

definition part_chunk_out_of_bounds :: "ResultPackagePartKind \<Rightarrow> int \<Rightarrow> string \<Rightarrow> bool" where
  "part_chunk_out_of_bounds kind offs data \<longleftrightarrow>
     offs < 0 \<or> offs \<ge> maximum_bytes kind \<or> int (length data) < 1 \<or> int (length data) > ResultPackageChunkBytes
     \<or> int (length data) > maximum_bytes kind - offs"

definition ReadResultPackagePartResult_Validate ::
    "string \<Rightarrow> ResultPackagePartKind \<Rightarrow> int \<Rightarrow> string \<Rightarrow> int \<Rightarrow> err" where
  "ReadResultPackagePartResult_Validate packageID kind offs data nextOffset =
     first_err
       [wrap ''packageId'' (ValidateID packageID),
        validatePayloadKind kind,
        fail_if (part_chunk_out_of_bounds kind offs data \<or> nextOffset \<noteq> offs + int (length data))
          (Plain ''result package part read result has invalid bounds'')]"

record WriteResultPackagePartParams =
  wp_AttemptID :: string
  wp_PackageID :: string
  wp_Kind :: ResultPackagePartKind
  wp_Offset :: int
  wp_Data :: string

definition WriteResultPackagePartParams_Validate :: "WriteResultPackagePartParams \<Rightarrow> err" where
  "WriteResultPackagePartParams_Validate p =
     first_err
       [wrap ''attemptId'' (ValidateID (wp_AttemptID p)),
        wrap ''packageId'' (ValidateID (wp_PackageID p)),
        validatePayloadKind (wp_Kind p),
        fail_if (part_chunk_out_of_bounds (wp_Kind p) (wp_Offset p) (wp_Data p))
          (Plain ''result package part write has invalid bounds'')]"

definition SameWriteResultPackagePartParams :: "WriteResultPackagePartParams \<Rightarrow> WriteResultPackagePartParams \<Rightarrow> bool" where
  "SameWriteResultPackagePartParams l r \<longleftrightarrow>
     wp_AttemptID l = wp_AttemptID r \<and> wp_PackageID l = wp_PackageID r \<and> wp_Kind l = wp_Kind r
     \<and> wp_Offset l = wp_Offset r \<and> wp_Data l = wp_Data r"

definition WriteResultPackagePartResult_Validate :: "string \<Rightarrow> string \<Rightarrow> ResultPackagePartKind \<Rightarrow> int \<Rightarrow> err" where
  "WriteResultPackagePartResult_Validate attemptID packageID kind nextOffset =
     first_err
       [wrap ''attemptId'' (ValidateID attemptID),
        wrap ''packageId'' (ValidateID packageID),
        validatePayloadKind kind,
        fail_if (nextOffset < 1 \<or> nextOffset > maximum_bytes kind) (Plain ''result package part nextOffset is out of range'')]"

definition validateResultPackageControl :: "string \<Rightarrow> string \<Rightarrow> err" where
  "validateResultPackageControl attemptID packageID =
     first_err [wrap ''attemptId'' (ValidateID attemptID), wrap ''packageId'' (ValidateID packageID)]"

definition AcknowledgeResultPackageParams_Validate :: "string \<Rightarrow> nat \<Rightarrow> err" where
  "AcknowledgeResultPackageParams_Validate packageID seqno =
     first_err
       [wrap ''packageId'' (ValidateID packageID),
        fail_if (seqno = 0 \<or> int seqno > MaxInt64) (Plain ''result package sequence is outside the supported range'')]"

definition ReleaseResultPackageParams_Validate :: "string \<Rightarrow> nat \<Rightarrow> err" where
  "ReleaseResultPackageParams_Validate packageID seqno = AcknowledgeResultPackageParams_Validate packageID seqno"

end
