(* ===== verification/Result_Props.thy ===== *)
theory Result_Props
  imports ResultProtocol
begin

text \<open>
  The manifest's text and its strict decoder are inverse to each other on valid manifests. Every string
  of a valid manifest is made of characters that JSON copies unchanged, so the text denotes one object
  with the fields in order, each field occurs once, and each decoder returns what was printed.
\<close>

section \<open>The strings of a valid manifest\<close>

lemma plain_class:
  "\<forall>c \<in> set s. lower c \<or> digit c \<or> upper c \<or> c \<in> {CHR ''-'', CHR ''_'', CHR ''.''} \<Longrightarrow> plain s"
  unfolding plain_def list_all_iff
proof (rule ballI)
  fix c assume all: "\<forall>c \<in> set s. lower c \<or> digit c \<or> upper c \<or> c \<in> {CHR ''-'', CHR ''_'', CHR ''.''}" and "c \<in> set s"
  then consider "lower c \<or> digit c \<or> upper c" | "c \<in> {CHR ''-'', CHR ''_'', CHR ''.''}" by blast
  then show "32 \<le> byte c \<and> byte c < 128 \<and> c \<notin> set ''<>&'' \<and> c \<noteq> CHR 0x22 \<and> c \<noteq> CHR 0x5C"
  proof cases
    case 1
    then have b: "48 \<le> byte c \<and> byte c \<le> 57 \<or> 65 \<le> byte c \<and> byte c \<le> 90 \<or> 97 \<le> byte c \<and> byte c \<le> 122"
      by (auto simp: lower_def digit_def upper_def)
    have "byte x \<in> {60, 62, 38, 34, 92}" if "x \<in> {CHR ''<'', CHR ''>'', CHR ''&'', CHR 0x22, CHR 0x5C}" for x
      using that by (auto simp: byte_def)
    then have "c \<notin> {CHR ''<'', CHR ''>'', CHR ''&'', CHR 0x22, CHR 0x5C}" using b by fastforce
    then show ?thesis using b by auto
  next
    case 2
    then show ?thesis by (auto simp: byte_def)
  qed
qed

lemma plain_empty [simp]: "plain ''''"
  by (simp add: plain_def)

lemma plain_hex: "match_exact hexdigit n s \<Longrightarrow> plain s"
  by (rule plain_class) (auto simp: match_exact_def list_all_iff hexdigit_def lower_def)

lemma plain_ID:
  assumes "ValidateID v = None"
  shows "plain v"
proof (rule plain_class, rule ballI)
  fix c assume "c \<in> set v"
  then obtain k where k: "k < length v" "v ! k = c" by (auto simp: in_set_conv_nth)
  then have "uuid_char k c" using assms ValidateID_bytes [of v] by auto
  then show "lower c \<or> digit c \<or> upper c \<or> c \<in> {CHR ''-'', CHR ''_'', CHR ''.''}"
    using hex_class [of c] by (auto simp: uuid_char_def hexdigit_def lower_def split: if_splits)
qed

lemma plain_code: "ValidateFailureCode c = None \<Longrightarrow> plain c"
  by (rule plain_class) (cases c; auto simp: ValidateFailureCode_def failureCodePattern_def list_all_iff)

lemma plain_warning: "workspaceWarningPattern w \<Longrightarrow> plain w"
  by (rule plain_class) (cases w; auto simp: workspaceWarningPattern_def list_all_iff)

lemma plain_digest: "sha256DigestPattern h \<Longrightarrow> plain h"
  by (simp add: sha256DigestPattern_def plain_hex)

lemma plain_oid: "gitObjectIDPattern h \<Longrightarrow> plain h"
  using plain_hex by (auto simp: gitObjectIDPattern_def)

lemmas plain_intros = plain_ID plain_code plain_digest plain_oid

section \<open>One occurrence of every field\<close>

lemma occurrences_once:
  assumes "map fst kvs = names" "distinct names" "map_of kvs k = Some v"
  shows "occurrences names k [JObj kvs] = [v]"
proof -
  have d: "distinct (map fst kvs)" using assms(1,2) by simp
  have "field_of names k' = Some k \<longleftrightarrow> k' = k" if "(k', x) \<in> set kvs" for k' x
    using that assms(1) by (force simp: field_of_def)
  then have "filter (\<lambda>(k', x). field_of names k' = Some k) kvs = filter (\<lambda>(k', x). k' = k) kvs"
    by (intro filter_cong) auto
  also have "\<dots> = [(k, v)]"
    using d assms(3)
  proof (induction kvs)
    case (Cons a rest)
    then show ?case
      by (cases a) (auto simp: filter_empty_conv image_iff split: if_splits dest: map_of_SomeD)
  qed simp
  finally show ?thesis by (simp add: occurrences_def)
qed

lemma occurrences_all:
  assumes "map fst kvs = names" "distinct names"
  shows "map (\<lambda>k. occurrences names k [JObj kvs]) names = map (\<lambda>(k, v). [v]) kvs"
proof -
  have "occurrences names k [JObj kvs] = [v]" if "(k, v) \<in> set kvs" for k v
    using occurrences_once [OF assms] that assms by (metis map_of_is_SomeI)
  then have "map (\<lambda>k. occurrences names k [JObj kvs]) (map fst kvs) = map (\<lambda>(k, v). [v]) kvs" by auto
  then show ?thesis using assms(1) by simp
qed

lemma struct_ok_fields: "map fst kvs = names \<Longrightarrow> struct_ok names [JObj kvs]"
  by (force simp: struct_ok_def list_all_iff field_of_def)

lemma required_fields:
  assumes "map fst kvs = names" "distinct names" "\<forall>(k, v) \<in> set kvs. v \<noteq> JNull"
  shows "requiredJSONObject (JObj kvs) name names = Inr (map_of kvs)"
proof -
  have d: "distinct (map fst kvs)" using assms(1,2) by simp
  have m: "map_of (rev kvs) = map_of kvs" using map_of_inject_set [of "rev kvs" kvs] d by (simp add: rev_map [symmetric])
  have "map_of kvs f \<noteq> None \<and> map_of kvs f \<noteq> Some JNull" if "f \<in> set names" for f
    using that assms(1,3) by (auto simp: map_of_eq_None_iff dest: map_of_SomeD)
  then have "\<not> list_ex (\<lambda>f. map_of kvs f = None \<or> map_of kvs f = Some JNull) names" by (auto simp: list_ex_iff)
  moreover have "remdups (map fst kvs) = map fst kvs" using d by (simp add: distinct_remdups_id)
  ultimately show ?thesis using assms(1) by (simp add: requiredJSONObject_def m Let_def)
qed

lemma names_distinct:
  "distinct manifest_fields" "distinct terminal_fields" "distinct rollout_fields" "distinct workspace_fields" "distinct part_fields"
  by (simp_all add: manifest_fields_def terminal_fields_def rollout_fields_def workspace_fields_def part_fields_def)

section \<open>Components\<close>

lemma fill_printed: "(\<And>x old. x \<in> set xs \<Longrightarrow> f old (g x) = Some x) \<Longrightarrow> fill f zero [] (map g xs) = Some xs"
  by (induction xs) auto

lemma slice_printed:
  assumes "\<And>x old. x \<in> set xs \<Longrightarrow> f old (g x) = Some x"
  shows "slice f zero (None, []) [JArr (map g xs)] = Some (Some xs)"
proof (cases xs)
  case (Cons y ys)
  have "fill f zero [] (map g (y # ys)) = Some (y # ys)" by (rule fill_printed) (use assms Cons in auto)
  then show ?thesis by (simp add: Cons)
qed simp

definition part_value :: "ResultPackagePartDescriptor \<Rightarrow> json" where
  "part_value d = JObj [(''kind'', JStr (part_kind_string (rd_Kind d))), (''size'', JNum (dec_int (rd_Size d))), (''sha256'', JStr (rd_SHA256 d))]"

definition terminal_value :: "ResultTerminal \<Rightarrow> json" where
  "terminal_value t = JObj [(''outcome'', JStr (terminal_string (rt_Outcome t))), (''failureCode'', JStr (rt_FailureCode t))]"

definition rollout_value :: "ResultRolloutComponent \<Rightarrow> json" where
  "rollout_value r =
     JObj [(''status'', JStr (rollout_string (rr_Status r))), (''rawSize'', JNum (dec_int (rr_RawSize r))),
       (''rawSha256'', JStr (rr_RawSHA256 r)), (''failureCode'', JStr (rr_FailureCode r))]"

definition strings_value :: "string list option \<Rightarrow> json" where
  "strings_value xs = JArr (map JStr (elems xs))"

definition workspace_value :: "ResultWorkspaceComponent \<Rightarrow> json" where
  "workspace_value w = JObj
     [(''status'', JStr (result_workspace_string (rw_Status w))), (''workspaceId'', JStr (rw_WorkspaceID w)),
      (''sourceDeviceId'', JStr (rw_SourceDeviceID w)), (''targetDeviceId'', JStr (rw_TargetDeviceID w)),
      (''objectFormat'', JStr (rw_ObjectFormat w)), (''baseHeadOid'', JStr (rw_BaseHeadOID w)),
      (''baseManifestHash'', JStr (rw_BaseManifestHash w)), (''baseSnapshotHash'', JStr (rw_BaseSnapshotHash w)),
      (''baseClean'', JBool (rw_BaseClean w)), (''resultHeadOid'', JStr (rw_ResultHeadOID w)),
      (''resultSnapshotHash'', JStr (rw_ResultSnapshotHash w)), (''resultClean'', JBool (rw_ResultClean w)),
      (''baseWarnings'', strings_value (rw_BaseWarnings w)), (''resultWarnings'', strings_value (rw_ResultWarnings w)),
      (''failureCode'', JStr (rw_FailureCode w))]"

text \<open>Names of fields are plain, so an object of plain members denotes its value.\<close>

lemma field_plain [simp]:
  "k \<in> set (manifest_fields @ terminal_fields @ rollout_fields @ workspace_fields @ part_fields) \<Longrightarrow> plain k"
  by (auto simp: manifest_fields_def terminal_fields_def rollout_fields_def workspace_fields_def part_fields_def plain_def byte_def)

lemma denotes_members_Nil [simp]: "denotes_members [] []"
  by (simp add: denotes_members_def)

lemma denotes_members_Cons [simp]:
  "denotes_members ((k, t) # ts) ((k', v) # vs) \<longleftrightarrow> k' = k \<and> plain k \<and> denotes t v \<and> denotes_members ts vs"
  by (auto simp: denotes_members_def)

lemmas field_names = manifest_fields_def terminal_fields_def rollout_fields_def workspace_fields_def part_fields_def

lemma part_denotes:
  assumes "ResultPackagePartDescriptor_Validate d = None"
  shows "denotes (part_json d) (part_value d)"
proof -
  have "plain (rd_SHA256 d)" "plain (part_kind_string (rd_Kind d))"
    using assms plain_digest
    by (cases "rd_Kind d"; auto simp: ResultPackagePartDescriptor_Validate_def plain_def byte_def)+
  then show ?thesis
    unfolding part_json_def part_value_def by (intro denotes_object) (simp add: denotes_string denotes_int field_names)
qed

lemma part_decodes:
  assumes "ResultPackagePartDescriptor_Validate d = None"
  shows "decode_part old (part_value d) = Some d"
proof -
  have k: "part_kind_of_string (part_kind_string (rd_Kind d)) = rd_Kind d"
    using assms by (cases "rd_Kind d") (auto simp: ResultPackagePartDescriptor_Validate_def part_kind_of_string_def)
  have "0 \<le> rd_Size d \<and> rd_Size d < 2 ^ 63"
    using assms by (cases "rd_Kind d") (auto simp: ResultPackagePartDescriptor_Validate_def result_limits)
  then have n: "ParseInt (dec_int (rd_Size d)) = Some (rd_Size d)" by (intro ParseInt_dec) auto
  have names: "map fst [(''kind'', JStr (part_kind_string (rd_Kind d))), (''size'', JNum (dec_int (rd_Size d))), (''sha256'', JStr (rd_SHA256 d))] = part_fields"
    by (simp add: part_fields_def)
  show ?thesis
    unfolding decode_part_def part_value_def
    using struct_ok_fields [OF names] occurrences_once [OF names names_distinct(5)]
    by (simp add: k n as_string_def as_int64_def)
qed

lemma terminal_denotes:
  assumes "ResultTerminal_Validate t = None"
  shows "denotes (terminal_json t) (terminal_value t)"
proof -
  have "plain (rt_FailureCode t)" "plain (terminal_string (rt_Outcome t))"
    using assms plain_code by (cases "rt_Outcome t"; auto simp: ResultTerminal_Validate_def plain_def byte_def)+
  then show ?thesis
    unfolding terminal_json_def terminal_value_def by (intro denotes_object) (simp add: denotes_string field_names)
qed

lemma terminal_decodes:
  assumes "ResultTerminal_Validate t = None"
  shows "decode_terminal [terminal_value t] = Some t"
proof -
  have k: "terminal_of_string (terminal_string (rt_Outcome t)) = rt_Outcome t"
    using assms by (cases "rt_Outcome t") (auto simp: ResultTerminal_Validate_def terminal_of_string_def)
  have names: "map fst [(''outcome'', JStr (terminal_string (rt_Outcome t))), (''failureCode'', JStr (rt_FailureCode t))] = terminal_fields"
    by (simp add: terminal_fields_def)
  show ?thesis
    unfolding decode_terminal_def terminal_value_def decode_string_def
    using struct_ok_fields [OF names] occurrences_once [OF names names_distinct(2)] by (simp add: k as_string_def)
qed

lemma rollout_denotes:
  assumes "ResultRolloutComponent_Validate r = None"
  shows "denotes (rollout_json r) (rollout_value r)"
proof -
  have "plain (rr_FailureCode r)" "plain (rr_RawSHA256 r)" "plain (rollout_string (rr_Status r))"
    using assms plain_code plain_digest by (cases "rr_Status r"; auto simp: ResultRolloutComponent_Validate_def plain_def byte_def)+
  then show ?thesis
    unfolding rollout_json_def rollout_value_def by (intro denotes_object) (simp add: denotes_string denotes_int field_names)
qed

lemma rollout_decodes:
  assumes "ResultRolloutComponent_Validate r = None"
  shows "decode_rollout [rollout_value r] = Some r"
proof -
  have k: "rollout_of_string (rollout_string (rr_Status r)) = rr_Status r"
    using assms by (cases "rr_Status r") (auto simp: ResultRolloutComponent_Validate_def rollout_of_string_def)
  have "0 \<le> rr_RawSize r \<and> rr_RawSize r < 2 ^ 63"
    using assms by (cases "rr_Status r") (auto simp: ResultRolloutComponent_Validate_def result_limits)
  then have n: "ParseInt (dec_int (rr_RawSize r)) = Some (rr_RawSize r)" by (intro ParseInt_dec) auto
  have names: "map fst [(''status'', JStr (rollout_string (rr_Status r))), (''rawSize'', JNum (dec_int (rr_RawSize r))),
       (''rawSha256'', JStr (rr_RawSHA256 r)), (''failureCode'', JStr (rr_FailureCode r))] = rollout_fields"
    by (simp add: rollout_fields_def)
  show ?thesis
    unfolding decode_rollout_def rollout_value_def decode_string_def decode_int_def
    using struct_ok_fields [OF names] occurrences_once [OF names names_distinct(3)] by (simp add: k n as_string_def as_int64_def)
qed

text \<open>A valid workspace component has both lists of warnings, and its strings are plain.\<close>

lemma workspace_plain:
  assumes "ResultWorkspaceComponent_Validate w = None"
  shows "rw_BaseWarnings w \<noteq> None" "rw_ResultWarnings w \<noteq> None"
    "\<forall>x \<in> set (elems (rw_BaseWarnings w)) \<union> set (elems (rw_ResultWarnings w)). plain x"
    "list_all plain [result_workspace_string (rw_Status w), rw_WorkspaceID w, rw_SourceDeviceID w, rw_TargetDeviceID w, rw_ObjectFormat w,
       rw_BaseHeadOID w, rw_BaseManifestHash w, rw_BaseSnapshotHash w, rw_ResultHeadOID w, rw_ResultSnapshotHash w, rw_FailureCode w]"
    "result_workspace_of_string (result_workspace_string (rw_Status w)) = rw_Status w"
proof -
  show lists: "rw_BaseWarnings w \<noteq> None" "rw_ResultWarnings w \<noteq> None"
    using assms by (auto simp: ResultWorkspaceComponent_Validate_def split: if_splits)
  have st: "\<not> (\<exists>x. rw_Status w = ResultWorkspace_other x)"
    using assms by (auto simp: ResultWorkspaceComponent_Validate_def split: if_splits)
  then show "result_workspace_of_string (result_workspace_string (rw_Status w)) = rw_Status w"
    by (cases "rw_Status w") (auto simp: result_workspace_of_string_def)
  have s: "plain (result_workspace_string (rw_Status w))" using st by (cases "rw_Status w") (auto simp: plain_def byte_def)
  consider "rw_Status w = ResultWorkspaceNotManaged" "workspace_stateless w"
    | "rw_Status w \<noteq> ResultWorkspaceNotManaged" "ValidateID (rw_WorkspaceID w) = None" "ValidateID (rw_SourceDeviceID w) = None"
      "ValidateID (rw_TargetDeviceID w) = None" "validateResultGitBase w = None"
      "ValidateWorkspaceWarnings (elems (rw_BaseWarnings w)) = None" "ValidateWorkspaceSourceWarnings (elems (rw_ResultWarnings w)) = None"
      "validateResultGitResult w = None \<and> rw_FailureCode w = ''''
        \<or> rw_ResultHeadOID w = '''' \<and> rw_ResultSnapshotHash w = '''' \<and> ValidateFailureCode (rw_FailureCode w) = None"
    using assms st lists by (cases "rw_Status w") (auto simp: ResultWorkspaceComponent_Validate_def)
  then have "(\<forall>x \<in> set (elems (rw_BaseWarnings w)) \<union> set (elems (rw_ResultWarnings w)). plain x)
     \<and> list_all plain [rw_WorkspaceID w, rw_SourceDeviceID w, rw_TargetDeviceID w, rw_ObjectFormat w,
       rw_BaseHeadOID w, rw_BaseManifestHash w, rw_BaseSnapshotHash w, rw_ResultHeadOID w, rw_ResultSnapshotHash w, rw_FailureCode w]"
  proof cases
    case 1
    then show ?thesis by (simp add: workspace_stateless_def)
  next
    case 2
    have "plain (rw_ObjectFormat w)"
      using 2(5) by (auto simp: validateResultGitBase_def plain_def byte_def split: if_splits)
    moreover have "plain (rw_ResultHeadOID w) \<and> plain (rw_ResultSnapshotHash w) \<and> plain (rw_FailureCode w)"
      using 2(8) plain_oid plain_digest plain_code by (auto simp: validateResultGitResult_def)
    moreover have "\<forall>x \<in> set (elems (rw_BaseWarnings w)) \<union> set (elems (rw_ResultWarnings w)). plain x"
      using 2(6,7) plain_warning by (auto simp: ValidateWorkspaceWarnings_iff ValidateWorkspaceSourceWarnings_def)
    ultimately show ?thesis
      using 2 plain_ID plain_oid plain_digest by (simp add: validateResultGitBase_def)
  qed
  then show "\<forall>x \<in> set (elems (rw_BaseWarnings w)) \<union> set (elems (rw_ResultWarnings w)). plain x"
    "list_all plain [result_workspace_string (rw_Status w), rw_WorkspaceID w, rw_SourceDeviceID w, rw_TargetDeviceID w, rw_ObjectFormat w,
       rw_BaseHeadOID w, rw_BaseManifestHash w, rw_BaseSnapshotHash w, rw_ResultHeadOID w, rw_ResultSnapshotHash w, rw_FailureCode w]"
    using s by auto
qed

lemma strings_denote:
  assumes "xs \<noteq> None" "\<forall>x \<in> set (elems xs). plain x"
  shows "denotes (json_slice json_string xs) (strings_value xs)"
proof -
  obtain ys where ys: "xs = Some ys" using assms(1) by auto
  have "list_all2 denotes (map json_string ys) (map JStr ys)"
    using assms(2) by (auto simp: list_all2_conv_all_nth ys elems_def denotes_string)
  then show ?thesis using denotes_list by (simp add: json_slice_def strings_value_def ys elems_def)
qed

lemma workspace_denotes:
  assumes "ResultWorkspaceComponent_Validate w = None"
  shows "denotes (result_workspace_json w) (workspace_value w)"
  unfolding result_workspace_json_def workspace_value_def
  using workspace_plain [OF assms]
  by (intro denotes_object) (simp add: denotes_string denotes_bool strings_denote field_names)

lemma workspace_decodes:
  assumes "ResultWorkspaceComponent_Validate w = None"
  shows "decode_workspace [workspace_value w] = Some w"
proof -
  note p = workspace_plain [OF assms]
  obtain kvs where kvs: "workspace_value w = JObj kvs" "map fst kvs = workspace_fields"
    by (simp add: workspace_value_def workspace_fields_def)
  define occ where "occ = (\<lambda>k. occurrences workspace_fields k [workspace_value w])"
  have "map occ workspace_fields = map (\<lambda>(k, v). [v]) kvs"
    using occurrences_all [OF kvs(2) names_distinct(4)] by (simp add: occ_def kvs(1))
  moreover have "kvs = (case workspace_value w of JObj xs \<Rightarrow> xs)" using kvs(1) by simp
  ultimately have at: "map occ workspace_fields = map (\<lambda>(k, v). [v]) (case workspace_value w of JObj xs \<Rightarrow> xs)" by simp
  note at = at [unfolded workspace_fields_def workspace_value_def, simplified]
  have o: "occurrences workspace_fields k [workspace_value w] = occ k" for k by (simp add: occ_def)
  obtain bw rw where lists: "rw_BaseWarnings w = Some bw" "rw_ResultWarnings w = Some rw" using p(1,2) by auto
  have sl: "slice (\<lambda>old v. if v = JNull then Some old else as_string v) '''' (None, []) [JArr (map JStr xs)] = Some (Some xs)" for xs
    by (rule slice_printed) (simp add: as_string_def)
  have "struct_ok workspace_fields [workspace_value w]" unfolding kvs(1) by (rule struct_ok_fields [OF kvs(2)])
  then show ?thesis
    unfolding decode_workspace_def decode_string_def decode_bool_def decode_strings_def Let_def o
    by (simp add: at as_string_def as_bool_def strings_value_def lists elems_def sl p(5) del: slice.simps)
qed

section \<open>The whole manifest\<close>

definition manifest_value :: "ResultManifest \<Rightarrow> json" where
  "manifest_value m = JObj
     [(''version'', JNum (dec_int (rm_Version m))), (''packageId'', JStr (rm_PackageID m)),
      (''controllerId'', JStr (rm_ControllerID m)), (''treeId'', JStr (rm_TreeID m)),
      (''sourceAgentId'', JStr (rm_SourceAgentID m)), (''sourceDeviceId'', JStr (rm_SourceDeviceID m)),
      (''managedThreadId'', JStr (rm_ManagedThreadID m)), (''turnId'', JStr (rm_TurnID m)),
      (''lifecycleRevision'', JNum (dec_nat (rm_LifecycleRevision m))), (''terminal'', terminal_value (rm_Terminal m)),
      (''capturedAt'', JNum (dec_int (rm_CapturedAt m))), (''rollout'', rollout_value (rm_Rollout m)),
      (''workspace'', workspace_value (rm_Workspace m)), (''parts'', JArr (map part_value (elems (rm_Parts m))))]"

lemma parts_loop_valid: "parts_loop prev n ps = None \<Longrightarrow> p \<in> set ps \<Longrightarrow> ResultPackagePartDescriptor_Validate p = None"
  by (induction prev n ps rule: parts_loop.induct) (auto split: option.splits)

lemma manifest_valid:
  assumes "ResultManifest_Validate m = None"
  shows "rm_Version m = 2" "ValidateID (rm_PackageID m) = None" "ValidateID (rm_ControllerID m) = None" "ValidateID (rm_TreeID m) = None"
    "ValidateID (rm_SourceAgentID m) = None" "ValidateID (rm_SourceDeviceID m) = None" "ValidateID (rm_ManagedThreadID m) = None"
    "ValidateID (rm_TurnID m) = None" "0 < rm_LifecycleRevision m" "int (rm_LifecycleRevision m) \<le> MaxInt64" "0 \<le> rm_CapturedAt m"
    "ResultTerminal_Validate (rm_Terminal m) = None" "ResultRolloutComponent_Validate (rm_Rollout m) = None"
    "ResultWorkspaceComponent_Validate (rm_Workspace m) = None" "rm_Parts m \<noteq> None"
    "parts_loop '''' 0 (elems (rm_Parts m)) = None"
  using assms
  by (auto simp: ResultManifest_Validate_def ResultManifestVersion_def validateParts_def Let_def elems_def split: option.splits)

lemma manifest_denotes:
  assumes "ResultManifest_Validate m = None"
  shows "denotes (result_manifest_json m) (manifest_value m)"
proof -
  note v = manifest_valid [OF assms]
  have "list_all2 denotes (map part_json (elems (rm_Parts m))) (map part_value (elems (rm_Parts m)))"
    using parts_loop_valid [OF v(16)] part_denotes by (auto simp: list_all2_conv_all_nth)
  then have "denotes (json_slice part_json (rm_Parts m)) (JArr (map part_value (elems (rm_Parts m))))"
    using v(15) denotes_list by (auto simp: json_slice_def elems_def)
  moreover have "denotes (dec_nat (rm_LifecycleRevision m)) (JNum (dec_nat (rm_LifecycleRevision m)))"
    by (rule denotes_number [of _ "rm_LifecycleRevision m"]) simp
  ultimately show ?thesis
    unfolding result_manifest_json_def manifest_value_def
    using v plain_ID
    by (intro denotes_object)
      (simp add: denotes_string denotes_int terminal_denotes rollout_denotes workspace_denotes field_names)
qed

lemma manifest_decodes:
  assumes valid: "ResultManifest_Validate m = None" and cap: "rm_CapturedAt m \<le> MaxInt64"
  shows "decode_manifest (manifest_value m) = Some m"
proof -
  note v = manifest_valid [OF valid]
  obtain kvs where kvs: "manifest_value m = JObj kvs" "map fst kvs = manifest_fields"
    by (simp add: manifest_value_def manifest_fields_def)
  define occ where "occ = (\<lambda>k. occurrences manifest_fields k [manifest_value m])"
  have "map occ manifest_fields = map (\<lambda>(k, v). [v]) kvs"
    using occurrences_all [OF kvs(2) names_distinct(1)] by (simp add: occ_def kvs(1))
  moreover have "kvs = (case manifest_value m of JObj xs \<Rightarrow> xs)" using kvs(1) by simp
  ultimately have at: "map occ manifest_fields = map (\<lambda>(k, v). [v]) (case manifest_value m of JObj xs \<Rightarrow> xs)" by simp
  note at = at [unfolded manifest_fields_def manifest_value_def, simplified]
  have o: "occurrences manifest_fields k [manifest_value m] = occ k" for k by (simp add: occ_def)
  have n: "ParseInt (dec_int (rm_Version m)) = Some (rm_Version m)" "ParseInt (dec_int (rm_CapturedAt m)) = Some (rm_CapturedAt m)"
      "ParseUint (dec_nat (rm_LifecycleRevision m)) = Some (rm_LifecycleRevision m)"
    using v(1,10,11) cap by (auto intro!: ParseInt_dec ParseUint_dec simp: MaxInt64_def)
  obtain ps where ps: "rm_Parts m = Some ps" using v(15) by auto
  have "slice decode_part zero_part (None, []) [JArr (map part_value ps)] = Some (Some ps)"
    using parts_loop_valid [OF v(16)] ps by (intro slice_printed part_decodes) (simp add: elems_def)
  moreover have "struct_ok manifest_fields [manifest_value m]" unfolding kvs(1) by (rule struct_ok_fields [OF kvs(2)])
  ultimately show ?thesis
    unfolding decode_manifest_def decode_string_def decode_int_def Let_def o
    by (simp add: at as_string_def as_int64_def as_uint64_def n ps elems_def
        terminal_decodes [OF v(12)] rollout_decodes [OF v(13)] workspace_decodes [OF v(14)] del: slice.simps)
qed

lemma manifest_fields_present:
  assumes "ResultManifest_Validate m = None"
  shows "validateResultManifestFields (manifest_value m) = None"
proof -
  note v = manifest_valid [OF assms]
  have part: "requiredJSONObject (part_value p) name part_fields = Inr (map_of (case part_value p of JObj xs \<Rightarrow> xs))" for p name
    unfolding part_value_def by (simp only: json.case) (rule required_fields, simp_all add: part_fields_def)
  have ter: "requiredJSONObject (terminal_value t) name terminal_fields = Inr (map_of (case terminal_value t of JObj xs \<Rightarrow> xs))" for t name
    unfolding terminal_value_def by (simp only: json.case) (rule required_fields, simp_all add: terminal_fields_def)
  have rol: "requiredJSONObject (rollout_value t) name rollout_fields = Inr (map_of (case rollout_value t of JObj xs \<Rightarrow> xs))" for t name
    unfolding rollout_value_def by (simp only: json.case) (rule required_fields, simp_all add: rollout_fields_def)
  have wsp: "requiredJSONObject (workspace_value t) name workspace_fields = Inr (map_of (case workspace_value t of JObj xs \<Rightarrow> xs))" for t name
    unfolding workspace_value_def
    by (simp only: json.case) (rule required_fields, simp_all add: workspace_fields_def strings_value_def)
  have man: "requiredJSONObject (manifest_value m) name manifest_fields = Inr (map_of (case manifest_value m of JObj xs \<Rightarrow> xs))" for name
    unfolding manifest_value_def
    by (simp only: json.case) (rule required_fields,
      simp_all add: manifest_fields_def terminal_value_def rollout_value_def workspace_value_def)
  show ?thesis
    unfolding validateResultManifestFields_def man
    by (simp add: manifest_value_def required_def ter rol wsp part list_all_iff)
qed

lemma DecodeResultManifest_printed:
  assumes "ResultManifest_Validate m = None" "rm_CapturedAt m \<le> MaxInt64"
    and "int (length (result_manifest_json m @ [CHR 0x0A])) \<le> MaximumResultManifestBytes"
  shows "DecodeResultManifest (result_manifest_json m @ [CHR 0x0A]) = Inr m"
  using assms json_parse_denoted [OF manifest_denotes [OF assms(1)]] manifest_decodes [OF assms(1,2)] manifest_fields_present [OF assms(1)]
  by (simp add: DecodeResultManifest_def first_err.simps)

lemma aggregate_fits:
  "parts_loop prev n ps = None \<Longrightarrow> k \<le> MaximumResultManifestBytes \<Longrightarrow> aggregate_loop (k + n) ps \<noteq> None"
proof (induction prev n ps rule: parts_loop.induct)
  case (2 prev n p ps)
  have ok: "rd_Size p \<le> MaximumResultPackageBytes - MaximumResultManifestBytes - n" "parts_loop (part_kind_string (rd_Kind p)) (n + rd_Size p) ps = None"
    using 2(2) by (auto split: option.splits)
  have "aggregate_loop (k + (n + rd_Size p)) ps \<noteq> None" using 2(1) ok(2) 2(2,3) by (auto split: option.splits)
  then show ?case using ok(1) 2(3) by (simp add: add.assoc)
qed simp

lemma guard_passes: "e = None \<Longrightarrow> guard_res e x = x"
  by (simp add: guard_res_def)

text \<open>
  C34. Manifests round-trip. When a manifest, whose capture time fits its 64-bit field, is encoded, the
  strict decoder of package metadata accepts the text with its descriptor, checking size, digest, required
  fields and the aggregate limit, and returns that very manifest; so two manifests with one text are equal.
\<close>

theorem manifest_roundtrip:
  assumes enc: "EncodeResultManifest m = Inr (text, d)" and cap: "rm_CapturedAt m \<le> MaxInt64"
  shows "DecodeManifest \<lparr>md_Manifest = text, md_ManifestDescriptor = d\<rparr> = Inr m
    \<and> (EncodeResultManifest m' = Inr (text, d') \<and> rm_CapturedAt m' \<le> MaxInt64 \<longrightarrow> m' = m)"
proof -
  have e: "ResultManifest_Validate m = None" "text = result_manifest_json m @ [CHR 0x0A]" "int (length text) \<le> MaximumResultManifestBytes"
      "d = \<lparr>rd_Kind = ResultPackagePartManifest, rd_Size = int (length text), rd_SHA256 = sha256_hex text\<rparr>"
    if "EncodeResultManifest m = Inr (text, d)" for m d
    using that by (auto simp: EncodeResultManifest_def Let_def split: option.splits if_splits)
  have dec: "DecodeResultManifest text = Inr m" if "EncodeResultManifest m = Inr (text, d)" "rm_CapturedAt m \<le> MaxInt64" for m d
    using DecodeResultManifest_printed [OF e(1) [OF that(1)] that(2)] e(2,3) [OF that(1)] by simp
  note e = e [OF enc]
  have pos: "1 \<le> int (length text)" "text \<noteq> []" using e(2) by simp_all
  have "aggregate_loop (int (length text)) (elems (rm_Parts m)) \<noteq> None"
    using aggregate_fits [OF manifest_valid(16) [OF e(1)] e(3)] by simp
  then have "DecodeManifest \<lparr>md_Manifest = text, md_ManifestDescriptor = d\<rparr> = Inr m"
    using dec [OF enc cap] e(3,4) pos unfolding DecodeManifest_def
    by (subst guard_passes) (simp_all add: ResultPackagePartDescriptor_Validate_def sha256_hex_pattern)
  then show ?thesis using dec [OF enc cap] dec by auto
qed

definition demo_result :: ResultManifest where
  "demo_result = \<lparr>rm_Version = 2, rm_PackageID = uid CHR ''9'', rm_ControllerID = uid CHR ''a'', rm_TreeID = uid CHR ''1'',
     rm_SourceAgentID = uid CHR ''3'', rm_SourceDeviceID = uid CHR ''d'', rm_ManagedThreadID = uid CHR ''7'', rm_TurnID = uid CHR ''8'',
     rm_LifecycleRevision = 12, rm_Terminal = \<lparr>rt_Outcome = ResultTerminalFailed, rt_FailureCode = ''turn_failed''\<rparr>, rm_CapturedAt = 1700000000,
     rm_Rollout = \<lparr>rr_Status = ResultRolloutCaptureFailed, rr_RawSize = 0, rr_RawSHA256 = '''', rr_FailureCode = ''rollout_missing''\<rparr>,
     rm_Workspace = \<lparr>rw_Status = ResultWorkspaceNotManaged, rw_WorkspaceID = '''', rw_SourceDeviceID = '''', rw_TargetDeviceID = '''',
       rw_ObjectFormat = '''', rw_BaseHeadOID = '''', rw_BaseManifestHash = '''', rw_BaseSnapshotHash = '''', rw_BaseClean = False,
       rw_ResultHeadOID = '''', rw_ResultSnapshotHash = '''', rw_ResultClean = False, rw_BaseWarnings = Some [], rw_ResultWarnings = Some [],
       rw_FailureCode = ''''\<rparr>, rm_Parts = Some []\<rparr>"

lemma demo_result_valid: "ResultManifest_Validate demo_result = None"
  by (simp add: ResultManifest_Validate_def demo_result_def ResultManifestVersion_def MaxInt64_def ResultTerminal_Validate_def
      ValidateFailureCode_def MaximumFailureCodeBytes_def failureCodePattern_def lower_def digit_def byte_def ResultRolloutComponent_Validate_def
      ResultWorkspaceComponent_Validate_def workspace_stateless_def elems_def validateParts_def Let_def has_part_def)

theorem manifest_roundtrip_witness:
  "\<exists>text d. EncodeResultManifest demo_result = Inr (text, d) \<and> DecodeManifest \<lparr>md_Manifest = text, md_ManifestDescriptor = d\<rparr> = Inr demo_result"
proof -
  have str: "length (json_string s) = length s + 2" if "plain s" for s using that by (simp add: json_string_def plain_body)

  have "length (result_manifest_json demo_result) \<le> 60000"
    using plain_ID [OF uid_valid]
    by (simp add: result_manifest_json_def demo_result_def terminal_json_def rollout_json_def result_workspace_json_def json_object_def
        json_slice_def json_list_def json_bool_def str plain_def byte_def hex_alphabet_def dec_int_def dec_nat.simps)
  then have "\<exists>text d. EncodeResultManifest demo_result = Inr (text, d)"
    by (simp add: EncodeResultManifest_def demo_result_valid Let_def MaximumResultManifestBytes_def)
  moreover have "rm_CapturedAt demo_result \<le> MaxInt64" by (simp add: demo_result_def MaxInt64_def)
  ultimately show ?thesis using manifest_roundtrip by blast
qed

end
