(* ===== verification/Peer.thy ===== *)
theory Peer
  imports BrokerDb ResultProtocol
begin

text \<open>
  The database of a peer, the machine that runs workers (\<^verbatim>\<open>internal/store/peer_schema.go\<close>): prepared
  workspaces, worker reservations, operation receipts, turn-start intents, changes artifacts and the
  result outbox. A row is the Go struct that is scanned from it, with the checks that the scan makes.
  Paths are those of a Unix peer.
\<close>

definition maximumWorkerTaskName :: nat where "maximumWorkerTaskName = 128"
definition maximumWorkerFailureCode :: nat where "maximumWorkerFailureCode = 64"
definition maximumWorkspacePath :: nat where "maximumWorkspacePath = 32 * 1024"

definition validateFailureCode :: "string \<Rightarrow> err" where
  "validateFailureCode code =
     fail_if (length code > maximumWorkerFailureCode \<or> list_ex (\<lambda>c. byte c \<in> {13, 10, 0}) code)
       (Plain ''failureCode must contain at most 64 safe bytes'')"

text \<open>A string that \<^verbatim>\<open>hex.DecodeString\<close> decodes to the given number of bytes and that is in lower case.\<close>

definition lower_hex :: "nat \<Rightarrow> string \<Rightarrow> bool" where
  "lower_hex n s \<longleftrightarrow> match_exact hexdigit (2 * n) s"

section \<open>Worker reservations\<close>

datatype WorkerStatus =
    WorkerReserved | WorkerPending | WorkerStarting | WorkerPreflight | WorkerReady | WorkerRunning
  | WorkerFinalizing | WorkerIdle | WorkerInterrupted | WorkerFailed | WorkerStatus_other string

abbreviation no_status :: WorkerStatus where "no_status \<equiv> WorkerStatus_other ''''"

fun WorkerStatus_valid :: "WorkerStatus \<Rightarrow> bool" where
  "WorkerStatus_valid (WorkerStatus_other s) = False"
| "WorkerStatus_valid _ = True"

definition finalTarget :: "WorkerStatus \<Rightarrow> bool" where
  "finalTarget s \<longleftrightarrow> s \<in> {WorkerIdle, WorkerInterrupted, WorkerFailed}"

record WorkerKey =
  wk_ControllerID :: string
  wk_TreeID :: string
  wk_AgentID :: string

definition WorkerKey_Validate :: "WorkerKey \<Rightarrow> err" where
  "WorkerKey_Validate k =
     first_err [wrap ''controllerId'' (ValidateID (wk_ControllerID k)), wrap ''treeId'' (ValidateID (wk_TreeID k)),
       wrap ''agentId'' (ValidateID (wk_AgentID k))]"

record WorkerReservation =
  w_Key :: WorkerKey
  w_ParentAgentID :: string
  w_DeviceID :: string
  w_TaskName :: string
  w_PromptDigest :: string
  w_WorkspaceID :: string
  w_WorkspacePath :: string
  w_WorkingDirectory :: string
  w_CodexThreadID :: string
  w_ProfileVersion :: int
  w_Status :: WorkerStatus
  w_RetryTarget :: WorkerStatus
  w_ActiveTurnID :: string
  w_LastBoundTurnID :: string
  w_FailureCode :: string
  w_FinalTarget :: WorkerStatus
  w_FinalFailureCode :: string
  w_Revision :: nat
  w_CreatedAt :: int
  w_UpdatedAt :: int

definition optional_id :: "string \<Rightarrow> string \<Rightarrow> err" where
  "optional_id name v = (if v = '''' then None else wrap name (ValidateID v))"

definition worker_status_check :: "WorkerReservation \<Rightarrow> err" where
  "worker_status_check w =
     (let bad = Plain ''worker lifecycle details do not match its status'';
          retryable = (w_RetryTarget w = WorkerPending \<or> w_RetryTarget w = WorkerIdle) in
      case w_Status w of
        WorkerReserved \<Rightarrow>
          fail_if (w_CodexThreadID w \<noteq> '''' \<or> w_RetryTarget w \<noteq> no_status \<or> w_ActiveTurnID w \<noteq> '''' \<or> w_FailureCode w \<noteq> '''') bad
      | WorkerPending \<Rightarrow> fail_if (w_ActiveTurnID w \<noteq> '''' \<or> w_FailureCode w \<noteq> '''' \<or> w_RetryTarget w \<noteq> no_status) bad
      | WorkerStarting \<Rightarrow> fail_if (\<not> retryable \<or> w_ActiveTurnID w \<noteq> '''' \<or> w_FailureCode w \<noteq> '''') bad
      | WorkerPreflight \<Rightarrow>
          fail_if (w_CodexThreadID w = '''' \<or> \<not> retryable \<or> w_ActiveTurnID w \<noteq> '''' \<or> w_FailureCode w \<noteq> '''') bad
      | WorkerReady \<Rightarrow>
          fail_if (w_CodexThreadID w = '''' \<or> w_ActiveTurnID w \<noteq> '''' \<or> w_FailureCode w \<noteq> '''' \<or> \<not> retryable) bad
      | WorkerIdle \<Rightarrow>
          fail_if (w_CodexThreadID w = '''' \<or> w_ActiveTurnID w \<noteq> '''' \<or> w_FailureCode w \<noteq> '''' \<or> w_RetryTarget w \<noteq> no_status) bad
      | WorkerRunning \<Rightarrow>
          fail_if (w_CodexThreadID w = '''' \<or> w_ActiveTurnID w = '''' \<or> w_ActiveTurnID w \<noteq> w_LastBoundTurnID w
                   \<or> w_FailureCode w \<noteq> '''' \<or> w_RetryTarget w \<noteq> no_status) bad
      | WorkerFinalizing \<Rightarrow>
          fail_if (w_CodexThreadID w = '''' \<or> w_ActiveTurnID w = '''' \<or> w_ActiveTurnID w \<noteq> w_LastBoundTurnID w
                   \<or> w_FailureCode w \<noteq> '''' \<or> w_RetryTarget w \<noteq> no_status \<or> \<not> finalTarget (w_FinalTarget w)
                   \<or> w_FinalTarget w = WorkerIdle \<and> w_FinalFailureCode w \<noteq> ''''
                   \<or> w_FinalTarget w \<noteq> WorkerIdle \<and> w_FinalFailureCode w = '''')
            (Plain ''worker finalization details do not match its status'')
      | WorkerInterrupted \<Rightarrow>
          fail_if (w_CodexThreadID w = '''' \<or> w_FailureCode w = '''' \<or> w_RetryTarget w \<noteq> no_status) bad
      | WorkerFailed \<Rightarrow> fail_if (w_ActiveTurnID w \<noteq> '''' \<or> w_FailureCode w = '''' \<or> w_RetryTarget w \<noteq> no_status) bad
      | WorkerStatus_other s \<Rightarrow> None)"

definition WorkerReservation_Validate :: "WorkerReservation \<Rightarrow> err" where
  "WorkerReservation_Validate w =
     first_err
       [WorkerKey_Validate (w_Key w),
        wrap ''parentAgentId'' (ValidateID (w_ParentAgentID w)),
        wrap ''deviceId'' (ValidateID (w_DeviceID w)),
        fail_if (TrimSpace_empty (w_TaskName w) \<or> length (w_TaskName w) > maximumWorkerTaskName)
          (Plain ''taskName must contain from 1 through 128 bytes''),
        fail_if (\<not> lower_hex 32 (w_PromptDigest w)) (Plain ''promptDigest must be a lowercase SHA-256 digest''),
        fail_if (\<not> path_IsAbs (w_WorkspacePath w) \<or> length (w_WorkspacePath w) > maximumWorkspacePath)
          (Plain ''workspacePath must be a bounded absolute path''),
        optional_id ''workspaceId'' (w_WorkspaceID w),
        fail_if (length (w_WorkingDirectory w) > MaximumWorkspaceRelativeBytes \<or> path_IsAbs (w_WorkingDirectory w)
                 \<or> w_WorkingDirectory w = ''.'' \<or> w_WorkingDirectory w = ''..''
                 \<or> HasPrefix (path_Clean (w_WorkingDirectory w)) ''../'')
          (Plain ''workingDirectory must stay within the workspace''),
        optional_id ''codexThreadId'' (w_CodexThreadID w),
        fail_if (w_ProfileVersion w < 1) (Plain ''profileVersion must be positive''),
        fail_if (\<not> WorkerStatus_valid (w_Status w)) (Plain ''unsupported worker status''),
        optional_id ''activeTurnId'' (w_ActiveTurnID w),
        optional_id ''lastBoundTurnId'' (w_LastBoundTurnID w),
        validateFailureCode (w_FailureCode w),
        wrap ''final'' (validateFailureCode (w_FinalFailureCode w)),
        fail_if (w_Status w \<noteq> WorkerFinalizing \<and> (w_FinalTarget w \<noteq> no_status \<or> w_FinalFailureCode w \<noteq> ''''))
          (Plain ''non-finalizing worker contains final lifecycle details''),
        worker_status_check w,
        fail_if (w_CreatedAt w < 0 \<or> w_UpdatedAt w < w_CreatedAt w) (Plain ''worker timestamps are invalid''),
        fail_if (w_Revision w = 0 \<or> w_Revision w \<ge> 2 ^ 63) (Plain ''worker revision is invalid'')]"

text \<open>The CHECK constraints of the table that a typed row does not satisfy by itself.\<close>

definition worker_checks :: "WorkerReservation \<Rightarrow> bool" where
  "worker_checks w \<longleftrightarrow>
     0 < w_ProfileVersion w \<and> WorkerStatus_valid (w_Status w)
     \<and> w_RetryTarget w \<in> {no_status, WorkerPending, WorkerIdle}
     \<and> (w_LastBoundTurnID w = '''' \<or> length (w_LastBoundTurnID w) = 36)
     \<and> w_FinalTarget w \<in> {no_status, WorkerIdle, WorkerInterrupted, WorkerFailed}
     \<and> 0 < w_Revision w \<and> 0 \<le> w_CreatedAt w \<and> w_CreatedAt w \<le> w_UpdatedAt w
     \<and> (w_Status w \<noteq> WorkerFinalizing \<and> w_FinalTarget w = no_status \<and> w_FinalFailureCode w = ''''
        \<or> w_Status w = WorkerFinalizing \<and> w_ActiveTurnID w \<noteq> '''' \<and> w_RetryTarget w = no_status \<and> w_FailureCode w = ''''
          \<and> (w_FinalTarget w = WorkerIdle \<and> w_FinalFailureCode w = ''''
             \<or> w_FinalTarget w \<in> {WorkerInterrupted, WorkerFailed} \<and> w_FinalFailureCode w \<noteq> ''''))
     \<and> (w_Status w \<in> {WorkerRunning, WorkerFinalizing} \<longrightarrow> w_ActiveTurnID w = w_LastBoundTurnID w)"

section \<open>Operation receipts\<close>

datatype WorkerOperationAction =
    WorkerOperationSend | WorkerOperationFollowup | WorkerOperationInterrupt | WorkerOperationAction_other string

datatype WorkerOperationStatus =
    WorkerOperationPending | WorkerOperationSucceeded | WorkerOperationFailed | WorkerOperationStatus_other string

datatype WorkerOperationOutcome =
    WorkerOutcomePending | WorkerOutcomeQueued | WorkerOutcomeSteered | WorkerOutcomeStarted | WorkerOutcomeInterrupted
  | WorkerOutcomeFailed | WorkerOutcome_other string

fun action_valid :: "WorkerOperationAction \<Rightarrow> bool" where
  "action_valid (WorkerOperationAction_other s) = False"
| "action_valid _ = True"

fun operation_status_valid :: "WorkerOperationStatus \<Rightarrow> bool" where
  "operation_status_valid (WorkerOperationStatus_other s) = False"
| "operation_status_valid _ = True"

definition outcome_successful :: "WorkerOperationOutcome \<Rightarrow> bool" where
  "outcome_successful x \<longleftrightarrow> x \<in> {WorkerOutcomeQueued, WorkerOutcomeSteered, WorkerOutcomeStarted, WorkerOutcomeInterrupted}"

definition outcome_terminal :: "WorkerOperationOutcome \<Rightarrow> bool" where
  "outcome_terminal x \<longleftrightarrow> outcome_successful x \<or> x = WorkerOutcomeFailed"

definition outcome_valid :: "WorkerOperationOutcome \<Rightarrow> bool" where
  "outcome_valid x \<longleftrightarrow> x = WorkerOutcomePending \<or> outcome_terminal x"

record WorkerOperationReceipt =
  wo_Key :: WorkerKey
  wo_OperationID :: string
  wo_Action :: WorkerOperationAction
  wo_PayloadDigest :: string
  wo_Status :: WorkerOperationStatus
  wo_Outcome :: WorkerOperationOutcome
  wo_FailureCode :: string
  wo_CreatedAt :: int
  wo_UpdatedAt :: int

definition validateWorkerOperationIdentity :: "string \<Rightarrow> WorkerOperationAction \<Rightarrow> WorkerKey \<Rightarrow> err" where
  "validateWorkerOperationIdentity operationID action key =
     first_err [WorkerKey_Validate key, wrap ''operationId'' (ValidateID operationID),
       fail_if (\<not> action_valid action) (Plain ''unsupported worker operation action'')]"

definition WorkerOperationReceipt_Validate :: "WorkerOperationReceipt \<Rightarrow> err" where
  "WorkerOperationReceipt_Validate r =
     first_err
       [validateWorkerOperationIdentity (wo_OperationID r) (wo_Action r) (wo_Key r),
        fail_if (\<not> lower_hex 32 (wo_PayloadDigest r)) (Plain ''payloadDigest must be a lowercase SHA-256 digest''),
        fail_if (\<not> operation_status_valid (wo_Status r) \<or> \<not> outcome_valid (wo_Outcome r))
          (Plain ''worker operation status or outcome is invalid''),
        validateFailureCode (wo_FailureCode r),
        (case wo_Status r of
           WorkerOperationPending \<Rightarrow>
             fail_if (wo_Outcome r \<noteq> WorkerOutcomePending \<or> wo_FailureCode r \<noteq> '''') (Plain ''pending worker operation details are invalid'')
         | WorkerOperationSucceeded \<Rightarrow>
             fail_if (\<not> outcome_successful (wo_Outcome r) \<or> wo_FailureCode r \<noteq> '''')
               (Plain ''successful worker operation details are invalid'')
         | WorkerOperationFailed \<Rightarrow>
             fail_if (wo_Outcome r \<noteq> WorkerOutcomeFailed \<or> wo_FailureCode r = '''') (Plain ''failed worker operation details are invalid'')
         | WorkerOperationStatus_other s \<Rightarrow> None),
        fail_if (wo_CreatedAt r < 0 \<or> wo_UpdatedAt r < wo_CreatedAt r) (Plain ''worker operation timestamps are invalid'')]"

section \<open>Prepared workspaces\<close>

datatype PreparedWorkspaceStatus = PreparedWorkspaceReady | PreparedWorkspaceClaimed | PreparedWorkspaceStatus_other string

record PreparedWorkspaceKey =
  pk_ControllerID :: string
  pk_TreeID :: string
  pk_WorkspaceID :: string

record PreparedWorkspace =
  pws_Key :: PreparedWorkspaceKey
  pws_SourceAgentID :: string
  pws_SourceDeviceID :: string
  pws_TargetDeviceID :: string
  pws_GitURL :: string
  pws_HeadOID :: string
  pws_ObjectFormat :: string
  pws_WorkingDirectory :: string
  pws_Clean :: bool
  pws_SourceSnapshotHash :: string
  pws_WorkspacePath :: string
  pws_Strategy :: WorkspaceStrategy
  pws_ManifestHash :: string
  pws_SourceWarnings :: "string list"
  pws_Warnings :: "string list"
  pws_Status :: PreparedWorkspaceStatus
  pws_ClaimedAgentID :: string
  pws_CreatedAt :: int
  pws_UpdatedAt :: int

definition PreparedWorkspaceKey_Validate :: "PreparedWorkspaceKey \<Rightarrow> err" where
  "PreparedWorkspaceKey_Validate k =
     first_err [wrap ''controllerId'' (ValidateID (pk_ControllerID k)), wrap ''treeId'' (ValidateID (pk_TreeID k)),
       wrap ''workspaceId'' (ValidateID (pk_WorkspaceID k))]"

definition prepared_summary :: "PreparedWorkspace \<Rightarrow> WorkspaceSummary" where
  "prepared_summary w =
     \<lparr>wsum_WorkspaceID = pk_WorkspaceID (pws_Key w), wsum_SourceDeviceID = pws_SourceDeviceID w,
      wsum_TargetDeviceID = pws_TargetDeviceID w, wsum_HeadOID = pws_HeadOID w, wsum_ObjectFormat = pws_ObjectFormat w,
      wsum_WorkingDirectory = pws_WorkingDirectory w, wsum_Strategy = pws_Strategy w,
      wsum_ManifestHash = pws_ManifestHash w, wsum_Warnings = pws_Warnings w\<rparr>"

definition prepared_manifest :: "PreparedWorkspace \<Rightarrow> WorkspaceManifest" where
  "prepared_manifest w =
     \<lparr>wf_GitURL = pws_GitURL w, wf_HeadOID = pws_HeadOID w, wf_ObjectFormat = pws_ObjectFormat w,
      wf_WorkingDirectory = pws_WorkingDirectory w, wf_Clean = pws_Clean w,
      wf_SourceSnapshotHash = pws_SourceSnapshotHash w, wf_Warnings = pws_SourceWarnings w\<rparr>"

definition PreparedWorkspace_Validate :: "PreparedWorkspace \<Rightarrow> err" where
  "PreparedWorkspace_Validate w =
     first_err
       [PreparedWorkspaceKey_Validate (pws_Key w),
        wrap ''sourceAgentId'' (ValidateID (pws_SourceAgentID w)),
        wrap ''sourceDeviceId'' (ValidateID (pws_SourceDeviceID w)),
        wrap ''targetDeviceId'' (ValidateID (pws_TargetDeviceID w)),
        WorkspaceSummary_Validate (prepared_summary w),
        WorkspaceManifest_Validate (prepared_manifest w),
        fail_if (WorkspaceManifestHash (prepared_manifest w) \<noteq> Inr (pws_ManifestHash w))
          (Plain ''prepared workspace manifest hash is invalid''),
        fail_if (WorkspaceWarningsForStrategy (pws_SourceWarnings w) (pws_Strategy w) \<noteq> Inr (pws_Warnings w))
          (Plain ''prepared workspace warnings do not match its source manifest and strategy''),
        fail_if (\<not> path_IsAbs (pws_WorkspacePath w) \<or> length (pws_WorkspacePath w) > maximumWorkspacePath)
          (Plain ''prepared workspacePath must be a bounded absolute path''),
        (case pws_Status w of
           PreparedWorkspaceReady \<Rightarrow>
             fail_if (pws_ClaimedAgentID w \<noteq> '''') (Plain ''unclaimed workspace contains claimedAgentId'')
         | PreparedWorkspaceClaimed \<Rightarrow> wrap ''claimedAgentId'' (ValidateID (pws_ClaimedAgentID w))
         | PreparedWorkspaceStatus_other s \<Rightarrow> Some (Plain ''unsupported prepared workspace status'')),
        fail_if (pws_CreatedAt w < 0 \<or> pws_UpdatedAt w < pws_CreatedAt w) (Plain ''prepared workspace timestamps are invalid'')]"

definition samePreparedWorkspace :: "PreparedWorkspace \<Rightarrow> PreparedWorkspace \<Rightarrow> bool" where
  "samePreparedWorkspace stored requested \<longleftrightarrow>
     pws_Key stored = pws_Key requested \<and> pws_SourceAgentID stored = pws_SourceAgentID requested
     \<and> pws_SourceDeviceID stored = pws_SourceDeviceID requested \<and> pws_TargetDeviceID stored = pws_TargetDeviceID requested
     \<and> pws_GitURL stored = pws_GitURL requested \<and> pws_HeadOID stored = pws_HeadOID requested
     \<and> pws_ObjectFormat stored = pws_ObjectFormat requested \<and> pws_WorkingDirectory stored = pws_WorkingDirectory requested
     \<and> pws_Clean stored = pws_Clean requested \<and> pws_SourceSnapshotHash stored = pws_SourceSnapshotHash requested
     \<and> pws_WorkspacePath stored = pws_WorkspacePath requested \<and> pws_Strategy stored = pws_Strategy requested
     \<and> pws_ManifestHash stored = pws_ManifestHash requested \<and> pws_SourceWarnings stored = pws_SourceWarnings requested
     \<and> pws_Warnings stored = pws_Warnings requested"

definition workspace_checks :: "PreparedWorkspace \<Rightarrow> bool" where
  "workspace_checks w \<longleftrightarrow>
     pws_ObjectFormat w \<in> {''sha1'', ''sha256''} \<and> lower_hex 32 (pws_SourceSnapshotHash w)
     \<and> pws_Strategy w \<in> {WorkspaceStrategyDirect, WorkspaceStrategyThin, WorkspaceStrategyFull}
     \<and> lower_hex 32 (pws_ManifestHash w)
     \<and> 0 \<le> pws_CreatedAt w \<and> pws_CreatedAt w \<le> pws_UpdatedAt w
     \<and> (pws_Status w = PreparedWorkspaceReady \<and> pws_ClaimedAgentID w = ''''
        \<or> pws_Status w = PreparedWorkspaceClaimed \<and> pws_ClaimedAgentID w \<noteq> '''')"

section \<open>Turn-start intents\<close>

definition MaximumWorkerTurnStartIntentReceipts :: nat where "MaximumWorkerTurnStartIntentReceipts = 256"
definition maximumWorkerTurnIntentPage :: int where "maximumWorkerTurnIntentPage = 256"
definition maximumWorkerRolloutOffset :: int where "maximumWorkerRolloutOffset = 2 ^ 40"

datatype WorkerTurnStartIntentState =
    WorkerTurnStartPrepared | WorkerTurnStartBound | WorkerTurnStartRejected | WorkerTurnStartState_other string

datatype WorkerRolloutLocatorStatus = WorkerRolloutAvailable | WorkerRolloutUnavailable | WorkerRolloutStatus_other string

record WorkerRolloutLocator =
  rl_Status :: WorkerRolloutLocatorStatus
  rl_CodexHome :: string
  rl_Path :: string
  rl_Offset :: int
  rl_FailureCode :: string

record PrepareWorkerTurnStartIntentRequest =
  tr_Key :: WorkerKey
  tr_IntentID :: string
  tr_DeviceID :: string
  tr_ManagedThreadID :: string
  tr_PreviousTurnID :: string
  tr_PackageID :: string
  tr_OperationID :: string
  tr_Rollout :: WorkerRolloutLocator
  tr_ReservationLimitBytes :: int

record WorkerTurnStartIntent =
  ti_Key :: WorkerKey
  ti_IntentID :: string
  ti_DeviceID :: string
  ti_ManagedThreadID :: string
  ti_PreviousTurnID :: string
  ti_PackageID :: string
  ti_OperationID :: string
  ti_RetryTarget :: WorkerStatus
  ti_Rollout :: WorkerRolloutLocator
  ti_ReservationLimitBytes :: int
  ti_State :: WorkerTurnStartIntentState
  ti_TurnID :: string
  ti_RejectionFailureCode :: string
  ti_PreparedRevision :: nat
  ti_ResolutionRevision :: nat
  ti_CreatedAt :: int
  ti_UpdatedAt :: int

definition rollout_outside_home :: "string option \<Rightarrow> bool" where
  "rollout_outside_home rel =
     (case rel of
        None \<Rightarrow> True
      | Some r \<Rightarrow> r = ''.'' \<or> path_IsAbs r \<or> r = ''..'' \<or> HasPrefix r ''../'')"

definition rollout_components :: "string option \<Rightarrow> string list" where
  "rollout_components rel = split_slash (case rel of None \<Rightarrow> '''' | Some r \<Rightarrow> r)"

definition WorkerRolloutLocator_Validate :: "WorkerRolloutLocator \<Rightarrow> string \<Rightarrow> err" where
  "WorkerRolloutLocator_Validate l threadID =
     (case rl_Status l of
        WorkerRolloutAvailable \<Rightarrow>
          let relative = path_Rel (rl_CodexHome l) (rl_Path l); components = rollout_components relative in
          first_err
            [fail_if (rl_FailureCode l \<noteq> '''') (Plain ''available worker rollout locator cannot contain failureCode''),
             fail_if (\<not> path_IsAbs (rl_CodexHome l) \<or> \<not> path_IsAbs (rl_Path l)
                      \<or> length (rl_CodexHome l) > maximumWorkspacePath \<or> length (rl_Path l) > maximumWorkspacePath
                      \<or> path_Clean (rl_CodexHome l) \<noteq> rl_CodexHome l \<or> path_Clean (rl_Path l) \<noteq> rl_Path l)
               (Plain ''worker rollout locator paths must be bounded clean absolute paths''),
             fail_if (rl_Offset l < 0 \<or> rl_Offset l > maximumWorkerRolloutOffset) (Plain ''worker rollout offset is out of range''),
             fail_if (rollout_outside_home relative) (Plain ''worker rollout path is outside the managed CLI home''),
             fail_if (length components < 2 \<or> hd components \<noteq> ''sessions'')
               (Plain ''worker rollout path is outside the active sessions hierarchy''),
             fail_if (\<not> HasPrefix (List.last components) ''rollout-''
                      \<or> \<not> HasSuffix (List.last components) (''-'' @ threadID @ ''.jsonl''))
               (Plain ''worker rollout path does not name the managed thread'')]
      | WorkerRolloutUnavailable \<Rightarrow>
          first_err
            [fail_if (rl_CodexHome l \<noteq> '''' \<or> rl_Path l \<noteq> '''' \<or> rl_Offset l \<noteq> 0)
               (Plain ''unavailable worker rollout locator cannot contain a path or offset''),
             wrap ''rollout locator'' (validateFailureCode (rl_FailureCode l)),
             fail_if (rl_FailureCode l = '''') (Plain ''unavailable worker rollout locator requires failureCode'')]
      | WorkerRolloutStatus_other s \<Rightarrow> Some (Plain ''unsupported worker rollout locator status''))"

definition PrepareWorkerTurnStartIntentRequest_Validate :: "PrepareWorkerTurnStartIntentRequest \<Rightarrow> err" where
  "PrepareWorkerTurnStartIntentRequest_Validate r =
     first_err
       [WorkerKey_Validate (tr_Key r),
        wrap ''intentId'' (ValidateID (tr_IntentID r)), wrap ''deviceId'' (ValidateID (tr_DeviceID r)),
        wrap ''managedThreadId'' (ValidateID (tr_ManagedThreadID r)), wrap ''packageId'' (ValidateID (tr_PackageID r)),
        optional_id ''previousTurnId'' (tr_PreviousTurnID r),
        optional_id ''operationId'' (tr_OperationID r),
        WorkerRolloutLocator_Validate (tr_Rollout r) (tr_ManagedThreadID r),
        fail_if (tr_ReservationLimitBytes r < 1 \<or> tr_ReservationLimitBytes r > MaximumResultPackageBytes)
          (Plain ''reservationLimitBytes is out of range'')]"

definition intent_request :: "WorkerTurnStartIntent \<Rightarrow> PrepareWorkerTurnStartIntentRequest" where
  "intent_request i =
     \<lparr>tr_Key = ti_Key i, tr_IntentID = ti_IntentID i, tr_DeviceID = ti_DeviceID i, tr_ManagedThreadID = ti_ManagedThreadID i,
      tr_PreviousTurnID = ti_PreviousTurnID i, tr_PackageID = ti_PackageID i, tr_OperationID = ti_OperationID i,
      tr_Rollout = ti_Rollout i, tr_ReservationLimitBytes = ti_ReservationLimitBytes i\<rparr>"

definition WorkerTurnStartIntent_Validate :: "WorkerTurnStartIntent \<Rightarrow> err" where
  "WorkerTurnStartIntent_Validate i =
     first_err
       [PrepareWorkerTurnStartIntentRequest_Validate (intent_request i),
        fail_if (ti_RetryTarget i \<noteq> WorkerPending \<and> ti_RetryTarget i \<noteq> WorkerIdle)
          (Plain ''worker turn-start retry target is invalid''),
        fail_if (ti_RetryTarget i = WorkerPending \<and> ti_OperationID i \<noteq> '''' \<or> ti_RetryTarget i = WorkerIdle \<and> ti_OperationID i = '''')
          (Plain ''worker turn-start operation does not match retry target''),
        fail_if (ti_PreparedRevision i = 0 \<or> ti_PreparedRevision i \<ge> 2 ^ 63 \<or> ti_ResolutionRevision i \<ge> 2 ^ 63)
          (Plain ''worker turn-start intent revision is invalid''),
        wrap ''rejection'' (validateFailureCode (ti_RejectionFailureCode i)),
        (case ti_State i of
           WorkerTurnStartPrepared \<Rightarrow>
             fail_if (ti_TurnID i \<noteq> '''' \<or> ti_RejectionFailureCode i \<noteq> '''' \<or> ti_ResolutionRevision i \<noteq> 0)
               (Plain ''prepared worker turn-start intent has resolution details'')
         | WorkerTurnStartBound \<Rightarrow>
             first_err
               [wrap ''turnId'' (ValidateID (ti_TurnID i)),
                fail_if (ti_TurnID i = ti_PreviousTurnID i \<or> ti_RejectionFailureCode i \<noteq> ''''
                         \<or> ti_ResolutionRevision i \<le> ti_PreparedRevision i)
                  (Plain ''bound worker turn-start intent has invalid resolution details'')]
         | WorkerTurnStartRejected \<Rightarrow>
             fail_if (ti_TurnID i \<noteq> '''' \<or> ti_RejectionFailureCode i = '''' \<or> ti_ResolutionRevision i \<le> ti_PreparedRevision i)
               (Plain ''rejected worker turn-start intent has invalid resolution details'')
         | WorkerTurnStartState_other s \<Rightarrow> Some (Plain ''unsupported worker turn-start intent state'')),
        fail_if (ti_CreatedAt i < 0 \<or> ti_UpdatedAt i < ti_CreatedAt i) (Plain ''worker turn-start intent timestamps are invalid'')]"

definition intent_checks :: "WorkerTurnStartIntent \<Rightarrow> bool" where
  "intent_checks i \<longleftrightarrow>
     list_all (\<lambda>v. length v = 36)
       [wk_ControllerID (ti_Key i), wk_TreeID (ti_Key i), wk_AgentID (ti_Key i), ti_IntentID i, ti_DeviceID i,
        ti_ManagedThreadID i, ti_PackageID i]
     \<and> list_all (\<lambda>v. v = '''' \<or> length v = 36) [ti_PreviousTurnID i, ti_OperationID i, ti_TurnID i]
     \<and> ti_RetryTarget i \<in> {WorkerPending, WorkerIdle}
     \<and> rl_Status (ti_Rollout i) \<in> {WorkerRolloutAvailable, WorkerRolloutUnavailable}
     \<and> 0 \<le> rl_Offset (ti_Rollout i) \<and> rl_Offset (ti_Rollout i) \<le> maximumWorkerRolloutOffset
     \<and> 1 \<le> ti_ReservationLimitBytes i \<and> ti_ReservationLimitBytes i \<le> MaximumResultPackageBytes
     \<and> 0 < ti_PreparedRevision i \<and> 0 \<le> ti_CreatedAt i \<and> ti_CreatedAt i \<le> ti_UpdatedAt i
     \<and> (ti_RetryTarget i = WorkerPending \<and> ti_OperationID i = '''' \<or> ti_RetryTarget i = WorkerIdle \<and> ti_OperationID i \<noteq> '''')
     \<and> (rl_Status (ti_Rollout i) = WorkerRolloutAvailable \<and> rl_CodexHome (ti_Rollout i) \<noteq> '''' \<and> rl_Path (ti_Rollout i) \<noteq> ''''
          \<and> rl_FailureCode (ti_Rollout i) = ''''
        \<or> rl_Status (ti_Rollout i) = WorkerRolloutUnavailable \<and> rl_CodexHome (ti_Rollout i) = '''' \<and> rl_Path (ti_Rollout i) = ''''
          \<and> rl_Offset (ti_Rollout i) = 0 \<and> rl_FailureCode (ti_Rollout i) \<noteq> '''')
     \<and> (ti_State i = WorkerTurnStartPrepared \<and> ti_TurnID i = '''' \<and> ti_RejectionFailureCode i = '''' \<and> ti_ResolutionRevision i = 0
        \<or> ti_State i = WorkerTurnStartBound \<and> ti_TurnID i \<noteq> '''' \<and> ti_RejectionFailureCode i = ''''
          \<and> ti_PreparedRevision i < ti_ResolutionRevision i
        \<or> ti_State i = WorkerTurnStartRejected \<and> ti_TurnID i = '''' \<and> ti_RejectionFailureCode i \<noteq> ''''
          \<and> ti_PreparedRevision i < ti_ResolutionRevision i)"

section \<open>Changes artifacts\<close>

definition MaximumRetainedChangesArtifacts :: nat where "MaximumRetainedChangesArtifacts = 64"
definition MaximumRetainedChangesPayloadBytes :: int where "MaximumRetainedChangesPayloadBytes = 2 * 1024 * 1024 * 1024"
definition MaximumChangesArtifactPayloadBytes :: int where "MaximumChangesArtifactPayloadBytes = MaximumWorkspaceTransferBytes"
definition maximumChangesArtifactPage :: int where "maximumChangesArtifactPage = 256"
definition changesCaptureFailureCode :: string where "changesCaptureFailureCode = ''changes_capture_failed''"
definition ChangesBundlePartName :: string where "ChangesBundlePartName = ''changes.bundle''"
definition ChangesOverlayPartName :: string where "ChangesOverlayPartName = ''changes-overlay.tar.zst''"

datatype ChangesArtifactState =
    ChangesCapturePending | ChangesPublishPending | ChangesPublished | ChangesArtifactState_other string

datatype ChangesCaptureStatus = ChangesAvailable | ChangesUnchanged | ChangesCaptureFailed | ChangesCaptureStatus_other string

abbreviation no_capture :: ChangesCaptureStatus where "no_capture \<equiv> ChangesCaptureStatus_other ''''"

datatype ChangesArtifactPartKind = ChangesArtifactBundle | ChangesArtifactOverlay | ChangesArtifactPartKind_other string

fun changes_part_string :: "ChangesArtifactPartKind \<Rightarrow> string" where
  "changes_part_string ChangesArtifactBundle = ''bundle''"
| "changes_part_string ChangesArtifactOverlay = ''overlay''"
| "changes_part_string (ChangesArtifactPartKind_other s) = s"

record ChangesArtifactPart =
  cp_Kind :: ChangesArtifactPartKind
  cp_Name :: string
  cp_SizeBytes :: int
  cp_SHA256 :: string

record ChangesArtifact =
  ca_Key :: WorkerKey
  ca_ArtifactID :: string
  ca_TurnID :: string
  ca_WorkspaceID :: string
  ca_WorkspaceSourceDeviceID :: string
  ca_WorkspaceTargetDeviceID :: string
  ca_CompletionTarget :: WorkerStatus
  ca_CompletionFailureCode :: string
  ca_State :: ChangesArtifactState
  ca_Status :: ChangesCaptureStatus
  ca_ObjectFormat :: string
  ca_BaseHeadOID :: string
  ca_BaseClean :: bool
  ca_BaseManifestHash :: string
  ca_BaseSnapshotHash :: string
  ca_BaseWarnings :: "string list"
  ca_ResultHeadOID :: string
  ca_ResultSnapshotHash :: string
  ca_ResultClean :: bool
  ca_Parts :: "ChangesArtifactPart list"
  ca_ResultWarnings :: "string list"
  ca_FailureCode :: string
  ca_RetentionReserved :: bool
  ca_ReservedBytes :: int
  ca_PayloadBytes :: int
  ca_BrokerSequence :: nat
  ca_CreatedAt :: int
  ca_UpdatedAt :: int

record ChangesCaptureResult =
  cc_Status :: ChangesCaptureStatus
  cc_ResultHeadOID :: string
  cc_ResultSnapshotHash :: string
  cc_ResultClean :: bool
  cc_Parts :: "ChangesArtifactPart list"
  cc_ResultWarnings :: "string list"
  cc_FailureCode :: string

fun ChangesArtifactState_valid :: "ChangesArtifactState \<Rightarrow> bool" where
  "ChangesArtifactState_valid (ChangesArtifactState_other s) = False"
| "ChangesArtifactState_valid _ = True"

fun ChangesCaptureStatus_valid :: "ChangesCaptureStatus \<Rightarrow> bool" where
  "ChangesCaptureStatus_valid (ChangesCaptureStatus_other s) = False"
| "ChangesCaptureStatus_valid _ = True"

definition validateFinalTarget :: "WorkerStatus \<Rightarrow> string \<Rightarrow> err" where
  "validateFinalTarget target failureCode =
     first_err
       [fail_if (\<not> finalTarget target) (Plain ''unsupported final worker target''),
        validateFailureCode failureCode,
        fail_if (target = WorkerIdle \<and> failureCode \<noteq> '''') (Plain ''idle final target cannot contain failureCode''),
        fail_if (target \<noteq> WorkerIdle \<and> failureCode = '''') (Plain ''non-idle final target requires failureCode'')]"

definition validateFinalizationRequest :: "WorkerKey \<Rightarrow> string \<Rightarrow> WorkerStatus \<Rightarrow> string \<Rightarrow> err" where
  "validateFinalizationRequest key turnID target failureCode =
     first_err [WorkerKey_Validate key, wrap ''turnId'' (ValidateID turnID), validateFinalTarget target failureCode]"

definition validateChangesArtifactIdentity :: "WorkerKey \<Rightarrow> string \<Rightarrow> err" where
  "validateChangesArtifactIdentity key artifactID =
     first_err [WorkerKey_Validate key, wrap ''artifactId'' (ValidateID artifactID)]"

definition validateObjectID :: "string \<Rightarrow> string \<Rightarrow> err" where
  "validateObjectID objectFormat oid =
     (if objectFormat = ''sha1'' then fail_if (\<not> lower_hex 20 oid) (Plain ''must be a lowercase sha1 object ID'')
      else if objectFormat = ''sha256'' then fail_if (\<not> lower_hex 32 oid) (Plain ''must be a lowercase sha256 object ID'')
      else Some (Plain ''unsupported Git object format''))"

definition validateDigest :: "string \<Rightarrow> string \<Rightarrow> err" where
  "validateDigest name v = fail_if (\<not> lower_hex 32 v) (Wrapped name (Plain ''must be a lowercase SHA-256 digest''))"

definition ChangesArtifactPart_Validate :: "ChangesArtifactPart \<Rightarrow> err" where
  "ChangesArtifactPart_Validate p =
     first_err
       [(case cp_Kind p of
           ChangesArtifactBundle \<Rightarrow>
             fail_if (cp_Name p \<noteq> ChangesBundlePartName) (Plain ''bundle part must use its controlled relative name'')
         | ChangesArtifactOverlay \<Rightarrow>
             fail_if (cp_Name p \<noteq> ChangesOverlayPartName) (Plain ''overlay part must use its controlled relative name'')
         | ChangesArtifactPartKind_other s \<Rightarrow> Some (Plain ''unsupported changes artifact part kind'')),
        fail_if (cp_SizeBytes p < 1 \<or> cp_SizeBytes p > MaximumWorkspaceArtifactBytes)
          (Plain ''changes artifact part size is out of range''),
        validateDigest ''changes artifact part sha256'' (cp_SHA256 p)]"

text \<open>The running sum wraps as an \<^verbatim>\<open>int64\<close>.\<close>

definition changesPayloadBytes :: "ChangesArtifactPart list \<Rightarrow> int" where
  "changesPayloadBytes parts = foldl (\<lambda>bytes p. add_int64 bytes (cp_SizeBytes p)) 0 parts"

fun changes_parts_loop :: "ChangesArtifactPartKind set \<Rightarrow> ChangesArtifactPart list \<Rightarrow> err" where
  "changes_parts_loop seen [] = None"
| "changes_parts_loop seen (p # parts) =
     (case ChangesArtifactPart_Validate p of
        Some e \<Rightarrow> Some e
      | None \<Rightarrow>
          if cp_Kind p \<in> seen then Some (Plain ''duplicate changes artifact part'')
          else changes_parts_loop (insert (cp_Kind p) seen) parts)"

definition validateChangesCaptureResult :: "ChangesCaptureResult \<Rightarrow> err" where
  "validateChangesCaptureResult r =
     first_err
       [fail_if (\<not> ChangesCaptureStatus_valid (cc_Status r)) (Plain ''unsupported changes capture status''),
        wrap ''result warnings'' (ValidateWorkspaceSourceWarnings (cc_ResultWarnings r)),
        validateFailureCode (cc_FailureCode r),
        changes_parts_loop {} (cc_Parts r),
        fail_if (changesPayloadBytes (cc_Parts r) > MaximumChangesArtifactPayloadBytes)
          (Plain ''changes artifact payload exceeds transfer limit''),
        (case cc_Status r of
           ChangesAvailable \<Rightarrow>
             fail_if (cc_ResultHeadOID r = '''' \<or> cc_ResultSnapshotHash r = '''' \<or> cc_FailureCode r \<noteq> '''')
               (Plain ''available changes capture details are incomplete'')
         | ChangesUnchanged \<Rightarrow>
             fail_if (cc_ResultHeadOID r = '''' \<or> cc_ResultSnapshotHash r = '''' \<or> cc_Parts r \<noteq> [] \<or> cc_FailureCode r \<noteq> '''')
               (Plain ''unchanged changes capture details are invalid'')
         | ChangesCaptureFailed \<Rightarrow>
             fail_if (cc_ResultHeadOID r \<noteq> '''' \<or> cc_ResultSnapshotHash r \<noteq> '''' \<or> cc_ResultClean r \<or> cc_Parts r \<noteq> []
                      \<or> cc_ResultWarnings r \<noteq> [] \<or> cc_FailureCode r = '''')
               (Plain ''failed changes capture details are invalid'')
         | ChangesCaptureStatus_other s \<Rightarrow> None)]"

definition validateChangesCaptureForArtifact :: "ChangesArtifact \<Rightarrow> ChangesCaptureResult \<Rightarrow> err" where
  "validateChangesCaptureForArtifact a r =
     first_err
       [validateChangesCaptureResult r,
        (if cc_Status r = ChangesCaptureFailed then None
         else first_err
           [wrap ''resultHeadOid'' (validateObjectID (ca_ObjectFormat a) (cc_ResultHeadOID r)),
            validateDigest ''resultSnapshotHash'' (cc_ResultSnapshotHash r),
            (if cc_Status r = ChangesUnchanged
             then fail_if (cc_ResultHeadOID r \<noteq> ca_BaseHeadOID a \<or> cc_ResultSnapshotHash r \<noteq> ca_BaseSnapshotHash a
                           \<or> cc_ResultClean r \<noteq> ca_BaseClean a)
                    (Plain ''unchanged capture does not match the prepared workspace base'')
             else if changesPayloadBytes (cc_Parts r) = 0
             then fail_if (ca_BaseClean a \<or> cc_ResultHeadOID r \<noteq> ca_BaseHeadOID a \<or> \<not> cc_ResultClean r)
                    (Plain ''zero-payload available capture must clean an unchanged dirty base'')
             else fail_if (\<not> ca_RetentionReserved a \<or> changesPayloadBytes (cc_Parts r) > ca_ReservedBytes a)
                    (Sentinel ErrChangesArtifactQuota))])]"

definition artifact_capture :: "ChangesArtifact \<Rightarrow> ChangesCaptureResult" where
  "artifact_capture a =
     \<lparr>cc_Status = ca_Status a, cc_ResultHeadOID = ca_ResultHeadOID a, cc_ResultSnapshotHash = ca_ResultSnapshotHash a,
      cc_ResultClean = ca_ResultClean a, cc_Parts = ca_Parts a, cc_ResultWarnings = ca_ResultWarnings a,
      cc_FailureCode = ca_FailureCode a\<rparr>"

definition ChangesArtifact_Validate :: "ChangesArtifact \<Rightarrow> err" where
  "ChangesArtifact_Validate a =
     first_err
       [validateChangesArtifactIdentity (ca_Key a) (ca_ArtifactID a),
        wrap ''turnId'' (ValidateID (ca_TurnID a)), wrap ''workspaceId'' (ValidateID (ca_WorkspaceID a)),
        wrap ''workspaceSourceDeviceId'' (ValidateID (ca_WorkspaceSourceDeviceID a)),
        wrap ''workspaceTargetDeviceId'' (ValidateID (ca_WorkspaceTargetDeviceID a)),
        validateFinalTarget (ca_CompletionTarget a) (ca_CompletionFailureCode a),
        fail_if (\<not> ChangesArtifactState_valid (ca_State a)) (Plain ''unsupported changes artifact state''),
        wrap ''baseHeadOid'' (validateObjectID (ca_ObjectFormat a) (ca_BaseHeadOID a)),
        validateDigest ''baseManifestHash'' (ca_BaseManifestHash a), validateDigest ''baseSnapshotHash'' (ca_BaseSnapshotHash a),
        wrap ''base warnings'' (ValidateWorkspaceWarnings (ca_BaseWarnings a)),
        fail_if (ca_CreatedAt a < 0 \<or> ca_UpdatedAt a < ca_CreatedAt a) (Plain ''changes artifact timestamps are invalid''),
        fail_if (ca_ReservedBytes a < 0 \<or> ca_ReservedBytes a > MaximumChangesArtifactPayloadBytes
                 \<or> ca_PayloadBytes a < 0 \<or> ca_PayloadBytes a > MaximumChangesArtifactPayloadBytes)
          (Plain ''changes artifact byte count is invalid''),
        fail_if (ca_RetentionReserved a \<noteq> (ca_ReservedBytes a > 0)) (Plain ''changes artifact retention reservation is invalid''),
        (case ca_State a of
           ChangesCapturePending \<Rightarrow>
             fail_if (ca_Status a \<noteq> no_capture \<or> ca_ResultHeadOID a \<noteq> '''' \<or> ca_ResultSnapshotHash a \<noteq> '''' \<or> ca_ResultClean a
                      \<or> ca_Parts a \<noteq> [] \<or> ca_ResultWarnings a \<noteq> [] \<or> ca_FailureCode a \<noteq> '''' \<or> ca_PayloadBytes a \<noteq> 0
                      \<or> ca_BrokerSequence a \<noteq> 0)
               (Plain ''capture-pending changes artifact contains capture output'')
         | ChangesArtifactState_other s \<Rightarrow> None
         | _ \<Rightarrow>
             first_err
               [validateChangesCaptureForArtifact a (artifact_capture a),
                fail_if (ca_State a = ChangesPublishPending \<and> ca_BrokerSequence a \<noteq> 0)
                  (Plain ''publish-pending changes artifact contains broker sequence''),
                fail_if (ca_State a = ChangesPublished \<and> (ca_BrokerSequence a = 0 \<or> int (ca_BrokerSequence a) > MaxInt64))
                  (Plain ''published changes artifact has invalid broker sequence'')])]"

text \<open>
  \<^verbatim>\<open>slices.SortFunc\<close> is not stable; two parts of one kind, whose order it leaves open, are refused by the
  validation that follows.
\<close>

definition canonicalChangesParts :: "ChangesArtifactPart list \<Rightarrow> ChangesArtifactPart list" where
  "canonicalChangesParts parts = sort_key (\<lambda>p. changes_part_string (cp_Kind p)) parts"

definition zero_changes_part :: ChangesArtifactPart where
  "zero_changes_part = \<lparr>cp_Kind = ChangesArtifactPartKind_other '''', cp_Name = '''', cp_SizeBytes = 0, cp_SHA256 = ''''\<rparr>"

definition splitChangesParts :: "ChangesArtifactPart list \<Rightarrow> ChangesArtifactPart \<times> ChangesArtifactPart" where
  "splitChangesParts parts =
     foldl (\<lambda>(bundle, overlay) p.
        case cp_Kind p of
          ChangesArtifactBundle \<Rightarrow> (p, overlay)
        | ChangesArtifactOverlay \<Rightarrow> (bundle, p)
        | ChangesArtifactPartKind_other s \<Rightarrow> (bundle, overlay))
       (zero_changes_part, zero_changes_part) parts"

text \<open>The parts that a scan builds of the bundle and overlay columns.\<close>

definition scanned_parts :: "ChangesArtifactPart \<times> ChangesArtifactPart \<Rightarrow> ChangesArtifactPart list" where
  "scanned_parts bo =
     (let (bundle, overlay) = bo in
      (if cp_Name bundle \<noteq> '''' then [bundle\<lparr>cp_Kind := ChangesArtifactBundle\<rparr>] else [])
      @ (if cp_Name overlay \<noteq> '''' then [overlay\<lparr>cp_Kind := ChangesArtifactOverlay\<rparr>] else []))"

definition sameChangesCapture :: "ChangesArtifact \<Rightarrow> ChangesCaptureResult \<Rightarrow> bool" where
  "sameChangesCapture a r \<longleftrightarrow>
     ca_Status a = cc_Status r \<and> ca_ResultHeadOID a = cc_ResultHeadOID r \<and> ca_ResultSnapshotHash a = cc_ResultSnapshotHash r
     \<and> ca_ResultClean a = cc_ResultClean r \<and> ca_Parts a = cc_Parts r \<and> ca_ResultWarnings a = cc_ResultWarnings r
     \<and> ca_FailureCode a = cc_FailureCode r"

definition part_columns_ok :: "string \<Rightarrow> ChangesArtifactPart \<Rightarrow> bool" where
  "part_columns_ok name p \<longleftrightarrow>
     cp_Name p = '''' \<and> cp_SizeBytes p = 0 \<and> cp_SHA256 p = ''''
     \<or> cp_Name p = name \<and> 0 < cp_SizeBytes p \<and> cp_SizeBytes p \<le> 268435456 \<and> lower_hex 32 (cp_SHA256 p)"

definition capture_columns_ok :: "ChangesArtifact \<Rightarrow> bool" where
  "capture_columns_ok a \<longleftrightarrow>
     (case ca_Status a of
        ChangesAvailable \<Rightarrow>
          ca_ResultHeadOID a \<noteq> '''' \<and> ca_ResultSnapshotHash a \<noteq> '''' \<and> ca_FailureCode a = ''''
          \<and> (0 < ca_PayloadBytes a \<and> ca_RetentionReserved a \<and> ca_ReservedBytes a = ca_PayloadBytes a
             \<or> ca_PayloadBytes a = 0 \<and> \<not> ca_RetentionReserved a \<and> ca_ReservedBytes a = 0 \<and> \<not> ca_BaseClean a
               \<and> ca_ResultHeadOID a = ca_BaseHeadOID a \<and> ca_ResultClean a)
      | ChangesUnchanged \<Rightarrow>
          ca_ResultHeadOID a = ca_BaseHeadOID a \<and> ca_ResultSnapshotHash a = ca_BaseSnapshotHash a
          \<and> ca_ResultClean a = ca_BaseClean a \<and> ca_PayloadBytes a = 0 \<and> \<not> ca_RetentionReserved a \<and> ca_ReservedBytes a = 0
          \<and> ca_FailureCode a = ''''
      | ChangesCaptureFailed \<Rightarrow>
          ca_ResultHeadOID a = '''' \<and> ca_ResultSnapshotHash a = '''' \<and> \<not> ca_ResultClean a \<and> ca_PayloadBytes a = 0
          \<and> ca_ResultWarnings a = [] \<and> \<not> ca_RetentionReserved a \<and> ca_ReservedBytes a = 0 \<and> ca_FailureCode a \<noteq> ''''
      | ChangesCaptureStatus_other v \<Rightarrow> v = '''' \<and> ca_ResultWarnings a = [] \<and> ca_PayloadBytes a = 0)"

definition artifact_checks :: "ChangesArtifact \<Rightarrow> bool" where
  "artifact_checks a \<longleftrightarrow>
     (let (bundle, overlay) = splitChangesParts (ca_Parts a) in
      length (ca_WorkspaceSourceDeviceID a) = 36 \<and> length (ca_WorkspaceTargetDeviceID a) = 36
      \<and> ca_ObjectFormat a \<in> {''sha1'', ''sha256''} \<and> lower_hex 32 (ca_BaseManifestHash a) \<and> lower_hex 32 (ca_BaseSnapshotHash a)
      \<and> 0 \<le> ca_ReservedBytes a \<and> ca_ReservedBytes a \<le> 536870912 \<and> 0 \<le> ca_PayloadBytes a \<and> ca_PayloadBytes a \<le> 536870912
      \<and> 0 \<le> ca_CreatedAt a \<and> ca_CreatedAt a \<le> ca_UpdatedAt a
      \<and> (ca_CompletionTarget a = WorkerIdle \<and> ca_CompletionFailureCode a = ''''
         \<or> ca_CompletionTarget a \<in> {WorkerInterrupted, WorkerFailed} \<and> ca_CompletionFailureCode a \<noteq> '''')
      \<and> part_columns_ok ''changes.bundle'' bundle \<and> part_columns_ok ''changes-overlay.tar.zst'' overlay
      \<and> ca_PayloadBytes a = cp_SizeBytes bundle + cp_SizeBytes overlay
      \<and> (ca_State a = ChangesCapturePending \<and> ca_Status a = no_capture \<and> ca_ResultHeadOID a = '''' \<and> ca_ResultSnapshotHash a = ''''
           \<and> \<not> ca_ResultClean a \<and> cp_Name bundle = '''' \<and> cp_Name overlay = '''' \<and> ca_ResultWarnings a = [] \<and> ca_FailureCode a = ''''
           \<and> ca_PayloadBytes a = 0 \<and> ca_BrokerSequence a = 0
         \<or> ca_State a = ChangesPublishPending \<and> ca_Status a \<noteq> no_capture \<and> ca_BrokerSequence a = 0
         \<or> ca_State a = ChangesPublished \<and> ca_Status a \<noteq> no_capture \<and> 0 < ca_BrokerSequence a)
      \<and> capture_columns_ok a
      \<and> (\<not> ca_RetentionReserved a \<and> ca_ReservedBytes a = 0 \<or> ca_RetentionReserved a \<and> 0 < ca_ReservedBytes a))"

section \<open>The result outbox\<close>

definition MaximumPeerResultPackages :: nat where "MaximumPeerResultPackages = 64"
definition MaximumPeerResultStoreBytes :: int where "MaximumPeerResultStoreBytes = 2 * 1024 * 1024 * 1024"
definition maximumPeerResultPage :: int where "maximumPeerResultPage = 256"

datatype ResultOutboxState =
    ResultOutboxCapturePending | ResultOutboxPublishPending | ResultOutboxDeliveryPending | ResultOutboxDelivered
  | ResultOutboxReleasePending | ResultOutboxState_other string

record ResultOutboxKey =
  obk_Worker :: WorkerKey
  obk_SourceDeviceID :: string
  obk_PackageID :: string

definition ResultOutboxKey_Validate :: "ResultOutboxKey \<Rightarrow> err" where
  "ResultOutboxKey_Validate k =
     first_err [WorkerKey_Validate (obk_Worker k), wrap ''sourceDeviceId'' (ValidateID (obk_SourceDeviceID k)),
       wrap ''packageId'' (ValidateID (obk_PackageID k))]"

text \<open>A row of \<^verbatim>\<open>peer_result_outbox\<close>, whose manifest columns a scan decodes, and the scanned struct.\<close>

record OutboxRow =
  ob_key :: ResultOutboxKey
  ob_state :: ResultOutboxState
  ob_managed_thread_id :: string
  ob_turn_id :: string
  ob_lifecycle_revision :: nat
  ob_manifest_bytes :: string
  ob_manifest_size_bytes :: int
  ob_manifest_sha256 :: string
  ob_parts_json :: "ResultPackagePartDescriptor list option"
  ob_reservation_limit_bytes :: int
  ob_reserved_bytes :: int
  ob_package_bytes :: int
  ob_delivery_sequence :: nat
  ob_created_at :: int
  ob_updated_at :: int

record ResultOutbox =
  rob_Key :: ResultOutboxKey
  rob_State :: ResultOutboxState
  rob_Metadata :: ResultPackageMetadata
  rob_Manifest :: ResultManifest
  rob_ReservationLimitBytes :: int
  rob_ReservedBytes :: int
  rob_PackageBytes :: int
  rob_DeliverySequence :: nat
  rob_CreatedAt :: int
  rob_UpdatedAt :: int

definition zero_manifest :: ResultManifest where
  "zero_manifest =
     \<lparr>rm_Version = 0, rm_PackageID = '''', rm_ControllerID = '''', rm_TreeID = '''', rm_SourceAgentID = '''', rm_SourceDeviceID = '''',
      rm_ManagedThreadID = '''', rm_TurnID = '''', rm_LifecycleRevision = 0,
      rm_Terminal = \<lparr>rt_Outcome = ResultTerminal_other '''', rt_FailureCode = ''''\<rparr>, rm_CapturedAt = 0,
      rm_Rollout = \<lparr>rr_Status = ResultRollout_other '''', rr_RawSize = 0, rr_RawSHA256 = '''', rr_FailureCode = ''''\<rparr>,
      rm_Workspace = \<lparr>rw_Status = ResultWorkspace_other '''', rw_WorkspaceID = '''', rw_SourceDeviceID = '''',
        rw_TargetDeviceID = '''', rw_ObjectFormat = '''', rw_BaseHeadOID = '''', rw_BaseManifestHash = '''', rw_BaseSnapshotHash = '''',
        rw_BaseClean = False, rw_ResultHeadOID = '''', rw_ResultSnapshotHash = '''', rw_ResultClean = False, rw_BaseWarnings = None,
        rw_ResultWarnings = None, rw_FailureCode = ''''\<rparr>,
      rm_Parts = None\<rparr>"

definition zero_metadata :: ResultPackageMetadata where
  "zero_metadata = \<lparr>md_Manifest = '''', md_ManifestDescriptor = zero_part\<rparr>"

fun package_loop :: "int \<Rightarrow> ResultPackagePartDescriptor list \<Rightarrow> int result" where
  "package_loop bytes [] = Inr bytes"
| "package_loop bytes (part # parts) =
     (if rd_Size part > MaximumResultPackageBytes - bytes then Inl (Plain ''result package byte count overflows its bound'')
      else package_loop (bytes + rd_Size part) parts)"

definition resultPackageBytes :: "ResultPackageMetadata \<Rightarrow> int result" where
  "resultPackageBytes metadata =
     (case DecodeManifest metadata of
        Inl e \<Rightarrow> Inl e
      | Inr manifest \<Rightarrow>
          (case package_loop (rd_Size (md_ManifestDescriptor metadata)) (elems (rm_Parts manifest)) of
             Inl e \<Rightarrow> Inl e
           | Inr bytes \<Rightarrow>
               guard_res (fail_if (bytes < 1 \<or> bytes > MaximumResultPackageBytes) (Plain ''result package is outside its aggregate bound''))
                 (Inr bytes)))"

definition validateStoredResultMetadata :: "ResultOutboxKey \<Rightarrow> ResultPackageMetadata \<Rightarrow> ResultManifest \<Rightarrow> err" where
  "validateStoredResultMetadata key metadata manifest =
     (case DecodeManifest metadata of
        Inl e \<Rightarrow> Some e
      | Inr decoded \<Rightarrow>
          first_err
            [fail_if (decoded \<noteq> manifest) (Plain ''stored result manifest columns do not match the exact metadata bytes''),
             fail_if (rm_PackageID manifest \<noteq> obk_PackageID key \<or> rm_ControllerID manifest \<noteq> wk_ControllerID (obk_Worker key)
                      \<or> rm_TreeID manifest \<noteq> wk_TreeID (obk_Worker key) \<or> rm_SourceAgentID manifest \<noteq> wk_AgentID (obk_Worker key)
                      \<or> rm_SourceDeviceID manifest \<noteq> obk_SourceDeviceID key)
               (Sentinel ErrResultPackageAuthority)])"

definition ResultOutbox_Validate :: "ResultOutbox \<Rightarrow> err" where
  "ResultOutbox_Validate r =
     first_err
       [ResultOutboxKey_Validate (rob_Key r),
        fail_if (rob_ReservationLimitBytes r < 1 \<or> rob_ReservationLimitBytes r > MaximumResultPackageBytes
                 \<or> rob_ReservedBytes r < 1 \<or> rob_ReservedBytes r > rob_ReservationLimitBytes r)
          (Plain ''result outbox reservation is outside the package bound''),
        fail_if (rob_CreatedAt r < 0 \<or> rob_UpdatedAt r < rob_CreatedAt r) (Plain ''result outbox timestamps are invalid''),
        (case rob_State r of
           ResultOutboxCapturePending \<Rightarrow>
             fail_if (md_Manifest (rob_Metadata r) \<noteq> '''' \<or> md_ManifestDescriptor (rob_Metadata r) \<noteq> zero_part
                      \<or> rob_Manifest r \<noteq> zero_manifest \<or> rob_ReservedBytes r \<noteq> rob_ReservationLimitBytes r
                      \<or> rob_PackageBytes r \<noteq> 0 \<or> rob_DeliverySequence r \<noteq> 0)
               (Plain ''capture-pending result outbox contains captured metadata'')
         | ResultOutboxState_other s \<Rightarrow> Some (Plain ''unsupported result outbox state'')
         | _ \<Rightarrow>
             (case validateStoredResultMetadata (rob_Key r) (rob_Metadata r) (rob_Manifest r) of
                Some e \<Rightarrow> Some e
              | None \<Rightarrow>
                  (case resultPackageBytes (rob_Metadata r) of
                     Inl e \<Rightarrow> Some e
                   | Inr packageBytes \<Rightarrow>
                       first_err
                         [fail_if (rob_PackageBytes r \<noteq> packageBytes \<or> rob_ReservedBytes r \<noteq> packageBytes
                                   \<or> rob_ReservationLimitBytes r < packageBytes)
                            (Plain ''result outbox retained bytes do not match its metadata''),
                          (if rob_State r = ResultOutboxDelivered \<or> rob_State r = ResultOutboxReleasePending
                           then fail_if (rob_DeliverySequence r = 0 \<or> int (rob_DeliverySequence r) > MaxInt64)
                                  (Plain ''delivered result outbox has invalid sequence'')
                           else fail_if (rob_DeliverySequence r \<noteq> 0)
                                  (Plain ''undelivered result outbox contains a sequence''))])))]"

definition decodeResultMetadata ::
    "string \<Rightarrow> int \<Rightarrow> string \<Rightarrow> ResultPackagePartDescriptor list option \<Rightarrow> (ResultPackageMetadata \<times> ResultManifest) result" where
  "decodeResultMetadata manifestBytes manifestSize manifestSHA256 parts =
     (let metadata = \<lparr>md_Manifest = manifestBytes,
            md_ManifestDescriptor = \<lparr>rd_Kind = ResultPackagePartManifest, rd_Size = manifestSize, rd_SHA256 = manifestSHA256\<rparr>\<rparr> in
      case DecodeManifest metadata of
        Inl e \<Rightarrow> Inl (Wrapped ''stored result package metadata is invalid'' e)
      | Inr manifest \<Rightarrow>
          guard_res (fail_if (elems parts \<noteq> elems (rm_Parts manifest))
              (Plain ''stored result package descriptors do not match the manifest''))
            (Inr (metadata, manifest)))"

definition outbox_struct :: "OutboxRow \<Rightarrow> ResultPackageMetadata \<Rightarrow> ResultManifest \<Rightarrow> ResultOutbox" where
  "outbox_struct r metadata manifest =
     \<lparr>rob_Key = ob_key r, rob_State = ob_state r, rob_Metadata = metadata, rob_Manifest = manifest,
      rob_ReservationLimitBytes = ob_reservation_limit_bytes r, rob_ReservedBytes = ob_reserved_bytes r,
      rob_PackageBytes = ob_package_bytes r, rob_DeliverySequence = ob_delivery_sequence r,
      rob_CreatedAt = ob_created_at r, rob_UpdatedAt = ob_updated_at r\<rparr>"

definition valid_outbox :: "ResultOutbox \<Rightarrow> ResultOutbox result" where
  "valid_outbox r = guard_res (wrap ''stored result outbox is invalid'' (ResultOutbox_Validate r)) (Inr r)"

definition scanResultOutbox :: "OutboxRow option \<Rightarrow> ResultOutbox result" where
  "scanResultOutbox row =
     (case row of
        None \<Rightarrow> Inl (Sentinel ErrNotFound)
      | Some r \<Rightarrow>
          if ob_state r \<noteq> ResultOutboxCapturePending
          then (case decodeResultMetadata (ob_manifest_bytes r) (ob_manifest_size_bytes r) (ob_manifest_sha256 r) (ob_parts_json r) of
                  Inl e \<Rightarrow> Inl e
                | Inr (metadata, manifest) \<Rightarrow>
                    if ob_managed_thread_id r \<noteq> rm_ManagedThreadID manifest \<or> ob_turn_id r \<noteq> rm_TurnID manifest
                       \<or> ob_lifecycle_revision r \<noteq> rm_LifecycleRevision manifest
                    then Inl (Plain ''stored result outbox identity columns do not match its manifest'')
                    else valid_outbox (outbox_struct r metadata manifest))
          else if ob_managed_thread_id r \<noteq> '''' \<or> ob_turn_id r \<noteq> '''' \<or> ob_lifecycle_revision r \<noteq> 0
          then Inl (Plain ''capture-pending result outbox contains turn identity'')
          else valid_outbox (outbox_struct r zero_metadata zero_manifest))"

definition outbox_captured :: "OutboxRow \<Rightarrow> bool" where
  "outbox_captured r \<longleftrightarrow>
     ob_managed_thread_id r \<noteq> '''' \<and> ob_turn_id r \<noteq> '''' \<and> 0 < ob_lifecycle_revision r
     \<and> int (length (ob_manifest_bytes r)) = ob_manifest_size_bytes r \<and> 0 < ob_manifest_size_bytes r
     \<and> lower_hex 32 (ob_manifest_sha256 r) \<and> ob_package_bytes r \<le> ob_reservation_limit_bytes r
     \<and> ob_reserved_bytes r = ob_package_bytes r \<and> 0 < ob_package_bytes r"

definition outbox_checks :: "OutboxRow \<Rightarrow> bool" where
  "outbox_checks r \<longleftrightarrow>
     length (obk_SourceDeviceID (ob_key r)) = 36 \<and> length (obk_PackageID (ob_key r)) = 36
     \<and> 0 \<le> ob_manifest_size_bytes r \<and> ob_manifest_size_bytes r \<le> MaximumResultManifestBytes
     \<and> 1 \<le> ob_reservation_limit_bytes r \<and> ob_reservation_limit_bytes r \<le> MaximumResultPackageBytes
     \<and> 1 \<le> ob_reserved_bytes r \<and> ob_reserved_bytes r \<le> MaximumResultPackageBytes
     \<and> 0 \<le> ob_package_bytes r \<and> ob_package_bytes r \<le> MaximumResultPackageBytes
     \<and> 0 \<le> ob_created_at r \<and> ob_created_at r \<le> ob_updated_at r
     \<and> (case ob_state r of
          ResultOutboxCapturePending \<Rightarrow>
            ob_managed_thread_id r = '''' \<and> ob_turn_id r = '''' \<and> ob_lifecycle_revision r = 0 \<and> ob_manifest_bytes r = ''''
            \<and> ob_manifest_size_bytes r = 0 \<and> ob_manifest_sha256 r = '''' \<and> ob_parts_json r = Some []
            \<and> ob_reserved_bytes r = ob_reservation_limit_bytes r \<and> ob_package_bytes r = 0 \<and> ob_delivery_sequence r = 0
        | ResultOutboxPublishPending \<Rightarrow> outbox_captured r \<and> ob_delivery_sequence r = 0
        | ResultOutboxDeliveryPending \<Rightarrow> outbox_captured r \<and> ob_delivery_sequence r = 0
        | ResultOutboxDelivered \<Rightarrow> outbox_captured r \<and> 0 < ob_delivery_sequence r
        | ResultOutboxReleasePending \<Rightarrow> outbox_captured r \<and> 0 < ob_delivery_sequence r
        | ResultOutboxState_other s \<Rightarrow> False)"

end
