(* ===== verification/PeerDb.thy ===== *)
theory PeerDb
  imports Peer "HOL-Library.Product_Lexorder"
begin

text \<open>
  The peer's SQLite state and what every statement on it obeys: a write succeeds when the tables
  it leaves satisfy the schema's CHECK, UNIQUE and FOREIGN KEY constraints, and fails otherwise. The
  bounds on text columns that the validators repeat are left out. The queries scan one row and
  validate it.
\<close>

record PeerDb =
  worker_revision :: nat
  worker_readiness :: "WorkerReadiness option"
  prepared_workspaces :: "PreparedWorkspace list"
  worker_reservations :: "WorkerReservation list"
  worker_operation_receipts :: "WorkerOperationReceipt list"
  worker_turn_start_intents :: "WorkerTurnStartIntent list"
  peer_changes_artifacts :: "ChangesArtifact list"
  peer_result_outbox :: "OutboxRow list"

definition peerSchemaCurrent :: PeerDb where
  "peerSchemaCurrent =
     \<lparr>worker_revision = 0, worker_readiness = None, prepared_workspaces = [], worker_reservations = [],
      worker_operation_receipts = [], worker_turn_start_intents = [], peer_changes_artifacts = [], peer_result_outbox = []\<rparr>"

section \<open>Constraints\<close>

definition readiness_checks :: "WorkerReadiness \<Rightarrow> bool" where
  "readiness_checks r \<longleftrightarrow>
     1 \<le> wr_Epoch r \<and> int (wr_Epoch r) \<le> MaxInt64
     \<and> wr_State r \<in> {WorkerReadinessPending, WorkerReadinessReady, WorkerReadinessInterventionRequired}
     \<and> 0 \<le> wr_AttemptCount r \<and> wr_AttemptCount r \<le> 5
     \<and> lower_hex 32 (wr_RuntimeDigest r) \<and> lower_hex 32 (wr_ConfigDigest r)
     \<and> 0 < wr_EpochStartedAt r \<and> 0 \<le> wr_NextAttemptAt r \<and> 0 \<le> wr_LastAttemptAt r
     \<and> length (wr_FailureCode r) \<le> 64 \<and> 0 \<le> wr_UpdatedAt r"

definition receipt_checks :: "WorkerOperationReceipt \<Rightarrow> bool" where
  "receipt_checks r \<longleftrightarrow>
     action_valid (wo_Action r) \<and> lower_hex 32 (wo_PayloadDigest r)
     \<and> 0 \<le> wo_CreatedAt r \<and> wo_CreatedAt r \<le> wo_UpdatedAt r
     \<and> (wo_Status r = WorkerOperationPending \<and> wo_Outcome r = WorkerOutcomePending \<and> wo_FailureCode r = ''''
        \<or> wo_Status r = WorkerOperationSucceeded \<and> outcome_successful (wo_Outcome r) \<and> wo_FailureCode r = ''''
        \<or> wo_Status r = WorkerOperationFailed \<and> wo_Outcome r = WorkerOutcomeFailed \<and> wo_FailureCode r \<noteq> '''')"

definition workspace_table :: "PreparedWorkspace list \<Rightarrow> bool" where
  "workspace_table rows \<longleftrightarrow> list_all workspace_checks rows \<and> uniq pws_Key rows"

definition worker_table :: "WorkerReservation list \<Rightarrow> bool" where
  "worker_table rows \<longleftrightarrow>
     list_all worker_checks rows \<and> uniq w_Key rows
     \<and> uniq (\<lambda>w. (wk_ControllerID (w_Key w), w_CodexThreadID w)) (filter (\<lambda>w. w_CodexThreadID w \<noteq> '''') rows)"

definition receipt_table :: "WorkerOperationReceipt list \<Rightarrow> bool" where
  "receipt_table rows \<longleftrightarrow>
     list_all receipt_checks rows \<and> uniq (\<lambda>r. (wk_ControllerID (wo_Key r), wo_OperationID r)) rows"

definition intent_table :: "WorkerTurnStartIntent list \<Rightarrow> bool" where
  "intent_table rows \<longleftrightarrow>
     list_all intent_checks rows \<and> uniq ti_IntentID rows \<and> uniq ti_PackageID rows
     \<and> uniq ti_Key (filter (\<lambda>i. ti_State i = WorkerTurnStartPrepared) rows)
     \<and> uniq (\<lambda>i. (wk_ControllerID (ti_Key i), ti_OperationID i)) (filter (\<lambda>i. ti_OperationID i \<noteq> '''') rows)
     \<and> uniq (\<lambda>i. (ti_Key i, ti_TurnID i)) (filter (\<lambda>i. ti_TurnID i \<noteq> '''') rows)"

definition artifact_table :: "ChangesArtifact list \<Rightarrow> bool" where
  "artifact_table rows \<longleftrightarrow>
     list_all artifact_checks rows \<and> uniq ca_ArtifactID rows \<and> uniq (\<lambda>a. (ca_Key a, ca_TurnID a)) rows"

definition outbox_table :: "OutboxRow list \<Rightarrow> bool" where
  "outbox_table rows \<longleftrightarrow>
     list_all outbox_checks rows \<and> uniq (\<lambda>r. obk_PackageID (ob_key r)) rows
     \<and> uniq (\<lambda>r. (obk_Worker (ob_key r), ob_turn_id r)) (filter (\<lambda>r. ob_turn_id r \<noteq> '''') rows)"

definition worker_keys :: "PeerDb \<Rightarrow> WorkerKey set" where
  "worker_keys s = w_Key ` set (worker_reservations s)"

definition foreign_keys :: "PeerDb \<Rightarrow> bool" where
  "foreign_keys s \<longleftrightarrow>
     wo_Key ` set (worker_operation_receipts s) \<subseteq> worker_keys s
     \<and> ti_Key ` set (worker_turn_start_intents s) \<subseteq> worker_keys s
     \<and> ca_Key ` set (peer_changes_artifacts s) \<subseteq> worker_keys s
     \<and> (\<lambda>r. obk_Worker (ob_key r)) ` set (peer_result_outbox s) \<subseteq> worker_keys s"

definition peer_constraints :: "PeerDb \<Rightarrow> bool" where
  "peer_constraints s \<longleftrightarrow>
     pred_option readiness_checks (worker_readiness s) \<and> workspace_table (prepared_workspaces s)
     \<and> worker_table (worker_reservations s) \<and> receipt_table (worker_operation_receipts s)
     \<and> intent_table (worker_turn_start_intents s) \<and> artifact_table (peer_changes_artifacts s)
     \<and> outbox_table (peer_result_outbox s) \<and> foreign_keys s"

text \<open>A statement that writes: the constraints of the state it leaves, and the number of rows it touched.\<close>

definition tx_modify :: "string \<Rightarrow> (PeerDb \<Rightarrow> nat) \<Rightarrow> (PeerDb \<Rightarrow> PeerDb) \<Rightarrow> (PeerDb, nat) tx" where
  "tx_modify m count f s =
     (if peer_constraints (f s) then Inr (count s, f s) else Inl (Wrapped m (SqlConstraint m)))"

lemma tx_modify_Inr [simp, tx_intros]:
  "tx_modify m count f s = Inr (n, s') \<longleftrightarrow> peer_constraints (f s) \<and> n = count s \<and> s' = f s"
  by (auto simp: tx_modify_def)

lemma tx_preserves_modify [tx_frame]: "(\<And>s. g (f s) = g s) \<Longrightarrow> tx_preserves g (tx_modify m count f)"
  by (auto simp: tx_preserves_def)

section \<open>Queries\<close>

definition nextWorkerRevision :: "(PeerDb, nat) tx" where
  "nextWorkerRevision s =
     (if int (worker_revision s) < 9223372036854775807
      then Inr (worker_revision s + 1, s\<lparr>worker_revision := worker_revision s + 1\<rparr>)
      else Inl (Plain ''worker revision is exhausted''))"

lemma nextWorkerRevision_Inr [simp, tx_intros]:
  "nextWorkerRevision s = Inr (n, s') \<longleftrightarrow>
     int (worker_revision s) < 9223372036854775807 \<and> n = worker_revision s + 1 \<and> s' = s\<lparr>worker_revision := n\<rparr>"
  by (auto simp: nextWorkerRevision_def)

text \<open>A scan: no row, or a row with its validation.\<close>

definition scan :: "string \<Rightarrow> ('r \<Rightarrow> err) \<Rightarrow> 'r option \<Rightarrow> 'r result" where
  "scan m validate row =
     (case row of
        None \<Rightarrow> Inl (Sentinel ErrNotFound)
      | Some r \<Rightarrow> guard_res (wrap m (validate r)) (Inr r))"

lemma scan_Inr [simp]: "scan m v row = Inr r \<longleftrightarrow> row = Some r \<and> v r = None"
  by (auto simp: scan_def split: option.splits)

definition scanWorker :: "WorkerReservation option \<Rightarrow> WorkerReservation result" where
  "scanWorker = scan ''stored worker reservation is invalid'' WorkerReservation_Validate"

definition queryWorker :: "WorkerKey \<Rightarrow> PeerDb \<Rightarrow> WorkerReservation result" where
  "queryWorker key s = scanWorker (sel1 (\<lambda>w. w_Key w = key) (worker_reservations s))"

definition queryWorkerByThread :: "string \<Rightarrow> string \<Rightarrow> PeerDb \<Rightarrow> WorkerReservation result" where
  "queryWorkerByThread controllerID threadID s =
     scanWorker (sel1 (\<lambda>w. wk_ControllerID (w_Key w) = controllerID \<and> w_CodexThreadID w = threadID) (worker_reservations s))"

definition scanWorkerOperation :: "WorkerOperationReceipt option \<Rightarrow> WorkerOperationReceipt result" where
  "scanWorkerOperation = scan ''stored worker operation receipt is invalid'' WorkerOperationReceipt_Validate"

definition queryWorkerOperation :: "string \<Rightarrow> string \<Rightarrow> PeerDb \<Rightarrow> WorkerOperationReceipt result" where
  "queryWorkerOperation controllerID operationID s =
     scanWorkerOperation (sel1 (\<lambda>r. wk_ControllerID (wo_Key r) = controllerID \<and> wo_OperationID r = operationID)
       (worker_operation_receipts s))"

definition queryPreparedWorkspace :: "PreparedWorkspaceKey \<Rightarrow> PeerDb \<Rightarrow> PreparedWorkspace result" where
  "queryPreparedWorkspace key s =
     guard_res (PreparedWorkspaceKey_Validate key)
       (scan ''stored prepared workspace is invalid'' PreparedWorkspace_Validate
         (sel1 (\<lambda>w. pws_Key w = key) (prepared_workspaces s)))"

definition scanWorkerTurnStartIntent :: "WorkerTurnStartIntent option \<Rightarrow> WorkerTurnStartIntent result" where
  "scanWorkerTurnStartIntent = scan ''stored worker turn-start intent is invalid'' WorkerTurnStartIntent_Validate"

definition queryWorkerTurnStartIntent :: "WorkerKey \<Rightarrow> string \<Rightarrow> PeerDb \<Rightarrow> WorkerTurnStartIntent result" where
  "queryWorkerTurnStartIntent key intentID s =
     scanWorkerTurnStartIntent (sel1 (\<lambda>i. ti_Key i = key \<and> ti_IntentID i = intentID) (worker_turn_start_intents s))"

definition queryWorkerTurnStartIntentByID :: "string \<Rightarrow> PeerDb \<Rightarrow> WorkerTurnStartIntent result" where
  "queryWorkerTurnStartIntentByID intentID s =
     scanWorkerTurnStartIntent (sel1 (\<lambda>i. ti_IntentID i = intentID) (worker_turn_start_intents s))"

definition queryWorkerTurnStartIntentByPackage :: "string \<Rightarrow> PeerDb \<Rightarrow> WorkerTurnStartIntent result" where
  "queryWorkerTurnStartIntentByPackage packageID s =
     scanWorkerTurnStartIntent (sel1 (\<lambda>i. ti_PackageID i = packageID) (worker_turn_start_intents s))"

definition queryPreparedWorkerTurnStartIntent :: "WorkerKey \<Rightarrow> PeerDb \<Rightarrow> WorkerTurnStartIntent result" where
  "queryPreparedWorkerTurnStartIntent key s =
     scanWorkerTurnStartIntent
       (sel1 (\<lambda>i. ti_Key i = key \<and> ti_State i = WorkerTurnStartPrepared) (worker_turn_start_intents s))"

definition queryPreparedWorkerTurnStartIntentByOperation ::
    "string \<Rightarrow> string \<Rightarrow> PeerDb \<Rightarrow> WorkerTurnStartIntent result" where
  "queryPreparedWorkerTurnStartIntentByOperation controllerID operationID s =
     scanWorkerTurnStartIntent
       (sel1 (\<lambda>i. wk_ControllerID (ti_Key i) = controllerID \<and> ti_OperationID i = operationID
                  \<and> ti_State i = WorkerTurnStartPrepared) (worker_turn_start_intents s))"

definition queryWorkerTurnStartIntentByTurn :: "WorkerKey \<Rightarrow> string \<Rightarrow> PeerDb \<Rightarrow> WorkerTurnStartIntent result" where
  "queryWorkerTurnStartIntentByTurn key turnID s =
     scanWorkerTurnStartIntent (sel1 (\<lambda>i. ti_Key i = key \<and> ti_TurnID i = turnID) (worker_turn_start_intents s))"

definition queryResultOutbox :: "ResultOutboxKey \<Rightarrow> PeerDb \<Rightarrow> ResultOutbox result" where
  "queryResultOutbox key s = scanResultOutbox (sel1 (\<lambda>r. ob_key r = key) (peer_result_outbox s))"

definition queryResultOutboxByPackage :: "string \<Rightarrow> PeerDb \<Rightarrow> ResultOutbox result" where
  "queryResultOutboxByPackage packageID s =
     guard_res (wrap ''packageId'' (ValidateID packageID))
       (scanResultOutbox (sel1 (\<lambda>r. obk_PackageID (ob_key r) = packageID) (peer_result_outbox s)))"

definition scanPeerChangesArtifact :: "ChangesArtifact option \<Rightarrow> ChangesArtifact result" where
  "scanPeerChangesArtifact = scan ''stored changes artifact is invalid'' ChangesArtifact_Validate"

definition queryPeerChangesArtifact :: "WorkerKey \<Rightarrow> string \<Rightarrow> PeerDb \<Rightarrow> ChangesArtifact result" where
  "queryPeerChangesArtifact key artifactID s =
     scanPeerChangesArtifact (sel1 (\<lambda>a. ca_Key a = key \<and> ca_ArtifactID a = artifactID) (peer_changes_artifacts s))"

definition queryPeerChangesArtifactByTurn :: "WorkerKey \<Rightarrow> string \<Rightarrow> PeerDb \<Rightarrow> ChangesArtifact result" where
  "queryPeerChangesArtifactByTurn key turnID s =
     scanPeerChangesArtifact (sel1 (\<lambda>a. ca_Key a = key \<and> ca_TurnID a = turnID) (peer_changes_artifacts s))"

definition queryPeerWorkerReadiness :: "PeerDb \<Rightarrow> WorkerReadiness result" where
  "queryPeerWorkerReadiness s = scan ''invalid stored worker readiness'' WorkerReadiness_Validate (worker_readiness s)"

end
