(* ===== verification/PeerWorker.thy ===== *)
theory PeerWorker
  imports PeerDb
begin

text \<open>
  Reservations of worker slots and their lifecycle transitions
  (\<^verbatim>\<open>internal/store/worker_reservation.go\<close>), prepared workspaces (\<^verbatim>\<open>prepared_workspace.go\<close>), operation
  receipts (\<^verbatim>\<open>worker_operation.go\<close>) and the peer's readiness record (\<^verbatim>\<open>peer_worker_readiness.go\<close>).
\<close>

section \<open>Readiness epochs\<close>

definition readiness_seed :: "string \<Rightarrow> string \<Rightarrow> int \<Rightarrow> WorkerReadiness" where
  "readiness_seed runtimeDigest configDigest nowMillis =
     \<lparr>wr_Epoch = 1, wr_State = WorkerReadinessPending, wr_AttemptCount = 0, wr_RuntimeDigest = runtimeDigest,
      wr_ConfigDigest = configDigest, wr_EpochStartedAt = nowMillis, wr_NextAttemptAt = nowMillis, wr_LastAttemptAt = 0,
      wr_FailureCode = '''', wr_UpdatedAt = nowMillis\<rparr>"

definition store_readiness :: "WorkerReadiness \<Rightarrow> (PeerDb, WorkerReadiness) tx" where
  "store_readiness r =
     tx_bind (tx_modify ''create worker readiness epoch'' (\<lambda>s. 1) (\<lambda>s. s\<lparr>worker_readiness := Some r\<rparr>)) (\<lambda>_. tx_ret r)"

definition ensure_readiness_tx :: "WorkerReadiness \<Rightarrow> bool \<Rightarrow> (PeerDb, WorkerReadiness) tx" where
  "ensure_readiness_tx seed force =
     tx_bind (tx_query (\<lambda>s. or_not_found (queryPeerWorkerReadiness s))) (\<lambda>current.
       case current of
         None \<Rightarrow> store_readiness seed
       | Some c \<Rightarrow>
           if \<not> force \<and> wr_RuntimeDigest c = wr_RuntimeDigest seed \<and> wr_ConfigDigest c = wr_ConfigDigest seed
           then tx_ret c
           else if wr_Epoch c = 2 ^ 63 - 1 then tx_fail (Plain ''worker readiness epoch exhausted'')
           else store_readiness (seed\<lparr>wr_Epoch := wr_Epoch c + 1\<rparr>))"

definition ensureWorkerReadinessEpoch ::
    "string \<Rightarrow> string \<Rightarrow> int \<Rightarrow> bool \<Rightarrow> PeerDb \<Rightarrow> WorkerReadiness result \<times> PeerDb" where
  "ensureWorkerReadinessEpoch runtimeDigest configDigest nowMillis force =
     (let seed = readiness_seed runtimeDigest configDigest nowMillis in
      guard_tx (WorkerReadiness_Validate seed) (ensure_readiness_tx seed force))"

definition EnsureWorkerReadinessEpoch :: "string \<Rightarrow> string \<Rightarrow> int \<Rightarrow> PeerDb \<Rightarrow> WorkerReadiness result \<times> PeerDb" where
  "EnsureWorkerReadinessEpoch runtimeDigest configDigest nowMillis =
     ensureWorkerReadinessEpoch runtimeDigest configDigest nowMillis False"

definition RecheckWorkerReadiness :: "string \<Rightarrow> string \<Rightarrow> int \<Rightarrow> PeerDb \<Rightarrow> WorkerReadiness result \<times> PeerDb" where
  "RecheckWorkerReadiness runtimeDigest configDigest nowMillis =
     ensureWorkerReadinessEpoch runtimeDigest configDigest nowMillis True"

text \<open>An UPDATE of the singleton row, guarded by a condition on it.\<close>

definition update_readiness ::
    "string \<Rightarrow> (WorkerReadiness \<Rightarrow> bool) \<Rightarrow> (WorkerReadiness \<Rightarrow> WorkerReadiness) \<Rightarrow> (PeerDb, nat) tx" where
  "update_readiness m guard f =
     tx_modify m (\<lambda>s. case worker_readiness s of Some r \<Rightarrow> (if guard r then 1 else 0) | None \<Rightarrow> 0)
       (\<lambda>s. s\<lparr>worker_readiness := map_option (\<lambda>r. if guard r then f r else r) (worker_readiness s)\<rparr>)"

definition failed_readiness :: "WorkerReadiness \<Rightarrow> string \<Rightarrow> int \<Rightarrow> WorkerReadiness" where
  "failed_readiness c failureCode nowMillis =
     c\<lparr>wr_State := WorkerReadinessInterventionRequired, wr_NextAttemptAt := 0, wr_FailureCode := failureCode,
       wr_UpdatedAt := (if nowMillis \<le> wr_UpdatedAt c then add_int64 (wr_UpdatedAt c) 1 else nowMillis)\<rparr>"

definition FailWorkerReadiness :: "string \<Rightarrow> int \<Rightarrow> PeerDb \<Rightarrow> WorkerReadiness result \<times> PeerDb" where
  "FailWorkerReadiness failureCode nowMillis =
     withImmediateTransaction
       (tx_bind (tx_query queryPeerWorkerReadiness) (\<lambda>current.
        let c = failed_readiness current failureCode nowMillis in
        tx_bind (tx_check (WorkerReadiness_Validate c)) (\<lambda>_.
        tx_bind (update_readiness ''fail worker readiness''
          (\<lambda>r. wr_Epoch r = wr_Epoch c \<and> wr_UpdatedAt r < wr_UpdatedAt c)
          (\<lambda>r. r\<lparr>wr_State := wr_State c, wr_NextAttemptAt := 0, wr_FailureCode := wr_FailureCode c, wr_UpdatedAt := wr_UpdatedAt c\<rparr>))
        (\<lambda>changed. if changed \<noteq> 1 then tx_fail (Sentinel ErrWorkerReadinessStale) else tx_ret c))))"

definition UpdateWorkerReadiness :: "nat \<Rightarrow> WorkerReadiness \<Rightarrow> PeerDb \<Rightarrow> WorkerReadiness result \<times> PeerDb" where
  "UpdateWorkerReadiness expectedEpoch readiness =
     guard_tx (first_err [WorkerReadiness_Validate readiness,
         fail_if (wr_Epoch readiness \<noteq> expectedEpoch) (Sentinel ErrWorkerReadinessStale)])
       (tx_bind (update_readiness ''update worker readiness''
          (\<lambda>r. wr_Epoch r = expectedEpoch \<and> wr_RuntimeDigest r = wr_RuntimeDigest readiness
               \<and> wr_ConfigDigest r = wr_ConfigDigest readiness \<and> wr_EpochStartedAt r = wr_EpochStartedAt readiness
               \<and> wr_UpdatedAt r < wr_UpdatedAt readiness)
          (\<lambda>r. r\<lparr>wr_State := wr_State readiness, wr_AttemptCount := wr_AttemptCount readiness,
             wr_NextAttemptAt := wr_NextAttemptAt readiness, wr_LastAttemptAt := wr_LastAttemptAt readiness,
             wr_FailureCode := wr_FailureCode readiness, wr_UpdatedAt := wr_UpdatedAt readiness\<rparr>))
        (\<lambda>changed. if changed \<noteq> 1 then tx_fail (Sentinel ErrWorkerReadinessStale) else tx_ret readiness))"

section \<open>Prepared workspaces\<close>

definition validateNewPreparedWorkspace :: "PreparedWorkspace \<Rightarrow> err" where
  "validateNewPreparedWorkspace w =
     first_err
       [fail_if (pws_Status w \<noteq> PreparedWorkspaceStatus_other '''' \<or> pws_ClaimedAgentID w \<noteq> '''' \<or> pws_CreatedAt w \<noteq> 0 \<or> pws_UpdatedAt w \<noteq> 0)
          (Plain ''new prepared workspace must not contain lifecycle state''),
        PreparedWorkspace_Validate (w\<lparr>pws_Status := PreparedWorkspaceReady\<rparr>)]"

definition RecordPreparedWorkspace :: "PreparedWorkspace \<Rightarrow> int \<Rightarrow> PeerDb \<Rightarrow> PreparedWorkspace result \<times> PeerDb" where
  "RecordPreparedWorkspace workspace createdAt =
     guard_tx (first_err [validateNewPreparedWorkspace workspace, unixTime createdAt ''createdAt''])
       (let w = workspace\<lparr>pws_Status := PreparedWorkspaceReady, pws_CreatedAt := createdAt, pws_UpdatedAt := createdAt\<rparr> in
        tx_bind (tx_query (\<lambda>s. or_not_found (queryPreparedWorkspace (pws_Key w) s))) (\<lambda>stored.
        case stored of
          Some x \<Rightarrow>
            if \<not> samePreparedWorkspace x w then tx_fail (Sentinel ErrWorkerReservationConflict) else tx_ret x
        | None \<Rightarrow>
            tx_bind (tx_modify ''record prepared workspace'' (\<lambda>s. 1)
              (\<lambda>s. s\<lparr>prepared_workspaces := prepared_workspaces s @ [w]\<rparr>)) (\<lambda>_.
            tx_ret w)))"

definition GetPreparedWorkspace :: "PreparedWorkspaceKey \<Rightarrow> PeerDb \<Rightarrow> PreparedWorkspace result" where
  "GetPreparedWorkspace key s = guard_res (PreparedWorkspaceKey_Validate key) (queryPreparedWorkspace key s)"

definition ListPreparedWorkspaces :: "PeerDb \<Rightarrow> PreparedWorkspace list result" where
  "ListPreparedWorkspaces s =
     traverse (\<lambda>w. scan ''stored prepared workspace is invalid'' PreparedWorkspace_Validate (Some w))
       (sort_key (\<lambda>w. (pws_CreatedAt w, pk_ControllerID (pws_Key w), pk_TreeID (pws_Key w), pk_WorkspaceID (pws_Key w)))
         (prepared_workspaces s))"

section \<open>Reserving a slot\<close>

definition occupied :: "WorkerStatus \<Rightarrow> bool" where
  "occupied st \<longleftrightarrow>
     st \<in> {WorkerReserved, WorkerStarting, WorkerPreflight, WorkerReady, WorkerRunning, WorkerFinalizing}"

definition active_workers :: "PeerDb \<Rightarrow> nat" where
  "active_workers s = length (filter (\<lambda>w. occupied (w_Status w)) (worker_reservations s))"

definition requireWorkerSlot :: "int \<Rightarrow> PeerDb \<Rightarrow> unit result" where
  "requireWorkerSlot maxActive s =
     (if int (active_workers s) \<ge> maxActive then Inl (Sentinel ErrWorkerBusy) else Inr ())"

definition validateNewWorkerReservation :: "WorkerReservation \<Rightarrow> err" where
  "validateNewWorkerReservation w =
     first_err
       [fail_if (w_Status w \<noteq> no_status \<or> w_RetryTarget w \<noteq> no_status \<or> w_CodexThreadID w \<noteq> '''' \<or> w_ActiveTurnID w \<noteq> ''''
                 \<or> w_LastBoundTurnID w \<noteq> '''' \<or> w_FailureCode w \<noteq> '''' \<or> w_FinalTarget w \<noteq> no_status \<or> w_FinalFailureCode w \<noteq> ''''
                 \<or> w_Revision w \<noteq> 0 \<or> w_CreatedAt w \<noteq> 0 \<or> w_UpdatedAt w \<noteq> 0)
          (Plain ''new worker reservation must not contain lifecycle state''),
        WorkerReservation_Validate (w\<lparr>w_Status := WorkerReserved, w_Revision := 1\<rparr>)]"

definition sameWorkerReservation :: "WorkerReservation \<Rightarrow> WorkerReservation \<Rightarrow> bool" where
  "sameWorkerReservation stored requested \<longleftrightarrow>
     w_Key stored = w_Key requested \<and> w_ParentAgentID stored = w_ParentAgentID requested
     \<and> w_DeviceID stored = w_DeviceID requested \<and> w_TaskName stored = w_TaskName requested
     \<and> w_PromptDigest stored = w_PromptDigest requested \<and> w_WorkspaceID stored = w_WorkspaceID requested
     \<and> w_WorkspacePath stored = w_WorkspacePath requested \<and> w_WorkingDirectory stored = w_WorkingDirectory requested
     \<and> w_ProfileVersion stored = w_ProfileVersion requested"

definition prepared_key :: "WorkerReservation \<Rightarrow> PreparedWorkspaceKey" where
  "prepared_key w =
     \<lparr>pk_ControllerID = wk_ControllerID (w_Key w), pk_TreeID = wk_TreeID (w_Key w), pk_WorkspaceID = w_WorkspaceID w\<rparr>"

definition claimed_row :: "WorkerReservation \<Rightarrow> int \<Rightarrow> PreparedWorkspace \<Rightarrow> PreparedWorkspace" where
  "claimed_row w timestamp p =
     p\<lparr>pws_Status := PreparedWorkspaceClaimed, pws_ClaimedAgentID := wk_AgentID (w_Key w), pws_UpdatedAt := timestamp\<rparr>"

definition claim_workspace :: "WorkerReservation \<Rightarrow> int \<Rightarrow> (PeerDb, unit) tx" where
  "claim_workspace w timestamp =
     tx_bind (tx_query (queryPreparedWorkspace (prepared_key w))) (\<lambda>workspace.
       if pws_TargetDeviceID workspace \<noteq> w_DeviceID w \<or> pws_WorkspacePath workspace \<noteq> w_WorkspacePath w
          \<or> pws_WorkingDirectory workspace \<noteq> w_WorkingDirectory w
       then tx_fail (Sentinel ErrWorkerReservationConflict)
       else case pws_Status workspace of
         PreparedWorkspaceClaimed \<Rightarrow>
           if pws_ClaimedAgentID workspace \<noteq> wk_AgentID (w_Key w) then tx_fail (Sentinel ErrWorkerReservationConflict) else tx_ret ()
       | PreparedWorkspaceReady \<Rightarrow>
           tx_bind (tx_modify ''claim prepared workspace'' (\<lambda>s. 1)
             (\<lambda>s. s\<lparr>prepared_workspaces :=
                upd (\<lambda>p. pws_Key p = prepared_key w \<and> pws_Status p = PreparedWorkspaceReady) (claimed_row w timestamp)
                  (prepared_workspaces s)\<rparr>)) (\<lambda>_. tx_ret ())
       | PreparedWorkspaceStatus_other v \<Rightarrow> tx_fail (Plain ''prepared workspace has an unsupported status''))"

definition reserve_tx :: "WorkerReservation \<Rightarrow> int \<Rightarrow> bool \<Rightarrow> (PeerDb, WorkerReservation) tx" where
  "reserve_tx reservation maxActive claimWorkspace =
     tx_bind (tx_query (\<lambda>s. or_not_found (queryWorker (w_Key reservation) s))) (\<lambda>found.
       case found of
         Some stored \<Rightarrow>
           if \<not> sameWorkerReservation stored reservation then tx_fail (Sentinel ErrWorkerReservationConflict)
           else if w_Status stored = w_Status reservation then tx_ret stored
           else tx_fail (Wrapped ''existing worker state differs'' (Sentinel ErrWorkerTransition))
       | None \<Rightarrow>
           tx_bind (tx_query (requireWorkerSlot maxActive)) (\<lambda>_.
           tx_bind (if claimWorkspace then claim_workspace reservation (w_CreatedAt reservation) else tx_ret ()) (\<lambda>_.
           tx_bind nextWorkerRevision (\<lambda>revision.
           let w = reservation\<lparr>w_Revision := revision\<rparr> in
           tx_bind (tx_modify ''create worker reservation'' (\<lambda>s. 1)
             (\<lambda>s. s\<lparr>worker_reservations := worker_reservations s @ [w]\<rparr>)) (\<lambda>_.
           tx_ret w)))))"

definition new_reservation :: "WorkerReservation \<Rightarrow> WorkerStatus \<Rightarrow> int \<Rightarrow> WorkerReservation" where
  "new_reservation reservation initialStatus timestamp =
     reservation\<lparr>w_Status := initialStatus,
       w_RetryTarget := (if initialStatus = WorkerStarting then WorkerPending else w_RetryTarget reservation),
       w_CreatedAt := timestamp, w_UpdatedAt := timestamp\<rparr>"

definition reserveWorker ::
    "WorkerReservation \<Rightarrow> int \<Rightarrow> int \<Rightarrow> WorkerStatus \<Rightarrow> bool \<Rightarrow> PeerDb \<Rightarrow> WorkerReservation result \<times> PeerDb" where
  "reserveWorker reservation maxActive observedAt initialStatus claimWorkspace =
     guard_tx (first_err
         [validateNewWorkerReservation reservation,
          fail_if (initialStatus \<noteq> WorkerReserved \<and> initialStatus \<noteq> WorkerStarting) (Plain ''initial worker status is invalid''),
          fail_if (maxActive < 1) (Plain ''maxActive must be positive''),
          unixTime observedAt ''observedAt''])
       (reserve_tx (new_reservation reservation initialStatus observedAt) maxActive claimWorkspace)"

definition ReserveWorker :: "WorkerReservation \<Rightarrow> int \<Rightarrow> int \<Rightarrow> PeerDb \<Rightarrow> WorkerReservation result \<times> PeerDb" where
  "ReserveWorker reservation maxActive observedAt = reserveWorker reservation maxActive observedAt WorkerReserved False"

definition ReserveWorkerStart :: "WorkerReservation \<Rightarrow> int \<Rightarrow> int \<Rightarrow> PeerDb \<Rightarrow> WorkerReservation result \<times> PeerDb" where
  "ReserveWorkerStart reservation maxActive observedAt = reserveWorker reservation maxActive observedAt WorkerStarting False"

definition ReserveWorkerStartWithWorkspace :: "WorkerReservation \<Rightarrow> int \<Rightarrow> int \<Rightarrow> PeerDb \<Rightarrow> WorkerReservation result \<times> PeerDb" where
  "ReserveWorkerStartWithWorkspace reservation maxActive observedAt s =
     (if w_WorkspaceID reservation = '''' then (Inl (Plain ''prepared workspace ID is required''), s)
      else reserveWorker reservation maxActive observedAt WorkerStarting True s)"

section \<open>Lifecycle transitions\<close>

definition requireNoUnresolvedWorkerTurnStartIntent :: "WorkerReservation \<Rightarrow> PeerDb \<Rightarrow> unit result" where
  "requireNoUnresolvedWorkerTurnStartIntent worker s =
     (case or_not_found (queryPreparedWorkerTurnStartIntent (w_Key worker) s) of
        Inl e \<Rightarrow> Inl e
      | Inr (Some i) \<Rightarrow> Inl (Sentinel ErrWorkerTurnStartIntentConflict)
      | Inr None \<Rightarrow>
          if w_ActiveTurnID worker = '''' then Inr ()
          else case or_not_found (queryWorkerTurnStartIntentByTurn (w_Key worker) (w_ActiveTurnID worker) s) of
            Inl e \<Rightarrow> Inl e
          | Inr (Some i) \<Rightarrow> Inl (Sentinel ErrWorkerTurnStartIntentConflict)
          | Inr None \<Rightarrow> Inr ())"

definition transitionAlreadyApplied :: "WorkerReservation \<Rightarrow> string \<Rightarrow> string \<Rightarrow> bool" where
  "transitionAlreadyApplied worker threadID detail =
     (case w_Status worker of
        WorkerPreflight \<Rightarrow> w_CodexThreadID worker = threadID
      | WorkerReady \<Rightarrow> True
      | WorkerRunning \<Rightarrow> w_ActiveTurnID worker = detail
      | WorkerFailed \<Rightarrow> w_FailureCode worker = detail
      | WorkerReserved \<Rightarrow> True | WorkerPending \<Rightarrow> True | WorkerStarting \<Rightarrow> True | WorkerIdle \<Rightarrow> True
      | _ \<Rightarrow> False)"

text \<open>The thread that a worker attaches must not belong to another worker.\<close>

definition require_thread_free :: "WorkerKey \<Rightarrow> string \<Rightarrow> PeerDb \<Rightarrow> unit result" where
  "require_thread_free key threadID s =
     (case or_not_found (queryWorkerByThread (wk_ControllerID key) threadID s) of
        Inl e \<Rightarrow> Inl e
      | Inr (Some owner) \<Rightarrow> (if w_Key owner \<noteq> key then Inl (Sentinel ErrWorkerReservationConflict) else Inr ())
      | Inr None \<Rightarrow> Inr ())"

definition require_start_slot :: "int \<Rightarrow> WorkerReservation \<Rightarrow> PeerDb \<Rightarrow> unit result" where
  "require_start_slot maxActive worker s =
     (if w_Status worker \<in> {WorkerPending, WorkerIdle, WorkerInterrupted}
      then if maxActive < 1 then Inl (Plain ''maxActive must be positive'') else requireWorkerSlot maxActive s
      else Inr ())"

definition restore_mismatch :: "WorkerReservation \<Rightarrow> WorkerStatus \<Rightarrow> bool" where
  "restore_mismatch worker to \<longleftrightarrow>
     (to = WorkerPending \<or> to = WorkerIdle) \<and> w_Status worker \<in> {WorkerStarting, WorkerPreflight, WorkerReady}
     \<and> w_RetryTarget worker \<noteq> to"

text \<open>The fields that the switch over the target status sets.\<close>

definition transitioned :: "WorkerReservation \<Rightarrow> WorkerStatus \<Rightarrow> string \<Rightarrow> string \<Rightarrow> nat \<Rightarrow> int \<Rightarrow> WorkerReservation" where
  "transitioned worker to threadID detail revision timestamp =
     (let w = worker\<lparr>w_Status := to, w_UpdatedAt := max timestamp (w_UpdatedAt worker), w_Revision := revision,
            w_FailureCode := '''', w_FinalTarget := no_status, w_FinalFailureCode := ''''\<rparr> in
      case to of
        WorkerStarting \<Rightarrow>
          w\<lparr>w_RetryTarget :=
              (if w_Status worker \<in> {WorkerReserved, WorkerPending} then WorkerPending
               else if w_Status worker \<in> {WorkerIdle, WorkerInterrupted} then WorkerIdle
               else w_RetryTarget worker),
            w_ActiveTurnID := ''''\<rparr>
      | WorkerPreflight \<Rightarrow> w\<lparr>w_CodexThreadID := threadID, w_ActiveTurnID := ''''\<rparr>
      | WorkerReady \<Rightarrow> w\<lparr>w_ActiveTurnID := ''''\<rparr>
      | WorkerRunning \<Rightarrow> w\<lparr>w_RetryTarget := no_status, w_ActiveTurnID := detail, w_LastBoundTurnID := detail\<rparr>
      | WorkerIdle \<Rightarrow> w\<lparr>w_RetryTarget := no_status, w_ActiveTurnID := ''''\<rparr>
      | WorkerFailed \<Rightarrow> w\<lparr>w_RetryTarget := no_status, w_ActiveTurnID := '''', w_FailureCode := detail\<rparr>
      | WorkerReserved \<Rightarrow> w\<lparr>w_RetryTarget := no_status, w_ActiveTurnID := ''''\<rparr>
      | WorkerPending \<Rightarrow> w\<lparr>w_RetryTarget := no_status, w_ActiveTurnID := ''''\<rparr>
      | _ \<Rightarrow> w)"

text \<open>The columns that the UPDATE of a transition writes.\<close>

definition write_lifecycle :: "WorkerReservation \<Rightarrow> WorkerReservation \<Rightarrow> WorkerReservation" where
  "write_lifecycle w row =
     row\<lparr>w_CodexThreadID := w_CodexThreadID w, w_Status := w_Status w, w_RetryTarget := w_RetryTarget w,
         w_ActiveTurnID := w_ActiveTurnID w, w_LastBoundTurnID := w_LastBoundTurnID w, w_FailureCode := w_FailureCode w,
         w_Revision := w_Revision w, w_UpdatedAt := w_UpdatedAt w\<rparr>"

text \<open>An UPDATE of the worker table, reporting the rows it touched.\<close>

definition update_workers ::
    "string \<Rightarrow> (WorkerReservation \<Rightarrow> bool) \<Rightarrow> (WorkerReservation \<Rightarrow> WorkerReservation) \<Rightarrow> (PeerDb, nat) tx" where
  "update_workers m guard f =
     tx_modify m (\<lambda>s. affected guard (worker_reservations s))
       (\<lambda>s. s\<lparr>worker_reservations := upd guard f (worker_reservations s)\<rparr>)"

definition transition_tx ::
    "WorkerKey \<Rightarrow> int \<Rightarrow> int \<Rightarrow> WorkerStatus list \<Rightarrow> WorkerStatus \<Rightarrow> string \<Rightarrow> string \<Rightarrow> (PeerDb, WorkerReservation) tx" where
  "transition_tx key maxActive timestamp froms to threadID detail =
     tx_bind (tx_query (queryWorker key)) (\<lambda>worker.
       if w_Status worker = to \<and> transitionAlreadyApplied worker threadID detail then tx_ret worker
       else
         tx_bind (tx_query (requireNoUnresolvedWorkerTurnStartIntent worker)) (\<lambda>_.
         if w_Status worker \<notin> set froms then tx_fail (Wrapped ''cannot move'' (Sentinel ErrWorkerTransition))
         else
           tx_bind (if to = WorkerPreflight then tx_query (require_thread_free key threadID) else tx_ret ()) (\<lambda>_.
           tx_bind (if to = WorkerStarting then tx_query (require_start_slot maxActive worker) else tx_ret ()) (\<lambda>_.
           if restore_mismatch worker to then tx_fail (Wrapped ''cannot restore'' (Sentinel ErrWorkerTransition))
           else
             tx_bind nextWorkerRevision (\<lambda>revision.
             let w = transitioned worker to threadID detail revision timestamp in
             tx_bind (update_workers ''update worker lifecycle'' (\<lambda>row. w_Key row = key) (write_lifecycle w)) (\<lambda>_.
             tx_ret w))))))"

definition transitionWorker ::
    "WorkerKey \<Rightarrow> int \<Rightarrow> int \<Rightarrow> WorkerStatus list \<Rightarrow> WorkerStatus \<Rightarrow> string \<Rightarrow> string \<Rightarrow> PeerDb
       \<Rightarrow> WorkerReservation result \<times> PeerDb" where
  "transitionWorker key maxActive observedAt froms to threadID detail =
     guard_tx (first_err
         [WorkerKey_Validate key,
          fail_if (to = WorkerInterrupted) (Plain ''interrupted workers require recovery-specific state''),
          unixTime observedAt ''observedAt''])
       (transition_tx key maxActive observedAt froms to threadID detail)"

definition BeginWorkerStart :: "WorkerKey \<Rightarrow> int \<Rightarrow> int \<Rightarrow> PeerDb \<Rightarrow> WorkerReservation result \<times> PeerDb" where
  "BeginWorkerStart key maxActive observedAt =
     transitionWorker key maxActive observedAt [WorkerReserved, WorkerPending, WorkerIdle, WorkerInterrupted] WorkerStarting '''' ''''"

definition RestoreWorkerPendingAfterUnsent :: "WorkerKey \<Rightarrow> int \<Rightarrow> PeerDb \<Rightarrow> WorkerReservation result \<times> PeerDb" where
  "RestoreWorkerPendingAfterUnsent key observedAt =
     transitionWorker key 0 observedAt [WorkerStarting, WorkerPreflight, WorkerReady] WorkerPending '''' ''''"

definition RestoreWorkerIdleAfterUnsent :: "WorkerKey \<Rightarrow> int \<Rightarrow> PeerDb \<Rightarrow> WorkerReservation result \<times> PeerDb" where
  "RestoreWorkerIdleAfterUnsent key observedAt =
     transitionWorker key 0 observedAt [WorkerStarting, WorkerPreflight, WorkerReady] WorkerIdle '''' ''''"

definition guarded :: "err \<Rightarrow> ('s \<Rightarrow> 'a result \<times> 's) \<Rightarrow> 's \<Rightarrow> 'a result \<times> 's" where
  "guarded e f s = (case e of Some x \<Rightarrow> (Inl x, s) | None \<Rightarrow> f s)"

definition AttachWorkerThread :: "WorkerKey \<Rightarrow> string \<Rightarrow> int \<Rightarrow> PeerDb \<Rightarrow> WorkerReservation result \<times> PeerDb" where
  "AttachWorkerThread key threadID observedAt =
     guarded (wrap ''codexThreadId'' (ValidateID threadID))
       (transitionWorker key 0 observedAt [WorkerStarting] WorkerPreflight threadID '''')"

definition MarkWorkerReady :: "WorkerKey \<Rightarrow> int \<Rightarrow> PeerDb \<Rightarrow> WorkerReservation result \<times> PeerDb" where
  "MarkWorkerReady key observedAt = transitionWorker key 0 observedAt [WorkerPreflight] WorkerReady '''' ''''"

definition MarkWorkerRunning :: "WorkerKey \<Rightarrow> string \<Rightarrow> int \<Rightarrow> PeerDb \<Rightarrow> WorkerReservation result \<times> PeerDb" where
  "MarkWorkerRunning key turnID observedAt =
     guarded (wrap ''turnId'' (ValidateID turnID))
       (transitionWorker key 0 observedAt [WorkerReady] WorkerRunning '''' turnID)"

definition MarkWorkerIdle :: "WorkerKey \<Rightarrow> int \<Rightarrow> PeerDb \<Rightarrow> WorkerReservation result \<times> PeerDb" where
  "MarkWorkerIdle key observedAt =
     transitionWorker key 0 observedAt [WorkerRunning, WorkerReady, WorkerInterrupted] WorkerIdle '''' ''''"

definition FailWorker :: "WorkerKey \<Rightarrow> string \<Rightarrow> int \<Rightarrow> PeerDb \<Rightarrow> WorkerReservation result \<times> PeerDb" where
  "FailWorker key failureCode observedAt =
     guarded (first_err [validateFailureCode failureCode, fail_if (failureCode = '''') (Plain ''failureCode is required'')])
       (transitionWorker key 0 observedAt
          [WorkerReserved, WorkerPending, WorkerStarting, WorkerPreflight, WorkerReady, WorkerRunning, WorkerInterrupted]
          WorkerFailed '''' failureCode)"

definition GetWorker :: "WorkerKey \<Rightarrow> PeerDb \<Rightarrow> WorkerReservation result" where
  "GetWorker key s = guard_res (WorkerKey_Validate key) (queryWorker key s)"

definition ListWorkers :: "PeerDb \<Rightarrow> WorkerReservation list result" where
  "ListWorkers s =
     traverse (\<lambda>w. scanWorker (Some w))
       (sort_key (\<lambda>w. (w_CreatedAt w, wk_ControllerID (w_Key w), wk_TreeID (w_Key w), wk_AgentID (w_Key w))) (worker_reservations s))"

definition WorkerForThread :: "string \<Rightarrow> string \<Rightarrow> PeerDb \<Rightarrow> WorkerReservation result" where
  "WorkerForThread controllerID threadID s =
     guard_res (first_err [wrap ''controllerId'' (ValidateID controllerID), wrap ''threadId'' (ValidateID threadID)])
       (queryWorkerByThread controllerID threadID s)"

section \<open>Operation receipts\<close>

definition sameWorkerOperation :: "WorkerOperationReceipt \<Rightarrow> WorkerOperationReceipt \<Rightarrow> bool" where
  "sameWorkerOperation stored requested \<longleftrightarrow>
     wo_Key stored = wo_Key requested \<and> wo_OperationID stored = wo_OperationID requested
     \<and> wo_Action stored = wo_Action requested \<and> wo_PayloadDigest stored = wo_PayloadDigest requested"

definition desired_operation :: "string \<Rightarrow> WorkerOperationAction \<Rightarrow> WorkerKey \<Rightarrow> string \<Rightarrow> int \<Rightarrow> WorkerOperationReceipt" where
  "desired_operation operationID action key payload timestamp =
     \<lparr>wo_Key = key, wo_OperationID = operationID, wo_Action = action, wo_PayloadDigest = sha256_hex payload,
      wo_Status = WorkerOperationPending, wo_Outcome = WorkerOutcomePending, wo_FailureCode = '''',
      wo_CreatedAt = timestamp, wo_UpdatedAt = timestamp\<rparr>"

definition begin_operation_tx :: "WorkerOperationReceipt \<Rightarrow> (PeerDb, WorkerOperationReceipt \<times> bool) tx" where
  "begin_operation_tx desired =
     tx_bind (tx_query (\<lambda>s. or_not_found (queryWorkerOperation (wk_ControllerID (wo_Key desired)) (wo_OperationID desired) s))) (\<lambda>found.
       case found of
         Some existing \<Rightarrow>
           if \<not> sameWorkerOperation existing desired then tx_fail (Sentinel ErrWorkerOperationConflict)
           else tx_ret (existing, True)
       | None \<Rightarrow>
           tx_bind (tx_query (queryWorker (wo_Key desired))) (\<lambda>_.
           tx_bind (tx_modify ''create worker operation receipt'' (\<lambda>s. 1)
             (\<lambda>s. s\<lparr>worker_operation_receipts := worker_operation_receipts s @ [desired]\<rparr>)) (\<lambda>_.
           tx_ret (desired, False))))"

definition BeginWorkerOperation ::
    "string \<Rightarrow> WorkerOperationAction \<Rightarrow> WorkerKey \<Rightarrow> string \<Rightarrow> int \<Rightarrow> PeerDb \<Rightarrow> (WorkerOperationReceipt \<times> bool) result \<times> PeerDb" where
  "BeginWorkerOperation operationID action key payload observedAt =
     guard_tx (first_err [validateWorkerOperationIdentity operationID action key, unixTime observedAt ''observedAt''])
       (begin_operation_tx (desired_operation operationID action key payload observedAt))"

definition terminal_status :: "WorkerOperationOutcome \<Rightarrow> WorkerOperationStatus" where
  "terminal_status outcome = (if outcome = WorkerOutcomeFailed then WorkerOperationFailed else WorkerOperationSucceeded)"

definition completeWorkerOperationReceipt ::
    "WorkerKey \<Rightarrow> string \<Rightarrow> WorkerOperationOutcome \<Rightarrow> string \<Rightarrow> int \<Rightarrow> (PeerDb, WorkerOperationReceipt) tx" where
  "completeWorkerOperationReceipt key operationID outcome failureCode timestamp =
     tx_bind (tx_query (queryWorkerOperation (wk_ControllerID key) operationID)) (\<lambda>receipt.
       if wo_Key receipt \<noteq> key then tx_fail (Sentinel ErrWorkerOperationConflict)
       else if wo_Status receipt \<noteq> WorkerOperationPending
       then if wo_Status receipt = terminal_status outcome \<and> wo_Outcome receipt = outcome \<and> wo_FailureCode receipt = failureCode
            then tx_ret receipt else tx_fail (Sentinel ErrWorkerOperationConflict)
       else
         let r = receipt\<lparr>wo_Status := terminal_status outcome, wo_Outcome := outcome, wo_FailureCode := failureCode,
               wo_UpdatedAt := max timestamp (wo_UpdatedAt receipt)\<rparr>;
             at = (\<lambda>row. wk_ControllerID (wo_Key row) = wk_ControllerID (wo_Key receipt) \<and> wo_OperationID row = wo_OperationID receipt) in
         tx_bind (tx_modify ''complete worker operation receipt'' (\<lambda>s. affected at (worker_operation_receipts s))
           (\<lambda>s. s\<lparr>worker_operation_receipts :=
              upd at (\<lambda>row. row\<lparr>wo_Status := wo_Status r, wo_Outcome := wo_Outcome r, wo_FailureCode := wo_FailureCode r,
                 wo_UpdatedAt := wo_UpdatedAt r\<rparr>) (worker_operation_receipts s)\<rparr>)) (\<lambda>n.
         if n \<noteq> 1 then tx_fail (Sentinel ErrWorkerOperationConflict) else tx_ret r))"

definition CompleteWorkerOperation ::
    "WorkerKey \<Rightarrow> string \<Rightarrow> WorkerOperationOutcome \<Rightarrow> string \<Rightarrow> int \<Rightarrow> PeerDb \<Rightarrow> WorkerOperationReceipt result \<times> PeerDb" where
  "CompleteWorkerOperation key operationID outcome failureCode observedAt =
     guard_tx (first_err
         [WorkerKey_Validate key, wrap ''operationId'' (ValidateID operationID),
          fail_if (\<not> outcome_terminal outcome) (Plain ''unsupported terminal worker operation outcome''),
          validateFailureCode failureCode,
          fail_if (terminal_status outcome = WorkerOperationFailed \<and> failureCode = '''')
            (Plain ''failureCode is required for failed worker operations''),
          fail_if (terminal_status outcome = WorkerOperationSucceeded \<and> failureCode \<noteq> '''')
            (Plain ''successful worker operations cannot contain failureCode''),
          unixTime observedAt ''observedAt''])
       (tx_bind (tx_query (\<lambda>s. or_not_found (queryPreparedWorkerTurnStartIntentByOperation (wk_ControllerID key) operationID s))) (\<lambda>found.
        case found of
          Some i \<Rightarrow> tx_fail (Sentinel ErrWorkerOperationConflict)
        | None \<Rightarrow> completeWorkerOperationReceipt key operationID outcome failureCode observedAt))"

definition GetWorkerOperation :: "string \<Rightarrow> string \<Rightarrow> PeerDb \<Rightarrow> WorkerOperationReceipt result" where
  "GetWorkerOperation controllerID operationID s =
     guard_res (first_err [wrap ''controllerId'' (ValidateID controllerID), wrap ''operationId'' (ValidateID operationID)])
       (queryWorkerOperation controllerID operationID s)"

end
