(* ===== verification/PeerTurn.thy ===== *)
theory PeerTurn
  imports PeerWorker
begin

text \<open>
  The start of a turn: reserving outbox space for its result (\<^verbatim>\<open>internal/store/peer_result_outbox.go\<close>) and
  the intent that is prepared before the turn is requested, then bound to the turn or rejected
  (\<^verbatim>\<open>worker_turn_intent.go\<close>).
\<close>

section \<open>Reserving outbox space\<close>

definition inspectResultStoreCapacity :: "PeerDb \<Rightarrow> nat \<times> int" where
  "inspectResultStoreCapacity s = (length (peer_result_outbox s), sum_list (map ob_reserved_bytes (peer_result_outbox s)))"

definition requireResultStoreCapacity :: "int \<Rightarrow> PeerDb \<Rightarrow> unit result" where
  "requireResultStoreCapacity additionalBytes s =
     (let (count, bytes) = inspectResultStoreCapacity s in
      if count \<ge> MaximumPeerResultPackages \<or> additionalBytes > MaximumPeerResultStoreBytes - bytes
      then Inl (Sentinel ErrResultPackageQuota) else Inr ())"

definition reserved_row :: "ResultOutboxKey \<Rightarrow> int \<Rightarrow> int \<Rightarrow> OutboxRow" where
  "reserved_row key reservedBytes timestamp =
     \<lparr>ob_key = key, ob_state = ResultOutboxCapturePending, ob_managed_thread_id = '''', ob_turn_id = '''', ob_lifecycle_revision = 0,
      ob_manifest_bytes = '''', ob_manifest_size_bytes = 0, ob_manifest_sha256 = '''', ob_parts_json = Some [],
      ob_reservation_limit_bytes = reservedBytes, ob_reserved_bytes = reservedBytes, ob_package_bytes = 0,
      ob_delivery_sequence = 0, ob_created_at = timestamp, ob_updated_at = timestamp\<rparr>"

definition reserveResultOutbox :: "ResultOutboxKey \<Rightarrow> int \<Rightarrow> int \<Rightarrow> (PeerDb, ResultOutbox) tx" where
  "reserveResultOutbox key reservedBytes timestamp =
     tx_bind (tx_check (first_err
         [ResultOutboxKey_Validate key,
          fail_if (reservedBytes < 1 \<or> reservedBytes > MaximumResultPackageBytes) (Plain ''reservedBytes is out of range''),
          fail_if (timestamp < 0) (Plain ''result outbox timestamp must not be negative'')])) (\<lambda>_.
     tx_bind (tx_query (\<lambda>s. or_not_found (queryResultOutboxByPackage (obk_PackageID key) s))) (\<lambda>found.
     case found of
       Some stored \<Rightarrow>
         if rob_Key stored \<noteq> key \<or> rob_ReservationLimitBytes stored \<noteq> reservedBytes
         then tx_fail (Sentinel ErrResultPackageConflict) else tx_ret stored
     | None \<Rightarrow>
         tx_bind (tx_query (queryWorker (obk_Worker key))) (\<lambda>worker.
         if w_DeviceID worker \<noteq> obk_SourceDeviceID key then tx_fail (Sentinel ErrResultPackageAuthority)
         else
           tx_bind (tx_query (requireResultStoreCapacity reservedBytes)) (\<lambda>_.
           let row = reserved_row key reservedBytes timestamp in
           tx_bind (tx_modify ''reserve result outbox'' (\<lambda>s. 1)
             (\<lambda>s. s\<lparr>peer_result_outbox := peer_result_outbox s @ [row]\<rparr>)) (\<lambda>_.
           tx_ret (outbox_struct row zero_metadata zero_manifest))))))"

definition ReserveResultOutbox :: "ResultOutboxKey \<Rightarrow> int \<Rightarrow> int \<Rightarrow> PeerDb \<Rightarrow> ResultOutbox result \<times> PeerDb" where
  "ReserveResultOutbox key reservedBytes observedAt =
     guard_tx (first_err
         [ResultOutboxKey_Validate key,
          fail_if (reservedBytes < 1 \<or> reservedBytes > MaximumResultPackageBytes) (Plain ''reservedBytes is out of range''),
          unixTime observedAt ''observedAt''])
       (reserveResultOutbox key reservedBytes observedAt)"

section \<open>Preparing an intent\<close>

definition sameWorkerTurnStartPreparation :: "WorkerTurnStartIntent \<Rightarrow> PrepareWorkerTurnStartIntentRequest \<Rightarrow> bool" where
  "sameWorkerTurnStartPreparation stored request \<longleftrightarrow> intent_request stored = request"

definition validateTurnStartPreparationAuthority ::
    "WorkerReservation \<Rightarrow> PrepareWorkerTurnStartIntentRequest \<Rightarrow> PeerDb \<Rightarrow> unit result" where
  "validateTurnStartPreparationAuthority worker request s =
     (if w_Key worker \<noteq> tr_Key request \<or> w_DeviceID worker \<noteq> tr_DeviceID request
         \<or> w_CodexThreadID worker \<noteq> tr_ManagedThreadID request \<or> w_LastBoundTurnID worker \<noteq> tr_PreviousTurnID request
         \<or> w_Status worker \<noteq> WorkerReady \<or> w_RetryTarget worker \<noteq> WorkerPending \<and> w_RetryTarget worker \<noteq> WorkerIdle
      then Inl (Sentinel ErrWorkerTurnStartIntentConflict)
      else if w_RetryTarget worker = WorkerPending
      then if tr_OperationID request \<noteq> '''' then Inl (Sentinel ErrWorkerTurnStartIntentConflict) else Inr ()
      else if tr_OperationID request = '''' then Inl (Sentinel ErrWorkerTurnStartIntentConflict)
      else case queryWorkerOperation (wk_ControllerID (w_Key worker)) (tr_OperationID request) s of
        Inl e \<Rightarrow> Inl e
      | Inr receipt \<Rightarrow>
          if wo_Key receipt \<noteq> w_Key worker \<or> wo_Action receipt \<noteq> WorkerOperationFollowup
             \<or> wo_Status receipt \<noteq> WorkerOperationPending \<or> wo_Outcome receipt \<noteq> WorkerOutcomePending
          then Inl (Sentinel ErrWorkerTurnStartIntentConflict) else Inr ())"

definition turn_active :: "WorkerTurnStartIntent \<Rightarrow> PeerDb \<Rightarrow> bool" where
  "turn_active i s \<longleftrightarrow>
     list_ex (\<lambda>w. w_Key w = ti_Key i \<and> w_Status w \<in> {WorkerRunning, WorkerFinalizing} \<and> w_ActiveTurnID w = ti_TurnID i)
       (worker_reservations s)"

definition intent_prunable :: "PeerDb \<Rightarrow> WorkerTurnStartIntent \<Rightarrow> bool" where
  "intent_prunable s i \<longleftrightarrow>
     ti_State i = WorkerTurnStartRejected \<or> ti_State i = WorkerTurnStartBound \<and> \<not> turn_active i s"

definition pruned_ids :: "nat \<Rightarrow> PeerDb \<Rightarrow> string list" where
  "pruned_ids remove s =
     map ti_IntentID (take remove
       (sort_key (\<lambda>i. (ti_UpdatedAt i, ti_CreatedAt i, ti_IntentID i))
         (filter (intent_prunable s) (worker_turn_start_intents s))))"

definition requireWorkerTurnStartIntentCapacity :: "(PeerDb, unit) tx" where
  "requireWorkerTurnStartIntentCapacity =
     tx_bind (tx_get (\<lambda>s. length (worker_turn_start_intents s))) (\<lambda>count.
       if count < MaximumWorkerTurnStartIntentReceipts then tx_ret ()
       else
         let remove = count - MaximumWorkerTurnStartIntentReceipts + 1 in
         tx_bind (tx_modify ''prune worker turn-start intent receipts''
           (\<lambda>s. affected (\<lambda>i. ti_IntentID i \<in> set (pruned_ids remove s)) (worker_turn_start_intents s))
           (\<lambda>s. s\<lparr>worker_turn_start_intents :=
              filter (\<lambda>i. ti_IntentID i \<notin> set (pruned_ids remove s)) (worker_turn_start_intents s)\<rparr>)) (\<lambda>removed.
         if removed \<noteq> remove then tx_fail (Sentinel ErrWorkerTurnStartIntentQuota) else tx_ret ()))"

definition prepared_intent :: "PrepareWorkerTurnStartIntentRequest \<Rightarrow> WorkerReservation \<Rightarrow> int \<Rightarrow> WorkerTurnStartIntent" where
  "prepared_intent request worker timestamp =
     \<lparr>ti_Key = tr_Key request, ti_IntentID = tr_IntentID request, ti_DeviceID = tr_DeviceID request,
      ti_ManagedThreadID = tr_ManagedThreadID request, ti_PreviousTurnID = tr_PreviousTurnID request,
      ti_PackageID = tr_PackageID request, ti_OperationID = tr_OperationID request, ti_RetryTarget = w_RetryTarget worker,
      ti_Rollout = tr_Rollout request, ti_ReservationLimitBytes = tr_ReservationLimitBytes request,
      ti_State = WorkerTurnStartPrepared, ti_TurnID = '''', ti_RejectionFailureCode = '''',
      ti_PreparedRevision = w_Revision worker, ti_ResolutionRevision = 0, ti_CreatedAt = timestamp, ti_UpdatedAt = timestamp\<rparr>"

text \<open>A query whose row would be in the way.\<close>

definition tx_absent :: "(PeerDb \<Rightarrow> 'a result) \<Rightarrow> (PeerDb, unit) tx" where
  "tx_absent q =
     tx_bind (tx_query (\<lambda>s. or_not_found (q s))) (\<lambda>found.
       case found of Some x \<Rightarrow> tx_fail (Sentinel ErrWorkerTurnStartIntentConflict) | None \<Rightarrow> tx_ret ())"

definition request_outbox_key :: "PrepareWorkerTurnStartIntentRequest \<Rightarrow> ResultOutboxKey" where
  "request_outbox_key request =
     \<lparr>obk_Worker = tr_Key request, obk_SourceDeviceID = tr_DeviceID request, obk_PackageID = tr_PackageID request\<rparr>"

definition prepare_tx ::
    "PrepareWorkerTurnStartIntentRequest \<Rightarrow> int \<Rightarrow> (PeerDb, WorkerTurnStartIntent \<times> bool) tx" where
  "prepare_tx request timestamp =
     tx_bind (tx_query (\<lambda>s. or_not_found (queryWorkerTurnStartIntentByID (tr_IntentID request) s))) (\<lambda>found.
     case found of
       Some existing \<Rightarrow>
         if \<not> sameWorkerTurnStartPreparation existing request then tx_fail (Sentinel ErrWorkerTurnStartIntentConflict)
         else tx_ret (existing, True)
     | None \<Rightarrow>
         tx_bind (tx_query (queryWorker (tr_Key request))) (\<lambda>worker.
         tx_bind (tx_query (validateTurnStartPreparationAuthority worker request)) (\<lambda>_.
         tx_bind (tx_absent (queryWorkerTurnStartIntentByPackage (tr_PackageID request))) (\<lambda>_.
         tx_bind (tx_absent (queryPreparedWorkerTurnStartIntent (tr_Key request))) (\<lambda>_.
         tx_bind (tx_absent (queryResultOutboxByPackage (tr_PackageID request))) (\<lambda>_.
         tx_bind requireWorkerTurnStartIntentCapacity (\<lambda>_.
         tx_bind (reserveResultOutbox (request_outbox_key request) (tr_ReservationLimitBytes request) timestamp) (\<lambda>_.
         let i = prepared_intent request worker timestamp in
         tx_bind (tx_modify ''create worker turn-start intent'' (\<lambda>s. 1)
           (\<lambda>s. s\<lparr>worker_turn_start_intents := worker_turn_start_intents s @ [i]\<rparr>)) (\<lambda>_.
         tx_ret (i, False))))))))))"

definition PrepareWorkerTurnStartIntent ::
    "PrepareWorkerTurnStartIntentRequest \<Rightarrow> int \<Rightarrow> PeerDb \<Rightarrow> (WorkerTurnStartIntent \<times> bool) result \<times> PeerDb" where
  "PrepareWorkerTurnStartIntent request observedAt =
     guard_tx (first_err [PrepareWorkerTurnStartIntentRequest_Validate request, unixTime observedAt ''observedAt''])
       (prepare_tx request observedAt)"

section \<open>Resolving an intent\<close>

record WorkerTurnStartResolution =
  tres_Intent :: WorkerTurnStartIntent
  tres_Worker :: WorkerReservation
  tres_Operation :: "WorkerOperationReceipt option"

definition validateWorkerTurnStartResolutionIdentity :: "WorkerKey \<Rightarrow> string \<Rightarrow> err" where
  "validateWorkerTurnStartResolutionIdentity key intentID =
     first_err [WorkerKey_Validate key, wrap ''intentId'' (ValidateID intentID)]"

definition validatePreparedTurnIntentWorker :: "WorkerReservation \<Rightarrow> WorkerTurnStartIntent \<Rightarrow> err" where
  "validatePreparedTurnIntentWorker worker i =
     fail_if (w_Key worker \<noteq> ti_Key i \<or> w_DeviceID worker \<noteq> ti_DeviceID i \<or> w_CodexThreadID worker \<noteq> ti_ManagedThreadID i
              \<or> w_LastBoundTurnID worker \<noteq> ti_PreviousTurnID i \<or> w_Status worker \<noteq> WorkerReady
              \<or> w_RetryTarget worker \<noteq> ti_RetryTarget i \<or> w_Revision worker \<noteq> ti_PreparedRevision i)
       (Sentinel ErrWorkerTurnStartIntentConflict)"

definition validateInitialRolloutBinding :: "WorkerTurnStartIntent \<Rightarrow> WorkerRolloutLocator \<Rightarrow> err" where
  "validateInitialRolloutBinding i rollout =
     first_err
       [fail_if (ti_PreviousTurnID i \<noteq> '''' \<or> rl_Status rollout \<noteq> WorkerRolloutAvailable \<or> rl_Offset rollout \<noteq> 0)
          (Sentinel ErrWorkerTurnStartIntentConflict),
        fail_if (WorkerRolloutLocator_Validate rollout (ti_ManagedThreadID i) \<noteq> None)
          (Wrapped ''invalid initial rollout locator'' (Sentinel ErrWorkerTurnStartIntentConflict)),
        (if rl_Status (ti_Rollout i) = WorkerRolloutAvailable
         then fail_if (ti_Rollout i \<noteq> rollout) (Sentinel ErrWorkerTurnStartIntentConflict)
         else fail_if (rl_Status (ti_Rollout i) \<noteq> WorkerRolloutUnavailable) (Sentinel ErrWorkerTurnStartIntentConflict))]"

text \<open>The receipt that a resolved intent must have left.\<close>

definition resolution_receipt_mismatch :: "WorkerTurnStartIntent \<Rightarrow> WorkerOperationReceipt \<Rightarrow> bool" where
  "resolution_receipt_mismatch i receipt =
     (case ti_State i of
        WorkerTurnStartBound \<Rightarrow>
          wo_Status receipt \<noteq> WorkerOperationSucceeded \<or> wo_Outcome receipt \<noteq> WorkerOutcomeStarted \<or> wo_FailureCode receipt \<noteq> ''''
      | WorkerTurnStartRejected \<Rightarrow>
          wo_Status receipt \<noteq> WorkerOperationFailed \<or> wo_Outcome receipt \<noteq> WorkerOutcomeFailed
          \<or> wo_FailureCode receipt \<noteq> ti_RejectionFailureCode i
      | _ \<Rightarrow> True)"

definition loadWorkerTurnStartResolution :: "WorkerTurnStartIntent \<Rightarrow> PeerDb \<Rightarrow> WorkerTurnStartResolution result" where
  "loadWorkerTurnStartResolution i s =
     (case queryWorker (ti_Key i) s of
        Inl e \<Rightarrow> Inl e
      | Inr worker \<Rightarrow>
          if ti_OperationID i = '''' then Inr \<lparr>tres_Intent = i, tres_Worker = worker, tres_Operation = None\<rparr>
          else case queryWorkerOperation (wk_ControllerID (ti_Key i)) (ti_OperationID i) s of
            Inl e \<Rightarrow> Inl e
          | Inr receipt \<Rightarrow>
              if resolution_receipt_mismatch i receipt then Inl (Sentinel ErrWorkerTurnStartIntentConflict)
              else Inr \<lparr>tres_Intent = i, tres_Worker = worker, tres_Operation = Some receipt\<rparr>)"

definition requireWorkerTurnStartUpdate :: "nat \<Rightarrow> (PeerDb, unit) tx" where
  "requireWorkerTurnStartUpdate n =
     tx_check (fail_if (n \<noteq> 1) (Sentinel ErrWorkerTurnStartIntentConflict))"

definition resolve_operation ::
    "WorkerTurnStartIntent \<Rightarrow> WorkerOperationOutcome \<Rightarrow> string \<Rightarrow> int \<Rightarrow> (PeerDb, WorkerOperationReceipt option) tx" where
  "resolve_operation i outcome failureCode updatedAt =
     (if ti_OperationID i = '''' then tx_ret None
      else tx_bind (completeWorkerOperationReceipt (ti_Key i) (ti_OperationID i) outcome failureCode updatedAt) (\<lambda>r. tx_ret (Some r)))"

definition ready_at :: "WorkerTurnStartIntent \<Rightarrow> WorkerReservation \<Rightarrow> bool" where
  "ready_at i row \<longleftrightarrow>
     w_Key row = ti_Key i \<and> w_Status row = WorkerReady \<and> w_Revision row = ti_PreparedRevision i
     \<and> w_RetryTarget row = ti_RetryTarget i"

definition prepared_at :: "WorkerTurnStartIntent \<Rightarrow> WorkerTurnStartIntent \<Rightarrow> bool" where
  "prepared_at i row \<longleftrightarrow>
     ti_Key row = ti_Key i \<and> ti_IntentID row = ti_IntentID i \<and> ti_State row = WorkerTurnStartPrepared
     \<and> ti_PreparedRevision row = ti_PreparedRevision i"

definition update_intents ::
    "string \<Rightarrow> (WorkerTurnStartIntent \<Rightarrow> bool) \<Rightarrow> (WorkerTurnStartIntent \<Rightarrow> WorkerTurnStartIntent) \<Rightarrow> (PeerDb, nat) tx" where
  "update_intents m guard f =
     tx_modify m (\<lambda>s. affected guard (worker_turn_start_intents s))
       (\<lambda>s. s\<lparr>worker_turn_start_intents := upd guard f (worker_turn_start_intents s)\<rparr>)"

definition running_row :: "string \<Rightarrow> nat \<Rightarrow> int \<Rightarrow> WorkerReservation \<Rightarrow> WorkerReservation" where
  "running_row turnID revision updatedAt row =
     row\<lparr>w_Status := WorkerRunning, w_RetryTarget := no_status, w_ActiveTurnID := turnID, w_LastBoundTurnID := turnID,
         w_FailureCode := '''', w_Revision := revision, w_UpdatedAt := updatedAt\<rparr>"

definition bound_row :: "string \<Rightarrow> nat \<Rightarrow> WorkerRolloutLocator \<Rightarrow> int \<Rightarrow> WorkerTurnStartIntent \<Rightarrow> WorkerTurnStartIntent" where
  "bound_row turnID revision rollout updatedAt row =
     row\<lparr>ti_State := WorkerTurnStartBound, ti_TurnID := turnID, ti_ResolutionRevision := revision, ti_Rollout := rollout,
         ti_UpdatedAt := updatedAt\<rparr>"

definition require_turn_free :: "WorkerKey \<Rightarrow> string \<Rightarrow> string \<Rightarrow> PeerDb \<Rightarrow> unit result" where
  "require_turn_free key turnID intentID s =
     (case or_not_found (queryWorkerTurnStartIntentByTurn key turnID s) of
        Inl e \<Rightarrow> Inl e
      | Inr (Some existing) \<Rightarrow>
          (if ti_IntentID existing \<noteq> intentID then Inl (Sentinel ErrWorkerTurnStartIntentConflict) else Inr ())
      | Inr None \<Rightarrow> Inr ())"

definition bind_prepared ::
    "WorkerTurnStartIntent \<Rightarrow> string \<Rightarrow> int \<Rightarrow> (PeerDb, WorkerTurnStartResolution) tx" where
  "bind_prepared i turnID timestamp =
     tx_bind (tx_query (queryWorker (ti_Key i))) (\<lambda>worker.
     tx_bind (tx_check (validatePreparedTurnIntentWorker worker i)) (\<lambda>_.
     tx_bind (tx_query (require_turn_free (ti_Key i) turnID (ti_IntentID i))) (\<lambda>_.
     tx_bind nextWorkerRevision (\<lambda>revision.
     let updatedAt = max (max timestamp (w_UpdatedAt worker)) (ti_UpdatedAt i);
         w = running_row turnID revision updatedAt worker;
         b = bound_row turnID revision (ti_Rollout i) updatedAt i in
     tx_bind (tx_check (wrap ''bound worker lifecycle is invalid'' (WorkerReservation_Validate w))) (\<lambda>_.
     tx_bind (update_workers ''bind worker turn-start lifecycle'' (ready_at i) (running_row turnID revision updatedAt)) (\<lambda>n.
     tx_bind (requireWorkerTurnStartUpdate n) (\<lambda>_.
     tx_bind (resolve_operation i WorkerOutcomeStarted '''' updatedAt) (\<lambda>operation.
     tx_bind (tx_check (wrap ''bound worker turn-start intent is invalid'' (WorkerTurnStartIntent_Validate b))) (\<lambda>_.
     tx_bind (update_intents ''bind worker turn-start intent'' (prepared_at i) (bound_row turnID revision (ti_Rollout i) updatedAt)) (\<lambda>m.
     tx_bind (requireWorkerTurnStartUpdate m) (\<lambda>_.
     tx_ret \<lparr>tres_Intent = b, tres_Worker = w, tres_Operation = operation\<rparr>)))))))))))"

definition bind_tx ::
    "WorkerKey \<Rightarrow> string \<Rightarrow> string \<Rightarrow> WorkerRolloutLocator option \<Rightarrow> int \<Rightarrow> (PeerDb, WorkerTurnStartResolution) tx" where
  "bind_tx key intentID turnID initialRollout timestamp =
     tx_bind (tx_query (queryWorkerTurnStartIntent key intentID)) (\<lambda>i.
     tx_bind (tx_check (case initialRollout of None \<Rightarrow> None | Some rollout \<Rightarrow> validateInitialRolloutBinding i rollout)) (\<lambda>_.
     if turnID = ti_PreviousTurnID i then tx_fail (Sentinel ErrWorkerTurnStartIntentConflict)
     else if ti_State i = WorkerTurnStartBound
     then if ti_TurnID i \<noteq> turnID then tx_fail (Sentinel ErrWorkerTurnStartIntentConflict)
          else tx_query (loadWorkerTurnStartResolution i)
     else if ti_State i \<noteq> WorkerTurnStartPrepared then tx_fail (Sentinel ErrWorkerTurnStartIntentConflict)
     else bind_prepared (case initialRollout of None \<Rightarrow> i | Some rollout \<Rightarrow> i\<lparr>ti_Rollout := rollout\<rparr>) turnID timestamp))"

definition bindWorkerTurnStartIntent ::
    "WorkerKey \<Rightarrow> string \<Rightarrow> string \<Rightarrow> WorkerRolloutLocator option \<Rightarrow> int \<Rightarrow> PeerDb \<Rightarrow> WorkerTurnStartResolution result \<times> PeerDb" where
  "bindWorkerTurnStartIntent key intentID turnID initialRollout observedAt =
     guard_tx (first_err
         [validateWorkerTurnStartResolutionIdentity key intentID, wrap ''turnId'' (ValidateID turnID), unixTime observedAt ''observedAt''])
       (bind_tx key intentID turnID initialRollout observedAt)"

definition BindWorkerTurnStartIntent ::
    "WorkerKey \<Rightarrow> string \<Rightarrow> string \<Rightarrow> int \<Rightarrow> PeerDb \<Rightarrow> WorkerTurnStartResolution result \<times> PeerDb" where
  "BindWorkerTurnStartIntent key intentID turnID observedAt = bindWorkerTurnStartIntent key intentID turnID None observedAt"

definition BindInitialWorkerTurnStartIntent ::
    "WorkerKey \<Rightarrow> string \<Rightarrow> string \<Rightarrow> WorkerRolloutLocator \<Rightarrow> int \<Rightarrow> PeerDb \<Rightarrow> WorkerTurnStartResolution result \<times> PeerDb" where
  "BindInitialWorkerTurnStartIntent key intentID turnID rollout observedAt =
     bindWorkerTurnStartIntent key intentID turnID (Some rollout) observedAt"

definition intent_outbox_key :: "WorkerTurnStartIntent \<Rightarrow> ResultOutboxKey" where
  "intent_outbox_key i = \<lparr>obk_Worker = ti_Key i, obk_SourceDeviceID = ti_DeviceID i, obk_PackageID = ti_PackageID i\<rparr>"

definition reserved_for :: "WorkerTurnStartIntent \<Rightarrow> OutboxRow \<Rightarrow> bool" where
  "reserved_for i r \<longleftrightarrow>
     ob_key r = intent_outbox_key i \<and> ob_state r = ResultOutboxCapturePending
     \<and> ob_reservation_limit_bytes r = ti_ReservationLimitBytes i"

definition releaseTurnStartResultReservation :: "WorkerTurnStartIntent \<Rightarrow> (PeerDb, unit) tx" where
  "releaseTurnStartResultReservation i =
     tx_bind (tx_query (queryResultOutbox (intent_outbox_key i))) (\<lambda>outbox.
       if rob_State outbox \<noteq> ResultOutboxCapturePending \<or> rob_ReservationLimitBytes outbox \<noteq> ti_ReservationLimitBytes i
       then tx_fail (Sentinel ErrWorkerTurnStartIntentConflict)
       else
         tx_bind (tx_modify ''release rejected worker result reservation'' (\<lambda>s. affected (reserved_for i) (peer_result_outbox s))
           (\<lambda>s. s\<lparr>peer_result_outbox := filter (\<lambda>r. \<not> reserved_for i r) (peer_result_outbox s)\<rparr>)) (\<lambda>n.
         requireWorkerTurnStartUpdate n))"

definition returned_row :: "WorkerStatus \<Rightarrow> nat \<Rightarrow> int \<Rightarrow> WorkerReservation \<Rightarrow> WorkerReservation" where
  "returned_row target revision updatedAt row =
     row\<lparr>w_Status := target, w_RetryTarget := no_status, w_ActiveTurnID := '''', w_FailureCode := '''',
         w_Revision := revision, w_UpdatedAt := updatedAt\<rparr>"

definition rejected_row :: "string \<Rightarrow> nat \<Rightarrow> int \<Rightarrow> WorkerTurnStartIntent \<Rightarrow> WorkerTurnStartIntent" where
  "rejected_row failureCode revision updatedAt row =
     row\<lparr>ti_State := WorkerTurnStartRejected, ti_RejectionFailureCode := failureCode, ti_ResolutionRevision := revision,
         ti_UpdatedAt := updatedAt\<rparr>"

definition reject_prepared :: "WorkerTurnStartIntent \<Rightarrow> string \<Rightarrow> int \<Rightarrow> (PeerDb, WorkerTurnStartResolution) tx" where
  "reject_prepared i failureCode timestamp =
     tx_bind (tx_query (queryWorker (ti_Key i))) (\<lambda>worker.
     tx_bind (tx_check (validatePreparedTurnIntentWorker worker i)) (\<lambda>_.
     tx_bind (releaseTurnStartResultReservation i) (\<lambda>_.
     tx_bind nextWorkerRevision (\<lambda>revision.
     let updatedAt = max (max timestamp (w_UpdatedAt worker)) (ti_UpdatedAt i);
         w = returned_row (ti_RetryTarget i) revision updatedAt worker;
         b = rejected_row failureCode revision updatedAt i in
     tx_bind (tx_check (wrap ''rejected worker lifecycle is invalid'' (WorkerReservation_Validate w))) (\<lambda>_.
     tx_bind (update_workers ''reject worker turn-start lifecycle'' (ready_at i)
       (returned_row (ti_RetryTarget i) revision updatedAt)) (\<lambda>n.
     tx_bind (requireWorkerTurnStartUpdate n) (\<lambda>_.
     tx_bind (resolve_operation i WorkerOutcomeFailed failureCode updatedAt) (\<lambda>operation.
     tx_bind (tx_check (wrap ''rejected worker turn-start intent is invalid'' (WorkerTurnStartIntent_Validate b))) (\<lambda>_.
     tx_bind (update_intents ''reject worker turn-start intent'' (prepared_at i) (rejected_row failureCode revision updatedAt)) (\<lambda>m.
     tx_bind (requireWorkerTurnStartUpdate m) (\<lambda>_.
     tx_ret \<lparr>tres_Intent = b, tres_Worker = w, tres_Operation = operation\<rparr>)))))))))))"

definition reject_tx :: "WorkerKey \<Rightarrow> string \<Rightarrow> string \<Rightarrow> int \<Rightarrow> (PeerDb, WorkerTurnStartResolution) tx" where
  "reject_tx key intentID failureCode timestamp =
     tx_bind (tx_query (queryWorkerTurnStartIntent key intentID)) (\<lambda>i.
     if ti_State i = WorkerTurnStartRejected
     then if ti_RejectionFailureCode i \<noteq> failureCode then tx_fail (Sentinel ErrWorkerTurnStartIntentConflict)
          else tx_query (loadWorkerTurnStartResolution i)
     else if ti_State i \<noteq> WorkerTurnStartPrepared then tx_fail (Sentinel ErrWorkerTurnStartIntentConflict)
     else reject_prepared i failureCode timestamp)"

definition RejectWorkerTurnStartIntent ::
    "WorkerKey \<Rightarrow> string \<Rightarrow> string \<Rightarrow> int \<Rightarrow> PeerDb \<Rightarrow> WorkerTurnStartResolution result \<times> PeerDb" where
  "RejectWorkerTurnStartIntent key intentID failureCode observedAt =
     guard_tx (first_err
         [validateWorkerTurnStartResolutionIdentity key intentID, validateFailureCode failureCode,
          fail_if (failureCode = '''') (Plain ''failureCode is required''), unixTime observedAt ''observedAt''])
       (reject_tx key intentID failureCode observedAt)"

section \<open>Reading intents\<close>

definition GetWorkerTurnStartIntent :: "WorkerKey \<Rightarrow> string \<Rightarrow> PeerDb \<Rightarrow> WorkerTurnStartIntent result" where
  "GetWorkerTurnStartIntent key intentID s =
     guard_res (validateWorkerTurnStartResolutionIdentity key intentID) (queryWorkerTurnStartIntent key intentID s)"

definition GetPreparedWorkerTurnStartIntent :: "WorkerKey \<Rightarrow> PeerDb \<Rightarrow> WorkerTurnStartIntent result" where
  "GetPreparedWorkerTurnStartIntent key s = guard_res (WorkerKey_Validate key) (queryPreparedWorkerTurnStartIntent key s)"

definition GetPreparedWorkerTurnStartIntentByOperation :: "string \<Rightarrow> string \<Rightarrow> PeerDb \<Rightarrow> WorkerTurnStartIntent result" where
  "GetPreparedWorkerTurnStartIntentByOperation controllerID operationID s =
     guard_res (first_err [wrap ''controllerId'' (ValidateID controllerID), wrap ''operationId'' (ValidateID operationID)])
       (queryPreparedWorkerTurnStartIntentByOperation controllerID operationID s)"

definition GetWorkerTurnStartIntentByTurn :: "WorkerKey \<Rightarrow> string \<Rightarrow> PeerDb \<Rightarrow> WorkerTurnStartIntent result" where
  "GetWorkerTurnStartIntentByTurn key turnID s =
     guard_res (first_err [WorkerKey_Validate key, wrap ''turnId'' (ValidateID turnID)])
       (queryWorkerTurnStartIntentByTurn key turnID s)"

definition ListUnresolvedWorkerTurnStartIntents :: "string \<Rightarrow> string \<Rightarrow> int \<Rightarrow> PeerDb \<Rightarrow> WorkerTurnStartIntent list result" where
  "ListUnresolvedWorkerTurnStartIntents controllerID deviceID limit s =
     guard_res (first_err
         [wrap ''controllerId'' (ValidateID controllerID), wrap ''deviceId'' (ValidateID deviceID),
          fail_if (limit < 1 \<or> limit > maximumWorkerTurnIntentPage) (Plain ''limit is out of range'')])
       (traverse (\<lambda>i. scanWorkerTurnStartIntent (Some i)) (take (nat limit)
         (sort_key (\<lambda>i. (ti_UpdatedAt i, ti_CreatedAt i, wk_TreeID (ti_Key i), wk_AgentID (ti_Key i), ti_IntentID i))
           (filter (\<lambda>i. wk_ControllerID (ti_Key i) = controllerID \<and> ti_DeviceID i = deviceID
                \<and> (ti_State i = WorkerTurnStartPrepared \<or> ti_State i = WorkerTurnStartBound \<and> turn_active i s))
             (worker_turn_start_intents s)))))"

end
