(* ===== verification/PeerFinal.thy ===== *)
theory PeerFinal
  imports PeerTurn
begin

text \<open>
  The end of a turn: finalizing a worker with its result package
  (\<^verbatim>\<open>internal/store/worker_result_finalization.go\<close>) and the way of the package through the outbox
  (\<^verbatim>\<open>peer_result_outbox.go\<close>).
\<close>

section \<open>Finalizing with a result package\<close>

record WorkerResultFinalization =
  rf_Intent :: "WorkerTurnStartIntent option"
  rf_Worker :: WorkerReservation
  rf_Outbox :: ResultOutbox

definition workerTerminalMatches :: "WorkerReservation \<Rightarrow> string \<Rightarrow> string \<Rightarrow> bool" where
  "workerTerminalMatches worker turnID failureCode \<longleftrightarrow>
     w_FailureCode worker = failureCode \<and> w_FinalTarget worker = no_status \<and> w_FinalFailureCode worker = ''''
     \<and> w_ActiveTurnID worker = '''' \<and> w_LastBoundTurnID worker = turnID"

definition finalizing_row :: "WorkerStatus \<Rightarrow> string \<Rightarrow> nat \<Rightarrow> int \<Rightarrow> WorkerReservation \<Rightarrow> WorkerReservation" where
  "finalizing_row target failureCode revision updatedAt row =
     row\<lparr>w_Status := WorkerFinalizing, w_RetryTarget := no_status, w_FailureCode := '''', w_FinalTarget := target,
         w_FinalFailureCode := failureCode, w_Revision := revision, w_UpdatedAt := updatedAt\<rparr>"

definition enter_finalizing ::
    "WorkerTurnStartIntent \<Rightarrow> WorkerReservation \<Rightarrow> ResultOutbox \<Rightarrow> string \<Rightarrow> WorkerStatus \<Rightarrow> string \<Rightarrow> int
       \<Rightarrow> (PeerDb, WorkerResultFinalization) tx" where
  "enter_finalizing i worker outbox turnID target failureCode timestamp =
     tx_bind nextWorkerRevision (\<lambda>revision.
     let updatedAt = max (max (max timestamp (w_UpdatedAt worker)) (ti_UpdatedAt i)) (rob_UpdatedAt outbox);
         w = finalizing_row target failureCode revision updatedAt worker in
     tx_bind (tx_check (wrap ''result-finalizing worker is invalid'' (WorkerReservation_Validate w))) (\<lambda>_.
     tx_bind (update_workers ''begin worker result finalization''
       (\<lambda>row. w_Key row = w_Key worker \<and> w_Status row \<in> {WorkerRunning, WorkerInterrupted} \<and> w_ActiveTurnID row = turnID)
       (finalizing_row target failureCode revision updatedAt)) (\<lambda>n.
     tx_bind (requireWorkerTurnStartUpdate n) (\<lambda>_.
     tx_ret \<lparr>rf_Intent = Some i, rf_Worker = w, rf_Outbox = outbox\<rparr>))))"

definition begin_result_tx ::
    "WorkerKey \<Rightarrow> string \<Rightarrow> WorkerStatus \<Rightarrow> string \<Rightarrow> int \<Rightarrow> (PeerDb, WorkerResultFinalization) tx" where
  "begin_result_tx key turnID target failureCode timestamp =
     tx_bind (tx_query (\<lambda>s. or_not_found (queryWorkerTurnStartIntentByTurn key turnID s))) (\<lambda>found.
     case found of
       None \<Rightarrow> tx_fail (Sentinel ErrResultPackageAuthority)
     | Some i \<Rightarrow>
         if ti_State i \<noteq> WorkerTurnStartBound \<or> ti_Key i \<noteq> key \<or> ti_TurnID i \<noteq> turnID then tx_fail (Sentinel ErrResultPackageAuthority)
         else
         tx_bind (tx_query (queryResultOutboxByPackage (ti_PackageID i))) (\<lambda>outbox.
         if obk_Worker (rob_Key outbox) \<noteq> key \<or> obk_SourceDeviceID (rob_Key outbox) \<noteq> ti_DeviceID i
            \<or> obk_PackageID (rob_Key outbox) \<noteq> ti_PackageID i \<or> rob_ReservationLimitBytes outbox \<noteq> ti_ReservationLimitBytes i
         then tx_fail (Sentinel ErrResultPackageAuthority)
         else
         tx_bind (tx_query (queryWorker key)) (\<lambda>worker.
         let done = \<lparr>rf_Intent = Some i, rf_Worker = worker, rf_Outbox = outbox\<rparr> in
         if w_Status worker = WorkerFinalizing
         then if w_ActiveTurnID worker \<noteq> turnID \<or> w_FinalTarget worker \<noteq> target \<or> w_FinalFailureCode worker \<noteq> failureCode
                 \<or> rob_State outbox \<noteq> ResultOutboxCapturePending \<and> rob_State outbox \<noteq> ResultOutboxPublishPending
              then tx_fail (Sentinel ErrResultPackageConflict) else tx_ret done
         else if w_Status worker = target \<and> workerTerminalMatches worker turnID failureCode
                 \<and> (rob_State outbox = ResultOutboxDeliveryPending \<or> rob_State outbox = ResultOutboxDelivered)
         then tx_ret done
         else if w_Status worker \<noteq> WorkerRunning \<and> w_Status worker \<noteq> WorkerInterrupted \<or> w_ActiveTurnID worker \<noteq> turnID
                 \<or> w_LastBoundTurnID worker \<noteq> turnID \<or> rob_State outbox \<noteq> ResultOutboxCapturePending
         then tx_fail (Wrapped ''cannot finalize worker/result package'' (Sentinel ErrWorkerTransition))
         else if w_CodexThreadID worker \<noteq> ti_ManagedThreadID i \<or> w_DeviceID worker \<noteq> ti_DeviceID i
         then tx_fail (Sentinel ErrResultPackageAuthority)
         else enter_finalizing i worker outbox turnID target failureCode timestamp)))"

definition BeginWorkerResultFinalization ::
    "WorkerKey \<Rightarrow> string \<Rightarrow> WorkerStatus \<Rightarrow> string \<Rightarrow> int \<Rightarrow> PeerDb \<Rightarrow> WorkerResultFinalization result \<times> PeerDb" where
  "BeginWorkerResultFinalization key turnID target failureCode observedAt =
     guard_tx (first_err [validateFinalizationRequest key turnID target failureCode, unixTime observedAt ''observedAt''])
       (begin_result_tx key turnID target failureCode observedAt)"

text \<open>What a manifest must agree with: the worker's state, its terminal outcome and its workspace.\<close>

definition terminal_disagrees :: "WorkerReservation \<Rightarrow> ResultTerminal \<Rightarrow> bool" where
  "terminal_disagrees worker t =
     (case rt_Outcome t of
        ResultTerminalCompleted \<Rightarrow> w_FinalTarget worker \<noteq> WorkerIdle \<or> w_FinalFailureCode worker \<noteq> ''''
      | ResultTerminalFailed \<Rightarrow> w_FinalTarget worker \<noteq> WorkerFailed \<or> w_FinalFailureCode worker \<noteq> rt_FailureCode t
      | ResultTerminalInterrupted \<Rightarrow> w_FinalTarget worker \<noteq> WorkerInterrupted \<or> w_FinalFailureCode worker \<noteq> rt_FailureCode t
      | ResultTerminal_other v \<Rightarrow> True)"

definition workspace_disagrees :: "PreparedWorkspace \<Rightarrow> ResultWorkspaceComponent \<Rightarrow> bool" where
  "workspace_disagrees workspace r \<longleftrightarrow>
     pws_SourceDeviceID workspace \<noteq> rw_SourceDeviceID r \<or> pws_TargetDeviceID workspace \<noteq> rw_TargetDeviceID r
     \<or> pws_ObjectFormat workspace \<noteq> rw_ObjectFormat r \<or> pws_HeadOID workspace \<noteq> rw_BaseHeadOID r
     \<or> pws_ManifestHash workspace \<noteq> rw_BaseManifestHash r \<or> pws_SourceSnapshotHash workspace \<noteq> rw_BaseSnapshotHash r
     \<or> pws_Clean workspace \<noteq> rw_BaseClean r \<or> pws_Warnings workspace \<noteq> elems (rw_BaseWarnings r)"

definition validateResultOutboxWorkerAuthority :: "WorkerReservation \<Rightarrow> ResultManifest \<Rightarrow> PeerDb \<Rightarrow> unit result" where
  "validateResultOutboxWorkerAuthority worker manifest s =
     (let denied = Inl (Sentinel ErrResultPackageAuthority) in
      if wk_ControllerID (w_Key worker) \<noteq> rm_ControllerID manifest \<or> wk_TreeID (w_Key worker) \<noteq> rm_TreeID manifest
         \<or> wk_AgentID (w_Key worker) \<noteq> rm_SourceAgentID manifest \<or> w_DeviceID worker \<noteq> rm_SourceDeviceID manifest
         \<or> w_CodexThreadID worker \<noteq> rm_ManagedThreadID manifest \<or> w_ActiveTurnID worker \<noteq> rm_TurnID manifest
         \<or> w_Revision worker \<noteq> rm_LifecycleRevision manifest \<or> w_Status worker \<noteq> WorkerFinalizing
      then denied
      else if terminal_disagrees worker (rm_Terminal manifest) then denied
      else if rw_Status (rm_Workspace manifest) = ResultWorkspaceNotManaged
      then if w_WorkspaceID worker \<noteq> '''' then denied else Inr ()
      else if w_WorkspaceID worker = '''' \<or> w_WorkspaceID worker \<noteq> rw_WorkspaceID (rm_Workspace manifest) then denied
      else case queryPreparedWorkspace (prepared_key worker) s of
        Inl e \<Rightarrow> Inl e
      | Inr workspace \<Rightarrow> if workspace_disagrees workspace (rm_Workspace manifest) then denied else Inr ())"

definition completed_row :: "WorkerStatus \<Rightarrow> string \<Rightarrow> string \<Rightarrow> nat \<Rightarrow> int \<Rightarrow> WorkerReservation \<Rightarrow> WorkerReservation" where
  "completed_row target activeTurn failureCode revision updatedAt row =
     row\<lparr>w_Status := target, w_RetryTarget := no_status, w_ActiveTurnID := activeTurn, w_FailureCode := failureCode,
         w_FinalTarget := no_status, w_FinalFailureCode := '''', w_Revision := revision, w_UpdatedAt := updatedAt\<rparr>"

definition completeWorkerResultFinalization ::
    "WorkerReservation \<Rightarrow> ResultManifest \<Rightarrow> int \<Rightarrow> (PeerDb, WorkerReservation) tx" where
  "completeWorkerResultFinalization worker manifest timestamp =
     tx_bind (tx_query (validateResultOutboxWorkerAuthority worker manifest)) (\<lambda>_.
     tx_bind nextWorkerRevision (\<lambda>revision.
     let finish = completed_row (w_FinalTarget worker) '''' (w_FinalFailureCode worker) revision (max timestamp (w_UpdatedAt worker));
         w = finish worker in
     tx_bind (tx_check (wrap ''terminal result worker is invalid'' (WorkerReservation_Validate w))) (\<lambda>_.
     tx_bind (update_workers ''complete worker result finalization''
       (\<lambda>row. w_Key row = w_Key worker \<and> w_Status row = WorkerFinalizing \<and> w_ActiveTurnID row = rm_TurnID manifest
              \<and> w_Revision row = rm_LifecycleRevision manifest) finish) (\<lambda>n.
     tx_bind (requireWorkerTurnStartUpdate n) (\<lambda>_.
     tx_ret w)))))"

section \<open>The result outbox\<close>

definition validateResultOutboxTurnIntentAuthority :: "ResultOutbox \<Rightarrow> ResultManifest \<Rightarrow> PeerDb \<Rightarrow> unit result" where
  "validateResultOutboxTurnIntentAuthority outbox manifest s =
     (case or_not_found (queryWorkerTurnStartIntentByPackage (obk_PackageID (rob_Key outbox)) s) of
        Inl e \<Rightarrow> Inl e
      | Inr None \<Rightarrow> Inl (Sentinel ErrResultPackageAuthority)
      | Inr (Some i) \<Rightarrow>
          if ti_State i \<noteq> WorkerTurnStartBound \<or> ti_Key i \<noteq> obk_Worker (rob_Key outbox)
             \<or> ti_DeviceID i \<noteq> obk_SourceDeviceID (rob_Key outbox) \<or> ti_ManagedThreadID i \<noteq> rm_ManagedThreadID manifest
             \<or> ti_TurnID i \<noteq> rm_TurnID manifest \<or> ti_PackageID i \<noteq> obk_PackageID (rob_Key outbox)
             \<or> ti_ReservationLimitBytes i \<noteq> rob_ReservationLimitBytes outbox
          then Inl (Sentinel ErrResultPackageAuthority) else Inr ())"

definition update_outbox :: "string \<Rightarrow> (OutboxRow \<Rightarrow> bool) \<Rightarrow> (OutboxRow \<Rightarrow> OutboxRow) \<Rightarrow> (PeerDb, nat) tx" where
  "update_outbox m guard f =
     tx_modify m (\<lambda>s. affected guard (peer_result_outbox s)) (\<lambda>s. s\<lparr>peer_result_outbox := upd guard f (peer_result_outbox s)\<rparr>)"

definition outbox_at :: "ResultOutboxKey \<Rightarrow> OutboxRow \<Rightarrow> bool" where
  "outbox_at key row \<longleftrightarrow> obk_Worker (ob_key row) = obk_Worker key \<and> obk_PackageID (ob_key row) = obk_PackageID key"

definition captured_row :: "ResultPackageMetadata \<Rightarrow> ResultManifest \<Rightarrow> int \<Rightarrow> int \<Rightarrow> OutboxRow \<Rightarrow> OutboxRow" where
  "captured_row metadata manifest packageBytes updatedAt row =
     row\<lparr>ob_state := ResultOutboxPublishPending, ob_managed_thread_id := rm_ManagedThreadID manifest,
         ob_turn_id := rm_TurnID manifest, ob_lifecycle_revision := rm_LifecycleRevision manifest,
         ob_manifest_bytes := md_Manifest metadata, ob_manifest_size_bytes := rd_Size (md_ManifestDescriptor metadata),
         ob_manifest_sha256 := rd_SHA256 (md_ManifestDescriptor metadata), ob_parts_json := rm_Parts manifest,
         ob_reserved_bytes := packageBytes, ob_package_bytes := packageBytes, ob_updated_at := updatedAt\<rparr>"

definition capture_tx ::
    "ResultOutboxKey \<Rightarrow> ResultPackageMetadata \<Rightarrow> ResultManifest \<Rightarrow> int \<Rightarrow> int \<Rightarrow> (PeerDb, ResultOutbox) tx" where
  "capture_tx key metadata manifest packageBytes timestamp =
     tx_bind (tx_query (queryResultOutbox key)) (\<lambda>stored.
     if rob_State stored \<noteq> ResultOutboxCapturePending
     then if SameResultPackageMetadata (rob_Metadata stored) metadata then tx_ret stored
          else tx_fail (Sentinel ErrResultPackageConflict)
     else
       tx_bind (tx_query (validateResultOutboxTurnIntentAuthority stored manifest)) (\<lambda>_.
       if packageBytes > rob_ReservationLimitBytes stored then tx_fail (Sentinel ErrResultPackageQuota)
       else
         tx_bind (tx_query (queryWorker (obk_Worker key))) (\<lambda>worker.
         tx_bind (tx_query (validateResultOutboxWorkerAuthority worker manifest)) (\<lambda>_.
         let updatedAt = max timestamp (rob_UpdatedAt stored) in
         tx_bind (update_outbox ''commit result outbox capture''
           (\<lambda>row. outbox_at key row \<and> ob_state row = ResultOutboxCapturePending)
           (captured_row metadata manifest packageBytes updatedAt)) (\<lambda>_.
         tx_ret (stored\<lparr>rob_State := ResultOutboxPublishPending, rob_Metadata := metadata, rob_Manifest := manifest,
           rob_PackageBytes := packageBytes, rob_ReservedBytes := packageBytes, rob_UpdatedAt := updatedAt\<rparr>))))))"

definition CommitResultOutboxCapture :: "ResultOutboxKey \<Rightarrow> ResultPackageMetadata \<Rightarrow> int \<Rightarrow> PeerDb \<Rightarrow> ResultOutbox result \<times> PeerDb" where
  "CommitResultOutboxCapture key metadata observedAt s =
     (case ResultOutboxKey_Validate key of
        Some e \<Rightarrow> (Inl e, s)
      | None \<Rightarrow>
          (case DecodeManifest metadata of
             Inl e \<Rightarrow> (Inl e, s)
           | Inr manifest \<Rightarrow>
               (case validateStoredResultMetadata key metadata manifest of
                  Some e \<Rightarrow> (Inl e, s)
                | None \<Rightarrow>
                    (case resultPackageBytes metadata of
                       Inl e \<Rightarrow> (Inl e, s)
                     | Inr packageBytes \<Rightarrow>
                         guard_tx (unixTime observedAt ''observedAt'') (capture_tx key metadata manifest packageBytes observedAt) s))))"

definition acknowledge_metadata_tx ::
    "ResultOutboxKey \<Rightarrow> ResultPackageMetadata \<Rightarrow> ResultManifest \<Rightarrow> int \<Rightarrow> (PeerDb, WorkerResultFinalization) tx" where
  "acknowledge_metadata_tx key metadata manifest timestamp =
     tx_bind (tx_query (queryResultOutbox key)) (\<lambda>outbox.
     if \<not> SameResultPackageMetadata (rob_Metadata outbox) metadata then tx_fail (Sentinel ErrResultPackageConflict)
     else
     tx_bind (tx_query (queryWorker (obk_Worker key))) (\<lambda>worker.
     if rob_State outbox = ResultOutboxDeliveryPending \<or> rob_State outbox = ResultOutboxDelivered
     then if w_DeviceID worker \<noteq> obk_SourceDeviceID (rob_Key outbox) \<or> w_CodexThreadID worker \<noteq> rm_ManagedThreadID manifest
          then tx_fail (Sentinel ErrResultPackageAuthority)
          else
            tx_bind (tx_query (\<lambda>s. or_not_found (queryWorkerTurnStartIntentByPackage (obk_PackageID key) s))) (\<lambda>i.
            tx_ret \<lparr>rf_Intent = i, rf_Worker = worker, rf_Outbox = outbox\<rparr>)
     else if rob_State outbox \<noteq> ResultOutboxPublishPending then tx_fail (Sentinel ErrResultPackageTransition)
     else
       tx_bind (tx_query (queryWorkerTurnStartIntentByPackage (obk_PackageID key))) (\<lambda>i.
       tx_bind (tx_query (validateResultOutboxTurnIntentAuthority outbox manifest)) (\<lambda>_.
       tx_bind (completeWorkerResultFinalization worker manifest timestamp) (\<lambda>w.
       let updatedAt = max (max timestamp (rob_UpdatedAt outbox)) (w_UpdatedAt w) in
       tx_bind (update_outbox ''acknowledge result outbox metadata''
         (\<lambda>row. outbox_at key row \<and> ob_state row = ResultOutboxPublishPending)
         (\<lambda>row. row\<lparr>ob_state := ResultOutboxDeliveryPending, ob_delivery_sequence := 0, ob_updated_at := updatedAt\<rparr>)) (\<lambda>n.
       tx_bind (requireWorkerTurnStartUpdate n) (\<lambda>_.
       tx_ret \<lparr>rf_Intent = Some i, rf_Worker = w,
         rf_Outbox = outbox\<lparr>rob_State := ResultOutboxDeliveryPending, rob_UpdatedAt := updatedAt\<rparr>\<rparr>)))))))"

definition AcknowledgeResultOutboxMetadata ::
    "ResultOutboxKey \<Rightarrow> ResultPackageMetadata \<Rightarrow> int \<Rightarrow> PeerDb \<Rightarrow> WorkerResultFinalization result \<times> PeerDb" where
  "AcknowledgeResultOutboxMetadata key metadata observedAt s =
     (case ResultOutboxKey_Validate key of
        Some e \<Rightarrow> (Inl e, s)
      | None \<Rightarrow>
          (case DecodeManifest metadata of
             Inl e \<Rightarrow> (Inl e, s)
           | Inr manifest \<Rightarrow>
               guard_tx (first_err [validateStoredResultMetadata key metadata manifest, unixTime observedAt ''observedAt''])
                 (acknowledge_metadata_tx key metadata manifest observedAt) s))"

definition moved_row :: "ResultOutboxState \<Rightarrow> nat \<Rightarrow> int \<Rightarrow> OutboxRow \<Rightarrow> OutboxRow" where
  "moved_row to seqno updatedAt row = row\<lparr>ob_state := to, ob_delivery_sequence := seqno, ob_updated_at := updatedAt\<rparr>"

definition transition_outbox_tx ::
    "ResultOutboxKey \<Rightarrow> int \<Rightarrow> ResultOutboxState \<Rightarrow> ResultOutboxState \<Rightarrow> nat \<Rightarrow> ResultPackageMetadata option \<Rightarrow> (PeerDb, ResultOutbox) tx" where
  "transition_outbox_tx key timestamp frm to seqno expectedMetadata =
     tx_bind (tx_query (queryResultOutbox key)) (\<lambda>stored.
     if (case expectedMetadata of None \<Rightarrow> False | Some md \<Rightarrow> \<not> SameResultPackageMetadata (rob_Metadata stored) md)
     then tx_fail (Sentinel ErrResultPackageConflict)
     else if rob_State stored = to
     then if rob_DeliverySequence stored = seqno then tx_ret stored else tx_fail (Sentinel ErrResultPackageConflict)
     else if to = ResultOutboxDeliveryPending \<and> rob_State stored = ResultOutboxDelivered then tx_ret stored
     else if rob_State stored \<noteq> frm then tx_fail (Sentinel ErrResultPackageTransition)
     else
       let updatedAt = max timestamp (rob_UpdatedAt stored) in
       tx_bind (update_outbox ''transition result outbox'' (\<lambda>row. outbox_at key row \<and> ob_state row = frm) (moved_row to seqno updatedAt)) (\<lambda>_.
       tx_ret (stored\<lparr>rob_State := to, rob_DeliverySequence := seqno, rob_UpdatedAt := updatedAt\<rparr>)))"

definition transitionResultOutbox ::
    "ResultOutboxKey \<Rightarrow> int \<Rightarrow> ResultOutboxState \<Rightarrow> ResultOutboxState \<Rightarrow> nat \<Rightarrow> ResultPackageMetadata option \<Rightarrow> PeerDb
       \<Rightarrow> ResultOutbox result \<times> PeerDb" where
  "transitionResultOutbox key observedAt frm to seqno expectedMetadata =
     guard_tx (first_err [ResultOutboxKey_Validate key, unixTime observedAt ''observedAt''])
       (transition_outbox_tx key observedAt frm to seqno expectedMetadata)"

definition AcknowledgeResultOutboxDelivery :: "ResultOutboxKey \<Rightarrow> nat \<Rightarrow> int \<Rightarrow> PeerDb \<Rightarrow> ResultOutbox result \<times> PeerDb" where
  "AcknowledgeResultOutboxDelivery key seqno observedAt =
     guarded (fail_if (seqno = 0 \<or> int seqno > MaxInt64) (Plain ''delivery sequence must be a positive signed 64-bit integer''))
       (transitionResultOutbox key observedAt ResultOutboxDeliveryPending ResultOutboxDelivered seqno None)"

definition prepare_release_tx :: "ResultOutboxKey \<Rightarrow> nat \<Rightarrow> int \<Rightarrow> (PeerDb, ResultOutbox) tx" where
  "prepare_release_tx key seqno timestamp =
     tx_bind (tx_query (queryResultOutbox key)) (\<lambda>stored.
     if rob_DeliverySequence stored \<noteq> seqno then tx_fail (Sentinel ErrResultPackageConflict)
     else if rob_State stored = ResultOutboxReleasePending then tx_ret stored
     else if rob_State stored \<noteq> ResultOutboxDelivered then tx_fail (Sentinel ErrResultPackageTransition)
     else
       let updatedAt = max timestamp (rob_UpdatedAt stored) in
       tx_bind (update_outbox ''prepare result outbox release''
         (\<lambda>row. outbox_at key row \<and> ob_state row = ResultOutboxDelivered \<and> ob_delivery_sequence row = seqno)
         (\<lambda>row. row\<lparr>ob_state := ResultOutboxReleasePending, ob_updated_at := updatedAt\<rparr>)) (\<lambda>n.
       if n \<noteq> 1 then tx_fail (Sentinel ErrResultPackageTransition)
       else tx_ret (stored\<lparr>rob_State := ResultOutboxReleasePending, rob_UpdatedAt := updatedAt\<rparr>)))"

definition PrepareResultOutboxRelease :: "ResultOutboxKey \<Rightarrow> nat \<Rightarrow> int \<Rightarrow> PeerDb \<Rightarrow> ResultOutbox result \<times> PeerDb" where
  "PrepareResultOutboxRelease key seqno observedAt =
     guard_tx (first_err
         [ResultOutboxKey_Validate key,
          fail_if (seqno = 0 \<or> int seqno > MaxInt64) (Plain ''result outbox release sequence is invalid''),
          unixTime observedAt ''observedAt''])
       (prepare_release_tx key seqno observedAt)"

definition compact_release_tx :: "ResultOutboxKey \<Rightarrow> (PeerDb, unit) tx" where
  "compact_release_tx key =
     tx_bind (tx_query (\<lambda>s. or_not_found (queryResultOutbox key s))) (\<lambda>found.
     case found of
       None \<Rightarrow> tx_ret ()
     | Some stored \<Rightarrow>
         if rob_State stored \<noteq> ResultOutboxReleasePending then tx_fail (Sentinel ErrResultPackageTransition)
         else
           tx_bind (tx_modify ''compact result outbox release'' (\<lambda>s. 1)
             (\<lambda>s. s\<lparr>peer_result_outbox :=
                filter (\<lambda>row. \<not> (outbox_at key row \<and> ob_state row = ResultOutboxReleasePending)) (peer_result_outbox s)\<rparr>)) (\<lambda>_.
           tx_ret ()))"

definition CompactResultOutboxRelease :: "ResultOutboxKey \<Rightarrow> PeerDb \<Rightarrow> unit result \<times> PeerDb" where
  "CompactResultOutboxRelease key = guard_tx (ResultOutboxKey_Validate key) (compact_release_tx key)"

definition GetResultOutbox :: "ResultOutboxKey \<Rightarrow> PeerDb \<Rightarrow> ResultOutbox result" where
  "GetResultOutbox key s = guard_res (ResultOutboxKey_Validate key) (queryResultOutbox key s)"

definition validateChangesArtifactDevice :: "string \<Rightarrow> string \<Rightarrow> err" where
  "validateChangesArtifactDevice controllerID deviceID =
     first_err [wrap ''controllerId'' (ValidateID controllerID), wrap ''deviceId'' (ValidateID deviceID)]"

definition validateResultPage :: "int \<Rightarrow> err" where
  "validateResultPage limit = fail_if (limit < 1 \<or> limit > maximumPeerResultPage) (Plain ''limit is out of range'')"

fun outbox_state_known :: "ResultOutboxState \<Rightarrow> bool" where
  "outbox_state_known (ResultOutboxState_other s) = False"
| "outbox_state_known _ = True"

definition listResultOutboxes :: "string \<Rightarrow> string \<Rightarrow> ResultOutboxState \<Rightarrow> int \<Rightarrow> PeerDb \<Rightarrow> ResultOutbox list result" where
  "listResultOutboxes controllerID deviceID state limit s =
     guard_res (first_err
         [validateChangesArtifactDevice controllerID deviceID, validateResultPage limit,
          fail_if (\<not> outbox_state_known state) (Plain ''unsupported result outbox list state'')])
       (traverse (\<lambda>r. scanResultOutbox (Some r)) (take (nat limit)
         (sort_key (\<lambda>r. (ob_updated_at r, ob_created_at r, wk_TreeID (obk_Worker (ob_key r)), wk_AgentID (obk_Worker (ob_key r)),
                          obk_PackageID (ob_key r)))
           (filter (\<lambda>r. wk_ControllerID (obk_Worker (ob_key r)) = controllerID \<and> obk_SourceDeviceID (ob_key r) = deviceID
                \<and> ob_state r = state) (peer_result_outbox s)))))"

definition ListPendingResultPublications :: "string \<Rightarrow> string \<Rightarrow> int \<Rightarrow> PeerDb \<Rightarrow> ResultOutbox list result" where
  "ListPendingResultPublications controllerID deviceID limit = listResultOutboxes controllerID deviceID ResultOutboxPublishPending limit"

definition ListPendingResultCaptures :: "string \<Rightarrow> string \<Rightarrow> int \<Rightarrow> PeerDb \<Rightarrow> ResultOutbox list result" where
  "ListPendingResultCaptures controllerID deviceID limit = listResultOutboxes controllerID deviceID ResultOutboxCapturePending limit"

definition ListPendingResultDeliveries :: "string \<Rightarrow> string \<Rightarrow> int \<Rightarrow> PeerDb \<Rightarrow> ResultOutbox list result" where
  "ListPendingResultDeliveries controllerID deviceID limit = listResultOutboxes controllerID deviceID ResultOutboxDeliveryPending limit"

definition ListDeliveredResultOutboxes :: "string \<Rightarrow> string \<Rightarrow> int \<Rightarrow> PeerDb \<Rightarrow> ResultOutbox list result" where
  "ListDeliveredResultOutboxes controllerID deviceID limit = listResultOutboxes controllerID deviceID ResultOutboxDelivered limit"

definition ListPendingResultOutboxReleases :: "string \<Rightarrow> string \<Rightarrow> int \<Rightarrow> PeerDb \<Rightarrow> ResultOutbox list result" where
  "ListPendingResultOutboxReleases controllerID deviceID limit = listResultOutboxes controllerID deviceID ResultOutboxReleasePending limit"

end
