(* ===== verification/PeerArtifact.thy ===== *)
theory PeerArtifact
  imports PeerFinal
begin

text \<open>
  Finalizing a worker with a changes artifact of its workspace
  (\<^verbatim>\<open>internal/store/peer_changes_artifact_transition.go\<close>, \<^verbatim>\<open>peer_changes_artifact_query.go\<close>), and the recovery of
  the workers that lost their process (\<^verbatim>\<open>worker_recovery.go\<close>). The identifier of a new artifact is made of
  the random bytes that the caller passes.
\<close>

section \<open>Beginning a finalization\<close>

record WorkerFinalization =
  fin_Worker :: WorkerReservation
  fin_Artifact :: ChangesArtifact

definition requireFinalizationWorkspace :: "WorkerReservation \<Rightarrow> PeerDb \<Rightarrow> PreparedWorkspace result" where
  "requireFinalizationWorkspace worker s =
     (if w_WorkspaceID worker = '''' then Inl (Sentinel ErrChangesArtifactAuthority)
      else case or_not_found (queryPreparedWorkspace (prepared_key worker) s) of
        Inl e \<Rightarrow> Inl e
      | Inr None \<Rightarrow> Inl (Sentinel ErrChangesArtifactAuthority)
      | Inr (Some workspace) \<Rightarrow>
          if pws_Status workspace \<noteq> PreparedWorkspaceClaimed \<or> pws_ClaimedAgentID workspace \<noteq> wk_AgentID (w_Key worker)
             \<or> pws_SourceAgentID workspace \<noteq> w_ParentAgentID worker \<or> pws_TargetDeviceID workspace \<noteq> w_DeviceID worker
             \<or> pws_WorkspacePath workspace \<noteq> w_WorkspacePath worker \<or> pws_WorkingDirectory workspace \<noteq> w_WorkingDirectory worker
          then Inl (Sentinel ErrChangesArtifactAuthority) else Inr workspace)"

definition pending_artifact ::
    "WorkerReservation \<Rightarrow> PreparedWorkspace \<Rightarrow> string \<Rightarrow> WorkerStatus \<Rightarrow> string \<Rightarrow> int \<Rightarrow> ChangesArtifact" where
  "pending_artifact worker workspace artifactID target failureCode timestamp =
     \<lparr>ca_Key = w_Key worker, ca_ArtifactID = artifactID, ca_TurnID = w_ActiveTurnID worker, ca_WorkspaceID = w_WorkspaceID worker,
      ca_WorkspaceSourceDeviceID = pws_SourceDeviceID workspace, ca_WorkspaceTargetDeviceID = pws_TargetDeviceID workspace,
      ca_CompletionTarget = target, ca_CompletionFailureCode = failureCode, ca_State = ChangesCapturePending, ca_Status = no_capture,
      ca_ObjectFormat = pws_ObjectFormat workspace, ca_BaseHeadOID = pws_HeadOID workspace, ca_BaseClean = pws_Clean workspace,
      ca_BaseManifestHash = pws_ManifestHash workspace, ca_BaseSnapshotHash = pws_SourceSnapshotHash workspace,
      ca_BaseWarnings = pws_Warnings workspace, ca_ResultHeadOID = '''', ca_ResultSnapshotHash = '''', ca_ResultClean = False,
      ca_Parts = [], ca_ResultWarnings = [], ca_FailureCode = '''', ca_RetentionReserved = False, ca_ReservedBytes = 0,
      ca_PayloadBytes = 0, ca_BrokerSequence = 0, ca_CreatedAt = timestamp, ca_UpdatedAt = timestamp\<rparr>"

definition beginWorkerFinalization ::
    "WorkerReservation \<Rightarrow> PreparedWorkspace \<Rightarrow> string \<Rightarrow> WorkerStatus \<Rightarrow> string \<Rightarrow> int \<Rightarrow> (PeerDb, WorkerFinalization) tx" where
  "beginWorkerFinalization worker workspace artifactID target failureCode timestamp =
     tx_bind nextWorkerRevision (\<lambda>revision.
     let updatedAt = max timestamp (w_UpdatedAt worker);
         w = finalizing_row target failureCode revision updatedAt worker;
         artifact = pending_artifact worker workspace artifactID target failureCode timestamp in
     tx_bind (tx_check (ChangesArtifact_Validate artifact)) (\<lambda>_.
     tx_bind (update_workers ''begin worker finalization''
       (\<lambda>row. w_Key row = w_Key worker \<and> w_ActiveTurnID row = w_ActiveTurnID worker)
       (finalizing_row target failureCode revision updatedAt)) (\<lambda>_.
     tx_bind (tx_modify ''create changes artifact'' (\<lambda>s. 1)
       (\<lambda>s. s\<lparr>peer_changes_artifacts := peer_changes_artifacts s @ [artifact]\<rparr>)) (\<lambda>_.
     tx_ret \<lparr>fin_Worker = w, fin_Artifact = artifact\<rparr>))))"

definition new_artifact_id :: "8 word list result \<Rightarrow> string result" where
  "new_artifact_id random = (case NewID random of Inl e \<Rightarrow> Inl (Wrapped ''create changes artifact ID'' e) | Inr i \<Rightarrow> Inr i)"

definition begin_finalization_tx ::
    "WorkerKey \<Rightarrow> string \<Rightarrow> WorkerStatus \<Rightarrow> string \<Rightarrow> 8 word list result \<Rightarrow> int \<Rightarrow> (PeerDb, WorkerFinalization) tx" where
  "begin_finalization_tx key turnID target failureCode random timestamp =
     tx_bind (tx_query (\<lambda>s. or_not_found (queryPeerChangesArtifactByTurn key turnID s))) (\<lambda>found.
     case found of
       Some existing \<Rightarrow>
         if ca_CompletionTarget existing \<noteq> target \<or> ca_CompletionFailureCode existing \<noteq> failureCode
         then tx_fail (Sentinel ErrChangesArtifactConflict)
         else tx_bind (tx_query (queryWorker key)) (\<lambda>worker. tx_ret \<lparr>fin_Worker = worker, fin_Artifact = existing\<rparr>)
     | None \<Rightarrow>
         tx_bind (tx_query (queryWorker key)) (\<lambda>worker.
         if w_Status worker \<noteq> WorkerRunning \<and> w_Status worker \<noteq> WorkerInterrupted
         then tx_fail (Wrapped ''cannot finalize worker'' (Sentinel ErrWorkerTransition))
         else if w_ActiveTurnID worker \<noteq> turnID then tx_fail (Sentinel ErrChangesArtifactConflict)
         else
           tx_bind (tx_query (requireFinalizationWorkspace worker)) (\<lambda>workspace.
           tx_bind (tx_query (\<lambda>s. new_artifact_id random)) (\<lambda>artifactID.
           beginWorkerFinalization worker workspace artifactID target failureCode timestamp))))"

definition BeginWorkerFinalization ::
    "WorkerKey \<Rightarrow> string \<Rightarrow> WorkerStatus \<Rightarrow> string \<Rightarrow> 8 word list result \<Rightarrow> int \<Rightarrow> PeerDb \<Rightarrow> WorkerFinalization result \<times> PeerDb" where
  "BeginWorkerFinalization key turnID target failureCode random observedAt =
     guard_tx (first_err [validateFinalizationRequest key turnID target failureCode, unixTime observedAt ''observedAt''])
       (begin_finalization_tx key turnID target failureCode random observedAt)"

section \<open>Capturing and publishing\<close>

definition artifact_at :: "ChangesArtifact \<Rightarrow> ChangesArtifact \<Rightarrow> bool" where
  "artifact_at a row \<longleftrightarrow> ca_Key row = ca_Key a \<and> ca_ArtifactID row = ca_ArtifactID a"

definition update_artifacts :: "string \<Rightarrow> (ChangesArtifact \<Rightarrow> bool) \<Rightarrow> (ChangesArtifact \<Rightarrow> ChangesArtifact) \<Rightarrow> (PeerDb, nat) tx" where
  "update_artifacts m guard f =
     tx_modify m (\<lambda>s. affected guard (peer_changes_artifacts s))
       (\<lambda>s. s\<lparr>peer_changes_artifacts := upd guard f (peer_changes_artifacts s)\<rparr>)"

definition retained_bytes :: "PeerDb \<Rightarrow> int" where
  "retained_bytes s = sum_list (map ca_ReservedBytes (filter ca_RetentionReserved (peer_changes_artifacts s)))"

definition reserve_payload_tx :: "WorkerKey \<Rightarrow> string \<Rightarrow> int \<Rightarrow> int \<Rightarrow> (PeerDb, ChangesArtifact) tx" where
  "reserve_payload_tx key artifactID bytes timestamp =
     tx_bind (tx_query (queryPeerChangesArtifact key artifactID)) (\<lambda>artifact.
     if ca_State artifact \<noteq> ChangesCapturePending then tx_fail (Sentinel ErrChangesArtifactTransition)
     else if ca_RetentionReserved artifact
     then if ca_ReservedBytes artifact \<noteq> bytes then tx_fail (Sentinel ErrChangesArtifactConflict) else tx_ret artifact
     else
       tx_bind (tx_get retained_bytes) (\<lambda>retainedBytes.
       if retainedBytes > MaximumRetainedChangesPayloadBytes - bytes then tx_fail (Sentinel ErrChangesArtifactQuota)
       else
         let reserve = (\<lambda>row. row\<lparr>ca_RetentionReserved := True, ca_ReservedBytes := bytes,
                          ca_UpdatedAt := max timestamp (ca_UpdatedAt artifact)\<rparr>) in
         tx_bind (update_artifacts ''reserve changes artifact payload'' (artifact_at artifact) reserve) (\<lambda>_.
         tx_ret (reserve artifact))))"

definition ReserveChangesArtifactPayload :: "WorkerKey \<Rightarrow> string \<Rightarrow> int \<Rightarrow> int \<Rightarrow> PeerDb \<Rightarrow> ChangesArtifact result \<times> PeerDb" where
  "ReserveChangesArtifactPayload key artifactID bytes observedAt =
     guard_tx (first_err
         [validateChangesArtifactIdentity key artifactID,
          fail_if (bytes < 1 \<or> bytes > MaximumChangesArtifactPayloadBytes) (Plain ''reserved payload bytes are out of range''),
          unixTime observedAt ''observedAt''])
       (reserve_payload_tx key artifactID bytes observedAt)"

definition artifact_worker_ok :: "WorkerReservation \<Rightarrow> ChangesArtifact \<Rightarrow> bool" where
  "artifact_worker_ok worker a \<longleftrightarrow>
     w_Status worker = WorkerFinalizing \<and> w_ActiveTurnID worker = ca_TurnID a \<and> w_WorkspaceID worker = ca_WorkspaceID a"

definition captured_artifact :: "ChangesCaptureResult \<Rightarrow> int \<Rightarrow> ChangesArtifact \<Rightarrow> ChangesArtifact" where
  "captured_artifact r timestamp a =
     (let payload = changesPayloadBytes (cc_Parts r); kept = (cc_Status r = ChangesAvailable \<and> payload > 0) in
      a\<lparr>ca_State := ChangesPublishPending, ca_Status := cc_Status r, ca_ResultHeadOID := cc_ResultHeadOID r,
        ca_ResultSnapshotHash := cc_ResultSnapshotHash r, ca_ResultClean := cc_ResultClean r, ca_Parts := cc_Parts r,
        ca_ResultWarnings := cc_ResultWarnings r, ca_FailureCode := cc_FailureCode r,
        ca_RetentionReserved := (if kept then ca_RetentionReserved a else False),
        ca_ReservedBytes := (if kept then payload else 0), ca_PayloadBytes := payload,
        ca_UpdatedAt := max timestamp (ca_UpdatedAt a)\<rparr>)"

text \<open>The columns of a capture, the parts as a scan reads them back.\<close>

definition write_capture :: "ChangesArtifact \<Rightarrow> ChangesArtifact \<Rightarrow> ChangesArtifact" where
  "write_capture a row =
     row\<lparr>ca_State := ca_State a, ca_Status := ca_Status a, ca_ResultHeadOID := ca_ResultHeadOID a,
         ca_ResultSnapshotHash := ca_ResultSnapshotHash a, ca_ResultClean := ca_ResultClean a,
         ca_Parts := scanned_parts (splitChangesParts (ca_Parts a)), ca_ResultWarnings := ca_ResultWarnings a,
         ca_FailureCode := ca_FailureCode a, ca_RetentionReserved := ca_RetentionReserved a,
         ca_ReservedBytes := ca_ReservedBytes a, ca_PayloadBytes := ca_PayloadBytes a, ca_UpdatedAt := ca_UpdatedAt a\<rparr>"

definition complete_capture_tx :: "WorkerKey \<Rightarrow> string \<Rightarrow> ChangesCaptureResult \<Rightarrow> int \<Rightarrow> (PeerDb, ChangesArtifact) tx" where
  "complete_capture_tx key artifactID r timestamp =
     tx_bind (tx_query (queryPeerChangesArtifact key artifactID)) (\<lambda>artifact.
     if ca_State artifact \<noteq> ChangesCapturePending
     then if sameChangesCapture artifact r then tx_ret artifact else tx_fail (Sentinel ErrChangesArtifactConflict)
     else
       tx_bind (tx_check (validateChangesCaptureForArtifact artifact r)) (\<lambda>_.
       tx_bind (tx_query (queryWorker key)) (\<lambda>worker.
       if \<not> artifact_worker_ok worker artifact then tx_fail (Sentinel ErrChangesArtifactAuthority)
       else
         let a = captured_artifact r timestamp artifact in
         tx_bind (update_artifacts ''complete changes artifact capture'' (artifact_at a) (write_capture a)) (\<lambda>_.
         if cc_Status r = ChangesCaptureFailed
         then tx_bind (update_workers ''record failed changes capture target''
                (\<lambda>row. w_Key row = w_Key worker \<and> w_Status row = WorkerFinalizing \<and> w_ActiveTurnID row = w_ActiveTurnID worker)
                (\<lambda>row. row\<lparr>w_FinalTarget := WorkerFailed, w_FinalFailureCode := changesCaptureFailureCode\<rparr>)) (\<lambda>_. tx_ret a)
         else tx_ret a))))"

definition CompleteChangesArtifactCapture ::
    "WorkerKey \<Rightarrow> string \<Rightarrow> ChangesCaptureResult \<Rightarrow> int \<Rightarrow> PeerDb \<Rightarrow> ChangesArtifact result \<times> PeerDb" where
  "CompleteChangesArtifactCapture key artifactID capture observedAt =
     (let r = capture\<lparr>cc_Parts := canonicalChangesParts (cc_Parts capture)\<rparr> in
      guard_tx (first_err
          [validateChangesArtifactIdentity key artifactID, validateChangesCaptureResult r, unixTime observedAt ''observedAt''])
        (complete_capture_tx key artifactID r observedAt))"

definition acknowledge_artifact_tx :: "WorkerKey \<Rightarrow> string \<Rightarrow> nat \<Rightarrow> int \<Rightarrow> (PeerDb, WorkerFinalization) tx" where
  "acknowledge_artifact_tx key artifactID brokerSequence timestamp =
     tx_bind (tx_query (queryPeerChangesArtifact key artifactID)) (\<lambda>artifact.
     tx_bind (tx_query (queryWorker key)) (\<lambda>worker.
     if ca_State artifact = ChangesPublished
     then if ca_BrokerSequence artifact \<noteq> brokerSequence then tx_fail (Sentinel ErrChangesArtifactConflict)
          else tx_ret \<lparr>fin_Worker = worker, fin_Artifact = artifact\<rparr>
     else if ca_State artifact \<noteq> ChangesPublishPending then tx_fail (Sentinel ErrChangesArtifactTransition)
     else if \<not> artifact_worker_ok worker artifact then tx_fail (Sentinel ErrChangesArtifactAuthority)
     else
       tx_bind nextWorkerRevision (\<lambda>revision.
       let finish = completed_row (w_FinalTarget worker)
             (if w_FinalTarget worker \<noteq> WorkerInterrupted then '''' else w_ActiveTurnID worker) (w_FinalFailureCode worker) revision
             (max timestamp (w_UpdatedAt worker));
           w = finish worker;
           publish = (\<lambda>row. row\<lparr>ca_State := ChangesPublished, ca_BrokerSequence := brokerSequence,
             ca_UpdatedAt := max timestamp (ca_UpdatedAt artifact)\<rparr>) in
       tx_bind (tx_check (wrap ''terminal worker is invalid'' (WorkerReservation_Validate w))) (\<lambda>_.
       tx_bind (update_artifacts ''acknowledge changes artifact'' (artifact_at artifact) publish) (\<lambda>_.
       tx_bind (update_workers ''complete finalized worker''
         (\<lambda>row. w_Key row = w_Key worker \<and> w_Status row = WorkerFinalizing \<and> w_ActiveTurnID row = ca_TurnID artifact) finish) (\<lambda>_.
       tx_ret \<lparr>fin_Worker = w, fin_Artifact = publish artifact\<rparr>))))))"

definition AcknowledgeChangesArtifact :: "WorkerKey \<Rightarrow> string \<Rightarrow> nat \<Rightarrow> int \<Rightarrow> PeerDb \<Rightarrow> WorkerFinalization result \<times> PeerDb" where
  "AcknowledgeChangesArtifact key artifactID brokerSequence observedAt =
     guard_tx (first_err
         [validateChangesArtifactIdentity key artifactID,
          fail_if (brokerSequence = 0 \<or> int brokerSequence > MaxInt64) (Plain ''brokerSequence must be a positive signed 64-bit integer''),
          unixTime observedAt ''observedAt''])
       (acknowledge_artifact_tx key artifactID brokerSequence observedAt)"

section \<open>Reading and deleting artifacts\<close>

definition GetChangesArtifact :: "WorkerKey \<Rightarrow> string \<Rightarrow> PeerDb \<Rightarrow> ChangesArtifact result" where
  "GetChangesArtifact key artifactID s =
     guard_res (validateChangesArtifactIdentity key artifactID) (queryPeerChangesArtifact key artifactID s)"

definition validateChangesArtifactListRequest :: "string \<Rightarrow> string \<Rightarrow> int \<Rightarrow> err" where
  "validateChangesArtifactListRequest controllerID deviceID limit =
     first_err [validateChangesArtifactDevice controllerID deviceID,
       fail_if (limit < 1 \<or> limit > maximumChangesArtifactPage) (Plain ''limit is out of range'')]"

text \<open>The rows of a device: an artifact joined with its worker's reservation.\<close>

definition device_artifacts :: "string \<Rightarrow> string \<Rightarrow> ChangesArtifactState \<Rightarrow> PeerDb \<Rightarrow> ChangesArtifact list" where
  "device_artifacts controllerID deviceID state s =
     filter (\<lambda>a. wk_ControllerID (ca_Key a) = controllerID \<and> ca_State a = state
          \<and> list_ex (\<lambda>w. w_Key w = ca_Key a \<and> w_DeviceID w = deviceID) (worker_reservations s))
       (peer_changes_artifacts s)"

definition scanChangesArtifactRows :: "ChangesArtifact list \<Rightarrow> ChangesArtifact list result" where
  "scanChangesArtifactRows rows = traverse (\<lambda>a. scanPeerChangesArtifact (Some a)) rows"

definition listChangesArtifacts :: "string \<Rightarrow> string \<Rightarrow> ChangesArtifactState \<Rightarrow> int \<Rightarrow> PeerDb \<Rightarrow> ChangesArtifact list result" where
  "listChangesArtifacts controllerID deviceID state limit s =
     guard_res (first_err
         [validateChangesArtifactListRequest controllerID deviceID limit,
          fail_if (state \<noteq> ChangesCapturePending \<and> state \<noteq> ChangesPublishPending) (Plain ''unsupported pending changes artifact state'')])
       (scanChangesArtifactRows (take (nat limit)
         (sort_key (\<lambda>a. (ca_CreatedAt a, wk_TreeID (ca_Key a), wk_AgentID (ca_Key a), ca_TurnID a))
           (device_artifacts controllerID deviceID state s))))"

definition ListPendingChangesCaptures :: "string \<Rightarrow> string \<Rightarrow> int \<Rightarrow> PeerDb \<Rightarrow> ChangesArtifact list result" where
  "ListPendingChangesCaptures controllerID deviceID limit = listChangesArtifacts controllerID deviceID ChangesCapturePending limit"

definition ListPendingChangesPublications :: "string \<Rightarrow> string \<Rightarrow> int \<Rightarrow> PeerDb \<Rightarrow> ChangesArtifact list result" where
  "ListPendingChangesPublications controllerID deviceID limit = listChangesArtifacts controllerID deviceID ChangesPublishPending limit"

definition ListPublishedChangesArtifacts :: "string \<Rightarrow> string \<Rightarrow> int \<Rightarrow> PeerDb \<Rightarrow> ChangesArtifact list result" where
  "ListPublishedChangesArtifacts controllerID deviceID limit s =
     guard_res (validateChangesArtifactListRequest controllerID deviceID limit)
       (scanChangesArtifactRows (take (nat limit)
         (sort_key (\<lambda>a. (ca_UpdatedAt a, ca_CreatedAt a, wk_TreeID (ca_Key a), wk_AgentID (ca_Key a), ca_TurnID a))
           (device_artifacts controllerID deviceID ChangesPublished s))))"

definition GetPublishedChangesArtifactRetention :: "string \<Rightarrow> string \<Rightarrow> PeerDb \<Rightarrow> (nat \<times> int) result" where
  "GetPublishedChangesArtifactRetention controllerID deviceID s =
     guard_res (validateChangesArtifactDevice controllerID deviceID)
       (let rows = device_artifacts controllerID deviceID ChangesPublished s in
        Inr (length rows, sum_list (map ca_ReservedBytes rows)))"

definition delete_artifact_tx :: "WorkerKey \<Rightarrow> string \<Rightarrow> (PeerDb, unit) tx" where
  "delete_artifact_tx key artifactID =
     tx_bind (tx_query (\<lambda>s. or_not_found (queryPeerChangesArtifact key artifactID s))) (\<lambda>found.
     case found of
       None \<Rightarrow> tx_ret ()
     | Some artifact \<Rightarrow>
         if ca_State artifact \<noteq> ChangesPublished then tx_fail (Sentinel ErrChangesArtifactTransition)
         else
           let gone = (\<lambda>row. ca_Key row = key \<and> ca_ArtifactID row = artifactID \<and> ca_State row = ChangesPublished) in
           tx_bind (tx_modify ''delete published changes artifact'' (\<lambda>s. affected gone (peer_changes_artifacts s))
             (\<lambda>s. s\<lparr>peer_changes_artifacts := filter (\<lambda>row. \<not> gone row) (peer_changes_artifacts s)\<rparr>)) (\<lambda>n.
           if n \<noteq> 1 then tx_fail (Sentinel ErrChangesArtifactTransition) else tx_ret ()))"

definition DeletePublishedChangesArtifact :: "WorkerKey \<Rightarrow> string \<Rightarrow> PeerDb \<Rightarrow> unit result \<times> PeerDb" where
  "DeletePublishedChangesArtifact key artifactID =
     guard_tx (validateChangesArtifactIdentity key artifactID) (delete_artifact_tx key artifactID)"

section \<open>Recovery\<close>

definition workerStartupInterruptedFailure :: string where "workerStartupInterruptedFailure = ''app_server_interrupted''"
definition workerThreadStartAmbiguousFailure :: string where "workerThreadStartAmbiguousFailure = ''thread_start_ambiguous''"
definition workerTurnStartInterruptedFailure :: string where "workerTurnStartInterruptedFailure = ''turn_start_interrupted''"
definition workerRunningTurnInterruptedFailure :: string where "workerRunningTurnInterruptedFailure = ''turn_interrupted''"

definition intent_fences :: "WorkerReservation \<Rightarrow> WorkerTurnStartIntent \<Rightarrow> bool" where
  "intent_fences w i \<longleftrightarrow>
     ti_Key i = w_Key w
     \<and> (ti_State i = WorkerTurnStartPrepared \<and> w_Status w = WorkerReady
        \<or> ti_State i = WorkerTurnStartBound \<and> w_Status w = WorkerRunning \<and> ti_TurnID i = w_ActiveTurnID w)"

definition recoverable :: "string \<Rightarrow> string \<Rightarrow> PeerDb \<Rightarrow> WorkerReservation \<Rightarrow> bool" where
  "recoverable controllerID deviceID s w \<longleftrightarrow>
     wk_ControllerID (w_Key w) = controllerID \<and> w_DeviceID w = deviceID
     \<and> w_Status w \<in> {WorkerReserved, WorkerStarting, WorkerPreflight, WorkerReady, WorkerRunning}
     \<and> \<not> list_ex (intent_fences w) (worker_turn_start_intents s)"

definition interrupted_workers :: "string \<Rightarrow> string \<Rightarrow> PeerDb \<Rightarrow> WorkerReservation list result" where
  "interrupted_workers controllerID deviceID s =
     traverse (\<lambda>w. scanWorker (Some w))
       (sort_key (\<lambda>w. (w_CreatedAt w, wk_TreeID (w_Key w), wk_AgentID (w_Key w)))
         (filter (recoverable controllerID deviceID s) (worker_reservations s)))"

text \<open>The retry target a worker falls back to when its thread is known.\<close>

definition restored :: "WorkerReservation \<Rightarrow> WorkerReservation result" where
  "restored w =
     (if w_RetryTarget w = WorkerPending \<or> w_RetryTarget w = WorkerIdle
      then Inr (w\<lparr>w_ActiveTurnID := '''', w_Status := w_RetryTarget w, w_RetryTarget := no_status, w_FailureCode := ''''\<rparr>)
      else Inl (Plain ''unexpected retry target''))"

definition recovered_worker :: "WorkerReservation \<Rightarrow> WorkerReservation result" where
  "recovered_worker w =
     (case w_Status w of
        WorkerRunning \<Rightarrow>
          Inr (w\<lparr>w_Status := WorkerInterrupted, w_RetryTarget := no_status, w_FailureCode := workerRunningTurnInterruptedFailure\<rparr>)
      | WorkerReady \<Rightarrow>
          Inr (w\<lparr>w_Status := WorkerInterrupted, w_RetryTarget := no_status, w_ActiveTurnID := '''',
                 w_FailureCode := workerTurnStartInterruptedFailure\<rparr>)
      | WorkerStarting \<Rightarrow>
          if w_CodexThreadID w = ''''
          then Inr (w\<lparr>w_ActiveTurnID := '''', w_Status := WorkerFailed, w_RetryTarget := no_status,
                      w_FailureCode := workerThreadStartAmbiguousFailure\<rparr>)
          else restored w
      | WorkerPreflight \<Rightarrow> restored w
      | WorkerReserved \<Rightarrow>
          Inr (w\<lparr>w_Status := WorkerFailed, w_RetryTarget := no_status, w_ActiveTurnID := '''',
                 w_FailureCode := workerStartupInterruptedFailure\<rparr>)
      | WorkerStatus_other v \<Rightarrow> Inr w
      | _ \<Rightarrow> Inl (Plain ''unexpected recovery status''))"

definition write_recovered :: "WorkerReservation \<Rightarrow> WorkerReservation \<Rightarrow> WorkerReservation" where
  "write_recovered w row =
     row\<lparr>w_Status := w_Status w, w_RetryTarget := w_RetryTarget w, w_ActiveTurnID := w_ActiveTurnID w,
         w_FailureCode := w_FailureCode w, w_Revision := w_Revision w, w_UpdatedAt := w_UpdatedAt w\<rparr>"

definition recover_one :: "8 word list result \<Rightarrow> int \<Rightarrow> WorkerReservation \<Rightarrow> (PeerDb, WorkerReservation) tx" where
  "recover_one random timestamp scanned =
     (let worker = scanned\<lparr>w_UpdatedAt := max timestamp (w_UpdatedAt scanned)\<rparr> in
      if w_Status worker = WorkerRunning \<and> w_WorkspaceID worker \<noteq> ''''
      then
        tx_bind (tx_query (requireFinalizationWorkspace worker)) (\<lambda>workspace.
        tx_bind (tx_query (\<lambda>s. new_artifact_id random)) (\<lambda>artifactID.
        tx_bind (beginWorkerFinalization worker workspace artifactID WorkerInterrupted workerRunningTurnInterruptedFailure timestamp)
          (\<lambda>finalization. tx_ret (fin_Worker finalization))))
      else
        tx_bind nextWorkerRevision (\<lambda>revision.
        tx_bind (tx_query (\<lambda>s. recovered_worker (worker\<lparr>w_Revision := revision\<rparr>))) (\<lambda>w.
        tx_bind (update_workers ''recover interrupted worker'' (\<lambda>row. w_Key row = w_Key w) (write_recovered w)) (\<lambda>_.
        tx_ret w))))"

text \<open>The loop over the rows read before it, the n-th of which draws the n-th random bytes.\<close>

fun recover_loop :: "(nat \<Rightarrow> 8 word list result) \<Rightarrow> int \<Rightarrow> nat \<Rightarrow> WorkerReservation list \<Rightarrow> (PeerDb, WorkerReservation list) tx" where
  "recover_loop random timestamp n [] = tx_ret []"
| "recover_loop random timestamp n (w # ws) =
     tx_bind (recover_one (random n) timestamp w) (\<lambda>x.
     tx_bind (recover_loop random timestamp (Suc n) ws) (\<lambda>xs. tx_ret (x # xs)))"

definition RecoverWorkers ::
    "string \<Rightarrow> string \<Rightarrow> (nat \<Rightarrow> 8 word list result) \<Rightarrow> int \<Rightarrow> PeerDb \<Rightarrow> WorkerReservation list result \<times> PeerDb" where
  "RecoverWorkers controllerID deviceID random observedAt =
     guard_tx (first_err
         [wrap ''controllerId'' (ValidateID controllerID), wrap ''deviceId'' (ValidateID deviceID), unixTime observedAt ''observedAt''])
       (tx_bind (tx_query (interrupted_workers controllerID deviceID)) (\<lambda>workers.
        recover_loop random observedAt 0 workers))"

end
