(* ===== verification/Spec2Isabelle.thy ===== *)
theory Spec2Isabelle
  imports Broker_Kept Lifecycle_Props Result_Props PeerArtifact
begin

text \<open>
  A verification of the stores and protocol checks of \<^verbatim>\<open>delegation\<close>, a system in which a broker lets
  the agents of a controller start and steer agents on other machines, its peers. All paths below are
  under \<^verbatim>\<open>src/internal\<close>.

  \<^bold>\<open>The program.\<close> The broker keeps one SQLite database: devices with the credentials they enrol with, trees
  of agents with a principal per agent, mailboxes, workspace syncs, spawns, operations and the
  lifecycles peers report. Every request is checked by a validator of the protocol and then runs in one
  immediate transaction. A peer keeps a database of its own: worker slots, turn-start intents, operation
  receipts, the outbox of result packages and the changes artifacts of finished turns. Concurrent
  requests interleave at transactions, so a run of the program is a sequence of transactions, and that is
  what the step relations here have as runs.

  \<^bold>\<open>Conventions.\<close> A Go string is a \<^typ>\<open>string\<close> of bytes, an error a value that is a sentinel, a message or a
  wrapped error, a fallible function a sum with the error on the left, a validator the first error of a
  list of checks. A table is a list of rows; a query selects the first row, an update rewrites the rows
  its condition hits, an insert fails when a constraint of the schema would. A transaction is a function of
  the state that commits everything or nothing. \<^verbatim>\<open>int64\<close> and \<^verbatim>\<open>uint64\<close> are integers with the conversions written
  out where the code converts; hashing and random identifiers work on 8-bit and 32-bit words.

  \<^bold>\<open>Foundations.\<close>
  \<^item> \<open>Prelude\<close>: errors, checks, tables, transactions, what a transaction leaves alone.
  \<^item> \<open>GoText\<close>, \<open>GoPath\<close>, \<open>GoJson\<close>, \<open>GoJsonValue\<close>, \<open>GoDigest\<close>: what the code uses of Go's standard library, UTF-8
    and text checks, lexical paths, the JSON scanner, decoder and encoder, SHA-256.
  \<^item> \<open>Contracts\<close>: three locales, a durable counter (\<open>sequence\<close>), idempotent receipts (\<open>receipts\<close>) and results set
    once (\<open>terminal\<close>). They are interpreted on the registry revision, the lifecycle sequence, spawns,
    syncs and operations.

  \<^bold>\<open>Messages.\<close>
  \<^item> \<open>Identity\<close> (\<^verbatim>\<open>identity\<close>, \<^verbatim>\<open>instanceid\<close>, \<^verbatim>\<open>hostkind\<close>), \<open>Control\<close> (\<^verbatim>\<open>control/model.go\<close>), \<open>Readiness\<close>, \<open>Protocol\<close>,
    \<open>AgentProtocol\<close>, \<open>WorkspaceProtocol\<close>, \<open>ResultProtocol\<close> (\<^verbatim>\<open>protocol\<close>): the records and their validators, the
    manifest hashes and the canonical text of a result manifest. \<open>Result_Props\<close> shows that text and strict decoder
    are inverse to each other; identifiers are shown to be well typed below.

  \<^bold>\<open>The broker's store\<close> (\<^verbatim>\<open>store\<close>). \<open>BrokerDb\<close> has the tables of \<^verbatim>\<open>schema.go\<close>. A component has its operations in a
    theory of its name, its invariant and the preservation lemmas in \<open>_Inv\<close> and \<open>_Steps\<close>, and its properties in \<open>_Props\<close>:
  \<^item> \<open>Registry\<close> (\<^verbatim>\<open>device.go\<close>, \<^verbatim>\<open>device_read.go\<close>, \<^verbatim>\<open>credential.go\<close>, \<^verbatim>\<open>worker_readiness.go\<close>): reachable states,
    registration and lookup, fencing by revision, epochs, expiry, revocation, enrolment published or withdrawn,
    complete pages, newest readiness wins.
  \<^item> \<open>Trees\<close> (\<^verbatim>\<open>tree.go\<close>, \<^verbatim>\<open>principal.go\<close>): idempotent root trees, exact authorization.
  \<^item> \<open>Mailbox\<close> (\<^verbatim>\<open>mailbox.go\<close>): sends succeed and are retried safely, reads deliver everything in order, routing.
  \<^item> \<open>Workspace\<close> (\<^verbatim>\<open>workspace.go\<close>): idempotence, forward receipts, what a finished sync was pinned to, bounds.
  \<^item> \<open>Spawn\<close> (\<^verbatim>\<open>agent_spawn.go\<close>, the counters of \<^verbatim>\<open>status.go\<close>): admission, idempotence, final results, one spawn per
    workspace, complete pages.
  \<^item> \<open>Operation\<close> (\<^verbatim>\<open>agent_operation.go\<close>): queueing a message is atomic and happens once.
  \<^item> \<open>Lifecycle\<close> (\<^verbatim>\<open>agent_lifecycle.go\<close>): sessions and pages refine a small abstract store, newer sessions fence
    older ones, the activity feed misses no agent's latest event.
  \<^item> \<open>Broker\<close> puts the components together as one step relation with one invariant and the order of its
    receipts; \<open>Broker_Kept\<close> has what every table keeps and which operation may drop which row.

  \<^bold>\<open>The peer's store\<close> (\<^verbatim>\<open>store\<close>). \<open>Peer\<close> and \<open>PeerDb\<close> (\<^verbatim>\<open>peer_schema.go\<close>), \<open>PeerWorker\<close> (\<^verbatim>\<open>worker_reservation.go\<close>,
    \<^verbatim>\<open>prepared_workspace.go\<close>, \<^verbatim>\<open>worker_operation.go\<close>, \<^verbatim>\<open>peer_worker_readiness.go\<close>), \<open>PeerTurn\<close>
    (\<^verbatim>\<open>worker_turn_intent.go\<close>, \<^verbatim>\<open>peer_result_outbox.go\<close>), \<open>PeerFinal\<close> (\<^verbatim>\<open>worker_result_finalization.go\<close>,
    \<^verbatim>\<open>peer_result_package.go\<close>), \<open>PeerArtifact\<close> (\<^verbatim>\<open>peer_changes_artifact*.go\<close>, \<^verbatim>\<open>worker_recovery.go\<close>) model its
    tables and transactions.

  \<^bold>\<open>Bounds and fuel.\<close> Loops over data are structural recursion. The JSON parser spends a unit of fuel per call
  and gets twice the length of the text and one, which \<open>json_fuel_enough\<close> shows to be enough. Clients that
  follow cursors are modelled with fuel (\<open>collect_pages\<close>, \<open>drain\<close>) or as partial functions (\<open>agent_pages\<close>,
  \<open>activity_feed\<close>), and the properties on them state that they end: with more fuel than there are rows, or
  with a result. The limits of the code, such as 1024 pending messages or 256 agents, are its constants.

  \<^bold>\<open>Not modelled.\<close> The broker's relay of result packages, apply receipts, their garbage collection and its copy
  of artifacts (\<^verbatim>\<open>result_package.go\<close>, \<^verbatim>\<open>result_apply.go\<close>, \<^verbatim>\<open>result_package_gc.go\<close>, \<^verbatim>\<open>changes_artifact.go\<close>): so the steps
  of \<open>Broker\<close> are the other transactions of the broker. The peer's inbox, upgrade and rollback records, opening
  and migrating database files, and the aggregate status snapshot. Websocket sessions, goroutines, processes,
  Git, files, services and configuration, which are effects outside the stores; what they exchange with the
  stores is an argument of a transaction. The MAC of a token, the clock and random bytes are arguments as well.
\<close>

unbundle bit_operations_syntax

section \<open>Identifiers\<close>

lemma version_nibble: "unat ((b AND 0x0f) OR 0x40 :: 8 word) div 16 = 4"
proof -
  have "drop_bit 4 ((b AND 0x0f) OR 0x40 :: 8 word) = 4" by (simp add: drop_bit_or drop_bit_and)
  then have "unat (drop_bit 4 ((b AND 0x0f) OR 0x40 :: 8 word)) = 4" by simp
  then show ?thesis unfolding unat_drop_bit_eq by (simp only: drop_bit_eq_div) simp
qed

lemma variant_nibble: "unat ((b AND 0x3f) OR 0x80 :: 8 word) div 16 \<in> {8, 9, 10, 11}"
proof -
  define y where "y = drop_bit 4 b AND (3 :: 8 word)"
  have "y = take_bit 2 (drop_bit 4 b)" by (simp add: y_def take_bit_eq_mask mask_eq_exp_minus_1)
  then have "unat y < 4" using take_bit_nat_less_exp [of 2 "unat (drop_bit 4 b)"] by (simp add: unsigned_take_bit_eq)
  then have "unat y \<in> {0, 1, 2, 3}" by auto
  moreover have "(word_of_nat n :: 8 word) \<in> {0, 1, 2, 3}" if "n \<in> {0, 1, 2, 3}" for n using that by auto
  ultimately have "word_of_nat (unat y) \<in> {0, 1, 2, 3 :: 8 word}" by blast
  then have "y \<in> {0, 1, 2, 3}" by simp
  moreover have "drop_bit 4 ((b AND 0x3f) OR 0x80 :: 8 word) = y OR 8" by (simp add: y_def drop_bit_or drop_bit_and)
  ultimately have "unat (drop_bit 4 ((b AND 0x3f) OR 0x80 :: 8 word)) \<in> {8, 9, 10, 11}" by auto
  then show ?thesis unfolding unat_drop_bit_eq by (simp only: drop_bit_eq_div) simp
qed

lemma hex_encode_nth: "k < length bs \<Longrightarrow> hex_encode bs ! (2 * k) = hex_alphabet ! (unat (bs ! k) div 16)"
proof (induction bs arbitrary: k)
  case (Cons b bs)
  then show ?case by (cases k) (simp_all add: hex_encode_def)
qed simp

text \<open>
  C33. Identifiers are well typed. Whatever sixteen bytes the random source gives, the identifier made of
  them passes the identifier check and carries the version and the variant of a random identifier, and a
  request identifier made of it passes the envelope's check, for every known direction.
\<close>

theorem identifiers_well_typed:
  assumes "length bytes = 16"
  shows "\<exists>i. NewID (Inr bytes) = Inr i \<and> ValidateID i = None \<and> i ! 14 = CHR ''4'' \<and> i ! 19 \<in> set ''89ab''
     \<and> (\<forall>direction \<in> {DirectionBroker, DirectionConnector, DirectionLocal}.
          \<exists>v. NewRequestID (Inr bytes) direction = Inr v \<and> validateRequestID v = None \<and> drop 2 v = i)"
proof -
  obtain i where i: "NewID (Inr bytes) = Inr i" by (simp add: NewID_def Let_def)
  define value1 where "value1 = bytes[6 := (bytes ! 6 AND 0x0f) OR 0x40]"
  define value2 where "value2 = value1[8 := (value1 ! 8 AND 0x3f) OR 0x80]"
  have len: "length (hex_encode value2) = 32" "length value2 = 16" using assms by (simp_all add: value1_def value2_def)
  let ?e = "hex_encode value2"
  have form: "i = take 8 ?e @ ''-'' @ take 4 (drop 8 ?e) @ ''-'' @ take 4 (drop 12 ?e)
      @ ''-'' @ take 4 (drop 16 ?e) @ ''-'' @ take 12 (drop 20 ?e)"
    using i by (simp add: NewID_def Let_def value1_def value2_def)
  have "i ! 14 = ?e ! 12" "i ! 19 = ?e ! 16" using len(1) by (simp_all add: form nth_append)
  moreover have "?e ! 12 = CHR ''4''"
    using hex_encode_nth [of 6 value2] len(2) assms by (simp add: value1_def value2_def version_nibble hex_alphabet_def)
  moreover have "?e ! 16 \<in> set ''89ab''"
    using hex_encode_nth [of 8 value2] len(2) assms variant_nibble [of "value1 ! 8"]
    by (auto simp: value1_def value2_def hex_alphabet_def)
  moreover have "\<exists>v. NewRequestID (Inr bytes) direction = Inr v \<and> validateRequestID v = None \<and> drop 2 v = i"
    if "direction \<in> {DirectionBroker, DirectionConnector, DirectionLocal}" for direction
  proof -
    have "NewRequestID (Inr bytes) direction = Inr (direction_string direction @ ''_'' @ i)" "length (direction_string direction) = 1"
      using that i by (auto simp: NewRequestID_def)
    then show ?thesis using NewRequestID_validates [OF assms] by simp
  qed
  ultimately show ?thesis using i NewID_ValidateID [OF assms i] by (intro exI [of _ i]) simp
qed

theorem identifiers_well_typed_witness:
  "\<exists>i. NewID (Inr (replicate 16 255)) = Inr i \<and> ValidateID i = None \<and> i ! 14 = CHR ''4''"
  using identifiers_well_typed [of "replicate 16 255"] by auto

section \<open>Every reachable broker state\<close>

text \<open>
  C1. A broker that starts with an empty database and runs any sequence of the modelled store operations,
  failing ones included, in any order, is always in a consistent state: every table satisfies its
  invariant, and what holds between the tables holds. From any reachable state on:

  \<^item> devices, principals, sync, spawn and operation receipts stay, a terminal outcome does not change, no
    registry revision and no agent's lifecycle goes back;
  \<^item> a credential that is not pending stays with its token, and once revoked stays revoked; the host kind,
    once bound, stays; trees stay and their sequences do not go back; readiness is only replaced by a later
    one; a device's lifecycle cursor and every lifetime counter do not go back;
  \<^item> mailboxes stay and their high-water marks do not go back, no number of a mailbox is used twice, and
    messages leave a mailbox oldest first.

  What a step drops is exactly this: a credential only while it is pending and by withdrawing that token, a
  message only by a read of its recipient whose cursor has reached it, and a mailbox receipt only when its
  message is no longer pending.
\<close>

theorem broker_reachable:
  assumes "broker_step\<^sup>*\<^sup>* schemaCurrent s" "broker_step\<^sup>*\<^sup>* s s'"
  shows "broker_inv s \<and> broker_inv s' \<and> broker_le s s' \<and> tables_le s s'
    \<and> (\<forall>t. broker_step s' t \<longrightarrow> drops_justified s' t)"
proof -
  have s: "broker_inv s" using broker_steps_ok [OF assms(1) broker_inv_empty] by (simp add: broker_ok_def)
  have s': "broker_inv s'" "broker_le s s'" using broker_steps_ok [OF assms(2) s] by (simp_all add: broker_ok_def)
  show ?thesis using s s' broker_steps_tables [OF assms(2) s] broker_step_tables [OF _ s'(1)] by blast
qed

theorem broker_reachable_witness:
  "\<exists>t. t = snd (MarkDeviceOffline (uid CHR ''a'') (uid CHR ''d'') 1 9 one_peer)
     \<and> broker_inv one_peer \<and> broker_le one_peer t \<and> tables_le one_peer t \<and> drops_justified one_peer t
     \<and> length (devices one_peer) = 1"
proof -
  let ?t = "snd (MarkDeviceOffline (uid CHR ''a'') (uid CHR ''d'') 1 9 one_peer)"
  have "broker_step\<^sup>*\<^sup>* schemaCurrent one_peer"
    using one_peer_step mono_rtranclp [of registry_step broker_step] broker_step.registry by blast
  moreover have "broker_step one_peer ?t"
    unfolding MarkDeviceOffline_def by (rule broker_step.registry, rule presence)
  ultimately show ?thesis
    using broker_reachable [of one_peer ?t] broker_reachable [of one_peer one_peer] one_peer_devices by auto
qed

text \<open>
  C32. The lifetime counters are exact. In every state the broker's operations lead to, a controller's count
  of dispatches is the number of its spawns that started, and its count of turns is that number and the
  number of its follow-ups that started, however often requests were retried.
\<close>

theorem lifetime_counters_exact:
  assumes "broker_inv s0" "broker_step\<^sup>*\<^sup>* s0 s"
  shows "counter_value cnt_dispatches_started c (controller_lifetime_counters s) = started_dispatches c s
    \<and> counter_value cnt_turns_started c (controller_lifetime_counters s) = started_dispatches c s + started_followups c s"
  using broker_steps_ok [OF assms(2,1)] broker_invD(4) by (auto simp: broker_ok_def counters_inv_def)

theorem lifetime_counters_exact_witness:
  "counter_value cnt_dispatches_started (uid CHR ''a'') (controller_lifetime_counters started) = 1
   \<and> counter_value cnt_turns_started (uid CHR ''a'') (controller_lifetime_counters started) = 1"
proof -
  have "broker_step rooted spawned" using broker_step.begin_spawn [of rooted demo_spawn 7] spawned_run by (simp add: spawned_def)
  moreover have "broker_step spawned started"
    using broker_step.finish_spawn [of spawned demo_spawn_key AgentSpawnStarted "''''" 8] started_run by simp
  ultimately have "broker_step\<^sup>*\<^sup>* rooted started" by (meson rtranclp.simps)
  from lifetime_counters_exact [OF rooted_broker this, of "uid CHR ''a''"] show ?thesis
    by (simp add: started_dispatches_def started_followups_def started_rows started_tables finish_spawn_row_def new_spawn_row_def)
qed

end
